(* ===== verification/Prelude.thy ===== *)
theory Prelude
  imports Main "HOL-Library.Word" "HOL-Library.List_Lexorder"
begin

text \<open>
  The vocabulary every component theory shares: results (\<open>Result<T, E>\<close> as a sum), the loops
  over \<open>Result\<close> that Rust's iterators run (\<open>try_for_each\<close>, \<open>collect::<Result<Vec<_>, _>>\<close>),
  \<open>HashSet::insert\<close> as used for duplicate detection, machine integers with the saturating
  operations the source calls, and Rust text.

  \<^bold>\<open>Text.\<close> A Rust \<open>String\<close>/\<open>&str\<close> is a list of Unicode scalar values, each a natural number.
  \<open>len()\<close> counts UTF-8 bytes (\<open>str_len\<close>). The derived \<open>Ord\<close> of strings compares UTF-8 bytes,
  which for UTF-8 is the lexicographic order of scalar values, the list order used here.
  \<open>char::is_whitespace\<close> is the White_Space property, written out. The case and alphanumeric tables
  of the standard library are ASCII-exact here and taken from a \<open>unicode\<close> record, the generated
  Unicode tables, outside ASCII.
\<close>

section \<open>Proof collections\<close>

named_theorems result_simps \<open>rewriting of the Result combinators\<close>
named_theorems text_simps \<open>lengths and trimming of text\<close>

section \<open>Results\<close>

abbreviation Ok :: "'a \<Rightarrow> 'e + 'a" where
  "Ok \<equiv> Inr"

abbreviation Err :: "'e \<Rightarrow> 'e + 'a" where
  "Err \<equiv> Inl"

fun rbind :: "'e + 'a \<Rightarrow> ('a \<Rightarrow> 'e + 'b) \<Rightarrow> 'e + 'b" where
  "rbind (Inl e) f = Inl e"
| "rbind (Inr x) f = f x"

fun map_err :: "('e \<Rightarrow> 'f) \<Rightarrow> 'e + 'a \<Rightarrow> 'f + 'a" where
  "map_err f (Inl e) = Inl (f e)"
| "map_err f (Inr x) = Inr x"

fun rmap :: "('a \<Rightarrow> 'b) \<Rightarrow> 'e + 'a \<Rightarrow> 'e + 'b" where
  "rmap f (Inl e) = Inl e"
| "rmap f (Inr x) = Inr (f x)"

fun ok_or :: "'e \<Rightarrow> 'a option \<Rightarrow> 'e + 'a" where
  "ok_or e None = Inl e"
| "ok_or e (Some x) = Inr x"

text \<open>\<open>if cond { return Err(e) }\<close>\<close>

definition fail_if :: "bool \<Rightarrow> 'e \<Rightarrow> 'e + unit" where
  "fail_if b e = (if b then Inl e else Inr ())"

text \<open>\<open>Iterator::try_for_each\<close> and a \<open>for\<close> loop whose body may return an error.\<close>

fun try_for_each :: "('a \<Rightarrow> 'e + unit) \<Rightarrow> 'a list \<Rightarrow> 'e + unit" where
  "try_for_each f [] = Inr ()"
| "try_for_each f (x # xs) = rbind (f x) (\<lambda>_. try_for_each f xs)"

text \<open>A \<open>for\<close> loop with a fallible body over an accumulator (\<open>try_fold\<close>).\<close>

fun try_fold :: "('s \<Rightarrow> 'a \<Rightarrow> 'e + 's) \<Rightarrow> 's \<Rightarrow> 'a list \<Rightarrow> 'e + 's" where
  "try_fold f s [] = Inr s"
| "try_fold f s (x # xs) = rbind (f s x) (\<lambda>s'. try_fold f s' xs)"

text \<open>\<open>map(f).collect::<Result<Vec<_>, _>>()\<close>: the first error in iteration order wins.\<close>

fun try_map :: "('a \<Rightarrow> 'e + 'b) \<Rightarrow> 'a list \<Rightarrow> 'e + 'b list" where
  "try_map f [] = Inr []"
| "try_map f (x # xs) = rbind (f x) (\<lambda>y. rbind (try_map f xs) (\<lambda>ys. Inr (y # ys)))"

lemma rbind_eq_Ok [result_simps]: "rbind r f = Inr y \<longleftrightarrow> (\<exists>x. r = Inr x \<and> f x = Inr y)"
  by (cases r) auto

lemma rbind_eq_Err [result_simps]:
  "rbind r f = Inl e \<longleftrightarrow> r = Inl e \<or> (\<exists>x. r = Inr x \<and> f x = Inl e)"
  by (cases r) auto

lemma rmap_eq_Ok [result_simps]: "rmap f r = Inr y \<longleftrightarrow> (\<exists>x. r = Inr x \<and> y = f x)"
  by (cases r) auto

lemma rmap_eq_Err [result_simps]: "rmap f r = Inl e \<longleftrightarrow> r = Inl e"
  by (cases r) auto

lemma map_err_eq_Ok [result_simps]: "map_err f r = Inr y \<longleftrightarrow> r = Inr y"
  by (cases r) auto

lemma map_err_eq_Err [result_simps]: "map_err f r = Inl e \<longleftrightarrow> (\<exists>d. r = Inl d \<and> e = f d)"
  by (cases r) auto

lemma ok_or_eq_Ok [result_simps]: "ok_or e r = Inr y \<longleftrightarrow> r = Some y"
  by (cases r) auto

lemma ok_or_eq_Err [result_simps]: "ok_or e r = Inl d \<longleftrightarrow> r = None \<and> d = e"
  by (cases r) auto

lemma fail_if_eq_Ok [result_simps]: "fail_if b e = Inr u \<longleftrightarrow> \<not> b"
  by (simp add: fail_if_def)

lemma fail_if_eq_Err [result_simps]: "fail_if b e = Inl d \<longleftrightarrow> b \<and> d = e"
  by (auto simp: fail_if_def)

lemma result_not_Err: "(\<And>e. r \<noteq> Inl e) \<Longrightarrow> \<exists>x. r = Inr x"
  by (cases r) auto

lemma try_for_each_Ok_iff [result_simps]:
  "try_for_each f xs = Inr u \<longleftrightarrow> (\<forall>x \<in> set xs. f x = Inr ())"
  by (induction xs) (auto simp: result_simps)

lemma try_map_Ok_iff: "try_map f xs = Inr ys \<longleftrightarrow> list_all2 (\<lambda>x y. f x = Inr y) xs ys"
proof (induction xs arbitrary: ys)
  case Nil
  then show ?case by auto
next
  case (Cons x xs)
  then show ?case by (auto simp: result_simps list_all2_Cons1)
qed

lemma try_map_Ok_length: "try_map f xs = Inr ys \<Longrightarrow> length ys = length xs"
  by (auto simp: try_map_Ok_iff list_all2_lengthD)

lemma try_map_Ok_if: "(\<And>x. x \<in> set xs \<Longrightarrow> f x = Inr (g x)) \<Longrightarrow> try_map f xs = Inr (map g xs)"
  by (induction xs) auto

lemma try_map_Err_mem: "try_map f xs = Inl e \<Longrightarrow> \<exists>x \<in> set xs. f x = Inl e"
  by (induction xs) (auto simp: result_simps)

lemma try_fold_append: "try_fold f s (xs @ ys) = rbind (try_fold f s xs) (\<lambda>s'. try_fold f s' ys)"
proof (induction xs arbitrary: s)
  case Nil
  then show ?case by simp
next
  case (Cons x xs)
  then show ?case by (cases "f s x") simp_all
qed

text \<open>An invariant of the accumulator is an invariant of the loop.\<close>

lemma try_fold_inv:
  assumes "try_fold f s xs = Inr t" and "P s"
    and "\<And>s x s'. x \<in> set xs \<Longrightarrow> P s \<Longrightarrow> f s x = Inr s' \<Longrightarrow> P s'"
  shows "P t"
  using assms
proof (induction xs arbitrary: s)
  case Nil
  then show ?case by simp
next
  case (Cons x xs)
  from Cons.prems(1) obtain s' where s': "f s x = Inr s'" and t: "try_fold f s' xs = Inr t"
    by (auto simp: result_simps)
  have "P s'" using Cons.prems(3) [OF _ Cons.prems(2) s'] by simp
  then show ?case
    by (rule Cons.IH [OF t]) (rule Cons.prems(3), simp_all)
qed

section \<open>Lists\<close>

lemma length_map_filter: "length (List.map_filter f xs) = sum_list (map (\<lambda>x. if f x = None then 0 else 1) xs)"
  by (induction xs) (auto simp: List.map_filter_def)

lemma map_filter_cong:
  "(\<And>x. x \<in> set xs \<Longrightarrow> f x = g x) \<Longrightarrow> List.map_filter f xs = List.map_filter g xs"
  by (induction xs) (simp_all split: option.splits)

lemma set_map_filter: "set (List.map_filter f xs) = {y. \<exists>x \<in> set xs. f x = Some y}"
  by (induction xs) (auto split: option.splits)

section \<open>Machine integers\<close>

type_synonym u8 = "8 word"
type_synonym u16 = "16 word"
type_synonym u32 = "32 word"
type_synonym u64 = "64 word"

text \<open>\<open>usize\<close> is 64 bits wide: a natural number, with the bound written where an operation saturates.\<close>

abbreviation usize_max :: nat where
  "usize_max \<equiv> 18446744073709551615"

definition usize_saturating_add :: "nat \<Rightarrow> nat \<Rightarrow> nat" where
  "usize_saturating_add a b = min (a + b) usize_max"

definition u16_saturating_add :: "u16 \<Rightarrow> u16 \<Rightarrow> u16" where
  "u16_saturating_add a b = (if unat a + unat b < 65536 then a + b else 65535)"

text \<open>\<open>u16::try_from(n).unwrap_or(u16::MAX)\<close>\<close>

definition u16_of_usize :: "nat \<Rightarrow> u16" where
  "u16_of_usize n = (if n < 65536 then of_nat n else 65535)"

lemma unat_u16_less: "unat (x :: u16) < 65536"
  using unsigned_less [where ?'a = nat, of x] by simp

lemma unat_u32_less: "unat (x :: u32) < 4294967296"
  using unsigned_less [where ?'a = nat, of x] by simp

lemma unat_u16_saturating_add: "unat (u16_saturating_add a b) = min (unat a + unat b) 65535"
  by (auto simp: u16_saturating_add_def unat_word_ariths)

lemma unat_u16_of_usize: "unat (u16_of_usize n) = min n 65535"
  by (auto simp: u16_of_usize_def unat_of_nat)

lemma usize_saturating_add_le_iff:
  "m < usize_max \<Longrightarrow> usize_saturating_add a b \<le> m \<longleftrightarrow> a + b \<le> m"
  by (auto simp: usize_saturating_add_def)

lemma usize_saturating_add_mono: "a \<le> usize_max \<Longrightarrow> a \<le> usize_saturating_add a b"
  by (simp add: usize_saturating_add_def)

section \<open>Text\<close>

type_synonym uchar = nat
type_synonym str = "uchar list"

record unicode =
  uni_lower :: "uchar \<Rightarrow> str"
  uni_alphanumeric :: "uchar \<Rightarrow> bool"

text \<open>A string literal of the source.\<close>

definition lit :: "string \<Rightarrow> str" where
  "lit s = map of_char s"

definition utf8_len :: "uchar \<Rightarrow> nat" where
  "utf8_len c = (if c < 128 then 1 else if c < 2048 then 2 else if c < 65536 then 3 else 4)"

definition str_len :: "str \<Rightarrow> nat" where
  "str_len t = sum_list (map utf8_len t)"

definition is_whitespace :: "uchar \<Rightarrow> bool" where
  "is_whitespace c \<longleftrightarrow>
     (9 \<le> c \<and> c \<le> 13) \<or> c = 32 \<or> c = 133 \<or> c = 160 \<or> c = 5760 \<or> (8192 \<le> c \<and> c \<le> 8202)
     \<or> c = 8232 \<or> c = 8233 \<or> c = 8239 \<or> c = 8287 \<or> c = 12288"

definition is_ascii_lowercase :: "uchar \<Rightarrow> bool" where
  "is_ascii_lowercase c \<longleftrightarrow> 97 \<le> c \<and> c \<le> 122"

definition is_ascii_digit :: "uchar \<Rightarrow> bool" where
  "is_ascii_digit c \<longleftrightarrow> 48 \<le> c \<and> c \<le> 57"

definition is_ascii_uppercase :: "uchar \<Rightarrow> bool" where
  "is_ascii_uppercase c \<longleftrightarrow> 65 \<le> c \<and> c \<le> 90"

definition to_lowercase :: "unicode \<Rightarrow> uchar \<Rightarrow> str" where
  "to_lowercase u c =
     (if c < 128 then [if is_ascii_uppercase c then c + 32 else c] else uni_lower u c)"

definition is_alphanumeric :: "unicode \<Rightarrow> uchar \<Rightarrow> bool" where
  "is_alphanumeric u c \<longleftrightarrow>
     (if c < 128 then is_ascii_lowercase c \<or> is_ascii_uppercase c \<or> is_ascii_digit c
      else uni_alphanumeric u c)"

definition trim_start :: "str \<Rightarrow> str" where
  "trim_start t = dropWhile is_whitespace t"

definition trim :: "str \<Rightarrow> str" where
  "trim t = rev (dropWhile is_whitespace (rev (dropWhile is_whitespace t)))"

text \<open>\<open>[T]::join\<close> on strings, and the line feed.\<close>

fun join :: "str \<Rightarrow> str list \<Rightarrow> str" where
  "join sep [] = []"
| "join sep [x] = x"
| "join sep (x # y # xs) = x @ sep @ join sep (y # xs)"

definition newline :: str where
  "newline = [10]"

lemma str_len_Nil [simp]: "str_len [] = 0"
  by (simp add: str_len_def)

lemma str_len_Cons [simp]: "str_len (c # t) = utf8_len c + str_len t"
  by (simp add: str_len_def)

lemma str_len_append [simp]: "str_len (s @ t) = str_len s + str_len t"
  by (simp add: str_len_def)

lemma utf8_len_pos [simp]: "0 < utf8_len c"
  by (simp add: utf8_len_def)

lemma str_len_eq_0_iff [simp]: "str_len t = 0 \<longleftrightarrow> t = []"
  by (cases t) simp_all

lemma length_le_str_len: "length t \<le> str_len t"
proof (induction t)
  case Nil
  then show ?case by simp
next
  case (Cons c t)
  moreover have "1 \<le> utf8_len c" using utf8_len_pos [of c] by linarith
  ultimately show ?case by simp
qed

lemma str_len_dropWhile_le: "str_len (dropWhile P t) \<le> str_len t"
  by (induction t) auto

lemma str_len_rev [simp]: "str_len (rev t) = str_len t"
  by (simp add: str_len_def rev_map [symmetric])

lemma str_len_trim_le [text_simps]: "str_len (trim t) \<le> str_len t"
  using str_len_dropWhile_le [of is_whitespace t]
    str_len_dropWhile_le [of is_whitespace "rev (dropWhile is_whitespace t)"]
  by (simp add: trim_def)

lemma trim_eq_Nil_iff [text_simps]: "trim t = [] \<longleftrightarrow> (\<forall>c \<in> set t. is_whitespace c)"
  by (auto simp: trim_def dropWhile_eq_Nil_conv dest: set_dropWhileD)
    (metis dropWhile_eq_Nil_conv dropWhile_idem hd_dropWhile in_set_conv_decomp_first list.set_sel(1))

section \<open>Decimal rendering of unsigned integers\<close>

fun show_nat :: "nat \<Rightarrow> str" where
  "show_nat n = (if n < 10 then [48 + n] else show_nat (n div 10) @ [48 + n mod 10])"

declare show_nat.simps [simp del]

lemma show_nat_not_Nil [simp]: "show_nat n \<noteq> []"
  by (subst show_nat.simps) simp

lemma show_nat_digits: "c \<in> set (show_nat n) \<Longrightarrow> 48 \<le> c \<and> c \<le> 57"
proof (induction n rule: show_nat.induct)
  case (1 n)
  show ?case
  proof (cases "n < 10")
    case True
    with "1.prems" show ?thesis by (simp add: show_nat.simps [of n])
  next
    case False
    with "1" show ?thesis by (auto simp: show_nat.simps [of n])
  qed
qed

fun read_nat :: "str \<Rightarrow> nat" where
  "read_nat t = foldl (\<lambda>n c. 10 * n + (c - 48)) 0 t"

lemma read_show_nat: "read_nat (show_nat n) = n"
proof (induction n rule: show_nat.induct)
  case (1 n)
  then show ?case
    by (cases "n < 10") (simp_all add: show_nat.simps [of n])
qed

lemma inj_show_nat: "inj show_nat"
  by (rule inj_on_inverseI [where g = read_nat]) (rule read_show_nat)

section \<open>Duplicate detection\<close>

text \<open>
  The loop \<open>for x in xs { if !seen.insert(key(x)) { return Err(dup(x)) } check(x)? }\<close> that the
  source repeats for fact, rumor, role and criterion identifiers.
\<close>

fun distinct_check :: "('a \<Rightarrow> 'k) \<Rightarrow> ('a \<Rightarrow> 'e) \<Rightarrow> ('a \<Rightarrow> 'e + unit) \<Rightarrow> 'k list \<Rightarrow> 'a list \<Rightarrow> 'e + unit" where
  "distinct_check key dup check seen [] = Inr ()"
| "distinct_check key dup check seen (x # xs) =
     (if key x \<in> set seen then Inl (dup x)
      else rbind (check x) (\<lambda>_. distinct_check key dup check (key x # seen) xs))"

lemma distinct_check_Ok_iff [result_simps]:
  "distinct_check key dup check seen xs = Inr u \<longleftrightarrow>
     distinct (map key xs) \<and> key ` set xs \<inter> set seen = {} \<and> (\<forall>x \<in> set xs. check x = Inr ())"
proof (induction xs arbitrary: seen)
  case Nil
  then show ?case by simp
next
  case (Cons x xs)
  then show ?case by (auto simp: result_simps)
qed

text \<open>The same loop when the body produces a value: \<open>map\<close> with a \<open>seen\<close> set, then \<open>collect\<close>.\<close>

fun distinct_map :: "('a \<Rightarrow> 'k) \<Rightarrow> ('a \<Rightarrow> 'e) \<Rightarrow> ('a \<Rightarrow> 'e + 'b) \<Rightarrow> 'k list \<Rightarrow> 'a list \<Rightarrow> 'e + 'b list" where
  "distinct_map key dup f seen [] = Inr []"
| "distinct_map key dup f seen (x # xs) =
     (if key x \<in> set seen then Inl (dup x)
      else rbind (f x) (\<lambda>y. rbind (distinct_map key dup f (key x # seen) xs) (\<lambda>ys. Inr (y # ys))))"

lemma distinct_map_Ok_iff [result_simps]:
  "distinct_map key dup f seen xs = Inr ys \<longleftrightarrow>
     distinct (map key xs) \<and> key ` set xs \<inter> set seen = {} \<and> list_all2 (\<lambda>x y. f x = Inr y) xs ys"
proof (induction xs arbitrary: seen ys)
  case Nil
  then show ?case by auto
next
  case (Cons x xs)
  then show ?case by (auto simp: result_simps list_all2_Cons1)
qed

lemma distinct_check_Err:
  "distinct_check key dup f seen xs = Err e \<Longrightarrow> \<exists>x \<in> set xs. e = dup x \<or> f x = Err e"
  by (induction xs arbitrary: seen) (auto simp: result_simps split: if_splits)

lemma distinct_map_Err:
  "distinct_map key dup f seen xs = Inl e \<Longrightarrow> \<exists>x \<in> set xs. e = dup x \<or> f x = Inl e"
  by (induction xs arbitrary: seen) (auto simp: result_simps split: if_splits)

lemma try_fold_Err: "try_fold f s xs = Inl e \<Longrightarrow> \<exists>s x. f s x = Inl e"
  by (induction xs arbitrary: s) (auto simp: result_simps)

end
