(* ===== verification/Turn_Contract.thy ===== *)
theory Turn_Contract
  imports Prelude
begin

text \<open>
  The turn contract of the crate \<open>aise\<close>, the engine that the current one replaces and that the
  workspace still builds: stages, phases, failures, the request and its idempotency key, and the records of
  the model calls (\<open>turn/turn_pipeline.rs\<close>, \<open>turn/turn_error.rs\<close>, \<open>turn/turn_contract.rs\<close>,
  \<open>turn/turn_event.rs\<close>, \<open>llm/error.rs\<close>).

  A \<open>u64\<close> token count is a natural number, with the bound written where an operation saturates; a \<open>u32\<close>
  counter is a word. \<open>SHA-256\<close> and the random call ids are arguments.
\<close>

section \<open>Saturating arithmetic\<close>

abbreviation u64_max :: nat where
  "u64_max \<equiv> 18446744073709551615"

definition u64_sat_add :: "nat \<Rightarrow> nat \<Rightarrow> nat" where
  "u64_sat_add a b = min (a + b) u64_max"

definition u32_saturating_add :: "u32 \<Rightarrow> u32 \<Rightarrow> u32" where
  "u32_saturating_add a b = (if unat a + unat b < 4294967296 then a + b else 4294967295)"

lemma u64_sat_add_le_iff: "m < u64_max \<Longrightarrow> u64_sat_add a b \<le> m \<longleftrightarrow> a + b \<le> m"
  by (auto simp: u64_sat_add_def)

lemma u64_sat_add_exact: "u64_sat_add a b \<le> m \<Longrightarrow> m < u64_max \<Longrightarrow> u64_sat_add a b = a + b"
  by (auto simp: u64_sat_add_def)

lemma unat_u32_saturating_add: "unat (u32_saturating_add a b) = min (unat a + unat b) 4294967295"
  by (auto simp: u32_saturating_add_def unat_word_ariths)

text \<open>The estimate of \<open>domain/text/token_estimator.rs\<close>: a token for every four characters, at least one.\<close>

definition estimate_text_tokens :: "str \<Rightarrow> nat" where
  "estimate_text_tokens t = max (u64_sat_add (length t) 3 div 4) 1"

section \<open>Stages and phases\<close>

datatype TurnStage = StTurnInitializer | StBaselineBuilder | StWriterPlanner | StContext | StContextRetrieval
  | StCharacterThink | StStoryGenerator | StStoryStateExtractor | StValidation | StStoryRepairer | StTurnCommitter

fun TurnStage_as_str :: "TurnStage \<Rightarrow> string" where
  "TurnStage_as_str StTurnInitializer = ''turn_initializer''"
| "TurnStage_as_str StBaselineBuilder = ''baseline_ctx_builder''"
| "TurnStage_as_str StWriterPlanner = ''writer_planner''"
| "TurnStage_as_str StContext = ''context''"
| "TurnStage_as_str StContextRetrieval = ''context_retrieval''"
| "TurnStage_as_str StCharacterThink = ''character_think''"
| "TurnStage_as_str StStoryGenerator = ''story_generator''"
| "TurnStage_as_str StStoryStateExtractor = ''story_state_extractor''"
| "TurnStage_as_str StValidation = ''validation''"
| "TurnStage_as_str StStoryRepairer = ''story_repairer''"
| "TurnStage_as_str StTurnCommitter = ''turn_committer''"

datatype TurnPhase = PhCreated | PhInitialized | PhPrepared | PhPlanned | PhContextReady | PhStoryReady
  | PhCandidateReady | PhStoryRepairRequired | PhStateReextractionRequired | PhReadyToCommit | PhCommitted
  | PhFailed | PhCancelled | PhConflict

definition TurnPhase_is_terminal :: "TurnPhase \<Rightarrow> bool" where
  "TurnPhase_is_terminal phase = (phase \<in> {PhCommitted, PhFailed, PhCancelled, PhConflict})"

fun TurnPhase_debug :: "TurnPhase \<Rightarrow> string" where
  "TurnPhase_debug PhCreated = ''Created''"
| "TurnPhase_debug PhInitialized = ''Initialized''"
| "TurnPhase_debug PhPrepared = ''Prepared''"
| "TurnPhase_debug PhPlanned = ''Planned''"
| "TurnPhase_debug PhContextReady = ''ContextReady''"
| "TurnPhase_debug PhStoryReady = ''StoryReady''"
| "TurnPhase_debug PhCandidateReady = ''CandidateReady''"
| "TurnPhase_debug PhStoryRepairRequired = ''StoryRepairRequired''"
| "TurnPhase_debug PhStateReextractionRequired = ''StateReextractionRequired''"
| "TurnPhase_debug PhReadyToCommit = ''ReadyToCommit''"
| "TurnPhase_debug PhCommitted = ''Committed''"
| "TurnPhase_debug PhFailed = ''Failed''"
| "TurnPhase_debug PhCancelled = ''Cancelled''"
| "TurnPhase_debug PhConflict = ''Conflict''"

section \<open>Failures\<close>

datatype TurnFailureKind = FkInvalidRequest | FkStoryNotFound | FkCancelled | FkDeadlineExceeded
  | FkRevisionConflict | FkIdempotencyConflict | FkBackpressure | FkValidationRejected
  | FkValidationBudgetExhausted | FkTokenBudgetExceeded | FkLlm | FkStore | FkIo | FkInvariantViolation

datatype TurnTerminalKind = TkFailed | TkCancelled | TkConflict

record TurnExecutionError =
  tee_kind :: TurnFailureKind
  tee_code :: string
  tee_stage :: "TurnStage option"
  tee_message :: str

definition turn_error :: "TurnFailureKind \<Rightarrow> string \<Rightarrow> TurnStage option \<Rightarrow> str \<Rightarrow> TurnExecutionError" where
  "turn_error kind code stage message =
     \<lparr>tee_kind = kind, tee_code = code, tee_stage = stage, tee_message = message\<rparr>"

definition terminal_kind :: "TurnExecutionError \<Rightarrow> TurnTerminalKind" where
  "terminal_kind e =
     (case tee_kind e of
        FkCancelled \<Rightarrow> TkCancelled
      | FkRevisionConflict \<Rightarrow> TkConflict
      | FkIdempotencyConflict \<Rightarrow> TkConflict
      | _ \<Rightarrow> TkFailed)"

definition turn_cancelled :: "TurnStage option \<Rightarrow> TurnExecutionError" where
  "turn_cancelled stage = turn_error FkCancelled ''cancelled'' stage (lit ''turn cancelled'')"

definition deadline_exceeded :: "TurnStage option \<Rightarrow> TurnExecutionError" where
  "deadline_exceeded stage = turn_error FkDeadlineExceeded ''deadline_exceeded'' stage (lit ''turn deadline exceeded'')"

definition revision_conflict :: "TurnStage option \<Rightarrow> TurnExecutionError" where
  "revision_conflict stage = turn_error FkRevisionConflict ''revision_conflict'' stage (lit ''revision conflict'')"

definition idempotency_conflict :: "TurnStage option \<Rightarrow> TurnExecutionError" where
  "idempotency_conflict stage =
     turn_error FkIdempotencyConflict ''idempotency_conflict'' stage (lit ''idempotency conflict'')"

definition validation_rejected :: "str \<Rightarrow> TurnExecutionError" where
  "validation_rejected detail = turn_error FkValidationRejected ''validation_rejected'' (Some StValidation) detail"

definition invalid_request :: "str \<Rightarrow> TurnExecutionError" where
  "invalid_request message = turn_error FkInvalidRequest ''invalid_request'' None message"

definition story_repair_no_progress :: "TurnStage option \<Rightarrow> TurnExecutionError" where
  "story_repair_no_progress stage =
     turn_error FkValidationRejected ''story_repair_no_progress'' stage
       (lit ''story repair produced byte-identical prose with unresolved issues'')"

definition state_reextraction_no_progress :: "TurnStage option \<Rightarrow> TurnExecutionError" where
  "state_reextraction_no_progress stage =
     turn_error FkValidationRejected ''state_reextraction_no_progress'' stage
       (lit ''state re-extraction produced byte-identical output with unresolved issues'')"

definition turn_invariant :: "str \<Rightarrow> TurnExecutionError" where
  "turn_invariant message = turn_error FkInvariantViolation ''invariant_violation'' None message"

definition TurnExecutionError_display :: "TurnExecutionError \<Rightarrow> str" where
  "TurnExecutionError_display e = tee_message e @ lit '' ('' @ lit (tee_code e) @ lit '')''"

section \<open>Requests\<close>

definition MAX_PLAYER_CONTRIBUTION_CHARS :: nat where
  "MAX_PLAYER_CONTRIBUTION_CHARS = 4096"

definition MAX_IDEMPOTENCY_KEY_CHARS :: nat where
  "MAX_IDEMPOTENCY_KEY_CHARS = 128"

datatype TurnRequestError = EmptyIdempotencyKey | IdempotencyKeyTooLong nat nat
  | EmptyPlayerContribution | PlayerContributionTooLong nat nat

fun TurnRequestError_display :: "TurnRequestError \<Rightarrow> str" where
  "TurnRequestError_display EmptyIdempotencyKey = lit ''idempotency key must not be empty''"
| "TurnRequestError_display (IdempotencyKeyTooLong actual maximum) =
     lit ''idempotency key is '' @ show_nat actual @ lit '' chars, maximum '' @ show_nat maximum"
| "TurnRequestError_display EmptyPlayerContribution = lit ''player contribution must not be empty''"
| "TurnRequestError_display (PlayerContributionTooLong actual maximum) =
     lit ''player contribution is '' @ show_nat actual @ lit '' chars, maximum '' @ show_nat maximum"

definition IdempotencyKey_try_new :: "str \<Rightarrow> TurnRequestError + str" where
  "IdempotencyKey_try_new v =
     (if trim v = [] then Inl EmptyIdempotencyKey
      else if length v > MAX_IDEMPOTENCY_KEY_CHARS
      then Inl (IdempotencyKeyTooLong (length v) MAX_IDEMPOTENCY_KEY_CHARS)
      else Inr v)"

record TurnRequest_aise =
  trq_player_contribution :: str
  trq_request_digest :: str

definition TurnRequest_try_new :: "(str \<Rightarrow> str) \<Rightarrow> str \<Rightarrow> TurnRequestError + TurnRequest_aise" where
  "TurnRequest_try_new sha256 player_contribution =
     (let normalized = trim player_contribution;
          char_count = length normalized
      in if char_count = 0 then Inl EmptyPlayerContribution
         else if char_count > MAX_PLAYER_CONTRIBUTION_CHARS
         then Inl (PlayerContributionTooLong char_count MAX_PLAYER_CONTRIBUTION_CHARS)
         else Inr \<lparr>trq_player_contribution = normalized, trq_request_digest = sha256 normalized\<rparr>)"

section \<open>Model calls\<close>

datatype UsageAccuracy = Exact | Estimated

datatype FinishReason = FrStop | FrLength | FrContentFilter | FrToolCalls | FrOther str

fun FinishReason_as_str :: "FinishReason \<Rightarrow> string" where
  "FinishReason_as_str FrStop = ''stop''"
| "FinishReason_as_str FrLength = ''length''"
| "FinishReason_as_str FrContentFilter = ''content_filter''"
| "FinishReason_as_str FrToolCalls = ''tool_calls''"
| "FinishReason_as_str (FrOther s) = ''other''"

record LlmCharge =
  chg_provider :: str
  chg_model :: str
  chg_input_tokens :: nat
  chg_cached_input_tokens :: nat
  chg_output_tokens :: nat
  chg_amount_minor :: int
  chg_price_version :: str

record LlmTokenUsage_aise =
  tu_input_tokens :: nat
  tu_cached_input_tokens :: "nat option"
  tu_output_tokens :: nat
  tu_reasoning_tokens :: "nat option"
  tu_total_tokens :: nat
  tu_accuracy :: UsageAccuracy

type_synonym LlmCallId = str

datatype LlmCallPurpose = PpWriterPlan | PpContextRetrieval | PpCharacterThink | PpStoryGeneration
  | PpStoryStateExtraction | PpStoryRepair | PpEmbedding

record LlmCallUsage =
  cu_call_id :: LlmCallId
  cu_purpose :: LlmCallPurpose
  cu_provider :: str
  cu_model :: str
  cu_input_tokens :: nat
  cu_cached_input_tokens :: "nat option"
  cu_output_tokens :: nat
  cu_total_tokens :: nat
  cu_accuracy :: UsageAccuracy
  cu_pricing_version :: "str option"
  cu_charge :: "LlmCharge option"
  cu_finish_reason :: "FinishReason option"

record LlmUsageAggregate =
  ua_llm_calls :: u32
  ua_input_tokens :: nat
  ua_output_tokens :: nat
  ua_total_tokens :: nat

definition LlmUsageAggregate_default :: LlmUsageAggregate where
  "LlmUsageAggregate_default = \<lparr>ua_llm_calls = 0, ua_input_tokens = 0, ua_output_tokens = 0, ua_total_tokens = 0\<rparr>"

record LlmUsageLedger =
  ul_calls :: "LlmCallUsage list"
  ul_aggregate :: LlmUsageAggregate

definition LlmUsageLedger_new :: LlmUsageLedger where
  "LlmUsageLedger_new = \<lparr>ul_calls = [], ul_aggregate = LlmUsageAggregate_default\<rparr>"

definition LlmUsageLedger_push :: "LlmUsageLedger \<Rightarrow> LlmCallUsage \<Rightarrow> LlmUsageLedger" where
  "LlmUsageLedger_push ledger usage =
     (let aggregate = ul_aggregate ledger
      in ledger\<lparr>ul_aggregate :=
             \<lparr>ua_llm_calls = u32_saturating_add (ua_llm_calls aggregate) 1,
              ua_input_tokens = u64_sat_add (ua_input_tokens aggregate) (cu_input_tokens usage),
              ua_output_tokens = u64_sat_add (ua_output_tokens aggregate) (cu_output_tokens usage),
              ua_total_tokens = u64_sat_add (ua_total_tokens aggregate) (cu_total_tokens usage)\<rparr>,
           ul_calls := ul_calls ledger @ [usage]\<rparr>)"

record LlmBudgetReservation =
  res_call_id :: LlmCallId
  res_input_tokens :: nat
  res_output_tokens :: nat

record CommittedTurnResult =
  ctr_turn_number :: nat
  ctr_story_revision :: nat
  ctr_story_text :: str
  ctr_llm_usage :: LlmUsageAggregate
  ctr_llm_calls :: "LlmCallUsage list"

text \<open>The ledger's totals are the sums over its calls, capped at the width of the fields.\<close>

lemma sat_fold: "u64_sat_add (min s u64_max) a = min (s + a) u64_max"
  by (auto simp: u64_sat_add_def)

lemma LlmUsageLedger_pushes:
  fixes calls :: "LlmCallUsage list"
  defines "ledger \<equiv> foldl LlmUsageLedger_push LlmUsageLedger_new calls"
  shows "ul_calls ledger = calls"
    and "unat (ua_llm_calls (ul_aggregate ledger)) = min (length calls) 4294967295"
    and "ua_input_tokens (ul_aggregate ledger) = min (sum_list (map cu_input_tokens calls)) u64_max"
    and "ua_output_tokens (ul_aggregate ledger) = min (sum_list (map cu_output_tokens calls)) u64_max"
    and "ua_total_tokens (ul_aggregate ledger) = min (sum_list (map cu_total_tokens calls)) u64_max"
  unfolding ledger_def
proof (induction calls rule: rev_induct)
  case Nil
  { case 1 show ?case by (simp add: LlmUsageLedger_new_def) }
  { case 2 show ?case by (simp add: LlmUsageLedger_new_def LlmUsageAggregate_default_def) }
  { case 3 show ?case by (simp add: LlmUsageLedger_new_def LlmUsageAggregate_default_def) }
  { case 4 show ?case by (simp add: LlmUsageLedger_new_def LlmUsageAggregate_default_def) }
  { case 5 show ?case by (simp add: LlmUsageLedger_new_def LlmUsageAggregate_default_def) }
next
  case (snoc c cs)
  { case 1 show ?case using snoc by (simp add: LlmUsageLedger_push_def Let_def) }
  { case 2 show ?case using snoc by (simp add: LlmUsageLedger_push_def Let_def unat_u32_saturating_add) }
  { case 3 show ?case using snoc by (simp add: LlmUsageLedger_push_def Let_def sat_fold) }
  { case 4 show ?case using snoc by (simp add: LlmUsageLedger_push_def Let_def sat_fold) }
  { case 5 show ?case using snoc by (simp add: LlmUsageLedger_push_def Let_def sat_fold) }
qed

section \<open>Model errors\<close>

datatype LlmTransportErrorKind = TrConnect | TrTimeout | TrIo | TrSerialization | TrServer

datatype LlmProtocolErrorKind = PrInvalidJson | PrEmptyChoices | PrInvalidSseLine | PrStreamTooLarge
  | PrUsageMissing | PrUnsupported | PrStructuredOutputUnsupported | PrInvalidStructuredOutput

datatype LlmResponseLimit = RlContent | RlReasoning | RlSseLine | RlStreamBuffer | RlEmbeddingDimensions
  | RlEmbeddingItems

datatype LlmProviderError = PeRateLimited "nat option" | PeRejected nat "str option" "str option"
  | PeTransport LlmTransportErrorKind | PeProtocol LlmProtocolErrorKind | PeResponseLimitExceeded LlmResponseLimit

datatype LlmError_aise = LeCancelled | LeTurnDeadlineExceeded | LeProviderTimeout | LeQueueTimeout
  | LeRateLimited "nat option" | LeTokenBudgetExceeded str | LeProviderRejected nat "str option" "str option"
  | LeTransport LlmTransportErrorKind | LeProtocol LlmProtocolErrorKind | LeResponseLimitExceeded LlmResponseLimit
  | LeEmbeddingUnsupported

fun LlmError_kind_aise :: "LlmError_aise \<Rightarrow> string" where
  "LlmError_kind_aise LeCancelled = ''cancelled''"
| "LlmError_kind_aise LeTurnDeadlineExceeded = ''turn_deadline_exceeded''"
| "LlmError_kind_aise LeProviderTimeout = ''provider_timeout''"
| "LlmError_kind_aise LeQueueTimeout = ''queue_timeout''"
| "LlmError_kind_aise (LeRateLimited r) = ''rate_limited''"
| "LlmError_kind_aise (LeTokenBudgetExceeded m) = ''token_budget_exceeded''"
| "LlmError_kind_aise (LeProviderRejected s c m) = ''provider_rejected''"
| "LlmError_kind_aise (LeTransport k) = ''transport''"
| "LlmError_kind_aise (LeProtocol k) = ''protocol''"
| "LlmError_kind_aise (LeResponseLimitExceeded l) = ''response_limit_exceeded''"
| "LlmError_kind_aise LeEmbeddingUnsupported = ''embedding_unsupported''"

fun LlmError_from :: "LlmProviderError \<Rightarrow> LlmError_aise" where
  "LlmError_from (PeRateLimited r) = LeRateLimited r"
| "LlmError_from (PeRejected s c m) = LeProviderRejected s c m"
| "LlmError_from (PeTransport k) = LeTransport k"
| "LlmError_from (PeProtocol k) = LeProtocol k"
| "LlmError_from (PeResponseLimitExceeded l) = LeResponseLimitExceeded l"

text \<open>The text of the other errors is an argument: only the message of the failure depends on it.\<close>

definition TurnExecutionError_from_llm :: "(LlmError_aise \<Rightarrow> str) \<Rightarrow> LlmError_aise \<Rightarrow> TurnExecutionError" where
  "TurnExecutionError_from_llm display error =
     (case error of
        LeCancelled \<Rightarrow> turn_cancelled None
      | LeTurnDeadlineExceeded \<Rightarrow> deadline_exceeded None
      | _ \<Rightarrow> turn_error FkLlm ''llm_error'' None (display error))"

section \<open>Validation (\<open>turn/turn_validation.rs\<close>)\<close>

datatype ValidationIssueCode = VcStoryTextEmpty | VcStoryTextExceedsBounds | VcExtractionSchemaInvalid | VcExtractionCountExceeded
  | VcExtractionDuplicateTarget | VcReferenceMissing | VcModificationForbidden | VcUnchangedRoleEmitted
  | VcUnchangedRelationshipEmitted | VcDomainInvariantViolated | VcKnowledgeOperationIllegal | VcKnowledgeTargetInvalid
  | VcKnowledgeOwnerUnauthorized | VcStaleStateExtraction | VcStoryStateInconsistent | VcNarrativeInconsistent
  | VcCastPolicyViolation | VcNewRoleInvalid

fun ValidationIssueCode_as_str :: "ValidationIssueCode \<Rightarrow> string" where
  "ValidationIssueCode_as_str VcStoryTextEmpty = ''story_text_empty''"
| "ValidationIssueCode_as_str VcStoryTextExceedsBounds = ''story_text_exceeds_bounds''"
| "ValidationIssueCode_as_str VcExtractionSchemaInvalid = ''extraction_schema_invalid''"
| "ValidationIssueCode_as_str VcExtractionCountExceeded = ''extraction_count_exceeded''"
| "ValidationIssueCode_as_str VcExtractionDuplicateTarget = ''extraction_duplicate_target''"
| "ValidationIssueCode_as_str VcReferenceMissing = ''reference_missing''"
| "ValidationIssueCode_as_str VcModificationForbidden = ''modification_forbidden''"
| "ValidationIssueCode_as_str VcUnchangedRoleEmitted = ''unchanged_role_emitted''"
| "ValidationIssueCode_as_str VcUnchangedRelationshipEmitted = ''unchanged_relationship_emitted''"
| "ValidationIssueCode_as_str VcDomainInvariantViolated = ''domain_invariant_violated''"
| "ValidationIssueCode_as_str VcKnowledgeOperationIllegal = ''knowledge_operation_illegal''"
| "ValidationIssueCode_as_str VcKnowledgeTargetInvalid = ''knowledge_target_invalid''"
| "ValidationIssueCode_as_str VcKnowledgeOwnerUnauthorized = ''knowledge_owner_unauthorized''"
| "ValidationIssueCode_as_str VcStaleStateExtraction = ''stale_state_extraction''"
| "ValidationIssueCode_as_str VcStoryStateInconsistent = ''story_state_inconsistent''"
| "ValidationIssueCode_as_str VcNarrativeInconsistent = ''narrative_inconsistent''"
| "ValidationIssueCode_as_str VcCastPolicyViolation = ''cast_policy_violation''"
| "ValidationIssueCode_as_str VcNewRoleInvalid = ''new_role_invalid''"

datatype ValidationIssueClass = VclStory | VclExtraction | VclCrossConsistency

datatype ValidationRemedy = VrRepairStory | VrReextractState | VrReject

record ValidationIssue_aise =
  vi_code :: ValidationIssueCode
  vi_class :: ValidationIssueClass
  vi_remedy :: ValidationRemedy
  vi_message :: str
  vi_location :: "(str \<times> u32 option) option"

record BoundedValidationIssues =
  bvi_issues :: "ValidationIssue_aise list"
  bvi_max_issues :: nat

definition validation_invariant :: "string \<Rightarrow> str \<Rightarrow> TurnExecutionError" where
  "validation_invariant code message = turn_error FkInvariantViolation code (Some StValidation) message"

definition BoundedValidationIssues_try_new ::
  "ValidationIssue_aise list \<Rightarrow> nat \<Rightarrow> TurnExecutionError + BoundedValidationIssues" where
  "BoundedValidationIssues_try_new issues max_issues =
     (if max_issues = 0 then Inl (validation_invariant ''zero_issue_limit'' (lit ''max_issues must be positive''))
      else if issues = []
      then Inl (validation_invariant ''empty_issue_set'' (lit ''a non-pass validation result requires at least one issue''))
      else if length issues > max_issues
      then Inl (validation_invariant ''issue_limit_exceeded''
        (lit ''validation issues '' @ show_nat (length issues) @ lit '' exceeds limit '' @ show_nat max_issues))
      else rbind (try_for_each (\<lambda>issue. fail_if (length (vi_message issue) > 500)
          (validation_invariant ''issue_message_too_long'' (lit ''validation issue message exceeds 500 chars''))) issues)
        (\<lambda>_. Inr \<lparr>bvi_issues = issues, bvi_max_issues = max_issues\<rparr>))"

datatype ValidationDecision = VdPass | VdRepairStory | VdReextractState | VdReject

fun ValidationDecision_to_turn_phase :: "ValidationDecision \<Rightarrow> TurnPhase" where
  "ValidationDecision_to_turn_phase VdPass = PhReadyToCommit"
| "ValidationDecision_to_turn_phase VdRepairStory = PhStoryRepairRequired"
| "ValidationDecision_to_turn_phase VdReextractState = PhStateReextractionRequired"
| "ValidationDecision_to_turn_phase VdReject = PhFailed"

text \<open>The validated change set is a type argument: the turn only hands it from the validation to the committer.\<close>

datatype 'cs ValidationResult = VPass 'cs | VRepairStory BoundedValidationIssues
  | VReextractState BoundedValidationIssues | VReject BoundedValidationIssues

definition ValidationResult_from_issues ::
  "ValidationIssue_aise list \<Rightarrow> nat \<Rightarrow> TurnExecutionError + 'cs ValidationResult" where
  "ValidationResult_from_issues issues max_issues =
     (if issues = []
      then Inl (validation_invariant ''pass_requires_issue_construction''
        (lit ''use ValidationResult::pass for the empty-issue case''))
      else if (\<exists>issue \<in> set issues. vi_remedy issue = VrReject)
      then rmap VReject (BoundedValidationIssues_try_new issues max_issues)
      else if (\<exists>issue \<in> set issues. vi_remedy issue = VrRepairStory)
      then rmap VRepairStory (BoundedValidationIssues_try_new issues max_issues)
      else if (\<forall>issue \<in> set issues. vi_remedy issue = VrReextractState)
      then rmap VReextractState (BoundedValidationIssues_try_new issues max_issues)
      else Inl (validation_invariant ''inconsistent_remedy_set''
        (lit ''validation issue remedies are inconsistent with decision reduction'')))"

fun ValidationResult_decision :: "'cs ValidationResult \<Rightarrow> ValidationDecision" where
  "ValidationResult_decision (VPass c) = VdPass"
| "ValidationResult_decision (VRepairStory i) = VdRepairStory"
| "ValidationResult_decision (VReextractState i) = VdReextractState"
| "ValidationResult_decision (VReject i) = VdReject"

fun ValidationResult_issues :: "'cs ValidationResult \<Rightarrow> ValidationIssue_aise list" where
  "ValidationResult_issues (VPass c) = []"
| "ValidationResult_issues (VRepairStory i) = bvi_issues i"
| "ValidationResult_issues (VReextractState i) = bvi_issues i"
| "ValidationResult_issues (VReject i) = bvi_issues i"

fun into_change_set :: "'cs ValidationResult \<Rightarrow> 'cs option" where
  "into_change_set (VPass c) = Some c"
| "into_change_set (VRepairStory i) = None"
| "into_change_set (VReextractState i) = None"
| "into_change_set (VReject i) = None"

text \<open>
  The reduction of the issues to a decision is total: a non-empty set within the limits always has one, the
  strongest remedy any issue asks for, and the fallback branch is dead.
\<close>

lemma from_issues_decision:
  assumes "ValidationResult_from_issues issues max_issues = Inr (r :: 'cs ValidationResult)"
  shows "ValidationResult_decision r =
      (if \<exists>i \<in> set issues. vi_remedy i = VrReject then VdReject
       else if \<exists>i \<in> set issues. vi_remedy i = VrRepairStory then VdRepairStory else VdReextractState)"
    and "ValidationResult_issues r = issues" and "issues \<noteq> []" and "length issues \<le> max_issues"
    and "into_change_set r = None"
  using assms
  by (auto simp: ValidationResult_from_issues_def BoundedValidationIssues_try_new_def result_simps
      split: if_splits)

lemma try_for_each_fail_if: "try_for_each (\<lambda>x. fail_if (p x) e) xs = Inl e' \<Longrightarrow> e' = e"
  by (induction xs) (auto simp: fail_if_def split: if_splits)

lemma from_issues_no_fallback:
  "ValidationResult_from_issues issues max_issues = Inl e \<Longrightarrow> tee_code e \<noteq> ''inconsistent_remedy_set''"
proof -
  have "\<exists>issue \<in> set issues. vi_remedy issue \<noteq> VrReextractState \<Longrightarrow>
    (\<exists>issue \<in> set issues. vi_remedy issue = VrReject) \<or> (\<exists>issue \<in> set issues. vi_remedy issue = VrRepairStory)"
    by (metis ValidationRemedy.exhaust)
  then show "ValidationResult_from_issues issues max_issues = Inl e \<Longrightarrow> ?thesis"
    by (auto simp: ValidationResult_from_issues_def BoundedValidationIssues_try_new_def validation_invariant_def
        turn_error_def result_simps split: if_splits dest!: try_for_each_fail_if)
qed

section \<open>Events\<close>

datatype TurnEvent_aise = EvStageStarted "nat option" TurnStage
  | EvValidationCompleted "nat option" u32 ValidationDecision "ValidationIssueCode list"
  | EvCommitted CommittedTurnResult bool
  | EvFailed "nat option" string
  | EvCancelled "nat option" string
  | EvConflict "nat option" string

fun TurnEvent_turn_number :: "TurnEvent_aise \<Rightarrow> nat option" where
  "TurnEvent_turn_number (EvStageStarted n stage) = n"
| "TurnEvent_turn_number (EvValidationCompleted n attempt decision codes) = n"
| "TurnEvent_turn_number (EvCommitted r replayed) = Some (ctr_turn_number r)"
| "TurnEvent_turn_number (EvFailed n code) = n"
| "TurnEvent_turn_number (EvCancelled n code) = n"
| "TurnEvent_turn_number (EvConflict n code) = n"

fun TurnEvent_is_terminal :: "TurnEvent_aise \<Rightarrow> bool" where
  "TurnEvent_is_terminal (EvStageStarted n stage) = False"
| "TurnEvent_is_terminal (EvValidationCompleted n attempt decision codes) = False"
| "TurnEvent_is_terminal (EvCommitted r replayed) = True"
| "TurnEvent_is_terminal (EvFailed n code) = True"
| "TurnEvent_is_terminal (EvCancelled n code) = True"
| "TurnEvent_is_terminal (EvConflict n code) = True"

end
