(* ===== verification/Story_Coordinator.thy ===== *)
theory Story_Coordinator
  imports Turn_Contract
begin

text \<open>
  The coordinator that lets one turn of a story run at a time (\<open>runtime/story_turn_coordinator.rs\<close>,
  \<open>config/coordinator.rs\<close>).

  Callers run concurrently. A step is one critical section of the mutex, one operation on an atomic
  counter, or one completion of a future, so that every interleaving of the code is a sequence of actions.
  A semaphore is an address in \<open>co_semaphores\<close>, its free permits; an entry of the map holds the address
  (the \<open>Arc\<close>), and so does a caller that waits on it. Which waiter gets a free permit, and which branch of
  \<open>select!\<close> completes, is any enabled action. Instants and durations are milliseconds.
\<close>

section \<open>State\<close>

type_synonym StoryId_aise = str
type_synonym instant_ms = nat
type_synonym caller_id = nat

record CoordinatorConfig =
  cc_max_waiters_per_story :: nat
  cc_max_total_waiters :: nat
  cc_idle_timeout_secs :: nat

definition CoordinatorConfig_default :: CoordinatorConfig where
  "CoordinatorConfig_default =
     \<lparr>cc_max_waiters_per_story = 16, cc_max_total_waiters = 256, cc_idle_timeout_secs = 300\<rparr>"

definition CoordinatorConfig_validate :: "CoordinatorConfig \<Rightarrow> string + unit" where
  "CoordinatorConfig_validate c =
     rbind (fail_if (cc_max_waiters_per_story c = 0) ''coordinator.max_waiters_per_story must be positive'') (\<lambda>_.
     rbind (fail_if (cc_max_total_waiters c = 0) ''coordinator.max_total_waiters must be positive'') (\<lambda>_.
     fail_if (cc_idle_timeout_secs c = 0) ''coordinator.idle_timeout_secs must be positive''))"

record StoryEntry =
  ent_semaphore :: nat
  ent_waiters :: nat
  ent_idle_since :: "instant_ms option"

text \<open>
  Where a caller is: in front of \<open>acquire\<close>, registered, in \<open>select!\<close>, back with the outcome of the wait,
  past the second critical section, with a permit, in the drop of the permit (inner permit returned, counter
  decremented), or refused.
\<close>

datatype caller = Outside
  | Registered StoryId_aise nat instant_ms
  | Selecting StoryId_aise nat instant_ms
  | Resolved StoryId_aise "TurnExecutionError + nat"
  | Granted StoryId_aise nat
  | Holding StoryId_aise nat
  | Dropped StoryId_aise
  | Uncounted StoryId_aise
  | Refused TurnExecutionError

record StoryTurnCoordinator =
  co_config :: CoordinatorConfig
  co_stories :: "StoryId_aise \<Rightarrow> StoryEntry option"
  co_semaphores :: "nat \<Rightarrow> nat"
  co_next_semaphore :: nat
  co_shutdown :: bool
  co_total_waiters :: nat
  co_active_permits :: nat
  co_now :: instant_ms
  co_callers :: "caller_id \<Rightarrow> caller"
  co_cancelled :: "caller_id \<Rightarrow> bool"

definition StoryTurnCoordinator_new :: "CoordinatorConfig \<Rightarrow> StoryTurnCoordinator" where
  "StoryTurnCoordinator_new config =
     \<lparr>co_config = config, co_stories = Map.empty, co_semaphores = (\<lambda>_. 0), co_next_semaphore = 0,
      co_shutdown = False, co_total_waiters = 0, co_active_permits = 0, co_now = 0,
      co_callers = (\<lambda>_. Outside), co_cancelled = (\<lambda>_. False)\<rparr>"

definition idle_timeout :: "StoryTurnCoordinator \<Rightarrow> nat" where
  "idle_timeout c = 1000 * cc_idle_timeout_secs (co_config c)"

section \<open>The operations\<close>

definition backpressure :: "string \<Rightarrow> TurnExecutionError" where
  "backpressure message = turn_error FkBackpressure ''backpressure'' None (lit message)"

definition expired :: "StoryTurnCoordinator \<Rightarrow> StoryEntry \<Rightarrow> bool" where
  "expired c entry =
     (case ent_idle_since entry of Some since \<Rightarrow> \<not> co_now c - since < idle_timeout c | None \<Rightarrow> False)"

definition reclaim :: "StoryTurnCoordinator \<Rightarrow> StoryTurnCoordinator" where
  "reclaim c = c\<lparr>co_stories := (\<lambda>s. case co_stories c s of
     Some entry \<Rightarrow> if expired c entry then None else Some entry | None \<Rightarrow> None)\<rparr>"

definition StoryEntry_new :: "nat \<Rightarrow> StoryEntry" where
  "StoryEntry_new semaphore = \<lparr>ent_semaphore = semaphore, ent_waiters = 0, ent_idle_since = None\<rparr>"

text \<open>\<open>map.entry(story_id).or_insert_with(StoryEntry::new)\<close>: a new entry allocates its semaphore, with one permit.\<close>

definition or_insert_entry :: "StoryTurnCoordinator \<Rightarrow> StoryId_aise \<Rightarrow> StoryEntry \<times> StoryTurnCoordinator" where
  "or_insert_entry c story =
     (case co_stories c story of
        Some entry \<Rightarrow> (entry, c)
      | None \<Rightarrow>
          (let entry = StoryEntry_new (co_next_semaphore c)
           in (entry, c\<lparr>co_stories := (co_stories c)(story \<mapsto> entry),
                        co_semaphores := (co_semaphores c)(co_next_semaphore c := 1),
                        co_next_semaphore := Suc (co_next_semaphore c)\<rparr>)))"

definition set_caller :: "caller_id \<Rightarrow> caller \<Rightarrow> StoryTurnCoordinator \<Rightarrow> StoryTurnCoordinator" where
  "set_caller t p c = c\<lparr>co_callers := (co_callers c)(t := p)\<rparr>"

text \<open>The beginning of \<open>acquire\<close>: the check for shutdown and the first critical section.\<close>

definition acquire_enter :: "StoryTurnCoordinator \<Rightarrow> caller_id \<Rightarrow> StoryId_aise \<Rightarrow> instant_ms \<Rightarrow> StoryTurnCoordinator" where
  "acquire_enter c t story deadline =
     (if co_shutdown c then set_caller t (Refused (backpressure ''story coordinator is shutting down'')) c
      else
        (let c = reclaim c
         in if co_total_waiters c \<ge> cc_max_total_waiters (co_config c)
            then set_caller t (Refused (backpressure ''story coordinator waiter capacity exceeded'')) c
            else
              (case or_insert_entry c story of (entry, c) \<Rightarrow>
                 if ent_waiters entry \<ge> cc_max_waiters_per_story (co_config c)
                 then set_caller t (Refused (backpressure ''story waiter capacity exceeded'')) c
                 else set_caller t (Registered story (ent_semaphore entry) deadline)
                   (c\<lparr>co_stories := (co_stories c)(story \<mapsto> entry\<lparr>ent_waiters := ent_waiters entry + 1\<rparr>),
                      co_total_waiters := co_total_waiters c + 1\<rparr>))))"

text \<open>The end of \<open>acquire\<close>: the second critical section.\<close>

definition acquire_leave :: "StoryTurnCoordinator \<Rightarrow> StoryId_aise \<Rightarrow> StoryTurnCoordinator" where
  "acquire_leave c story =
     (case co_stories c story of
        Some entry \<Rightarrow>
          c\<lparr>co_stories := (co_stories c)(story \<mapsto> entry\<lparr>ent_waiters := ent_waiters entry - 1, ent_idle_since := None\<rparr>),
            co_total_waiters := co_total_waiters c - 1\<rparr>
      | None \<Rightarrow> c\<lparr>co_total_waiters := co_total_waiters c - 1\<rparr>)"

text \<open>The critical section of \<open>release\<close>.\<close>

definition release_lock :: "StoryTurnCoordinator \<Rightarrow> StoryId_aise \<Rightarrow> StoryTurnCoordinator" where
  "release_lock c story =
     reclaim (case co_stories c story of
        Some entry \<Rightarrow>
          if ent_waiters entry = 0
          then c\<lparr>co_stories := (co_stories c)(story \<mapsto> entry\<lparr>ent_idle_since := Some (co_now c)\<rparr>)\<rparr>
          else c
      | None \<Rightarrow> c)"

datatype select_branch = Permit | CancelledToken | ShutdownToken | Deadline

datatype coord_action = Elapse nat | Cancel caller_id | Shutdown | ReclaimIdle
  | Enter caller_id StoryId_aise instant_ms
  | Check caller_id
  | Select caller_id select_branch
  | Leave caller_id
  | Count caller_id
  | DropInner caller_id
  | DropCount caller_id
  | DropLock caller_id

text \<open>One branch of the \<open>select!\<close> of \<open>wait_for_permit\<close>, if it is ready.\<close>

definition select_permit ::
  "StoryTurnCoordinator \<Rightarrow> caller_id \<Rightarrow> StoryId_aise \<Rightarrow> nat \<Rightarrow> instant_ms \<Rightarrow> select_branch \<Rightarrow> StoryTurnCoordinator option" where
  "select_permit c t story semaphore deadline branch =
     (case branch of
        Permit \<Rightarrow>
          if co_semaphores c semaphore > 0
          then Some (set_caller t (Resolved story (Inr semaphore))
            (c\<lparr>co_semaphores := (co_semaphores c)(semaphore := co_semaphores c semaphore - 1)\<rparr>))
          else None
      | CancelledToken \<Rightarrow>
          if co_cancelled c t then Some (set_caller t (Resolved story (Inl (turn_cancelled None))) c) else None
      | ShutdownToken \<Rightarrow>
          if co_shutdown c
          then Some (set_caller t (Resolved story (Inl (backpressure ''story coordinator is shutting down''))) c) else None
      | Deadline \<Rightarrow>
          if co_now c \<ge> deadline then Some (set_caller t (Resolved story (Inl (deadline_exceeded None))) c) else None)"

fun coord_step :: "coord_action \<Rightarrow> StoryTurnCoordinator \<Rightarrow> StoryTurnCoordinator option" where
  "coord_step (Elapse n) c = Some (c\<lparr>co_now := co_now c + n\<rparr>)"
| "coord_step (Cancel t) c = Some (c\<lparr>co_cancelled := (co_cancelled c)(t := True)\<rparr>)"
| "coord_step Shutdown c = Some (c\<lparr>co_shutdown := True\<rparr>)"
| "coord_step ReclaimIdle c = Some (reclaim c)"
| "coord_step (Enter t story deadline) c =
     (case co_callers c t of Outside \<Rightarrow> Some (acquire_enter c t story deadline) | _ \<Rightarrow> None)"
| "coord_step (Check t) c =
     (case co_callers c t of
        Registered story semaphore deadline \<Rightarrow>
          if co_cancelled c t then Some (set_caller t (Resolved story (Inl (turn_cancelled None))) c)
          else if co_now c \<ge> deadline then Some (set_caller t (Resolved story (Inl (deadline_exceeded None))) c)
          else Some (set_caller t (Selecting story semaphore deadline) c)
      | _ \<Rightarrow> None)"
| "coord_step (Select t branch) c =
     (case co_callers c t of
        Selecting story semaphore deadline \<Rightarrow> select_permit c t story semaphore deadline branch
      | _ \<Rightarrow> None)"
| "coord_step (Leave t) c =
     (case co_callers c t of
        Resolved story permit \<Rightarrow>
          Some (set_caller t (case permit of Inr semaphore \<Rightarrow> Granted story semaphore | Inl error \<Rightarrow> Refused error)
            (acquire_leave c story))
      | _ \<Rightarrow> None)"
| "coord_step (Count t) c =
     (case co_callers c t of
        Granted story semaphore \<Rightarrow>
          Some (set_caller t (Holding story semaphore) (c\<lparr>co_active_permits := co_active_permits c + 1\<rparr>))
      | _ \<Rightarrow> None)"
| "coord_step (DropInner t) c =
     (case co_callers c t of
        Holding story semaphore \<Rightarrow>
          Some (set_caller t (Dropped story)
            (c\<lparr>co_semaphores := (co_semaphores c)(semaphore := co_semaphores c semaphore + 1)\<rparr>))
      | _ \<Rightarrow> None)"
| "coord_step (DropCount t) c =
     (case co_callers c t of
        Dropped story \<Rightarrow>
          Some (set_caller t (Uncounted story) (c\<lparr>co_active_permits := co_active_permits c - 1\<rparr>))
      | _ \<Rightarrow> None)"
| "coord_step (DropLock t) c =
     (case co_callers c t of
        Uncounted story \<Rightarrow> Some (set_caller t Outside (release_lock c story))
      | _ \<Rightarrow> None)"

fun coord_run :: "coord_action list \<Rightarrow> StoryTurnCoordinator \<Rightarrow> StoryTurnCoordinator option" where
  "coord_run [] c = Some c"
| "coord_run (a # acts) c = (case coord_step a c of Some c' \<Rightarrow> coord_run acts c' | None \<Rightarrow> None)"

end
