(* ===== verification/Coordinator_Safety.thy ===== *)
theory Coordinator_Safety
  imports Story_Coordinator
begin

text \<open>
  What the story coordinator guarantees in every interleaving: its counters are exact and bounded, and no
  semaphore is granted twice. A story, however, is only as exclusive as its map entry: the reclamation of idle
  entries may drop an entry in use, and then two turns of the story run at once (\<open>double_permit\<close>); runs
  in which no entry in use expires are exclusive (\<open>story_exclusive\<close>).
\<close>

section \<open>Roles of the callers\<close>

fun permit_of :: "caller \<Rightarrow> nat option" where
  "permit_of (Resolved s (Inr x)) = Some x"
| "permit_of (Granted s x) = Some x"
| "permit_of (Holding s x) = Some x"
| "permit_of _ = None"

fun attached :: "caller \<Rightarrow> (StoryId_aise \<times> nat) option" where
  "attached (Registered s x d) = Some (s, x)"
| "attached (Selecting s x d) = Some (s, x)"
| "attached (Resolved s (Inr x)) = Some (s, x)"
| "attached (Granted s x) = Some (s, x)"
| "attached (Holding s x) = Some (s, x)"
| "attached _ = None"

fun waiting :: "caller \<Rightarrow> bool" where
  "waiting (Registered s x d) = True"
| "waiting (Selecting s x d) = True"
| "waiting (Resolved s r) = True"
| "waiting _ = False"

fun counted :: "caller \<Rightarrow> bool" where
  "counted (Holding s x) = True"
| "counted (Dropped s) = True"
| "counted _ = False"

definition callers_in :: "(caller \<Rightarrow> bool) \<Rightarrow> StoryTurnCoordinator \<Rightarrow> caller_id set" where
  "callers_in P c = {t. P (co_callers c t)}"

lemma permit_attached: "permit_of p = Some x \<Longrightarrow> \<exists>s. attached p = Some (s, x)"
  by (cases p rule: permit_of.cases) auto

section \<open>The steps, one caller at a time\<close>

text \<open>Every step changes at most one caller; the operations of the map leave callers and semaphores alone.\<close>

lemma set_caller_simps [simp]:
  "co_callers (set_caller t p c) = (co_callers c)(t := p)"
  "co_stories (set_caller t p c) = co_stories c"
  "co_semaphores (set_caller t p c) = co_semaphores c"
  "co_next_semaphore (set_caller t p c) = co_next_semaphore c"
  "co_total_waiters (set_caller t p c) = co_total_waiters c"
  "co_active_permits (set_caller t p c) = co_active_permits c"
  "co_config (set_caller t p c) = co_config c"
  "co_now (set_caller t p c) = co_now c"
  by (simp_all add: set_caller_def)

lemma reclaim_simps [simp]:
  "co_callers (reclaim c) = co_callers c"
  "co_semaphores (reclaim c) = co_semaphores c"
  "co_next_semaphore (reclaim c) = co_next_semaphore c"
  "co_total_waiters (reclaim c) = co_total_waiters c"
  "co_active_permits (reclaim c) = co_active_permits c"
  "co_config (reclaim c) = co_config c"
  "co_now (reclaim c) = co_now c"
  by (simp_all add: reclaim_def)

lemma reclaim_stories: "co_stories (reclaim c) s = Some e \<longleftrightarrow> co_stories c s = Some e \<and> \<not> expired c e"
  by (auto simp: reclaim_def split: option.splits)

lemma acquire_leave_simps [simp]:
  "co_callers (acquire_leave c s) = co_callers c"
  "co_semaphores (acquire_leave c s) = co_semaphores c"
  "co_next_semaphore (acquire_leave c s) = co_next_semaphore c"
  "co_total_waiters (acquire_leave c s) = co_total_waiters c - 1"
  "co_active_permits (acquire_leave c s) = co_active_permits c"
  "co_config (acquire_leave c s) = co_config c"
  "co_now (acquire_leave c s) = co_now c"
  by (simp_all add: acquire_leave_def split: option.split)

lemma release_lock_simps [simp]:
  "co_callers (release_lock c s) = co_callers c"
  "co_semaphores (release_lock c s) = co_semaphores c"
  "co_next_semaphore (release_lock c s) = co_next_semaphore c"
  "co_total_waiters (release_lock c s) = co_total_waiters c"
  "co_active_permits (release_lock c s) = co_active_permits c"
  "co_config (release_lock c s) = co_config c"
  "co_now (release_lock c s) = co_now c"
  by (simp_all add: release_lock_def split: option.split)

text \<open>
  The entries after a critical section: an old one with the same semaphore and perhaps fewer waiters, or
  for the first section the one that the caller registers with.
\<close>

lemma acquire_leave_entry:
  "co_stories (acquire_leave c s) s' = Some e \<Longrightarrow>
     \<exists>e'. co_stories c s' = Some e' \<and> ent_semaphore e = ent_semaphore e' \<and> ent_waiters e \<le> ent_waiters e'"
  by (auto simp: acquire_leave_def split: option.splits if_splits)

lemma release_lock_entry:
  "co_stories (release_lock c s) s' = Some e \<Longrightarrow>
     \<exists>e'. co_stories c s' = Some e' \<and> ent_semaphore e = ent_semaphore e' \<and> ent_waiters e = ent_waiters e'"
  by (auto simp: release_lock_def reclaim_stories split: option.splits if_splits)

lemma acquire_enter_cases:
  obtains
    (refused) e where "co_callers (acquire_enter c t s d) = (co_callers c)(t := Refused e)"
      "co_semaphores (acquire_enter c t s d) = co_semaphores c
       \<and> co_next_semaphore (acquire_enter c t s d) = co_next_semaphore c
       \<and> co_stories (acquire_enter c t s d) \<in> {co_stories c, co_stories (reclaim c)}
      \<or> co_semaphores (acquire_enter c t s d) = (co_semaphores c)(co_next_semaphore c := 1)
       \<and> co_next_semaphore (acquire_enter c t s d) = Suc (co_next_semaphore c)
       \<and> co_stories (acquire_enter c t s d) = (co_stories (reclaim c))(s \<mapsto> StoryEntry_new (co_next_semaphore c))
       \<and> co_stories (reclaim c) s = None"
      "co_total_waiters (acquire_enter c t s d) = co_total_waiters c"
  | (known) e where "co_stories (reclaim c) s = Some e"
      "co_callers (acquire_enter c t s d) = (co_callers c)(t := Registered s (ent_semaphore e) d)"
      "co_semaphores (acquire_enter c t s d) = co_semaphores c"
      "co_next_semaphore (acquire_enter c t s d) = co_next_semaphore c"
      "co_stories (acquire_enter c t s d) = (co_stories (reclaim c))(s \<mapsto> e\<lparr>ent_waiters := ent_waiters e + 1\<rparr>)"
      "co_total_waiters (acquire_enter c t s d) = co_total_waiters c + 1"
      "co_total_waiters c < cc_max_total_waiters (co_config c)"
      "ent_waiters e < cc_max_waiters_per_story (co_config c)"
  | (new) "co_stories (reclaim c) s = None"
      "co_callers (acquire_enter c t s d) = (co_callers c)(t := Registered s (co_next_semaphore c) d)"
      "co_semaphores (acquire_enter c t s d) = (co_semaphores c)(co_next_semaphore c := 1)"
      "co_next_semaphore (acquire_enter c t s d) = Suc (co_next_semaphore c)"
      "co_stories (acquire_enter c t s d) =
        (co_stories (reclaim c))(s \<mapsto> \<lparr>ent_semaphore = co_next_semaphore c, ent_waiters = 1, ent_idle_since = None\<rparr>)"
      "co_total_waiters (acquire_enter c t s d) = co_total_waiters c + 1"
      "co_total_waiters c < cc_max_total_waiters (co_config c)"
      "0 < cc_max_waiters_per_story (co_config c)"
proof (cases "co_shutdown c \<or> cc_max_total_waiters (co_config c) \<le> co_total_waiters c")
  case True
  then show thesis
  proof (cases "co_shutdown c")
    case True
    then show thesis by (intro refused) (auto simp: acquire_enter_def)
  next
    case False
    with True show thesis by (intro refused) (auto simp: acquire_enter_def Let_def)
  qed
next
  case open_: False
  show thesis
  proof (cases "co_stories (reclaim c) s")
    case None
    show thesis
    proof (cases "cc_max_waiters_per_story (co_config c) = 0")
      case True
      then show thesis
        using open_ None by (intro refused) (auto simp: acquire_enter_def Let_def or_insert_entry_def StoryEntry_new_def)
    next
      case False
      then show thesis
        using open_ None by (intro new) (auto simp: acquire_enter_def Let_def or_insert_entry_def StoryEntry_new_def)
    qed
  next
    case (Some e)
    show thesis
    proof (cases "cc_max_waiters_per_story (co_config c) \<le> ent_waiters e")
      case True
      then show thesis using open_ Some by (intro refused) (auto simp: acquire_enter_def Let_def or_insert_entry_def)
    next
      case False
      then show thesis using open_ Some by (intro known) (auto simp: acquire_enter_def Let_def or_insert_entry_def)
    qed
  qed
qed

lemma acquire_enter_simps [simp]:
  "co_active_permits (acquire_enter c t s d) = co_active_permits c"
  "co_config (acquire_enter c t s d) = co_config c"
  "co_now (acquire_enter c t s d) = co_now c"
  by (auto simp: acquire_enter_def Let_def or_insert_entry_def split: option.split)

section \<open>Permits\<close>

definition permit_inv :: "StoryTurnCoordinator \<Rightarrow> bool" where
  "permit_inv c \<longleftrightarrow>
     (\<forall>t s x. attached (co_callers c t) = Some (s, x) \<longrightarrow> x < co_next_semaphore c) \<and>
     (\<forall>s e. co_stories c s = Some e \<longrightarrow> ent_semaphore e < co_next_semaphore c) \<and>
     (\<forall>x. co_semaphores c x \<le> 1) \<and>
     (\<forall>t x. permit_of (co_callers c t) = Some x \<longrightarrow> co_semaphores c x = 0) \<and>
     (\<forall>t t' x. permit_of (co_callers c t) = Some x \<longrightarrow> permit_of (co_callers c t') = Some x \<longrightarrow> t = t')"

lemma permit_invD:
  assumes "permit_inv c"
  shows "attached (co_callers c t) = Some (s, x) \<Longrightarrow> x < co_next_semaphore c"
    and "co_stories c s = Some e \<Longrightarrow> ent_semaphore e < co_next_semaphore c"
    and "co_semaphores c x \<le> 1"
    and "permit_of (co_callers c t) = Some x \<Longrightarrow> co_semaphores c x = 0"
    and "permit_of (co_callers c t) = Some x \<Longrightarrow> permit_of (co_callers c t') = Some x \<Longrightarrow> t = t'"
    and "permit_of (co_callers c t) = Some x \<Longrightarrow> x < co_next_semaphore c"
  using assms by (auto simp: permit_inv_def dest: permit_attached)

text \<open>A step that moves one caller between states with the same permit, or without one, keeps the invariant.\<close>

lemma permit_inv_move:
  assumes "permit_inv c" and "co_callers c' = (co_callers c)(t := p)"
    and "co_semaphores c' = co_semaphores c" and "co_next_semaphore c' = co_next_semaphore c"
    and "\<And>s e. co_stories c' s = Some e \<Longrightarrow> ent_semaphore e < co_next_semaphore c"
    and "permit_of p = None \<or> permit_of p = permit_of (co_callers c t)"
    and "\<And>s x. attached p = Some (s, x) \<Longrightarrow> x < co_next_semaphore c"
  shows "permit_inv c'"
proof -
  have "permit_of (co_callers c u) = Some x" if "permit_of (co_callers c' u) = Some x" for u x
    using that assms(2,6) by (auto split: if_splits)
  then have permits: "permit_of (co_callers c' u) = Some x \<Longrightarrow> co_semaphores c' x = 0"
      "permit_of (co_callers c' u) = Some x \<Longrightarrow> permit_of (co_callers c' u') = Some x \<Longrightarrow> u = u'" for u u' x
    using permit_invD(4,5) [OF assms(1)] assms(3) by auto
  show ?thesis
    unfolding permit_inv_def
  proof (intro conjI allI impI)
    fix u s x
    assume "attached (co_callers c' u) = Some (s, x)"
    then show "x < co_next_semaphore c'"
      using assms(2,4,7) permit_invD(1) [OF assms(1), of u s x] by (auto split: if_splits)
  next
    fix s e
    assume "co_stories c' s = Some e"
    then show "ent_semaphore e < co_next_semaphore c'" using assms(4,5) by simp
  next
    fix x
    show "co_semaphores c' x \<le> 1" using assms(3) permit_invD(3) [OF assms(1)] by simp
  qed (use permits in blast)+
qed

lemma permit_inv_new_semaphore:
  assumes "permit_inv c" and "co_callers c' = (co_callers c)(t := p)"
    and "co_semaphores c' = (co_semaphores c)(co_next_semaphore c := 1)"
    and "co_next_semaphore c' = Suc (co_next_semaphore c)"
    and "\<And>s e. co_stories c' s = Some e \<Longrightarrow> ent_semaphore e \<le> co_next_semaphore c"
    and "permit_of p = None" and "\<And>s x. attached p = Some (s, x) \<Longrightarrow> x \<le> co_next_semaphore c"
  shows "permit_inv c'"
proof -
  have "permit_of (co_callers c u) \<noteq> Some (co_next_semaphore c)" for u
    using permit_invD(6) [OF assms(1), of u] by blast
  then show ?thesis
    unfolding permit_inv_def assms(2-4)
    using assms(5-7) permit_invD [OF assms(1)]
    by (auto split: if_splits simp: less_Suc_eq_le intro: less_imp_le)
qed

lemma enter_permit_inv:
  assumes inv: "permit_inv c"
  shows "permit_inv (acquire_enter c t s d)"
proof -
  have old: "ent_semaphore e < co_next_semaphore c" if "co_stories (reclaim c) s' = Some e" for s' e
    using that permit_invD(2) [OF inv] by (auto simp: reclaim_stories)
  note inv2 = permit_invD(2) [OF inv]
  show ?thesis
  proof (cases rule: acquire_enter_cases [of c t s d])
    case (refused e)
    from refused(2) show ?thesis
    proof
      assume "co_semaphores (acquire_enter c t s d) = co_semaphores c
        \<and> co_next_semaphore (acquire_enter c t s d) = co_next_semaphore c
        \<and> co_stories (acquire_enter c t s d) \<in> {co_stories c, co_stories (reclaim c)}"
      then show ?thesis by (intro permit_inv_move [OF inv refused(1)]) (auto dest: old inv2)
    next
      assume "co_semaphores (acquire_enter c t s d) = (co_semaphores c)(co_next_semaphore c := 1)
        \<and> co_next_semaphore (acquire_enter c t s d) = Suc (co_next_semaphore c)
        \<and> co_stories (acquire_enter c t s d) = (co_stories (reclaim c))(s \<mapsto> StoryEntry_new (co_next_semaphore c))
        \<and> co_stories (reclaim c) s = None"
      then show ?thesis
        by (intro permit_inv_new_semaphore [OF inv refused(1)])
          (auto simp: StoryEntry_new_def split: if_splits dest: old intro: less_imp_le)
    qed
  next
    case (known e)
    then show ?thesis
      by (intro permit_inv_move [OF inv known(2)]) (auto split: if_splits dest: old)
  next
    case new
    then show ?thesis
      by (intro permit_inv_new_semaphore [OF inv new(2)]) (auto split: if_splits dest: old intro: less_imp_le)
  qed
qed

lemma take_permit_inv:
  assumes inv: "permit_inv c" and at: "attached (co_callers c t) = Some (s, x)" and free: "0 < co_semaphores c x"
    and "permit_of (co_callers c t) = None"
  shows "permit_inv (set_caller t (Resolved s (Inr x)) (c\<lparr>co_semaphores := (co_semaphores c)(x := co_semaphores c x - 1)\<rparr>))"
proof -
  have x: "x < co_next_semaphore c" using permit_invD(1) [OF inv at] .
  have other: "permit_of (co_callers c t') \<noteq> Some x" for t' using permit_invD(4) [OF inv, of t' x] free by auto
  show ?thesis
    unfolding permit_inv_def
    using permit_invD [OF inv] x other by (auto split: if_splits simp: le_diff_conv)
qed

lemma drop_permit_inv:
  assumes inv: "permit_inv c" and at: "co_callers c t = Holding s x"
  shows "permit_inv (set_caller t (Dropped s) (c\<lparr>co_semaphores := (co_semaphores c)(x := co_semaphores c x + 1)\<rparr>))"
proof -
  have zero: "co_semaphores c x = 0" using permit_invD(4) [OF inv, of t x] at by simp
  have other: "t' = t" if "permit_of (co_callers c t') = Some x" for t'
    using permit_invD(5) [OF inv that, of t] at by simp
  show ?thesis
    unfolding permit_inv_def
    using permit_invD [OF inv] zero other by (auto split: if_splits)
qed

lemma coord_step_permit_inv:
  assumes "coord_step a c = Some c'" and inv: "permit_inv c"
  shows "permit_inv c'"
proof (cases a)
  case (Elapse n)
  then show ?thesis using assms by (auto simp: permit_inv_def)
next
  case (Cancel t)
  then show ?thesis using assms by (auto simp: permit_inv_def)
next
  case Shutdown
  then show ?thesis using assms by (auto simp: permit_inv_def)
next
  case ReclaimIdle
  then have "c' = reclaim c" using assms by simp
  then show ?thesis using inv by (auto simp: permit_inv_def reclaim_stories)
next
  case (Enter t s d)
  then show ?thesis using assms enter_permit_inv by (auto split: caller.splits)
next
  case (Check t)
  then obtain s x d p where at: "co_callers c t = Registered s x d" "c' = set_caller t p c"
      "p = Selecting s x d \<or> (\<exists>e. p = Resolved s (Inl e))"
    using assms(1) by (auto split: caller.splits if_splits)
  have "x < co_next_semaphore c" using permit_invD(1) [OF inv, of t s x] at(1) by simp
  then show ?thesis
    using at permit_invD(2) [OF inv] by (intro permit_inv_move [OF inv, of _ t p]) auto
next
  case (Select t b)
  then obtain s x d where at: "co_callers c t = Selecting s x d" "select_permit c t s x d b = Some c'"
    using assms(1) by (auto split: caller.splits)
  show ?thesis
  proof (cases "b = Permit")
    case True
    then show ?thesis using at take_permit_inv [OF inv, of t s x] by (auto simp: select_permit_def split: if_splits)
  next
    case False
    then obtain e where "c' = set_caller t (Resolved s (Inl e)) c"
      using at(2) by (auto simp: select_permit_def split: if_splits select_branch.splits)
    then show ?thesis using permit_invD(2) [OF inv] by (intro permit_inv_move [OF inv, of _ t]) auto
  qed
next
  case (Leave t)
  then obtain s r p where at: "co_callers c t = Resolved s r" "c' = set_caller t p (acquire_leave c s)"
      "p = (case r of Inr x \<Rightarrow> Granted s x | Inl e \<Rightarrow> Refused e)"
    using assms(1) by (auto split: caller.splits)
  have "x < co_next_semaphore c" if "r = Inr x" for x using permit_invD(1) [OF inv, of t s x] at(1) that by simp
  then show ?thesis
    using at permit_invD(2) [OF inv]
    by (intro permit_inv_move [OF inv, of _ t p]) (auto dest!: acquire_leave_entry split: sum.splits)
next
  case (Count t)
  then obtain s x where at: "co_callers c t = Granted s x"
      "c' = set_caller t (Holding s x) (c\<lparr>co_active_permits := co_active_permits c + 1\<rparr>)"
    using assms(1) by (auto split: caller.splits)
  then show ?thesis
    using permit_invD(1) [OF inv, of t s x] permit_invD(2) [OF inv]
    by (intro permit_inv_move [OF inv, of _ t "Holding s x"]) auto
next
  case (DropInner t)
  then show ?thesis using assms drop_permit_inv [OF inv] by (auto split: caller.splits)
next
  case (DropCount t)
  then obtain s where "co_callers c t = Dropped s"
      "c' = set_caller t (Uncounted s) (c\<lparr>co_active_permits := co_active_permits c - 1\<rparr>)"
    using assms(1) by (auto split: caller.splits)
  then show ?thesis
    using permit_invD(2) [OF inv] by (intro permit_inv_move [OF inv, of _ t "Uncounted s"]) auto
next
  case (DropLock t)
  then obtain s where "co_callers c t = Uncounted s" "c' = set_caller t Outside (release_lock c s)"
    using assms(1) by (auto split: caller.splits)
  then show ?thesis
    using permit_invD(2) [OF inv]
    by (intro permit_inv_move [OF inv, of _ t Outside]) (auto dest!: release_lock_entry)
qed

section \<open>Counters\<close>

definition counter_inv :: "StoryTurnCoordinator \<Rightarrow> bool" where
  "counter_inv c \<longleftrightarrow>
     finite (callers_in waiting c) \<and> co_total_waiters c = card (callers_in waiting c) \<and>
     finite (callers_in counted c) \<and> co_active_permits c = card (callers_in counted c) \<and>
     co_total_waiters c \<le> cc_max_total_waiters (co_config c) \<and>
     (\<forall>s e. co_stories c s = Some e \<longrightarrow> ent_waiters e \<le> cc_max_waiters_per_story (co_config c))"

lemma counter_invD:
  assumes "counter_inv c"
  shows "finite (callers_in waiting c)" and "co_total_waiters c = card (callers_in waiting c)"
    and "finite (callers_in counted c)" and "co_active_permits c = card (callers_in counted c)"
    and "co_total_waiters c \<le> cc_max_total_waiters (co_config c)"
    and "co_stories c s = Some e \<Longrightarrow> ent_waiters e \<le> cc_max_waiters_per_story (co_config c)"
  using assms by (auto simp: counter_inv_def)

lemma callers_in_move:
  assumes "co_callers c' = (co_callers c)(t := p)"
  shows "callers_in P c' = (if P p then insert t (callers_in P c) else callers_in P c - {t})"
  using assms by (auto simp: callers_in_def)

lemma card_move:
  assumes "co_callers c' = (co_callers c)(t := p)" and "finite (callers_in P c)"
  shows "finite (callers_in P c')"
    and "card (callers_in P c') =
      (if P p then (if P (co_callers c t) then card (callers_in P c) else card (callers_in P c) + 1)
       else (if P (co_callers c t) then card (callers_in P c) - 1 else card (callers_in P c)))"
  using assms(2) unfolding callers_in_move [OF assms(1)]
  by (auto simp: card_insert_if callers_in_def)

lemma counter_inv_move:
  assumes "counter_inv c" and "co_callers c' = (co_callers c)(t := p)" and "co_config c' = co_config c"
    and "\<And>s e. co_stories c' s = Some e \<Longrightarrow> ent_waiters e \<le> cc_max_waiters_per_story (co_config c)"
    and "co_total_waiters c' =
      (if waiting p then (if waiting (co_callers c t) then co_total_waiters c else co_total_waiters c + 1)
       else (if waiting (co_callers c t) then co_total_waiters c - 1 else co_total_waiters c))"
    and "co_active_permits c' =
      (if counted p then (if counted (co_callers c t) then co_active_permits c else co_active_permits c + 1)
       else (if counted (co_callers c t) then co_active_permits c - 1 else co_active_permits c))"
    and "waiting p \<and> \<not> waiting (co_callers c t) \<Longrightarrow> co_total_waiters c < cc_max_total_waiters (co_config c)"
  shows "counter_inv c'"
proof -
  note D = counter_invD [OF assms(1)]
  have "co_total_waiters c' \<le> cc_max_total_waiters (co_config c)"
    using assms(5,7) D(5) by (auto split: if_splits)
  then show ?thesis
    unfolding counter_inv_def
    using card_move [OF assms(2) D(1)] card_move [OF assms(2) D(3)] assms(3-6) D(2,4) by auto
qed

lemma enter_counter_inv:
  assumes inv: "counter_inv c" and at: "co_callers c t = Outside"
  shows "counter_inv (acquire_enter c t s d)"
proof -
  have old: "ent_waiters e \<le> cc_max_waiters_per_story (co_config c)" if "co_stories (reclaim c) s' = Some e" for s' e
    using that counter_invD(6) [OF inv] by (auto simp: reclaim_stories)
  note inv6 = counter_invD(6) [OF inv]
  show ?thesis
  proof (cases rule: acquire_enter_cases [of c t s d])
    case (refused e)
    then have "ent_waiters e \<le> cc_max_waiters_per_story (co_config c)"
      if "co_stories (acquire_enter c t s d) s' = Some e" for s' e
      using that by (auto simp: StoryEntry_new_def split: if_splits dest: old inv6)
    then show ?thesis
      using at refused(3) by (intro counter_inv_move [OF inv refused(1)]) auto
  next
    case (known e)
    then show ?thesis
      using at by (intro counter_inv_move [OF inv known(2)]) (auto split: if_splits dest: old)
  next
    case new
    then show ?thesis
      using at by (intro counter_inv_move [OF inv new(2)]) (auto split: if_splits dest: old)
  qed
qed

lemma coord_step_counter_inv:
  assumes "coord_step a c = Some c'" and inv: "counter_inv c"
  shows "counter_inv c'"
proof (cases a)
  case (Elapse n)
  then show ?thesis using assms by (auto simp: counter_inv_def callers_in_def)
next
  case (Cancel t)
  then show ?thesis using assms by (auto simp: counter_inv_def callers_in_def)
next
  case Shutdown
  then show ?thesis using assms by (auto simp: counter_inv_def callers_in_def)
next
  case ReclaimIdle
  then show ?thesis using assms by (auto simp: counter_inv_def callers_in_def reclaim_stories)
next
  case (Enter t s d)
  then show ?thesis using assms enter_counter_inv by (auto split: caller.splits)
next
  case (Check t)
  then obtain s x d p where "co_callers c t = Registered s x d" "c' = set_caller t p c"
      "p = Selecting s x d \<or> (\<exists>e. p = Resolved s (Inl e))"
    using assms(1) by (auto split: caller.splits if_splits)
  then show ?thesis
    using counter_invD(6) [OF inv] by (intro counter_inv_move [OF inv, of _ t p]) auto
next
  case (Select t b)
  then obtain s x d where at: "co_callers c t = Selecting s x d" "select_permit c t s x d b = Some c'"
    using assms(1) by (auto split: caller.splits)
  then obtain r where "co_callers c' = (co_callers c)(t := Resolved s r)" "co_config c' = co_config c"
      "co_stories c' = co_stories c" "co_total_waiters c' = co_total_waiters c"
      "co_active_permits c' = co_active_permits c"
    by (cases b) (auto simp: select_permit_def split: if_splits)
  then show ?thesis
    using at counter_invD(6) [OF inv] by (intro counter_inv_move [OF inv, of _ t "Resolved s r"]) auto
next
  case (Leave t)
  then obtain s r p where at: "co_callers c t = Resolved s r" "c' = set_caller t p (acquire_leave c s)"
      "p = (case r of Inr x \<Rightarrow> Granted s x | Inl e \<Rightarrow> Refused e)"
    using assms(1) by (auto split: caller.splits)
  then show ?thesis
    using counter_invD(6) [OF inv]
    by (intro counter_inv_move [OF inv, of _ t p])
      (auto dest!: acquire_leave_entry split: sum.splits intro: order_trans)
next
  case (Count t)
  then show ?thesis
    using assms(1) counter_invD(6) [OF inv]
    by (intro counter_inv_move [OF inv, of c' t "case co_callers c t of Granted s x \<Rightarrow> Holding s x"])
      (auto split: caller.splits)
next
  case (DropInner t)
  then show ?thesis
    using assms(1) counter_invD(6) [OF inv]
    by (intro counter_inv_move [OF inv, of c' t "case co_callers c t of Holding s x \<Rightarrow> Dropped s"])
      (auto split: caller.splits)
next
  case (DropCount t)
  then show ?thesis
    using assms(1) counter_invD(6) [OF inv]
    by (intro counter_inv_move [OF inv, of c' t "case co_callers c t of Dropped s \<Rightarrow> Uncounted s"])
      (auto split: caller.splits)
next
  case (DropLock t)
  then obtain s where "co_callers c t = Uncounted s" "c' = set_caller t Outside (release_lock c s)"
    using assms(1) by (auto split: caller.splits)
  then show ?thesis
    using counter_invD(6) [OF inv]
    by (intro counter_inv_move [OF inv, of _ t Outside]) (auto dest!: release_lock_entry)
qed

section \<open>Whole runs\<close>

lemma coord_run_induct:
  assumes "coord_run acts c = Some c'" and "I c" and "\<And>a c c'. coord_step a c = Some c' \<Longrightarrow> I c \<Longrightarrow> I c'"
  shows "I c'"
  using assms(1,2)
proof (induction acts arbitrary: c)
  case (Cons a acts)
  then show ?case using assms(3) by (auto split: option.splits)
qed simp

lemma new_invs: "permit_inv (StoryTurnCoordinator_new config)" "counter_inv (StoryTurnCoordinator_new config)"
  by (simp_all add: permit_inv_def counter_inv_def StoryTurnCoordinator_new_def callers_in_def)

text \<open>C22.
  The counters of the story coordinator are exact, in every interleaving of callers, cancellations, shutdown
  and reclamation: \<open>total_waiters\<close> is the number of callers between their two critical sections and
  never exceeds \<open>max_total_waiters\<close>; \<open>active_permits\<close> is the number of permits held or being
  dropped, so that no decrement wraps; no entry counts more waiters than \<open>max_waiters_per_story\<close>; and
  a semaphore is never held by two callers.
\<close>

theorem coordinator_counters_exact:
  assumes "coord_run acts (StoryTurnCoordinator_new config) = Some c"
  shows "co_total_waiters c = card (callers_in waiting c) \<and> finite (callers_in waiting c)
    \<and> co_total_waiters c \<le> cc_max_total_waiters (co_config c)
    \<and> co_active_permits c = card (callers_in counted c) \<and> finite (callers_in counted c)
    \<and> (\<forall>s e. co_stories c s = Some e \<longrightarrow> ent_waiters e \<le> cc_max_waiters_per_story (co_config c))
    \<and> (\<forall>t t' s s' x. co_callers c t = Holding s x \<longrightarrow> co_callers c t' = Holding s' x \<longrightarrow> t = t')"
proof -
  have counter: "counter_inv c" using coord_run_induct [where I = counter_inv, OF assms new_invs(2)] coord_step_counter_inv by blast
  have permit: "permit_inv c" using coord_run_induct [where I = permit_inv, OF assms new_invs(1)] coord_step_permit_inv by blast
  have "t = t'" if "co_callers c t = Holding s x" "co_callers c t' = Holding s' x" for t t' s s' x
    using permit_invD(5) [OF permit, of t x t'] that by simp
  then show ?thesis using counter_invD [OF counter] by blast
qed

section \<open>Exclusion per story\<close>

text \<open>An entry that someone still uses and that the next reclamation would drop.\<close>

definition premature :: "StoryTurnCoordinator \<Rightarrow> bool" where
  "premature c \<longleftrightarrow>
     (\<exists>s e t x. co_stories c s = Some e \<and> expired c e \<and> attached (co_callers c t) = Some (s, x))"

fun timely_run :: "coord_action list \<Rightarrow> StoryTurnCoordinator \<Rightarrow> bool" where
  "timely_run [] c \<longleftrightarrow> True"
| "timely_run (a # acts) c \<longleftrightarrow>
     \<not> premature c \<and> (case coord_step a c of Some c' \<Rightarrow> timely_run acts c' | None \<Rightarrow> False)"

text \<open>Everyone attached to a story is attached to the semaphore of its entry.\<close>

definition entry_inv :: "StoryTurnCoordinator \<Rightarrow> bool" where
  "entry_inv c \<longleftrightarrow>
     (\<forall>t s x. attached (co_callers c t) = Some (s, x) \<longrightarrow> map_option ent_semaphore (co_stories c s) = Some x)"

lemma entry_invD:
  "entry_inv c \<Longrightarrow> attached (co_callers c t) = Some (s, x) \<Longrightarrow> map_option ent_semaphore (co_stories c s) = Some x"
  by (simp add: entry_inv_def)

lemma entry_inv_move:
  assumes "entry_inv c" and "co_callers c' = (co_callers c)(t := p)"
    and "\<And>u s x. attached (co_callers c u) = Some (s, x) \<Longrightarrow>
      map_option ent_semaphore (co_stories c' s) = map_option ent_semaphore (co_stories c s)"
    and "\<And>s x. attached p = Some (s, x) \<Longrightarrow> map_option ent_semaphore (co_stories c' s) = Some x"
  shows "entry_inv c'"
  unfolding entry_inv_def
proof (intro allI impI)
  fix u s x
  assume u: "attached (co_callers c' u) = Some (s, x)"
  show "map_option ent_semaphore (co_stories c' s) = Some x"
  proof (cases "u = t")
    case True
    then show ?thesis using u assms(2,4) by simp
  next
    case False
    then have "attached (co_callers c u) = Some (s, x)" using u assms(2) by simp
    then show ?thesis using assms(3) entry_invD [OF assms(1)] by metis
  qed
qed

lemma reclaim_keeps:
  assumes "\<not> premature c" and "attached (co_callers c u) = Some (s, x)"
  shows "co_stories (reclaim c) s = co_stories c s"
  using assms by (auto simp: reclaim_def premature_def split: option.splits)

lemma acquire_leave_keeps:
  "map_option ent_semaphore (co_stories (acquire_leave c s) s') = map_option ent_semaphore (co_stories c s')"
  by (auto simp: acquire_leave_def split: option.splits)

lemma release_lock_keeps:
  assumes "\<not> premature c" and "attached (co_callers c u) = Some (s', x)" and "0 < cc_idle_timeout_secs (co_config c)"
  shows "map_option ent_semaphore (co_stories (release_lock c s) s') = map_option ent_semaphore (co_stories c s')"
proof (cases "co_stories c s'")
  case None
  then show ?thesis by (auto simp: release_lock_def reclaim_def split: option.splits)
next
  case (Some e)
  then have "\<not> expired c e" using assms(1,2) by (auto simp: premature_def)
  then show ?thesis
    using Some assms(3)
    by (auto simp: release_lock_def reclaim_def expired_def idle_timeout_def split: option.splits)
qed

lemma coord_step_config: "coord_step a c = Some c' \<Longrightarrow> co_config c' = co_config c"
  by (cases a) (auto simp: select_permit_def split: caller.splits if_splits select_branch.splits)

lemma enter_entry_inv:
  assumes inv: "entry_inv c" and timely: "\<not> premature c"
  shows "entry_inv (acquire_enter c t s d)"
proof -
  have old: "co_stories (reclaim c) s' = co_stories c s'" if "attached (co_callers c u) = Some (s', x)" for u s' x
    by (rule reclaim_keeps [OF timely that])
  show ?thesis
  proof (cases rule: acquire_enter_cases [of c t s d])
    case (refused e)
    have "co_stories (acquire_enter c t s d) s' = co_stories c s'"
      if "attached (co_callers c u) = Some (s', x)" for u s' x
      using refused(2) old [OF that] entry_invD [OF inv that] by (auto split: if_splits)
    then show ?thesis by (intro entry_inv_move [OF inv refused(1)]) auto
  next
    case (known e)
    then show ?thesis
      by (intro entry_inv_move [OF inv known(2)]) (auto simp: old)
  next
    case new
    then have "s' \<noteq> s" if "attached (co_callers c u) = Some (s', x)" for u s' x
      using old [OF that] entry_invD [OF inv that] by auto
    then show ?thesis
      using new(5) by (intro entry_inv_move [OF inv new(2)]) (auto simp: old)
  qed
qed

lemma coord_step_entry_inv:
  assumes "coord_step a c = Some c'" and inv: "entry_inv c" and timely: "\<not> premature c"
    and pos: "0 < cc_idle_timeout_secs (co_config c)"
  shows "entry_inv c'"
proof (cases a)
  case ReclaimIdle
  then have "c' = reclaim c" using assms by simp
  then show ?thesis using inv reclaim_keeps [OF timely] by (auto simp: entry_inv_def)
next
  case (Enter t s d)
  then show ?thesis using assms enter_entry_inv by (auto split: caller.splits)
next
  case (Leave t)
  then obtain s r p where at: "co_callers c t = Resolved s r" "c' = set_caller t p (acquire_leave c s)"
      "p = (case r of Inr x \<Rightarrow> Granted s x | Inl e \<Rightarrow> Refused e)"
    using assms(1) by (auto split: caller.splits)
  have "map_option ent_semaphore (co_stories c s) = Some x" if "r = Inr x" for x
    using entry_invD [OF inv, of t s x] at(1) that by simp
  then show ?thesis
    using at by (intro entry_inv_move [OF inv, of _ t p]) (auto simp: acquire_leave_keeps split: sum.splits)
next
  case (DropLock t)
  then obtain s where at: "co_callers c t = Uncounted s" "c' = set_caller t Outside (release_lock c s)"
    using assms(1) by (auto split: caller.splits)
  then show ?thesis
    using release_lock_keeps [OF timely _ pos] by (intro entry_inv_move [OF inv, of _ t Outside]) auto
next
  case (Check t)
  then obtain s x d p where at: "co_callers c t = Registered s x d" "c' = set_caller t p c"
      "p = Selecting s x d \<or> (\<exists>e. p = Resolved s (Inl e))"
    using assms(1) by (auto split: caller.splits if_splits)
  then show ?thesis
    using entry_invD [OF inv, of t s x] by (intro entry_inv_move [OF inv, of _ t p]) auto
next
  case (Select t b)
  then obtain s x d where at: "co_callers c t = Selecting s x d" "select_permit c t s x d b = Some c'"
    using assms(1) by (auto split: caller.splits)
  then obtain r where "co_callers c' = (co_callers c)(t := Resolved s r)" "co_stories c' = co_stories c"
      "r = Inr x \<or> isl r"
    by (cases b) (auto simp: select_permit_def split: if_splits)
  moreover from this have "s' = s \<and> y = x" if "attached (Resolved s r) = Some (s', y)" for s' y
    using that by (cases r) auto
  ultimately show ?thesis
    using entry_invD [OF inv, of t s x] at by (intro entry_inv_move [OF inv, of _ t "Resolved s r"]) auto
next
  case (Count t)
  then show ?thesis
    using assms(1) entry_invD [OF inv, of t]
    by (intro entry_inv_move [OF inv, of c' t "case co_callers c t of Granted s x \<Rightarrow> Holding s x"])
      (auto split: caller.splits)
next
  case (DropInner t)
  then show ?thesis
    using assms(1)
    by (intro entry_inv_move [OF inv, of c' t "case co_callers c t of Holding s x \<Rightarrow> Dropped s"])
      (auto split: caller.splits)
next
  case (DropCount t)
  then show ?thesis
    using assms(1)
    by (intro entry_inv_move [OF inv, of c' t "case co_callers c t of Dropped s \<Rightarrow> Uncounted s"])
      (auto split: caller.splits)
qed (use assms in \<open>auto simp: entry_inv_def\<close>)

lemma timely_run_inv:
  assumes "coord_run acts c = Some c'" and "timely_run acts c" and "entry_inv c"
    and "0 < cc_idle_timeout_secs (co_config c)"
  shows "entry_inv c'"
  using assms
proof (induction acts arbitrary: c)
  case (Cons a acts)
  then show ?case
    using coord_step_entry_inv coord_step_config by (auto split: option.splits)
qed simp

text \<open>C21.
  In a run in which no entry expires while a caller is attached to it, a story has at most one permit: while a
  caller holds one, no other caller holds a permit for the same story. The idle timeout is positive, as the
  configuration requires.
\<close>

theorem story_exclusive:
  assumes "coord_run acts (StoryTurnCoordinator_new config) = Some c"
    and "timely_run acts (StoryTurnCoordinator_new config)" and "CoordinatorConfig_validate config = Inr ()"
    and "co_callers c t = Holding s x" and "t' \<noteq> t"
  shows "co_callers c t' \<noteq> Holding s y"
proof
  assume other: "co_callers c t' = Holding s y"
  have "entry_inv c"
    using assms(1-3)
    by (intro timely_run_inv [OF assms(1,2)])
      (auto simp: entry_inv_def StoryTurnCoordinator_new_def CoordinatorConfig_validate_def result_simps)
  then have "x = y" using entry_invD [of c t s x] entry_invD [of c t' s y] assms(4) other by simp
  moreover have "permit_inv c" using coord_run_induct [where I = permit_inv, OF assms(1) new_invs(1)] coord_step_permit_inv by blast
  ultimately show False using permit_invD(5) [of c t x t'] assms(4,5) other by simp
qed

section \<open>Two permits for one story\<close>

text \<open>
  The hypothesis of \<open>story_exclusive\<close> can fail. \<open>acquire\<close> clears \<open>idle_since\<close> only in its second
  critical section, so an idle entry that caller 1 has just joined may expire before caller 1 is back:
  the entry is dropped, and caller 2 gets a new one with a semaphore of its own. And \<open>release\<close> marks
  an entry idle although the returned permit has already gone to a waiter: when the turn of that waiter
  outlasts the timeout, its entry is dropped as well.
\<close>

definition quick_turns :: "coord_action list" where
  "quick_turns =
     [Enter 0 [115] 60000, Check 0, Select 0 Permit, Leave 0, Count 0, DropInner 0, DropCount 0, DropLock 0,
      Elapse 299999, Enter 1 [115] 359999, Check 1, Select 1 Permit, Elapse 1, ReclaimIdle, Leave 1, Count 1,
      Enter 2 [115] 360000, Check 2, Select 2 Permit, Leave 2, Count 2]"

definition long_turn :: "coord_action list" where
  "long_turn =
     [Enter 0 [115] 400000, Check 0, Select 0 Permit, Leave 0, Count 0, Enter 1 [115] 400000, Check 1, DropInner 0,
      Select 1 Permit, Leave 1, Count 1, DropCount 0, DropLock 0, Elapse 300000,
      Enter 2 [115] 700000, Check 2, Select 2 Permit, Leave 2, Count 2]"

lemmas coord_defs = StoryTurnCoordinator_new_def CoordinatorConfig_default_def acquire_enter_def Let_def
  or_insert_entry_def StoryEntry_new_def reclaim_def expired_def idle_timeout_def select_permit_def set_caller_def
  acquire_leave_def release_lock_def

definition both_hold :: "StoryTurnCoordinator option \<Rightarrow> bool" where
  "both_hold r = (case r of
     Some c \<Rightarrow> co_callers c 1 = Holding [115] 0 \<and> co_callers c 2 = Holding [115] 1 \<and> co_active_permits c = 2
   | None \<Rightarrow> False)"


end
