(* ===== verification/Turn_Budget.thy ===== *)
theory Turn_Budget
  imports Turn_Contract "HOL-Library.Multiset"
begin

text \<open>
  The token budget of a turn (\<open>turn/turn_budget.rs\<close>, \<open>config/turn.rs\<close>). A model call reserves its
  estimated input and its maximal output first; afterwards the reservation is settled with the actual usage
  or released. The reservation is a value that Rust moves: it is settled or released at most once, which the
  step relation \<open>budget_step\<close> expresses with the multiset of the outstanding reservations.

  \<open>TurnBudgetLimits\<close> holds the limits that the budget and the turn context check. The nested limits of
  the extractor, of the narrative graph and of the activation rules are handed through unread and left out.
\<close>

section \<open>Limits and usage\<close>

record TurnConfig =
  tc_max_repair_rounds :: u32
  tc_max_llm_calls :: u32
  tc_max_input_tokens :: nat
  tc_max_output_tokens :: nat
  tc_max_total_tokens :: nat
  tc_max_context_tokens :: nat
  tc_max_character_decisions :: nat
  tc_max_validation_issues :: nat
  tc_turn_timeout_ms :: nat

definition TurnConfig_default :: TurnConfig where
  "TurnConfig_default =
     \<lparr>tc_max_repair_rounds = 3, tc_max_llm_calls = 8, tc_max_input_tokens = 8192, tc_max_output_tokens = 4096,
      tc_max_total_tokens = 12288, tc_max_context_tokens = 8192, tc_max_character_decisions = 8,
      tc_max_validation_issues = 32, tc_turn_timeout_ms = 60000\<rparr>"

definition TurnConfig_validate :: "TurnConfig \<Rightarrow> string + unit" where
  "TurnConfig_validate c =
     rbind (fail_if (tc_max_output_tokens c = 0) ''turn.max_output_tokens must be positive'') (\<lambda>_.
     rbind (fail_if (tc_max_input_tokens c = 0) ''turn.max_input_tokens must be positive'') (\<lambda>_.
     rbind (fail_if (tc_max_total_tokens c < tc_max_output_tokens c)
       ''turn.max_total_tokens must be >= turn.max_output_tokens'') (\<lambda>_.
     rbind (fail_if (tc_max_total_tokens c < tc_max_input_tokens c)
       ''turn.max_total_tokens must be >= turn.max_input_tokens'') (\<lambda>_.
     rbind (fail_if (tc_max_context_tokens c = 0) ''turn.max_context_tokens must be positive'') (\<lambda>_.
     rbind (fail_if (tc_max_llm_calls c = 0) ''turn.max_llm_calls must be positive'') (\<lambda>_.
     rbind (fail_if (tc_max_character_decisions c = 0) ''turn.max_character_decisions must be positive'') (\<lambda>_.
     rbind (fail_if (tc_max_validation_issues c = 0) ''turn.max_validation_issues must be positive'') (\<lambda>_.
     fail_if (tc_turn_timeout_ms c = 0) ''turn.turn_timeout_ms must be positive''))))))))"

record TurnBudgetLimits =
  lim_max_repair_rounds :: u32
  lim_max_llm_calls :: u32
  lim_max_input_tokens :: nat
  lim_max_output_tokens :: nat
  lim_max_total_tokens :: nat
  lim_max_items_per_audience :: nat
  lim_max_tokens_per_audience :: nat
  lim_max_total_items :: nat
  lim_max_retrieved_tokens :: nat
  lim_max_item_bytes :: nat
  lim_max_context_tokens :: nat
  lim_max_character_decisions :: nat
  lim_max_character_decision_bytes :: nat
  lim_max_plan_bytes :: nat
  lim_max_story_text_bytes :: nat
  lim_max_state_extraction_bytes :: nat
  lim_max_validation_issues :: nat
  lim_max_validation_issue_bytes :: nat

record TurnBudgetUsage =
  use_llm_calls :: u32
  use_input_tokens :: nat
  use_output_tokens :: nat
  use_total_tokens :: nat
  use_correction_rounds :: u32
  use_story_repair_rounds :: u32
  use_state_reextraction_rounds :: u32

record TurnBudget =
  bud_limits :: TurnBudgetLimits
  bud_usage :: TurnBudgetUsage

definition TurnBudgetUsage_default :: TurnBudgetUsage where
  "TurnBudgetUsage_default =
     \<lparr>use_llm_calls = 0, use_input_tokens = 0, use_output_tokens = 0, use_total_tokens = 0,
      use_correction_rounds = 0, use_story_repair_rounds = 0, use_state_reextraction_rounds = 0\<rparr>"

definition remaining_output_tokens :: "TurnBudget \<Rightarrow> nat" where
  "remaining_output_tokens b = lim_max_output_tokens (bud_limits b) - use_output_tokens (bud_usage b)"

section \<open>Reserve, settle and release\<close>

definition budget_error :: "str \<Rightarrow> TurnExecutionError" where
  "budget_error message = turn_error FkTokenBudgetExceeded ''token_budget_exceeded'' None message"

definition reserve_llm ::
  "TurnBudget \<Rightarrow> LlmCallId \<Rightarrow> nat \<Rightarrow> nat \<Rightarrow> (TurnExecutionError + LlmBudgetReservation) \<times> TurnBudget" where
  "reserve_llm b call_id input_tokens maximum_output_tokens =
     (let usage = bud_usage b; limits = bud_limits b;
          projected_input = u64_sat_add (use_input_tokens usage) input_tokens;
          projected_output = u64_sat_add (use_output_tokens usage) maximum_output_tokens;
          projected_total = u64_sat_add (u64_sat_add (use_total_tokens usage) input_tokens)
            maximum_output_tokens
      in if use_llm_calls usage \<ge> lim_max_llm_calls limits
         then (Inl (budget_error (lit ''llm call limit '' @ show_nat (unat (lim_max_llm_calls limits)) @ lit '' reached'')), b)
         else if projected_input > lim_max_input_tokens limits then (Inl (budget_error (lit ''input token limit'')), b)
         else if projected_output > lim_max_output_tokens limits then (Inl (budget_error (lit ''output token limit'')), b)
         else if projected_total > lim_max_total_tokens limits then (Inl (budget_error (lit ''total token limit'')), b)
         else (Inr \<lparr>res_call_id = call_id, res_input_tokens = input_tokens, res_output_tokens = maximum_output_tokens\<rparr>,
               b\<lparr>bud_usage := usage\<lparr>use_input_tokens := projected_input, use_output_tokens := projected_output,
                 use_total_tokens := projected_total\<rparr>\<rparr>))"

definition release_llm :: "TurnBudget \<Rightarrow> LlmBudgetReservation \<Rightarrow> TurnBudget" where
  "release_llm b r =
     (let usage = bud_usage b
      in b\<lparr>bud_usage := usage\<lparr>use_input_tokens := use_input_tokens usage - res_input_tokens r,
             use_output_tokens := use_output_tokens usage - res_output_tokens r,
             use_total_tokens := use_total_tokens usage - res_input_tokens r - res_output_tokens r\<rparr>\<rparr>)"

text \<open>
  A settlement starts as a release does. When the actual usage does not fit it fails, and leaves the budget
  without the reservation and without the usage.
\<close>

definition settle_llm ::
  "TurnBudget \<Rightarrow> LlmBudgetReservation \<Rightarrow> LlmCallUsage \<Rightarrow> (TurnExecutionError + unit) \<times> TurnBudget" where
  "settle_llm b r u =
     (let b' = release_llm b r; usage = bud_usage b'; limits = bud_limits b';
          settled_input = u64_sat_add (use_input_tokens usage) (cu_input_tokens u);
          settled_output = u64_sat_add (use_output_tokens usage) (cu_output_tokens u);
          settled_total = u64_sat_add (u64_sat_add (use_total_tokens usage) (cu_input_tokens u))
            (cu_output_tokens u)
      in if settled_input > lim_max_input_tokens limits
         then (Inl (budget_error (lit ''input token limit exceeded'')), b')
         else if settled_output > lim_max_output_tokens limits
         then (Inl (budget_error (lit ''output token limit exceeded'')), b')
         else if settled_total > lim_max_total_tokens limits
         then (Inl (budget_error (lit ''total token limit exceeded'')), b')
         else (Inr (), b'\<lparr>bud_usage := usage\<lparr>use_llm_calls := use_llm_calls usage + 1, use_input_tokens := settled_input,
                 use_output_tokens := settled_output, use_total_tokens := settled_total\<rparr>\<rparr>))"

datatype CorrectionKind = StoryRepair | StateReextraction

definition consume_correction_round :: "TurnBudget \<Rightarrow> CorrectionKind \<Rightarrow> (TurnExecutionError + unit) \<times> TurnBudget" where
  "consume_correction_round b kind =
     (let usage = bud_usage b
      in if use_correction_rounds usage \<ge> lim_max_repair_rounds (bud_limits b)
         then (Inl (turn_error FkValidationBudgetExhausted ''validation_budget_exhausted'' None
                (lit ''validation failed after '' @ show_nat (unat (use_correction_rounds usage)) @ lit '' correction rounds'')), b)
         else (let usage' = usage\<lparr>use_correction_rounds := use_correction_rounds usage + 1\<rparr>
               in (Inr (), b\<lparr>bud_usage :=
                 (case kind of
                    StoryRepair \<Rightarrow> usage'\<lparr>use_story_repair_rounds := use_story_repair_rounds usage + 1\<rparr>
                  | StateReextraction \<Rightarrow>
                      usage'\<lparr>use_state_reextraction_rounds := use_state_reextraction_rounds usage + 1\<rparr>)\<rparr>)))"

section \<open>Sequences of operations\<close>

text \<open>
  A state of the accounting: the budget, the reservations handed out and not yet given back, and the usages
  settled so far.
\<close>

record account =
  acc_budget :: TurnBudget
  acc_outstanding :: "LlmBudgetReservation multiset"
  acc_settled :: "LlmCallUsage list"

definition account_new :: "TurnBudgetLimits \<Rightarrow> account" where
  "account_new limits =
     \<lparr>acc_budget = \<lparr>bud_limits = limits, bud_usage = TurnBudgetUsage_default\<rparr>, acc_outstanding = {#}, acc_settled = []\<rparr>"

inductive budget_step :: "account \<Rightarrow> account \<Rightarrow> bool" where
  reserve: "reserve_llm (acc_budget a) call_id i m = (Inr r, b) \<Longrightarrow>
    budget_step a (a\<lparr>acc_budget := b, acc_outstanding := add_mset r (acc_outstanding a)\<rparr>)"
| reserve_refused: "reserve_llm (acc_budget a) call_id i m = (Inl e, b) \<Longrightarrow> budget_step a (a\<lparr>acc_budget := b\<rparr>)"
| settle: "r \<in># acc_outstanding a \<Longrightarrow> settle_llm (acc_budget a) r u = (Inr x, b) \<Longrightarrow>
    budget_step a (a\<lparr>acc_budget := b, acc_outstanding := acc_outstanding a - {#r#}, acc_settled := u # acc_settled a\<rparr>)"
| settle_refused: "r \<in># acc_outstanding a \<Longrightarrow> settle_llm (acc_budget a) r u = (Inl e, b) \<Longrightarrow>
    budget_step a (a\<lparr>acc_budget := b, acc_outstanding := acc_outstanding a - {#r#}\<rparr>)"
| release: "r \<in># acc_outstanding a \<Longrightarrow>
    budget_step a (a\<lparr>acc_budget := release_llm (acc_budget a) r, acc_outstanding := acc_outstanding a - {#r#}\<rparr>)"
| correct: "consume_correction_round (acc_budget a) kind = (res, b) \<Longrightarrow> budget_step a (a\<lparr>acc_budget := b\<rparr>)"

definition used_input :: "account \<Rightarrow> nat" where
  "used_input a = sum_mset (image_mset res_input_tokens (acc_outstanding a)) + sum_list (map cu_input_tokens (acc_settled a))"

definition used_output :: "account \<Rightarrow> nat" where
  "used_output a = sum_mset (image_mset res_output_tokens (acc_outstanding a)) + sum_list (map cu_output_tokens (acc_settled a))"

definition finite_limits :: "TurnBudgetLimits \<Rightarrow> bool" where
  "finite_limits l \<longleftrightarrow> lim_max_input_tokens l < u64_max \<and> lim_max_output_tokens l < u64_max \<and> lim_max_total_tokens l < u64_max"

definition account_inv :: "TurnBudgetLimits \<Rightarrow> account \<Rightarrow> bool" where
  "account_inv limits a \<longleftrightarrow>
     bud_limits (acc_budget a) = limits \<and>
     use_input_tokens (bud_usage (acc_budget a)) = used_input a \<and>
     use_output_tokens (bud_usage (acc_budget a)) = used_output a \<and>
     use_total_tokens (bud_usage (acc_budget a)) = used_input a + used_output a \<and>
     used_input a \<le> lim_max_input_tokens limits \<and> used_output a \<le> lim_max_output_tokens limits \<and>
     used_input a + used_output a \<le> lim_max_total_tokens limits \<and>
     use_llm_calls (bud_usage (acc_budget a)) = of_nat (length (acc_settled a))"

definition rounds_inv :: "TurnBudget \<Rightarrow> bool" where
  "rounds_inv b \<longleftrightarrow>
     unat (use_correction_rounds (bud_usage b)) =
       unat (use_story_repair_rounds (bud_usage b)) + unat (use_state_reextraction_rounds (bud_usage b)) \<and>
     use_correction_rounds (bud_usage b) \<le> lim_max_repair_rounds (bud_limits b)"

lemma account_new_inv: "account_inv limits (account_new limits)"
  by (simp add: account_inv_def account_new_def used_input_def used_output_def TurnBudgetUsage_default_def)

lemma account_new_rounds: "rounds_inv (acc_budget (account_new limits))"
  by (simp add: rounds_inv_def account_new_def TurnBudgetUsage_default_def)

lemma taken_out:
  assumes "r \<in># acc_outstanding a"
  shows "used_input a = res_input_tokens r + used_input (a\<lparr>acc_outstanding := acc_outstanding a - {#r#}\<rparr>)"
    and "used_output a = res_output_tokens r + used_output (a\<lparr>acc_outstanding := acc_outstanding a - {#r#}\<rparr>)"
  using multi_member_split [OF assms] by (auto simp: used_input_def used_output_def)

lemma used_simps [simp]:
  "used_input (a\<lparr>acc_budget := b\<rparr>) = used_input a"
  "used_output (a\<lparr>acc_budget := b\<rparr>) = used_output a"
  "used_input (a\<lparr>acc_budget := b, acc_outstanding := R\<rparr>) = used_input (a\<lparr>acc_outstanding := R\<rparr>)"
  "used_output (a\<lparr>acc_budget := b, acc_outstanding := R\<rparr>) = used_output (a\<lparr>acc_outstanding := R\<rparr>)"
  by (simp_all add: used_input_def used_output_def)

lemma reserve_llm_inv:
  assumes res: "reserve_llm (acc_budget a) call_id i m = (Inr r, b)"
    and inv: "account_inv limits a" and fin: "finite_limits limits"
  shows "account_inv limits (a\<lparr>acc_budget := b, acc_outstanding := add_mset r (acc_outstanding a)\<rparr>)"
proof -
  let ?u = "bud_usage (acc_budget a)"
  have r: "r = \<lparr>res_call_id = call_id, res_input_tokens = i, res_output_tokens = m\<rparr>"
    and b: "b = (acc_budget a)\<lparr>bud_usage := ?u\<lparr>use_input_tokens := u64_sat_add (use_input_tokens ?u) i,
        use_output_tokens := u64_sat_add (use_output_tokens ?u) m,
        use_total_tokens := u64_sat_add (u64_sat_add (use_total_tokens ?u) i) m\<rparr>\<rparr>"
    and fits: "u64_sat_add (use_input_tokens ?u) i \<le> lim_max_input_tokens limits"
      "u64_sat_add (use_output_tokens ?u) m \<le> lim_max_output_tokens limits"
      "u64_sat_add (u64_sat_add (use_total_tokens ?u) i) m \<le> lim_max_total_tokens limits"
    using res inv by (auto simp: reserve_llm_def Let_def account_inv_def not_less split: if_splits)
  from fits fin have "use_input_tokens ?u + i \<le> lim_max_input_tokens limits"
    "use_output_tokens ?u + m \<le> lim_max_output_tokens limits"
    "use_total_tokens ?u + i + m \<le> lim_max_total_tokens limits"
    by (auto simp: u64_sat_add_def finite_limits_def)
  then show ?thesis
    using inv fin by (simp add: account_inv_def b r used_input_def used_output_def u64_sat_add_def finite_limits_def)
qed

lemma release_llm_inv:
  assumes "r \<in># acc_outstanding a" and "account_inv limits a"
  shows "account_inv limits (a\<lparr>acc_budget := release_llm (acc_budget a) r, acc_outstanding := acc_outstanding a - {#r#}\<rparr>)"
  using assms taken_out [OF assms(1)] by (auto simp: account_inv_def release_llm_def Let_def)

lemma settle_llm_inv:
  assumes "r \<in># acc_outstanding a" and "settle_llm (acc_budget a) r u = (Inr x, b)"
    and "account_inv limits a" and fin: "finite_limits limits"
  shows "account_inv limits
    (a\<lparr>acc_budget := b, acc_outstanding := acc_outstanding a - {#r#}, acc_settled := u # acc_settled a\<rparr>)"
proof -
  let ?a = "a\<lparr>acc_budget := release_llm (acc_budget a) r, acc_outstanding := acc_outstanding a - {#r#}\<rparr>"
  let ?u = "bud_usage (acc_budget ?a)"
  have inv: "account_inv limits ?a" using release_llm_inv [OF assms(1,3)] .
  have lim: "bud_limits (acc_budget ?a) = limits" using inv by (simp add: account_inv_def)
  have b: "b = (acc_budget ?a)\<lparr>bud_usage := ?u\<lparr>use_llm_calls := use_llm_calls ?u + 1,
        use_input_tokens := u64_sat_add (use_input_tokens ?u) (cu_input_tokens u),
        use_output_tokens := u64_sat_add (use_output_tokens ?u) (cu_output_tokens u),
        use_total_tokens := u64_sat_add (u64_sat_add (use_total_tokens ?u) (cu_input_tokens u)) (cu_output_tokens u)\<rparr>\<rparr>"
    and fits: "u64_sat_add (use_input_tokens ?u) (cu_input_tokens u) \<le> lim_max_input_tokens limits"
      "u64_sat_add (use_output_tokens ?u) (cu_output_tokens u) \<le> lim_max_output_tokens limits"
      "u64_sat_add (u64_sat_add (use_total_tokens ?u) (cu_input_tokens u)) (cu_output_tokens u)
        \<le> lim_max_total_tokens limits"
    using assms(2) lim by (auto simp: settle_llm_def Let_def not_less split: if_splits)
  from fits fin have "use_input_tokens ?u + cu_input_tokens u \<le> lim_max_input_tokens limits"
    "use_output_tokens ?u + cu_output_tokens u \<le> lim_max_output_tokens limits"
    "use_total_tokens ?u + cu_input_tokens u + cu_output_tokens u \<le> lim_max_total_tokens limits"
    by (auto simp: u64_sat_add_def finite_limits_def)
  then show ?thesis
    using inv fin
    by (simp add: account_inv_def b used_input_def used_output_def u64_sat_add_def finite_limits_def algebra_simps)
qed

lemma budget_step_inv:
  assumes "budget_step a a'" and "account_inv limits a" and "finite_limits limits"
  shows "account_inv limits a'"
  using assms
proof (cases rule: budget_step.cases)
  case (reserve call_id i m r b)
  then show ?thesis using reserve_llm_inv assms by blast
next
  case (reserve_refused call_id i m e b)
  then have "b = acc_budget a" by (auto simp: reserve_llm_def Let_def split: if_splits)
  then show ?thesis using reserve_refused assms by simp
next
  case (settle r u x b)
  then show ?thesis using settle_llm_inv assms by blast
next
  case (settle_refused r u e b)
  then have "b = release_llm (acc_budget a) r" by (auto simp: settle_llm_def Let_def split: if_splits)
  then show ?thesis using settle_refused release_llm_inv assms by auto
next
  case (release r)
  then show ?thesis using release_llm_inv assms by blast
next
  case (correct kind res b)
  then show ?thesis
    using assms(2) by (auto simp: consume_correction_round_def Let_def account_inv_def split: if_splits CorrectionKind.splits)
qed

lemma unat_bump:
  assumes "c < (m :: u32)"
  shows "unat (c + 1) = unat c + 1"
proof -
  have "unat c + 1 < 4294967296" using assms unat_u32_less [of m] by (simp add: word_less_nat_alt)
  then show ?thesis by (simp add: unat_word_ariths)
qed

lemma consume_correction_round_inv:
  assumes "rounds_inv b"
  shows "rounds_inv (snd (consume_correction_round b kind))"
proof (cases "use_correction_rounds (bud_usage b) < lim_max_repair_rounds (bud_limits b)")
  case False
  then show ?thesis using assms by (simp add: consume_correction_round_def not_less)
next
  case True
  let ?u = "bud_usage b"
  have c: "unat (use_correction_rounds ?u + 1) = unat (use_correction_rounds ?u) + 1" by (rule unat_bump [OF True])
  have sum: "unat (use_correction_rounds ?u) = unat (use_story_repair_rounds ?u) + unat (use_state_reextraction_rounds ?u)"
    using assms by (simp add: rounds_inv_def)
  have lt: "use_story_repair_rounds ?u < lim_max_repair_rounds (bud_limits b)"
    "use_state_reextraction_rounds ?u < lim_max_repair_rounds (bud_limits b)"
    using True sum by (simp_all add: word_less_nat_alt)
  have "use_correction_rounds ?u + 1 \<le> lim_max_repair_rounds (bud_limits b)"
    using True c by (simp add: word_le_nat_alt word_less_nat_alt)
  then show ?thesis
    using True c sum unat_bump [OF lt(1)] unat_bump [OF lt(2)]
    by (cases kind) (simp_all add: consume_correction_round_def rounds_inv_def Let_def not_le [symmetric])
qed

lemma budget_step_rounds:
  assumes "budget_step a a'" and "rounds_inv (acc_budget a)"
  shows "rounds_inv (acc_budget a')"
  using assms
proof (cases rule: budget_step.cases)
  case (correct kind res b)
  then show ?thesis using consume_correction_round_inv [OF assms(2), of kind] by simp
qed (auto simp: reserve_llm_def settle_llm_def release_llm_def rounds_inv_def Let_def split: if_splits)

text \<open>C30.
  The budget of a turn is kept exactly. After every sequence of reservations, settlements, releases and
  correction rounds, the tokens it counts are those of the outstanding reservations and of the settled calls,
  none counted twice or lost, also after refused settlements; they are within the limits; and the correction
  rounds are the repairs and the re-extractions together, at most \<open>max_repair_rounds\<close>. The token limits
  are below the largest \<open>u64\<close>, where the saturating sums are exact.
\<close>

theorem budget_kept:
  assumes "budget_step\<^sup>*\<^sup>* (account_new limits) a" and "finite_limits limits"
  shows "use_input_tokens (bud_usage (acc_budget a)) = used_input a \<and> used_input a \<le> lim_max_input_tokens limits
    \<and> use_output_tokens (bud_usage (acc_budget a)) = used_output a \<and> used_output a \<le> lim_max_output_tokens limits
    \<and> use_total_tokens (bud_usage (acc_budget a)) = used_input a + used_output a
    \<and> used_input a + used_output a \<le> lim_max_total_tokens limits
    \<and> unat (use_story_repair_rounds (bud_usage (acc_budget a))) + unat (use_state_reextraction_rounds (bud_usage (acc_budget a)))
      \<le> unat (lim_max_repair_rounds limits)"
proof -
  have "account_inv limits a \<and> rounds_inv (acc_budget a)"
    using assms(1)
    by induction (use assms(2) account_new_inv account_new_rounds budget_step_inv budget_step_rounds in blast)+
  then show ?thesis by (auto simp: account_inv_def rounds_inv_def word_le_nat_alt)
qed

end
