(* ===== verification/Call_Gateway.thy ===== *)
theory Call_Gateway
  imports Turn_Budget "HOL-Library.Signed_Division"
begin

text \<open>
  The model gateway of the crate \<open>aise\<close> (\<open>llm/gateway.rs\<close>, \<open>llm/limiter.rs\<close>, \<open>llm/accounting.rs\<close>,
  \<open>llm/output_contract.rs\<close>, \<open>llm/message.rs\<close>): rate limits, prices, and the life of a call from its
  reservation to its settlement.

  What happens around a call is an argument, the record \<open>call_env\<close>: the cancellation and the clock at
  each point where the code reads them, the results of the two waits on the limiter, and which branch of the
  \<open>select!\<close> on the provider completed. The decoder of a structured answer and the rendered prompt are arguments too.
  The charge of a completion goes through \<open>serde_json\<close> and back, which returns it.
  Instants are milliseconds. The observation of the call is the list of the outcomes it is finished with.
\<close>

section \<open>Estimates and prices\<close>

datatype Role = RoleSystem | RoleUser | RoleAssistant

record ChatMessage_aise =
  cm_role :: Role
  cm_content :: str

definition estimate_input_tokens :: "ChatMessage_aise list \<Rightarrow> nat" where
  "estimate_input_tokens messages = foldl u64_sat_add 0 (map (\<lambda>m. estimate_text_tokens (cm_content m)) messages)"

record LlmCompletion =
  lc_text :: str
  lc_finish_reason :: "FinishReason option"
  lc_reasoning_content :: "str option"
  lc_usage :: "LlmTokenUsage_aise option"
  lc_charge :: "LlmCharge option"

record TokenAccountant =
  ta_provider :: str
  ta_model :: str
  ta_price_version :: str
  ta_input_price_per_1k :: "int option"
  ta_cached_input_price_per_1k :: "int option"
  ta_output_price_per_1k :: "int option"

text \<open>\<open>i64\<close>: the conversion from \<open>i128\<close> wraps, \<open>saturating_add\<close> saturates. A division rounds towards zero.\<close>

definition as_i64 :: "int \<Rightarrow> int" where
  "as_i64 n = (n + 2 ^ 63) mod 2 ^ 64 - 2 ^ 63"

definition i64_saturating_add :: "int \<Rightarrow> int \<Rightarrow> int" where
  "i64_saturating_add a b = max (- (2 ^ 63)) (min (a + b) (2 ^ 63 - 1))"

definition price_for_tokens :: "nat \<Rightarrow> int \<Rightarrow> int" where
  "price_for_tokens tokens price_per_1k = as_i64 ((int tokens * price_per_1k) sdiv 1000)"

definition charge :: "TokenAccountant \<Rightarrow> LlmTokenUsage_aise \<Rightarrow> LlmCharge option" where
  "charge a usage =
     (case (ta_input_price_per_1k a, ta_output_price_per_1k a) of
        (Some input_price, Some output_price) \<Rightarrow>
          (let cached_input = (case tu_cached_input_tokens usage of Some n \<Rightarrow> n | None \<Rightarrow> 0);
               non_cached_input = tu_input_tokens usage - cached_input;
               input_cost = price_for_tokens non_cached_input input_price;
               cached_cost = (case ta_cached_input_price_per_1k a of
                  Some price \<Rightarrow> price_for_tokens cached_input price | None \<Rightarrow> 0);
               output_cost = price_for_tokens (tu_output_tokens usage) output_price
           in Some \<lparr>chg_provider = ta_provider a, chg_model = ta_model a, chg_input_tokens = tu_input_tokens usage,
                chg_cached_input_tokens = cached_input, chg_output_tokens = tu_output_tokens usage,
                chg_amount_minor = i64_saturating_add (i64_saturating_add input_cost cached_cost) output_cost,
                chg_price_version = ta_price_version a\<rparr>)
      | _ \<Rightarrow> None)"

definition estimated_usage :: "str \<Rightarrow> nat \<Rightarrow> LlmTokenUsage_aise" where
  "estimated_usage t estimated_input =
     (let out = estimate_text_tokens t
      in \<lparr>tu_input_tokens = estimated_input, tu_cached_input_tokens = None, tu_output_tokens = out,
          tu_reasoning_tokens = None, tu_total_tokens = u64_sat_add estimated_input out, tu_accuracy = Estimated\<rparr>)"

section \<open>Rate limits\<close>

definition WINDOW :: nat where
  "WINDOW = 60000"

record RateGate =
  rg_limit :: nat
  rg_window :: "(nat \<times> nat) list"

text \<open>One round of the loop of \<open>RateGate::acquire\<close>: the wait it computes, if any.\<close>

definition rate_attempt :: "nat \<Rightarrow> nat \<Rightarrow> RateGate \<Rightarrow> nat option \<times> RateGate" where
  "rate_attempt now tokens g =
     (let w = dropWhile (\<lambda>(at, _). now - at \<ge> WINDOW) (rg_window g);
          used = sum_list (map snd w)
      in if u64_sat_add used tokens \<le> rg_limit g then (None, g\<lparr>rg_window := w @ [(now, tokens)]\<rparr>)
         else ((case w of [] \<Rightarrow> None | (at, _) # _ \<Rightarrow> Some (at + WINDOW - now)), g\<lparr>rg_window := w\<rparr>))"

text \<open>
  The loop itself over the rounds the environment gives it: the clock in the lock, the clock after it, and
  the clock when the sleep ends, or none when the cancellation comes first. With no further round it still waits.
\<close>

fun RateGate_acquire ::
  "(nat \<times> nat \<times> nat option) list \<Rightarrow> nat \<Rightarrow> nat \<Rightarrow> RateGate \<Rightarrow> (LlmError_aise + unit) option \<times> RateGate" where
  "RateGate_acquire [] tokens deadline g = (None, g)"
| "RateGate_acquire ((now, later, woken) # rounds) tokens deadline g =
     (case rate_attempt now tokens g of
        (None, g') \<Rightarrow> (Some (Inr ()), g')
      | (Some w, g') \<Rightarrow>
          if later \<ge> deadline then (Some (Inl LeTurnDeadlineExceeded), g')
          else (case woken of
              None \<Rightarrow> (Some (Inl LeCancelled), g')
            | Some now' \<Rightarrow>
                if now' \<ge> deadline then (Some (Inl LeTurnDeadlineExceeded), g')
                else RateGate_acquire rounds tokens deadline g'))"

datatype permit_outcome = PermitGranted | PermitCancelled | PermitSlept nat

definition acquire_permit :: "bool \<Rightarrow> nat \<Rightarrow> nat \<Rightarrow> permit_outcome \<Rightarrow> LlmError_aise + unit" where
  "acquire_permit is_cancelled now turn_deadline outcome =
     (if is_cancelled then Inl LeCancelled
      else if now \<ge> turn_deadline then Inl LeTurnDeadlineExceeded
      else (case outcome of
          PermitGranted \<Rightarrow> Inr ()
        | PermitCancelled \<Rightarrow> Inl LeCancelled
        | PermitSlept later \<Rightarrow> if later \<ge> turn_deadline then Inl LeTurnDeadlineExceeded else Inl LeQueueTimeout))"

section \<open>Structured output modes\<close>

datatype StructuredOutputMode = NativeJsonSchema | ForcedStrictTool | JsonObject | PromptFallback

definition PREFERENCE_ORDER :: "StructuredOutputMode list" where
  "PREFERENCE_ORDER = [NativeJsonSchema, ForcedStrictTool, JsonObject, PromptFallback]"

definition injects_prompt_contract :: "StructuredOutputMode \<Rightarrow> bool" where
  "injects_prompt_contract mode \<longleftrightarrow> mode = JsonObject \<or> mode = PromptFallback"

definition resolve_structured_output_mode ::
  "StructuredOutputMode list \<Rightarrow> StructuredOutputMode list \<Rightarrow> StructuredOutputMode option" where
  "resolve_structured_output_mode configured_modes encodable_modes =
     List.find (\<lambda>mode. mode \<in> set configured_modes \<and> mode \<in> set encodable_modes) PREFERENCE_ORDER"

record ModelStructuredOutputCapabilities =
  msc_provider :: str
  msc_model :: str
  msc_supported_modes :: "StructuredOutputMode list"

record StructuredOutputConfig =
  soc_default_modes :: "StructuredOutputMode list"
  soc_model_capabilities :: "ModelStructuredOutputCapabilities list"

definition configured_modes :: "StructuredOutputConfig \<Rightarrow> str \<Rightarrow> str \<Rightarrow> StructuredOutputMode list" where
  "configured_modes c provider model =
     (case List.find (\<lambda>e. msc_provider e = provider \<and> msc_model e = model) (soc_model_capabilities c) of
        Some e \<Rightarrow> msc_supported_modes e | None \<Rightarrow> soc_default_modes c)"

section \<open>The call\<close>

datatype completion_output = OutText | OutStructured StructuredOutputMode

record CompletionRequest =
  cr_model :: str
  cr_messages :: "ChatMessage_aise list"
  cr_max_tokens :: nat
  cr_purpose :: LlmCallPurpose
  cr_output :: completion_output

datatype CompletionOutputSpec = SpecText | SpecStructured

record CompletionSpec =
  cs_messages :: "ChatMessage_aise list"
  cs_max_output_tokens :: nat
  cs_purpose :: LlmCallPurpose
  cs_output :: CompletionOutputSpec

record EmbeddingOutput =
  eo_usage :: "LlmTokenUsage_aise option"
  eo_charge :: "LlmCharge option"

record LlmGateway_aise =
  gw_provider_name :: str
  gw_encodable_modes :: "StructuredOutputMode list"
  gw_model :: str
  gw_provider_timeout_ms :: nat
  gw_max_embedding_items :: nat
  gw_structured_output :: StructuredOutputConfig
  gw_accountant :: TokenAccountant

text \<open>\<open>TurnLlmCallScope\<close>: the budget and the list of calls it borrows from the turn, and the deadline.\<close>

record TurnLlmCallScope =
  sco_budget :: TurnBudget
  sco_llm_calls :: "LlmCallUsage list"
  sco_deadline :: nat

definition scope_release :: "TurnLlmCallScope \<Rightarrow> LlmBudgetReservation \<Rightarrow> TurnLlmCallScope" where
  "scope_release scope r = scope\<lparr>sco_budget := release_llm (sco_budget scope) r\<rparr>"

definition scope_settle ::
  "TurnLlmCallScope \<Rightarrow> LlmBudgetReservation \<Rightarrow> LlmCallUsage \<Rightarrow> (TurnExecutionError + unit) \<times> TurnLlmCallScope" where
  "scope_settle scope r usage =
     (case settle_llm (sco_budget scope) r usage of
        (Inl e, b) \<Rightarrow> (Inl e, scope\<lparr>sco_budget := b\<rparr>)
      | (Inr u, b) \<Rightarrow> (Inr (), scope\<lparr>sco_budget := b, sco_llm_calls := sco_llm_calls scope @ [usage]\<rparr>))"

definition scope_reserve ::
  "TurnLlmCallScope \<Rightarrow> LlmCallId \<Rightarrow> nat \<Rightarrow> nat \<Rightarrow> (TurnExecutionError + LlmBudgetReservation) \<times> TurnLlmCallScope" where
  "scope_reserve scope call_id estimated_input requested_output =
     (case reserve_llm (sco_budget scope) call_id estimated_input requested_output of
        (res, b) \<Rightarrow> (res, scope\<lparr>sco_budget := b\<rparr>))"

datatype 'a provider_outcome = Answered "LlmProviderError + 'a" | CancelledDuring | DeadlineDuring

record 'a call_env =
  ce_cancelled :: bool
  ce_started :: nat
  ce_quota :: "LlmError_aise + unit"
  ce_permit :: "LlmError_aise + unit"
  ce_sent :: nat
  ce_outcome :: "'a provider_outcome"

definition provider_result :: "LlmGateway_aise \<Rightarrow> TurnLlmCallScope \<Rightarrow> 'a call_env \<Rightarrow> LlmError_aise + 'a" where
  "provider_result gw scope env =
     (let provider_deadline = min (ce_sent env + gw_provider_timeout_ms gw) (sco_deadline scope);
          hits_turn_deadline = (provider_deadline = sco_deadline scope)
      in case ce_outcome env of
           Answered result \<Rightarrow> map_err LlmError_from result
         | CancelledDuring \<Rightarrow> Inl LeCancelled
         | DeadlineDuring \<Rightarrow> if hits_turn_deadline then Inl LeTurnDeadlineExceeded else Inl LeProviderTimeout)"

definition usage_to_call_usage ::
  "LlmGateway_aise \<Rightarrow> LlmCallId \<Rightarrow> LlmCallPurpose \<Rightarrow> LlmTokenUsage_aise \<Rightarrow> LlmCharge option \<Rightarrow> FinishReason option \<Rightarrow> LlmCallUsage" where
  "usage_to_call_usage gw call_id purpose usage chg finish_reason =
     \<lparr>cu_call_id = call_id, cu_purpose = purpose, cu_provider = gw_provider_name gw, cu_model = gw_model gw,
      cu_input_tokens = tu_input_tokens usage, cu_cached_input_tokens = tu_cached_input_tokens usage,
      cu_output_tokens = tu_output_tokens usage, cu_total_tokens = tu_total_tokens usage,
      cu_accuracy = tu_accuracy usage, cu_pricing_version = None, cu_charge = chg, cu_finish_reason = finish_reason\<rparr>"

definition budget_to_llm :: "TurnExecutionError \<Rightarrow> LlmError_aise" where
  "budget_to_llm error =
     (case tee_kind error of
        FkCancelled \<Rightarrow> LeCancelled
      | FkDeadlineExceeded \<Rightarrow> LeTurnDeadlineExceeded
      | FkTokenBudgetExceeded \<Rightarrow> LeTokenBudgetExceeded (TurnExecutionError_display error)
      | _ \<Rightarrow> LeProtocol PrUnsupported)"

text \<open>The completion after the provider answered: usage and charge filled in, empty and undecodable texts refused.\<close>

definition completed ::
  "LlmGateway_aise \<Rightarrow> nat \<Rightarrow> LlmError_aise + LlmCompletion \<Rightarrow> LlmCompletion option \<times> LlmError_aise option" where
  "completed gw estimated_input outcome =
     (case outcome of
        Inr c \<Rightarrow>
          (let c = (case lc_usage c of None \<Rightarrow> c\<lparr>lc_usage := Some (estimated_usage (lc_text c) estimated_input)\<rparr> | Some _ \<Rightarrow> c);
               c = (case lc_charge c of None \<Rightarrow> c\<lparr>lc_charge := charge (gw_accountant gw) (the (lc_usage c))\<rparr> | Some _ \<Rightarrow> c)
           in if trim (lc_text c) = [] then (None, Some (LeProtocol PrEmptyChoices)) else (Some c, None))
      | Inl error \<Rightarrow> (None, Some error))"

definition check_structured ::
  "(str \<Rightarrow> bool) option \<Rightarrow> LlmCompletion option \<times> LlmError_aise option \<Rightarrow> LlmCompletion option \<times> LlmError_aise option" where
  "check_structured check result =
     (case (check, result) of
        (Some decodes, (Some seen, err)) \<Rightarrow>
          if \<not> decodes (lc_text seen) then (None, Some (LeProtocol PrInvalidStructuredOutput)) else result
      | _ \<Rightarrow> result)"

datatype finished = FinishCall "LlmError_aise option" "LlmTokenUsage_aise option"
  | FinishGeneration "LlmCompletion option" "LlmError_aise option" LlmTokenUsage_aise

definition settle_call ::
  "LlmGateway_aise \<Rightarrow> TurnLlmCallScope \<Rightarrow> CompletionRequest \<Rightarrow> LlmBudgetReservation \<Rightarrow> nat \<Rightarrow>
   LlmCompletion option \<times> LlmError_aise option \<Rightarrow> (LlmError_aise + LlmCompletion) \<times> TurnLlmCallScope \<times> finished list" where
  "settle_call gw scope request r estimated_input result =
     (case result of (completion, provider_error) \<Rightarrow>
        let usage = (case Option.bind completion lc_usage of Some u \<Rightarrow> u | None \<Rightarrow> estimated_usage [] estimated_input);
            call_usage = usage_to_call_usage gw (res_call_id r) (cr_purpose request) usage
              (Option.bind completion lc_charge) (Option.bind completion lc_finish_reason)
        in case scope_settle scope r call_usage of
             (settle, scope') \<Rightarrow>
               ((case settle of
                   Inl e \<Rightarrow> Inl (budget_to_llm e)
                 | Inr _ \<Rightarrow>
                     (case completion of
                        Some c \<Rightarrow> Inr c
                      | None \<Rightarrow> Inl (case provider_error of Some e \<Rightarrow> e | None \<Rightarrow> LeProtocol PrUnsupported))),
                scope', [FinishGeneration completion provider_error usage]))"

definition run_call ::
  "LlmGateway_aise \<Rightarrow> LlmCompletion call_env \<Rightarrow> TurnLlmCallScope \<Rightarrow> CompletionRequest \<Rightarrow> LlmBudgetReservation \<Rightarrow>
   (str \<Rightarrow> bool) option \<Rightarrow> (LlmError_aise + LlmCompletion) \<times> TurnLlmCallScope \<times> finished list" where
  "run_call gw env scope request r check =
     (let give_up = (\<lambda>error. (Inl error, scope_release scope r, [FinishCall (Some error) None]))
      in if ce_cancelled env then give_up LeCancelled
         else if ce_started env \<ge> sco_deadline scope then give_up LeTurnDeadlineExceeded
         else (let estimated_input = estimate_input_tokens (cr_messages request) in
           (case ce_quota env of
              Inl error \<Rightarrow> give_up error
            | Inr _ \<Rightarrow>
                (case ce_permit env of
                   Inl error \<Rightarrow> give_up error
                 | Inr _ \<Rightarrow>
                     settle_call gw scope request r estimated_input
                       (check_structured check (completed gw estimated_input (provider_result gw scope env)))))))"

definition execute_call ::
  "LlmGateway_aise \<Rightarrow> LlmCompletion call_env \<Rightarrow> TurnLlmCallScope \<Rightarrow> CompletionRequest \<Rightarrow> bool \<Rightarrow> bool \<Rightarrow> LlmBudgetReservation \<Rightarrow>
   (LlmError_aise + LlmCompletion) \<times> TurnLlmCallScope \<times> finished list" where
  "execute_call gw env scope request stream has_sink r =
     (if stream \<and> \<not> has_sink then (Inl (LeProtocol PrInvalidSseLine), scope, [])
      else run_call gw env scope request r None)"

text \<open>\<open>complete\<close> and \<open>complete_stream\<close>: the stream hands its deltas to the sink, and differs in nothing else.\<close>

definition complete_aise ::
  "LlmGateway_aise \<Rightarrow> LlmCompletion call_env \<Rightarrow> TurnLlmCallScope \<Rightarrow> CompletionSpec \<Rightarrow> LlmBudgetReservation \<Rightarrow>
   (LlmError_aise + LlmCompletion) \<times> TurnLlmCallScope \<times> finished list" where
  "complete_aise gw env scope spec r =
     (case cs_output spec of
        SpecStructured \<Rightarrow> (Inl (LeProtocol PrUnsupported), scope_release scope r, [])
      | SpecText \<Rightarrow>
          execute_call gw env scope
            \<lparr>cr_model = gw_model gw, cr_messages = cs_messages spec, cr_max_tokens = cs_max_output_tokens spec,
             cr_purpose = cs_purpose spec, cr_output = OutText\<rparr> False False r)"

definition complete_stream ::
  "LlmGateway_aise \<Rightarrow> LlmCompletion call_env \<Rightarrow> TurnLlmCallScope \<Rightarrow> CompletionSpec \<Rightarrow> LlmBudgetReservation \<Rightarrow>
   (LlmError_aise + LlmCompletion) \<times> TurnLlmCallScope \<times> finished list" where
  "complete_stream gw env scope spec r =
     (case cs_output spec of
        SpecStructured \<Rightarrow> (Inl (LeProtocol PrUnsupported), scope_release scope r, [])
      | SpecText \<Rightarrow>
          run_call gw env scope
            \<lparr>cr_model = gw_model gw, cr_messages = cs_messages spec, cr_max_tokens = cs_max_output_tokens spec,
             cr_purpose = cs_purpose spec, cr_output = OutText\<rparr> r None)"

section \<open>Composed calls\<close>

record PromptComposition =
  pc_csi :: str
  pc_rc :: str
  pc_fti :: str

definition composition_messages :: "PromptComposition \<Rightarrow> ChatMessage_aise list" where
  "composition_messages c =
     [\<lparr>cm_role = RoleSystem, cm_content = pc_csi c\<rparr>, \<lparr>cm_role = RoleUser, cm_content = pc_rc c\<rparr>,
      \<lparr>cm_role = RoleSystem, cm_content = pc_fti c\<rparr>]"

definition complete_text_composed ::
  "LlmGateway_aise \<Rightarrow> LlmCompletion call_env \<Rightarrow> LlmCallId \<Rightarrow> TurnLlmCallScope \<Rightarrow> PromptComposition option \<Rightarrow> nat \<Rightarrow> LlmCallPurpose \<Rightarrow>
   (LlmError_aise + LlmCompletion) \<times> TurnLlmCallScope \<times> finished list" where
  "complete_text_composed gw env call_id scope rendered max_output_tokens purpose =
     (case rendered of
        None \<Rightarrow> (Inl (LeProtocol PrUnsupported), scope, [])
      | Some composition \<Rightarrow>
          (let spec = \<lparr>cs_messages = composition_messages composition, cs_max_output_tokens = max_output_tokens,
                 cs_purpose = purpose, cs_output = SpecText\<rparr>
           in case scope_reserve scope call_id (estimate_input_tokens (cs_messages spec)) (cs_max_output_tokens spec) of
                (Inl error, scope) \<Rightarrow> (Inl (LeTokenBudgetExceeded (TurnExecutionError_display error)), scope, [])
              | (Inr r, scope) \<Rightarrow> complete_aise gw env scope spec r))"

text \<open>
  \<open>decode\<close> is \<open>serde_json::from_str\<close> at the type of the contract, \<open>validate\<close> the contract's check,
  \<open>shape\<close> its compact prompt shape.
\<close>

definition complete_structured_composed ::
  "LlmGateway_aise \<Rightarrow> LlmCompletion call_env \<Rightarrow> LlmCallId \<Rightarrow> TurnLlmCallScope \<Rightarrow> PromptComposition option \<Rightarrow> nat \<Rightarrow> LlmCallPurpose \<Rightarrow>
   (str \<Rightarrow> 'v option) \<Rightarrow> ('v \<Rightarrow> bool) \<Rightarrow> str \<Rightarrow>
   (LlmError_aise + 'v \<times> LlmCompletion) \<times> TurnLlmCallScope \<times> finished list" where
  "complete_structured_composed gw env call_id scope rendered max_output_tokens purpose decode valid shape =
     (case resolve_structured_output_mode (configured_modes (gw_structured_output gw) (gw_provider_name gw) (gw_model gw))
             (gw_encodable_modes gw) of
        None \<Rightarrow> (Inl (LeProtocol PrStructuredOutputUnsupported), scope, [])
      | Some mode \<Rightarrow>
          (case rendered of
             None \<Rightarrow> (Inl (LeProtocol PrUnsupported), scope, [])
           | Some composition \<Rightarrow>
               (let messages = composition_messages composition @
                      (if injects_prompt_contract mode then [\<lparr>cm_role = RoleSystem, cm_content = shape\<rparr>] else []);
                    check = (\<lambda>t. case decode t of None \<Rightarrow> False | Some v \<Rightarrow> valid v);
                    request = \<lparr>cr_model = gw_model gw, cr_messages = messages, cr_max_tokens = max_output_tokens,
                      cr_purpose = purpose, cr_output = OutStructured mode\<rparr>
                in case scope_reserve scope call_id (estimate_input_tokens messages) max_output_tokens of
                     (Inl error, scope) \<Rightarrow> (Inl (LeTokenBudgetExceeded (TurnExecutionError_display error)), scope, [])
                   | (Inr r, scope) \<Rightarrow>
                       (case run_call gw env scope request r (Some check) of
                          (Inl error, rest) \<Rightarrow> (Inl error, rest)
                        | (Inr completion, rest) \<Rightarrow>
                            (case decode (lc_text completion) of
                               None \<Rightarrow> (Inl (LeProtocol PrInvalidStructuredOutput), rest)
                             | Some v \<Rightarrow> if valid v then (Inr (v, completion), rest)
                                 else (Inl (LeProtocol PrInvalidStructuredOutput), rest))))))"

definition embed ::
  "LlmGateway_aise \<Rightarrow> EmbeddingOutput call_env \<Rightarrow> TurnLlmCallScope \<Rightarrow> str list \<Rightarrow> LlmBudgetReservation \<Rightarrow>
   (LlmError_aise + EmbeddingOutput) \<times> TurnLlmCallScope \<times> finished list" where
  "embed gw env scope inputs r =
     (let give_up = (\<lambda>error. (Inl error, scope_release scope r, []))
      in if ce_cancelled env then give_up LeCancelled
         else if length inputs > gw_max_embedding_items gw then give_up (LeResponseLimitExceeded RlEmbeddingItems)
         else if ce_started env \<ge> sco_deadline scope then give_up LeTurnDeadlineExceeded
         else (let estimated_input = sum_list (map estimate_text_tokens inputs) in
           (case ce_quota env of
              Inl error \<Rightarrow> give_up error
            | Inr _ \<Rightarrow>
                (case ce_permit env of
                   Inl error \<Rightarrow> give_up error
                 | Inr _ \<Rightarrow>
                     (let outcome = provider_result gw scope env;
                          output = (case outcome of Inr out \<Rightarrow> Some out | Inl _ \<Rightarrow> None);
                          provider_error = (case outcome of Inr _ \<Rightarrow> None | Inl e \<Rightarrow> Some e);
                          usage = (case Option.bind output eo_usage of
                              Some u \<Rightarrow> u
                            | None \<Rightarrow> \<lparr>tu_input_tokens = estimated_input, tu_cached_input_tokens = None, tu_output_tokens = 0,
                                tu_reasoning_tokens = None, tu_total_tokens = estimated_input, tu_accuracy = Estimated\<rparr>);
                          call_usage = usage_to_call_usage gw (res_call_id r) PpEmbedding usage (Option.bind output eo_charge) None
                      in case scope_settle scope r call_usage of
                           (settle, scope') \<Rightarrow>
                             ((case settle of
                                 Inl e \<Rightarrow> Inl (budget_to_llm e)
                               | Inr _ \<Rightarrow>
                                   (case output of
                                      Some out \<Rightarrow> Inr out
                                    | None \<Rightarrow> Inl (case provider_error of Some e \<Rightarrow> e | None \<Rightarrow> LeProtocol PrUnsupported))),
                              scope', [FinishCall provider_error (Some usage)]))))))"

end
