(* ===== verification/Gateway_Safety.thy ===== *)
theory Gateway_Safety
  imports Call_Gateway
begin

text \<open>
  The contract between the model gateway and the budget of the turn: whatever happens to a call, its
  reservation is given back once, so that the budget is what it was before the call, or that and the usage of
  the one call that is recorded. The locale \<open>metered_calls\<close> states the contract for any kind of call and
  derives the limits of a whole turn from it; its interpretation shows that the calls of the gateway keep it.
\<close>

section \<open>A reservation given back\<close>

lemma reserve_release:
  assumes "reserve_llm b call_id i m = (Inr r, b')" and "finite_limits (bud_limits b)"
  shows "release_llm b' r = b"
proof -
  let ?u = "bud_usage b"
  from assms have r: "r = \<lparr>res_call_id = call_id, res_input_tokens = i, res_output_tokens = m\<rparr>"
    and b': "b' = b\<lparr>bud_usage := ?u\<lparr>use_input_tokens := use_input_tokens ?u + i,
        use_output_tokens := use_output_tokens ?u + m, use_total_tokens := use_total_tokens ?u + i + m\<rparr>\<rparr>"
    by (auto simp: reserve_llm_def Let_def u64_sat_add_def finite_limits_def split: if_splits)
  show ?thesis by (simp add: release_llm_def Let_def b' r)
qed

lemma reserve_calls_left:
  "reserve_llm b call_id i m = (Inr r, b') \<Longrightarrow>
     use_llm_calls (bud_usage b) < lim_max_llm_calls (bud_limits b) \<and> res_call_id r = call_id"
  by (auto simp: reserve_llm_def Let_def split: if_splits)

lemma reserve_refused_same: "reserve_llm b call_id i m = (Inl e, b') \<Longrightarrow> b' = b"
  by (auto simp: reserve_llm_def Let_def split: if_splits)

text \<open>The budget after one more call of the given usage.\<close>

definition charged :: "TurnBudget \<Rightarrow> LlmCallUsage \<Rightarrow> TurnBudget" where
  "charged b u =
     (let usage = bud_usage b
      in b\<lparr>bud_usage := usage\<lparr>use_llm_calls := use_llm_calls usage + 1,
             use_input_tokens := use_input_tokens usage + cu_input_tokens u,
             use_output_tokens := use_output_tokens usage + cu_output_tokens u,
             use_total_tokens := use_total_tokens usage + cu_input_tokens u + cu_output_tokens u\<rparr>\<rparr>)"

definition within_limits :: "TurnBudget \<Rightarrow> bool" where
  "within_limits b \<longleftrightarrow>
     use_input_tokens (bud_usage b) \<le> lim_max_input_tokens (bud_limits b) \<and>
     use_output_tokens (bud_usage b) \<le> lim_max_output_tokens (bud_limits b) \<and>
     use_total_tokens (bud_usage b) \<le> lim_max_total_tokens (bud_limits b) \<and>
     use_llm_calls (bud_usage b) \<le> lim_max_llm_calls (bud_limits b)"

lemma settle_charged:
  assumes "settle_llm b r u = (Inr x, b')" and "finite_limits (bud_limits (release_llm b r))"
  shows "b' = charged (release_llm b r) u"
  using assms
  by (auto simp: settle_llm_def Let_def charged_def u64_sat_add_def finite_limits_def split: if_splits)

lemma settle_within:
  assumes "settle_llm b r u = (Inr x, b')" and "lim_max_llm_calls (bud_limits (release_llm b r)) > use_llm_calls (bud_usage (release_llm b r))"
  shows "within_limits b'"
proof -
  have "use_llm_calls (bud_usage (release_llm b r)) + 1 \<le> lim_max_llm_calls (bud_limits (release_llm b r))"
    using unat_bump [OF assms(2)] assms(2) by (simp add: word_le_nat_alt word_less_nat_alt)
  then show ?thesis
    using assms(1) by (auto simp: settle_llm_def Let_def within_limits_def split: if_splits)
qed

lemma settle_refused_same: "settle_llm b r u = (Inl e, b') \<Longrightarrow> b' = release_llm b r \<and> tee_kind e = FkTokenBudgetExceeded"
  by (auto simp: settle_llm_def Let_def budget_error_def turn_error_def split: if_splits)

section \<open>Metered calls\<close>

definition call_effect :: "TurnLlmCallScope \<Rightarrow> TurnLlmCallScope \<Rightarrow> bool" where
  "call_effect scope scope' \<longleftrightarrow>
     scope' = scope \<or>
     (\<exists>u. scope' = scope\<lparr>sco_budget := charged (sco_budget scope) u, sco_llm_calls := sco_llm_calls scope @ [u]\<rparr>
        \<and> use_llm_calls (bud_usage (sco_budget scope)) < lim_max_llm_calls (bud_limits (sco_budget scope))
        \<and> within_limits (sco_budget scope'))"

definition ledger_exact :: "TurnLlmCallScope \<Rightarrow> bool" where
  "ledger_exact scope \<longleftrightarrow>
     (let usage = bud_usage (sco_budget scope); calls = sco_llm_calls scope
      in use_llm_calls usage = of_nat (length calls) \<and>
         use_input_tokens usage = sum_list (map cu_input_tokens calls) \<and>
         use_output_tokens usage = sum_list (map cu_output_tokens calls) \<and>
         use_total_tokens usage = sum_list (map cu_input_tokens calls) + sum_list (map cu_output_tokens calls) \<and>
         length calls \<le> unat (lim_max_llm_calls (bud_limits (sco_budget scope))) \<and>
         within_limits (sco_budget scope))"

locale metered_calls =
  fixes call :: "'c \<Rightarrow> TurnLlmCallScope \<Rightarrow> TurnLlmCallScope"
  assumes effect: "finite_limits (bud_limits (sco_budget scope)) \<Longrightarrow> call_effect scope (call c scope)"
begin

lemma call_limits:
  "finite_limits (bud_limits (sco_budget scope)) \<Longrightarrow> bud_limits (sco_budget (call c scope)) = bud_limits (sco_budget scope)"
  using effect [of scope c] by (auto simp: call_effect_def charged_def Let_def)

lemma call_ledger:
  assumes "finite_limits (bud_limits (sco_budget scope))" and led: "ledger_exact scope"
  shows "ledger_exact (call c scope)"
proof -
  consider "call c scope = scope"
    | u where "call c scope = scope\<lparr>sco_budget := charged (sco_budget scope) u, sco_llm_calls := sco_llm_calls scope @ [u]\<rparr>"
      "use_llm_calls (bud_usage (sco_budget scope)) < lim_max_llm_calls (bud_limits (sco_budget scope))"
      "within_limits (charged (sco_budget scope) u)"
    using effect [OF assms(1), of c] by (auto simp: call_effect_def)
  then show ?thesis
  proof cases
    case 1
    then show ?thesis using led by simp
  next
    case 2
    let ?l = "bud_limits (sco_budget scope)" and ?n = "use_llm_calls (bud_usage (sco_budget scope))"
    have n: "?n = of_nat (length (sco_llm_calls scope))" "length (sco_llm_calls scope) \<le> unat (lim_max_llm_calls ?l)"
      using led by (simp_all add: ledger_exact_def Let_def)
    then have "unat ?n = length (sco_llm_calls scope)"
      using unat_u32_less [of "lim_max_llm_calls ?l"] by (simp add: unat_of_nat)
    then have "length (sco_llm_calls scope) + 1 \<le> unat (lim_max_llm_calls ?l)"
      using 2(2) by (simp add: word_less_nat_alt)
    then show ?thesis
      using led 2(1,3) by (simp add: ledger_exact_def charged_def Let_def)
  qed
qed

lemma calls_ledger:
  assumes "finite_limits (bud_limits (sco_budget scope))" and "ledger_exact scope"
  shows "ledger_exact (fold call cs scope)
    \<and> bud_limits (sco_budget (fold call cs scope)) = bud_limits (sco_budget scope)"
  using assms
proof (induction cs arbitrary: scope)
  case (Cons c cs)
  then show ?case using call_ledger [of scope c] call_limits [of scope c] by simp
qed simp

end

section \<open>The calls of the gateway are metered\<close>

lemma released_effect:
  assumes "scope_reserve scope call_id i m = (Inr r, scope')" and "finite_limits (bud_limits (sco_budget scope))"
  shows "scope_release scope' r = scope"
  using assms reserve_release [of "sco_budget scope" call_id i m r]
  by (auto simp: scope_reserve_def scope_release_def split: prod.splits)

lemma settled_effect:
  assumes "scope_reserve scope call_id i m = (Inr r, scope')" and "finite_limits (bud_limits (sco_budget scope))"
    and "scope_settle scope' r u = (res, scope'')"
  shows "if isl res then scope'' = scope
     else scope'' = scope\<lparr>sco_budget := charged (sco_budget scope) u, sco_llm_calls := sco_llm_calls scope @ [u]\<rparr>
       \<and> use_llm_calls (bud_usage (sco_budget scope)) < lim_max_llm_calls (bud_limits (sco_budget scope))
       \<and> within_limits (sco_budget scope'')"
proof -
  obtain b where b: "reserve_llm (sco_budget scope) call_id i m = (Inr r, b)" "scope' = scope\<lparr>sco_budget := b\<rparr>"
    using assms(1) by (auto simp: scope_reserve_def split: prod.splits)
  note rel = reserve_release [OF b(1) assms(2)]
  note room = reserve_calls_left [OF b(1), THEN conjunct1]
  show ?thesis
  proof (cases "settle_llm b r u")
    case (Pair x b')
    show ?thesis
    proof (cases x)
      case (Inl e)
      then show ?thesis
        using Pair assms(3) b(2) rel settle_refused_same [of b r u e b'] by (auto simp: scope_settle_def)
    next
      case (Inr y)
      then have ok: "settle_llm b r u = (Inr y, b')" using Pair by simp
      have "b' = charged (sco_budget scope) u" using settle_charged [OF ok] assms(2) rel by simp
      moreover have "within_limits b'" using settle_within [OF ok] room rel by simp
      ultimately show ?thesis using ok assms(3) b(2) room by (auto simp: scope_settle_def)
    qed
  qed
qed

lemma settle_call_scope:
  assumes "settle_call gw scope request r n x = (out, scope', finishes)"
  shows "\<exists>u. (\<exists>e. scope_settle scope r u = (Inl e, scope') \<and> isl out) \<or> scope_settle scope r u = (Inr (), scope')"
    and "length finishes = 1"
  using assms by (cases x; auto simp: settle_call_def Let_def split: prod.splits sum.splits option.splits; blast)+

text \<open>However a call ends, its observation is finished once, its reservation is given back once, and only a settled call returns an answer.\<close>

lemma run_call_effect:
  assumes res: "scope_reserve scope call_id i m = (Inr r, scope')" and fin: "finite_limits (bud_limits (sco_budget scope))"
    and run: "run_call gw env scope' request r check = (out, scope'', finishes)"
  shows "call_effect scope scope'' \<and> length finishes = 1
    \<and> (\<not> isl out \<longrightarrow> sco_llm_calls scope'' \<noteq> sco_llm_calls scope)"
proof -
  define x where "x = check_structured check
    (completed gw (estimate_input_tokens (cr_messages request)) (provider_result gw scope' env))"
  consider (given_up) "scope'' = scope_release scope' r" "isl out" "length finishes = 1"
    | (settled) "settle_call gw scope' request r (estimate_input_tokens (cr_messages request)) x = (out, scope'', finishes)"
    using run by (auto simp: run_call_def Let_def x_def split: if_splits sum.splits)
  then show ?thesis
  proof cases
    case given_up
    then show ?thesis using released_effect [OF res fin] by (auto simp: call_effect_def)
  next
    case settled
    then show ?thesis
      using settle_call_scope [OF settled] settled_effect [OF res fin] by (fastforce simp: call_effect_def)
  qed
qed

lemma reserve_refused_scope: "scope_reserve scope call_id i m = (Inl e, scope') \<Longrightarrow> scope' = scope"
  by (auto simp: scope_reserve_def split: prod.splits dest: reserve_refused_same)

datatype 'v gateway_call =
    TextCall "LlmCompletion call_env" LlmCallId "PromptComposition option" nat LlmCallPurpose
  | StructuredCall "LlmCompletion call_env" LlmCallId "PromptComposition option" nat LlmCallPurpose
      "str \<Rightarrow> 'v option" "'v \<Rightarrow> bool" str

fun run_gateway_call :: "LlmGateway_aise \<Rightarrow> 'v gateway_call \<Rightarrow> TurnLlmCallScope \<Rightarrow> TurnLlmCallScope" where
  "run_gateway_call gw (TextCall env call_id rendered m purpose) scope =
     fst (snd (complete_text_composed gw env call_id scope rendered m purpose))"
| "run_gateway_call gw (StructuredCall env call_id rendered m purpose decode valid shape) scope =
     fst (snd (complete_structured_composed gw env call_id scope rendered m purpose decode valid shape))"

lemma text_call_effect:
  assumes "finite_limits (bud_limits (sco_budget scope))"
    and "complete_text_composed gw env call_id scope rendered m purpose = (out, scope', finishes)"
  shows "call_effect scope scope' \<and> (\<not> isl out \<longrightarrow> sco_llm_calls scope' \<noteq> sco_llm_calls scope)"
proof (cases rendered)
  case None
  then show ?thesis using assms(2) by (auto simp: complete_text_composed_def call_effect_def)
next
  case (Some c)
  obtain x s where r: "scope_reserve scope call_id (estimate_input_tokens (composition_messages c)) m = (x, s)"
    by fastforce
  show ?thesis
  proof (cases x)
    case (Inl e)
    then show ?thesis
      using r assms(2) Some reserve_refused_scope [of scope call_id _ m e s]
      by (auto simp: complete_text_composed_def Let_def call_effect_def)
  next
    case (Inr y)
    then show ?thesis
      using r assms(2) Some run_call_effect [OF _ assms(1), of call_id _ m y s gw env _ None]
      by (auto simp: complete_text_composed_def Let_def complete_aise_def execute_call_def)
  qed
qed

lemma structured_call_effect:
  assumes "finite_limits (bud_limits (sco_budget scope))"
    and "complete_structured_composed gw env call_id scope rendered m purpose decode valid shape = (out, scope', finishes)"
  shows "call_effect scope scope'
    \<and> (\<forall>v c. out = Inr (v, c) \<longrightarrow> decode (lc_text c) = Some v \<and> valid v \<and> sco_llm_calls scope' \<noteq> sco_llm_calls scope)"
proof -
  have same: "call_effect scope scope" by (simp add: call_effect_def)
  show ?thesis
  proof (cases "\<exists>mode c. resolve_structured_output_mode
      (configured_modes (gw_structured_output gw) (gw_provider_name gw) (gw_model gw)) (gw_encodable_modes gw) = Some mode
      \<and> rendered = Some c")
    case False
    then show ?thesis
      using assms(2) same by (auto simp: complete_structured_composed_def split: option.splits)
  next
    case True
    then obtain mode c where mc: "resolve_structured_output_mode
      (configured_modes (gw_structured_output gw) (gw_provider_name gw) (gw_model gw)) (gw_encodable_modes gw) = Some mode"
      "rendered = Some c" by blast
    define ms where "ms = composition_messages c @
      (if injects_prompt_contract mode then [\<lparr>cm_role = RoleSystem, cm_content = shape\<rparr>] else [])"
    obtain x s where r: "scope_reserve scope call_id (estimate_input_tokens ms) m = (x, s)" by fastforce
    show ?thesis
    proof (cases x)
      case (Inl e)
      then show ?thesis
        using r assms(2) mc reserve_refused_scope [of scope call_id _ m e s] same
        by (auto simp: complete_structured_composed_def Let_def ms_def)
    next
      case (Inr y)
      define rq where "rq = \<lparr>cr_model = gw_model gw, cr_messages = ms, cr_max_tokens = m, cr_purpose = purpose,
        cr_output = OutStructured mode\<rparr>"
      obtain out' s'' fs where run: "run_call gw env s rq y
          (Some (\<lambda>t. case decode t of None \<Rightarrow> False | Some v \<Rightarrow> valid v)) = (out', s'', fs)"
        by (metis prod_cases3)
      have scope': "scope' = s''" and out: "\<forall>v c. out = Inr (v, c) \<longrightarrow> out' = Inr c \<and> decode (lc_text c) = Some v \<and> valid v"
        using assms(2) mc r Inr run
        by (auto simp: complete_structured_composed_def Let_def ms_def rq_def split: sum.splits option.splits if_splits)
      show ?thesis
        using run_call_effect [OF r [unfolded Inr] assms(1) run] scope' out by auto
    qed
  qed
qed

lemma gateway_call_effect:
  assumes "finite_limits (bud_limits (sco_budget scope))"
  shows "call_effect scope (run_gateway_call gw c scope)"
proof (cases c)
  case (TextCall env call_id rendered m purpose)
  obtain out s' fs where "complete_text_composed gw env call_id scope rendered m purpose = (out, s', fs)"
    by (metis prod_cases3)
  then show ?thesis using text_call_effect [OF assms, of gw env call_id rendered m purpose out s' fs] TextCall by simp
next
  case (StructuredCall env call_id rendered m purpose decode valid shape)
  obtain out s' fs where
    "complete_structured_composed gw env call_id scope rendered m purpose decode valid shape = (out, s', fs)"
    by (metis prod_cases3)
  then show ?thesis
    using structured_call_effect [OF assms, of gw env call_id rendered m purpose decode valid shape out s' fs] StructuredCall
    by simp
qed

interpretation gc: metered_calls "run_gateway_call gw" for gw
  by unfold_locales (rule gateway_call_effect)


section \<open>Rate limits and prices\<close>

text \<open>What a window has admitted and recorded stays within the limit, through every wait and refusal.\<close>

lemma sum_dropWhile_le: "sum_list (map f (dropWhile P xs)) \<le> (sum_list (map f xs) :: nat)"
  by (induction xs) auto

lemma rate_attempt_bounded:
  assumes "rate_attempt now tokens g = (w, g')" and "sum_list (map snd (rg_window g)) \<le> rg_limit g" and "rg_limit g < u64_max"
  shows "sum_list (map snd (rg_window g')) \<le> rg_limit g' \<and> rg_limit g' = rg_limit g"
  using assms order_trans [OF sum_dropWhile_le assms(2)]
  by (auto simp: rate_attempt_def Let_def u64_sat_add_def split: if_splits)

lemma RateGate_acquire_bounded:
  assumes "RateGate_acquire rounds tokens deadline g = (res, g')"
    and "sum_list (map snd (rg_window g)) \<le> rg_limit g" and "rg_limit g < u64_max"
  shows "sum_list (map snd (rg_window g')) \<le> rg_limit g'"
  using assms
proof (induction rounds tokens deadline g rule: RateGate_acquire.induct)
  case (2 now later woken rounds tokens deadline g)
  obtain w h where a: "rate_attempt now tokens g = (w, h)" by fastforce
  note b = rate_attempt_bounded [OF a "2.prems"(2,3)]
  show ?case
    using "2.prems"(1,3) "2.IH" [OF a [symmetric]] a b by (auto split: option.splits if_splits)
qed simp

text \<open>
  A request above the limit is not refused: it waits until the window is empty, and then passes without being
  recorded, as often as it comes.
\<close>

lemma oversized_admitted:
  assumes "rg_limit g < tokens" and "tokens \<le> u64_max"
    and "\<forall>(at, n) \<in> set (rg_window g). WINDOW \<le> now - at"
  shows "RateGate_acquire ((now, later, woken) # rounds) tokens deadline g = (Some (Inr ()), g\<lparr>rg_window := []\<rparr>)"
proof -
  have gone: "dropWhile (\<lambda>(at, _). WINDOW \<le> now - at) (rg_window g) = []"
    using assms(3) by (auto simp: dropWhile_eq_Nil_conv)
  have "rate_attempt now tokens g = (None, g\<lparr>rg_window := []\<rparr>)"
    using assms(1,2) unfolding rate_attempt_def gone by (simp add: u64_sat_add_def)
  then show ?thesis by simp
qed

lemma as_i64_id: "- (2 ^ 63) \<le> n \<Longrightarrow> n < 2 ^ 63 \<Longrightarrow> as_i64 n = n"
  by (simp add: as_i64_def)

lemma price_exact:
  assumes "0 \<le> price" and "int tokens * price < 1000 * 2 ^ 63"
  shows "price_for_tokens tokens price = int tokens * price div 1000"
proof -
  have q: "(int tokens * price) sdiv 1000 = int tokens * price div 1000"
    using assms(1) by (simp add: signed_divide_int_def sgn_if)
  have "0 \<le> int tokens * price" using assms(1) by simp
  then have "0 \<le> int tokens * price div 1000" "int tokens * price div 1000 < 2 ^ 63" using assms(2) by linarith+
  then show ?thesis unfolding price_for_tokens_def q by (intro as_i64_id) linarith+
qed

end
