(* ===== verification/Turn_Data.thy ===== *)
theory Turn_Data
  imports Turn_Contract
begin

text \<open>
  The data of a turn of the crate \<open>aise\<close> that carries rules of its own: the continuity of a story
  (\<open>domain/narrative.rs\<close>, \<open>domain/story_sequence.rs\<close>) and the retrieved context
  (\<open>domain/turn/retrieval.rs\<close>), with the plan and the decisions (\<open>domain/turn/planning.rs\<close>,
  \<open>domain/turn/character/decision.rs\<close>). A \<open>BoundedText\<close> is its text; a \<open>BTreeMap\<close> is the
  list of its entries in key order.
\<close>

section \<open>Continuity\<close>

datatype StoryContinuityError = ZeroSequence | SequenceOverflow | InvalidSummaryBoundary | OutOfOrder | Overlap | Gap
  | ContinuityLimitExceeded string

definition StorySequence_try_new :: "nat \<Rightarrow> StoryContinuityError + nat" where
  "StorySequence_try_new v = (if v = 0 then Inl ZeroSequence else Inr v)"

definition StorySequence_next :: "nat \<Rightarrow> StoryContinuityError + nat" where
  "StorySequence_next s = (if s + 1 > u64_max then Inl SequenceOverflow else StorySequence_try_new (s + 1))"

datatype StorySegmentOrigin = OriginOpening | OriginTurn nat

record StorySegment =
  seg_sequence :: nat
  seg_origin :: StorySegmentOrigin
  seg_text :: str

record StorySummary_aise =
  sum_text :: str
  sum_summarized_through :: "nat option"

record StoryContinuity =
  con_summary :: StorySummary_aise
  con_recent_segments :: "StorySegment list"

record StoryContinuityLimits =
  scl_max_summary_bytes :: nat
  scl_max_recent_segments :: nat
  scl_max_recent_segment_bytes :: nat
  scl_max_recent_segment_tokens :: nat

definition first_segment_check :: "nat option \<Rightarrow> StorySegment list \<Rightarrow> StoryContinuityError + unit" where
  "first_segment_check boundary segments =
     (case (boundary, segments) of
        (_, []) \<Rightarrow> Inr ()
      | (Some b, s # _) \<Rightarrow>
          rbind (map_err (\<lambda>_. SequenceOverflow) (StorySequence_next b)) (\<lambda>expected.
            if seg_sequence s < expected then Inl Overlap
            else if seg_sequence s > expected then Inl Gap else Inr ())
      | (None, s # _) \<Rightarrow> if seg_sequence s \<noteq> 1 then Inl Gap else Inr ())"

fun window_check :: "StorySegment list \<Rightarrow> StoryContinuityError + unit" where
  "window_check (a # b # segments) =
     (if seg_sequence b \<le> seg_sequence a then Inl OutOfOrder
      else if seg_sequence b \<noteq> seg_sequence a + 1 then Inl Gap
      else window_check (b # segments))"
| "window_check _ = Inr ()"

definition add_tokens :: "'e \<Rightarrow> nat \<Rightarrow> nat \<Rightarrow> 'e + nat" where
  "add_tokens overflow base n = (if base + n > u64_max then Inl overflow else Inr (base + n))"

definition StoryContinuity_try_new ::
  "StorySummary_aise \<Rightarrow> StorySegment list \<Rightarrow> StoryContinuityLimits \<Rightarrow> StoryContinuityError + StoryContinuity" where
  "StoryContinuity_try_new summary recent_segments limits =
     rbind (fail_if (str_len (sum_text summary) > scl_max_summary_bytes limits)
       (ContinuityLimitExceeded ''max_summary_bytes'')) (\<lambda>_.
     rbind (fail_if (length recent_segments > scl_max_recent_segments limits)
       (ContinuityLimitExceeded ''max_recent_segments'')) (\<lambda>_.
     rbind (try_for_each (\<lambda>s. fail_if (str_len (seg_text s) > scl_max_recent_segment_bytes limits)
       (ContinuityLimitExceeded ''max_recent_segment_bytes'')) recent_segments) (\<lambda>_.
     rbind (fail_if ((trim (sum_text summary) = []) \<longleftrightarrow> sum_summarized_through summary \<noteq> None) InvalidSummaryBoundary) (\<lambda>_.
     rbind (first_segment_check (sum_summarized_through summary) recent_segments) (\<lambda>_.
     rbind (window_check recent_segments) (\<lambda>_.
     rbind (try_fold (\<lambda>n s. add_tokens (ContinuityLimitExceeded ''max_recent_segment_tokens'') n
         (estimate_text_tokens (seg_text s))) 0 recent_segments) (\<lambda>token_sum.
     rbind (fail_if (token_sum > scl_max_recent_segment_tokens limits)
       (ContinuityLimitExceeded ''max_recent_segment_tokens'')) (\<lambda>_.
     Inr \<lparr>con_summary = summary, con_recent_segments = recent_segments\<rparr>))))))))"

definition latest_sequence :: "StoryContinuity \<Rightarrow> nat option" where
  "latest_sequence c =
     (case con_recent_segments c of
        [] \<Rightarrow> sum_summarized_through (con_summary c)
      | segments \<Rightarrow> Some (seg_sequence (last segments)))"

definition next_sequence :: "StoryContinuity \<Rightarrow> StoryContinuityError + nat" where
  "next_sequence c =
     (case latest_sequence c of Some latest \<Rightarrow> StorySequence_next latest | None \<Rightarrow> StorySequence_try_new 1)"

definition continuity_estimate_tokens :: "StoryContinuity \<Rightarrow> nat" where
  "continuity_estimate_tokens c =
     (let n = (if trim (sum_text (con_summary c)) \<noteq> [] then u64_sat_add 0 (estimate_text_tokens (sum_text (con_summary c)))
               else 0)
      in foldl (\<lambda>n s. u64_sat_add n (estimate_text_tokens (seg_text s))) n (con_recent_segments c))"

text \<open>An accepted continuity has no gap: the segments are numbered from the summarized boundary on, and the next turn follows the last of them.\<close>

lemma window_check_run:
  "window_check (s # segments) = Inr u \<Longrightarrow>
     map seg_sequence (s # segments) = [seg_sequence s..<seg_sequence s + length (s # segments)]"
proof (induction segments arbitrary: s)
  case (Cons b segments)
  then have "seg_sequence b = seg_sequence s + 1" "window_check (b # segments) = Inr u"
    by (auto split: if_splits)
  then show ?case using Cons.IH [of b] by (simp add: upt_conv_Cons del: upt_Suc)
qed simp

lemma continuity_contiguous:
  assumes "StoryContinuity_try_new summary segments limits = Inr c"
  defines "start \<equiv> case sum_summarized_through summary of Some b \<Rightarrow> b + 1 | None \<Rightarrow> 1"
  shows "map seg_sequence (con_recent_segments c) = [start..<start + length segments]"
    and "next_sequence c = Inr n \<Longrightarrow> n = start + length segments"
    and "length segments \<le> scl_max_recent_segments limits"
    and "sum_summarized_through summary = None \<longleftrightarrow> trim (sum_text summary) = []"
proof -
  have c: "c = \<lparr>con_summary = summary, con_recent_segments = segments\<rparr>"
    and first: "first_segment_check (sum_summarized_through summary) segments = Inr ()"
    and window: "window_check segments = Inr ()"
    and rest: "length segments \<le> scl_max_recent_segments limits" "sum_summarized_through summary = None \<longleftrightarrow> trim (sum_text summary) = []"
    using assms(1) by (auto simp: StoryContinuity_try_new_def result_simps)
  have head: "seg_sequence s = start" if "segments = s # xs" for s xs
    using first that
    by (auto simp: first_segment_check_def start_def StorySequence_next_def StorySequence_try_new_def result_simps
        split: option.splits if_splits)
  show run: "map seg_sequence (con_recent_segments c) = [start..<start + length segments]"
    using window window_check_run head by (cases segments) (auto simp: c)
  show "length segments \<le> scl_max_recent_segments limits" using rest(1) .
  show "sum_summarized_through summary = None \<longleftrightarrow> trim (sum_text summary) = []" using rest(2) .
  assume next_: "next_sequence c = Inr n"
  show "n = start + length segments"
  proof (cases segments)
    case Nil
    then show ?thesis
      using next_ by (auto simp: c next_sequence_def latest_sequence_def StorySequence_next_def StorySequence_try_new_def
          start_def split: option.splits if_splits)
  next
    case (Cons s xs)
    then have ne: "segments \<noteq> []" by simp
    then have "seg_sequence (last segments) = last (map seg_sequence segments)" by (simp add: last_map)
    also have "\<dots> = start + length segments - 1" using run ne by (simp add: c)
    finally have "seg_sequence (last segments) + 1 = start + length segments" using ne by (cases segments) auto
    then show ?thesis
      using next_ Cons
      by (auto simp: c next_sequence_def latest_sequence_def StorySequence_next_def StorySequence_try_new_def split: if_splits)
  qed
qed

section \<open>Plans and decisions\<close>

type_synonym RoleId_aise = str

datatype KnowledgeKind = KkFact | KkRumor | KkMemory

datatype KnowledgeSourceId = KsFact str | KsRumor str | KsMemory str

fun KnowledgeSourceId_kind :: "KnowledgeSourceId \<Rightarrow> KnowledgeKind" where
  "KnowledgeSourceId_kind (KsFact i) = KkFact"
| "KnowledgeSourceId_kind (KsRumor i) = KkRumor"
| "KnowledgeSourceId_kind (KsMemory i) = KkMemory"

datatype KnowledgeDelivery = DeliverWriter | DeliverCharacter RoleId_aise

datatype RetrievalRequestOrigin = OriginAutomatic | OriginNarrative | OriginPlanner

record CharacterRetrievalRequest =
  crr_role_id :: RoleId_aise
  crr_reason :: str
  crr_origin :: RetrievalRequestOrigin

record KnowledgeRetrievalRequest =
  krr_delivery :: KnowledgeDelivery
  krr_target_source_id :: KnowledgeSourceId
  krr_reason :: str
  krr_origin :: RetrievalRequestOrigin
  krr_mandatory :: bool

record RetrievalPlan =
  rp_character_requests :: "CharacterRetrievalRequest list"
  rp_knowledge_requests :: "KnowledgeRetrievalRequest list"

record CharacterThinkRequest_aise =
  ctq_role_id :: RoleId_aise
  ctq_reason :: str

record WriterPlan =
  wp_story_goal :: str
  wp_retrieval_plan :: RetrievalPlan
  wp_character_think_requests :: "CharacterThinkRequest_aise list"

record CharacterDecision_aise =
  cd_role_id :: RoleId_aise
  cd_decision :: str
  cd_suggested_utterance :: "str option"

section \<open>Retrieved context\<close>

text \<open>The fields of an item that the checks read; the source, the ranks and the activation rule are left out.\<close>

record RetrievedKnowledgeItem =
  rki_source_id :: KnowledgeSourceId
  rki_content :: str
  rki_token_cost :: nat

record RetrievedWorldKnowledge =
  rwk_facts :: "RetrievedKnowledgeItem list"
  rwk_rumors :: "RetrievedKnowledgeItem list"

record RetrievedCharacterContext =
  rcc_role :: "RoleId_aise option"
  rcc_known_rumors :: "RetrievedKnowledgeItem list"
  rcc_memories :: "RetrievedKnowledgeItem list"

record RetrievedContext =
  rc_world :: RetrievedWorldKnowledge
  rc_characters :: "(RoleId_aise \<times> RetrievedCharacterContext) list"

definition RetrievedContext_default :: RetrievedContext where
  "RetrievedContext_default = \<lparr>rc_world = \<lparr>rwk_facts = [], rwk_rumors = []\<rparr>, rc_characters = []\<rparr>"

record RetrievedContextLimits =
  rcl_max_role_audiences :: nat
  rcl_max_items_per_audience :: nat
  rcl_max_tokens_per_audience :: nat
  rcl_max_total_items :: nat
  rcl_max_total_tokens :: nat
  rcl_max_item_bytes :: nat

datatype RetrievedContextError = RceInvalidKind | RceInvalidMemoryOwner | RceInvalidRole | RceConflictingDuplicate
  | RceCountLimit string | RceItemByteLimit | RceAudienceTokenLimit | RceTotalTokenLimit | RceArithmeticOverflow

fun RetrievedContextError_turn_code :: "RetrievedContextError \<Rightarrow> string" where
  "RetrievedContextError_turn_code RceInvalidKind = ''retrieval_partition_invalid''"
| "RetrievedContextError_turn_code RceInvalidMemoryOwner = ''retrieval_partition_invalid''"
| "RetrievedContextError_turn_code RceInvalidRole = ''retrieval_partition_invalid''"
| "RetrievedContextError_turn_code RceConflictingDuplicate = ''retrieval_partition_invalid''"
| "RetrievedContextError_turn_code (RceCountLimit l) = ''retrieval_context_limit''"
| "RetrievedContextError_turn_code RceItemByteLimit = ''retrieval_context_limit''"
| "RetrievedContextError_turn_code RceAudienceTokenLimit = ''retrieval_context_limit''"
| "RetrievedContextError_turn_code RceTotalTokenLimit = ''retrieval_context_limit''"
| "RetrievedContextError_turn_code RceArithmeticOverflow = ''retrieval_context_limit''"

fun kind_only :: "KnowledgeKind \<Rightarrow> KnowledgeSourceId list \<Rightarrow> RetrievedKnowledgeItem list \<Rightarrow> RetrievedContextError + unit" where
  "kind_only kind seen [] = Inr ()"
| "kind_only kind seen (item # items) =
     (if KnowledgeSourceId_kind (rki_source_id item) \<noteq> kind then Inl RceInvalidKind
      else if rki_source_id item \<in> set seen then Inl RceConflictingDuplicate
      else kind_only kind (rki_source_id item # seen) items)"

definition validate_kind_only :: "RetrievedKnowledgeItem list \<Rightarrow> KnowledgeKind \<Rightarrow> RetrievedContextError + unit" where
  "validate_kind_only items kind = kind_only kind [] items"

definition partition_tokens :: "RetrievedContextLimits \<Rightarrow> nat \<Rightarrow> RetrievedKnowledgeItem \<Rightarrow> RetrievedContextError + nat" where
  "partition_tokens limits tokens item =
     (if str_len (rki_content item) > rcl_max_item_bytes limits then Inl RceItemByteLimit
      else if rki_token_cost item \<noteq> estimate_text_tokens (rki_content item) then Inl RceInvalidKind
      else add_tokens RceArithmeticOverflow tokens (rki_token_cost item))"

definition validate_partition_bounds :: "RetrievedKnowledgeItem list \<Rightarrow> RetrievedContextLimits \<Rightarrow> RetrievedContextError + unit" where
  "validate_partition_bounds items limits =
     rbind (fail_if (length items > rcl_max_items_per_audience limits) (RceCountLimit ''max_items_per_audience'')) (\<lambda>_.
     rbind (try_fold (partition_tokens limits) 0 items) (\<lambda>tokens.
     fail_if (tokens > rcl_max_tokens_per_audience limits) RceAudienceTokenLimit))"

definition checked_add_tokens :: "nat \<Rightarrow> RetrievedKnowledgeItem list \<Rightarrow> RetrievedContextError + nat" where
  "checked_add_tokens base items = try_fold (\<lambda>n item. add_tokens RceArithmeticOverflow n (rki_token_cost item)) base items"

definition character_check ::
  "RetrievedContextLimits \<Rightarrow> RoleId_aise \<times> RetrievedCharacterContext \<Rightarrow> RetrievedContextError + unit" where
  "character_check limits = (\<lambda>(role_id, ch).
     rbind (fail_if (case rcc_role ch of Some r \<Rightarrow> r \<noteq> role_id | None \<Rightarrow> False) RceInvalidRole) (\<lambda>_.
     rbind (validate_kind_only (rcc_known_rumors ch) KkRumor) (\<lambda>_.
     rbind (validate_kind_only (rcc_memories ch) KkMemory) (\<lambda>_.
     rbind (validate_partition_bounds (rcc_known_rumors ch) limits) (\<lambda>_.
     validate_partition_bounds (rcc_memories ch) limits)))))"

definition RetrievedContext_try_new ::
  "RetrievedWorldKnowledge \<Rightarrow> (RoleId_aise \<times> RetrievedCharacterContext) list \<Rightarrow> RetrievedContextLimits
   \<Rightarrow> RetrievedContextError + RetrievedContext" where
  "RetrievedContext_try_new world characters limits =
     rbind (fail_if (length characters > rcl_max_role_audiences limits) (RceCountLimit ''max_role_audiences'')) (\<lambda>_.
     rbind (validate_kind_only (rwk_facts world) KkFact) (\<lambda>_.
     rbind (validate_kind_only (rwk_rumors world) KkRumor) (\<lambda>_.
     rbind (validate_partition_bounds (rwk_facts world) limits) (\<lambda>_.
     rbind (validate_partition_bounds (rwk_rumors world) limits) (\<lambda>_.
     rbind (try_for_each (character_check limits) characters) (\<lambda>_.
     rbind (try_fold (\<lambda>n (_, ch). rbind (add_tokens RceArithmeticOverflow n (length (rcc_known_rumors ch)))
         (\<lambda>n. add_tokens RceArithmeticOverflow n (length (rcc_memories ch)))) 0 characters) (\<lambda>character_items.
     rbind (rbind (add_tokens RceArithmeticOverflow (length (rwk_facts world)) (length (rwk_rumors world)))
         (\<lambda>n. add_tokens RceArithmeticOverflow n character_items)) (\<lambda>total_items.
     rbind (fail_if (total_items > rcl_max_total_items limits) (RceCountLimit ''max_total_items'')) (\<lambda>_.
     rbind (checked_add_tokens 0 (rwk_facts world)) (\<lambda>n.
     rbind (checked_add_tokens n (rwk_rumors world)) (\<lambda>n.
     rbind (try_fold (\<lambda>n (_, ch). rbind (checked_add_tokens n (rcc_known_rumors ch))
         (\<lambda>n. checked_add_tokens n (rcc_memories ch))) n characters) (\<lambda>total_tokens.
     rbind (fail_if (total_tokens > rcl_max_total_tokens limits) RceTotalTokenLimit) (\<lambda>_.
     Inr \<lparr>rc_world = world, rc_characters = characters\<rparr>)))))))))))))"

text \<open>What an accepted context promises: its partitions hold their kind only, without duplicates, and the totals are within the limits.\<close>

definition partitions :: "RetrievedContext \<Rightarrow> (KnowledgeKind \<times> RetrievedKnowledgeItem list) list" where
  "partitions rc = (KkFact, rwk_facts (rc_world rc)) # (KkRumor, rwk_rumors (rc_world rc))
     # concat (map (\<lambda>(_, ch). [(KkRumor, rcc_known_rumors ch), (KkMemory, rcc_memories ch)]) (rc_characters rc))"

lemma kind_only_Ok:
  "kind_only kind seen items = Inr u \<longleftrightarrow>
     (\<forall>item \<in> set items. KnowledgeSourceId_kind (rki_source_id item) = kind)
     \<and> distinct (map rki_source_id items) \<and> set seen \<inter> rki_source_id ` set items = {}"
  by (induction items arbitrary: seen) auto

lemma add_tokens_Ok: "add_tokens e base n = Inr m \<longleftrightarrow> base + n \<le> u64_max \<and> m = base + n"
  by (auto simp: add_tokens_def)

lemma checked_add_tokens_Ok:
  "checked_add_tokens base items = Inr m \<Longrightarrow> m = base + sum_list (map rki_token_cost items)"
  unfolding checked_add_tokens_def
proof (induction items arbitrary: base)
  case (Cons a items)
  show ?case using Cons.prems Cons.IH [of "base + rki_token_cost a"] by (auto simp: result_simps add_tokens_Ok)
qed simp

lemma partition_tokens_Ok:
  "try_fold (partition_tokens limits) base items = Inr m \<Longrightarrow>
     m = base + sum_list (map rki_token_cost items) \<and>
     (\<forall>item \<in> set items. str_len (rki_content item) \<le> rcl_max_item_bytes limits
        \<and> rki_token_cost item = estimate_text_tokens (rki_content item))"
proof (induction items arbitrary: base)
  case (Cons a items)
  show ?case
    using Cons.prems Cons.IH [of "base + rki_token_cost a"]
    by (auto simp: result_simps partition_tokens_def add_tokens_Ok split: if_splits)
qed simp

lemma character_tokens_Ok:
  "try_fold (\<lambda>n (_, ch). rbind (checked_add_tokens n (rcc_known_rumors ch)) (\<lambda>n. checked_add_tokens n (rcc_memories ch)))
     base chs = Inr m \<Longrightarrow>
   m = base + sum_list (map (\<lambda>(_, ch). sum_list (map rki_token_cost (rcc_known_rumors ch @ rcc_memories ch))) chs)"
proof (induction chs arbitrary: base)
  case (Cons a chs)
  obtain r ch where a: "a = (r, ch)" by fastforce
  obtain n n' where n: "checked_add_tokens base (rcc_known_rumors ch) = Inr n"
      "checked_add_tokens n (rcc_memories ch) = Inr n'"
    using Cons.prems by (auto simp: a result_simps)
  then show ?case
    using Cons.prems Cons.IH [of n'] checked_add_tokens_Ok [OF n(1)] checked_add_tokens_Ok [OF n(2)]
    by (auto simp: a result_simps)
qed simp

lemma character_items_Ok:
  "try_fold (\<lambda>n (_, ch). rbind (add_tokens RceArithmeticOverflow n (length (rcc_known_rumors ch)))
     (\<lambda>n. add_tokens RceArithmeticOverflow n (length (rcc_memories ch)))) base chs = Inr m \<Longrightarrow>
   m = base + sum_list (map (\<lambda>(_, ch). length (rcc_known_rumors ch) + length (rcc_memories ch)) chs)"
proof (induction chs arbitrary: base)
  case (Cons a chs)
  obtain r ch where a: "a = (r, ch)" by fastforce
  show ?case
    using Cons.prems Cons.IH [of "base + length (rcc_known_rumors ch) + length (rcc_memories ch)"]
    by (auto simp: a result_simps add_tokens_Ok)
qed simp

definition partition_ok :: "RetrievedContextLimits \<Rightarrow> KnowledgeKind \<times> RetrievedKnowledgeItem list \<Rightarrow> bool" where
  "partition_ok limits = (\<lambda>(kind, items).
     (\<forall>item \<in> set items. KnowledgeSourceId_kind (rki_source_id item) = kind
        \<and> str_len (rki_content item) \<le> rcl_max_item_bytes limits
        \<and> rki_token_cost item = estimate_text_tokens (rki_content item))
     \<and> distinct (map rki_source_id items) \<and> length items \<le> rcl_max_items_per_audience limits
     \<and> sum_list (map rki_token_cost items) \<le> rcl_max_tokens_per_audience limits)"

lemma partition_checks:
  "validate_kind_only items kind = Inr u \<Longrightarrow> validate_partition_bounds items limits = Inr v \<Longrightarrow>
     partition_ok limits (kind, items)"
  by (auto simp: validate_kind_only_def validate_partition_bounds_def kind_only_Ok result_simps partition_ok_def
      dest!: partition_tokens_Ok)

lemma retrieved_context_bounded:
  assumes "RetrievedContext_try_new world characters limits = Inr rc"
  shows "\<forall>p \<in> set (partitions rc). partition_ok limits p"
    and "sum_list (map (length \<circ> snd) (partitions rc)) \<le> rcl_max_total_items limits"
    and "sum_list (map (sum_list \<circ> map rki_token_cost \<circ> snd) (partitions rc)) \<le> rcl_max_total_tokens limits"
    and "length (rc_characters rc) \<le> rcl_max_role_audiences limits"
    and "rc = \<lparr>rc_world = world, rc_characters = characters\<rparr>"
proof -
  note ok = assms [unfolded RetrievedContext_try_new_def result_simps]
  show rc: "rc = \<lparr>rc_world = world, rc_characters = characters\<rparr>" using ok by auto
  have chars: "partition_ok limits (KkRumor, rcc_known_rumors ch) \<and> partition_ok limits (KkMemory, rcc_memories ch)"
    if "(r, ch) \<in> set characters" for r ch
  proof -
    have "character_check limits (r, ch) = Inr ()" using ok that by auto
    then show ?thesis by (auto simp: character_check_def result_simps intro: partition_checks)
  qed
  have "partition_ok limits (KkFact, rwk_facts world)" "partition_ok limits (KkRumor, rwk_rumors world)"
    using ok by (auto intro: partition_checks)
  then show "\<forall>p \<in> set (partitions rc). partition_ok limits p" using chars by (auto simp: partitions_def rc)
  show "length (rc_characters rc) \<le> rcl_max_role_audiences limits" using ok by (auto simp: rc result_simps)
  have concat_sum: "sum_list (map f (concat (map g xs))) = sum_list (map (\<lambda>x. sum_list (map f (g x))) xs)"
    for f :: "'a \<Rightarrow> nat" and g :: "'b \<Rightarrow> 'a list" and xs
    by (induction xs) auto
  show "sum_list (map (length \<circ> snd) (partitions rc)) \<le> rcl_max_total_items limits"
    using ok by (auto simp: rc partitions_def concat_sum result_simps add_tokens_Ok case_prod_unfold dest!: character_items_Ok [unfolded case_prod_unfold])
  show "sum_list (map (sum_list \<circ> map rki_token_cost \<circ> snd) (partitions rc)) \<le> rcl_max_total_tokens limits"
    using ok
    by (auto simp: rc partitions_def concat_sum result_simps case_prod_unfold dest!: character_tokens_Ok [unfolded case_prod_unfold] checked_add_tokens_Ok)
qed

end
