(* ===== verification/Turn_Context.thy ===== *)
theory Turn_Context
  imports Turn_Data Turn_Budget
begin

text \<open>
  The execution context of a turn (\<open>turn/turn_context.rs\<close>): the phase of the turn, what its stages have
  produced so far, and the setters through which they hand it over, each with its guard. A setter that fails
  returns before its first assignment, so its model returns the error alone and the caller keeps the old context.

  The narrative projection, the prepared activation, the extraction envelope and the changes beside the story
  text and the story events are type arguments: the context stores them and reads none of their fields. Snapshot and baseline are
  the fields that the turn reads. The two serializers are arguments.
\<close>

section \<open>The context\<close>

record StoryReadSnapshot =
  snap_story_continuity :: StoryContinuity
  snap_base_revision :: nat
  snap_graph_revision :: nat

record BaselineContext =
  bl_story_title :: str
  bl_player_role_id :: RoleId_aise
  bl_player_name :: str
  bl_relevant_role_names :: "str list"
  bl_facts :: "str list"
  bl_rumors :: "str list"
  bl_role_index_hints :: "str list"
  bl_story_continuity :: StoryContinuity
  bl_constraint_statements :: "str list"

definition baseline_estimate_tokens :: "BaselineContext \<Rightarrow> nat" where
  "baseline_estimate_tokens b =
     max (foldl (\<lambda>n t. u64_sat_add n (estimate_text_tokens t)) (continuity_estimate_tokens (bl_story_continuity b))
       (bl_story_title b # bl_player_name b # bl_relevant_role_names b @ bl_facts b @ bl_rumors b
        @ bl_role_index_hints b @ bl_constraint_statements b)) 1"

record TurnIdentity =
  id_story_id :: str
  id_turn_number :: nat
  id_idempotency_key :: str
  id_started_at_ms :: int

datatype EventKind = EkDialogue | EkAction | EkWorldChange | EkChapter

fun EventKind_as_str :: "EventKind \<Rightarrow> string" where
  "EventKind_as_str EkDialogue = ''dialogue''"
| "EventKind_as_str EkAction = ''action''"
| "EventKind_as_str EkWorldChange = ''world_change''"
| "EventKind_as_str EkChapter = ''chapter''"

record StoryEvent =
  ev_id :: str
  ev_turn_number :: nat
  ev_seq :: u32
  ev_kind :: EventKind
  ev_payload :: str

record 'c ValidatedChangeSet =
  vcs_story_text :: str
  vcs_narrative_events :: "StoryEvent list"
  vcs_changes :: 'c

definition ValidatedChangeSet_new :: "str \<Rightarrow> StoryEvent list \<Rightarrow> 'c \<Rightarrow> TurnExecutionError + 'c ValidatedChangeSet" where
  "ValidatedChangeSet_new story_text narrative_events changes =
     (if trim story_text = []
      then Inl (turn_error FkValidationRejected ''story_text_empty'' (Some StValidation)
        (lit ''validated change set requires non-empty story text''))
      else Inr \<lparr>vcs_story_text = story_text, vcs_narrative_events = narrative_events, vcs_changes = changes\<rparr>)"

record 'e BoundStateExtraction =
  bse_story_version :: u32
  bse_envelope :: 'e

record ('p, 'a, 'e, 'c) TurnExecutionContext =
  tx_identity :: TurnIdentity
  tx_phase :: TurnPhase
  tx_request :: TurnRequest_aise
  tx_budget :: TurnBudget
  tx_snapshot :: "StoryReadSnapshot option"
  tx_baseline :: "BaselineContext option"
  tx_plan :: "WriterPlan option"
  tx_narrative_projection :: "'p option"
  tx_activation :: "'a option"
  tx_retrieved :: RetrievedContext
  tx_character_decisions :: "CharacterDecision_aise list"
  tx_story :: "str option"
  tx_story_version :: u32
  tx_extraction :: "'e BoundStateExtraction option"
  tx_validation :: "'c ValidatedChangeSet ValidationResult option"
  tx_change_set :: "'c ValidatedChangeSet option"
  tx_committed_result :: "CommittedTurnResult option"
  tx_terminal_kind :: "TurnTerminalKind option"
  tx_terminal_error :: "TurnExecutionError option"
  tx_llm_calls :: "LlmCallUsage list"
  tx_retrieval_skipped :: bool
  tx_character_thinking_skipped :: bool

type_synonym ('p, 'a, 'e, 'c) ctx_op =
  "('p, 'a, 'e, 'c) TurnExecutionContext \<Rightarrow> TurnExecutionError + ('p, 'a, 'e, 'c) TurnExecutionContext"

definition TurnExecutionContext_new ::
  "TurnIdentity \<Rightarrow> TurnRequest_aise \<Rightarrow> TurnBudget \<Rightarrow> TurnExecutionError + ('p, 'a, 'e, 'c) TurnExecutionContext" where
  "TurnExecutionContext_new identity request budget =
     (if remaining_output_tokens budget = 0
      then Inl (turn_error FkInvalidRequest ''zero_output_budget'' None (lit ''turn budget max_output_tokens must be positive''))
      else Inr \<lparr>tx_identity = identity, tx_phase = PhCreated, tx_request = request, tx_budget = budget,
        tx_snapshot = None, tx_baseline = None, tx_plan = None, tx_narrative_projection = None, tx_activation = None,
        tx_retrieved = RetrievedContext_default, tx_character_decisions = [], tx_story = None, tx_story_version = 0,
        tx_extraction = None, tx_validation = None, tx_change_set = None, tx_committed_result = None,
        tx_terminal_kind = None, tx_terminal_error = None, tx_llm_calls = [], tx_retrieval_skipped = False,
        tx_character_thinking_skipped = False\<rparr>)"

section \<open>Guards\<close>

definition ctx_violation :: "string \<Rightarrow> TurnStage option \<Rightarrow> str \<Rightarrow> TurnExecutionError" where
  "ctx_violation code stage message = turn_error FkInvariantViolation code stage message"

definition expect_phase :: "('p, 'a, 'e, 'c) TurnExecutionContext \<Rightarrow> TurnPhase \<Rightarrow> TurnExecutionError + unit" where
  "expect_phase ctx expected =
     fail_if (tx_phase ctx \<noteq> expected) (ctx_violation ''invalid_phase_transition'' None
       (lit ''invalid phase transition: expected '' @ lit (TurnPhase_debug expected) @ lit '', current ''
        @ lit (TurnPhase_debug (tx_phase ctx))))"

definition expect_phase_one_of :: "('p, 'a, 'e, 'c) TurnExecutionContext \<Rightarrow> TurnPhase list \<Rightarrow> TurnExecutionError + unit" where
  "expect_phase_one_of ctx expected =
     fail_if (tx_phase ctx \<notin> set expected) (ctx_violation ''invalid_phase_transition'' None
       (lit ''invalid phase transition: expected one of ['' @ join (lit '', '') (map (lit \<circ> TurnPhase_debug) expected)
        @ lit ''], current '' @ lit (TurnPhase_debug (tx_phase ctx))))"

fun TurnTerminalKind_debug :: "TurnTerminalKind \<Rightarrow> string" where
  "TurnTerminalKind_debug TkFailed = ''Failed''"
| "TurnTerminalKind_debug TkCancelled = ''Cancelled''"
| "TurnTerminalKind_debug TkConflict = ''Conflict''"

definition expect_terminal :: "('p, 'a, 'e, 'c) TurnExecutionContext \<Rightarrow> TurnTerminalKind \<Rightarrow> TurnExecutionError + unit" where
  "expect_terminal ctx expected =
     (case tx_terminal_kind ctx of
        None \<Rightarrow> Inr ()
      | Some actual \<Rightarrow> fail_if (actual \<noteq> expected) (ctx_violation ''terminal_kind_already_set'' None
          (lit ''terminal kind already set to '' @ lit (TurnTerminalKind_debug actual) @ lit '', cannot set ''
           @ lit (TurnTerminalKind_debug expected))))"

definition over_budget :: "string \<Rightarrow> nat \<Rightarrow> string \<Rightarrow> nat \<Rightarrow> str" where
  "over_budget what n between limit = lit what @ show_nat n @ lit between @ show_nat limit"

definition required_plan :: "('p, 'a, 'e, 'c) TurnExecutionContext \<Rightarrow> TurnStage \<Rightarrow> string \<Rightarrow> TurnExecutionError + WriterPlan" where
  "required_plan ctx stage message = ok_or (ctx_violation ''missing_writer_plan'' (Some stage) (lit message)) (tx_plan ctx)"

section \<open>Preparation and planning\<close>

definition set_pahse :: "TurnPhase \<Rightarrow> ('p, 'a, 'e, 'c) TurnExecutionContext \<Rightarrow> ('p, 'a, 'e, 'c) TurnExecutionContext" where
  "set_pahse phase ctx = (if tx_phase ctx \<noteq> phase then ctx\<lparr>tx_phase := phase\<rparr> else ctx)"

definition complete_initialization :: "('p, 'a, 'e, 'c) ctx_op" where
  "complete_initialization ctx = rmap (\<lambda>_. ctx\<lparr>tx_phase := PhInitialized\<rparr>) (expect_phase ctx PhCreated)"

definition set_prepared_context ::
  "StoryReadSnapshot \<Rightarrow> BaselineContext \<Rightarrow> 'p \<Rightarrow> 'a \<Rightarrow> ('p, 'a, 'e, 'c) ctx_op" where
  "set_prepared_context snapshot baseline projection activation ctx =
     rbind (expect_phase ctx PhInitialized) (\<lambda>_.
       let estimated = baseline_estimate_tokens baseline; limit = lim_max_context_tokens (bud_limits (tx_budget ctx))
       in rbind (fail_if (estimated > limit) (ctx_violation ''context_token_budget_exceeded'' (Some StContext)
              (over_budget ''prepared context '' estimated '' tokens exceeds budget '' limit)))
            (\<lambda>_. Inr (ctx\<lparr>tx_snapshot := Some snapshot, tx_baseline := Some baseline,
              tx_narrative_projection := Some projection, tx_activation := Some activation, tx_phase := PhPrepared\<rparr>)))"

definition replace_activation :: "'a \<Rightarrow> ('p, 'a, 'e, 'c) ctx_op" where
  "replace_activation activation ctx = rmap (\<lambda>_. ctx\<lparr>tx_activation := Some activation\<rparr>) (expect_phase ctx PhPlanned)"

definition set_narrative_projection :: "'p \<Rightarrow> ('p, 'a, 'e, 'c) ctx_op" where
  "set_narrative_projection projection ctx =
     rmap (\<lambda>_. ctx\<lparr>tx_narrative_projection := Some projection\<rparr>) (expect_phase ctx PhPrepared)"

definition set_writer_plan :: "(WriterPlan \<Rightarrow> str + str) \<Rightarrow> WriterPlan \<Rightarrow> ('p, 'a, 'e, 'c) ctx_op" where
  "set_writer_plan to_json plan ctx =
     rbind (expect_phase ctx PhPrepared) (\<lambda>_.
     rbind (map_err (\<lambda>e. ctx_violation ''plan_serialization_failed'' (Some StWriterPlanner) e) (to_json plan)) (\<lambda>serialized.
     rbind (fail_if (str_len serialized > lim_max_plan_bytes (bud_limits (tx_budget ctx)))
       (ctx_violation ''plan_byte_limit'' (Some StWriterPlanner)
         (over_budget ''writer plan '' (str_len serialized) '' bytes exceeds budget '' (lim_max_plan_bytes (bud_limits (tx_budget ctx)))))) (\<lambda>_.
     Inr (ctx\<lparr>tx_plan := Some plan, tx_phase := PhPlanned\<rparr>))))"

section \<open>Retrieval and decisions\<close>

definition retrieved_limits :: "TurnBudgetLimits \<Rightarrow> RetrievedContextLimits" where
  "retrieved_limits l =
     \<lparr>rcl_max_role_audiences = lim_max_character_decisions l, rcl_max_items_per_audience = lim_max_items_per_audience l,
      rcl_max_tokens_per_audience = lim_max_tokens_per_audience l, rcl_max_total_items = lim_max_total_items l,
      rcl_max_total_tokens = lim_max_retrieved_tokens l, rcl_max_item_bytes = lim_max_item_bytes l\<rparr>"

definition set_retrieved_context :: "(RetrievedContextError \<Rightarrow> str) \<Rightarrow> RetrievedContext \<Rightarrow> ('p, 'a, 'e, 'c) ctx_op" where
  "set_retrieved_context display retrieved ctx =
     rbind (expect_phase ctx PhPlanned) (\<lambda>_.
     rbind (required_plan ctx StContext ''writer plan is required before retrieval'') (\<lambda>plan.
     rbind (try_for_each (\<lambda>(role_id, _).
         fail_if (\<not> list_ex (\<lambda>q. ctq_role_id q = role_id) (wp_character_think_requests plan))
           (ctx_violation ''retrieved_character_audience_unauthorized'' (Some StContext)
             (lit ''retrieved character audience has no matching character think request''))) (rc_characters retrieved)) (\<lambda>_.
     rbind (map_err (\<lambda>e. ctx_violation (RetrievedContextError_turn_code e) (Some StContext) (display e))
         (RetrievedContext_try_new (rc_world retrieved) (rc_characters retrieved) (retrieved_limits (bud_limits (tx_budget ctx)))))
       (\<lambda>revalidated. Inr (ctx\<lparr>tx_retrieved := revalidated\<rparr>)))))"

definition think_violation :: "string \<Rightarrow> str \<Rightarrow> TurnExecutionError" where
  "think_violation code message = ctx_violation code (Some StCharacterThink) message"

definition decision_bytes :: "CharacterDecision_aise list \<Rightarrow> nat" where
  "decision_bytes decisions =
     foldl (\<lambda>n d. usize_saturating_add (usize_saturating_add n (str_len (cd_decision d)))
       (case cd_suggested_utterance d of Some u \<Rightarrow> str_len u | None \<Rightarrow> 0)) 0 decisions"

definition set_character_decisions :: "CharacterDecision_aise list \<Rightarrow> ('p, 'a, 'e, 'c) ctx_op" where
  "set_character_decisions decisions ctx =
     (let limits = bud_limits (tx_budget ctx) in
     rbind (expect_phase ctx PhPlanned) (\<lambda>_.
     rbind (fail_if (length decisions > lim_max_character_decisions limits) (think_violation ''character_decision_limit''
       (over_budget ''character decisions '' (length decisions) '' exceeds budget '' (lim_max_character_decisions limits)))) (\<lambda>_.
     rbind (required_plan ctx StCharacterThink ''writer plan is required before character decisions'') (\<lambda>plan.
     rbind (fail_if (length decisions \<noteq> length (wp_character_think_requests plan))
       (think_violation ''character_decision_count_mismatch''
         (over_budget ''character decisions '' (length decisions) '' does not match request count ''
           (length (wp_character_think_requests plan))))) (\<lambda>_.
     rbind (try_for_each (\<lambda>(d, q). fail_if (cd_role_id d \<noteq> ctq_role_id q)
         (think_violation ''character_decision_order_mismatch''
           (lit ''character decision id does not match the paired request'')))
       (zip decisions (wp_character_think_requests plan))) (\<lambda>_.
     rbind (fail_if (\<not> distinct (map cd_role_id decisions)) (think_violation ''duplicate_character_decision''
       (lit ''character decision collection contains a duplicate target''))) (\<lambda>_.
     rbind (fail_if (case tx_baseline ctx of
           Some b \<Rightarrow> list_ex (\<lambda>d. cd_role_id d = bl_player_role_id b) decisions | None \<Rightarrow> False)
       (think_violation ''character_think_player_target'' (lit ''character decision targets the player character''))) (\<lambda>_.
     rbind (fail_if (decision_bytes decisions > lim_max_character_decision_bytes limits)
       (think_violation ''character_decision_byte_limit''
         (over_budget ''character decisions '' (decision_bytes decisions) '' bytes exceeds budget ''
           (lim_max_character_decision_bytes limits)))) (\<lambda>_.
     Inr (ctx\<lparr>tx_character_decisions := decisions\<rparr>))))))))))"

definition complete_context_preparation :: "('p, 'a, 'e, 'c) ctx_op" where
  "complete_context_preparation ctx = rmap (\<lambda>_. ctx\<lparr>tx_phase := PhContextReady\<rparr>) (expect_phase ctx PhPlanned)"

definition requires_retrieval_aise :: "('p, 'a, 'e, 'c) TurnExecutionContext \<Rightarrow> TurnExecutionError + bool" where
  "requires_retrieval_aise ctx =
     rbind (expect_phase ctx PhPlanned) (\<lambda>_.
     rmap (\<lambda>plan. rp_character_requests (wp_retrieval_plan plan) \<noteq> [] \<or> rp_knowledge_requests (wp_retrieval_plan plan) \<noteq> [])
       (required_plan ctx StContext ''writer plan is required before retrieval''))"

definition skip_retrieval :: "('p, 'a, 'e, 'c) ctx_op" where
  "skip_retrieval ctx =
     rmap (\<lambda>_. ctx\<lparr>tx_retrieved := RetrievedContext_default, tx_retrieval_skipped := True\<rparr>) (expect_phase ctx PhPlanned)"

definition requires_character_thinking_aise :: "('p, 'a, 'e, 'c) TurnExecutionContext \<Rightarrow> TurnExecutionError + bool" where
  "requires_character_thinking_aise ctx =
     rbind (expect_phase ctx PhPlanned) (\<lambda>_.
     rmap (\<lambda>plan. wp_character_think_requests plan \<noteq> [])
       (required_plan ctx StCharacterThink ''writer plan is required before character thinking''))"

definition skip_character_thinking :: "('p, 'a, 'e, 'c) ctx_op" where
  "skip_character_thinking ctx =
     rbind (expect_phase ctx PhPlanned) (\<lambda>_.
     rbind (required_plan ctx StCharacterThink ''writer plan is required before character thinking'') (\<lambda>plan.
     rbind (fail_if (wp_character_think_requests plan \<noteq> []) (think_violation ''character_thinking_not_skippable''
       (lit ''writer plan requests character thinking and cannot be skipped''))) (\<lambda>_.
     Inr (ctx\<lparr>tx_character_decisions := [], tx_character_thinking_skipped := True\<rparr>))))"

section \<open>Story, extraction and validation\<close>

definition ensure_story_bound :: "('p, 'a, 'e, 'c) TurnExecutionContext \<Rightarrow> str \<Rightarrow> TurnStage \<Rightarrow> TurnExecutionError + unit" where
  "ensure_story_bound ctx story stage =
     rbind (fail_if (trim story = []) (turn_error FkLlm ''story_text_empty'' (Some stage) (lit ''story text must not be empty''))) (\<lambda>_.
     fail_if (str_len story > lim_max_story_text_bytes (bud_limits (tx_budget ctx)))
       (turn_error FkLlm ''story_text_exceeds_bounds'' (Some stage) (lit ''story text exceeds its byte bound'')))"

definition ensure_extraction_bound ::
  "('e \<Rightarrow> str + str) \<Rightarrow> ('p, 'a, 'e, 'c) TurnExecutionContext \<Rightarrow> 'e \<Rightarrow> TurnStage \<Rightarrow> TurnExecutionError + unit" where
  "ensure_extraction_bound to_json ctx envelope stage =
     rbind (map_err (\<lambda>e. ctx_violation ''extraction_serialization_failed'' (Some stage) e) (to_json envelope)) (\<lambda>serialized.
     fail_if (str_len serialized > lim_max_state_extraction_bytes (bud_limits (tx_budget ctx)))
       (turn_error FkLlm ''state_extraction_exceeds_bounds'' (Some stage)
         (lit ''state extraction output exceeds its byte bound'')))"

definition set_generated_story :: "str \<Rightarrow> ('p, 'a, 'e, 'c) ctx_op" where
  "set_generated_story story ctx =
     rbind (expect_phase ctx PhContextReady) (\<lambda>_.
     rbind (ensure_story_bound ctx story StStoryGenerator) (\<lambda>_.
     Inr (ctx\<lparr>tx_story := Some story, tx_story_version := 1, tx_extraction := None, tx_validation := None,
       tx_change_set := None, tx_phase := PhStoryReady\<rparr>)))"

definition bound_extraction :: "'e \<Rightarrow> ('p, 'a, 'e, 'c) TurnExecutionContext \<Rightarrow> ('p, 'a, 'e, 'c) TurnExecutionContext" where
  "bound_extraction envelope ctx =
     ctx\<lparr>tx_extraction := Some \<lparr>bse_story_version = tx_story_version ctx, bse_envelope = envelope\<rparr>,
       tx_validation := None, tx_change_set := None, tx_phase := PhCandidateReady\<rparr>"

definition set_state_extraction :: "('e \<Rightarrow> str + str) \<Rightarrow> 'e \<Rightarrow> ('p, 'a, 'e, 'c) ctx_op" where
  "set_state_extraction to_json envelope ctx =
     rbind (expect_phase ctx PhStoryReady) (\<lambda>_.
     rbind (ensure_extraction_bound to_json ctx envelope StStoryStateExtractor) (\<lambda>_.
     Inr (bound_extraction envelope ctx)))"

definition issues_bound :: "('p, 'a, 'e, 'c) TurnExecutionContext \<Rightarrow> ValidationIssue_aise list \<Rightarrow> TurnStage \<Rightarrow> TurnExecutionError + unit" where
  "issues_bound ctx issues stage =
     (let limit = lim_max_validation_issue_bytes (bud_limits (tx_budget ctx))
      in try_for_each (\<lambda>issue. fail_if (str_len (vi_message issue) > limit)
           (ctx_violation ''validation_issue_byte_limit'' (Some stage)
             (over_budget ''validation issue message '' (str_len (vi_message issue)) '' bytes exceeds budget '' limit))) issues)"

definition record_state_extraction_failure :: "BoundedValidationIssues \<Rightarrow> ('p, 'a, 'e, 'c) ctx_op" where
  "record_state_extraction_failure issues ctx =
     rbind (expect_phase_one_of ctx [PhStoryReady, PhStateReextractionRequired]) (\<lambda>_.
     rbind (issues_bound ctx (bvi_issues issues) StStoryStateExtractor) (\<lambda>_.
     Inr (ctx\<lparr>tx_extraction := None, tx_change_set := None, tx_validation := Some (VReextractState issues),
       tx_phase := PhStateReextractionRequired\<rparr>)))"

definition set_validation_result :: "'c ValidatedChangeSet ValidationResult \<Rightarrow> ('p, 'a, 'e, 'c) ctx_op" where
  "set_validation_result result ctx =
     rbind (expect_phase ctx PhCandidateReady) (\<lambda>_.
     rbind (issues_bound ctx (ValidationResult_issues result) StValidation) (\<lambda>_.
       let decision = ValidationResult_decision result;
           ctx = (case decision of
               VdPass \<Rightarrow> ctx\<lparr>tx_change_set := into_change_set result\<rparr>
             | VdRepairStory \<Rightarrow> ctx\<lparr>tx_extraction := None, tx_change_set := None\<rparr>
             | VdReextractState \<Rightarrow> ctx\<lparr>tx_change_set := None\<rparr>
             | VdReject \<Rightarrow> ctx\<lparr>tx_change_set := None\<rparr>)
       in Inr (ctx\<lparr>tx_phase := ValidationDecision_to_turn_phase decision, tx_validation := Some result\<rparr>)))"

definition replace_story :: "str \<Rightarrow> ('p, 'a, 'e, 'c) ctx_op" where
  "replace_story story ctx =
     rbind (expect_phase ctx PhStoryRepairRequired) (\<lambda>_.
     rbind (ensure_story_bound ctx story StStoryRepairer) (\<lambda>_.
     rbind (fail_if (tx_story ctx = Some story) (story_repair_no_progress (Some StStoryRepairer))) (\<lambda>_.
     rbind (fail_if (tx_story_version ctx = - 1) (ctx_violation ''story_version_overflow'' (Some StStoryRepairer)
       (lit ''candidate story version overflow''))) (\<lambda>_.
     Inr (ctx\<lparr>tx_story_version := tx_story_version ctx + 1, tx_story := Some story, tx_extraction := None,
       tx_validation := None, tx_change_set := None, tx_phase := PhStoryReady\<rparr>)))))"

definition same_json :: "('e \<Rightarrow> str + str) \<Rightarrow> 'e \<Rightarrow> 'e \<Rightarrow> bool" where
  "same_json to_json a b \<longleftrightarrow>
     (case (to_json a, to_json b) of (Inr s, Inr t) \<Rightarrow> s = t | (Inl _, Inl _) \<Rightarrow> True | _ \<Rightarrow> False)"

definition replace_state_extraction :: "('e \<Rightarrow> str + str) \<Rightarrow> 'e \<Rightarrow> ('p, 'a, 'e, 'c) ctx_op" where
  "replace_state_extraction to_json envelope ctx =
     rbind (expect_phase ctx PhStateReextractionRequired) (\<lambda>_.
     rbind (ensure_extraction_bound to_json ctx envelope StStoryStateExtractor) (\<lambda>_.
     rbind (fail_if (case (tx_extraction ctx, tx_validation ctx) of
           (Some existing, Some (VReextractState _)) \<Rightarrow> same_json to_json (bse_envelope existing) envelope
         | _ \<Rightarrow> False) (state_reextraction_no_progress (Some StStoryStateExtractor))) (\<lambda>_.
     Inr (bound_extraction envelope ctx))))"

definition validation_decision :: "('p, 'a, 'e, 'c) TurnExecutionContext \<Rightarrow> TurnExecutionError + ValidationDecision" where
  "validation_decision ctx =
     rmap ValidationResult_decision (ok_or (ctx_violation ''no_validation_result'' None (lit ''no validation result''))
       (tx_validation ctx))"

definition validation_rejected_error :: "('p, 'a, 'e, 'c) TurnExecutionContext \<Rightarrow> TurnExecutionError + TurnExecutionError" where
  "validation_rejected_error ctx =
     (case tx_validation ctx of
        Some (VReject issues) \<Rightarrow>
          Inr (validation_rejected (join (lit '','') (map (lit \<circ> ValidationIssueCode_as_str \<circ> vi_code) (bvi_issues issues))))
      | _ \<Rightarrow> Inl (ctx_violation ''no_rejected_validation_result'' None (lit ''validation result is not a rejection'')))"

definition ctx_consume_correction_round ::
  "CorrectionKind \<Rightarrow> ('p, 'a, 'e, 'c) TurnExecutionContext
   \<Rightarrow> (TurnExecutionError + unit) \<times> ('p, 'a, 'e, 'c) TurnExecutionContext" where
  "ctx_consume_correction_round kind ctx =
     (case consume_correction_round (tx_budget ctx) kind of (res, b) \<Rightarrow> (res, ctx\<lparr>tx_budget := b\<rparr>))"

section \<open>Commit and terminal states\<close>

text \<open>\<open>construct_changeset\<close> leaves every part but the story text empty; \<open>no_changes\<close> is the empty value of the parts that are a type argument.\<close>

definition construct_changeset :: "'c \<Rightarrow> ('p, 'a, 'e, 'c) ctx_op" where
  "construct_changeset no_changes ctx =
     rbind (ok_or (ctx_violation ''missing_story_text'' (Some StStoryGenerator)
       (lit ''story text is required before constructing the change set'')) (tx_story ctx)) (\<lambda>story.
     rmap (\<lambda>cs. ctx\<lparr>tx_change_set := Some cs\<rparr>) (ValidatedChangeSet_new story [] no_changes))"

definition set_committed_result :: "CommittedTurnResult \<Rightarrow> ('p, 'a, 'e, 'c) ctx_op" where
  "set_committed_result result ctx =
     rmap (\<lambda>_. ctx\<lparr>tx_committed_result := Some result, tx_phase := PhCommitted\<rparr>) (expect_phase ctx PhReadyToCommit)"

definition mark_terminal ::
  "TurnTerminalKind \<Rightarrow> TurnPhase \<Rightarrow> TurnExecutionError \<Rightarrow> ('p, 'a, 'e, 'c) ctx_op" where
  "mark_terminal kind phase failure ctx =
     rmap (\<lambda>_. ctx\<lparr>tx_terminal_kind := Some kind, tx_phase := phase, tx_terminal_error := Some failure\<rparr>) (expect_terminal ctx kind)"

definition mark_failed :: "TurnExecutionError \<Rightarrow> ('p, 'a, 'e, 'c) ctx_op" where
  "mark_failed = mark_terminal TkFailed PhFailed"

definition mark_cancelled :: "TurnExecutionError \<Rightarrow> ('p, 'a, 'e, 'c) ctx_op" where
  "mark_cancelled = mark_terminal TkCancelled PhCancelled"

definition mark_conflict :: "TurnExecutionError \<Rightarrow> ('p, 'a, 'e, 'c) ctx_op" where
  "mark_conflict = mark_terminal TkConflict PhConflict"

end
