(* ===== verification/Turn_Runtime.thy ===== *)
theory Turn_Runtime
  imports Turn_Context
begin

text \<open>
  The runtime of the crate \<open>aise\<close>: the set of the pipelines (\<open>runtime/turn_pipeline_set.rs\<close>), the
  initializer (\<open>runtime/initializer.rs\<close>), the committer (\<open>persistence/turn_committer.rs\<close>), the run
  through the stages (\<open>runtime/turn_runtime.rs\<close>) and the engine around it (\<open>engine/service.rs\<close>).

  A pipeline is a trait object, so a pair of its stage and a function on the context; the ones whose code is
  not in these files are arguments. Storage, clock and cancellation are arguments, read where the code reads
  them: each stage runs once in a turn, so the clock is a function of the stage. The sink's list of events is
  what was emitted, delivery failures being ignored by the code. The observations are left out.
\<close>

section \<open>Pipelines\<close>

record ('p, 'a, 'e, 'c) pipeline =
  pl_stage :: TurnStage
  pl_execute :: "('p, 'a, 'e, 'c) TurnExecutionContext
    \<Rightarrow> (TurnExecutionError + unit) \<times> ('p, 'a, 'e, 'c) TurnExecutionContext"

record ('p, 'a, 'e, 'c) TurnPipelineSet =
  ps_initializer :: "('p, 'a, 'e, 'c) pipeline"
  ps_baseline_builder :: "('p, 'a, 'e, 'c) pipeline"
  ps_writer_planner :: "('p, 'a, 'e, 'c) pipeline"
  ps_retrieval :: "('p, 'a, 'e, 'c) pipeline"
  ps_character_think :: "('p, 'a, 'e, 'c) pipeline"
  ps_story_generator :: "('p, 'a, 'e, 'c) pipeline"
  ps_story_state_extractor :: "('p, 'a, 'e, 'c) pipeline"
  ps_validation :: "('p, 'a, 'e, 'c) pipeline"
  ps_story_repairer :: "('p, 'a, 'e, 'c) pipeline"
  ps_committer :: "('p, 'a, 'e, 'c) pipeline"

record ('p, 'a, 'e, 'c) TurnPipelineSetBuilder =
  pb_initializer :: "('p, 'a, 'e, 'c) pipeline option"
  pb_baseline_builder :: "('p, 'a, 'e, 'c) pipeline option"
  pb_writer_planner :: "('p, 'a, 'e, 'c) pipeline option"
  pb_retrieval :: "('p, 'a, 'e, 'c) pipeline option"
  pb_character_think :: "('p, 'a, 'e, 'c) pipeline option"
  pb_story_generator :: "('p, 'a, 'e, 'c) pipeline option"
  pb_story_state_extractor :: "('p, 'a, 'e, 'c) pipeline option"
  pb_validation :: "('p, 'a, 'e, 'c) pipeline option"
  pb_story_repairer :: "('p, 'a, 'e, 'c) pipeline option"
  pb_committer :: "('p, 'a, 'e, 'c) pipeline option"

definition pipeline_invariant :: "str \<Rightarrow> TurnExecutionError" where
  "pipeline_invariant message = turn_error FkInvariantViolation ''invalid_pipeline_set'' None message"

definition bind_pipeline ::
  "string \<Rightarrow> ('p, 'a, 'e, 'c) pipeline option \<Rightarrow> TurnStage \<Rightarrow> TurnExecutionError + ('p, 'a, 'e, 'c) pipeline" where
  "bind_pipeline field pipeline expected =
     rbind (ok_or (pipeline_invariant (lit ''pipeline set is missing '' @ lit field)) pipeline) (\<lambda>pl.
       if pl_stage pl \<noteq> expected
       then Inl (pipeline_invariant (lit ''pipeline field '' @ lit field @ lit '' bound to stage ''
         @ lit (TurnStage_as_str (pl_stage pl)) @ lit '', expected '' @ lit (TurnStage_as_str expected)))
       else Inr pl)"

definition TurnPipelineSet_build :: "('p, 'a, 'e, 'c) TurnPipelineSetBuilder \<Rightarrow> TurnExecutionError + ('p, 'a, 'e, 'c) TurnPipelineSet" where
  "TurnPipelineSet_build b =
     rbind (bind_pipeline ''initializer'' (pb_initializer b) StTurnInitializer) (\<lambda>initializer.
     rbind (bind_pipeline ''baseline_builder'' (pb_baseline_builder b) StBaselineBuilder) (\<lambda>baseline_builder.
     rbind (bind_pipeline ''writer_planner'' (pb_writer_planner b) StWriterPlanner) (\<lambda>writer_planner.
     rbind (bind_pipeline ''retrieval'' (pb_retrieval b) StContextRetrieval) (\<lambda>retrieval.
     rbind (bind_pipeline ''character_think'' (pb_character_think b) StCharacterThink) (\<lambda>character_think.
     rbind (bind_pipeline ''story_generator'' (pb_story_generator b) StStoryGenerator) (\<lambda>story_generator.
     rbind (bind_pipeline ''story_state_extractor'' (pb_story_state_extractor b) StStoryStateExtractor) (\<lambda>story_state_extractor.
     rbind (bind_pipeline ''validation'' (pb_validation b) StValidation) (\<lambda>validation.
     rbind (bind_pipeline ''story_repairer'' (pb_story_repairer b) StStoryRepairer) (\<lambda>story_repairer.
     rbind (bind_pipeline ''committer'' (pb_committer b) StTurnCommitter) (\<lambda>committer.
     Inr \<lparr>ps_initializer = initializer, ps_baseline_builder = baseline_builder, ps_writer_planner = writer_planner,
       ps_retrieval = retrieval, ps_character_think = character_think, ps_story_generator = story_generator,
       ps_story_state_extractor = story_state_extractor, ps_validation = validation,
       ps_story_repairer = story_repairer, ps_committer = committer\<rparr>))))))))))"

text \<open>A guarded setter as the body of a pipeline.\<close>

definition apply_op :: "('p, 'a, 'e, 'c) ctx_op \<Rightarrow> ('p, 'a, 'e, 'c) TurnExecutionContext
  \<Rightarrow> (TurnExecutionError + unit) \<times> ('p, 'a, 'e, 'c) TurnExecutionContext" where
  "apply_op f ctx = (case f ctx of Inl e \<Rightarrow> (Inl e, ctx) | Inr ctx' \<Rightarrow> (Inr (), ctx'))"

definition TurnInitializer :: "('p, 'a, 'e, 'c) pipeline" where
  "TurnInitializer = \<lparr>pl_stage = StTurnInitializer, pl_execute = (\<lambda>ctx.
     if trq_player_contribution (tx_request ctx) = [] then (Inl (invalid_request (lit ''empty player contribution'')), ctx)
     else apply_op complete_initialization ctx)\<rparr>"

section \<open>The committer\<close>

record StoryTurn =
  st_number :: nat
  st_sequence :: nat
  st_player_contribution :: str
  st_story_text :: str
  st_created_at :: int

record OutboxRecord =
  ob_id :: str
  ob_story_id :: str
  ob_turn_number :: nat
  ob_event_type :: str
  ob_payload :: str
  ob_created_at :: int

text \<open>The code stores of the prepared activation its pending timed state; here the commit has the whole, a type argument.\<close>

record ('a, 'c) TurnCommitSpec =
  tcs_story_id :: str
  tcs_turn :: StoryTurn
  tcs_base_revision :: nat
  tcs_expected_graph_revision :: nat
  tcs_changes :: "'c ValidatedChangeSet"
  tcs_idempotency_key :: str
  tcs_request_digest :: str
  tcs_outbox :: "OutboxRecord list"
  tcs_llm_calls :: "LlmCallUsage list"
  tcs_activation :: 'a

definition commit_violation :: "string \<Rightarrow> str \<Rightarrow> TurnExecutionError" where
  "commit_violation code message = turn_error FkInvariantViolation code (Some StTurnCommitter) message"

definition outbox_record :: "(StoryEvent \<Rightarrow> str option) \<Rightarrow> TurnIdentity \<Rightarrow> nat \<times> StoryEvent \<Rightarrow> TurnExecutionError + OutboxRecord" where
  "outbox_record to_value identity = (\<lambda>(seq, event).
     rmap (\<lambda>payload. \<lparr>ob_id = id_story_id identity @ lit '':turn:'' @ show_nat (id_turn_number identity) @ lit '':outbox:'' @ show_nat seq,
         ob_story_id = id_story_id identity, ob_turn_number = id_turn_number identity,
         ob_event_type = lit ''story_event.'' @ lit (EventKind_as_str (ev_kind event)), ob_payload = payload,
         ob_created_at = id_started_at_ms identity\<rparr>)
       (ok_or (commit_violation ''outbox_serialization_failed'' (lit ''failed to serialize outbox event payload'')) (to_value event)))"

definition commit_spec ::
  "(StoryEvent \<Rightarrow> str option) \<Rightarrow> ('p, 'a, 'e, 'c) TurnExecutionContext \<Rightarrow> TurnExecutionError + ('a, 'c) TurnCommitSpec" where
  "commit_spec to_value ctx =
     rbind (fail_if (tx_phase ctx \<noteq> PhReadyToCommit) (commit_violation ''commit_gate_rejected''
       (lit ''committer requires ReadyToCommit phase, current '' @ lit (TurnPhase_debug (tx_phase ctx))))) (\<lambda>_.
     rbind (ok_or (commit_violation ''missing_change_set'' (lit ''committer requires a validated change set'')) (tx_change_set ctx)) (\<lambda>change_set.
     rbind (ok_or (commit_violation ''missing_snapshot'' (lit ''committer requires a story snapshot'')) (tx_snapshot ctx)) (\<lambda>snapshot.
     rbind (ok_or (commit_violation ''missing_activation'' (lit ''committer requires prepared activation state'')) (tx_activation ctx)) (\<lambda>activation.
     rbind (try_map (outbox_record to_value (tx_identity ctx)) (enumerate 0 (vcs_narrative_events change_set))) (\<lambda>outbox.
     rbind (map_err (\<lambda>_. commit_violation ''story_sequence_overflow'' (lit ''failed to assign next story sequence''))
       (next_sequence (snap_story_continuity snapshot))) (\<lambda>sequence.
     Inr \<lparr>tcs_story_id = id_story_id (tx_identity ctx),
       tcs_turn = \<lparr>st_number = id_turn_number (tx_identity ctx), st_sequence = sequence,
         st_player_contribution = trq_player_contribution (tx_request ctx), st_story_text = vcs_story_text change_set,
         st_created_at = id_started_at_ms (tx_identity ctx)\<rparr>,
       tcs_base_revision = snap_base_revision snapshot, tcs_expected_graph_revision = snap_graph_revision snapshot,
       tcs_changes = change_set, tcs_idempotency_key = id_idempotency_key (tx_identity ctx),
       tcs_request_digest = trq_request_digest (tx_request ctx), tcs_outbox = outbox, tcs_llm_calls = tx_llm_calls ctx,
       tcs_activation = activation\<rparr>))))))"

definition TurnCommitter ::
  "(StoryEvent \<Rightarrow> str option) \<Rightarrow> (('a, 'c) TurnCommitSpec \<Rightarrow> TurnExecutionError + CommittedTurnResult)
   \<Rightarrow> ('p, 'a, 'e, 'c) pipeline" where
  "TurnCommitter to_value commit_turn = \<lparr>pl_stage = StTurnCommitter, pl_execute = (\<lambda>ctx.
     case rbind (commit_spec to_value ctx) commit_turn of
       Inl e \<Rightarrow> (Inl e, ctx)
     | Inr result \<Rightarrow> apply_op (set_committed_result result) ctx)\<rparr>"

section \<open>The run\<close>

fun stage_entry_phases :: "TurnStage \<Rightarrow> TurnPhase list option" where
  "stage_entry_phases StTurnInitializer = Some [PhCreated]"
| "stage_entry_phases StBaselineBuilder = Some [PhInitialized]"
| "stage_entry_phases StWriterPlanner = Some [PhPrepared]"
| "stage_entry_phases StContextRetrieval = Some [PhPlanned]"
| "stage_entry_phases StCharacterThink = Some [PhPlanned]"
| "stage_entry_phases StStoryGenerator = Some [PhContextReady]"
| "stage_entry_phases StStoryStateExtractor = Some [PhStoryReady, PhStateReextractionRequired]"
| "stage_entry_phases StValidation = Some [PhCandidateReady]"
| "stage_entry_phases StStoryRepairer = Some [PhStoryRepairRequired]"
| "stage_entry_phases StTurnCommitter = Some [PhReadyToCommit]"
| "stage_entry_phases StContext = None"

fun stage_exit_phases :: "TurnStage \<Rightarrow> TurnPhase list option" where
  "stage_exit_phases StTurnInitializer = Some [PhInitialized]"
| "stage_exit_phases StBaselineBuilder = Some [PhPrepared]"
| "stage_exit_phases StWriterPlanner = Some [PhPlanned]"
| "stage_exit_phases StContextRetrieval = None"
| "stage_exit_phases StCharacterThink = None"
| "stage_exit_phases StStoryGenerator = Some [PhStoryReady]"
| "stage_exit_phases StStoryStateExtractor = Some [PhCandidateReady, PhStateReextractionRequired]"
| "stage_exit_phases StValidation = Some [PhReadyToCommit, PhStoryRepairRequired, PhStateReextractionRequired, PhFailed]"
| "stage_exit_phases StStoryRepairer = Some [PhStoryReady]"
| "stage_exit_phases StTurnCommitter = Some [PhCommitted]"
| "stage_exit_phases StContext = None"

definition runtime_invariant :: "str \<Rightarrow> TurnExecutionError" where
  "runtime_invariant message = turn_error FkInvariantViolation ''turn_runtime_invariant'' None message"

definition phases_debug :: "TurnPhase list \<Rightarrow> str" where
  "phases_debug ps = lit ''['' @ join (lit '', '') (map (lit \<circ> TurnPhase_debug) ps) @ lit '']''"

definition phase_mismatch :: "TurnStage \<Rightarrow> string \<Rightarrow> TurnPhase \<Rightarrow> TurnPhase list \<Rightarrow> TurnExecutionError" where
  "phase_mismatch stage how phase expected =
     runtime_invariant (lit ''pipeline '' @ lit (TurnStage_as_str stage) @ lit how @ lit (TurnPhase_debug phase)
       @ lit '', expected one of '' @ phases_debug expected)"

record run_env =
  re_cancelled :: "TurnStage \<Rightarrow> bool"
  re_now :: "TurnStage \<Rightarrow> nat"
  re_deadline :: nat

type_synonym ('p, 'a, 'e, 'c) run_state = "('p, 'a, 'e, 'c) TurnExecutionContext \<times> TurnEvent_aise list"

definition execute_entered ::
  "run_env \<Rightarrow> ('p, 'a, 'e, 'c) pipeline \<Rightarrow> ('p, 'a, 'e, 'c) run_state
   \<Rightarrow> (TurnExecutionError + unit) \<times> ('p, 'a, 'e, 'c) run_state" where
  "execute_entered env pl = (\<lambda>(ctx, events).
     let stage = pl_stage pl in
     if re_cancelled env stage then (Inl (turn_cancelled (Some stage)), ctx, events)
     else if re_now env stage \<ge> re_deadline env then (Inl (deadline_exceeded (Some stage)), ctx, events)
     else
       (case pl_execute pl ctx of (outcome, ctx') \<Rightarrow>
          let events' = events @ [EvStageStarted (Some (id_turn_number (tx_identity ctx))) stage] in
          (case (outcome, stage_exit_phases stage) of
             (Inr _, Some exits) \<Rightarrow>
               if tx_phase ctx' \<notin> set exits
               then (Inl (phase_mismatch stage '' completed with unexpected phase '' (tx_phase ctx') exits), ctx', events')
               else (outcome, ctx', events')
           | _ \<Rightarrow> (outcome, ctx', events'))))"

definition execute ::
  "run_env \<Rightarrow> ('p, 'a, 'e, 'c) pipeline \<Rightarrow> ('p, 'a, 'e, 'c) run_state
   \<Rightarrow> (TurnExecutionError + unit) \<times> ('p, 'a, 'e, 'c) run_state" where
  "execute env pl = (\<lambda>(ctx, events).
     case stage_entry_phases (pl_stage pl) of
       Some entries \<Rightarrow>
         if tx_phase ctx \<notin> set entries
         then (Inl (phase_mismatch (pl_stage pl) '' entered with unexpected phase '' (tx_phase ctx) entries), ctx, events)
         else execute_entered env pl (ctx, events)
     | None \<Rightarrow> execute_entered env pl (ctx, events))"

text \<open>The \<open>?\<close> operator on a step that changes the context in place.\<close>

fun then_run :: "(TurnExecutionError + unit) \<times> 's \<Rightarrow> ('s \<Rightarrow> (TurnExecutionError + unit) \<times> 's) \<Rightarrow> (TurnExecutionError + unit) \<times> 's" where
  "then_run (Inl e, s) f = (Inl e, s)"
| "then_run (Inr u, s) f = f s"

definition run_op :: "('p, 'a, 'e, 'c) ctx_op \<Rightarrow> ('p, 'a, 'e, 'c) run_state \<Rightarrow> (TurnExecutionError + unit) \<times> ('p, 'a, 'e, 'c) run_state" where
  "run_op f = (\<lambda>(ctx, events). case apply_op f ctx of (res, ctx') \<Rightarrow> (res, ctx', events))"

definition run_if ::
  "(('p, 'a, 'e, 'c) TurnExecutionContext \<Rightarrow> TurnExecutionError + bool)
   \<Rightarrow> (('p, 'a, 'e, 'c) run_state \<Rightarrow> (TurnExecutionError + unit) \<times> ('p, 'a, 'e, 'c) run_state)
   \<Rightarrow> (('p, 'a, 'e, 'c) run_state \<Rightarrow> (TurnExecutionError + unit) \<times> ('p, 'a, 'e, 'c) run_state)
   \<Rightarrow> ('p, 'a, 'e, 'c) run_state \<Rightarrow> (TurnExecutionError + unit) \<times> ('p, 'a, 'e, 'c) run_state" where
  "run_if test yes no s =
     (case test (fst s) of Inl e \<Rightarrow> (Inl e, s) | Inr b \<Rightarrow> if b then yes s else no s)"

definition run_inner ::
  "run_env \<Rightarrow> ('p, 'a, 'e, 'c) TurnPipelineSet \<Rightarrow> 'c \<Rightarrow> ('p, 'a, 'e, 'c) TurnExecutionContext
   \<Rightarrow> (TurnExecutionError + unit) \<times> ('p, 'a, 'e, 'c) run_state" where
  "run_inner env ps no_changes ctx =
     then_run (execute env (ps_initializer ps) (ctx, [])) (\<lambda>s.
     then_run (execute env (ps_baseline_builder ps) s) (\<lambda>s.
     then_run (execute env (ps_writer_planner ps) s) (\<lambda>s.
     then_run (run_if requires_retrieval_aise (execute env (ps_retrieval ps)) (run_op skip_retrieval) s) (\<lambda>s.
     then_run (run_if requires_character_thinking_aise (execute env (ps_character_think ps)) (run_op skip_character_thinking) s) (\<lambda>s.
     then_run (run_op complete_context_preparation s) (\<lambda>s.
     then_run (execute env (ps_story_generator ps) s) (\<lambda>s.
     let s = (set_pahse PhReadyToCommit (fst s), snd s) in
     then_run (run_op (construct_changeset no_changes) s) (\<lambda>s.
     then_run (execute env (ps_committer ps) s) (\<lambda>s.
     (case tx_committed_result (fst s) of
        Some _ \<Rightarrow> Inr ()
      | None \<Rightarrow> Inl (runtime_invariant (lit ''committed turn missing committed result'')), s))))))))))"

section \<open>The engine\<close>

datatype TurnRunOutcome = Committed CommittedTurnResult bool | Failed TurnExecutionError

record StoredTurnOutcome =
  sto_request_digest :: str
  sto_result :: CommittedTurnResult

record ('p, 'a, 'e, 'c) engine_env =
  ee_sha256 :: "str \<Rightarrow> str"
  ee_acquire :: "TurnExecutionError + unit"
  ee_get_story :: "TurnExecutionError + nat option"
  ee_find_committed_turn :: "str \<Rightarrow> TurnExecutionError + StoredTurnOutcome option"
  ee_budget :: "TurnExecutionError + TurnBudget"
  ee_now_millis :: int
  ee_run :: run_env
  ee_pipelines :: "('p, 'a, 'e, 'c) TurnPipelineSet"
  ee_no_changes :: 'c

record ExecuteTurnSpec =
  ets_story_id :: str
  ets_idempotency_key :: str
  ets_player_contribution :: str

definition terminal_event_aise :: "nat option \<Rightarrow> TurnExecutionError \<Rightarrow> TurnEvent_aise" where
  "terminal_event_aise turn_number failure =
     (case terminal_kind failure of
        TkFailed \<Rightarrow> EvFailed turn_number (tee_code failure)
      | TkCancelled \<Rightarrow> EvCancelled turn_number (tee_code failure)
      | TkConflict \<Rightarrow> EvConflict turn_number (tee_code failure))"

text \<open>\<open>finalize\<close>: the terminal phase of the context, the terminal event, the outcome. The permit is dropped with it.\<close>

definition mark :: "TurnExecutionError \<Rightarrow> ('p, 'a, 'e, 'c) ctx_op" where
  "mark failure =
     (case terminal_kind failure of
        TkFailed \<Rightarrow> mark_failed failure
      | TkCancelled \<Rightarrow> mark_cancelled failure
      | TkConflict \<Rightarrow> mark_conflict failure)"

definition finalize ::
  "('p, 'a, 'e, 'c) TurnExecutionContext option \<Rightarrow> TurnExecutionError + TurnRunOutcome \<Rightarrow> TurnEvent_aise list
   \<Rightarrow> TurnRunOutcome \<times> TurnEvent_aise list \<times> ('p, 'a, 'e, 'c) TurnExecutionContext option" where
  "finalize ctx result events =
     (case result of
        Inr (Committed r replayed) \<Rightarrow> (Committed r replayed, events @ [EvCommitted r replayed], ctx)
      | Inr (Failed failure) \<Rightarrow>
          (Failed failure, events @ [terminal_event_aise (map_option (id_turn_number \<circ> tx_identity) ctx) failure],
           map_option (snd \<circ> apply_op (mark failure)) ctx)
      | Inl failure \<Rightarrow>
          (Failed failure, events @ [terminal_event_aise (map_option (id_turn_number \<circ> tx_identity) ctx) failure],
           map_option (snd \<circ> apply_op (mark failure)) ctx))"

definition allocation_failed :: "string \<Rightarrow> TurnExecutionError" where
  "allocation_failed message = turn_error FkInvariantViolation ''turn_number_allocation_failed'' None (lit message)"

definition TurnNumber_try_new :: "nat \<Rightarrow> TurnExecutionError + nat" where
  "TurnNumber_try_new v =
     (if v = 0 then Inl (allocation_failed ''turn number must be non-zero'')
      else if v > 2 ^ 63 - 1 then Inl (allocation_failed ''turn number exceeds SQLite signed integer range'')
      else Inr v)"

definition next_turn_number :: "nat \<Rightarrow> TurnExecutionError + nat" where
  "next_turn_number last_committed =
     (if last_committed + 1 > u64_max then Inl (allocation_failed ''turn number overflow'')
      else TurnNumber_try_new (last_committed + 1))"

definition run_engine_aise ::
  "('p, 'a, 'e, 'c) engine_env \<Rightarrow> ExecuteTurnSpec \<Rightarrow> TurnRequest_aise \<Rightarrow> nat
   \<Rightarrow> TurnRunOutcome \<times> TurnEvent_aise list \<times> ('p, 'a, 'e, 'c) TurnExecutionContext option" where
  "run_engine_aise env spec request turn_number =
     (case rbind (ee_budget env) (TurnExecutionContext_new
         \<lparr>id_story_id = ets_story_id spec, id_turn_number = turn_number, id_idempotency_key = ets_idempotency_key spec,
          id_started_at_ms = ee_now_millis env\<rparr> request) of
        Inl failure \<Rightarrow> finalize None (Inl failure) []
      | Inr ctx \<Rightarrow>
          (case run_inner (ee_run env) (ee_pipelines env) (ee_no_changes env) ctx of (outcome, ctx', events) \<Rightarrow>
             finalize (Some ctx')
               (Inr (case outcome of
                   Inr _ \<Rightarrow>
                     (case tx_committed_result ctx' of
                        Some r \<Rightarrow> Committed r False
                      | None \<Rightarrow> Failed (turn_invariant (lit ''committed turn missing committed result'')))
                 | Inl error \<Rightarrow> Failed error)) events))"

definition execute_turn ::
  "('p, 'a, 'e, 'c) engine_env \<Rightarrow> ExecuteTurnSpec
   \<Rightarrow> TurnRunOutcome \<times> TurnEvent_aise list \<times> ('p, 'a, 'e, 'c) TurnExecutionContext option" where
  "execute_turn env spec =
     (case TurnRequest_try_new (ee_sha256 env) (ets_player_contribution spec) of
        Inl error \<Rightarrow> finalize None (Inl (invalid_request (TurnRequestError_display error))) []
      | Inr request \<Rightarrow>
          (case ee_acquire env of
             Inl error \<Rightarrow> finalize None (Inl error) []
           | Inr _ \<Rightarrow>
               (case ee_get_story env of
                  Inl error \<Rightarrow> finalize None (Inl error) []
                | Inr None \<Rightarrow>
                    finalize None (Inl (turn_error FkStoryNotFound ''story_not_found'' None
                      (lit ''story '' @ ets_story_id spec @ lit '' not found''))) []
                | Inr (Some last_committed) \<Rightarrow>
                    (case ee_find_committed_turn env (ets_idempotency_key spec) of
                       Inl error \<Rightarrow> finalize None (Inl error) []
                     | Inr (Some stored) \<Rightarrow>
                         if sto_request_digest stored = trq_request_digest request
                         then finalize None (Inr (Committed (sto_result stored) True)) []
                         else finalize None (Inl (idempotency_conflict None)) []
                     | Inr None \<Rightarrow>
                         (case next_turn_number last_committed of
                            Inl error \<Rightarrow> finalize None (Inl error) []
                          | Inr turn_number \<Rightarrow> run_engine_aise env spec request turn_number)))))"

end
