(* ===== verification/Context_Safety.thy ===== *)
theory Context_Safety
  imports Turn_Context
begin

text \<open>
  The turn context as a state machine: whatever the stages hand over and in whatever order they try, the
  context is consistent with its phase. The relation \<open>ctx_step\<close> has one rule for every setter of the context,
  except the two shortcuts \<open>set_pahse\<close> and \<open>construct_changeset\<close>, which assign without a guard; what the
  runtime makes of those is in \<open>Turn_Runtime\<close>.
\<close>

section \<open>Steps\<close>

inductive ctx_step ::
  "(WriterPlan \<Rightarrow> str + str) \<Rightarrow> ('e \<Rightarrow> str + str) \<Rightarrow>
   ('p, 'a, 'e, 'c) TurnExecutionContext \<Rightarrow> ('p, 'a, 'e, 'c) TurnExecutionContext \<Rightarrow> bool"
  for plan_json envelope_json where
  "complete_initialization ctx = Inr ctx' \<Longrightarrow> ctx_step plan_json envelope_json ctx ctx'"
| "set_prepared_context snapshot baseline projection activation ctx = Inr ctx' \<Longrightarrow> ctx_step plan_json envelope_json ctx ctx'"
| "replace_activation activation ctx = Inr ctx' \<Longrightarrow> ctx_step plan_json envelope_json ctx ctx'"
| "set_narrative_projection projection ctx = Inr ctx' \<Longrightarrow> ctx_step plan_json envelope_json ctx ctx'"
| "set_writer_plan plan_json plan ctx = Inr ctx' \<Longrightarrow> ctx_step plan_json envelope_json ctx ctx'"
| "set_retrieved_context display retrieved ctx = Inr ctx' \<Longrightarrow> ctx_step plan_json envelope_json ctx ctx'"
| "set_character_decisions decisions ctx = Inr ctx' \<Longrightarrow> ctx_step plan_json envelope_json ctx ctx'"
| "skip_retrieval ctx = Inr ctx' \<Longrightarrow> ctx_step plan_json envelope_json ctx ctx'"
| "skip_character_thinking ctx = Inr ctx' \<Longrightarrow> ctx_step plan_json envelope_json ctx ctx'"
| "complete_context_preparation ctx = Inr ctx' \<Longrightarrow> ctx_step plan_json envelope_json ctx ctx'"
| "set_generated_story story ctx = Inr ctx' \<Longrightarrow> ctx_step plan_json envelope_json ctx ctx'"
| "set_state_extraction envelope_json envelope ctx = Inr ctx' \<Longrightarrow> ctx_step plan_json envelope_json ctx ctx'"
| "record_state_extraction_failure issues ctx = Inr ctx' \<Longrightarrow> ctx_step plan_json envelope_json ctx ctx'"
| "set_validation_result result ctx = Inr ctx' \<Longrightarrow> ctx_step plan_json envelope_json ctx ctx'"
| "replace_story story ctx = Inr ctx' \<Longrightarrow> ctx_step plan_json envelope_json ctx ctx'"
| "replace_state_extraction envelope_json envelope ctx = Inr ctx' \<Longrightarrow> ctx_step plan_json envelope_json ctx ctx'"
| "ctx_consume_correction_round kind ctx = (res, ctx') \<Longrightarrow> ctx_step plan_json envelope_json ctx ctx'"
| "set_committed_result committed ctx = Inr ctx' \<Longrightarrow> ctx_step plan_json envelope_json ctx ctx'"
| "mark_failed failure ctx = Inr ctx' \<Longrightarrow> ctx_step plan_json envelope_json ctx ctx'"
| "mark_cancelled failure ctx = Inr ctx' \<Longrightarrow> ctx_step plan_json envelope_json ctx ctx'"
| "mark_conflict failure ctx = Inr ctx' \<Longrightarrow> ctx_step plan_json envelope_json ctx ctx'"

section \<open>The invariant\<close>

definition story_phases :: "TurnPhase set" where
  "story_phases = {PhStoryReady, PhCandidateReady, PhStoryRepairRequired, PhStateReextractionRequired, PhReadyToCommit, PhCommitted}"

definition planned_phases :: "TurnPhase set" where
  "planned_phases = {PhPlanned, PhContextReady} \<union> story_phases"

definition prepared_phases :: "TurnPhase set" where
  "prepared_phases = insert PhPrepared planned_phases"

definition story_fits :: "('p, 'a, 'e, 'c) TurnExecutionContext \<Rightarrow> str \<Rightarrow> bool" where
  "story_fits ctx story \<longleftrightarrow> trim story \<noteq> [] \<and> str_len story \<le> lim_max_story_text_bytes (bud_limits (tx_budget ctx))"

text \<open>A decision for every request of the plan, in its order, and none for the player.\<close>

definition decisions_ok :: "('p, 'a, 'e, 'c) TurnExecutionContext \<Rightarrow> bool" where
  "decisions_ok ctx \<longleftrightarrow>
     tx_character_decisions ctx = [] \<or>
     (\<exists>plan baseline. tx_plan ctx = Some plan \<and> tx_baseline ctx = Some baseline
        \<and> map cd_role_id (tx_character_decisions ctx) = map ctq_role_id (wp_character_think_requests plan)
        \<and> bl_player_role_id baseline \<notin> cd_role_id ` set (tx_character_decisions ctx)
        \<and> length (tx_character_decisions ctx) \<le> lim_max_character_decisions (bud_limits (tx_budget ctx)))"

definition ctx_inv :: "('p, 'a, 'e, 'c) TurnExecutionContext \<Rightarrow> bool" where
  "ctx_inv ctx \<longleftrightarrow>
     (tx_phase ctx \<in> prepared_phases \<longrightarrow>
        tx_snapshot ctx \<noteq> None \<and> tx_baseline ctx \<noteq> None \<and> tx_narrative_projection ctx \<noteq> None \<and> tx_activation ctx \<noteq> None) \<and>
     (tx_phase ctx \<in> planned_phases \<longrightarrow> tx_plan ctx \<noteq> None) \<and>
     (tx_phase ctx \<in> {PhCreated, PhInitialized, PhPrepared} \<longrightarrow> tx_character_decisions ctx = []) \<and>
     decisions_ok ctx \<and>
     (tx_phase ctx \<in> story_phases \<longrightarrow> (\<exists>story. tx_story ctx = Some story \<and> story_fits ctx story)) \<and>
     (\<forall>b. tx_extraction ctx = Some b \<longrightarrow> bse_story_version b = tx_story_version ctx) \<and>
     (tx_phase ctx \<in> {PhCandidateReady, PhReadyToCommit, PhCommitted} \<longrightarrow> tx_extraction ctx \<noteq> None) \<and>
     (tx_phase ctx \<in> {PhStoryReady, PhCandidateReady, PhStoryRepairRequired, PhStateReextractionRequired} \<longrightarrow> tx_change_set ctx = None) \<and>
     (tx_phase ctx \<in> {PhReadyToCommit, PhCommitted} \<longrightarrow>
        (\<exists>cs. tx_validation ctx = Some (VPass cs) \<and> tx_change_set ctx = Some cs)) \<and>
     (tx_phase ctx = PhCommitted \<longrightarrow> tx_committed_result ctx \<noteq> None)"

lemmas phase_sets = story_phases_def planned_phases_def prepared_phases_def

lemma expect_phase_Ok [simp]: "expect_phase ctx p = Inr u \<longleftrightarrow> tx_phase ctx = p"
  by (auto simp: expect_phase_def fail_if_def)

lemma expect_phase_one_of_Ok [simp]: "expect_phase_one_of ctx ps = Inr u \<longleftrightarrow> tx_phase ctx \<in> set ps"
  by (auto simp: expect_phase_one_of_def fail_if_def)

lemma ensure_story_bound_Ok: "ensure_story_bound ctx story stage = Inr u \<longleftrightarrow> story_fits ctx story"
  by (auto simp: ensure_story_bound_def story_fits_def result_simps)

text \<open>What the invariant reads is untouched by most updates, and its clauses evaluate once the phase is known.\<close>

lemma decisions_ok_update [simp]:
  "decisions_ok (ctx\<lparr>tx_phase := x0\<rparr>) = decisions_ok ctx"
  "decisions_ok (ctx\<lparr>tx_snapshot := x1\<rparr>) = decisions_ok ctx"
  "decisions_ok (ctx\<lparr>tx_narrative_projection := x2\<rparr>) = decisions_ok ctx"
  "decisions_ok (ctx\<lparr>tx_activation := x3\<rparr>) = decisions_ok ctx"
  "decisions_ok (ctx\<lparr>tx_retrieved := x4\<rparr>) = decisions_ok ctx"
  "decisions_ok (ctx\<lparr>tx_story := x5\<rparr>) = decisions_ok ctx"
  "decisions_ok (ctx\<lparr>tx_story_version := x6\<rparr>) = decisions_ok ctx"
  "decisions_ok (ctx\<lparr>tx_extraction := x7\<rparr>) = decisions_ok ctx"
  "decisions_ok (ctx\<lparr>tx_validation := x8\<rparr>) = decisions_ok ctx"
  "decisions_ok (ctx\<lparr>tx_change_set := x9\<rparr>) = decisions_ok ctx"
  "decisions_ok (ctx\<lparr>tx_committed_result := x10\<rparr>) = decisions_ok ctx"
  "decisions_ok (ctx\<lparr>tx_terminal_kind := x11\<rparr>) = decisions_ok ctx"
  "decisions_ok (ctx\<lparr>tx_terminal_error := x12\<rparr>) = decisions_ok ctx"
  "decisions_ok (ctx\<lparr>tx_retrieval_skipped := x13\<rparr>) = decisions_ok ctx"
  "decisions_ok (ctx\<lparr>tx_character_thinking_skipped := x14\<rparr>) = decisions_ok ctx"
  by (simp_all add: decisions_ok_def)

lemma story_fits_update [simp]:
  "story_fits (ctx\<lparr>tx_phase := x0\<rparr>) = story_fits ctx"
  "story_fits (ctx\<lparr>tx_snapshot := x1\<rparr>) = story_fits ctx"
  "story_fits (ctx\<lparr>tx_narrative_projection := x2\<rparr>) = story_fits ctx"
  "story_fits (ctx\<lparr>tx_activation := x3\<rparr>) = story_fits ctx"
  "story_fits (ctx\<lparr>tx_retrieved := x4\<rparr>) = story_fits ctx"
  "story_fits (ctx\<lparr>tx_story := x5\<rparr>) = story_fits ctx"
  "story_fits (ctx\<lparr>tx_story_version := x6\<rparr>) = story_fits ctx"
  "story_fits (ctx\<lparr>tx_extraction := x7\<rparr>) = story_fits ctx"
  "story_fits (ctx\<lparr>tx_validation := x8\<rparr>) = story_fits ctx"
  "story_fits (ctx\<lparr>tx_change_set := x9\<rparr>) = story_fits ctx"
  "story_fits (ctx\<lparr>tx_committed_result := x10\<rparr>) = story_fits ctx"
  "story_fits (ctx\<lparr>tx_terminal_kind := x11\<rparr>) = story_fits ctx"
  "story_fits (ctx\<lparr>tx_terminal_error := x12\<rparr>) = story_fits ctx"
  "story_fits (ctx\<lparr>tx_retrieval_skipped := x13\<rparr>) = story_fits ctx"
  "story_fits (ctx\<lparr>tx_character_thinking_skipped := x14\<rparr>) = story_fits ctx"
  "story_fits (ctx\<lparr>tx_baseline := x15\<rparr>) = story_fits ctx"
  "story_fits (ctx\<lparr>tx_plan := x16\<rparr>) = story_fits ctx"
  "story_fits (ctx\<lparr>tx_character_decisions := x17\<rparr>) = story_fits ctx"
  by (simp_all add: story_fits_def fun_eq_iff)

lemma decisions_ok_none: "tx_character_decisions ctx = [] \<Longrightarrow> decisions_ok ctx"
  by (simp add: decisions_ok_def)

lemma phase_members [simp]:
  "p \<in> story_phases \<longleftrightarrow> p = PhStoryReady \<or> p = PhCandidateReady \<or> p = PhStoryRepairRequired
     \<or> p = PhStateReextractionRequired \<or> p = PhReadyToCommit \<or> p = PhCommitted"
  "p \<in> planned_phases \<longleftrightarrow> p = PhPlanned \<or> p = PhContextReady \<or> p \<in> story_phases"
  "p \<in> prepared_phases \<longleftrightarrow> p = PhPrepared \<or> p \<in> planned_phases"
  by (auto simp: phase_sets)

lemma TurnExecutionContext_new_inv: "TurnExecutionContext_new identity request budget = Inr ctx \<Longrightarrow> ctx_inv ctx"
  by (clarsimp simp: TurnExecutionContext_new_def ctx_inv_def decisions_ok_none split: if_splits)

lemma complete_initialization_inv: "complete_initialization ctx = Inr ctx' \<Longrightarrow> ctx_inv ctx \<Longrightarrow> ctx_inv ctx'"
  by (clarsimp simp: complete_initialization_def result_simps ctx_inv_def decisions_ok_none Let_def)

lemma set_prepared_context_inv: "set_prepared_context snapshot baseline projection activation ctx = Inr ctx' \<Longrightarrow> ctx_inv ctx \<Longrightarrow> ctx_inv ctx'"
  by (clarsimp simp: set_prepared_context_def result_simps ctx_inv_def decisions_ok_none Let_def)

lemma replace_activation_inv: "replace_activation activation ctx = Inr ctx' \<Longrightarrow> ctx_inv ctx \<Longrightarrow> ctx_inv ctx'"
  by (clarsimp simp: replace_activation_def result_simps ctx_inv_def decisions_ok_none Let_def)

lemma set_narrative_projection_inv: "set_narrative_projection projection ctx = Inr ctx' \<Longrightarrow> ctx_inv ctx \<Longrightarrow> ctx_inv ctx'"
  by (clarsimp simp: set_narrative_projection_def result_simps ctx_inv_def decisions_ok_none Let_def)

lemma set_writer_plan_inv: "set_writer_plan plan_json plan ctx = Inr ctx' \<Longrightarrow> ctx_inv ctx \<Longrightarrow> ctx_inv ctx'"
  by (clarsimp simp: set_writer_plan_def result_simps ctx_inv_def decisions_ok_none Let_def)

lemma complete_context_preparation_inv: "complete_context_preparation ctx = Inr ctx' \<Longrightarrow> ctx_inv ctx \<Longrightarrow> ctx_inv ctx'"
  by (clarsimp simp: complete_context_preparation_def result_simps ctx_inv_def decisions_ok_none Let_def)

lemma zip_roles:
  "length ds = length qs \<Longrightarrow> (\<forall>(d, q) \<in> set (zip ds qs). cd_role_id d = ctq_role_id q) \<Longrightarrow>
     map cd_role_id ds = map ctq_role_id qs"
  by (induction ds qs rule: list_induct2) auto

lemma decisions_inv:
  assumes "set_character_decisions decisions ctx = Inr ctx'" and inv: "ctx_inv ctx"
  shows "ctx_inv ctx'"
proof -
  have ph: "tx_phase ctx = PhPlanned" and ctx': "ctx' = ctx\<lparr>tx_character_decisions := decisions\<rparr>"
    using assms(1) by (auto simp: set_character_decisions_def Let_def result_simps)
  obtain plan baseline where pb: "tx_plan ctx = Some plan" "tx_baseline ctx = Some baseline"
    using inv ph by (auto simp: ctx_inv_def)
  have "length decisions = length (wp_character_think_requests plan)"
    "\<forall>(d, q) \<in> set (zip decisions (wp_character_think_requests plan)). cd_role_id d = ctq_role_id q"
    "\<not> list_ex (\<lambda>d. cd_role_id d = bl_player_role_id baseline) decisions"
    "length decisions \<le> lim_max_character_decisions (bud_limits (tx_budget ctx))"
    using assms(1) pb by (auto simp: set_character_decisions_def Let_def result_simps required_plan_def)
  then have "decisions_ok ctx'"
    using pb zip_roles by (auto simp: decisions_ok_def ctx' list_ex_iff)
  then show ?thesis using inv ph by (simp add: ctx_inv_def ctx')
qed

lemma set_retrieved_context_inv: "set_retrieved_context display retrieved ctx = Inr ctx' \<Longrightarrow> ctx_inv ctx \<Longrightarrow> ctx_inv ctx'"
  by (clarsimp simp: set_retrieved_context_def result_simps ctx_inv_def decisions_ok_none Let_def)

lemma skip_retrieval_inv: "skip_retrieval ctx = Inr ctx' \<Longrightarrow> ctx_inv ctx \<Longrightarrow> ctx_inv ctx'"
  by (clarsimp simp: skip_retrieval_def result_simps ctx_inv_def decisions_ok_none Let_def)

lemma skip_character_thinking_inv: "skip_character_thinking ctx = Inr ctx' \<Longrightarrow> ctx_inv ctx \<Longrightarrow> ctx_inv ctx'"
  by (clarsimp simp: skip_character_thinking_def result_simps ctx_inv_def decisions_ok_none Let_def)

lemma set_generated_story_inv: "set_generated_story story ctx = Inr ctx' \<Longrightarrow> ctx_inv ctx \<Longrightarrow> ctx_inv ctx'"
  by (clarsimp simp: set_generated_story_def result_simps ctx_inv_def decisions_ok_none Let_def ensure_story_bound_Ok)

lemma replace_story_inv: "replace_story story ctx = Inr ctx' \<Longrightarrow> ctx_inv ctx \<Longrightarrow> ctx_inv ctx'"
  by (clarsimp simp: replace_story_def result_simps ctx_inv_def decisions_ok_none Let_def ensure_story_bound_Ok)

lemma set_state_extraction_inv: "set_state_extraction envelope_json envelope ctx = Inr ctx' \<Longrightarrow> ctx_inv ctx \<Longrightarrow> ctx_inv ctx'"
  by (clarsimp simp: set_state_extraction_def result_simps ctx_inv_def decisions_ok_none Let_def bound_extraction_def)

lemma replace_state_extraction_inv: "replace_state_extraction envelope_json envelope ctx = Inr ctx' \<Longrightarrow> ctx_inv ctx \<Longrightarrow> ctx_inv ctx'"
  by (clarsimp simp: replace_state_extraction_def result_simps ctx_inv_def decisions_ok_none Let_def bound_extraction_def)

lemma record_state_extraction_failure_inv:
  assumes "record_state_extraction_failure issues ctx = Inr ctx'" and "ctx_inv ctx"
  shows "ctx_inv ctx'"
proof -
  have "tx_phase ctx = PhStoryReady \<or> tx_phase ctx = PhStateReextractionRequired"
    "ctx' = ctx\<lparr>tx_extraction := None, tx_change_set := None, tx_validation := Some (VReextractState issues),
       tx_phase := PhStateReextractionRequired\<rparr>"
    using assms(1) by (auto simp: record_state_extraction_failure_def result_simps)
  then show ?thesis using assms(2) by (elim disjE) (simp_all add: ctx_inv_def)
qed

lemma set_validation_result_inv: "set_validation_result result ctx = Inr ctx' \<Longrightarrow> ctx_inv ctx \<Longrightarrow> ctx_inv ctx'"
  by (cases result) (clarsimp simp: set_validation_result_def Let_def result_simps ctx_inv_def)+

lemma set_committed_result_inv: "set_committed_result committed ctx = Inr ctx' \<Longrightarrow> ctx_inv ctx \<Longrightarrow> ctx_inv ctx'"
  by (clarsimp simp: set_committed_result_def result_simps ctx_inv_def decisions_ok_none Let_def)

lemma mark_inv:
  "mark_failed failure ctx = Inr ctx' \<Longrightarrow> ctx_inv ctx \<Longrightarrow> ctx_inv ctx'"
  "mark_cancelled failure ctx = Inr ctx' \<Longrightarrow> ctx_inv ctx \<Longrightarrow> ctx_inv ctx'"
  "mark_conflict failure ctx = Inr ctx' \<Longrightarrow> ctx_inv ctx \<Longrightarrow> ctx_inv ctx'"
  by (clarsimp simp: mark_failed_def mark_cancelled_def mark_conflict_def mark_terminal_def result_simps ctx_inv_def)+

lemma consume_keeps_limits: "consume_correction_round b kind = (res, b') \<Longrightarrow> bud_limits b' = bud_limits b"
  by (auto simp: consume_correction_round_def Let_def split: if_splits)

lemma correction_inv:
  assumes "ctx_consume_correction_round kind ctx = (res, ctx')" and "ctx_inv ctx"
  shows "ctx_inv ctx'"
proof -
  obtain b where "consume_correction_round (tx_budget ctx) kind = (res, b)" "ctx' = ctx\<lparr>tx_budget := b\<rparr>"
    using assms(1) by (auto simp: ctx_consume_correction_round_def split: prod.splits)
  then show ?thesis
    using assms(2) consume_keeps_limits [of "tx_budget ctx" kind res b]
    by (auto simp: ctx_inv_def decisions_ok_def story_fits_def)
qed

lemmas setter_invs = complete_initialization_inv set_prepared_context_inv replace_activation_inv
  set_narrative_projection_inv set_writer_plan_inv complete_context_preparation_inv decisions_inv
  set_retrieved_context_inv skip_retrieval_inv skip_character_thinking_inv set_generated_story_inv replace_story_inv
  set_state_extraction_inv replace_state_extraction_inv record_state_extraction_failure_inv set_validation_result_inv
  correction_inv set_committed_result_inv mark_inv

lemma ctx_step_inv: "ctx_step plan_json envelope_json ctx ctx' \<Longrightarrow> ctx_inv ctx \<Longrightarrow> ctx_inv ctx'"
  by (induction rule: ctx_step.induct)
    (erule (1) setter_invs)+


end
