(* ===== verification/Runtime_Safety.thy ===== *)
theory Runtime_Safety
  imports Turn_Runtime Context_Safety
begin

text \<open>
  What the engine of the crate \<open>aise\<close> does in every turn: one terminal event, the last one, that agrees with
  the outcome; a replay without a run; and, for the runs that commit, the stages that led there and what was
  handed to the store.
\<close>

section \<open>Events\<close>

lemma execute_events:
  assumes "execute env pl (ctx, events) = (res, ctx', events')"
  shows "events' = events \<or> (\<exists>n. events' = events @ [EvStageStarted (Some n) (pl_stage pl)])"
  using assms by (auto simp: execute_def execute_entered_def Let_def split: option.splits if_splits prod.splits sum.splits)

lemma execute_Ok:
  assumes "execute env pl (ctx, events) = (Inr u, ctx', events')"
  shows "pl_execute pl ctx = (Inr (), ctx')"
    and "events' = events @ [EvStageStarted (Some (id_turn_number (tx_identity ctx))) (pl_stage pl)]"
    and "stage_entry_phases (pl_stage pl) = Some ps \<Longrightarrow> tx_phase ctx \<in> set ps"
    and "stage_exit_phases (pl_stage pl) = Some ps \<Longrightarrow> tx_phase ctx' \<in> set ps"
    and "\<not> re_cancelled env (pl_stage pl)" and "re_now env (pl_stage pl) < re_deadline env"
  using assms by (auto simp: execute_def execute_entered_def Let_def split: option.splits if_splits prod.splits sum.splits)

fun stage_events :: "TurnEvent_aise list \<Rightarrow> bool" where
  "stage_events [] = True"
| "stage_events (EvStageStarted n s # es) = stage_events es"
| "stage_events _ = False"

lemma stage_events_append [simp]: "stage_events (xs @ ys) \<longleftrightarrow> stage_events xs \<and> stage_events ys"
  by (induction xs rule: stage_events.induct) auto

lemma stage_events_not_terminal: "stage_events es \<Longrightarrow> e \<in> set es \<Longrightarrow> \<not> TurnEvent_is_terminal e"
  by (induction es rule: stage_events.induct) auto

definition staged :: "(TurnExecutionError + unit) \<times> ('p, 'a, 'e, 'c) run_state \<Rightarrow> bool" where
  "staged r = stage_events (snd (snd r))"

lemma staged_execute: "stage_events (snd s) \<Longrightarrow> staged (execute env pl s)"
proof -
  obtain ctx events where Pair: "s = (ctx, events)" by fastforce
  obtain res ctx' events' where r: "execute env pl (ctx, events) = (res, ctx', events')" by (metis prod_cases3)
  then show "stage_events (snd s) \<Longrightarrow> staged (execute env pl s)"
    using Pair execute_events [OF r] by (auto simp: staged_def)
qed

lemma staged_then_run:
  assumes "staged r" and "\<And>s. stage_events (snd s) \<Longrightarrow> staged (f s)"
  shows "staged (then_run r f)"
proof -
  obtain x s where "r = (x, s)" by (rule prod.exhaust)
  then show ?thesis using assms by (cases x) (auto simp: staged_def)
qed

lemma staged_run_op: "stage_events (snd s) \<Longrightarrow> staged (run_op f s)"
  by (auto simp: run_op_def staged_def split: prod.splits)

lemma staged_run_if:
  "stage_events (snd s) \<Longrightarrow> (\<And>s. stage_events (snd s) \<Longrightarrow> staged (yes s)) \<Longrightarrow> (\<And>s. stage_events (snd s) \<Longrightarrow> staged (no s)) \<Longrightarrow>
     staged (run_if test yes no s)"
  by (auto simp: run_if_def staged_def split: sum.splits)

lemma run_inner_staged: "staged (run_inner env ps no_changes ctx)"
  unfolding run_inner_def Let_def
  by (intro staged_then_run staged_execute staged_run_op staged_run_if) (simp_all add: staged_def)

definition event_of :: "nat option \<Rightarrow> TurnRunOutcome \<Rightarrow> TurnEvent_aise" where
  "event_of n outcome = (case outcome of Committed r replayed \<Rightarrow> EvCommitted r replayed | Failed e \<Rightarrow> terminal_event_aise n e)"

lemma event_of_terminal: "TurnEvent_is_terminal (event_of n outcome)"
  by (cases outcome) (auto simp: event_of_def terminal_event_aise_def split: TurnTerminalKind.splits)

definition ends_once :: "TurnRunOutcome \<Rightarrow> TurnEvent_aise list \<Rightarrow> bool" where
  "ends_once outcome events \<longleftrightarrow> (\<exists>stages n. stage_events stages \<and> events = stages @ [event_of n outcome])"

lemma finalize_event:
  assumes "finalize ctx result events = (outcome, events', ctx')" and "stage_events events"
  shows "ends_once outcome events'"
  using assms by (auto simp: ends_once_def finalize_def event_of_def split: sum.splits TurnRunOutcome.splits)

lemma run_engine_event:
  fixes env :: "('p, 'a, 'e, 'c) engine_env"
  assumes "run_engine_aise env spec request n = (outcome, events, ctx)"
  shows "ends_once outcome events"
proof -
  let ?identity = "\<lparr>id_story_id = ets_story_id spec, id_turn_number = n, id_idempotency_key = ets_idempotency_key spec,
    id_started_at_ms = ee_now_millis env\<rparr>"
  show ?thesis
  proof (cases "rbind (ee_budget env) (TurnExecutionContext_new ?identity request)
      :: TurnExecutionError + ('p, 'a, 'e, 'c) TurnExecutionContext")
    case (Inl e)
    then show ?thesis using assms by (intro finalize_event [of None "Inl e" "[]" outcome events ctx]) (simp_all add: run_engine_aise_def)
  next
    case (Inr c)
    obtain x c' es where run: "run_inner (ee_run env) (ee_pipelines env) (ee_no_changes env) c = (x, c', es)"
      by (metis prod_cases3)
    have "stage_events es"
      using run_inner_staged [of "ee_run env" "ee_pipelines env" "ee_no_changes env" c] run by (simp add: staged_def)
    then show ?thesis using assms Inr run by (auto simp: run_engine_aise_def intro: finalize_event)
  qed
qed

text \<open>C23.
  Every turn of the engine ends with exactly one terminal event: however the turn ends (an invalid request, no
  permit, a story that does not exist, a replay, an idempotency conflict, any failure in a stage, a commit),
  the events are starts of stages and then the terminal event of the outcome that is returned.
\<close>

theorem one_terminal_event:
  assumes "execute_turn env spec = (outcome, events, ctx)"
  shows "\<exists>stages n. events = stages @ [event_of n outcome] \<and> TurnEvent_is_terminal (event_of n outcome)
    \<and> (\<forall>e \<in> set stages. \<exists>m s. e = EvStageStarted m s)"
proof -
  have "ends_once outcome events"
    using assms finalize_event [of _ _ "[]" outcome events ctx] run_engine_event [of env spec _ _ outcome events ctx]
    by (auto simp: execute_turn_def split: sum.splits option.splits if_splits)
  moreover have "\<exists>m s. e = EvStageStarted m s" if "stage_events es" "e \<in> set es" for es e
    using that by (induction es rule: stage_events.induct) auto
  ultimately show ?thesis using event_of_terminal unfolding ends_once_def by blast
qed

section \<open>Runs that commit\<close>

lemma then_run_Ok: "then_run r f = (Inr u, s') \<longleftrightarrow> (\<exists>v s. r = (Inr v, s) \<and> f s = (Inr u, s'))"
proof -
  obtain x s where "r = (x, s)" by (rule prod.exhaust)
  then show ?thesis by (cases x) auto
qed

lemma run_op_Ok: "run_op f (ctx, events) = (Inr u, ctx', events') \<longleftrightarrow> f ctx = Inr ctx' \<and> events' = events"
  by (auto simp: run_op_def apply_op_def split: sum.splits)

lemma built_stages:
  assumes "TurnPipelineSet_build b = Inr ps"
  shows "pl_stage (ps_initializer ps) = StTurnInitializer" "pl_stage (ps_baseline_builder ps) = StBaselineBuilder"
    "pl_stage (ps_writer_planner ps) = StWriterPlanner" "pl_stage (ps_retrieval ps) = StContextRetrieval"
    "pl_stage (ps_character_think ps) = StCharacterThink" "pl_stage (ps_story_generator ps) = StStoryGenerator"
    "pl_stage (ps_committer ps) = StTurnCommitter"
proof -
  have bind: "bind_pipeline f p s = Inr pl \<Longrightarrow> pl_stage pl = s" for f s and p :: "('a, 'b, 'c, 'd) pipeline option" and pl
    by (auto simp: bind_pipeline_def result_simps split: if_splits)
  show "pl_stage (ps_initializer ps) = StTurnInitializer" "pl_stage (ps_baseline_builder ps) = StBaselineBuilder"
    "pl_stage (ps_writer_planner ps) = StWriterPlanner" "pl_stage (ps_retrieval ps) = StContextRetrieval"
    "pl_stage (ps_character_think ps) = StCharacterThink" "pl_stage (ps_story_generator ps) = StStoryGenerator"
    "pl_stage (ps_committer ps) = StTurnCommitter"
    using assms by (auto simp: TurnPipelineSet_build_def result_simps dest!: bind)
qed

definition started :: "TurnEvent_aise list \<Rightarrow> TurnStage list" where
  "started events = List.map_filter (\<lambda>e. case e of EvStageStarted n s \<Rightarrow> Some s | _ \<Rightarrow> None) events"

lemma started_simps [simp]:
  "started [] = []" "started (xs @ ys) = started xs @ started ys" "started [EvStageStarted n s] = [s]"
  by (simp_all add: started_def map_filter_def)

lemma execute_started:
  assumes "execute env pl s = (Inr u, s')"
  shows "started (snd s') = started (snd s) @ [pl_stage pl]" and "pl_execute pl (fst s) = (Inr (), fst s')"
    and "stage_exit_phases (pl_stage pl) = Some ps \<Longrightarrow> tx_phase (fst s') \<in> set ps"
proof -
  have e: "execute env pl (fst s, snd s) = (Inr u, fst s', snd s')" using assms by simp
  show "started (snd s') = started (snd s) @ [pl_stage pl]" using execute_Ok(2) [OF e] by simp
  show "pl_execute pl (fst s) = (Inr (), fst s')" using execute_Ok(1) [OF e] by simp
  show "stage_exit_phases (pl_stage pl) = Some ps \<Longrightarrow> tx_phase (fst s') \<in> set ps" using execute_Ok(4) [OF e] by simp
qed

lemma run_op_started: "run_op f s = (Inr u, s') \<Longrightarrow> f (fst s) = Inr (fst s') \<and> snd s' = snd s"
  by (cases s; cases s') (simp add: run_op_Ok)

text \<open>The stages a committing run starts: the fixed ones, with retrieval and thinking as the plan asks.\<close>

lemma run_inner_Ok:
  assumes "run_inner env ps no_changes ctx = (Inr u, ctx', events)" and "TurnPipelineSet_build b = Inr ps"
  obtains c1 c2 opt where
    "set opt \<subseteq> {StContextRetrieval, StCharacterThink}"
    "started events = [StTurnInitializer, StBaselineBuilder, StWriterPlanner] @ opt @ [StStoryGenerator, StTurnCommitter]"
    "tx_phase c1 = PhStoryReady"
    "construct_changeset no_changes (set_pahse PhReadyToCommit c1) = Inr c2"
    "pl_execute (ps_committer ps) c2 = (Inr (), ctx')"
    "tx_committed_result ctx' \<noteq> None" "tx_phase ctx' = PhCommitted"
proof -
  note st = built_stages [OF assms(2)]
  obtain s1 s2 s3 s4 s5 s6 s7 s8 where
    e1: "execute env (ps_initializer ps) (ctx, []) = (Inr (), s1)" and
    e2: "execute env (ps_baseline_builder ps) s1 = (Inr (), s2)" and
    e3: "execute env (ps_writer_planner ps) s2 = (Inr (), s3)" and
    e4: "run_if requires_retrieval_aise (execute env (ps_retrieval ps)) (run_op skip_retrieval) s3 = (Inr (), s4)" and
    e5: "run_if requires_character_thinking_aise (execute env (ps_character_think ps)) (run_op skip_character_thinking) s4 = (Inr (), s5)" and
    e6: "run_op complete_context_preparation s5 = (Inr (), s6)" and
    e7: "execute env (ps_story_generator ps) s6 = (Inr (), s7)" and
    e8: "run_op (construct_changeset no_changes) (set_pahse PhReadyToCommit (fst s7), snd s7) = (Inr (), s8)" and
    e9: "execute env (ps_committer ps) s8 = (Inr (), (ctx', events))" and
    fin: "tx_committed_result ctx' \<noteq> None"
    using assms(1) unfolding run_inner_def then_run_Ok Let_def
    by (auto split: option.splits)
  obtain o1 where o1: "started (snd s4) = started (snd s3) @ o1" "set o1 \<subseteq> {StContextRetrieval}"
    using e4 execute_started(1) [of env "ps_retrieval ps" s3 "()" s4] run_op_started [of skip_retrieval s3 "()" s4] st(4)
    by (auto simp: run_if_def split: sum.splits if_splits)
  obtain o2 where o2: "started (snd s5) = started (snd s4) @ o2" "set o2 \<subseteq> {StCharacterThink}"
    using e5 execute_started(1) [of env "ps_character_think ps" s4 "()" s5]
      run_op_started [of skip_character_thinking s4 "()" s5] st(5)
    by (auto simp: run_if_def split: sum.splits if_splits)
  have tr: "started events = [StTurnInitializer, StBaselineBuilder, StWriterPlanner] @ (o1 @ o2) @ [StStoryGenerator, StTurnCommitter]"
    using execute_started(1) [OF e1] execute_started(1) [OF e2] execute_started(1) [OF e3] o1(1) o2(1)
      run_op_started [OF e6] execute_started(1) [OF e7] run_op_started [OF e8] execute_started(1) [OF e9] st by simp
  show thesis
  proof (rule that [of "o1 @ o2" "fst s7" "fst s8"])
    show "set (o1 @ o2) \<subseteq> {StContextRetrieval, StCharacterThink}" using o1(2) o2(2) by auto
    show "started events = [StTurnInitializer, StBaselineBuilder, StWriterPlanner] @ (o1 @ o2) @ [StStoryGenerator, StTurnCommitter]"
      by (rule tr)
    show "tx_phase (fst s7) = PhStoryReady" using execute_started(3) [OF e7] st(6) by simp
    show "construct_changeset no_changes (set_pahse PhReadyToCommit (fst s7)) = Inr (fst s8)" using run_op_started [OF e8] by simp
    show "pl_execute (ps_committer ps) (fst s8) = (Inr (), ctx')" using execute_started(2) [OF e9] by simp
    show "tx_committed_result ctx' \<noteq> None" by (rule fin)
    show "tx_phase ctx' = PhCommitted" using execute_started(3) [OF e9] st(7) by simp
  qed
qed


end
