(* ===== verification/Examples_Previous.thy ===== *)
theory Examples_Previous
  imports Coordinator_Safety Gateway_Safety Runtime_Safety
begin

text \<open>
  Concrete turns, budgets and interleavings of the crate \<open>aise\<close>, at which the theorems on it apply.
\<close>

section \<open>Budget\<close>

definition sample_limits :: TurnBudgetLimits where
  "sample_limits =
     \<lparr>lim_max_repair_rounds = 3, lim_max_llm_calls = 8, lim_max_input_tokens = 8192, lim_max_output_tokens = 4096,
      lim_max_total_tokens = 12288, lim_max_items_per_audience = 8, lim_max_tokens_per_audience = 512,
      lim_max_total_items = 32, lim_max_retrieved_tokens = 2048, lim_max_item_bytes = 4096, lim_max_context_tokens = 8192,
      lim_max_character_decisions = 8, lim_max_character_decision_bytes = 4096, lim_max_plan_bytes = 4096,
      lim_max_story_text_bytes = 4096, lim_max_state_extraction_bytes = 4096, lim_max_validation_issues = 32,
      lim_max_validation_issue_bytes = 512\<rparr>"

definition sample_reservation :: LlmBudgetReservation where
  "sample_reservation = \<lparr>res_call_id = [7], res_input_tokens = 10, res_output_tokens = 20\<rparr>"

definition sample_call :: LlmCallUsage where
  "sample_call =
     \<lparr>cu_call_id = [7], cu_purpose = PpWriterPlan, cu_provider = [], cu_model = [], cu_input_tokens = 8,
      cu_cached_input_tokens = None, cu_output_tokens = 5, cu_total_tokens = 13, cu_accuracy = Exact,
      cu_pricing_version = None, cu_charge = None, cu_finish_reason = None\<rparr>"

definition sample_reserved :: account where
  "sample_reserved =
     \<lparr>acc_budget = \<lparr>bud_limits = sample_limits, bud_usage = TurnBudgetUsage_default\<lparr>use_input_tokens := 10,
        use_output_tokens := 20, use_total_tokens := 30\<rparr>\<rparr>, acc_outstanding = {#sample_reservation#}, acc_settled = []\<rparr>"

definition sample_settled :: account where
  "sample_settled =
     \<lparr>acc_budget = \<lparr>bud_limits = sample_limits, bud_usage = TurnBudgetUsage_default\<lparr>use_llm_calls := 1,
        use_input_tokens := 8, use_output_tokens := 5, use_total_tokens := 13\<rparr>\<rparr>, acc_outstanding = {#},
      acc_settled = [sample_call]\<rparr>"

lemmas budget_defs = sample_limits_def sample_reservation_def sample_call_def TurnBudgetUsage_default_def
  u64_sat_add_def Let_def

lemma sample_budget_steps: "budget_step\<^sup>*\<^sup>* (account_new sample_limits) sample_settled"
proof -
  have "reserve_llm (acc_budget (account_new sample_limits)) [7] 10 20 = (Inr sample_reservation, acc_budget sample_reserved)"
    by (simp add: reserve_llm_def account_new_def sample_reserved_def budget_defs)
  from budget_step.reserve [OF this] have 1: "budget_step (account_new sample_limits) sample_reserved"
    by (simp add: account_new_def sample_reserved_def)
  have "settle_llm (acc_budget sample_reserved) sample_reservation sample_call = (Inr (), acc_budget sample_settled)"
    by (simp add: settle_llm_def release_llm_def sample_reserved_def sample_settled_def budget_defs)
  from budget_step.settle [OF _ this] have 2: "budget_step sample_reserved sample_settled"
    by (simp add: sample_reserved_def sample_settled_def)
  from 1 2 show ?thesis by auto
qed

theorem budget_kept_witness:
  "budget_step\<^sup>*\<^sup>* (account_new sample_limits) sample_settled \<and> finite_limits sample_limits
   \<and> used_input sample_settled = 8 \<and> use_input_tokens (bud_usage (acc_budget sample_settled)) = used_input sample_settled
   \<and> used_output sample_settled \<le> lim_max_output_tokens sample_limits"
proof -
  have fin: "finite_limits sample_limits" by (simp add: finite_limits_def sample_limits_def)
  have "used_input sample_settled = 8" by (simp add: used_input_def sample_settled_def sample_call_def)
  then show ?thesis using budget_kept [OF sample_budget_steps fin] sample_budget_steps fin by blast
qed

section \<open>Coordinator\<close>

definition sample_callers :: "coord_action list" where
  "sample_callers =
     [Enter 0 [115] 60000, Check 0, Select 0 Permit, Leave 0, Count 0, Enter 1 [115] 60000, Check 1, Elapse 5]"

definition sample_coordinator :: StoryTurnCoordinator where
  "sample_coordinator = the (coord_run sample_callers (StoryTurnCoordinator_new CoordinatorConfig_default))"

lemma sample_coordinator_run:
  "coord_run sample_callers (StoryTurnCoordinator_new CoordinatorConfig_default) = Some sample_coordinator"
  by (simp add: sample_coordinator_def sample_callers_def coord_defs)

lemma sample_coordinator_callers:
  "co_callers sample_coordinator 0 = Holding [115] 0" "co_callers sample_coordinator 1 = Selecting [115] 0 60000"
  "co_total_waiters sample_coordinator = 1" "co_active_permits sample_coordinator = 1"
  by (simp_all add: sample_coordinator_def sample_callers_def coord_defs)

theorem coordinator_counters_exact_witness:
  "coord_run sample_callers (StoryTurnCoordinator_new CoordinatorConfig_default) = Some sample_coordinator
   \<and> card (callers_in waiting sample_coordinator) = 1 \<and> card (callers_in counted sample_coordinator) = 1"
  using coordinator_counters_exact [OF sample_coordinator_run] sample_coordinator_run sample_coordinator_callers by simp

lemma sample_timely: "timely_run sample_callers (StoryTurnCoordinator_new CoordinatorConfig_default)"
  by (simp add: sample_callers_def coord_defs premature_def)

theorem story_exclusive_witness:
  "timely_run sample_callers (StoryTurnCoordinator_new CoordinatorConfig_default)
   \<and> co_callers sample_coordinator 0 = Holding [115] 0 \<and> co_callers sample_coordinator 1 \<noteq> Holding [115] 0"
proof -
  have "CoordinatorConfig_validate CoordinatorConfig_default = Inr ()"
    by (simp add: CoordinatorConfig_validate_def CoordinatorConfig_default_def result_simps)
  from story_exclusive [OF sample_coordinator_run sample_timely this sample_coordinator_callers(1), of 1 0]
  show ?thesis using sample_timely sample_coordinator_callers(1) by simp
qed

section \<open>Gateway\<close>

definition sample_gateway :: LlmGateway_aise where
  "sample_gateway =
     \<lparr>gw_provider_name = [1], gw_encodable_modes = [PromptFallback], gw_model = [2], gw_provider_timeout_ms = 30000,
      gw_max_embedding_items = 256, gw_structured_output = \<lparr>soc_default_modes = [PromptFallback], soc_model_capabilities = []\<rparr>,
      gw_accountant = \<lparr>ta_provider = [1], ta_model = [2], ta_price_version = [], ta_input_price_per_1k = None,
        ta_cached_input_price_per_1k = None, ta_output_price_per_1k = None\<rparr>\<rparr>"

definition sample_answer :: LlmCompletion where
  "sample_answer = \<lparr>lc_text = [65, 66], lc_finish_reason = Some FrStop, lc_reasoning_content = None, lc_usage = None, lc_charge = None\<rparr>"

definition sample_env :: "LlmCompletion call_env" where
  "sample_env = \<lparr>ce_cancelled = False, ce_started = 0, ce_quota = Inr (), ce_permit = Inr (), ce_sent = 1, ce_outcome = Answered (Inr sample_answer)\<rparr>"

definition sample_prompt :: PromptComposition where
  "sample_prompt = \<lparr>pc_csi = [65], pc_rc = [66], pc_fti = [67]\<rparr>"

definition sample_calls :: "unit gateway_call list" where
  "sample_calls =
     [TextCall sample_env [7] (Some sample_prompt) 100 PpStoryGeneration,
      TextCall (sample_env\<lparr>ce_cancelled := True\<rparr>) [9] (Some sample_prompt) 100 PpStoryGeneration]"

definition sample_scope :: TurnLlmCallScope where
  "sample_scope = \<lparr>sco_budget = \<lparr>bud_limits = sample_limits, bud_usage = TurnBudgetUsage_default\<rparr>, sco_llm_calls = [], sco_deadline = 60000\<rparr>"

definition sample_usage :: LlmTokenUsage_aise where
  "sample_usage = \<lparr>tu_input_tokens = 3, tu_cached_input_tokens = None, tu_output_tokens = 1, tu_reasoning_tokens = None,
     tu_total_tokens = 4, tu_accuracy = Estimated\<rparr>"

definition sample_scope_reserved :: TurnLlmCallScope where
  "sample_scope_reserved = sample_scope\<lparr>sco_budget := \<lparr>bud_limits = sample_limits, bud_usage = TurnBudgetUsage_default\<lparr>
     use_input_tokens := 3, use_output_tokens := 100, use_total_tokens := 103\<rparr>\<rparr>\<rparr>"

definition sample_scope_after :: TurnLlmCallScope where
  "sample_scope_after = sample_scope\<lparr>sco_budget := \<lparr>bud_limits = sample_limits, bud_usage = TurnBudgetUsage_default\<lparr>
     use_llm_calls := 1, use_input_tokens := 3, use_output_tokens := 1, use_total_tokens := 4\<rparr>\<rparr>,
     sco_llm_calls := [usage_to_call_usage sample_gateway [7] PpStoryGeneration sample_usage None (Some FrStop)]\<rparr>"

lemma sample_estimate: "estimate_input_tokens (composition_messages sample_prompt) = 3"
  by (simp add: estimate_input_tokens_def composition_messages_def sample_prompt_def estimate_text_tokens_def u64_sat_add_def)

lemma sample_reserve:
  "scope_reserve sample_scope [7] 3 100 =
     (Inr \<lparr>res_call_id = [7], res_input_tokens = 3, res_output_tokens = 100\<rparr>, sample_scope_reserved)"
  by (simp add: scope_reserve_def reserve_llm_def sample_scope_def sample_scope_reserved_def budget_defs)

lemma sample_completed:
  "completed sample_gateway 3 (provider_result sample_gateway scope sample_env) = (Some (sample_answer\<lparr>lc_usage := Some sample_usage\<rparr>), None)"
  by (simp add: completed_def provider_result_def sample_env_def sample_answer_def sample_gateway_def estimated_usage_def
      charge_def estimate_text_tokens_def u64_sat_add_def sample_usage_def trim_def is_whitespace_def Let_def)

lemma sample_settle:
  "scope_settle sample_scope_reserved \<lparr>res_call_id = [7], res_input_tokens = 3, res_output_tokens = 100\<rparr>
     (usage_to_call_usage sample_gateway [7] PpStoryGeneration sample_usage None (Some FrStop)) = (Inr (), sample_scope_after)"
  by (simp add: scope_settle_def settle_llm_def release_llm_def sample_scope_reserved_def sample_scope_after_def sample_scope_def
      usage_to_call_usage_def sample_usage_def budget_defs)

lemma sample_fields:
  "ce_cancelled sample_env = False" "ce_started sample_env = 0" "ce_quota sample_env = Inr ()" "ce_permit sample_env = Inr ()"
  "sco_deadline sample_scope_reserved = 60000" "lc_charge sample_answer = None" "lc_finish_reason sample_answer = Some FrStop"
  by (simp_all add: sample_env_def sample_scope_reserved_def sample_scope_def sample_answer_def)

lemma sample_first_call:
  "fst (snd (complete_text_composed sample_gateway sample_env [7] sample_scope (Some sample_prompt) 100 PpStoryGeneration)) = sample_scope_after"
proof -
  have "run_call sample_gateway sample_env sample_scope_reserved
      \<lparr>cr_model = gw_model sample_gateway, cr_messages = composition_messages sample_prompt, cr_max_tokens = 100,
       cr_purpose = PpStoryGeneration, cr_output = OutText\<rparr>
      \<lparr>res_call_id = [7], res_input_tokens = 3, res_output_tokens = 100\<rparr> None
    = (Inr (sample_answer\<lparr>lc_usage := Some sample_usage\<rparr>), sample_scope_after,
       [FinishGeneration (Some (sample_answer\<lparr>lc_usage := Some sample_usage\<rparr>)) None sample_usage])"
    using sample_settle
    by (simp add: run_call_def Let_def sample_fields sample_estimate sample_completed check_structured_def settle_call_def)
  then show ?thesis
    by (simp add: complete_text_composed_def sample_estimate sample_reserve complete_aise_def execute_call_def)
qed

lemma sample_second_call:
  "fst (snd (complete_text_composed sample_gateway (sample_env\<lparr>ce_cancelled := True\<rparr>) [9] sample_scope_after (Some sample_prompt) 100
     PpStoryGeneration)) = sample_scope_after"
proof -
  obtain x s where r: "scope_reserve sample_scope_after [9] 3 100 = (x, s)" by fastforce
  have fin: "finite_limits (bud_limits (sco_budget sample_scope_after))"
    by (simp add: finite_limits_def sample_scope_after_def sample_limits_def)
  show ?thesis
  proof (cases x)
    case (Inl e)
    then show ?thesis
      using r reserve_refused_scope [of sample_scope_after "[9]" 3 100 e s]
      by (simp add: complete_text_composed_def sample_estimate)
  next
    case (Inr y)
    then show ?thesis
      using r released_effect [of sample_scope_after "[9]" 3 100 y s] fin
      by (simp add: complete_text_composed_def sample_estimate complete_aise_def execute_call_def run_call_def)
  qed
qed

lemma sample_calls_made:
  "map cu_call_id (sco_llm_calls (fold (run_gateway_call sample_gateway) sample_calls sample_scope)) = [[7]]"
  by (simp add: sample_calls_def sample_first_call sample_second_call)
    (simp add: sample_scope_after_def usage_to_call_usage_def)


section \<open>Turns\<close>

type_synonym sample_ctx = "(unit, unit, unit, unit) TurnExecutionContext"

definition sample_continuity :: StoryContinuity where
  "sample_continuity = \<lparr>con_summary = \<lparr>sum_text = [], sum_summarized_through = None\<rparr>, con_recent_segments = []\<rparr>"

definition sample_snapshot :: StoryReadSnapshot where
  "sample_snapshot = \<lparr>snap_story_continuity = sample_continuity, snap_base_revision = 0, snap_graph_revision = 0\<rparr>"

definition sample_baseline :: BaselineContext where
  "sample_baseline =
     \<lparr>bl_story_title = [65], bl_player_role_id = [112], bl_player_name = [80], bl_relevant_role_names = [], bl_facts = [],
      bl_rumors = [], bl_role_index_hints = [], bl_story_continuity = sample_continuity, bl_constraint_statements = []\<rparr>"

definition sample_plan :: WriterPlan where
  "sample_plan = \<lparr>wp_story_goal = [71], wp_retrieval_plan = \<lparr>rp_character_requests = [], rp_knowledge_requests = []\<rparr>,
     wp_character_think_requests = []\<rparr>"

definition sample_identity :: TurnIdentity where
  "sample_identity = \<lparr>id_story_id = [115], id_turn_number = 1, id_idempotency_key = [107], id_started_at_ms = 0\<rparr>"

definition sample_request :: TurnRequest_aise where
  "sample_request = \<lparr>trq_player_contribution = [104, 105], trq_request_digest = [104, 105]\<rparr>"

definition sample_budget :: TurnBudget where
  "sample_budget = \<lparr>bud_limits = sample_limits, bud_usage = TurnBudgetUsage_default\<rparr>"

definition sample_created :: sample_ctx where
  "sample_created =
     \<lparr>tx_identity = sample_identity, tx_phase = PhCreated, tx_request = sample_request, tx_budget = sample_budget,
      tx_snapshot = None, tx_baseline = None, tx_plan = None, tx_narrative_projection = None, tx_activation = None,
      tx_retrieved = RetrievedContext_default, tx_character_decisions = [], tx_story = None, tx_story_version = 0,
      tx_extraction = None, tx_validation = None, tx_change_set = None, tx_committed_result = None,
      tx_terminal_kind = None, tx_terminal_error = None, tx_llm_calls = [], tx_retrieval_skipped = False,
      tx_character_thinking_skipped = False\<rparr>"

definition sample_initialized :: sample_ctx where
  "sample_initialized = sample_created\<lparr>tx_phase := PhInitialized\<rparr>"

definition sample_prepared :: sample_ctx where
  "sample_prepared = sample_initialized\<lparr>tx_snapshot := Some sample_snapshot, tx_baseline := Some sample_baseline,
     tx_narrative_projection := Some (), tx_activation := Some (), tx_phase := PhPrepared\<rparr>"

definition sample_planned :: sample_ctx where
  "sample_planned = sample_prepared\<lparr>tx_plan := Some sample_plan, tx_phase := PhPlanned\<rparr>"

definition sample_story :: sample_ctx where
  "sample_story = sample_planned\<lparr>tx_phase := PhStoryReady, tx_story := Some [83], tx_story_version := 1\<rparr>"

definition sample_changes :: "unit ValidatedChangeSet" where
  "sample_changes = \<lparr>vcs_story_text = [83], vcs_narrative_events = [], vcs_changes = ()\<rparr>"

definition sample_ready :: sample_ctx where
  "sample_ready = sample_story\<lparr>tx_extraction := Some \<lparr>bse_story_version = 1, bse_envelope = ()\<rparr>,
     tx_validation := Some (VPass sample_changes), tx_change_set := Some sample_changes, tx_phase := PhReadyToCommit\<rparr>"

lemmas ctx_defs = sample_created_def sample_initialized_def sample_prepared_def sample_planned_def sample_story_def sample_ready_def

lemmas setter_defs = complete_initialization_def set_prepared_context_def set_writer_plan_def
  complete_context_preparation_def set_generated_story_def set_state_extraction_def set_validation_result_def
  expect_phase_def fail_if_def ensure_story_bound_def ensure_extraction_bound_def bound_extraction_def issues_bound_def
  baseline_estimate_tokens_def continuity_estimate_tokens_def estimate_text_tokens_def sample_baseline_def
  sample_continuity_def sample_budget_def trim_def is_whitespace_def utf8_len_def budget_defs

definition sample_json :: "'x \<Rightarrow> str + str" where
  "sample_json = (\<lambda>_. Inr [123, 125])"

lemma sample_new: "TurnExecutionContext_new sample_identity sample_request sample_budget = Inr sample_created"
  by (simp add: TurnExecutionContext_new_def sample_created_def remaining_output_tokens_def sample_budget_def budget_defs)

lemma sample_setters:
  "complete_initialization sample_created = Inr sample_initialized"
  "set_prepared_context sample_snapshot sample_baseline () () sample_initialized = Inr sample_prepared"
  "set_writer_plan sample_json sample_plan sample_prepared = Inr sample_planned"
  "complete_context_preparation sample_planned = Inr (sample_planned\<lparr>tx_phase := PhContextReady\<rparr>)"
  "set_generated_story [83] (sample_planned\<lparr>tx_phase := PhContextReady\<rparr>) = Inr sample_story"
  "set_state_extraction sample_json () sample_story = Inr (bound_extraction () sample_story)"
  "set_validation_result (VPass sample_changes) (bound_extraction () sample_story) = Inr sample_ready"
  by (simp_all add: ctx_defs setter_defs sample_json_def)

lemma sample_steps: "(ctx_step sample_json sample_json)\<^sup>*\<^sup>* sample_created sample_ready"
proof -
  have "ctx_step sample_json sample_json sample_created sample_initialized" using sample_setters(1) by (rule ctx_step.intros)
  moreover have "ctx_step sample_json sample_json sample_initialized sample_prepared" using sample_setters(2) by (rule ctx_step.intros)
  moreover have "ctx_step sample_json sample_json sample_prepared sample_planned" using sample_setters(3) by (rule ctx_step.intros)
  moreover have "ctx_step sample_json sample_json sample_planned (sample_planned\<lparr>tx_phase := PhContextReady\<rparr>)"
    using sample_setters(4) by (rule ctx_step.intros)
  moreover have "ctx_step sample_json sample_json (sample_planned\<lparr>tx_phase := PhContextReady\<rparr>) sample_story"
    using sample_setters(5) by (rule ctx_step.intros)
  moreover have "ctx_step sample_json sample_json sample_story (bound_extraction () sample_story)"
    using sample_setters(6) by (rule ctx_step.intros)
  moreover have "ctx_step sample_json sample_json (bound_extraction () sample_story) sample_ready"
    using sample_setters(7) by (rule ctx_step.intros)
  ultimately show ?thesis by (meson converse_rtranclp_into_rtranclp rtranclp.rtrancl_refl)
qed


section \<open>The engine\<close>

definition sample_result :: CommittedTurnResult where
  "sample_result = \<lparr>ctr_turn_number = 1, ctr_story_revision = 1, ctr_story_text = [83],
     ctr_llm_usage = LlmUsageAggregate_default, ctr_llm_calls = []\<rparr>"

definition sample_commit_turn :: "(unit, unit) TurnCommitSpec \<Rightarrow> TurnExecutionError + CommittedTurnResult" where
  "sample_commit_turn spec = Inr sample_result"

definition stage_pipeline :: "TurnStage \<Rightarrow> (unit, unit, unit, unit) ctx_op \<Rightarrow> (unit, unit, unit, unit) pipeline" where
  "stage_pipeline stage f = \<lparr>pl_stage = stage, pl_execute = apply_op f\<rparr>"

definition sample_pipelines :: "(unit, unit, unit, unit) TurnPipelineSet" where
  "sample_pipelines =
     \<lparr>ps_initializer = TurnInitializer,
      ps_baseline_builder = stage_pipeline StBaselineBuilder (set_prepared_context sample_snapshot sample_baseline () ()),
      ps_writer_planner = stage_pipeline StWriterPlanner (set_writer_plan sample_json sample_plan),
      ps_retrieval = stage_pipeline StContextRetrieval skip_retrieval,
      ps_character_think = stage_pipeline StCharacterThink skip_character_thinking,
      ps_story_generator = stage_pipeline StStoryGenerator (set_generated_story [83]),
      ps_story_state_extractor = stage_pipeline StStoryStateExtractor (set_state_extraction sample_json ()),
      ps_validation = stage_pipeline StValidation (set_validation_result (VPass sample_changes)),
      ps_story_repairer = stage_pipeline StStoryRepairer (replace_story [84]),
      ps_committer = TurnCommitter (\<lambda>_. None) sample_commit_turn\<rparr>"

definition sample_builder :: "(unit, unit, unit, unit) TurnPipelineSetBuilder" where
  "sample_builder =
     \<lparr>pb_initializer = Some (ps_initializer sample_pipelines), pb_baseline_builder = Some (ps_baseline_builder sample_pipelines),
      pb_writer_planner = Some (ps_writer_planner sample_pipelines), pb_retrieval = Some (ps_retrieval sample_pipelines),
      pb_character_think = Some (ps_character_think sample_pipelines), pb_story_generator = Some (ps_story_generator sample_pipelines),
      pb_story_state_extractor = Some (ps_story_state_extractor sample_pipelines), pb_validation = Some (ps_validation sample_pipelines),
      pb_story_repairer = Some (ps_story_repairer sample_pipelines), pb_committer = Some (ps_committer sample_pipelines)\<rparr>"

lemma sample_built: "TurnPipelineSet_build sample_builder = Inr sample_pipelines"
  by (simp add: TurnPipelineSet_build_def sample_builder_def bind_pipeline_def sample_pipelines_def TurnInitializer_def
      stage_pipeline_def TurnCommitter_def)

definition sample_run_env :: run_env where
  "sample_run_env = \<lparr>re_cancelled = (\<lambda>_. False), re_now = (\<lambda>_. 0), re_deadline = 60000\<rparr>"

definition sample_events :: "TurnEvent_aise list" where
  "sample_events = map (EvStageStarted (Some 1)) [StTurnInitializer, StBaselineBuilder, StWriterPlanner, StStoryGenerator, StTurnCommitter]"

definition sample_committed :: sample_ctx where
  "sample_committed = sample_story\<lparr>tx_retrieval_skipped := True, tx_character_thinking_skipped := True,
     tx_change_set := Some sample_changes, tx_committed_result := Some sample_result, tx_phase := PhCommitted\<rparr>"

lemmas runtime_defs = execute_def execute_entered_def run_if_def run_op_def apply_op_def requires_retrieval_aise_def
  requires_character_thinking_aise_def skip_retrieval_def skip_character_thinking_def required_plan_def set_pahse_def
  construct_changeset_def ValidatedChangeSet_new_def TurnCommitter_def commit_spec_def set_committed_result_def
  stage_pipeline_def TurnInitializer_def sample_pipelines_def sample_commit_turn_def sample_run_env_def sample_json_def

lemma sample_run: "run_inner sample_run_env sample_pipelines () sample_created = (Inr (), sample_committed, sample_events)"
  by (simp add: run_inner_def runtime_defs setter_defs ctx_defs sample_committed_def sample_events_def sample_changes_def
      sample_snapshot_def sample_plan_def sample_identity_def sample_request_def next_sequence_def latest_sequence_def
      StorySequence_try_new_def)


definition sample_engine :: "(unit, unit, unit, unit) engine_env" where
  "sample_engine =
     \<lparr>ee_sha256 = (\<lambda>t. t), ee_acquire = Inr (), ee_get_story = Inr (Some 0), ee_find_committed_turn = (\<lambda>_. Inr None),
      ee_budget = Inr sample_budget, ee_now_millis = 0, ee_run = sample_run_env, ee_pipelines = sample_pipelines, ee_no_changes = ()\<rparr>"

definition sample_spec :: ExecuteTurnSpec where
  "sample_spec = \<lparr>ets_story_id = [115], ets_idempotency_key = [107], ets_player_contribution = [104, 105]\<rparr>"

lemma sample_turn: "execute_turn sample_engine sample_spec = (Committed sample_result False, sample_events @ [EvCommitted sample_result False], Some sample_committed)"
proof -
  have "TurnRequest_try_new (\<lambda>t. t) [104, 105] = Inr sample_request"
    by (simp add: TurnRequest_try_new_def sample_request_def trim_def is_whitespace_def MAX_PLAYER_CONTRIBUTION_CHARS_def Let_def)
  moreover have "next_turn_number 0 = Inr 1" by (simp add: next_turn_number_def TurnNumber_try_new_def)
  moreover have "run_engine_aise sample_engine sample_spec sample_request 1 =
      (Committed sample_result False, sample_events @ [EvCommitted sample_result False], Some sample_committed)"
    using sample_new sample_run
    by (simp add: run_engine_aise_def sample_engine_def sample_spec_def sample_identity_def finalize_def sample_committed_def)
  ultimately show ?thesis by (simp add: execute_turn_def sample_engine_def sample_spec_def)
qed

theorem one_terminal_event_witness:
  "execute_turn sample_engine sample_spec =
     (Committed sample_result False, sample_events @ [EvCommitted sample_result False], Some sample_committed)
   \<and> (\<exists>stages n. sample_events @ [EvCommitted sample_result False] = stages @ [event_of n (Committed sample_result False)])"
  using one_terminal_event [OF sample_turn] sample_turn by blast

end
