(* ===== verification/BTree_Map.thy ===== *)
theory BTree_Map
  imports Prelude
begin

text \<open>
  \<open>std::collections::BTreeMap\<close> and \<open>BTreeSet\<close>: finite maps and sets that iterate in key order.
  A map is its list of entries with strictly increasing keys, so that two maps are equal exactly
  when every lookup agrees, and iteration (\<open>bm_entries\<close>) is the order the source's loops see.
  \<open>HashMap\<close>s of the source, which it never iterates where order matters, use the same type.

  The locale \<open>finite_map\<close> is the interface the stores rely on: what a lookup returns after an
  insertion, a removal or a fold of insertions.
\<close>

section \<open>Sorted association lists\<close>

fun al_insert :: "'k::linorder \<Rightarrow> 'v \<Rightarrow> ('k \<times> 'v) list \<Rightarrow> ('k \<times> 'v) list" where
  "al_insert k v [] = [(k, v)]"
| "al_insert k v ((k', v') # xs) =
     (if k < k' then (k, v) # (k', v') # xs
      else if k = k' then (k, v) # xs
      else (k', v') # al_insert k v xs)"

definition al_remove :: "'k \<Rightarrow> ('k \<times> 'v) list \<Rightarrow> ('k \<times> 'v) list" where
  "al_remove k xs = filter (\<lambda>e. fst e \<noteq> k) xs"

definition al_sorted :: "('k::linorder \<times> 'v) list \<Rightarrow> bool" where
  "al_sorted xs \<longleftrightarrow> sorted_wrt (<) (map fst xs)"

lemma al_insert_keys: "set (map fst (al_insert k v xs)) = insert k (set (map fst xs))"
  by (induction k v xs rule: al_insert.induct) auto

lemma al_sorted_insert: "al_sorted xs \<Longrightarrow> al_sorted (al_insert k v xs)"
proof (induction k v xs rule: al_insert.induct)
  case (1 k v)
  then show ?case by (simp add: al_sorted_def)
next
  case (2 k v k' v' xs)
  then show ?case
    using al_insert_keys [of k v xs] by (fastforce simp: al_sorted_def)
qed

lemma al_sorted_remove: "al_sorted xs \<Longrightarrow> al_sorted (al_remove k xs)"
  by (induction xs) (auto simp: al_sorted_def al_remove_def)

lemma al_sorted_filter: "al_sorted xs \<Longrightarrow> al_sorted (filter P xs)"
  by (induction xs) (auto simp: al_sorted_def)

lemma al_sorted_distinct: "al_sorted xs \<Longrightarrow> distinct (map fst xs)"
  by (auto simp: al_sorted_def strict_sorted_iff)

lemma al_sorted_map_value: "al_sorted xs \<Longrightarrow> al_sorted (map (\<lambda>(k, v). (k, f k v)) xs)"
proof -
  have "map fst (map (\<lambda>(k, v). (k, f k v)) xs) = map fst xs" by (induction xs) auto
  then show "al_sorted xs \<Longrightarrow> ?thesis" by (simp only: al_sorted_def)
qed

lemma map_of_al_insert: "al_sorted xs \<Longrightarrow> map_of (al_insert k v xs) = (map_of xs)(k \<mapsto> v)"
  by (induction k v xs rule: al_insert.induct) (auto simp: al_sorted_def fun_eq_iff)

lemma map_of_al_remove: "map_of (al_remove k xs) = (map_of xs)(k := None)"
  by (induction xs) (auto simp: al_remove_def fun_eq_iff)

lemma al_entries_of_keys:
  assumes "distinct (map fst xs)"
  shows "xs = map (\<lambda>k. (k, the (map_of xs k))) (map fst xs)"
  using assms
proof (induction xs)
  case Nil
  then show ?case by simp
next
  case (Cons e xs)
  obtain k v where e: "e = (k, v)" by (cases e)
  have "map (\<lambda>k'. (k', the (map_of ((k, v) # xs) k'))) (map fst xs)
      = map (\<lambda>k'. (k', the (map_of xs k'))) (map fst xs)"
    using Cons.prems e by auto
  with Cons e show ?case by simp
qed

lemma al_sorted_eqI:
  assumes "al_sorted xs" and "al_sorted ys" and eq: "map_of xs = map_of ys"
  shows "xs = ys"
proof -
  have "set (map fst xs) = set (map fst ys)"
    using eq by (metis dom_map_of_conv_image_fst set_map)
  then have "map fst xs = map fst ys"
    using assms(1,2) by (simp add: al_sorted_def strict_sorted_equal)
  then show ?thesis
    using al_entries_of_keys [of xs] al_entries_of_keys [of ys] eq assms(1,2)
    by (simp add: al_sorted_distinct)
qed

section \<open>The map type\<close>

typedef (overloaded) ('k::linorder, 'v) bmap = "{xs :: ('k \<times> 'v) list. al_sorted xs}"
  morphisms bm_entries Bmap
  by (rule exI [of _ "[]"]) (simp add: al_sorted_def)

setup_lifting type_definition_bmap

lift_definition bm_empty :: "('k::linorder, 'v) bmap" is "[]"
  by (simp add: al_sorted_def)

lift_definition bm_insert :: "'k::linorder \<Rightarrow> 'v \<Rightarrow> ('k, 'v) bmap \<Rightarrow> ('k, 'v) bmap" is al_insert
  by (rule al_sorted_insert)

lift_definition bm_remove :: "'k::linorder \<Rightarrow> ('k, 'v) bmap \<Rightarrow> ('k, 'v) bmap" is al_remove
  by (rule al_sorted_remove)

lift_definition bm_map :: "('k::linorder \<Rightarrow> 'v \<Rightarrow> 'w) \<Rightarrow> ('k, 'v) bmap \<Rightarrow> ('k, 'w) bmap"
  is "\<lambda>f. map (\<lambda>(k, v). (k, f k v))"
  by (rule al_sorted_map_value)

definition bm_get :: "('k::linorder, 'v) bmap \<Rightarrow> 'k \<Rightarrow> 'v option" where
  "bm_get m = map_of (bm_entries m)"

definition bm_contains :: "('k::linorder, 'v) bmap \<Rightarrow> 'k \<Rightarrow> bool" where
  "bm_contains m k \<longleftrightarrow> bm_get m k \<noteq> None"

definition bm_keys :: "('k::linorder, 'v) bmap \<Rightarrow> 'k list" where
  "bm_keys m = map fst (bm_entries m)"

definition bm_values :: "('k::linorder, 'v) bmap \<Rightarrow> 'v list" where
  "bm_values m = map snd (bm_entries m)"

definition bm_size :: "('k::linorder, 'v) bmap \<Rightarrow> nat" where
  "bm_size m = length (bm_entries m)"

text \<open>\<open>iter().collect()\<close>: later entries overwrite earlier ones.\<close>

definition bm_of_list :: "('k::linorder \<times> 'v) list \<Rightarrow> ('k, 'v) bmap" where
  "bm_of_list xs = fold (\<lambda>(k, v) m. bm_insert k v m) xs bm_empty"

text \<open>\<open>if let Some(v) = m.get_mut(k) { *v = f(v) }\<close>\<close>

definition bm_modify :: "'k::linorder \<Rightarrow> ('v \<Rightarrow> 'v) \<Rightarrow> ('k, 'v) bmap \<Rightarrow> ('k, 'v) bmap" where
  "bm_modify k f m = (case bm_get m k of None \<Rightarrow> m | Some v \<Rightarrow> bm_insert k (f v) m)"

type_synonym 'k bset = "('k, unit) bmap"

abbreviation bs_insert :: "'k::linorder \<Rightarrow> 'k bset \<Rightarrow> 'k bset" where
  "bs_insert k s \<equiv> bm_insert k () s"

abbreviation bs_of_list :: "'k::linorder list \<Rightarrow> 'k bset" where
  "bs_of_list ks \<equiv> bm_of_list (map (\<lambda>k. (k, ())) ks)"

section \<open>Laws\<close>

lemma bm_entries_sorted: "sorted_wrt (<) (map fst (bm_entries m))"
  using bm_entries [of m] by (simp add: al_sorted_def)

lemma bm_entries_distinct: "distinct (map fst (bm_entries m))"
  using bm_entries_sorted [of m] by (simp add: strict_sorted_iff)

lemma bm_get_empty [simp]: "bm_get bm_empty k = None"
  by (simp add: bm_get_def bm_empty.rep_eq)

lemma bm_get_insert [simp]: "bm_get (bm_insert k v m) = (bm_get m)(k \<mapsto> v)"
  using bm_entries [of m] by (simp add: bm_get_def bm_insert.rep_eq map_of_al_insert)

lemma bm_get_remove [simp]: "bm_get (bm_remove k m) = (bm_get m)(k := None)"
  by (simp add: bm_get_def bm_remove.rep_eq map_of_al_remove)

lemma bm_get_map [simp]: "bm_get (bm_map f m) k = map_option (f k) (bm_get m k)"
proof -
  have "map_of (map (\<lambda>(k, v). (k, f k v)) xs) k = map_option (f k) (map_of xs k)" for xs
    by (induction xs) auto
  then show ?thesis by (simp add: bm_get_def bm_map.rep_eq)
qed

lemma bm_eqI: "(\<And>k. bm_get m k = bm_get n k) \<Longrightarrow> m = n"
proof -
  assume "\<And>k. bm_get m k = bm_get n k"
  then have "map_of (bm_entries m) = map_of (bm_entries n)"
    by (simp add: bm_get_def fun_eq_iff)
  then have "bm_entries m = bm_entries n"
    using al_sorted_eqI bm_entries by blast
  then show "m = n" by (simp add: bm_entries_inject)
qed

lemma bm_eq_iff: "m = n \<longleftrightarrow> (\<forall>k. bm_get m k = bm_get n k)"
  by (auto intro: bm_eqI)

lemma bm_get_modify [simp]:
  "bm_get (bm_modify k f m) k' = (if k' = k then map_option f (bm_get m k) else bm_get m k')"
  by (auto simp: bm_modify_def split: option.splits)

lemma bm_entries_iff: "(k, v) \<in> set (bm_entries m) \<longleftrightarrow> bm_get m k = Some v"
  by (simp add: bm_get_def bm_entries_distinct)

lemma bm_contains_empty [simp]: "\<not> bm_contains bm_empty k"
  by (simp add: bm_contains_def)

lemma bm_contains_insert [simp]: "bm_contains (bm_insert k v m) k' \<longleftrightarrow> k' = k \<or> bm_contains m k'"
  by (simp add: bm_contains_def)

lemma bm_contains_remove [simp]: "bm_contains (bm_remove k m) k' \<longleftrightarrow> k' \<noteq> k \<and> bm_contains m k'"
  by (simp add: bm_contains_def)

lemma bm_contains_modify [simp]: "bm_contains (bm_modify k f m) k' \<longleftrightarrow> bm_contains m k'"
  by (auto simp: bm_contains_def)

lemma bm_contains_map [simp]: "bm_contains (bm_map f m) k \<longleftrightarrow> bm_contains m k"
  by (simp add: bm_contains_def)

lemma set_bm_keys: "set (bm_keys m) = {k. bm_contains m k}"
proof -
  have "k \<in> set (bm_keys m) \<longleftrightarrow> bm_contains m k" for k
  proof -
    have "k \<in> set (bm_keys m) \<longleftrightarrow> (\<exists>v. (k, v) \<in> set (bm_entries m))"
      by (force simp: bm_keys_def)
    then show ?thesis by (auto simp: bm_entries_iff bm_contains_def)
  qed
  then show ?thesis by blast
qed

lemma mem_bm_keys [simp]: "k \<in> set (bm_keys m) \<longleftrightarrow> bm_contains m k"
  by (simp add: set_bm_keys)

lemma mem_bm_values: "v \<in> set (bm_values m) \<longleftrightarrow> (\<exists>k. bm_get m k = Some v)"
  by (force simp: bm_values_def bm_entries_iff [symmetric])

lemma distinct_bm_keys [simp]: "distinct (bm_keys m)"
  by (simp add: bm_keys_def bm_entries_distinct)

lemma sorted_bm_keys: "sorted_wrt (<) (bm_keys m)"
  by (simp add: bm_keys_def bm_entries_sorted)

lemma finite_bm_dom [simp]: "finite {k. bm_contains m k}"
  by (metis List.finite_set set_bm_keys)

lemma bm_size_card: "bm_size m = card {k. bm_contains m k}"
proof -
  have "bm_size m = length (bm_keys m)" by (simp add: bm_size_def bm_keys_def)
  also have "\<dots> = card (set (bm_keys m))" by (simp add: distinct_card)
  finally show ?thesis by (simp add: set_bm_keys)
qed

lemma bm_size_empty [simp]: "bm_size bm_empty = 0"
  by (simp add: bm_size_def bm_empty.rep_eq)

lemma bm_size_insert: "bm_size (bm_insert k v m) = (if bm_contains m k then bm_size m else Suc (bm_size m))"
proof -
  have "{k'. bm_contains (bm_insert k v m) k'} = insert k {k'. bm_contains m k'}" by auto
  then show ?thesis by (simp add: bm_size_card insert_absorb)
qed

lemma bm_size_remove: "bm_size (bm_remove k m) = (if bm_contains m k then bm_size m - 1 else bm_size m)"
proof -
  have "{k'. bm_contains (bm_remove k m) k'} = {k'. bm_contains m k'} - {k}" by auto
  then show ?thesis by (simp add: bm_size_card)
qed

lemma bm_size_modify [simp]: "bm_size (bm_modify k f m) = bm_size m"
  by (simp add: bm_size_card)

lemma bm_size_map [simp]: "bm_size (bm_map f m) = bm_size m"
  by (simp add: bm_size_card)

lemma bm_remove_insert_fresh: "\<not> bm_contains m k \<Longrightarrow> bm_remove k (bm_insert k v m) = m"
  by (rule bm_eqI) (simp add: bm_contains_def)

lemma bm_get_fold_insert:
  "bm_get (fold (\<lambda>(k, v) m. bm_insert k v m) xs m) = (bm_get m) ++ map_of (rev xs)"
  by (induction xs arbitrary: m) (auto simp: map_add_def fun_eq_iff split: option.splits)

lemma bm_get_of_list:
  assumes "distinct (map fst xs)"
  shows "bm_get (bm_of_list xs) k = map_of xs k"
proof -
  have "map_of (rev xs) = map_of xs"
    using assms by (intro map_of_inject_set [THEN iffD2]) (simp_all add: rev_map [symmetric])
  then show ?thesis
    by (simp add: bm_of_list_def bm_get_fold_insert map_add_def split: option.splits)
qed

lemma bm_contains_of_list [simp]: "bm_contains (bm_of_list xs) k \<longleftrightarrow> k \<in> fst ` set xs"
proof -
  have "bm_contains (bm_of_list xs) k \<longleftrightarrow> map_of (rev xs) k \<noteq> None"
    by (auto simp: bm_contains_def bm_of_list_def bm_get_fold_insert map_add_def
        split: option.splits)
  then show ?thesis by (simp add: map_of_eq_None_iff)
qed

section \<open>The map interface\<close>

locale finite_map =
  fixes get :: "'m \<Rightarrow> 'k \<Rightarrow> 'v option"
    and ins :: "'k \<Rightarrow> 'v \<Rightarrow> 'm \<Rightarrow> 'm"
    and del :: "'k \<Rightarrow> 'm \<Rightarrow> 'm"
  assumes get_ins: "get (ins k v m) = (get m)(k \<mapsto> v)"
    and get_del: "get (del k m) = (get m)(k := None)"
    and ext: "(\<And>k. get m k = get n k) \<Longrightarrow> m = n"
begin

lemma ins_del_fresh: "get m k = None \<Longrightarrow> del k (ins k v m) = m"
  by (rule ext) (simp add: get_ins get_del)

lemma ins_commute: "k \<noteq> k' \<Longrightarrow> ins k v (ins k' v' m) = ins k' v' (ins k v m)"
  by (rule ext) (simp add: get_ins)

lemma ins_overwrite: "ins k v (ins k v' m) = ins k v m"
  by (rule ext) (simp add: get_ins)

lemma ins_same: "get m k = Some v \<Longrightarrow> ins k v m = m"
  by (rule ext) (auto simp: get_ins)

lemma del_absent: "get m k = None \<Longrightarrow> del k m = m"
  by (rule ext) (auto simp: get_del)

end

interpretation bm: finite_map bm_get bm_insert bm_remove
  by unfold_locales (auto intro: bm_eqI)

end
