(* ===== verification/Float64.thy ===== *)
theory Float64
  imports Complex_Main Prelude
begin

text \<open>
  The part of IEEE~754 binary64 that the proposal scores use. A value is a finite number, one of
  the infinities or a NaN; the sign of zero and NaN payloads are not represented (no score
  computation of the source can observe them: the compared metrics are sums of squares).
  Arithmetic is the exact rational result passed through \<open>rnd\<close>, the rounding of the hardware,
  which every operation takes as a parameter.
\<close>

datatype f64 = Fin rat | PInf | NInf | NaN

datatype ordering = Less | Equal | Greater

definition nat_cmp :: "nat \<Rightarrow> nat \<Rightarrow> ordering" where
  "nat_cmp a b = (if a < b then Less else if a = b then Equal else Greater)"

fun is_finite :: "f64 \<Rightarrow> bool" where
  "is_finite (Fin _) = True"
| "is_finite _ = False"

fun f_lt :: "f64 \<Rightarrow> f64 \<Rightarrow> bool" where
  "f_lt NaN _ = False"
| "f_lt _ NaN = False"
| "f_lt (Fin a) (Fin b) = (a < b)"
| "f_lt PInf _ = False"
| "f_lt _ NInf = False"
| "f_lt _ _ = True"

fun f_eq :: "f64 \<Rightarrow> f64 \<Rightarrow> bool" where
  "f_eq NaN _ = False"
| "f_eq _ NaN = False"
| "f_eq a b = (a = b)"

definition f_le :: "f64 \<Rightarrow> f64 \<Rightarrow> bool" where
  "f_le a b \<longleftrightarrow> f_lt a b \<or> f_eq a b"

text \<open>\<open>f64::total_cmp\<close>, with every NaN above every number.\<close>

fun total_cmp :: "f64 \<Rightarrow> f64 \<Rightarrow> ordering" where
  "total_cmp NaN NaN = Equal"
| "total_cmp NaN _ = Greater"
| "total_cmp _ NaN = Less"
| "total_cmp a b = (if f_lt a b then Less else if a = b then Equal else Greater)"

fun f_neg :: "f64 \<Rightarrow> f64" where
  "f_neg (Fin a) = Fin (- a)"
| "f_neg PInf = NInf"
| "f_neg NInf = PInf"
| "f_neg NaN = NaN"

fun f_add :: "(rat \<Rightarrow> f64) \<Rightarrow> f64 \<Rightarrow> f64 \<Rightarrow> f64" where
  "f_add rnd NaN _ = NaN"
| "f_add rnd _ NaN = NaN"
| "f_add rnd (Fin a) (Fin b) = rnd (a + b)"
| "f_add rnd PInf NInf = NaN"
| "f_add rnd NInf PInf = NaN"
| "f_add rnd PInf _ = PInf"
| "f_add rnd NInf _ = NInf"
| "f_add rnd (Fin _) b = b"

definition f_sub :: "(rat \<Rightarrow> f64) \<Rightarrow> f64 \<Rightarrow> f64 \<Rightarrow> f64" where
  "f_sub rnd a b = f_add rnd a (f_neg b)"

text \<open>An infinity with the sign of a rational, and NaN for zero: the products and quotients with
  an infinity or a zero divisor.\<close>

definition inf_of_sign :: "rat \<Rightarrow> f64" where
  "inf_of_sign a = (if a = 0 then NaN else if 0 < a then PInf else NInf)"

fun f_sign :: "f64 \<Rightarrow> rat" where
  "f_sign (Fin a) = sgn a"
| "f_sign PInf = 1"
| "f_sign NInf = - 1"
| "f_sign NaN = 0"

fun f_mul :: "(rat \<Rightarrow> f64) \<Rightarrow> f64 \<Rightarrow> f64 \<Rightarrow> f64" where
  "f_mul rnd NaN _ = NaN"
| "f_mul rnd _ NaN = NaN"
| "f_mul rnd (Fin a) (Fin b) = rnd (a * b)"
| "f_mul rnd a b = inf_of_sign (f_sign a * f_sign b)"

fun f_div :: "(rat \<Rightarrow> f64) \<Rightarrow> f64 \<Rightarrow> f64 \<Rightarrow> f64" where
  "f_div rnd NaN _ = NaN"
| "f_div rnd _ NaN = NaN"
| "f_div rnd (Fin a) (Fin b) = (if b = 0 then inf_of_sign a else rnd (a / b))"
| "f_div rnd (Fin a) _ = Fin 0"
| "f_div rnd a (Fin b) = inf_of_sign (f_sign a * (if b < 0 then - 1 else 1))"
| "f_div rnd _ _ = NaN"

text \<open>\<open>f64::max\<close>: a NaN operand is ignored.\<close>

fun f_max :: "f64 \<Rightarrow> f64 \<Rightarrow> f64" where
  "f_max NaN b = b"
| "f_max a NaN = a"
| "f_max a b = (if f_lt a b then b else a)"

text \<open>\<open>Iterator::sum::<f64>()\<close>: left to right.\<close>

definition f_sum :: "(rat \<Rightarrow> f64) \<Rightarrow> f64 list \<Rightarrow> f64" where
  "f_sum rnd xs = foldl (f_add rnd) (Fin 0) xs"

section \<open>Order facts\<close>

lemma f_lt_irrefl [simp]: "\<not> f_lt a a"
  by (cases a) auto

lemma f_lt_trans: "f_lt a b \<Longrightarrow> f_lt b c \<Longrightarrow> f_lt a c"
  by (cases a; cases b; cases c) auto

lemma is_finiteE [elim!]: "is_finite a \<Longrightarrow> (\<And>x. a = Fin x \<Longrightarrow> P) \<Longrightarrow> P"
  by (cases a) auto

lemma f_not_lt_iff_ge: "is_finite a \<Longrightarrow> is_finite b \<Longrightarrow> \<not> f_lt a b \<longleftrightarrow> f_le b a"
  by (auto simp: f_le_def)

lemma total_cmp_finite:
  "total_cmp (Fin a) (Fin b) = (if a < b then Less else if a = b then Equal else Greater)"
  by simp

end
