(* ===== verification/Core_Types.thy ===== *)
theory Core_Types
  imports BTree_Map Float64
begin

text \<open>
  \<open>crates/aise-core/src/core\<close>: the error type, the validated newtypes (identifiers, bounded text,
  retrieval hints), turn numbers and the records of a turn.

  Every newtype over \<open>String\<close> is its text; the constructor that establishes what the newtype
  promises is the function (\<open>id_try_new\<close>, \<open>BoundedText_try_new\<close>, \<open>RetrievalHint_try_new\<close>).
  \<open>TurnNumber\<close> is a 64-bit word whose increment wraps, as the release build's does.
\<close>

section \<open>Errors (\<open>core/error.rs\<close>)\<close>

datatype CoreError =
    InvalidId string str
  | BoundedTextLimitExceeded string nat nat
  | RetrievalHintTooLong nat nat
  | RetrievalHintEmpty
  | ActivationKeyEmpty
  | ActivationKeyTooLong nat nat
  | ActivationGroupKeyInvalid str
  | ActivationProbabilityInvalid u8
  | DigestFailed string str

section \<open>Identifiers (\<open>core/ids.rs\<close>)\<close>

type_synonym CharacterCardId = str
type_synonym IdempotencyKey = str
type_synonym PackId = str
type_synonym PlayerId = str
type_synonym RoleId = str
type_synonym SemanticVersion = str
type_synonym Sha256Digest = str
type_synonym StoryId = str
type_synonym MemoryId = str
type_synonym FactId = str
type_synonym RumorId = str
type_synonym NarrativeNodeId = str
type_synonym NarrativeConditionId = str

definition id_try_new :: "string \<Rightarrow> str \<Rightarrow> CoreError + str" where
  "id_try_new field value =
     (if trim value = [] then Err (InvalidId field value) else Ok value)"

section \<open>Bounded text (\<open>core/bounded_text.rs\<close>)\<close>

type_synonym BoundedText = str

definition BoundedText_try_new :: "str \<Rightarrow> string \<Rightarrow> nat \<Rightarrow> CoreError + BoundedText" where
  "BoundedText_try_new value field maximum_bytes =
     (let actual = str_len value
      in if actual > maximum_bytes
         then Err (BoundedTextLimitExceeded field actual maximum_bytes)
         else Ok value)"

section \<open>Changes (\<open>core/change.rs\<close>)\<close>

datatype 'a Change = Unchanged | Replaced 'a

section \<open>Retrieval hints (\<open>core/knowledge/hint.rs\<close>)\<close>

type_synonym RetrievalHint = str

abbreviation RetrievalHint_MAX_BYTES :: nat where
  "RetrievalHint_MAX_BYTES \<equiv> 256"

text \<open>The error translation of \<open>map_err\<close>: only the limit error of this field is renamed.\<close>

fun hint_error :: "CoreError \<Rightarrow> CoreError" where
  "hint_error (BoundedTextLimitExceeded limit actual maximum) =
     (if limit = ''retrieval_hint'' then RetrievalHintTooLong actual maximum
      else BoundedTextLimitExceeded limit actual maximum)"
| "hint_error e = e"

definition RetrievalHint_try_new :: "str \<Rightarrow> CoreError + RetrievalHint" where
  "RetrievalHint_try_new value =
     (let trim_value = trim value
      in if trim_value = [] then Err RetrievalHintEmpty
         else map_err hint_error
                (BoundedText_try_new trim_value ''retrieval_hint'' RetrievalHint_MAX_BYTES))"

section \<open>Turns (\<open>core/turn.rs\<close>)\<close>

record PlayerContribution =
  pc_raw :: str
  pc_processed :: str

record TurnRequest =
  tr_story_id :: StoryId
  tr_idempotency_key :: IdempotencyKey
  tr_player_input :: str

datatype TurnEvent = TurnStarted | TurnPipeline string | TurnCommitted

type_synonym TurnNumber = u64

definition TurnNumber_increment :: "TurnNumber \<Rightarrow> TurnNumber" where
  "TurnNumber_increment n = n + 1"

type_synonym TurnSegment = str

datatype TurnStatus = Pass | Choice

record TurnCheckEvaluation =
  tce_name :: str
  tce_passed :: bool
  tce_issue :: "BoundedText option"

record TurnScoreEvaluation =
  tse_name :: str
  tse_min_score :: f64
  tse_max_score :: f64
  tse_target_score :: f64
  tse_score :: f64
  tse_issue :: "BoundedText option"

record TurnChoiceEvaluation =
  selected_proposal_version :: u32
  choice_target_gap_mse :: f64

record TurnEvaluation =
  te_proposal_version :: u32
  te_repair_rounds :: u32
  te_checks :: "TurnCheckEvaluation list"
  te_scores :: "TurnScoreEvaluation list"
  te_choice :: "TurnChoiceEvaluation option"

section \<open>Facts about the newtypes\<close>

lemma id_try_new_Ok_iff [result_simps]:
  "id_try_new field value = Inr v \<longleftrightarrow> v = value \<and> trim value \<noteq> []"
  by (auto simp: id_try_new_def)

lemma BoundedText_try_new_Ok_iff [result_simps]:
  "BoundedText_try_new value field n = Inr v \<longleftrightarrow> v = value \<and> str_len value \<le> n"
  by (auto simp: BoundedText_try_new_def Let_def)

lemma RetrievalHint_try_new_Ok_iff [result_simps]:
  "RetrievalHint_try_new value = Inr h \<longleftrightarrow>
     h = trim value \<and> h \<noteq> [] \<and> str_len h \<le> RetrievalHint_MAX_BYTES"
  by (auto simp: RetrievalHint_try_new_def Let_def result_simps)

lemma TurnNumber_increment_unat:
  "n \<noteq> - 1 \<Longrightarrow> unat (TurnNumber_increment n) = Suc (unat n)"
  by (simp add: TurnNumber_increment_def unatSuc add.commute [of n] eq_neg_iff_add_eq_0)

lemma TurnNumber_increment_gt: "n \<noteq> - 1 \<Longrightarrow> n < TurnNumber_increment n"
  by (simp add: word_less_nat_alt TurnNumber_increment_unat)

end
