(* ===== verification/Activation_Rule.thy ===== *)
theory Activation_Rule
  imports Core_Types
begin

text \<open>
  \<open>core/activation/rule.rs\<close> and \<open>core/activation/config.rs\<close>: the activation rule of a knowledge
  entry, its defaults, the validated key newtypes and the limits of one activation run.

  Shown: the group-key scanner accepts exactly the keys made of non-empty lower-case alphanumeric
  segments joined by single separators (\<open>is_group_key_iff\<close>).
\<close>

section \<open>Rules\<close>

type_synonym ActivationKey = str
type_synonym ActivationGroupKey = str
type_synonym ActivationProbability = u8

datatype SecondaryLogic = AndAny | AndAll | NotAny | NotAll

record ActivationMatchRule =
  match_keys :: "ActivationKey list"
  secondary_keys :: "ActivationKey list"
  secondary_logic :: SecondaryLogic
  case_sensitive :: bool
  match_whole_words :: bool
  rule_scan_depth :: "u16 option"

record ActivationMode =
  mode_enabled :: bool
  mode_constant :: bool

record ActivationRecursionRule =
  exclude_recursion :: bool
  prevent_recursion :: bool
  delay_until_recursion :: "u16 option"

record ActivationSelectionRule =
  sel_order :: int
  sel_probability :: ActivationProbability
  sel_groups :: "ActivationGroupKey list"
  group_override :: bool
  group_weight :: u32
  use_group_scoring :: bool

record ActivationRule =
  match_rule :: ActivationMatchRule
  rule_mode :: ActivationMode
  rule_recursion :: ActivationRecursionRule
  rule_selection :: ActivationSelectionRule

definition ActivationProbability_ALWAYS :: ActivationProbability where
  "ActivationProbability_ALWAYS = 100"

definition ActivationMatchRule_default :: ActivationMatchRule where
  "ActivationMatchRule_default =
     \<lparr>match_keys = [], secondary_keys = [], secondary_logic = AndAny, case_sensitive = False,
      match_whole_words = False, rule_scan_depth = None\<rparr>"

definition ActivationMode_default :: ActivationMode where
  "ActivationMode_default = \<lparr>mode_enabled = True, mode_constant = False\<rparr>"

definition ActivationRecursionRule_default :: ActivationRecursionRule where
  "ActivationRecursionRule_default =
     \<lparr>exclude_recursion = False, prevent_recursion = False, delay_until_recursion = None\<rparr>"

definition ActivationSelectionRule_default :: ActivationSelectionRule where
  "ActivationSelectionRule_default =
     \<lparr>sel_order = 0, sel_probability = ActivationProbability_ALWAYS, sel_groups = [],
      group_override = False, group_weight = 100, use_group_scoring = False\<rparr>"

definition ActivationRule_default :: ActivationRule where
  "ActivationRule_default =
     \<lparr>match_rule = ActivationMatchRule_default, rule_mode = ActivationMode_default,
      rule_recursion = ActivationRecursionRule_default,
      rule_selection = ActivationSelectionRule_default\<rparr>"

lemmas rule_defaults = ActivationRule_default_def ActivationMatchRule_default_def
  ActivationMode_default_def ActivationRecursionRule_default_def
  ActivationSelectionRule_default_def ActivationProbability_ALWAYS_def

definition SecondaryLogic_holds :: "SecondaryLogic \<Rightarrow> nat \<Rightarrow> nat \<Rightarrow> bool" where
  "SecondaryLogic_holds logic matched tot =
     (if tot = 0 then True
      else case logic of
             AndAny \<Rightarrow> 0 < matched
           | AndAll \<Rightarrow> matched = tot
           | NotAny \<Rightarrow> matched = 0
           | NotAll \<Rightarrow> matched < tot)"

definition SecondaryLogic_scores_matches :: "SecondaryLogic \<Rightarrow> bool" where
  "SecondaryLogic_scores_matches logic \<longleftrightarrow> logic = AndAny \<or> logic = AndAll"

section \<open>Validated newtypes\<close>

fun activation_key_error :: "CoreError \<Rightarrow> CoreError" where
  "activation_key_error (BoundedTextLimitExceeded limit actual maximum) =
     (if limit = ''activation_key'' then ActivationKeyTooLong actual maximum
      else BoundedTextLimitExceeded limit actual maximum)"
| "activation_key_error e = e"

definition ActivationKey_try_new :: "str \<Rightarrow> CoreError + ActivationKey" where
  "ActivationKey_try_new value =
     (let trim_value = trim value
      in if trim_value = [] then Err ActivationKeyEmpty
         else map_err activation_key_error
                (BoundedText_try_new trim_value ''activation_key'' 128))"

definition is_group_separator :: "uchar \<Rightarrow> bool" where
  "is_group_separator c \<longleftrightarrow> c = 46 \<or> c = 95 \<or> c = 45"

definition is_group_char :: "uchar \<Rightarrow> bool" where
  "is_group_char c \<longleftrightarrow> is_ascii_lowercase c \<or> is_ascii_digit c"

text \<open>The scan of \<open>is_group_key\<close>; the flag is \<open>previous_separator\<close>.\<close>

fun group_key_loop :: "bool \<Rightarrow> str \<Rightarrow> bool" where
  "group_key_loop previous_separator [] = (\<not> previous_separator)"
| "group_key_loop previous_separator (c # cs) =
     (if is_group_char c then group_key_loop False cs
      else if is_group_separator c \<and> \<not> previous_separator then group_key_loop True cs
      else False)"

definition is_group_key :: "str \<Rightarrow> bool" where
  "is_group_key value = group_key_loop True value"

definition ActivationGroupKey_try_new :: "str \<Rightarrow> CoreError + ActivationGroupKey" where
  "ActivationGroupKey_try_new value =
     (if value = [] \<or> str_len value > 128 \<or> \<not> is_group_key value
      then Err (ActivationGroupKeyInvalid value) else Ok value)"

definition ActivationProbability_try_new :: "u8 \<Rightarrow> CoreError + ActivationProbability" where
  "ActivationProbability_try_new percent =
     (if percent > 100 then Err (ActivationProbabilityInvalid percent) else Ok percent)"

section \<open>Configuration (\<open>core/activation/config.rs\<close>)\<close>

record ActivationConfig =
  cfg_scan_depth :: u16
  cfg_max_scan_depth :: u16
  cfg_max_recursion_steps :: u16
  cfg_max_activated_entries :: nat
  cfg_max_knowledge_bytes :: nat

definition ActivationConfig_default :: ActivationConfig where
  "ActivationConfig_default =
     \<lparr>cfg_scan_depth = 2, cfg_max_scan_depth = 8, cfg_max_recursion_steps = 3,
      cfg_max_activated_entries = 16, cfg_max_knowledge_bytes = 16 * 1024\<rparr>"

section \<open>The group-key language\<close>

definition group_segment :: "str \<Rightarrow> bool" where
  "group_segment seg \<longleftrightarrow> seg \<noteq> [] \<and> (\<forall>c \<in> set seg. is_group_char c)"

text \<open>A group key: a segment, or a segment, one separator and a group key.\<close>

inductive group_key_lang :: "str \<Rightarrow> bool" where
  one: "group_segment seg \<Longrightarrow> group_key_lang seg"
| more: "group_segment seg \<Longrightarrow> is_group_separator s \<Longrightarrow> group_key_lang rest \<Longrightarrow>
     group_key_lang (seg @ s # rest)"

lemma group_char_not_separator: "is_group_char c \<Longrightarrow> \<not> is_group_separator c"
  by (auto simp: is_group_char_def is_group_separator_def is_ascii_lowercase_def is_ascii_digit_def)

lemma group_key_loop_segment:
  "\<forall>c \<in> set seg. is_group_char c \<Longrightarrow>
     group_key_loop p (seg @ cs) = group_key_loop (seg = [] \<and> p) cs"
  by (induction seg arbitrary: p) auto

lemma group_key_lang_loop: "group_key_lang v \<Longrightarrow> group_key_loop True v"
proof (induction rule: group_key_lang.induct)
  case (one seg)
  then show ?case
    using group_key_loop_segment [of seg True "[]"] by (simp add: group_segment_def)
next
  case (more seg s rest)
  then show ?case
    using group_key_loop_segment [of seg True "s # rest"] group_char_not_separator
    by (auto simp: group_segment_def)
qed

lemma group_key_loop_lang:
  "(group_key_loop True v \<longrightarrow> group_key_lang v) \<and>
   (group_key_loop False v \<longrightarrow>
      (\<forall>seg. group_segment seg \<longrightarrow> group_key_lang (seg @ v)))"
proof (induction v)
  case Nil
  then show ?case by (auto intro: group_key_lang.one)
next
  case (Cons c v)
  show ?case
  proof (intro conjI impI allI)
    assume h: "group_key_loop True (c # v)"
    then have "is_group_char c" and "group_key_loop False v" by (auto split: if_splits)
    moreover from this have "group_segment [c]" by (simp add: group_segment_def)
    ultimately show "group_key_lang (c # v)" using Cons.IH by fastforce
  next
    fix seg
    assume h: "group_key_loop False (c # v)" and seg: "group_segment seg"
    show "group_key_lang (seg @ c # v)"
    proof (cases "is_group_char c")
      case True
      then have "group_segment (seg @ [c])" using seg by (simp add: group_segment_def)
      moreover have "group_key_loop False v" using h True by simp
      ultimately have "group_key_lang ((seg @ [c]) @ v)" using Cons.IH by blast
      then show ?thesis by simp
    next
      case False
      then show ?thesis
        using h seg Cons.IH by (auto split: if_splits intro: group_key_lang.more)
    qed
  qed
qed

lemma is_group_key_iff: "is_group_key v \<longleftrightarrow> group_key_lang v"
  using group_key_loop_lang [of v] group_key_lang_loop [of v] by (auto simp: is_group_key_def)

lemma ActivationKey_try_new_Ok_iff [result_simps]:
  "ActivationKey_try_new value = Inr k \<longleftrightarrow> k = trim value \<and> k \<noteq> [] \<and> str_len k \<le> 128"
  by (auto simp: ActivationKey_try_new_def Let_def result_simps)

end
