(* ===== verification/Activation_Scan.thy ===== *)
theory Activation_Scan
  imports Activation_Rule "HOL-Library.Product_Lexorder" "HOL-Library.Sublist"
begin

text \<open>
  \<open>core/activation/scan.rs\<close>: the text fragments an activation run searches, their normalisation
  and the literal search.

  Shown: normalisation joins the whitespace-separated words with single spaces and is idempotent;
  a search without the whole-word option finds a needle exactly when it occurs in the text.
\<close>

section \<open>Fragments\<close>

datatype ScanFragmentKind =
    PlayerContributionFragment | PlayerRoleName | NarrativeDirectionFragment | RecentStory
  | StoryOpening | StorySummaryFragment | RecursionContent

text \<open>The derived order is the declaration order.\<close>

fun scan_kind_rank :: "ScanFragmentKind \<Rightarrow> nat" where
  "scan_kind_rank PlayerContributionFragment = 0"
| "scan_kind_rank PlayerRoleName = 1"
| "scan_kind_rank NarrativeDirectionFragment = 2"
| "scan_kind_rank RecentStory = 3"
| "scan_kind_rank StoryOpening = 4"
| "scan_kind_rank StorySummaryFragment = 5"
| "scan_kind_rank RecursionContent = 6"

lemma scan_kind_rank_inject: "scan_kind_rank a = scan_kind_rank b \<longleftrightarrow> a = b"
  by (cases a; cases b) auto

instantiation ScanFragmentKind :: linorder
begin

definition less_eq_ScanFragmentKind :: "ScanFragmentKind \<Rightarrow> ScanFragmentKind \<Rightarrow> bool" where
  "less_eq_ScanFragmentKind a b \<longleftrightarrow> scan_kind_rank a \<le> scan_kind_rank b"

definition less_ScanFragmentKind :: "ScanFragmentKind \<Rightarrow> ScanFragmentKind \<Rightarrow> bool" where
  "less_ScanFragmentKind a b \<longleftrightarrow> scan_kind_rank a < scan_kind_rank b"

instance
  by standard
    (auto simp: less_eq_ScanFragmentKind_def less_ScanFragmentKind_def scan_kind_rank_inject)

end

record ScanFragment =
  frag_kind :: ScanFragmentKind
  frag_depth :: u16
  case_sensitive_text :: str
  case_insensitive_text :: str

section \<open>Normalisation\<close>

text \<open>The loop of \<open>normalize_text\<close>: the output so far and the pending space.\<close>

fun normalize_loop :: "unicode \<Rightarrow> bool \<Rightarrow> str \<Rightarrow> bool \<Rightarrow> str \<Rightarrow> str" where
  "normalize_loop u cs normalized pending_space [] = normalized"
| "normalize_loop u cs normalized pending_space (c # rest) =
     (if is_whitespace c then normalize_loop u cs normalized (normalized \<noteq> []) rest
      else let spaced = (if pending_space then normalized @ [32] else normalized)
           in normalize_loop u cs (spaced @ (if cs then [c] else to_lowercase u c)) False rest)"

definition normalize_text :: "unicode \<Rightarrow> str \<Rightarrow> bool \<Rightarrow> str" where
  "normalize_text u value cs = normalize_loop u cs [] False value"

definition ScanFragment_new :: "unicode \<Rightarrow> ScanFragmentKind \<Rightarrow> u16 \<Rightarrow> str \<Rightarrow> ScanFragment" where
  "ScanFragment_new u kind depth txt =
     \<lparr>frag_kind = kind, frag_depth = depth,
      case_sensitive_text = normalize_text u txt True,
      case_insensitive_text = normalize_text u txt False\<rparr>"

definition ScanFragment_is_empty :: "ScanFragment \<Rightarrow> bool" where
  "ScanFragment_is_empty f \<longleftrightarrow> case_sensitive_text f = []"

section \<open>Literal search\<close>

definition is_word_char :: "unicode \<Rightarrow> uchar \<Rightarrow> bool" where
  "is_word_char u c \<longleftrightarrow> is_alphanumeric u c \<or> c = 95"

text \<open>
  \<open>str::match_indices\<close>: the non-overlapping matches from the left, each given by the characters
  just before and just after it.
\<close>

function match_contexts :: "str \<Rightarrow> uchar option \<Rightarrow> str \<Rightarrow> (uchar option \<times> uchar option) list" where
  "match_contexts needle before hay =
     (if needle = [] \<or> hay = [] then []
      else if prefix needle hay
           then let rest = drop (length needle) hay
                in (before, case rest of [] \<Rightarrow> None | c # _ \<Rightarrow> Some c)
                     # match_contexts needle (Some (last needle)) rest
           else match_contexts needle (Some (hd hay)) (tl hay))"
  by pat_completeness auto
termination
  by (relation "measure (\<lambda>(needle, before, hay). length hay)") auto

declare match_contexts.simps [simp del]

fun option_any :: "('a \<Rightarrow> bool) \<Rightarrow> 'a option \<Rightarrow> bool" where
  "option_any P None = False"
| "option_any P (Some x) = P x"

definition literal_count :: "unicode \<Rightarrow> str \<Rightarrow> str \<Rightarrow> bool \<Rightarrow> nat" where
  "literal_count u haystack needle whole_words =
     (if needle = [] then 0
      else length (filter
             (\<lambda>(before, after). \<not> whole_words \<or>
                \<not> option_any (is_word_char u) before \<and> \<not> option_any (is_word_char u) after)
             (match_contexts needle None haystack)))"

definition ScanFragment_count :: "unicode \<Rightarrow> ScanFragment \<Rightarrow> str \<Rightarrow> bool \<Rightarrow> bool \<Rightarrow> nat" where
  "ScanFragment_count u f needle cs whole_words =
     literal_count u (if cs then case_sensitive_text f else case_insensitive_text f)
       needle whole_words"

section \<open>The scan buffer\<close>

definition ScanBuffer_new :: "ScanFragment list \<Rightarrow> ScanFragment list" where
  "ScanBuffer_new fragments =
     sort_key (\<lambda>f. (frag_kind f, frag_depth f))
       (filter (\<lambda>f. \<not> ScanFragment_is_empty f \<and> frag_kind f \<noteq> RecursionContent) fragments)"

section \<open>Normalisation is a join of words\<close>

text \<open>Reference: \<open>split_whitespace\<close> and \<open>join\<close>.\<close>

function words :: "str \<Rightarrow> str list" where
  "words cs =
     (let t = dropWhile is_whitespace cs
      in if t = [] then []
         else takeWhile (\<lambda>c. \<not> is_whitespace c) t # words (dropWhile (\<lambda>c. \<not> is_whitespace c) t))"
  by pat_completeness auto
termination
proof (relation "measure length", goal_cases)
  case (2 cs t)
  from 2(2) obtain c r where t: "t = c # r" by (meson neq_Nil_conv)
  then have "\<not> is_whitespace c" using 2(1) by (metis hd_dropWhile list.distinct(1) list.sel(1))
  then have "length (dropWhile (\<lambda>c. \<not> is_whitespace c) t) < length t"
    using t length_dropWhile_le [of "\<lambda>c. \<not> is_whitespace c" r] by simp
  moreover have "length t \<le> length cs" using 2(1) by (simp add: length_dropWhile_le)
  ultimately show ?case by simp
qed simp

declare words.simps [simp del]

fun join_words :: "str list \<Rightarrow> str" where
  "join_words [] = []"
| "join_words [w] = w"
| "join_words (w # ws) = w @ 32 # join_words ws"

lemma normalize_loop_word:
  "\<forall>c \<in> set w. \<not> is_whitespace c \<Longrightarrow>
     normalize_loop u True acc False (w @ r) = normalize_loop u True (acc @ w) False r"
  by (induction w arbitrary: acc) simp_all

lemma normalize_loop_spaces:
  "acc \<noteq> [] \<Longrightarrow> normalize_loop u True acc True cs = normalize_loop u True acc True (dropWhile is_whitespace cs)"
  by (induction cs) auto

lemma normalize_loop_leading:
  "normalize_loop u True [] False cs = normalize_loop u True [] False (dropWhile is_whitespace cs)"
  by (induction cs) auto

lemma normalize_loop_break:
  "acc \<noteq> [] \<Longrightarrow> r = [] \<or> is_whitespace (hd r) \<Longrightarrow>
     normalize_loop u True acc False r = normalize_loop u True acc True r"
  by (cases r) auto

lemma take_drop_word:
  assumes "t = dropWhile is_whitespace cs" and "t \<noteq> []"
  obtains c w r where "t = (c # w) @ r" and "takeWhile (\<lambda>c. \<not> is_whitespace c) t = c # w"
    and "dropWhile (\<lambda>c. \<not> is_whitespace c) t = r" and "\<forall>x \<in> set (c # w). \<not> is_whitespace x"
    and "r = [] \<or> is_whitespace (hd r)"
proof -
  obtain c t' where t: "t = c # t'" using assms(2) by (cases t) auto
  have c: "\<not> is_whitespace c" using assms t by (metis hd_dropWhile list.sel(1))
  let ?w = "takeWhile (\<lambda>c. \<not> is_whitespace c) t'"
  let ?r = "dropWhile (\<lambda>c. \<not> is_whitespace c) t'"
  have "?r = [] \<or> is_whitespace (hd ?r)"
    using hd_dropWhile [of "\<lambda>c. \<not> is_whitespace c" t'] by auto
  moreover have "\<forall>x \<in> set (c # ?w). \<not> is_whitespace x"
    using c by (auto dest: set_takeWhileD)
  ultimately show thesis using c t by (intro that [of c ?w ?r]) simp_all
qed

lemma words_unfold:
  assumes "dropWhile is_whitespace cs = (c # w) @ r" and "\<forall>x \<in> set (c # w). \<not> is_whitespace x"
    and "r = [] \<or> is_whitespace (hd r)"
  shows "words cs = (c # w) # words r"
proof -
  have "takeWhile (\<lambda>c. \<not> is_whitespace c) ((c # w) @ r) = c # w"
    using assms(2,3) by (cases r) (auto simp: takeWhile_append)
  moreover have "dropWhile (\<lambda>c. \<not> is_whitespace c) ((c # w) @ r) = r"
    using assms(2,3) by (cases r) (auto simp: dropWhile_append)
  ultimately show ?thesis by (simp add: words.simps [of cs] assms(1) Let_def)
qed

lemma words_empty: "dropWhile is_whitespace cs = [] \<Longrightarrow> words cs = []"
  by (simp add: words.simps [of cs])

lemma normalize_loop_words:
  "acc \<noteq> [] \<Longrightarrow> normalize_loop u True acc True cs =
     (if words cs = [] then acc else acc @ 32 # join_words (words cs))"
proof (induction cs arbitrary: acc rule: words.induct)
  case (1 cs)
  show ?case
  proof (cases "dropWhile is_whitespace cs = []")
    case True
    have "normalize_loop u True acc True cs = acc"
      using normalize_loop_spaces [OF "1.prems", of u cs] unfolding True by simp
    then show ?thesis using words_empty [OF True] by simp
  next
    case False
    then obtain c w r where t: "dropWhile is_whitespace cs = (c # w) @ r"
      and r: "dropWhile (\<lambda>c. \<not> is_whitespace c) (dropWhile is_whitespace cs) = r"
      and ns: "\<forall>x \<in> set (c # w). \<not> is_whitespace x" and brk: "r = [] \<or> is_whitespace (hd r)"
      using take_drop_word [OF refl False] by metis
    let ?acc = "acc @ 32 # c # w"
    have "normalize_loop u True acc True cs = normalize_loop u True (acc @ [32, c]) False (w @ r)"
      using normalize_loop_spaces [OF "1.prems", of u cs] ns unfolding t by simp
    also have "\<dots> = normalize_loop u True ?acc True r"
      using ns brk by (simp add: normalize_loop_word normalize_loop_break)
    also have "\<dots> = (if words r = [] then ?acc else ?acc @ 32 # join_words (words r))"
      using "1.IH" [OF refl False, of ?acc] r by simp
    finally show ?thesis
      using words_unfold [OF t ns brk] by (cases "words r") simp_all
  qed
qed

lemma normalize_text_words: "normalize_text u t True = join_words (words t)"
proof (cases "dropWhile is_whitespace t = []")
  case True
  have "normalize_loop u True [] False t = []"
    using normalize_loop_leading [of u t] unfolding True by simp
  then show ?thesis using words_empty [OF True] by (simp add: normalize_text_def)
next
  case False
  then obtain c w r where t: "dropWhile is_whitespace t = (c # w) @ r"
    and ns: "\<forall>x \<in> set (c # w). \<not> is_whitespace x" and brk: "r = [] \<or> is_whitespace (hd r)"
    using take_drop_word [OF refl False] by metis
  have "normalize_text u t True = normalize_loop u True (c # w) True r"
    using normalize_loop_leading [of u t] t normalize_loop_word [OF ns, of u "[]" r] brk
    by (simp add: normalize_text_def normalize_loop_break)
  then show ?thesis
    using words_unfold [OF t ns brk] normalize_loop_words [of "c # w" u r]
    by (cases "words r") simp_all
qed

definition word_ok :: "str \<Rightarrow> bool" where
  "word_ok w \<longleftrightarrow> w \<noteq> [] \<and> (\<forall>c \<in> set w. \<not> is_whitespace c)"

lemma words_ok: "w \<in> set (words t) \<Longrightarrow> word_ok w"
proof (induction t rule: words.induct)
  case (1 cs)
  show ?case
  proof (cases "dropWhile is_whitespace cs = []")
    case True
    then show ?thesis using "1.prems" by (simp add: words_empty)
  next
    case False
    then obtain c v r where t: "dropWhile is_whitespace cs = (c # v) @ r"
      and r: "dropWhile (\<lambda>c. \<not> is_whitespace c) (dropWhile is_whitespace cs) = r"
      and ns: "\<forall>x \<in> set (c # v). \<not> is_whitespace x" and brk: "r = [] \<or> is_whitespace (hd r)"
      using take_drop_word [OF refl False] by metis
    have "w = c # v \<or> w \<in> set (words r)"
      using "1.prems" words_unfold [OF t ns brk] by simp
    then show ?thesis using "1.IH" [OF refl False] r ns by (auto simp: word_ok_def)
  qed
qed

lemma words_join_words: "(\<And>w. w \<in> set ws \<Longrightarrow> word_ok w) \<Longrightarrow> words (join_words ws) = ws"
proof (induction ws rule: join_words.induct)
  case 1
  then show ?case by (simp add: words_empty)
next
  case (2 w)
  then have "word_ok w" by simp
  then obtain c v where w: "w = c # v" and "\<forall>x \<in> set (c # v). \<not> is_whitespace x"
    by (cases w) (auto simp: word_ok_def)
  then show ?case using words_unfold [of w c v "[]"] by (simp add: words_empty)
next
  case (3 w w' ws)
  then have ok: "word_ok w" by simp
  then obtain c v where w: "w = c # v" and ns: "\<forall>x \<in> set (c # v). \<not> is_whitespace x"
    by (cases w) (auto simp: word_ok_def)
  let ?r = "32 # join_words (w' # ws)"
  have sp: "is_whitespace 32" by (simp add: is_whitespace_def)
  have "words (w @ ?r) = (c # v) # words ?r"
    by (rule words_unfold) (use w ns sp in simp_all)
  also have "words ?r = words (join_words (w' # ws))"
    using sp by (simp add: words.simps [of ?r] words.simps [of "join_words (w' # ws)"])
  also have "\<dots> = w' # ws" using "3.IH" "3.prems" by simp
  finally show ?case using w by simp
qed

lemma normalize_text_idem: "normalize_text u (normalize_text u t True) True = normalize_text u t True"
  by (simp add: normalize_text_words words_join_words words_ok)

section \<open>The literal search finds occurrences\<close>

lemma match_contexts_Nil_iff:
  "needle \<noteq> [] \<Longrightarrow> match_contexts needle before hay = [] \<longleftrightarrow> \<not> sublist needle hay"
proof (induction needle before hay rule: match_contexts.induct)
  case (1 needle before hay)
  show ?case
  proof (cases "hay = []")
    case True
    then show ?thesis using "1.prems" by (simp add: match_contexts.simps [of needle before "[]"])
  next
    case False
    then obtain c cs where hay: "hay = c # cs" by (cases hay) auto
    show ?thesis
    proof (cases "prefix needle hay")
      case True
      then show ?thesis
        using "1.prems" False prefix_imp_sublist [OF True]
        by (simp add: match_contexts.simps [of needle before hay] Let_def)
    next
      case nopre: False
      have "match_contexts needle before hay = match_contexts needle (Some (hd hay)) (tl hay)"
        using "1.prems" False nopre by (simp add: match_contexts.simps [of needle before hay])
      moreover have "sublist needle hay \<longleftrightarrow> sublist needle cs"
        using nopre hay by (simp add: sublist_Cons_right)
      ultimately show ?thesis using "1.IH"(2) "1.prems" False nopre hay by simp
    qed
  qed
qed

lemma literal_count_pos_iff:
  "0 < literal_count u haystack needle False \<longleftrightarrow> needle \<noteq> [] \<and> sublist needle haystack"
  using match_contexts_Nil_iff [of needle None haystack]
  by (auto simp: literal_count_def split_def)

lemma literal_count_whole_words_le:
  "literal_count u haystack needle True \<le> literal_count u haystack needle False"
  by (auto simp: literal_count_def split_def intro!: order_trans [OF length_filter_le])

end
