(* ===== verification/Activation_Engine.thy ===== *)
theory Activation_Engine
  imports Activation_Scan "HOL-Library.Option_ord"
begin

text \<open>
  \<open>core/activation/engine.rs\<close>: selection of the knowledge entries that a turn shows to the
  language model. A session holds the candidate entries with the matches found so far, and runs
  rounds: collect the entries whose rule fires, resolve the exclusive groups, admit the winners in
  priority order under the probability and the budgets, and feed the text of the admitted entries
  back as new fragments, up to the configured recursion depth.

  The hash function (crate \<open>sha2\<close>), the \<open>Display\<close> of the key type and the Unicode tables are
  the fields of \<open>ActEnv\<close>; every definition that uses one takes it as an argument.
\<close>

section \<open>Data\<close>

record 'k ActivationCandidate =
  cand_key :: 'k
  cand_rule :: ActivationRule
  cand_content :: BoundedText

record ActivationTurn =
  at_story_id :: StoryId
  at_turn_number :: TurnNumber

datatype ActivationClass = ConstantEntry | TextMatch | RecursionMatch

datatype ActivationPatternKind = Primary | Secondary

datatype ActivationRejection =
    RecursionExcluded | RecursionLocked | SecondaryCondition | GroupLoser | ProbabilityLoser
  | BudgetExceeded

datatype ActivationStopReason = Complete | RecursionExhausted | BudgetTrimmed

fun class_rank :: "ActivationClass \<Rightarrow> nat" where
  "class_rank ConstantEntry = 0"
| "class_rank TextMatch = 1"
| "class_rank RecursionMatch = 2"

fun rejection_rank :: "ActivationRejection \<Rightarrow> nat" where
  "rejection_rank RecursionExcluded = 0"
| "rejection_rank RecursionLocked = 1"
| "rejection_rank SecondaryCondition = 2"
| "rejection_rank GroupLoser = 3"
| "rejection_rank ProbabilityLoser = 4"
| "rejection_rank BudgetExceeded = 5"

lemma class_rank_inject: "class_rank a = class_rank b \<longleftrightarrow> a = b"
  by (cases a; cases b) auto

lemma rejection_rank_inject: "rejection_rank a = rejection_rank b \<longleftrightarrow> a = b"
  by (cases a; cases b) auto

instantiation ActivationClass :: linorder
begin

definition less_eq_ActivationClass :: "ActivationClass \<Rightarrow> ActivationClass \<Rightarrow> bool" where
  "less_eq_ActivationClass a b \<longleftrightarrow> class_rank a \<le> class_rank b"

definition less_ActivationClass :: "ActivationClass \<Rightarrow> ActivationClass \<Rightarrow> bool" where
  "less_ActivationClass a b \<longleftrightarrow> class_rank a < class_rank b"

instance
  by standard (auto simp: less_eq_ActivationClass_def less_ActivationClass_def class_rank_inject)

end

instantiation ActivationRejection :: linorder
begin

definition less_eq_ActivationRejection :: "ActivationRejection \<Rightarrow> ActivationRejection \<Rightarrow> bool" where
  "less_eq_ActivationRejection a b \<longleftrightarrow> rejection_rank a \<le> rejection_rank b"

definition less_ActivationRejection :: "ActivationRejection \<Rightarrow> ActivationRejection \<Rightarrow> bool" where
  "less_ActivationRejection a b \<longleftrightarrow> rejection_rank a < rejection_rank b"

instance
  by standard
    (auto simp: less_eq_ActivationRejection_def less_ActivationRejection_def rejection_rank_inject)

end

record ActivationEvidence =
  ev_pattern_kind :: ActivationPatternKind
  ev_pattern_ordinal :: u16
  ev_fragment_kind :: ScanFragmentKind
  ev_depth :: u16
  ev_match_count :: u16

record 'k ActivatedEntry =
  act_key :: 'k
  act_class :: ActivationClass
  act_recursion_level :: u16
  act_evidence :: "ActivationEvidence list"

record 'k ActivationOutcome =
  out_activated :: "'k ActivatedEntry list"
  out_rejections :: "(ActivationRejection, u32) bmap"
  out_recursion_level :: u16
  out_stop_reason :: ActivationStopReason

record 'k ActEnv =
  env_unicode :: unicode
  env_sha256 :: "u8 list \<Rightarrow> u8 list"
  env_display :: "'k \<Rightarrow> str"

section \<open>Entries\<close>

record 'k Entry =
  entry_candidate :: "'k ActivationCandidate"
  entry_primary :: "str list"
  entry_secondary :: "str list"
  entry_scan_depth :: u16
  entry_evidence :: "ActivationEvidence list"

definition Entry_new :: "'k ActEnv \<Rightarrow> 'k ActivationCandidate \<Rightarrow> ActivationConfig \<Rightarrow> 'k Entry" where
  "Entry_new env candidate config =
     (let mr = match_rule (cand_rule candidate);
          needles = map (\<lambda>key. normalize_text (env_unicode env) key (case_sensitive mr))
      in \<lparr>entry_candidate = candidate,
          entry_primary = needles (match_keys mr),
          entry_secondary = needles (secondary_keys mr),
          entry_scan_depth =
            min (case rule_scan_depth mr of None \<Rightarrow> cfg_scan_depth config | Some d \<Rightarrow> d)
              (cfg_max_scan_depth config),
          entry_evidence = []\<rparr>)"

definition record_match ::
  "unicode \<Rightarrow> ActivationPatternKind \<Rightarrow> ScanFragment \<Rightarrow> bool \<times> bool \<Rightarrow> ActivationEvidence list \<Rightarrow>
   nat \<times> str \<Rightarrow> ActivationEvidence list" where
  "record_match u kind fragment opts evidence item =
     (case (opts, item) of ((cs, whole), (ordinal, needle)) \<Rightarrow>
        let pattern_ordinal = u16_of_usize ordinal
        in if list_ex (\<lambda>e. ev_pattern_kind e = kind \<and> ev_pattern_ordinal e = pattern_ordinal) evidence
           then evidence
           else let n = ScanFragment_count u fragment needle cs whole
                in if n = 0 then evidence
                   else evidence @ [\<lparr>ev_pattern_kind = kind, ev_pattern_ordinal = pattern_ordinal,
                                     ev_fragment_kind = frag_kind fragment,
                                     ev_depth = frag_depth fragment,
                                     ev_match_count = u16_of_usize n\<rparr>])"

definition record_matches ::
  "unicode \<Rightarrow> ActivationEvidence list \<Rightarrow> str list \<Rightarrow> ActivationPatternKind \<Rightarrow> ScanFragment \<Rightarrow>
   bool \<times> bool \<Rightarrow> ActivationEvidence list" where
  "record_matches u evidence needles kind fragment opts =
     foldl (record_match u kind fragment opts) evidence (List.enumerate 0 needles)"

definition Entry_ingest :: "'k ActEnv \<Rightarrow> bool \<Rightarrow> 'k Entry \<Rightarrow> ScanFragment \<Rightarrow> 'k Entry" where
  "Entry_ingest env base entry fragment =
     (if base \<and> frag_depth fragment > entry_scan_depth entry then entry
      else let mr = match_rule (cand_rule (entry_candidate entry));
               opts = (case_sensitive mr, match_whole_words mr);
               ev = record_matches (env_unicode env) (entry_evidence entry)
                      (entry_primary entry) Primary fragment opts
           in entry\<lparr>entry_evidence := record_matches (env_unicode env) ev
                      (entry_secondary entry) Secondary fragment opts\<rparr>)"

definition Entry_matched :: "'k Entry \<Rightarrow> ActivationPatternKind \<Rightarrow> nat" where
  "Entry_matched entry kind = length (filter (\<lambda>e. ev_pattern_kind e = kind) (entry_evidence entry))"

definition Entry_recursion_only :: "'k Entry \<Rightarrow> bool" where
  "Entry_recursion_only entry =
     list_all (\<lambda>e. ev_fragment_kind e = RecursionContent)
       (filter (\<lambda>e. ev_pattern_kind e = Primary) (entry_evidence entry))"

definition Entry_best_evidence :: "'k Entry \<Rightarrow> (ScanFragmentKind \<times> u16) option" where
  "Entry_best_evidence entry =
     (case map (\<lambda>e. (ev_fragment_kind e, ev_depth e)) (entry_evidence entry) of
        [] \<Rightarrow> None
      | x # xs \<Rightarrow> Some (foldl min x xs))"

section \<open>Sessions\<close>

record Candidate =
  cnd_index :: nat
  cnd_class :: ActivationClass
  cnd_score :: u16

record 'k Session =
  s_entries :: "'k Entry list"
  s_turn :: ActivationTurn
  s_config :: ActivationConfig
  s_level :: u16
  s_activated :: "'k ActivatedEntry list"
  s_activated_indices :: "nat bset"
  s_terminal :: "(nat, ActivationRejection) bmap"
  s_deferred :: "(nat, ActivationRejection) bmap"
  s_group_winners :: "(ActivationGroupKey, nat) bmap"
  s_knowledge_bytes :: nat
  s_budget_trimmed :: bool
  s_recursion_exhausted :: bool

definition Session_new ::
  "'k ActEnv \<Rightarrow> 'k ActivationCandidate list \<Rightarrow> ActivationTurn \<Rightarrow> ActivationConfig \<Rightarrow> 'k Session" where
  "Session_new env candidates turn config =
     \<lparr>s_entries = map (\<lambda>c. Entry_new env c config) candidates, s_turn = turn, s_config = config,
      s_level = 0, s_activated = [], s_activated_indices = bm_empty, s_terminal = bm_empty,
      s_deferred = bm_empty, s_group_winners = bm_empty, s_knowledge_bytes = 0,
      s_budget_trimmed = False, s_recursion_exhausted = False\<rparr>"

definition Session_entry :: "'k Session \<Rightarrow> nat \<Rightarrow> 'k Entry" where
  "Session_entry s index = s_entries s ! index"

definition Session_rule :: "'k Session \<Rightarrow> nat \<Rightarrow> ActivationRule" where
  "Session_rule s index = cand_rule (entry_candidate (Session_entry s index))"

definition Session_key :: "'k Session \<Rightarrow> nat \<Rightarrow> 'k" where
  "Session_key s index = cand_key (entry_candidate (Session_entry s index))"

definition Session_settled :: "'k Session \<Rightarrow> nat \<Rightarrow> bool" where
  "Session_settled s index \<longleftrightarrow> bm_contains (s_activated_indices s) index \<or> bm_contains (s_terminal s) index"

definition Session_ingest :: "'k ActEnv \<Rightarrow> 'k Session \<Rightarrow> ScanFragment list \<Rightarrow> bool \<Rightarrow> 'k Session" where
  "Session_ingest env s fragments base =
     s\<lparr>s_entries :=
         map (\<lambda>(index, entry). if Session_settled s index then entry
                               else foldl (Entry_ingest env base) entry fragments)
           (List.enumerate 0 (s_entries s))\<rparr>"

text \<open>One iteration of the loop of \<open>Session::collect\<close>.\<close>

definition collect_step ::
  "'k Session \<times> Candidate list \<Rightarrow> nat \<times> 'k Entry \<Rightarrow> 'k Session \<times> Candidate list" where
  "collect_step acc item =
     (case (acc, item) of ((s, candidates), (index, entry)) \<Rightarrow>
        let rule = cand_rule (entry_candidate entry)
        in if Session_settled s index then (s, candidates)
           else if \<not> mode_enabled (rule_mode rule) then (s, candidates)
           else if mode_constant (rule_mode rule)
             then (if s_level s = 0
                   then (s, candidates @ [\<lparr>cnd_index = index, cnd_class = ConstantEntry, cnd_score = 0\<rparr>])
                   else (s, candidates))
           else let primary = Entry_matched entry Primary
             in if primary = 0 then (s, candidates)
                else if (case delay_until_recursion (rule_recursion rule) of
                           None \<Rightarrow> False | Some level \<Rightarrow> s_level s < level)
                  then (s\<lparr>s_deferred := bm_insert index RecursionLocked (s_deferred s)\<rparr>, candidates)
                else let recursion_only = Entry_recursion_only entry
                  in if recursion_only \<and> exclude_recursion (rule_recursion rule)
                     then (s\<lparr>s_terminal := bm_insert index RecursionExcluded (s_terminal s)\<rparr>, candidates)
                     else let secondary = Entry_matched entry Secondary;
                              logic = secondary_logic (match_rule rule)
                       in if \<not> SecondaryLogic_holds logic secondary (length (entry_secondary entry))
                          then (s\<lparr>s_deferred := bm_insert index SecondaryCondition (s_deferred s)\<rparr>,
                                candidates)
                          else (s\<lparr>s_deferred := bm_remove index (s_deferred s)\<rparr>,
                                candidates @
                                  [\<lparr>cnd_index = index,
                                    cnd_class = (if recursion_only then RecursionMatch else TextMatch),
                                    cnd_score = u16_of_usize (usize_saturating_add primary
                                      (if SecondaryLogic_scores_matches logic then secondary else 0))\<rparr>]))"

definition Session_collect :: "'k Session \<Rightarrow> 'k Session \<times> Candidate list" where
  "Session_collect s = foldl collect_step (s, []) (List.enumerate 0 (s_entries s))"

section \<open>Hashing\<close>

fun be_bytes :: "nat \<Rightarrow> nat \<Rightarrow> u8 list" where
  "be_bytes 0 n = []"
| "be_bytes (Suc k) n = be_bytes k (n div 256) @ [of_nat n]"

definition utf8_encode_char :: "uchar \<Rightarrow> u8 list" where
  "utf8_encode_char c =
     (if c < 128 then [of_nat c]
      else if c < 2048 then [of_nat (192 + c div 64), of_nat (128 + c mod 64)]
      else if c < 65536
        then [of_nat (224 + c div 4096), of_nat (128 + c div 64 mod 64), of_nat (128 + c mod 64)]
      else [of_nat (240 + c div 262144), of_nat (128 + c div 4096 mod 64),
            of_nat (128 + c div 64 mod 64), of_nat (128 + c mod 64)])"

definition utf8_encode :: "str \<Rightarrow> u8 list" where
  "utf8_encode t = concat (map utf8_encode_char t)"

text \<open>A hasher is the bytes fed to it; \<open>hash_field\<close> prefixes each field with its length.\<close>

definition hash_field :: "u8 list \<Rightarrow> u8 list \<Rightarrow> u8 list" where
  "hash_field hasher value = hasher @ be_bytes 8 (length value) @ value"

definition digest_u64 :: "(u8 list \<Rightarrow> u8 list) \<Rightarrow> u8 list \<Rightarrow> nat" where
  "digest_u64 sha hasher = foldl (\<lambda>n b. n * 256 + unat b) 0 (take 8 (sha hasher))"

definition hash_turn :: "'k Session \<Rightarrow> u8 list \<Rightarrow> u8 list" where
  "hash_turn s hasher =
     hash_field (hash_field hasher (utf8_encode (at_story_id (s_turn s))))
       (be_bytes 8 (unat (at_turn_number (s_turn s))))"

section \<open>Groups\<close>

definition candidate_rank :: "'k Session \<Rightarrow> Candidate \<Rightarrow> bool \<times> u16 \<times> int" where
  "candidate_rank s c =
     (let selection = rule_selection (Session_rule s (cnd_index c))
      in (group_override selection,
          if use_group_scoring selection then cnd_score c else 0,
          sel_order selection))"

text \<open>The weighted draw at the end of \<open>group_winner\<close>.\<close>

fun weighted_pick :: "(nat \<Rightarrow> nat) \<Rightarrow> nat \<Rightarrow> nat list \<Rightarrow> nat option" where
  "weighted_pick weight sample [] = None"
| "weighted_pick weight sample (i # is) =
     (if sample < weight i then Some i else weighted_pick weight (sample - weight i) is)"

definition session_weight :: "'k Session \<Rightarrow> nat \<Rightarrow> nat" where
  "session_weight s index = unat (group_weight (rule_selection (Session_rule s index)))"

definition tied_members :: "'k::linorder Session \<Rightarrow> Candidate list \<Rightarrow> nat list" where
  "tied_members s members =
     (case members of
        [] \<Rightarrow> []
      | m # ms \<Rightarrow>
          let best = foldl max (candidate_rank s m) (map (candidate_rank s) ms)
          in sort_key (Session_key s)
               (map cnd_index (filter (\<lambda>c. candidate_rank s c = best) members)))"

definition group_winner ::
  "'k::linorder ActEnv \<Rightarrow> 'k Session \<Rightarrow> ActivationGroupKey \<Rightarrow> Candidate list \<Rightarrow> nat option" where
  "group_winner env s grp members =
     (if members = [] then None
      else let tied = tied_members s members;
               weight = session_weight s;
               tot = sum_list (map weight tied)
           in if tot = 0 then (case tied of [] \<Rightarrow> None | i # _ \<Rightarrow> Some i)
              else let h0 = hash_field [] (utf8_encode (lit ''aise.activation.group.v1''));
                       h1 = hash_field (hash_turn s h0) (utf8_encode grp);
                       h2 = foldl (\<lambda>h i. hash_field
                                     (hash_field h (utf8_encode (env_display env (Session_key s i))))
                                     (be_bytes 8 (weight i))) h1 tied
                   in weighted_pick weight (digest_u64 (env_sha256 env) h2 mod tot) tied)"

definition in_group :: "'k Session \<Rightarrow> ActivationGroupKey \<Rightarrow> Candidate \<Rightarrow> bool" where
  "in_group s grp c \<longleftrightarrow> grp \<in> set (sel_groups (rule_selection (Session_rule s (cnd_index c))))"

text \<open>One iteration of the loop of \<open>Session::resolve_groups\<close>.\<close>

definition resolve_group ::
  "'k::linorder ActEnv \<Rightarrow> 'k Session \<times> Candidate list \<Rightarrow> ActivationGroupKey \<Rightarrow> 'k Session \<times> Candidate list" where
  "resolve_group env acc grp =
     (case acc of (s, eligible) \<Rightarrow>
        let members = filter (in_group s grp) eligible
        in if members = [] then (s, eligible)
           else let winner = (case bm_get (s_group_winners s) grp of
                                Some _ \<Rightarrow> None
                              | None \<Rightarrow> group_winner env s grp members);
                    losers = filter (\<lambda>m. Some (cnd_index m) \<noteq> winner) members;
                    s1 = s\<lparr>s_terminal := foldl (\<lambda>t m. bm_insert (cnd_index m) GroupLoser t)
                                          (s_terminal s) losers\<rparr>;
                    kept = filter (\<lambda>c. Some (cnd_index c) = winner \<or>
                                       \<not> list_ex (\<lambda>m. cnd_index m = cnd_index c) members) eligible
                in (case winner of
                      None \<Rightarrow> s1
                    | Some index \<Rightarrow> s1\<lparr>s_group_winners := bm_insert grp index (s_group_winners s1)\<rparr>,
                    kept))"

definition candidate_groups :: "'k Session \<Rightarrow> Candidate list \<Rightarrow> ActivationGroupKey list" where
  "candidate_groups s candidates =
     bm_keys (bs_of_list
       (concat (map (\<lambda>c. sel_groups (rule_selection (Session_rule s (cnd_index c)))) candidates)))"

definition resolve_groups ::
  "'k::linorder ActEnv \<Rightarrow> 'k Session \<Rightarrow> Candidate list \<Rightarrow> 'k Session \<times> Candidate list" where
  "resolve_groups env s candidates =
     foldl (resolve_group env) (s, candidates) (candidate_groups s candidates)"

section \<open>Admission\<close>

definition probability_admits :: "'k ActEnv \<Rightarrow> 'k Session \<Rightarrow> nat \<Rightarrow> ActivationProbability \<Rightarrow> bool" where
  "probability_admits env s index percent =
     (if percent = 0 then False
      else if percent \<ge> 100 then True
      else let h0 = hash_field [] (utf8_encode (lit ''aise.activation.probability.v1''));
               h1 = hash_field (hash_turn s h0) (utf8_encode (env_display env (Session_key s index)))
           in digest_u64 (env_sha256 env) h1 mod 100 < unat percent)"

definition candidate_ordering ::
  "'k Session \<Rightarrow> Candidate \<Rightarrow> ActivationClass \<times> int \<times> int \<times> (ScanFragmentKind \<times> u16) option \<times> 'k" where
  "candidate_ordering s c =
     (cnd_class c,
      - sel_order (rule_selection (Session_rule s (cnd_index c))),
      - int (unat (cnd_score c)),
      Entry_best_evidence (Session_entry s (cnd_index c)),
      Session_key s (cnd_index c))"

text \<open>One iteration of the loop of \<open>Session::admit\<close>.\<close>

definition admit_step ::
  "'k ActEnv \<Rightarrow> 'k Session \<times> ScanFragment list \<Rightarrow> Candidate \<Rightarrow> 'k Session \<times> ScanFragment list" where
  "admit_step env acc candidate =
     (case acc of (s, fragments) \<Rightarrow>
        let index = cnd_index candidate;
            entry = Session_entry s index;
            rule = cand_rule (entry_candidate entry);
            content = cand_content (entry_candidate entry)
        in if \<not> probability_admits env s index (sel_probability (rule_selection rule))
           then (s\<lparr>s_terminal := bm_insert index ProbabilityLoser (s_terminal s)\<rparr>, fragments)
           else if length (s_activated s) \<ge> cfg_max_activated_entries (s_config s) \<or>
                   usize_saturating_add (s_knowledge_bytes s) (str_len content)
                     > cfg_max_knowledge_bytes (s_config s)
             then (s\<lparr>s_terminal := bm_insert index BudgetExceeded (s_terminal s),
                     s_budget_trimmed := True\<rparr>, fragments)
           else (s\<lparr>s_knowledge_bytes := usize_saturating_add (s_knowledge_bytes s) (str_len content),
                   s_activated_indices := bs_insert index (s_activated_indices s),
                   s_activated := s_activated s @
                     [\<lparr>act_key = cand_key (entry_candidate entry), act_class = cnd_class candidate,
                       act_recursion_level = s_level s, act_evidence = entry_evidence entry\<rparr>]\<rparr>,
                 if prevent_recursion (rule_recursion rule) then fragments
                 else fragments @ [ScanFragment_new (env_unicode env) RecursionContent
                                     (u16_saturating_add (s_level s) 1) content]))"

definition Session_admit ::
  "'k::linorder ActEnv \<Rightarrow> 'k Session \<Rightarrow> Candidate list \<Rightarrow> 'k Session \<times> ScanFragment list" where
  "Session_admit env s candidates =
     foldl (admit_step env) (s, []) (sort_key (candidate_ordering s) candidates)"

section \<open>The round loop\<close>

text \<open>
  A round that continues: \<open>Inl\<close> when the loop of \<open>run\<close> returns, \<open>Inr\<close> with the next state
  otherwise.
\<close>

definition run_round :: "'k::linorder ActEnv \<Rightarrow> 'k Session \<Rightarrow> 'k Session + 'k Session" where
  "run_round env s =
     (case Session_collect s of (s1, candidates) \<Rightarrow>
        if candidates = [] then Inl s1
        else case resolve_groups env s1 candidates of (s2, eligible) \<Rightarrow>
          case Session_admit env s2 eligible of (s3, fragments) \<Rightarrow>
            if fragments = [] then Inl s3
            else if s_level s3 \<ge> cfg_max_recursion_steps (s_config s3)
              then Inl (s3\<lparr>s_recursion_exhausted := True\<rparr>)
            else Inr (Session_ingest env
                        (s3\<lparr>s_level := u16_saturating_add (s_level s3) 1\<rparr>) fragments False))"

lemma collect_step_frame:
  "s_level (fst (collect_step acc item)) = s_level (fst acc)"
  "s_config (fst (collect_step acc item)) = s_config (fst acc)"
  "s_entries (fst (collect_step acc item)) = s_entries (fst acc)"
  "s_activated (fst (collect_step acc item)) = s_activated (fst acc)"
  "s_activated_indices (fst (collect_step acc item)) = s_activated_indices (fst acc)"
  "s_group_winners (fst (collect_step acc item)) = s_group_winners (fst acc)"
  "s_knowledge_bytes (fst (collect_step acc item)) = s_knowledge_bytes (fst acc)"
  by (cases acc; cases item; simp add: collect_step_def Let_def)+

lemma foldl_fst_frame:
  assumes "\<And>acc x. f (fst (g acc x)) = f (fst acc)"
  shows "f (fst (foldl g acc xs)) = f (fst acc)"
  by (induction xs arbitrary: acc) (simp_all add: assms)

lemma Session_collect_frame [simp]:
  "s_level (fst (Session_collect s)) = s_level s"
  "s_config (fst (Session_collect s)) = s_config s"
  "s_entries (fst (Session_collect s)) = s_entries s"
  "s_activated (fst (Session_collect s)) = s_activated s"
  "s_activated_indices (fst (Session_collect s)) = s_activated_indices s"
  "s_group_winners (fst (Session_collect s)) = s_group_winners s"
  "s_knowledge_bytes (fst (Session_collect s)) = s_knowledge_bytes s"
  by (simp_all add: Session_collect_def foldl_fst_frame collect_step_frame)

lemma resolve_group_frame:
  "s_level (fst (resolve_group env acc g)) = s_level (fst acc)"
  "s_config (fst (resolve_group env acc g)) = s_config (fst acc)"
  "s_entries (fst (resolve_group env acc g)) = s_entries (fst acc)"
  "s_activated (fst (resolve_group env acc g)) = s_activated (fst acc)"
  "s_activated_indices (fst (resolve_group env acc g)) = s_activated_indices (fst acc)"
  "s_knowledge_bytes (fst (resolve_group env acc g)) = s_knowledge_bytes (fst acc)"
  by (cases acc; simp add: resolve_group_def Let_def split: option.splits)+

lemma resolve_groups_frame [simp]:
  "s_level (fst (resolve_groups env s cs)) = s_level s"
  "s_config (fst (resolve_groups env s cs)) = s_config s"
  "s_entries (fst (resolve_groups env s cs)) = s_entries s"
  "s_activated (fst (resolve_groups env s cs)) = s_activated s"
  "s_activated_indices (fst (resolve_groups env s cs)) = s_activated_indices s"
  "s_knowledge_bytes (fst (resolve_groups env s cs)) = s_knowledge_bytes s"
  by (simp_all add: resolve_groups_def foldl_fst_frame resolve_group_frame)

lemma admit_step_frame:
  "s_level (fst (admit_step env acc c)) = s_level (fst acc)"
  "s_config (fst (admit_step env acc c)) = s_config (fst acc)"
  "s_entries (fst (admit_step env acc c)) = s_entries (fst acc)"
  "s_group_winners (fst (admit_step env acc c)) = s_group_winners (fst acc)"
  by (cases acc; simp add: admit_step_def Let_def)+

lemma Session_admit_frame [simp]:
  "s_level (fst (Session_admit env s cs)) = s_level s"
  "s_config (fst (Session_admit env s cs)) = s_config s"
  "s_entries (fst (Session_admit env s cs)) = s_entries s"
  "s_group_winners (fst (Session_admit env s cs)) = s_group_winners s"
  by (simp_all add: Session_admit_def foldl_fst_frame admit_step_frame)

lemma run_round_level:
  assumes "run_round env s = Inr s'"
  shows "s_config s' = s_config s" and "s_level s < cfg_max_recursion_steps (s_config s)"
    and "unat (s_level s') = Suc (unat (s_level s))"
proof -
  obtain s1 c1 where 1: "Session_collect s = (s1, c1)" by (cases "Session_collect s")
  obtain s2 c2 where 2: "resolve_groups env s1 c1 = (s2, c2)" by (cases "resolve_groups env s1 c1")
  obtain s3 f where 3: "Session_admit env s2 c2 = (s3, f)" by (cases "Session_admit env s2 c2")
  have lv: "s_level s3 = s_level s" "s_config s3 = s_config s"
    using Session_collect_frame(1,2) [of s] resolve_groups_frame(1,2) [of env s1 c1]
      Session_admit_frame(1,2) [of env s2 c2] 1 2 3 by simp_all
  have s': "s' = Session_ingest env (s3\<lparr>s_level := u16_saturating_add (s_level s3) 1\<rparr>) f False"
    and lt: "\<not> s_level s3 \<ge> cfg_max_recursion_steps (s_config s3)"
    using assms 1 2 3 by (auto simp: run_round_def split: if_splits)
  from s' lv show "s_config s' = s_config s" by (simp add: Session_ingest_def)
  from lt lv show less: "s_level s < cfg_max_recursion_steps (s_config s)" by simp
  have "unat (s_level s) < 65535"
    using less unat_u16_less [of "cfg_max_recursion_steps (s_config s)"]
    by (simp add: word_less_nat_alt)
  then show "unat (s_level s') = Suc (unat (s_level s))"
    using s' lv by (simp add: Session_ingest_def unat_u16_saturating_add)
qed

function Session_run :: "'k::linorder ActEnv \<Rightarrow> 'k Session \<Rightarrow> 'k Session" where
  "Session_run env s = (case run_round env s of Inl s' \<Rightarrow> s' | Inr s' \<Rightarrow> Session_run env s')"
  by pat_completeness auto
termination
proof (relation "measure (\<lambda>(env, s). unat (cfg_max_recursion_steps (s_config s)) - unat (s_level s))",
    goal_cases)
  case 1
  then show ?case by simp
next
  case (2 env s s')
  then show ?case
    using run_round_level [of env s s'] by (simp add: word_less_nat_alt)
qed

declare Session_run.simps [simp del]

section \<open>The outcome\<close>

definition count_rejection ::
  "(ActivationRejection, u32) bmap \<Rightarrow> ActivationRejection \<Rightarrow> (ActivationRejection, u32) bmap" where
  "count_rejection m reason =
     bm_insert reason ((case bm_get m reason of None \<Rightarrow> 0 | Some n \<Rightarrow> n) + 1) m"

definition finish_reasons :: "'k Session \<Rightarrow> ActivationRejection list" where
  "finish_reasons s =
     bm_values (s_terminal s) @
     map snd (filter (\<lambda>(index, _). \<not> bm_contains (s_activated_indices s) index \<and>
                                   \<not> bm_contains (s_terminal s) index) (bm_entries (s_deferred s)))"

definition Session_finish :: "'k Session \<Rightarrow> 'k ActivationOutcome" where
  "Session_finish s =
     \<lparr>out_activated = s_activated s,
      out_rejections = foldl count_rejection bm_empty (finish_reasons s),
      out_recursion_level = s_level s,
      out_stop_reason = (if s_recursion_exhausted s then RecursionExhausted
                         else if s_budget_trimmed s then BudgetTrimmed else Complete)\<rparr>"

definition activate ::
  "'k::linorder ActEnv \<Rightarrow> 'k ActivationCandidate list \<Rightarrow> ScanFragment list \<Rightarrow> ActivationTurn \<Rightarrow>
   ActivationConfig \<Rightarrow> 'k ActivationOutcome" where
  "activate env candidates fragments turn config =
     Session_finish (Session_run env
       (Session_ingest env (Session_new env candidates turn config) fragments True))"

end
