(* ===== verification/Activation_Safety.thy ===== *)
theory Activation_Safety
  imports Activation_Engine
begin

text \<open>
  What an activation run guarantees, whatever the hash function, the key display and the Unicode
  tables are: the invariant \<open>act_inv\<close> of the session (every activated entry comes from one enabled
  candidate, no index is both activated and rejected, exclusive groups have one activated member,
  the budgets hold) is kept by collecting, resolving, admitting and ingesting, hence by the loop.
\<close>

section \<open>The invariant\<close>

type_synonym 'k cands = "'k ActivationCandidate list"

definition cand_groups :: "'k cands \<Rightarrow> nat \<Rightarrow> ActivationGroupKey list" where
  "cand_groups cs i = sel_groups (rule_selection (cand_rule (cs ! i)))"

definition cand_constant :: "'k cands \<Rightarrow> nat \<Rightarrow> bool" where
  "cand_constant cs i = mode_constant (rule_mode (cand_rule (cs ! i)))"

definition cand_enabled :: "'k cands \<Rightarrow> nat \<Rightarrow> bool" where
  "cand_enabled cs i = mode_enabled (rule_mode (cand_rule (cs ! i)))"

definition has_primary :: "ActivationEvidence list \<Rightarrow> bool" where
  "has_primary ev \<longleftrightarrow> (\<exists>e \<in> set ev. ev_pattern_kind e = Primary)"

text \<open>An activated entry as the image of the candidate at index \<open>i\<close>.\<close>

definition act_ok :: "'k cands \<Rightarrow> 'k ActivatedEntry \<Rightarrow> nat \<Rightarrow> bool" where
  "act_ok cs a i \<longleftrightarrow> i < length cs \<and> cand_enabled cs i \<and> act_key a = cand_key (cs ! i) \<and>
     (act_class a = ConstantEntry \<longleftrightarrow> cand_constant cs i) \<and>
     (act_class a = ConstantEntry \<longrightarrow> act_recursion_level a = 0) \<and>
     (act_class a \<noteq> ConstantEntry \<longrightarrow> has_primary (act_evidence a))"

definition cand_bytes :: "'k cands \<Rightarrow> nat \<Rightarrow> nat" where
  "cand_bytes cs i = str_len (cand_content (cs ! i))"

text \<open>The ghost list of activated indices, in activation order.\<close>

definition act_indices :: "'k cands \<Rightarrow> 'k Session \<Rightarrow> nat list \<Rightarrow> bool" where
  "act_indices cs s idxs \<longleftrightarrow> distinct idxs \<and> (\<forall>i. i \<in> set idxs \<longleftrightarrow> bm_contains (s_activated_indices s) i) \<and>
     list_all2 (act_ok cs) (s_activated s) idxs \<and>
     s_knowledge_bytes s = sum_list (map (cand_bytes cs) idxs)"

definition act_inv :: "'k cands \<Rightarrow> ActivationConfig \<Rightarrow> 'k Session \<Rightarrow> bool" where
  "act_inv cs cfg s \<longleftrightarrow>
     map entry_candidate (s_entries s) = cs \<and> s_config s = cfg \<and>
     (\<exists>idxs. act_indices cs s idxs) \<and>
     (\<forall>i. bm_contains (s_activated_indices s) i \<longrightarrow> \<not> bm_contains (s_terminal s) i) \<and>
     (\<forall>i. bm_contains (s_terminal s) i \<or> bm_contains (s_deferred s) i \<longrightarrow> i < length cs) \<and>
     (\<forall>i g. bm_contains (s_activated_indices s) i \<longrightarrow> g \<in> set (cand_groups cs i) \<longrightarrow>
        bm_get (s_group_winners s) g = Some i) \<and>
     length (s_activated s) \<le> cfg_max_activated_entries cfg \<and>
     s_knowledge_bytes s \<le> cfg_max_knowledge_bytes cfg"

text \<open>What a round may assume of the candidates it handles.\<close>

definition cnd_ok :: "'k cands \<Rightarrow> 'k Session \<Rightarrow> Candidate \<Rightarrow> bool" where
  "cnd_ok cs s c \<longleftrightarrow> cnd_index c < length cs \<and> cand_enabled cs (cnd_index c) \<and>
     (cnd_class c = ConstantEntry \<longleftrightarrow> cand_constant cs (cnd_index c)) \<and>
     (cnd_class c = ConstantEntry \<longrightarrow> s_level s = 0) \<and>
     (cnd_class c \<noteq> ConstantEntry \<longrightarrow> has_primary (entry_evidence (s_entries s ! cnd_index c)))"

definition cnds_ok :: "'k cands \<Rightarrow> 'k Session \<Rightarrow> Candidate list \<Rightarrow> bool" where
  "cnds_ok cs s cands \<longleftrightarrow> distinct (map cnd_index cands) \<and>
     (\<forall>c \<in> set cands. cnd_ok cs s c \<and> \<not> Session_settled s (cnd_index c))"

lemma Session_rule_inv: "map entry_candidate (s_entries s) = cs \<Longrightarrow> i < length cs \<Longrightarrow>
  Session_rule s i = cand_rule (cs ! i)"
  by (auto simp: Session_rule_def Session_entry_def)

lemma Session_entry_inv: "map entry_candidate (s_entries s) = cs \<Longrightarrow> i < length cs \<Longrightarrow>
  entry_candidate (Session_entry s i) = cs ! i"
  by (auto simp: Session_entry_def)

lemma Session_key_inv: "map entry_candidate (s_entries s) = cs \<Longrightarrow> i < length cs \<Longrightarrow>
  Session_key s i = cand_key (cs ! i)"
  by (simp add: Session_key_def Session_entry_inv)

section \<open>Collecting\<close>

text \<open>The three ways an iteration of \<open>collect\<close> changes the session, and when it adds a candidate.\<close>

inductive collect_effect :: "'k Session \<Rightarrow> nat \<Rightarrow> 'k Entry \<Rightarrow> 'k Session \<Rightarrow> Candidate list \<Rightarrow> bool" where
  skip: "collect_effect s i e s []"
| postpone: "\<not> Session_settled s i \<Longrightarrow>
    collect_effect s i e (s\<lparr>s_deferred := bm_insert i r (s_deferred s)\<rparr>) []"
| exclude: "\<not> Session_settled s i \<Longrightarrow>
    collect_effect s i e (s\<lparr>s_terminal := bm_insert i r (s_terminal s)\<rparr>) []"
| fire_constant: "\<not> Session_settled s i \<Longrightarrow> mode_enabled (rule_mode (cand_rule (entry_candidate e))) \<Longrightarrow>
    mode_constant (rule_mode (cand_rule (entry_candidate e))) \<Longrightarrow> s_level s = 0 \<Longrightarrow>
    collect_effect s i e s [\<lparr>cnd_index = i, cnd_class = ConstantEntry, cnd_score = 0\<rparr>]"
| fire_match: "\<not> Session_settled s i \<Longrightarrow> mode_enabled (rule_mode (cand_rule (entry_candidate e))) \<Longrightarrow>
    \<not> mode_constant (rule_mode (cand_rule (entry_candidate e))) \<Longrightarrow> Entry_matched e Primary \<noteq> 0 \<Longrightarrow>
    cls \<noteq> ConstantEntry \<Longrightarrow>
    collect_effect s i e (s\<lparr>s_deferred := bm_remove i (s_deferred s)\<rparr>)
      [\<lparr>cnd_index = i, cnd_class = cls, cnd_score = sc\<rparr>]"

lemma collect_step_effect:
  "\<exists>s' new. collect_step (s, cands) (i, e) = (s', cands @ new) \<and> collect_effect s i e s' new"
proof -
  let ?cls = "if Entry_recursion_only e then RecursionMatch else TextMatch"
  have cls: "?cls \<noteq> ConstantEntry" by simp
  show ?thesis
    by (auto simp: collect_step_def Let_def cls
        intro: collect_effect.intros intro!: collect_effect.fire_match)
qed

lemma Entry_matched_primary: "Entry_matched e Primary \<noteq> 0 \<longleftrightarrow> has_primary (entry_evidence e)"
  by (auto simp: Entry_matched_def has_primary_def filter_empty_conv)

text \<open>What holds after the entries below index \<open>n\<close> have been visited.\<close>

definition collected :: "'k cands \<Rightarrow> 'k Session \<Rightarrow> nat \<Rightarrow> 'k Session \<times> Candidate list \<Rightarrow> bool" where
  "collected cs s0 n acc \<longleftrightarrow>
     (case acc of (s, cands) \<Rightarrow>
        s_entries s = s_entries s0 \<and> s_level s = s_level s0 \<and> cnds_ok cs s cands \<and>
        (\<forall>c \<in> set cands. cnd_index c < n) \<and>
        s_activated_indices s = s_activated_indices s0 \<and>
        (\<forall>i. bm_contains (s_terminal s) i \<longrightarrow> bm_contains (s_terminal s0) i \<or>
              i < length cs \<and> \<not> bm_contains (s_activated_indices s0) i) \<and>
        (\<forall>i. bm_contains (s_deferred s) i \<longrightarrow> bm_contains (s_deferred s0) i \<or> i < length cs))"

lemma collected_step:
  assumes inv: "collected cs s0 n (s, cands)" and cs: "map entry_candidate (s_entries s0) = cs"
    and n: "n < length cs" and e: "e = s_entries s0 ! n"
    and eff: "collect_effect s n e s' new"
  shows "collected cs s0 (Suc n) (s', cands @ new)"
proof -
  have ec: "entry_candidate e = cs ! n" using cs n e by auto
  have old: "cnds_ok cs s cands" "\<forall>c \<in> set cands. cnd_index c < n" "s_entries s = s_entries s0"
    using inv by (auto simp: collected_def)
  show ?thesis
    using eff
  proof cases
    case skip
    then show ?thesis using inv by (auto simp: collected_def)
  next
    case (postpone r)
    then show ?thesis using inv n
      by (auto simp: collected_def cnds_ok_def cnd_ok_def Session_settled_def)
  next
    case (exclude r)
    then show ?thesis using inv n
      by (fastforce simp: collected_def cnds_ok_def cnd_ok_def Session_settled_def)
  next
    case fire_constant
    then show ?thesis using inv n ec
      by (fastforce simp: collected_def cnds_ok_def cnd_ok_def cand_enabled_def cand_constant_def)
  next
    case (fire_match cls sc)
    have "has_primary (entry_evidence (s_entries s0 ! n))"
      using fire_match e Entry_matched_primary [of e] by simp
    then show ?thesis using inv n ec fire_match
      by (fastforce simp: collected_def cnds_ok_def cnd_ok_def Session_settled_def cand_enabled_def
          cand_constant_def)
  qed
qed

lemma collected_fold:
  assumes "collected cs s0 n acc" and "map entry_candidate (s_entries s0) = cs"
    and "drop n (s_entries s0) = es"
  shows "collected cs s0 (length cs) (foldl collect_step acc (List.enumerate n es)) \<or> n > length cs"
  using assms
proof (induction es arbitrary: n acc)
  case Nil
  then have "length cs \<le> n" by auto
  then show ?case using Nil.prems(1) by (cases "n = length cs") auto
next
  case (Cons e es)
  have n: "n < length cs" using Cons.prems(2,3) by (metis drop_all length_map linorder_not_le list.distinct(1))
  have e: "e = s_entries s0 ! n" using Cons.prems(2,3) n
    by (metis length_map nth_via_drop)
  have es: "drop (Suc n) (s_entries s0) = es" using Cons.prems(3) by (metis drop_Suc list.sel(3) tl_drop)
  obtain s cands where acc: "acc = (s, cands)" by (cases acc)
  obtain s' new where step: "collect_step (s, cands) (n, e) = (s', cands @ new)"
    and eff: "collect_effect s n e s' new" using collect_step_effect by blast
  have "collected cs s0 (Suc n) (s', cands @ new)"
    using collected_step [OF _ Cons.prems(2) n e eff] Cons.prems(1) acc by simp
  from Cons.IH [OF this Cons.prems(2) es] show ?case using acc step n by auto
qed

lemma Session_collect_collected:
  assumes "map entry_candidate (s_entries s) = cs"
  shows "collected cs s (length cs) (Session_collect s)"
proof -
  have "collected cs s 0 (s, [])" by (simp add: collected_def cnds_ok_def)
  from collected_fold [OF this assms, of "s_entries s"] show ?thesis
    by (simp add: Session_collect_def)
qed

lemma act_indices_cong:
  "s_activated_indices s = s_activated_indices s' \<Longrightarrow> s_activated s = s_activated s' \<Longrightarrow>
   s_knowledge_bytes s = s_knowledge_bytes s' \<Longrightarrow> act_indices cs s idxs = act_indices cs s' idxs"
  by (simp add: act_indices_def)

lemma act_inv_collect:
  assumes inv: "act_inv cs cfg s" and eq: "Session_collect s = (s1, cands)"
  shows "act_inv cs cfg s1" and "cnds_ok cs s1 cands"
proof -
  have cs: "map entry_candidate (s_entries s) = cs" using inv by (simp add: act_inv_def)
  have col: "collected cs s (length cs) (s1, cands)"
    using Session_collect_collected [OF cs] eq by simp
  then show "cnds_ok cs s1 cands" by (simp add: collected_def)
  have fr: "s_config s1 = s_config s" "s_entries s1 = s_entries s" "s_activated s1 = s_activated s"
    "s_activated_indices s1 = s_activated_indices s" "s_group_winners s1 = s_group_winners s"
    "s_knowledge_bytes s1 = s_knowledge_bytes s"
    using Session_collect_frame [of s] eq by simp_all
  have idx: "act_indices cs s1 = act_indices cs s" using fr by (simp add: act_indices_def fun_eq_iff)
  show "act_inv cs cfg s1"
    using inv col fr unfolding act_inv_def idx collected_def by (auto simp: idx)
qed

section \<open>Groups\<close>

lemma weighted_pick_Some:
  "sample < sum_list (map w is) \<Longrightarrow> \<exists>i \<in> set is. weighted_pick w sample is = Some i \<and> 0 < w i"
proof (induction "is" arbitrary: sample)
  case Nil
  then show ?case by simp
next
  case (Cons i "is")
  show ?case
  proof (cases "sample < w i")
    case True
    then show ?thesis by auto
  next
    case False
    then have "sample - w i < sum_list (map w is)" using Cons.prems by simp
    then obtain j where "j \<in> set is" "weighted_pick w (sample - w i) is = Some j" "0 < w j"
      using Cons.IH by blast
    then show ?thesis using False by auto
  qed
qed

lemma foldl_max_in: "foldl max x xs \<in> set (x # xs)" for x :: "'a::linorder"
  by (induction xs arbitrary: x) (auto simp: max_def split: if_splits)

lemma foldl_max_ge: "y \<in> set (x # xs) \<Longrightarrow> y \<le> foldl max x xs" for x :: "'a::linorder"
proof (induction xs arbitrary: x y)
  case Nil
  then show ?case by simp
next
  case (Cons z zs)
  have "max x z \<le> foldl max (max x z) zs" using Cons.IH [of "max x z" "max x z"] by simp
  then show ?case using Cons by auto
qed

lemma tied_members_set:
  assumes "members \<noteq> []"
  shows "tied_members s members \<noteq> []"
    and "set (tied_members s members) =
      {cnd_index c | c. c \<in> set members \<and> (\<forall>d \<in> set members. candidate_rank s d \<le> candidate_rank s c)}"
proof -
  obtain m ms where m: "members = m # ms" using assms by (cases members) auto
  let ?best = "foldl max (candidate_rank s m) (map (candidate_rank s) ms)"
  have st: "set (tied_members s members) = cnd_index ` {c \<in> set members. candidate_rank s c = ?best}"
  proof -
    have "tied_members s members = sort_key (Session_key s)
        (map cnd_index (filter (\<lambda>c. candidate_rank s c = ?best) members))"
      by (simp only: tied_members_def m list.case Let_def)
    then show ?thesis by (simp only: set_sort set_map set_filter)
  qed
  have "?best \<in> candidate_rank s ` set members"
    using foldl_max_in [of "candidate_rank s m" "map (candidate_rank s) ms"] m by auto
  then have "set (tied_members s members) \<noteq> {}" using st by auto
  then show "tied_members s members \<noteq> []" by auto
  have "candidate_rank s c = ?best \<longleftrightarrow> (\<forall>d \<in> set members. candidate_rank s d \<le> candidate_rank s c)"
    if "c \<in> set members" for c
  proof
    assume eq: "candidate_rank s c = ?best"
    show "\<forall>d \<in> set members. candidate_rank s d \<le> candidate_rank s c"
    proof
      fix d assume "d \<in> set members"
      then have "candidate_rank s d \<in> set (candidate_rank s m # map (candidate_rank s) ms)"
        using m by auto
      then show "candidate_rank s d \<le> candidate_rank s c" using foldl_max_ge eq by metis
    qed
  next
    assume all: "\<forall>d \<in> set members. candidate_rank s d \<le> candidate_rank s c"
    have "?best \<le> candidate_rank s c"
      using foldl_max_in [of "candidate_rank s m" "map (candidate_rank s) ms"] m all by auto
    moreover have "candidate_rank s c \<le> ?best" using that m by (intro foldl_max_ge) auto
    ultimately show "candidate_rank s c = ?best" by simp
  qed
  then show "set (tied_members s members) =
      {cnd_index c | c. c \<in> set members \<and> (\<forall>d \<in> set members. candidate_rank s d \<le> candidate_rank s c)}"
    using st by auto
qed

text \<open>The draw always succeeds: the trailing \<open>None\<close> of \<open>group_winner\<close> is unreachable.\<close>

lemma group_winner_Some:
  assumes "members \<noteq> []"
  obtains i where "group_winner env s g members = Some i" and "i \<in> set (tied_members s members)"
proof (cases "sum_list (map (session_weight s) (tied_members s members)) = 0")
  case True
  then show thesis
    using that assms tied_members_set(1) [OF assms, of s]
    by (cases "tied_members s members") (auto simp: group_winner_def Let_def)
next
  case False
  then have "x mod sum_list (map (session_weight s) (tied_members s members))
      < sum_list (map (session_weight s) (tied_members s members))" for x
    by (metis gr0I mod_less_divisor)
  note pick = weighted_pick_Some [OF this]
  have "\<exists>x. group_winner env s g members = weighted_pick (session_weight s)
      (x mod sum_list (map (session_weight s) (tied_members s members))) (tied_members s members)"
    unfolding group_winner_def Let_def using False assms by (simp only: if_False) blast
  then obtain x where "group_winner env s g members = weighted_pick (session_weight s)
      (x mod sum_list (map (session_weight s) (tied_members s members))) (tied_members s members)"
    by blast
  then show thesis using pick [of x] that by auto
qed

definition resolved ::
  "'k cands \<Rightarrow> 'k Session \<Rightarrow> ActivationGroupKey set \<Rightarrow> 'k Session \<times> Candidate list \<Rightarrow> bool" where
  "resolved cs s0 seen acc \<longleftrightarrow>
     (case acc of (s, el) \<Rightarrow>
        s_entries s = s_entries s0 \<and> s_level s = s_level s0 \<and> cnds_ok cs s el \<and>
        s_activated_indices s = s_activated_indices s0 \<and> s_deferred s = s_deferred s0 \<and>
        bm_get (s_group_winners s0) \<subseteq>\<^sub>m bm_get (s_group_winners s) \<and>
        (\<forall>c \<in> set el. \<forall>g \<in> seen. g \<in> set (cand_groups cs (cnd_index c)) \<longrightarrow>
           bm_get (s_group_winners s) g = Some (cnd_index c)) \<and>
        (\<forall>i. bm_contains (s_terminal s) i \<longrightarrow> bm_contains (s_terminal s0) i \<or>
              i < length cs \<and> \<not> bm_contains (s_activated_indices s0) i))"

lemma contains_foldl_insert:
  "bm_contains (foldl (\<lambda>t m. bm_insert (f m) v t) t ms) i \<longleftrightarrow> i \<in> f ` set ms \<or> bm_contains t i"
  by (induction ms arbitrary: t) auto

lemma in_group_cands:
  "map entry_candidate (s_entries s) = cs \<Longrightarrow> cnd_index c < length cs \<Longrightarrow>
     in_group s g c \<longleftrightarrow> g \<in> set (cand_groups cs (cnd_index c))"
  by (simp add: in_group_def cand_groups_def Session_rule_inv)

lemma resolved_step:
  assumes inv: "resolved cs s0 seen (s, el)" and cs: "map entry_candidate (s_entries s0) = cs"
  shows "resolved cs s0 (insert g seen) (resolve_group env (s, el) g)"
proof -
  let ?ms = "filter (in_group s g) el"
  have ent: "map entry_candidate (s_entries s) = cs" and ok: "cnds_ok cs s el"
    using inv cs by (auto simp: resolved_def)
  have grp: "in_group s g c \<longleftrightarrow> g \<in> set (cand_groups cs (cnd_index c))" if "c \<in> set el" for c
    using that ok in_group_cands [OF ent] by (auto simp: cnds_ok_def cnd_ok_def)
  show ?thesis
  proof (cases "?ms = []")
    case True
    then have "\<forall>c \<in> set el. g \<notin> set (cand_groups cs (cnd_index c))"
      using grp by (auto simp: filter_empty_conv)
    then show ?thesis using inv True by (auto simp: resolve_group_def Let_def resolved_def)
  next
    case False
    define winner where "winner = (case bm_get (s_group_winners s) g of
        Some _ \<Rightarrow> None | None \<Rightarrow> group_winner env s g ?ms)"
    define s1 where "s1 = s\<lparr>s_terminal := foldl (\<lambda>t m. bm_insert (cnd_index m) GroupLoser t)
        (s_terminal s) (filter (\<lambda>m. Some (cnd_index m) \<noteq> winner) ?ms)\<rparr>"
    define s2 where "s2 = (case winner of None \<Rightarrow> s1
        | Some i \<Rightarrow> s1\<lparr>s_group_winners := bm_insert g i (s_group_winners s1)\<rparr>)"
    define kept where "kept = filter (\<lambda>c. Some (cnd_index c) = winner \<or>
        \<not> list_ex (\<lambda>m. cnd_index m = cnd_index c) ?ms) el"
    have res: "resolve_group env (s, el) g = (s2, kept)"
      unfolding resolve_group_def s2_def kept_def s1_def winner_def Let_def
      by (simp only: prod.case False if_False)
    have fr: "s_entries s2 = s_entries s" "s_level s2 = s_level s"
      "s_activated_indices s2 = s_activated_indices s" "s_deferred s2 = s_deferred s"
      by (simp_all add: s2_def s1_def split: option.splits)
    have term2: "bm_contains (s_terminal s2) i \<longleftrightarrow>
        (\<exists>m \<in> set ?ms. Some (cnd_index m) \<noteq> winner \<and> i = cnd_index m) \<or> bm_contains (s_terminal s) i" for i
      by (auto simp: s2_def s1_def contains_foldl_insert split: option.splits)
    have win2: "bm_get (s_group_winners s2) =
        (case winner of None \<Rightarrow> bm_get (s_group_winners s) | Some i \<Rightarrow> (bm_get (s_group_winners s))(g \<mapsto> i))"
      by (simp add: s2_def s1_def split: option.splits)
    have fresh: "winner = Some i \<Longrightarrow> bm_get (s_group_winners s) g = None" for i
      by (auto simp: winner_def split: option.splits)
    have sub: "set kept \<subseteq> set el" by (auto simp: kept_def)
    have member: "Some (cnd_index c) = winner" if "c \<in> set kept" "in_group s g c" for c
      using that by (auto simp: kept_def list_ex_iff)
    have notlost: "\<not> bm_contains (s_terminal s2) (cnd_index c)" if c: "c \<in> set kept" for c
      using c ok by (auto simp: term2 kept_def list_ex_iff cnds_ok_def Session_settled_def)
    have "cnds_ok cs s2 kept"
      using ok sub notlost
      by (auto simp: cnds_ok_def cnd_ok_def fr Session_settled_def kept_def distinct_map
          intro: inj_on_subset)
    moreover have "bm_get (s_group_winners s) \<subseteq>\<^sub>m bm_get (s_group_winners s2)"
      using fresh by (auto simp: win2 map_le_def split: option.splits)
    moreover have "bm_get (s_group_winners s2) h = Some (cnd_index c)"
      if "c \<in> set kept" "h \<in> insert g seen" "h \<in> set (cand_groups cs (cnd_index c))" for c h
    proof (cases "h = g")
      case True
      then have "winner = Some (cnd_index c)" using that grp sub member by (metis subsetD)
      then show ?thesis using True by (simp add: win2)
    next
      case False
      then have "bm_get (s_group_winners s) h = Some (cnd_index c)"
        using inv that sub by (auto simp: resolved_def)
      then show ?thesis using False by (auto simp: win2 split: option.splits)
    qed
    moreover have "bm_contains (s_terminal s0) i \<or> i < length cs \<and> \<not> bm_contains (s_activated_indices s0) i"
      if "bm_contains (s_terminal s2) i" for i
      using that ok inv by (auto simp: term2 cnds_ok_def cnd_ok_def Session_settled_def resolved_def)
    ultimately show ?thesis
      using inv res fr by (auto simp: resolved_def intro: map_le_trans)
  qed
qed

lemma resolved_fold:
  assumes "resolved cs s0 seen acc" and "map entry_candidate (s_entries s0) = cs"
  shows "resolved cs s0 (seen \<union> set gs) (foldl (resolve_group env) acc gs)"
  using assms
proof (induction gs arbitrary: seen acc)
  case Nil
  then show ?case by simp
next
  case (Cons g gs)
  have "resolved cs s0 (insert g seen) (resolve_group env acc g)"
    using resolved_step [OF _ Cons.prems(2)] Cons.prems(1) by (cases acc) simp
  from Cons.IH [OF this Cons.prems(2)] show ?case by simp
qed

text \<open>After \<open>resolve_groups\<close> every remaining candidate is the recorded winner of all its groups.\<close>

lemma act_inv_resolve:
  assumes inv: "act_inv cs cfg s" and ok: "cnds_ok cs s cands"
    and eq: "resolve_groups env s cands = (s2, el)"
  shows "act_inv cs cfg s2" and "cnds_ok cs s2 el"
    and "\<And>c g. c \<in> set el \<Longrightarrow> g \<in> set (cand_groups cs (cnd_index c)) \<Longrightarrow>
      bm_get (s_group_winners s2) g = Some (cnd_index c)"
proof -
  have cs: "map entry_candidate (s_entries s) = cs" using inv by (simp add: act_inv_def)
  have res: "resolved cs s (set (candidate_groups s cands)) (s2, el)"
    using resolved_fold [OF _ cs, of "{}" "(s, cands)" "candidate_groups s cands" env] ok eq
    by (simp add: resolved_def resolve_groups_def)
  then show ok2: "cnds_ok cs s2 el" by (simp add: resolved_def)
  have sub: "set el \<subseteq> set cands"
  proof -
    have "set (snd (foldl (resolve_group env) acc gs)) \<subseteq> set (snd acc)" for acc gs
    proof (induction gs arbitrary: acc)
      case (Cons g gs)
      have "set (snd (resolve_group env acc g)) \<subseteq> set (snd acc)"
        by (cases acc) (auto simp: resolve_group_def Let_def)
      then show ?case using Cons.IH by fastforce
    qed simp
    from this [of "(s, cands)" "candidate_groups s cands"] eq show ?thesis by (simp add: resolve_groups_def)
  qed
  show "bm_get (s_group_winners s2) g = Some (cnd_index c)"
    if "c \<in> set el" "g \<in> set (cand_groups cs (cnd_index c))" for c g
  proof -
    have "cnd_index c < length cs" using ok2 that(1) by (auto simp: cnds_ok_def cnd_ok_def)
    then have "g \<in> set (candidate_groups s cands)"
      using that sub Session_rule_inv [OF cs]
      by (force simp: candidate_groups_def cand_groups_def)
    then show ?thesis using res that by (auto simp: resolved_def)
  qed
  have fr: "s_config s2 = s_config s" "s_activated s2 = s_activated s"
    "s_knowledge_bytes s2 = s_knowledge_bytes s"
    using resolve_groups_frame [of env s cands] eq by simp_all
  have ai: "s_activated_indices s2 = s_activated_indices s" using res by (simp add: resolved_def)
  have idx: "act_indices cs s2 = act_indices cs s" using fr ai by (simp add: act_indices_def fun_eq_iff)
  show "act_inv cs cfg s2"
    using inv res fr unfolding act_inv_def idx resolved_def by (auto simp: map_le_def dom_def)
qed

section \<open>Admission\<close>

definition holds_groups :: "'k cands \<Rightarrow> 'k Session \<Rightarrow> Candidate list \<Rightarrow> bool" where
  "holds_groups cs s cands \<longleftrightarrow> (\<forall>c \<in> set cands. \<forall>g \<in> set (cand_groups cs (cnd_index c)).
     bm_get (s_group_winners s) g = Some (cnd_index c))"

text \<open>The three ways an iteration of \<open>admit\<close> changes the session.\<close>

inductive admit_effect :: "'k Session \<Rightarrow> Candidate \<Rightarrow> 'k Session \<Rightarrow> bool" where
  refuse: "admit_effect s c (s\<lparr>s_terminal := bm_insert (cnd_index c) r (s_terminal s),
                              s_budget_trimmed := b\<rparr>)"
| admit: "length (s_activated s) < cfg_max_activated_entries (s_config s) \<Longrightarrow>
    usize_saturating_add (s_knowledge_bytes s) (str_len (cand_content (entry_candidate
      (Session_entry s (cnd_index c))))) \<le> cfg_max_knowledge_bytes (s_config s) \<Longrightarrow>
    admit_effect s c
      (s\<lparr>s_knowledge_bytes := usize_saturating_add (s_knowledge_bytes s) (str_len (cand_content
           (entry_candidate (Session_entry s (cnd_index c))))),
         s_activated_indices := bs_insert (cnd_index c) (s_activated_indices s),
         s_activated := s_activated s @
           [\<lparr>act_key = cand_key (entry_candidate (Session_entry s (cnd_index c))),
             act_class = cnd_class c, act_recursion_level = s_level s,
             act_evidence = entry_evidence (Session_entry s (cnd_index c))\<rparr>]\<rparr>)"

lemma admit_step_effect: "admit_effect s c (fst (admit_step env (s, fr) c))"
proof -
  have r: "admit_effect s c (s\<lparr>s_terminal := bm_insert (cnd_index c) ProbabilityLoser (s_terminal s)\<rparr>)"
    using admit_effect.refuse [of s c "s_budget_trimmed s" ProbabilityLoser] by simp
  show ?thesis
    by (auto simp: admit_step_def Let_def not_le not_less r
        intro: admit_effect.refuse admit_effect.admit)
qed

lemma saturating_add_exact:
  "usize_saturating_add a b \<le> m \<Longrightarrow> m < usize_max \<Longrightarrow> usize_saturating_add a b = a + b"
  by (auto simp: usize_saturating_add_def)

lemma act_inv_admit_step:
  assumes inv: "act_inv cs cfg s" and ok: "cnds_ok cs s (c # rest)"
    and grp: "holds_groups cs s (c # rest)" and cap: "cfg_max_knowledge_bytes cfg < usize_max"
    and eff: "admit_effect s c s'"
  shows "act_inv cs cfg s'" and "cnds_ok cs s' rest" and "holds_groups cs s' rest"
proof -
  let ?i = "cnd_index c"
  have cs: "map entry_candidate (s_entries s) = cs" using inv by (simp add: act_inv_def)
  have c: "cnd_ok cs s c" "\<not> Session_settled s ?i" using ok by (auto simp: cnds_ok_def)
  have i: "?i < length cs" using c by (simp add: cnd_ok_def)
  have ent: "entry_candidate (Session_entry s ?i) = cs ! ?i" by (rule Session_entry_inv [OF cs i])
  obtain idxs where idxs: "act_indices cs s idxs" using inv by (auto simp: act_inv_def)
  show "act_inv cs cfg s'"
    using eff
  proof cases
    case (refuse b r)
    have "act_indices cs s' idxs" using idxs refuse by (simp add: act_indices_def)
    then show ?thesis using inv i c(2) unfolding refuse act_inv_def
      by (auto simp: Session_settled_def)
  next
    case admit
    have new: "?i \<notin> set idxs" using idxs c(2) by (simp add: act_indices_def Session_settled_def)
    have bytes: "s_knowledge_bytes s' = s_knowledge_bytes s + cand_bytes cs ?i"
      using admit inv cap saturating_add_exact ent
      by (auto simp: act_inv_def cand_bytes_def)
    have le: "s_knowledge_bytes s' \<le> cfg_max_knowledge_bytes cfg"
      using admit inv by (simp add: act_inv_def)
    have "act_ok cs (last (s_activated s')) ?i"
      using c(1) i ent admit by (auto simp: act_ok_def cnd_ok_def Session_entry_def)
    then have "act_indices cs s' (idxs @ [?i])"
      using idxs new bytes unfolding act_indices_def admit(1)
      by (auto simp: list_all2_append list_all2_lengthD)
    then show ?thesis
      using inv i c(2) grp le admit(2) unfolding admit(1) act_inv_def
      by (auto simp: Session_settled_def holds_groups_def)
  qed
  have ne: "\<forall>d \<in> set rest. cnd_index d \<noteq> ?i"
  proof -
    have "?i \<notin> cnd_index ` set rest" using ok by (simp add: cnds_ok_def)
    then show ?thesis by (metis imageI)
  qed
  show "cnds_ok cs s' rest"
    using eff
  proof cases
    case (refuse b r)
    then show ?thesis using ok ne by (simp add: cnds_ok_def cnd_ok_def Session_settled_def)
  next
    case admit
    then show ?thesis using ok ne by (simp add: cnds_ok_def cnd_ok_def Session_settled_def)
  qed
  show "holds_groups cs s' rest"
    using eff by cases (use grp in \<open>auto simp: holds_groups_def\<close>)
qed

lemma act_inv_admit_fold:
  assumes "act_inv cs cfg (fst acc)" and "cnds_ok cs (fst acc) cands" and "holds_groups cs (fst acc) cands"
    and "cfg_max_knowledge_bytes cfg < usize_max"
  shows "act_inv cs cfg (fst (foldl (admit_step env) acc cands))"
  using assms
proof (induction cands arbitrary: acc)
  case (Cons c cands)
  have "admit_effect (fst acc) c (fst (admit_step env acc c))"
    using admit_step_effect [of "fst acc" c env "snd acc"] by simp
  from act_inv_admit_step [OF Cons.prems this] show ?case using Cons.IH Cons.prems(4) by simp
qed simp

lemma act_inv_admit:
  assumes "act_inv cs cfg s" and "cnds_ok cs s cands" and "holds_groups cs s cands"
    and "cfg_max_knowledge_bytes cfg < usize_max"
  shows "act_inv cs cfg (fst (Session_admit env s cands))"
proof -
  have "cnds_ok cs s (sort_key (candidate_ordering s) cands)"
    using assms(2) by (simp add: cnds_ok_def distinct_map)
  moreover have "holds_groups cs s (sort_key (candidate_ordering s) cands)"
    using assms(3) by (simp add: holds_groups_def)
  ultimately show ?thesis
    using act_inv_admit_fold [of cs cfg "(s, [])"] assms(1,4) by (simp add: Session_admit_def)
qed

section \<open>The loop\<close>

lemma Entry_ingest_candidate [simp]: "entry_candidate (Entry_ingest env b e f) = entry_candidate e"
  by (simp add: Entry_ingest_def Let_def)

lemma foldl_ingest_candidate [simp]:
  "entry_candidate (foldl (Entry_ingest env b) e fs) = entry_candidate e"
  by (induction fs arbitrary: e) simp_all

lemma ingest_candidates:
  "map entry_candidate (s_entries (Session_ingest env s fs b)) = map entry_candidate (s_entries s)"
  by (rule nth_equalityI) (simp_all add: Session_ingest_def nth_enumerate_eq)

lemma Session_ingest_frame [simp]:
  "s_config (Session_ingest env s fs b) = s_config s"
  "s_level (Session_ingest env s fs b) = s_level s"
  "s_activated (Session_ingest env s fs b) = s_activated s"
  "s_activated_indices (Session_ingest env s fs b) = s_activated_indices s"
  "s_terminal (Session_ingest env s fs b) = s_terminal s"
  "s_deferred (Session_ingest env s fs b) = s_deferred s"
  "s_group_winners (Session_ingest env s fs b) = s_group_winners s"
  "s_knowledge_bytes (Session_ingest env s fs b) = s_knowledge_bytes s"
  by (simp_all add: Session_ingest_def)

lemma act_inv_ingest: "act_inv cs cfg s \<Longrightarrow> act_inv cs cfg (Session_ingest env s fs b)"
  using ingest_candidates [of env s fs b] by (simp add: act_inv_def act_indices_def)

lemma act_inv_level: "act_inv cs cfg s \<Longrightarrow> act_inv cs cfg (s\<lparr>s_level := l\<rparr>)"
  by (simp add: act_inv_def act_indices_def)

lemma act_inv_exhausted: "act_inv cs cfg s \<Longrightarrow> act_inv cs cfg (s\<lparr>s_recursion_exhausted := x\<rparr>)"
  by (simp add: act_inv_def act_indices_def)

lemma act_inv_round:
  assumes inv: "act_inv cs cfg s" and cap: "cfg_max_knowledge_bytes cfg < usize_max"
  shows "case run_round env s of Inl s' \<Rightarrow> act_inv cs cfg s' | Inr s' \<Rightarrow> act_inv cs cfg s'"
proof -
  obtain s1 c1 where 1: "Session_collect s = (s1, c1)" by (cases "Session_collect s")
  obtain s2 c2 where 2: "resolve_groups env s1 c1 = (s2, c2)" by (cases "resolve_groups env s1 c1")
  obtain s3 f where 3: "Session_admit env s2 c2 = (s3, f)" by (cases "Session_admit env s2 c2")
  note i1 = act_inv_collect [OF inv 1]
  note i2 = act_inv_resolve [OF i1 2]
  have "holds_groups cs s2 c2" using i2(3) by (simp add: holds_groups_def)
  from act_inv_admit [OF i2(1,2) this cap, of env] 3 have i3: "act_inv cs cfg s3" by simp
  from i1 i3 show ?thesis
    by (simp add: run_round_def 1 2 3 act_inv_ingest act_inv_level act_inv_exhausted)
qed

lemma act_inv_run:
  "act_inv cs cfg s \<Longrightarrow> cfg_max_knowledge_bytes cfg < usize_max \<Longrightarrow> act_inv cs cfg (Session_run env s)"
proof (induction env s rule: Session_run.induct)
  case (1 env s)
  then show ?case
    using act_inv_round [OF 1(2,3), of env]
    by (subst Session_run.simps) (auto split: sum.splits)
qed

lemma act_inv_new: "act_inv cs cfg (Session_new env cs turn cfg)"
proof -
  have "act_indices cs (Session_new env cs turn cfg) []"
    by (simp add: act_indices_def Session_new_def)
  moreover have "map (entry_candidate \<circ> (\<lambda>c. Entry_new env c cfg)) cs = cs"
    by (rule map_idI) (simp add: Entry_new_def Let_def)
  ultimately show ?thesis by (auto simp: act_inv_def Session_new_def)
qed

text \<open>The session in which \<open>activate\<close> ends.\<close>

definition final_session ::
  "'k::linorder ActEnv \<Rightarrow> 'k cands \<Rightarrow> ScanFragment list \<Rightarrow> ActivationTurn \<Rightarrow> ActivationConfig \<Rightarrow>
   'k Session" where
  "final_session env cs fragments turn cfg =
     Session_run env (Session_ingest env (Session_new env cs turn cfg) fragments True)"

lemma activate_final: "activate env cs fs turn cfg = Session_finish (final_session env cs fs turn cfg)"
  by (simp add: activate_def final_session_def)

lemma act_inv_final:
  "cfg_max_knowledge_bytes cfg < usize_max \<Longrightarrow> act_inv cs cfg (final_session env cs fs turn cfg)"
  by (simp add: final_session_def act_inv_run act_inv_ingest act_inv_new)

lemma act_inv_winner:
  "act_inv cs cfg s \<Longrightarrow> bm_contains (s_activated_indices s) i \<Longrightarrow> g \<in> set (cand_groups cs i) \<Longrightarrow>
   bm_get (s_group_winners s) g = Some i"
  unfolding act_inv_def by blast

lemma act_inv_groups:
  assumes "act_inv cs cfg s" and "bm_contains (s_activated_indices s) i"
    and "bm_contains (s_activated_indices s) j" and "i \<noteq> j"
  shows "set (cand_groups cs i) \<inter> set (cand_groups cs j) = {}"
proof (rule ccontr)
  assume "set (cand_groups cs i) \<inter> set (cand_groups cs j) \<noteq> {}"
  then obtain g where "g \<in> set (cand_groups cs i)" "g \<in> set (cand_groups cs j)" by auto
  then have "bm_get (s_group_winners s) g = Some i" "bm_get (s_group_winners s) g = Some j"
    by (auto intro: act_inv_winner [OF assms(1)] assms(2,3))
  then show False using assms(4) by simp
qed

lemma run_round_Inl_level:
  assumes "run_round env s = Inl s'"
  shows "s_level s' = s_level s"
proof -
  obtain s1 c1 where 1: "Session_collect s = (s1, c1)" by (cases "Session_collect s")
  obtain s2 c2 where 2: "resolve_groups env s1 c1 = (s2, c2)" by (cases "resolve_groups env s1 c1")
  obtain s3 f where 3: "Session_admit env s2 c2 = (s3, f)" by (cases "Session_admit env s2 c2")
  show ?thesis
    using assms 1 2 3 Session_collect_frame(1) [of s] resolve_groups_frame(1) [of env s1 c1]
      Session_admit_frame(1) [of env s2 c2]
    by (auto simp: run_round_def split: if_splits)
qed

lemma Session_run_level:
  "s_level s \<le> cfg_max_recursion_steps (s_config s) \<Longrightarrow>
   s_level (Session_run env s) \<le> cfg_max_recursion_steps (s_config s)"
proof (induction env s rule: Session_run.induct)
  case (1 env s)
  show ?case
  proof (cases "run_round env s")
    case (Inl s')
    then show ?thesis using 1 run_round_Inl_level [of env s s'] by (subst Session_run.simps) simp
  next
    case (Inr s')
    have "s_level s' \<le> cfg_max_recursion_steps (s_config s')"
      using run_round_level [OF Inr] by (simp add: word_le_nat_alt word_less_nat_alt)
    then show ?thesis using 1(1) [OF Inr] Inr run_round_level(1) [OF Inr]
      by (subst Session_run.simps) simp
  qed
qed

lemma count_rejection_fold:
  "bm_get (foldl count_rejection m rs) r =
     (if count_list rs r = 0 then bm_get m r
      else Some ((case bm_get m r of None \<Rightarrow> 0 | Some n \<Rightarrow> n) + of_nat (count_list rs r)))"
proof (induction rs arbitrary: m)
  case (Cons x rs)
  then show ?case by (cases "x = r") (auto simp: count_rejection_def split: option.splits)
qed simp

text \<open>Every rejection reason belongs to an own candidate that was not activated.\<close>

lemma finish_reasons_length:
  assumes "act_inv cs cfg s"
  shows "length (s_activated s) + length (finish_reasons s) \<le> length cs"
proof -
  let ?A = "{i. bm_contains (s_activated_indices s) i}"
  let ?T = "{i. bm_contains (s_terminal s) i}"
  let ?D = "{i. bm_contains (s_deferred s) i \<and> i \<notin> ?A \<and> i \<notin> ?T}"
  obtain idxs where idxs: "act_indices cs s idxs" using assms by (auto simp: act_inv_def)
  have setA: "set idxs = ?A" using idxs by (auto simp: act_indices_def)
  have len: "length idxs = length (s_activated s)"
    using idxs by (auto simp: act_indices_def dest: list_all2_lengthD)
  have "i < length cs" if mem: "i \<in> set idxs" for i
  proof -
    obtain k where "k < length idxs" "i = idxs ! k" using mem by (auto simp: in_set_conv_nth)
    then show ?thesis
      using idxs by (auto simp: act_indices_def act_ok_def dest: list_all2_nthD2)
  qed
  then have A1: "?A \<subseteq> {..<length cs}" using setA by blast
  have A2: "card ?A = length (s_activated s)"
    using distinct_card [of idxs] idxs unfolding setA len by (simp add: act_indices_def)
  have keys: "length (bm_values (s_terminal s)) = card ?T"
    using bm_size_card [of "s_terminal s"] by (simp add: bm_values_def bm_size_def)
  have defs: "length (filter (\<lambda>(i, _). i \<notin> ?A \<and> i \<notin> ?T) (bm_entries (s_deferred s))) = card ?D"
  proof -
    let ?es = "filter (\<lambda>(i, _). i \<notin> ?A \<and> i \<notin> ?T) (bm_entries (s_deferred s))"
    have "distinct (map fst ?es)"
      using bm_entries_distinct [of "s_deferred s"] by (rule distinct_map_filter)
    then have "length ?es = card (fst ` set ?es)"
      using distinct_card [of "map fst ?es"] by (simp only: length_map set_map)
    moreover have "fst ` set ?es = ?D"
    proof -
      have "fst ` set ?es = {i. (\<exists>v. (i, v) \<in> set (bm_entries (s_deferred s))) \<and> i \<notin> ?A \<and> i \<notin> ?T}"
        by (auto intro: rev_image_eqI)
      then show ?thesis by (auto simp: bm_entries_iff bm_contains_def)
    qed
    ultimately show ?thesis by simp
  qed
  have sub: "?A \<union> ?T \<union> ?D \<subseteq> {..<length cs}" using A1 assms by (auto simp: act_inv_def)
  have fin: "finite ?A" "finite ?T" "finite ?D" using sub by (auto intro: finite_subset)
  have "?A \<inter> ?T = {}" using assms by (auto simp: act_inv_def)
  then have "card ?A + card ?T + card ?D = card (?A \<union> ?T \<union> ?D)"
    using fin by (subst card_Un_disjoint; auto simp: card_Un_disjoint)
  then show ?thesis
    using card_mono [OF _ sub] A2 keys defs by (simp add: finish_reasons_def)
qed

section \<open>What the callers rely on\<close>

text \<open>
  C5. Soundness of an activation run. The activated entries are the images, in order, of pairwise
  different candidates of the input; each of them is enabled, is reported as a constant entry
  exactly when its rule is constant (and then at recursion level 0), and has a primary key match as
  evidence otherwise; two activated candidates never share an exclusive group; the number of entries
  and the total size of their contents stay within the configured budgets.
\<close>

theorem activate_sound:
  assumes "cfg_max_knowledge_bytes cfg < usize_max"
  shows "\<exists>idxs. distinct idxs \<and>
    list_all2 (act_ok cs) (out_activated (activate env cs fragments turn cfg)) idxs \<and>
    (\<forall>i \<in> set idxs. \<forall>j \<in> set idxs. i \<noteq> j \<longrightarrow> set (cand_groups cs i) \<inter> set (cand_groups cs j) = {}) \<and>
    length idxs \<le> cfg_max_activated_entries cfg \<and>
    sum_list (map (cand_bytes cs) idxs) \<le> cfg_max_knowledge_bytes cfg"
proof -
  let ?s = "final_session env cs fragments turn cfg"
  have inv: "act_inv cs cfg ?s" by (rule act_inv_final [OF assms])
  then obtain idxs where idxs: "act_indices cs ?s idxs" by (auto simp: act_inv_def)
  have "length idxs = length (s_activated ?s)"
    using idxs by (auto simp: act_indices_def dest: list_all2_lengthD)
  then show ?thesis
    using idxs inv act_inv_groups [OF inv]
    by (intro exI [of _ idxs]) (auto simp: activate_final Session_finish_def act_indices_def act_inv_def)
qed

lemma activate_recursion_bound:
  "out_recursion_level (activate env cs fragments turn cfg) \<le> cfg_max_recursion_steps cfg"
  using Session_run_level [of "Session_ingest env (Session_new env cs turn cfg) fragments True" env]
  by (simp add: activate_def Session_finish_def Session_new_def)

text \<open>
  A contested group always gets a winner, and the winner has the highest rank (override, score,
  order) of the competing members: the draw only decides among the tied ones.
\<close>

lemma group_winner_best:
  assumes "members \<noteq> []"
  shows "\<exists>c \<in> set members. group_winner env s g members = Some (cnd_index c) \<and>
    (\<forall>d \<in> set members. candidate_rank s d \<le> candidate_rank s c)"
proof -
  obtain i where "group_winner env s g members = Some i" "i \<in> set (tied_members s members)"
    by (rule group_winner_Some [OF assms])
  then show ?thesis using tied_members_set(2) [OF assms, of s] by auto
qed

text \<open>
  The rejection counters are exact: each reason is counted once for every candidate rejected for
  it, and no candidate is both activated and rejected or rejected twice, so that the activated and
  the rejected entries together are at most the candidates.
\<close>

lemma activate_accounting:
  assumes "cfg_max_knowledge_bytes cfg < usize_max"
    and "out = activate env cs fragments turn cfg"
    and "reasons = finish_reasons (final_session env cs fragments turn cfg)"
  shows "length (out_activated out) + length reasons \<le> length cs \<and>
    bm_get (out_rejections out) r =
      (if count_list reasons r = 0 then None else Some (of_nat (count_list reasons r)))"
  using finish_reasons_length [OF act_inv_final [OF assms(1)]] assms(2,3)
  by (intro conjI) (simp_all add: activate_final Session_finish_def count_rejection_fold)

end
