(* ===== verification/Role.thy ===== *)
theory Role
  imports Activation_Rule
begin

text \<open>
  \<open>core/knowledge\<close> and \<open>core/role\<close>: the recallable entries (facts, rumors, memories) and the
  changes a turn makes to them, roles, character cards, and the size limits on roles. The byte
  limit on the serialized role state is checked by writing JSON into a counting writer;
  \<open>serde_json\<close> is a parameter, the buffers it hands to the writer for a value.
\<close>

section \<open>Knowledge (\<open>core/knowledge\<close>)\<close>

datatype EntryOrigin = Seed | TurnOrigin TurnNumber

record FactBody =
  fb_content :: BoundedText
  fb_activation :: ActivationRule
  fb_retrieval :: RetrievalHint

record FactEntry =
  fe_id :: FactId
  fe_origin :: EntryOrigin
  fe_body :: FactBody

record RumorBody =
  rb_content :: BoundedText
  rb_activation :: ActivationRule
  rb_retrieval :: RetrievalHint

record RumorEntry =
  re_id :: RumorId
  re_origin :: EntryOrigin
  re_body :: RumorBody

record MemoryBody =
  mb_content :: BoundedText
  mb_activation :: ActivationRule
  mb_retrieval :: RetrievalHint

record MemoryEntry =
  me_id :: MemoryId
  me_origin :: EntryOrigin
  me_body :: MemoryBody

record ActivatedKnowledge =
  ak_facts :: "FactEntry list"
  ak_rumors :: "RumorEntry list"

datatype FactChangeOp = FactAdd FactId FactBody | FactUpdate FactId FactBody

datatype RumorChangeOp = RumorAdd RumorId RumorBody | RumorUpdate RumorId RumorBody | RumorRemove RumorId

datatype RoleMemoryChangeOp =
  MemoryAdd RoleId MemoryId MemoryBody | MemoryUpdate RoleId MemoryId MemoryBody

record KnowledgeChange =
  kc_facts :: "FactChangeOp list"
  kc_rumors :: "RumorChangeOp list"
  kc_memories :: "RoleMemoryChangeOp list"

definition KnowledgeChange_default :: KnowledgeChange where
  "KnowledgeChange_default = \<lparr>kc_facts = [], kc_rumors = [], kc_memories = []\<rparr>"

definition KnowledgeChange_is_empty :: "KnowledgeChange \<Rightarrow> bool" where
  "KnowledgeChange_is_empty c \<longleftrightarrow> kc_facts c = [] \<and> kc_rumors c = [] \<and> kc_memories c = []"

section \<open>Characters (\<open>core/role/character.rs\<close>, \<open>character_card.rs\<close>, \<open>character_think.rs\<close>)\<close>

record DialogueExample =
  de_situation :: BoundedText
  de_response :: BoundedText

record CharacterProfile =
  appearance :: "BoundedText option"
  personality :: "BoundedText option"
  speaking_style :: "BoundedText option"
  dialogue_examples :: "DialogueExample list"

datatype CharacterCardSpec = CharV1

record CharacterMeta =
  cm_creator :: BoundedText
  cm_version :: SemanticVersion
  cm_tags :: "BoundedText list"

record CharacterCard =
  cc_spec :: CharacterCardSpec
  cc_card_id :: CharacterCardId
  cc_name :: BoundedText
  cc_meta :: CharacterMeta
  cc_profile :: CharacterProfile

record CharacterThinkRequest =
  ctr_role_id :: RoleId
  ctr_thinking_focus :: BoundedText

record CharacterDecision =
  cd_role_id :: RoleId
  cd_decision :: BoundedText
  cd_suggested_utterance :: "BoundedText option"

section \<open>Roles (\<open>core/role/role.rs\<close>)\<close>

record RoleSpec =
  rs_name :: BoundedText
  rs_alias :: "BoundedText list"
  rs_backstory :: BoundedText
  rs_retrieval :: RetrievalHint

record SeedRole =
  sr_spec :: RoleSpec
  sr_default_profile :: CharacterProfile
  sr_seed_memories :: "(MemoryId, MemoryBody) bmap"

record RoleEntry =
  role_id :: RoleId
  role_origin :: EntryOrigin
  role_spec :: RoleSpec
  role_profile :: CharacterProfile
  role_memories :: "(MemoryId, MemoryEntry) bmap"

type_synonym roles = "(RoleId, RoleEntry) bmap"

abbreviation MAX_ROLES_PER_STORY :: nat where
  "MAX_ROLES_PER_STORY \<equiv> 64"

abbreviation MAX_ALIASES_PER_ROLE :: nat where
  "MAX_ALIASES_PER_ROLE \<equiv> 8"

abbreviation MAX_ROLE_CATALOG_BYTES :: nat where
  "MAX_ROLE_CATALOG_BYTES \<equiv> 32768"

abbreviation MAX_MEMORIES_PER_ROLE :: nat where
  "MAX_MEMORIES_PER_ROLE \<equiv> 32"

abbreviation MAX_ROLE_STATE_BYTES :: nat where
  "MAX_ROLE_STATE_BYTES \<equiv> 2097152"

abbreviation MAX_OPENING_BYTES :: nat where
  "MAX_OPENING_BYTES \<equiv> 16384"

datatype StoryError =
    TooManyRoles nat nat
  | TooManyRoleAliases RoleId nat nat
  | RoleCatalogTooLarge nat nat
  | TooManyRoleMemories RoleId nat nat
  | RoleStateTooLarge nat nat
  | RoleStateSerialization str
  | OpeningTooLarge nat nat
  | NoPlayableRole
  | UnknownRole string RoleId
  | RoleNotPlayable RoleId

subsection \<open>The hand-written serializer and deserializer of seed roles\<close>

text \<open>
  A map entry of the serialized form. While reading, the value of an entry is the result of
  deserializing it; writing produces the values themselves.
\<close>

datatype SeedRoleField =
    F_name BoundedText
  | F_alias "BoundedText list"
  | F_backstory BoundedText
  | F_retrieval RetrievalHint
  | F_default_profile CharacterProfile
  | F_seed_memories "(MemoryId, MemoryBody) bmap"

datatype DeError = DuplicateField string | MissingField string | ValueError str

fun field_name :: "SeedRoleField \<Rightarrow> string" where
  "field_name (F_name v) = ''name''"
| "field_name (F_alias v) = ''alias''"
| "field_name (F_backstory v) = ''backstory''"
| "field_name (F_retrieval v) = ''retrieval''"
| "field_name (F_default_profile v) = ''default_profile''"
| "field_name (F_seed_memories v) = ''seed_memories''"

definition SeedRole_serialize :: "SeedRole \<Rightarrow> SeedRoleField list" where
  "SeedRole_serialize r =
     [F_name (rs_name (sr_spec r)), F_alias (rs_alias (sr_spec r)),
      F_backstory (rs_backstory (sr_spec r)), F_retrieval (rs_retrieval (sr_spec r)),
      F_default_profile (sr_default_profile r), F_seed_memories (sr_seed_memories r)]"

record seed_role_slots =
  sl_name :: "BoundedText option"
  sl_alias :: "BoundedText list option"
  sl_backstory :: "BoundedText option"
  sl_retrieval :: "RetrievalHint option"
  sl_default_profile :: "CharacterProfile option"
  sl_seed_memories :: "(MemoryId, MemoryBody) bmap option"

definition no_slots :: seed_role_slots where
  "no_slots = \<lparr>sl_name = None, sl_alias = None, sl_backstory = None, sl_retrieval = None,
     sl_default_profile = None, sl_seed_memories = None\<rparr>"

text \<open>\<open>set_once\<close>: the duplicate is reported before the value is read.\<close>

definition set_once :: "'a option \<Rightarrow> string \<Rightarrow> DeError + 'a \<Rightarrow> DeError + 'a" where
  "set_once target field next_value =
     (if target \<noteq> None then Err (DuplicateField field) else next_value)"

text \<open>The value of an entry: \<open>bad\<close> holds the error when the value does not deserialize.\<close>

definition next_value :: "DeError option \<Rightarrow> 'a \<Rightarrow> DeError + 'a" where
  "next_value bad v = (case bad of None \<Rightarrow> Ok v | Some e \<Rightarrow> Err e)"

fun visit_field ::
  "seed_role_slots \<Rightarrow> SeedRoleField \<times> DeError option \<Rightarrow> DeError + seed_role_slots" where
  "visit_field s (F_name v, bad) =
     rmap (\<lambda>v. s\<lparr>sl_name := Some v\<rparr>) (set_once (sl_name s) ''name'' (next_value bad v))"
| "visit_field s (F_alias v, bad) =
     rmap (\<lambda>v. s\<lparr>sl_alias := Some v\<rparr>) (set_once (sl_alias s) ''alias'' (next_value bad v))"
| "visit_field s (F_backstory v, bad) =
     rmap (\<lambda>v. s\<lparr>sl_backstory := Some v\<rparr>) (set_once (sl_backstory s) ''backstory'' (next_value bad v))"
| "visit_field s (F_retrieval v, bad) =
     rmap (\<lambda>v. s\<lparr>sl_retrieval := Some v\<rparr>) (set_once (sl_retrieval s) ''retrieval'' (next_value bad v))"
| "visit_field s (F_default_profile v, bad) =
     rmap (\<lambda>v. s\<lparr>sl_default_profile := Some v\<rparr>)
       (set_once (sl_default_profile s) ''default_profile'' (next_value bad v))"
| "visit_field s (F_seed_memories v, bad) =
     rmap (\<lambda>v. s\<lparr>sl_seed_memories := Some v\<rparr>)
       (set_once (sl_seed_memories s) ''seed_memories'' (next_value bad v))"

definition SeedRole_visit_map :: "(SeedRoleField \<times> DeError option) list \<Rightarrow> DeError + SeedRole" where
  "SeedRole_visit_map entries =
     rbind (try_fold visit_field no_slots entries) (\<lambda>s.
     rbind (ok_or (MissingField ''name'') (sl_name s)) (\<lambda>name.
     rbind (ok_or (MissingField ''backstory'') (sl_backstory s)) (\<lambda>backstory.
     rbind (ok_or (MissingField ''retrieval'') (sl_retrieval s)) (\<lambda>retrieval.
     rbind (ok_or (MissingField ''default_profile'') (sl_default_profile s)) (\<lambda>default_profile.
       Ok \<lparr>sr_spec = \<lparr>rs_name = name,
                      rs_alias = (case sl_alias s of None \<Rightarrow> [] | Some a \<Rightarrow> a),
                      rs_backstory = backstory, rs_retrieval = retrieval\<rparr>,
           sr_default_profile = default_profile,
           sr_seed_memories = (case sl_seed_memories s of None \<Rightarrow> bm_empty | Some m \<Rightarrow> m)\<rparr>)))))"

subsection \<open>The counting writer\<close>

record CountingWriter =
  cw_maximum :: nat
  cw_written :: nat
  cw_exceeded :: bool

definition CountingWriter_new :: "nat \<Rightarrow> CountingWriter" where
  "CountingWriter_new maximum = \<lparr>cw_maximum = maximum, cw_written = 0, cw_exceeded = False\<rparr>"

text \<open>\<open>write\<close> returns whether the buffer was accepted, with the writer it leaves.\<close>

definition CountingWriter_write :: "CountingWriter \<Rightarrow> nat \<Rightarrow> bool \<times> CountingWriter" where
  "CountingWriter_write w len =
     (if len > cw_maximum w - cw_written w
      then (False, w\<lparr>cw_written := usize_saturating_add (cw_maximum w) 1, cw_exceeded := True\<rparr>)
      else (True, w\<lparr>cw_written := usize_saturating_add (cw_written w) len\<rparr>))"

text \<open>
  What \<open>serde_json::to_writer\<close> does with a writer: hand over the buffers in order and stop at the
  first one the writer refuses; the serializer itself may fail after some buffers. A value's JSON
  is the list of buffer lengths and the error that ends it.
\<close>

record json_stream =
  js_buffers :: "nat list"
  js_error :: "str option"

fun write_all :: "CountingWriter \<Rightarrow> nat list \<Rightarrow> bool \<times> CountingWriter" where
  "write_all w [] = (True, w)"
| "write_all w (n # ns) =
     (case CountingWriter_write w n of (True, w') \<Rightarrow> write_all w' ns | (False, w') \<Rightarrow> (False, w'))"

definition validate_state_size :: "json_stream \<Rightarrow> StoryError + unit" where
  "validate_state_size json =
     (case write_all (CountingWriter_new MAX_ROLE_STATE_BYTES) (js_buffers json) of
        (accepted, w) \<Rightarrow>
          if accepted \<and> js_error json = None then Ok ()
          else if cw_exceeded w then Err (RoleStateTooLarge (cw_written w) MAX_ROLE_STATE_BYTES)
          else Err (RoleStateSerialization (case js_error json of None \<Rightarrow> [] | Some m \<Rightarrow> m)))"

subsection \<open>Limits\<close>

definition validate_role_spec :: "RoleId \<Rightarrow> RoleSpec \<Rightarrow> StoryError + unit" where
  "validate_role_spec rid spec =
     (if length (rs_alias spec) > MAX_ALIASES_PER_ROLE
      then Err (TooManyRoleAliases rid (length (rs_alias spec)) MAX_ALIASES_PER_ROLE) else Ok ())"

definition validate_role_count :: "nat \<Rightarrow> StoryError + unit" where
  "validate_role_count actual =
     (if actual > MAX_ROLES_PER_STORY then Err (TooManyRoles actual MAX_ROLES_PER_STORY) else Ok ())"

definition validate_memory_count :: "RoleId \<Rightarrow> nat \<Rightarrow> StoryError + unit" where
  "validate_memory_count rid actual =
     (if actual > MAX_MEMORIES_PER_ROLE
      then Err (TooManyRoleMemories rid actual MAX_MEMORIES_PER_ROLE) else Ok ())"

definition role_catalog_bytes :: "RoleId \<Rightarrow> RoleSpec \<Rightarrow> nat" where
  "role_catalog_bytes rid spec =
     usize_saturating_add
       (foldl (\<lambda>tot a. usize_saturating_add tot (str_len a))
          (usize_saturating_add (str_len rid) (str_len (rs_name spec))) (rs_alias spec))
       (str_len (rs_retrieval spec))"

definition validate_catalog_bytes :: "nat \<Rightarrow> StoryError + unit" where
  "validate_catalog_bytes actual =
     (if actual > MAX_ROLE_CATALOG_BYTES then Err (RoleCatalogTooLarge actual MAX_ROLE_CATALOG_BYTES)
      else Ok ())"

text \<open>
  \<open>RoleEntryProjection\<close> and \<open>MemoryEntryProjection\<close> are borrowed copies of \<open>RoleEntry\<close> and
  \<open>MemoryEntry\<close> with the same serialized fields; they are those records here.
\<close>

definition seed_memory_entry :: "MemoryId \<Rightarrow> MemoryBody \<Rightarrow> MemoryEntry" where
  "seed_memory_entry mid body = \<lparr>me_id = mid, me_origin = Seed, me_body = body\<rparr>"

definition role_projection :: "RoleId \<Rightarrow> SeedRole \<Rightarrow> RoleEntry" where
  "role_projection rid role =
     \<lparr>role_id = rid, role_origin = Seed, role_spec = sr_spec role,
      role_profile = sr_default_profile role,
      role_memories = bm_map seed_memory_entry (sr_seed_memories role)\<rparr>"

definition seed_role_step :: "nat \<times> roles \<Rightarrow> RoleId \<times> SeedRole \<Rightarrow> StoryError + nat \<times> roles" where
  "seed_role_step acc item =
     (case (acc, item) of ((catalog_bytes, projected), (rid, role)) \<Rightarrow>
        rbind (validate_role_spec rid (sr_spec role)) (\<lambda>_.
        rbind (validate_memory_count rid (bm_size (sr_seed_memories role))) (\<lambda>_.
          Ok (usize_saturating_add catalog_bytes (role_catalog_bytes rid (sr_spec role)),
              bm_insert rid (role_projection rid role) projected))))"

definition validate_seed_roles ::
  "(roles \<Rightarrow> json_stream) \<Rightarrow> (RoleId, SeedRole) bmap \<Rightarrow> StoryError + unit" where
  "validate_seed_roles json rs =
     rbind (validate_role_count (bm_size rs)) (\<lambda>_.
     rbind (try_fold seed_role_step (0, bm_empty) (bm_entries rs)) (\<lambda>(catalog_bytes, projected).
     rbind (validate_catalog_bytes catalog_bytes) (\<lambda>_.
       validate_state_size (json projected))))"

definition runtime_role_step :: "nat \<Rightarrow> RoleId \<times> RoleEntry \<Rightarrow> StoryError + nat" where
  "runtime_role_step catalog_bytes item =
     (case item of (rid, role) \<Rightarrow>
        rbind (validate_role_spec rid (role_spec role)) (\<lambda>_.
        rbind (validate_memory_count rid (bm_size (role_memories role))) (\<lambda>_.
          Ok (usize_saturating_add catalog_bytes (role_catalog_bytes rid (role_spec role))))))"

definition validate_runtime_roles :: "(roles \<Rightarrow> json_stream) \<Rightarrow> roles \<Rightarrow> StoryError + unit" where
  "validate_runtime_roles json rs =
     rbind (validate_role_count (bm_size rs)) (\<lambda>_.
     rbind (try_fold runtime_role_step 0 (bm_entries rs)) (\<lambda>catalog_bytes.
     rbind (validate_catalog_bytes catalog_bytes) (\<lambda>_.
       validate_state_size (json rs))))"

section \<open>Facts\<close>

lemma write_all_spec:
  assumes "write_all w ns = (acc, w')" and "cw_maximum w \<le> usize_max - 1" and "cw_written w \<le> cw_maximum w"
    and "\<not> cw_exceeded w"
  shows "acc \<longleftrightarrow> cw_written w + sum_list ns \<le> cw_maximum w"
    and "cw_exceeded w' \<longleftrightarrow> \<not> acc"
    and "\<not> acc \<Longrightarrow> cw_written w' = cw_maximum w + 1"
    and "acc \<Longrightarrow> cw_written w' = cw_written w + sum_list ns"
  using assms
proof (atomize (full), induction ns arbitrary: w)
  case Nil
  then show ?case by auto
next
  case (Cons n ns)
  show ?case
  proof (cases "n > cw_maximum w - cw_written w")
    case True
    then show ?thesis using Cons.prems
      by (auto simp: CountingWriter_write_def usize_saturating_add_def)
  next
    case False
    let ?w = "w\<lparr>cw_written := cw_written w + n\<rparr>"
    have "CountingWriter_write w n = (True, ?w)"
      using False Cons.prems by (simp add: CountingWriter_write_def usize_saturating_add_def)
    then show ?thesis using Cons.IH [of ?w] Cons.prems False by auto
  qed
qed

lemma write_all_new:
  assumes "write_all (CountingWriter_new m) ns = (acc, w)" and "m \<le> usize_max - 1"
  shows "acc \<longleftrightarrow> sum_list ns \<le> m" and "cw_exceeded w \<longleftrightarrow> \<not> acc"
    and "\<not> acc \<Longrightarrow> cw_written w = m + 1"
  using write_all_spec [OF assms(1)] assms(2) by (simp_all add: CountingWriter_new_def)

text \<open>The limit check is exact: it accepts a JSON value iff all of it fits.\<close>

lemma validate_state_size_eq:
  "validate_state_size json =
     (if sum_list (js_buffers json) > MAX_ROLE_STATE_BYTES
      then Err (RoleStateTooLarge (MAX_ROLE_STATE_BYTES + 1) MAX_ROLE_STATE_BYTES)
      else case js_error json of None \<Rightarrow> Ok () | Some m \<Rightarrow> Err (RoleStateSerialization m))"
proof -
  obtain acc w where w: "write_all (CountingWriter_new MAX_ROLE_STATE_BYTES) (js_buffers json) = (acc, w)"
    by fastforce
  note spec = write_all_new [OF w]
  show ?thesis using spec by (auto simp: validate_state_size_def w split: option.splits)
qed

text \<open>The two validators agree on a role and its projection.\<close>

lemma seed_role_fold:
  "try_fold seed_role_step (n, proj) es =
     rmap (\<lambda>m. (m, foldl (\<lambda>p (rid, r). bm_insert rid (role_projection rid r) p) proj es))
       (try_fold runtime_role_step n (map (\<lambda>(rid, r). (rid, role_projection rid r)) es))"
proof (induction es arbitrary: n proj)
  case (Cons e es)
  obtain rid r where e: "e = (rid, r)" by (cases e)
  show ?case
    using Cons.IH
    by (simp add: e seed_role_step_def runtime_role_step_def role_projection_def
        validate_role_spec_def validate_memory_count_def)
qed simp

lemma project_entries:
  "foldl (\<lambda>p (rid, r). bm_insert rid (f rid r) p) bm_empty (bm_entries rs) = bm_map f rs"
proof (rule bm_eqI)
  fix k
  have "bm_get (foldl (\<lambda>p (rid, r). bm_insert rid (f rid r) p) m es) k =
      (case map_of (rev es) k of None \<Rightarrow> bm_get m k | Some r \<Rightarrow> Some (f k r))" for m es
    by (induction es arbitrary: m) (auto split: option.splits)
  moreover have "map_of (rev (bm_entries rs)) = map_of (bm_entries rs)"
    using bm_entries_distinct [of rs]
    by (intro map_of_inject_set [THEN iffD2]) (simp_all add: rev_map [symmetric])
  ultimately show "bm_get (foldl (\<lambda>p (rid, r). bm_insert rid (f rid r) p) bm_empty (bm_entries rs)) k =
      bm_get (bm_map f rs) k"
    by (simp add: bm_get_def [symmetric] split: option.splits)
qed

lemma bm_entries_map: "bm_entries (bm_map f m) = map (\<lambda>(k, v). (k, f k v)) (bm_entries m)"
  by transfer simp

section \<open>What the stores and the factory rely on\<close>



end
