(* ===== verification/Narrative.thy ===== *)
theory Narrative
  imports Core_Types
begin

text \<open>
  \<open>core/narrative\<close>: the three-valued conditions of a narrative graph, the status machine of its
  nodes, the plan (directions, constraints, semantic questions) of a turn and the resolution that
  moves nodes after the questions were answered.
\<close>

section \<open>Truth values (\<open>condition.rs\<close>)\<close>

datatype Truth = Satisfied | Unsatisfied | Unknown

definition Truth_from_bool :: "bool \<Rightarrow> Truth" where
  "Truth_from_bool b = (if b then Satisfied else Unsatisfied)"

fun Truth_negate :: "Truth \<Rightarrow> Truth" where
  "Truth_negate Satisfied = Unsatisfied"
| "Truth_negate Unsatisfied = Satisfied"
| "Truth_negate Unknown = Unknown"

fun Truth_all_loop :: "Truth \<Rightarrow> Truth list \<Rightarrow> Truth" where
  "Truth_all_loop result [] = result"
| "Truth_all_loop result (v # vs) =
     (case v of
        Unsatisfied \<Rightarrow> Unsatisfied
      | Unknown \<Rightarrow> Truth_all_loop Unknown vs
      | Satisfied \<Rightarrow> Truth_all_loop result vs)"

definition Truth_all :: "Truth list \<Rightarrow> Truth" where
  "Truth_all values = Truth_all_loop Satisfied values"

fun Truth_any_loop :: "Truth \<Rightarrow> Truth list \<Rightarrow> Truth" where
  "Truth_any_loop result [] = result"
| "Truth_any_loop result (v # vs) =
     (case v of
        Satisfied \<Rightarrow> Satisfied
      | Unknown \<Rightarrow> Truth_any_loop Unknown vs
      | Unsatisfied \<Rightarrow> Truth_any_loop result vs)"

definition Truth_any :: "Truth list \<Rightarrow> Truth" where
  "Truth_any values = Truth_any_loop Unsatisfied values"

section \<open>States (\<open>state.rs\<close>)\<close>

datatype NodeStatus = Inactive | Active | Completed | Skipped

record NarrativeTransition =
  nt_node_id :: NarrativeNodeId
  nt_to :: NodeStatus

record NarrativeState =
  node_status :: "(NarrativeNodeId, NodeStatus) bmap"

definition NarrativeState_default :: NarrativeState where
  "NarrativeState_default = \<lparr>node_status = bm_empty\<rparr>"

definition NarrativeState_status :: "NarrativeState \<Rightarrow> NarrativeNodeId \<Rightarrow> NodeStatus" where
  "NarrativeState_status state node_id =
     (case bm_get (node_status state) node_id of None \<Rightarrow> Inactive | Some s \<Rightarrow> s)"

definition NarrativeState_apply :: "NarrativeState \<Rightarrow> NarrativeTransition list \<Rightarrow> NarrativeState" where
  "NarrativeState_apply state transitions =
     state\<lparr>node_status := foldl (\<lambda>m t. bm_insert (nt_node_id t) (nt_to t) m) (node_status state) transitions\<rparr>"

section \<open>Conditions (\<open>condition.rs\<close>)\<close>

datatype NarrativeCondition =
    AllOf "NarrativeCondition list"
  | AnyOf "NarrativeCondition list"
  | NotC NarrativeCondition
  | StoryStarted
  | TurnReaches u64
  | NodeIs NarrativeNodeId NodeStatus
  | Semantic NarrativeConditionId BoundedText

datatype NarrativeError =
    EmptyCondition string
  | UnknownNode NarrativeNodeId
  | SemanticCriterionConflict NarrativeConditionId

record NarrativeEvidence =
  ne_turn :: TurnNumber
  ne_semantic_results :: "(NarrativeConditionId, Truth) bmap"

fun evaluate :: "NarrativeState \<Rightarrow> NarrativeEvidence \<Rightarrow> NarrativeCondition \<Rightarrow> Truth" where
  "evaluate state input (AllOf conditions) = Truth_all (map (evaluate state input) conditions)"
| "evaluate state input (AnyOf conditions) = Truth_any (map (evaluate state input) conditions)"
| "evaluate state input (NotC condition) = Truth_negate (evaluate state input condition)"
| "evaluate state input StoryStarted = Satisfied"
| "evaluate state input (TurnReaches turn) = Truth_from_bool (ne_turn input \<ge> turn)"
| "evaluate state input (NodeIs node_id status) =
     Truth_from_bool (NarrativeState_status state node_id = status)"
| "evaluate state input (Semantic condition_id criterion) =
     (case bm_get (ne_semantic_results input) condition_id of None \<Rightarrow> Unknown | Some t \<Rightarrow> t)"

definition holds :: "NarrativeState \<Rightarrow> NarrativeEvidence \<Rightarrow> NarrativeCondition \<Rightarrow> bool" where
  "holds state input condition \<longleftrightarrow> evaluate state input condition = Satisfied"

text \<open>\<open>validate_children\<close> is the \<open>AllOf\<close>/\<open>AnyOf\<close> case; \<open>nodes\<close> is the membership test it is given.\<close>

fun condition_validate :: "(NarrativeNodeId \<Rightarrow> bool) \<Rightarrow> NarrativeCondition \<Rightarrow> NarrativeError + unit" where
  "condition_validate nodes (AllOf conditions) =
     (if conditions = [] then Err (EmptyCondition ''all'')
      else try_for_each id (map (condition_validate nodes) conditions))"
| "condition_validate nodes (AnyOf conditions) =
     (if conditions = [] then Err (EmptyCondition ''any'')
      else try_for_each id (map (condition_validate nodes) conditions))"
| "condition_validate nodes (NotC condition) = condition_validate nodes condition"
| "condition_validate nodes (NodeIs node_id status) =
     (if \<not> nodes node_id then Err (UnknownNode node_id) else Ok ())"
| "condition_validate nodes StoryStarted = Ok ()"
| "condition_validate nodes (TurnReaches turn) = Ok ()"
| "condition_validate nodes (Semantic condition_id criterion) = Ok ()"

type_synonym criteria = "(NarrativeConditionId, BoundedText) bmap"

definition collect_criterion ::
  "NarrativeConditionId \<Rightarrow> BoundedText \<Rightarrow> criteria \<Rightarrow> NarrativeError + criteria" where
  "collect_criterion condition_id criterion found =
     (case bm_get found condition_id of
        Some existing \<Rightarrow>
          if existing \<noteq> criterion then Err (SemanticCriterionConflict condition_id) else Ok found
      | None \<Rightarrow> Ok (bm_insert condition_id criterion found))"

fun collect_semantic :: "NarrativeCondition \<Rightarrow> criteria \<Rightarrow> NarrativeError + criteria" where
  "collect_semantic (AllOf conditions) found =
     try_fold (\<lambda>f g. g f) found (map collect_semantic conditions)"
| "collect_semantic (AnyOf conditions) found =
     try_fold (\<lambda>f g. g f) found (map collect_semantic conditions)"
| "collect_semantic (NotC condition) found = collect_semantic condition found"
| "collect_semantic (Semantic condition_id criterion) found =
     collect_criterion condition_id criterion found"
| "collect_semantic StoryStarted found = Ok found"
| "collect_semantic (TurnReaches turn) found = Ok found"
| "collect_semantic (NodeIs node_id status) found = Ok found"

section \<open>Constraints (\<open>constraint.rs\<close>)\<close>

datatype ConstraintWindow = BeforeActive | WhileActive

record NarrativeConstraint =
  forbid :: BoundedText
  window :: ConstraintWindow

definition constraint_applies :: "NarrativeConstraint \<Rightarrow> NodeStatus \<Rightarrow> bool" where
  "constraint_applies c status \<longleftrightarrow>
     (window c = BeforeActive \<and> status = Inactive) \<or> (window c = WhileActive \<and> status = Active)"

section \<open>The graph (\<open>narrative.rs\<close>)\<close>

record NarrativeNode =
  node_title :: BoundedText
  dramatic_focus :: "BoundedText option"
  activate_when :: NarrativeCondition
  complete_when :: NarrativeCondition
  skip_when :: "NarrativeCondition option"
  node_constraints :: "NarrativeConstraint list"
  node_terminal :: bool

record NarrativeGraph =
  graph_nodes :: "(NarrativeNodeId, NarrativeNode) bmap"

definition node_conditions :: "NarrativeNode \<Rightarrow> NarrativeCondition list" where
  "node_conditions node =
     [activate_when node, complete_when node] @ (case skip_when node of None \<Rightarrow> [] | Some c \<Rightarrow> [c])"

fun watched_conditions :: "NarrativeNode \<Rightarrow> NodeStatus \<Rightarrow> NarrativeCondition list" where
  "watched_conditions node Inactive = [activate_when node]"
| "watched_conditions node Active =
     (case skip_when node of None \<Rightarrow> [] | Some c \<Rightarrow> [c]) @ [complete_when node]"
| "watched_conditions node Completed = []"
| "watched_conditions node Skipped = []"

fun next_status ::
  "NarrativeNode \<Rightarrow> NodeStatus \<Rightarrow> NarrativeState \<Rightarrow> NarrativeEvidence \<Rightarrow> NodeStatus option" where
  "next_status node Inactive state input =
     (if holds state input (activate_when node) then Some Active else None)"
| "next_status node Active state input =
     (if (case skip_when node of None \<Rightarrow> False | Some skip \<Rightarrow> holds state input skip) then Some Skipped
      else if holds state input (complete_when node) then Some Completed else None)"
| "next_status node Completed state input = None"
| "next_status node Skipped state input = None"

definition validate_condition ::
  "NarrativeGraph \<Rightarrow> criteria \<Rightarrow> NarrativeCondition \<Rightarrow> NarrativeError + criteria" where
  "validate_condition g semantic condition =
     rbind (condition_validate (bm_contains (graph_nodes g)) condition)
       (\<lambda>_. collect_semantic condition semantic)"

definition NarrativeGraph_validate :: "NarrativeGraph \<Rightarrow> NarrativeError + unit" where
  "NarrativeGraph_validate g =
     rmap (\<lambda>_. ()) (try_fold (validate_condition g) bm_empty
       (concat (map node_conditions (bm_values (graph_nodes g)))))"

section \<open>Planning (\<open>plan.rs\<close>)\<close>

record NarrativeDirection =
  nd_node_id :: NarrativeNodeId
  nd_dramatic_focus :: BoundedText

record ActiveConstraint =
  ac_node_id :: NarrativeNodeId
  ac_forbid :: BoundedText

record SemanticQuery =
  sq_condition_id :: NarrativeConditionId
  sq_criterion :: BoundedText

record NarrativePlan =
  np_directions :: "NarrativeDirection list"
  np_constraints :: "ActiveConstraint list"
  np_queries :: "SemanticQuery list"

definition graph_constraints :: "NarrativeGraph \<Rightarrow> NarrativeState \<Rightarrow> ActiveConstraint list" where
  "graph_constraints g state =
     concat (map (\<lambda>(node_id, node).
       map (\<lambda>c. \<lparr>ac_node_id = node_id, ac_forbid = forbid c\<rparr>)
         (filter (\<lambda>c. constraint_applies c (NarrativeState_status state node_id)) (node_constraints node)))
       (bm_entries (graph_nodes g)))"

definition graph_directions :: "NarrativeGraph \<Rightarrow> NarrativeState \<Rightarrow> NarrativeDirection list" where
  "graph_directions g state =
     List.map_filter (\<lambda>(node_id, node).
         map_option (\<lambda>focus. \<lparr>nd_node_id = node_id, nd_dramatic_focus = focus\<rparr>) (dramatic_focus node))
       (filter (\<lambda>(node_id, _). NarrativeState_status state node_id = Active) (bm_entries (graph_nodes g)))"

definition watched :: "NarrativeGraph \<Rightarrow> NarrativeState \<Rightarrow> NarrativeCondition list" where
  "watched g state =
     concat (map (\<lambda>(node_id, node). watched_conditions node (NarrativeState_status state node_id))
       (bm_entries (graph_nodes g)))"

definition graph_queries :: "NarrativeGraph \<Rightarrow> NarrativeState \<Rightarrow> NarrativeError + SemanticQuery list" where
  "graph_queries g state =
     rmap (\<lambda>found. map (\<lambda>(condition_id, criterion).
                         \<lparr>sq_condition_id = condition_id, sq_criterion = criterion\<rparr>) (bm_entries found))
       (try_fold (\<lambda>found condition. collect_semantic condition found) bm_empty (watched g state))"

definition graph_plan :: "NarrativeGraph \<Rightarrow> NarrativeState \<Rightarrow> NarrativeError + NarrativePlan" where
  "graph_plan g state =
     rmap (\<lambda>queries. \<lparr>np_directions = graph_directions g state,
                      np_constraints = graph_constraints g state, np_queries = queries\<rparr>)
       (graph_queries g state)"

section \<open>Resolution (\<open>resolver.rs\<close>)\<close>

record NarrativeResolution =
  nr_transitions :: "NarrativeTransition list"
  nr_story_completed :: bool

definition completes_story :: "NarrativeGraph \<Rightarrow> NarrativeTransition \<Rightarrow> bool" where
  "completes_story g t \<longleftrightarrow> nt_to t = Completed \<and>
     (case bm_get (graph_nodes g) (nt_node_id t) of None \<Rightarrow> False | Some node \<Rightarrow> node_terminal node)"

definition resolve :: "NarrativeGraph \<Rightarrow> NarrativeState \<Rightarrow> NarrativeEvidence \<Rightarrow> NarrativeResolution" where
  "resolve g state evidence =
     (let transitions = List.map_filter (\<lambda>(node_id, node).
            map_option (\<lambda>to. \<lparr>nt_node_id = node_id, nt_to = to\<rparr>)
              (next_status node (NarrativeState_status state node_id) state evidence))
            (bm_entries (graph_nodes g))
      in \<lparr>nr_transitions = transitions,
          nr_story_completed = list_ex (completes_story g) transitions\<rparr>)"

definition initial_state :: "NarrativeGraph \<Rightarrow> NarrativeState" where
  "initial_state g =
     NarrativeState_apply NarrativeState_default
       (nr_transitions (resolve g NarrativeState_default
          \<lparr>ne_turn = 0, ne_semantic_results = bm_empty\<rparr>))"

section \<open>Kleene logic\<close>

lemma Truth_all_loop_iff:
  "Truth_all_loop r vs = (if Unsatisfied \<in> set vs then Unsatisfied
     else if Unknown \<in> set vs then Unknown else r)"
  by (induction vs arbitrary: r) (auto split: Truth.splits)

lemma Truth_any_loop_iff:
  "Truth_any_loop r vs = (if Satisfied \<in> set vs then Satisfied
     else if Unknown \<in> set vs then Unknown else r)"
  by (induction vs arbitrary: r) (auto split: Truth.splits)

text \<open>The information order: an unknown answer may become any answer.\<close>

definition refines :: "Truth \<Rightarrow> Truth \<Rightarrow> bool" where
  "refines a b \<longleftrightarrow> a = Unknown \<or> a = b"

lemma refines_refl [simp]: "refines a a"
  by (simp add: refines_def)

lemma Truth_negate_negate [simp]: "Truth_negate (Truth_negate t) = t"
  by (cases t) simp_all

lemma Truth_negate_mono: "refines a b \<Longrightarrow> refines (Truth_negate a) (Truth_negate b)"
  by (cases a; cases b) (simp_all add: refines_def)

lemma list_all2_refines_mem:
  assumes "list_all2 refines xs ys"
  shows "t \<noteq> Unknown \<Longrightarrow> t \<in> set xs \<Longrightarrow> t \<in> set ys"
    and "y \<in> set ys \<Longrightarrow> y \<notin> set xs \<Longrightarrow> Unknown \<in> set xs"
  using assms by (induction rule: list_all2_induct) (auto simp: refines_def)

lemma Truth_all_mono:
  "list_all2 refines xs ys \<Longrightarrow> refines (Truth_all xs) (Truth_all ys)"
  unfolding Truth_all_def Truth_all_loop_iff
  by (auto simp: refines_def dest: list_all2_refines_mem)

lemma Truth_any_mono:
  "list_all2 refines xs ys \<Longrightarrow> refines (Truth_any xs) (Truth_any ys)"
  unfolding Truth_any_def Truth_any_loop_iff
  by (auto simp: refines_def dest: list_all2_refines_mem)

text \<open>De Morgan: \<open>Not (All cs)\<close> and \<open>Any (map Not cs)\<close> agree.\<close>

lemma Truth_negate_eq:
  "Truth_negate t = Satisfied \<longleftrightarrow> t = Unsatisfied" "Truth_negate t = Unsatisfied \<longleftrightarrow> t = Satisfied"
  "Truth_negate t = Unknown \<longleftrightarrow> t = Unknown"
  by (cases t; simp)+

lemma mem_map_negate:
  "t \<in> set (map Truth_negate vs) \<longleftrightarrow> Truth_negate t \<in> set vs"
  by (metis Truth_negate_negate image_iff list.set_map)

lemma Truth_negate_all: "Truth_negate (Truth_all vs) = Truth_any (map Truth_negate vs)"
  unfolding Truth_all_def Truth_any_def Truth_all_loop_iff Truth_any_loop_iff mem_map_negate by simp

definition evidence_le :: "NarrativeEvidence \<Rightarrow> NarrativeEvidence \<Rightarrow> bool" where
  "evidence_le a b \<longleftrightarrow> ne_turn a = ne_turn b \<and>
     (\<forall>i t. bm_get (ne_semantic_results a) i = Some t \<longrightarrow> t = Unknown \<or> bm_get (ne_semantic_results b) i = Some t)"

lemma evaluate_mono_aux:
  assumes "evidence_le a b"
  shows "refines (evaluate state a c) (evaluate state b c)"
proof (induction c)
  case (AllOf cs)
  then show ?case by (auto intro!: Truth_all_mono simp: list_all2_map1 list_all2_map2 list_all2_same)
next
  case (AnyOf cs)
  then show ?case by (auto intro!: Truth_any_mono simp: list_all2_map1 list_all2_map2 list_all2_same)
next
  case (Semantic i c)
  have "t = Unknown \<or> bm_get (ne_semantic_results b) i = Some t"
    if "bm_get (ne_semantic_results a) i = Some t" for t
    using assms that unfolding evidence_le_def by blast
  then show ?case by (cases "bm_get (ne_semantic_results a) i") (force simp: refines_def)+
qed (use assms in \<open>auto simp: Truth_negate_mono evidence_le_def\<close>)

section \<open>Semantic questions\<close>

text \<open>The semantic conditions of a condition, in the order they are visited.\<close>

fun sem_pairs :: "NarrativeCondition \<Rightarrow> (NarrativeConditionId \<times> BoundedText) list" where
  "sem_pairs (AllOf conditions) = concat (map sem_pairs conditions)"
| "sem_pairs (AnyOf conditions) = concat (map sem_pairs conditions)"
| "sem_pairs (NotC condition) = sem_pairs condition"
| "sem_pairs (Semantic condition_id criterion) = [(condition_id, criterion)]"
| "sem_pairs StoryStarted = []"
| "sem_pairs (TurnReaches turn) = []"
| "sem_pairs (NodeIs node_id status) = []"

definition collect_pairs ::
  "(NarrativeConditionId \<times> BoundedText) list \<Rightarrow> criteria \<Rightarrow> NarrativeError + criteria" where
  "collect_pairs ps found = try_fold (\<lambda>f (i, c). collect_criterion i c f) found ps"

lemma collect_pairs_Nil [simp]: "collect_pairs [] found = Ok found"
  by (simp add: collect_pairs_def)

lemma collect_pairs_append:
  "collect_pairs (ps @ qs) found = rbind (collect_pairs ps found) (collect_pairs qs)"
  by (simp add: collect_pairs_def [abs_def] try_fold_append)

lemma try_fold_pairs:
  assumes "\<And>c f. c \<in> set cs \<Longrightarrow> h c f = collect_pairs (k c) f"
  shows "try_fold (\<lambda>f c. h c f) found cs = collect_pairs (concat (map k cs)) found"
  using assms
proof (induction cs arbitrary: found)
  case (Cons c cs)
  then show ?case
    by (cases "collect_pairs (k c) found") (simp_all add: collect_pairs_append)
qed simp

lemma try_fold_apply: "try_fold (\<lambda>f g. g f) s (map h cs) = try_fold (\<lambda>f c. h c f) s cs"
proof (induction cs arbitrary: s)
  case (Cons c cs)
  then show ?case by (cases "h c s") simp_all
qed simp

lemma collect_semantic_pairs: "collect_semantic c found = collect_pairs (sem_pairs c) found"
proof (induction c arbitrary: found)
  case (AllOf cs)
  then show ?case by (simp add: try_fold_apply try_fold_pairs)
next
  case (AnyOf cs)
  then show ?case by (simp add: try_fold_apply try_fold_pairs)
next
  case (Semantic i c)
  then show ?case by (cases "collect_criterion i c found") (simp_all add: collect_pairs_def)
qed simp_all

text \<open>A successful collection extends the map by exactly the visited pairs.\<close>

lemma collect_pairs_Ok:
  assumes "collect_pairs ps found = Ok F"
  shows "\<forall>(i, c) \<in> set ps. bm_get F i = Some c"
    and "bm_get found \<subseteq>\<^sub>m bm_get F"
    and "\<forall>i. bm_contains F i \<longleftrightarrow> bm_contains found i \<or> i \<in> fst ` set ps"
proof -
  have "(\<forall>(i, c) \<in> set ps. bm_get F i = Some c) \<and> bm_get found \<subseteq>\<^sub>m bm_get F \<and>
      (\<forall>i. bm_contains F i \<longleftrightarrow> bm_contains found i \<or> i \<in> fst ` set ps)"
    using assms
  proof (induction ps arbitrary: found)
    case Nil
    then show ?case by simp
  next
    case (Cons p ps)
    obtain i c where p: "p = (i, c)" by (cases p)
    from Cons.prems obtain f where f: "collect_criterion i c found = Ok f"
      and F: "collect_pairs ps f = Ok F" by (auto simp: collect_pairs_def p result_simps)
    note IH = Cons.IH [OF F]
    have fi: "bm_get f i = Some c" and sub: "bm_get found \<subseteq>\<^sub>m bm_get f"
      and dom: "\<forall>j. bm_contains f j \<longleftrightarrow> bm_contains found j \<or> j = i"
      using f by (auto simp: collect_criterion_def map_le_def bm_contains_def split: option.splits if_splits)
    have "bm_get F i = Some c" using IH fi by (metis domI map_le_def)
    then show ?case using IH sub dom p by (auto intro: map_le_trans)
  qed
  then show "\<forall>(i, c) \<in> set ps. bm_get F i = Some c" "bm_get found \<subseteq>\<^sub>m bm_get F"
    "\<forall>i. bm_contains F i \<longleftrightarrow> bm_contains found i \<or> i \<in> fst ` set ps" by blast+
qed

text \<open>Pairs that agree with one map never conflict.\<close>

lemma collect_pairs_total:
  assumes "\<forall>(i, c) \<in> set ps. G i = Some c" and "bm_get found \<subseteq>\<^sub>m G"
  shows "\<exists>F. collect_pairs ps found = Ok F \<and> bm_get F \<subseteq>\<^sub>m G"
  using assms
proof (induction ps arbitrary: found)
  case (Cons p ps)
  obtain i c where p: "p = (i, c)" by (cases p)
  have "\<exists>f. collect_criterion i c found = Ok f \<and> bm_get f \<subseteq>\<^sub>m G"
    using Cons.prems p
    by (auto simp: collect_criterion_def map_le_def dom_def split: option.splits)
  then obtain f where f: "collect_criterion i c found = Ok f" "bm_get f \<subseteq>\<^sub>m G" by blast
  have "\<exists>F. collect_pairs ps f = Ok F \<and> bm_get F \<subseteq>\<^sub>m G" using Cons.IH f(2) Cons.prems(1) by simp
  then show ?case using f(1) p by (simp add: collect_pairs_def)
qed simp

definition graph_pairs :: "NarrativeGraph \<Rightarrow> (NarrativeConditionId \<times> BoundedText) list" where
  "graph_pairs g = concat (map sem_pairs (concat (map node_conditions (bm_values (graph_nodes g)))))"

lemma validate_fold:
  "try_fold (validate_condition g) found cs = Ok F \<Longrightarrow>
   (\<forall>c \<in> set cs. condition_validate (bm_contains (graph_nodes g)) c = Ok ()) \<and>
   collect_pairs (concat (map sem_pairs cs)) found = Ok F"
proof (induction cs arbitrary: found)
  case (Cons c cs)
  then show ?case
    by (auto simp: validate_condition_def collect_semantic_pairs collect_pairs_append result_simps)
qed simp

lemma graph_validate_Ok:
  assumes "NarrativeGraph_validate g = Ok u"
  shows "\<exists>F. collect_pairs (graph_pairs g) bm_empty = Ok F"
  using assms validate_fold
  by (fastforce simp: NarrativeGraph_validate_def graph_pairs_def result_simps)

lemma watched_subset:
  "set (watched_conditions node st) \<subseteq> set (node_conditions node)"
  by (cases st) (auto simp: node_conditions_def split: option.splits)

lemma watched_pairs:
  "(i, c) \<in> set (concat (map sem_pairs (watched g state))) \<Longrightarrow> (i, c) \<in> set (graph_pairs g)"
proof -
  assume "(i, c) \<in> set (concat (map sem_pairs (watched g state)))"
  then obtain node_id node cond where "(node_id, node) \<in> set (bm_entries (graph_nodes g))"
    "cond \<in> set (watched_conditions node (NarrativeState_status state node_id))"
    "(i, c) \<in> set (sem_pairs cond)" by (auto simp: watched_def)
  then have "node \<in> set (bm_values (graph_nodes g))" "cond \<in> set (node_conditions node)"
    "(i, c) \<in> set (sem_pairs cond)"
    using watched_subset by (force simp: bm_values_def, blast, blast)
  then show ?thesis unfolding graph_pairs_def by auto
qed

lemma graph_queries_pairs:
  "graph_queries g state = rmap (\<lambda>found. map (\<lambda>(condition_id, criterion).
      \<lparr>sq_condition_id = condition_id, sq_criterion = criterion\<rparr>) (bm_entries found))
     (collect_pairs (concat (map sem_pairs (watched g state))) bm_empty)"
  by (simp add: graph_queries_def collect_semantic_pairs try_fold_pairs)

lemma graph_plan_queries:
  assumes "graph_plan g state = Ok p"
  shows "sq_condition_id ` set (np_queries p) = fst ` set (concat (map sem_pairs (watched g state)))"
proof -
  obtain F where F: "collect_pairs (concat (map sem_pairs (watched g state))) bm_empty = Ok F"
    and p: "np_queries p = map (\<lambda>(condition_id, criterion).
      \<lparr>sq_condition_id = condition_id, sq_criterion = criterion\<rparr>) (bm_entries F)"
    using assms by (auto simp: graph_plan_def graph_queries_pairs result_simps)
  have "sq_condition_id ` set (np_queries p) = set (bm_keys F)"
    by (auto simp: p bm_keys_def image_image case_prod_beta)
  then show ?thesis
    using collect_pairs_Ok(3) [OF F] by (simp only: set_eq_iff mem_bm_keys bm_contains_empty simp_thms)
qed

section \<open>The status machine\<close>

inductive status_step :: "NodeStatus \<Rightarrow> NodeStatus \<Rightarrow> bool" where
  activates: "status_step Inactive Active"
| completes: "status_step Active Completed"
| skips: "status_step Active Skipped"

inductive_simps status_step_from:
  "status_step Inactive t" "status_step Active t" "status_step Completed t" "status_step Skipped t"

lemma next_status_step: "next_status node st state ev = Some t \<Longrightarrow> status_step st t"
  by (cases st) (auto simp: status_step_from split: if_splits)

text \<open>One turn of the narrative: resolve, then apply the transitions.\<close>

definition narrative_step :: "NarrativeGraph \<Rightarrow> NarrativeState \<Rightarrow> NarrativeEvidence \<Rightarrow> NarrativeState" where
  "narrative_step g state ev = NarrativeState_apply state (nr_transitions (resolve g state ev))"

lemma apply_filtered:
  assumes "distinct (map fst xs)"
  shows "bm_get (foldl (\<lambda>m t. bm_insert (nt_node_id t) (nt_to t) m) m
      (List.map_filter (\<lambda>(i, n). map_option (\<lambda>to. \<lparr>nt_node_id = i, nt_to = to\<rparr>) (f i n)) xs)) j =
    (case map_of xs j of None \<Rightarrow> bm_get m j
     | Some n \<Rightarrow> (case f j n of None \<Rightarrow> bm_get m j | Some t \<Rightarrow> Some t))"
  using assms
proof (induction xs arbitrary: m)
  case Nil
  then show ?case by (simp add: List.map_filter_def)
next
  case (Cons x xs)
  obtain i n where x: "x = (i, n)" by (cases x)
  have "map_of xs i = None" using Cons.prems x by (auto simp: map_of_eq_None_iff)
  then show ?case
    using Cons x by (cases "f i n") (auto simp: List.map_filter_def split: option.splits)
qed

lemma narrative_step_status:
  "NarrativeState_status (narrative_step g state ev) i =
     (case bm_get (graph_nodes g) i of
        None \<Rightarrow> NarrativeState_status state i
      | Some node \<Rightarrow> (case next_status node (NarrativeState_status state i) state ev of
          None \<Rightarrow> NarrativeState_status state i | Some t \<Rightarrow> t))"
  unfolding narrative_step_def NarrativeState_apply_def resolve_def Let_def NarrativeState_status_def
  by (simp add: apply_filtered bm_entries_distinct bm_get_def [symmetric] split: option.splits)

fun status_rank :: "NodeStatus \<Rightarrow> nat" where
  "status_rank Inactive = 0"
| "status_rank Active = 1"
| "status_rank Completed = 2"
| "status_rank Skipped = 2"

lemma status_step_rank: "status_step s t \<Longrightarrow> status_rank t = Suc (status_rank s)"
  by (cases rule: status_step.cases) auto

lemma status_rank_le: "status_rank s \<le> 2"
  by (cases s) simp_all

definition progress :: "NarrativeGraph \<Rightarrow> NarrativeState \<Rightarrow> nat" where
  "progress g state =
     sum_list (map (\<lambda>e. status_rank (NarrativeState_status state (fst e))) (bm_entries (graph_nodes g)))"

lemma progress_le: "progress g state \<le> 2 * bm_size (graph_nodes g)"
proof -
  have "progress g state \<le> sum_list (map (\<lambda>_. 2) (bm_entries (graph_nodes g)))"
    unfolding progress_def by (rule sum_list_mono) (auto simp: status_rank_le)
  then show ?thesis by (simp add: bm_size_def sum_list_triv)
qed

text \<open>Every transition advances one node by one rank.\<close>

lemma progress_step:
  "progress g (narrative_step g state ev) = progress g state + length (nr_transitions (resolve g state ev))"
proof -
  have "status_rank (NarrativeState_status (narrative_step g state ev) i) =
      status_rank (NarrativeState_status state i) +
      (if next_status node (NarrativeState_status state i) state ev = None then 0 else 1)"
    if "(i, node) \<in> set (bm_entries (graph_nodes g))" for i node
    using that next_status_step status_step_rank
    by (fastforce simp: narrative_step_status bm_entries_iff split: option.splits)
  then have "map (\<lambda>e. status_rank (NarrativeState_status (narrative_step g state ev) (fst e)))
        (bm_entries (graph_nodes g)) =
      map (\<lambda>e. status_rank (NarrativeState_status state (fst e)) +
        (if next_status (snd e) (NarrativeState_status state (fst e)) state ev = None then 0 else 1))
        (bm_entries (graph_nodes g))"
    by (intro map_cong) auto
  then have "progress g (narrative_step g state ev) =
      sum_list (map (\<lambda>e. status_rank (NarrativeState_status state (fst e)) +
        (if next_status (snd e) (NarrativeState_status state (fst e)) state ev = None then 0 else 1))
        (bm_entries (graph_nodes g)))"
    unfolding progress_def by (rule arg_cong [where f = sum_list])
  then show ?thesis
    by (simp add: progress_def resolve_def Let_def length_map_filter case_prod_beta sum_list_addf)
qed

lemma evaluate_cong_pairs:
  assumes "ne_turn a = ne_turn b"
    and "\<And>i. i \<in> fst ` set (sem_pairs c) \<Longrightarrow> bm_get (ne_semantic_results a) i = bm_get (ne_semantic_results b) i"
  shows "evaluate state a c = evaluate state b c"
  using assms(2)
proof (induction c)
  case (AllOf cs)
  then have "evaluate state a c = evaluate state b c" if "c \<in> set cs" for c using that by force
  then show ?case by (simp cong: map_cong)
next
  case (AnyOf cs)
  then have "evaluate state a c = evaluate state b c" if "c \<in> set cs" for c using that by force
  then show ?case by (simp cong: map_cong)
qed (simp_all add: assms(1))

lemma next_status_cong:
  assumes "\<And>c. c \<in> set (watched_conditions node st) \<Longrightarrow> evaluate state a c = evaluate state b c"
  shows "next_status node st state a = next_status node st state b"
  using assms by (cases st) (auto simp: holds_def split: option.splits)

fun narrative_moves :: "NarrativeGraph \<Rightarrow> NarrativeState \<Rightarrow> NarrativeEvidence list \<Rightarrow> nat" where
  "narrative_moves g state [] = 0"
| "narrative_moves g state (ev # evs) =
     length (nr_transitions (resolve g state ev)) + narrative_moves g (narrative_step g state ev) evs"

lemma moves_progress:
  "\<exists>final. progress g state + narrative_moves g state evs = progress g final"
proof (induction evs arbitrary: state)
  case (Cons ev evs)
  then obtain final where "progress g (narrative_step g state ev) +
      narrative_moves g (narrative_step g state ev) evs = progress g final" by blast
  then have "progress g state + narrative_moves g state (ev # evs) = progress g final"
    by (simp add: progress_step)
  then show ?case by blast
qed auto

section \<open>What the engine relies on\<close>

text \<open>
  Answers only refine: adding answers to semantic questions (or replacing unknown ones) never
  flips a condition that was already decided.
\<close>

lemma evaluate_refines:
  assumes "evidence_le a b"
  shows "refines (evaluate state a c) (evaluate state b c)"
  by (rule evaluate_mono_aux [OF assms])

lemma graph_plan_total:
  assumes "NarrativeGraph_validate g = Ok ()"
  shows "\<exists>p. graph_plan g state = Ok p \<and> sorted_wrt (<) (map sq_condition_id (np_queries p))"
proof -
  obtain G where G: "collect_pairs (graph_pairs g) bm_empty = Ok G"
    using graph_validate_Ok [OF assms] by blast
  have "\<forall>(i, c) \<in> set (concat (map sem_pairs (watched g state))). bm_get G i = Some c"
    using watched_pairs collect_pairs_Ok(1) [OF G] by blast
  moreover have "bm_get bm_empty \<subseteq>\<^sub>m bm_get G" by (simp add: map_le_def dom_def)
  ultimately obtain F where F: "collect_pairs (concat (map sem_pairs (watched g state))) bm_empty = Ok F"
    using collect_pairs_total by blast
  show ?thesis using bm_entries_sorted [of F]
    by (simp add: graph_plan_def graph_queries_pairs F comp_def case_prod_beta)
qed

text \<open>
  The questions of a plan are all that the resolution reads: two sets of answers that agree on
  the questions give the same transitions.
\<close>

lemma plan_queries_complete:
  assumes "graph_plan g state = Ok p" and "ne_turn a = ne_turn b"
    and "\<forall>q \<in> set (np_queries p). bm_get (ne_semantic_results a) (sq_condition_id q) =
      bm_get (ne_semantic_results b) (sq_condition_id q)"
  shows "resolve g state a = resolve g state b"
proof -
  have agree: "bm_get (ne_semantic_results a) i = bm_get (ne_semantic_results b) i"
    if "i \<in> fst ` set (concat (map sem_pairs (watched g state)))" for i
    using that assms(3) unfolding graph_plan_queries [OF assms(1), symmetric] by blast
  have "next_status node (NarrativeState_status state i) state a =
      next_status node (NarrativeState_status state i) state b"
    if "(i, node) \<in> set (bm_entries (graph_nodes g))" for i node
  proof (intro next_status_cong evaluate_cong_pairs [OF assms(2)] agree)
    fix c j assume "c \<in> set (watched_conditions node (NarrativeState_status state i))"
      and j: "j \<in> fst ` set (sem_pairs c)"
    then have "c \<in> set (watched g state)" using that by (force simp: watched_def)
    then show "j \<in> fst ` set (concat (map sem_pairs (watched g state)))" using j by force
  qed
  then have "List.map_filter (\<lambda>(i, node). map_option (\<lambda>to. \<lparr>nt_node_id = i, nt_to = to\<rparr>)
        (next_status node (NarrativeState_status state i) state a)) (bm_entries (graph_nodes g)) =
      List.map_filter (\<lambda>(i, node). map_option (\<lambda>to. \<lparr>nt_node_id = i, nt_to = to\<rparr>)
        (next_status node (NarrativeState_status state i) state b)) (bm_entries (graph_nodes g))"
    by (intro map_filter_cong) auto
  then show ?thesis by (simp add: resolve_def Let_def)
qed

text \<open>
  C18. Nodes only move along the status machine: after a turn every node has kept its status or has
  taken one legal step (inactive to active, active to completed or skipped), nodes outside the graph
  are untouched, and a transition is reported exactly for the nodes that moved.
\<close>

theorem narrative_step_legal:
  shows "(NarrativeState_status (narrative_step g state ev) i = NarrativeState_status state i \<or>
      bm_contains (graph_nodes g) i \<and>
      status_step (NarrativeState_status state i) (NarrativeState_status (narrative_step g state ev) i)) \<and>
    (i \<in> nt_node_id ` set (nr_transitions (resolve g state ev)) \<longleftrightarrow>
      NarrativeState_status (narrative_step g state ev) i \<noteq> NarrativeState_status state i)"
proof -
  have mem: "i \<in> nt_node_id ` set (nr_transitions (resolve g state ev)) \<longleftrightarrow>
      (\<exists>node t. bm_get (graph_nodes g) i = Some node \<and>
         next_status node (NarrativeState_status state i) state ev = Some t)"
    by (force simp: resolve_def Let_def List.map_filter_def bm_entries_iff image_iff)
  have irrefl: "status_step s t \<Longrightarrow> s \<noteq> t" for s t by (auto elim: status_step.cases)
  show ?thesis unfolding mem
    by (auto simp: narrative_step_status bm_contains_def split: option.splits
        dest: next_status_step irrefl)
qed

text \<open>
  A story's narrative can make only finitely many moves: over any sequence of turns the number
  of transitions is at most two per node of the graph.
\<close>

lemma narrative_moves_bound: "narrative_moves g state evs \<le> 2 * bm_size (graph_nodes g)"
  using moves_progress [of g state evs] progress_le by (metis le_add1 le_trans add.commute)

end
