(* ===== verification/Story.thy ===== *)
theory Story
  imports Role Narrative
begin

text \<open>
  \<open>core/story\<close> and the turn record of \<open>core/turn.rs\<close>: story packs and their validation, the
  context a turn reads, the commit a turn produces and the bundle a new story is created from.
  The canonical digest of a pack (\<open>serde_json\<close> and \<open>sha2\<close>) is a parameter.
\<close>

section \<open>Packs (\<open>story_pack.rs\<close>)\<close>

datatype StoryPackSpec = StoryV1

record StoryPackMeta =
  spm_creator :: BoundedText
  spm_version :: SemanticVersion
  spm_tags :: "BoundedText list"

record StoryPackProfile =
  spp_title :: BoundedText
  spp_description :: "BoundedText option"
  spp_genres :: "BoundedText list"
  spp_themes :: "BoundedText list"
  spp_tones :: "BoundedText list"
  spp_point_of_view :: BoundedText
  spp_tense :: BoundedText

record PlayDefinition =
  playable_roles :: "RoleId bset"

record StoryPack =
  sp_spec :: StoryPackSpec
  sp_pack_id :: PackId
  sp_meta :: StoryPackMeta
  sp_profile :: StoryPackProfile
  sp_roles :: "(RoleId, SeedRole) bmap"
  sp_play :: PlayDefinition
  sp_opening :: BoundedText
  sp_seed_facts :: "(FactId, FactBody) bmap"
  sp_seed_rumors :: "(RumorId, RumorBody) bmap"
  sp_constraints :: "BoundedText list"
  sp_narrative :: "NarrativeGraph option"

record PackRef =
  pr_pack_id :: PackId
  pr_version :: SemanticVersion
  pr_digest :: Sha256Digest

definition validate_play :: "PlayDefinition \<Rightarrow> (RoleId, SeedRole) bmap \<Rightarrow> StoryError + unit" where
  "validate_play play rs =
     (if bm_keys (playable_roles play) = [] then Err NoPlayableRole
      else case find (\<lambda>rid. \<not> bm_contains rs rid) (bm_keys (playable_roles play)) of
             Some rid \<Rightarrow> Err (UnknownRole ''play.playable_roles'' rid)
           | None \<Rightarrow> Ok ())"

definition StoryPack_validate_play :: "StoryPack \<Rightarrow> StoryError + unit" where
  "StoryPack_validate_play pack = validate_play (sp_play pack) (sp_roles pack)"

definition StoryPack_validate_roles :: "(roles \<Rightarrow> json_stream) \<Rightarrow> StoryPack \<Rightarrow> StoryError + unit" where
  "StoryPack_validate_roles json pack = validate_seed_roles json (sp_roles pack)"

definition StoryPack_validate_narrative :: "StoryPack \<Rightarrow> NarrativeError + unit" where
  "StoryPack_validate_narrative pack =
     (case sp_narrative pack of Some graph \<Rightarrow> NarrativeGraph_validate graph | None \<Rightarrow> Ok ())"

text \<open>
  \<open>Sha256Digest::canonical\<close>: the JSON bytes of the value, or the serializer's message, hashed and
  rendered as hexadecimal text; the identifier constructor rejects blank text only.
\<close>

record digest_env =
  dg_json :: "StoryPack \<Rightarrow> str + u8 list"
  dg_hex_sha256 :: "u8 list \<Rightarrow> str"

fun invalid_id_message :: "CoreError \<Rightarrow> str" where
  "invalid_id_message (InvalidId field value) = lit ''invalid ID: '' @ lit field @ lit ''-'' @ value"
| "invalid_id_message e = []"

definition Sha256Digest_canonical :: "digest_env \<Rightarrow> string \<Rightarrow> StoryPack \<Rightarrow> CoreError + Sha256Digest" where
  "Sha256Digest_canonical env subject value =
     rbind (map_err (DigestFailed subject) (dg_json env value)) (\<lambda>canonical.
       map_err (\<lambda>e. DigestFailed subject (invalid_id_message e))
         (id_try_new ''digest'' (dg_hex_sha256 env canonical)))"

definition StoryPack_pack_ref :: "digest_env \<Rightarrow> StoryPack \<Rightarrow> CoreError + PackRef" where
  "StoryPack_pack_ref env pack =
     rmap (\<lambda>digest. \<lparr>pr_pack_id = sp_pack_id pack, pr_version = spm_version (sp_meta pack),
                     pr_digest = digest\<rparr>)
       (Sha256Digest_canonical env ''story_pack'' pack)"

section \<open>Turns, contexts, commits\<close>

record Turn =
  turn_number :: TurnNumber
  idempotency_key :: IdempotencyKey
  player_contribution :: PlayerContribution
  turn_segment :: TurnSegment
  knowledge_change :: KnowledgeChange
  turn_evaluation :: TurnEvaluation
  turn_status :: TurnStatus

record StorySummary =
  summary_text :: str
  covered_through :: TurnNumber

datatype StoryLifeCycle = LcActive | LcCancelled | LcCompleted

record StoryContext =
  ctx_story_id :: StoryId
  ctx_pack_ref :: PackRef
  ctx_opening :: BoundedText
  ctx_roles :: roles
  ctx_facts :: "(FactId, FactEntry) bmap"
  ctx_rumors :: "(RumorId, RumorEntry) bmap"
  ctx_player :: RoleId
  ctx_turn_number :: TurnNumber
  ctx_summary :: "StorySummary option"
  ctx_recent_turns :: "Turn list"
  ctx_life_cycle :: StoryLifeCycle
  ctx_narrative :: NarrativeState

record StoryCommit =
  sc_story_id :: StoryId
  sc_turn :: Turn
  sc_summary :: "StorySummary Change"
  sc_narrative :: "NarrativeState Change"
  sc_life_cycle :: "StoryLifeCycle Change"

section \<open>Creation (\<open>story_instance.rs\<close>)\<close>

record StoryPackSnapshot =
  snap_pack_ref :: PackRef
  snap_pack :: StoryPack

definition StoryPackSnapshot_from_pack :: "digest_env \<Rightarrow> StoryPack \<Rightarrow> CoreError + StoryPackSnapshot" where
  "StoryPackSnapshot_from_pack env pack =
     rmap (\<lambda>pr. \<lparr>snap_pack_ref = pr, snap_pack = pack\<rparr>) (StoryPack_pack_ref env pack)"

record StoryInstanceSpec =
  sis_story_id :: StoryId
  sis_pack_ref :: PackRef
  sis_opening :: BoundedText
  sis_roles :: roles
  sis_facts :: "(FactId, FactEntry) bmap"
  sis_rumors :: "(RumorId, RumorEntry) bmap"
  sis_player_id :: PlayerId
  sis_player_role :: RoleId
  sis_narrative :: NarrativeState

record StoryCreateBundle =
  scb_snapshot :: StoryPackSnapshot
  scb_instance :: StoryInstanceSpec

definition StoryCreateBundle_assemble ::
  "StoryPackSnapshot \<Rightarrow> StoryId \<Rightarrow> BoundedText \<Rightarrow> roles \<Rightarrow> (FactId, FactEntry) bmap \<Rightarrow>
   (RumorId, RumorEntry) bmap \<Rightarrow> PlayerId \<Rightarrow> RoleId \<Rightarrow> NarrativeState \<Rightarrow> StoryCreateBundle" where
  "StoryCreateBundle_assemble snapshot sid opening rs facts rumors player_id player_role narrative =
     \<lparr>scb_snapshot = snapshot,
      scb_instance = \<lparr>sis_story_id = sid, sis_pack_ref = snap_pack_ref snapshot,
        sis_opening = opening, sis_roles = rs, sis_facts = facts, sis_rumors = rumors,
        sis_player_id = player_id, sis_player_role = player_role, sis_narrative = narrative\<rparr>\<rparr>"

text \<open>Timestamps are instants of the clock, natural numbers.\<close>

type_synonym instant = nat

record StoryInstanceInfo =
  sii_story_id :: StoryId
  sii_player_id :: PlayerId
  sii_description :: str
  sii_created_at :: instant
  sii_updated_at :: instant
  sii_life_cycle :: StoryLifeCycle

section \<open>Facts\<close>

lemma validate_play_Ok_iff [result_simps]:
  "validate_play play rs = Ok u \<longleftrightarrow>
     (\<exists>rid. bm_contains (playable_roles play) rid) \<and>
     (\<forall>rid. bm_contains (playable_roles play) rid \<longrightarrow> bm_contains rs rid)"
proof -
  have "bm_keys (playable_roles play) = [] \<longleftrightarrow> (\<forall>rid. \<not> bm_contains (playable_roles play) rid)"
    by (metis mem_bm_keys list.set_intros(1) neq_Nil_conv empty_iff list.set(1))
  then show ?thesis
    by (auto simp: validate_play_def find_None_iff split: option.splits)
       (auto simp: find_Some_iff in_set_conv_nth dest!: sym [of "Some _"] simp flip: mem_bm_keys)
qed

end
