(* ===== verification/Pack_Store.thy ===== *)
theory Pack_Store
  imports Story
begin

text \<open>
  \<open>persistence/error.rs\<close>, \<open>config.rs\<close>, \<open>pack_store.rs\<close>, \<open>pack_store_mem.rs\<close> and
  \<open>pack_store_sqlite.rs\<close>: story packs are stored once per digest and counted by the stories that
  hold them. An operation maps the state of the store to its result and the state it leaves (the
  lock of the source makes each one atomic). The trait \<open>PackStore\<close> is the locale \<open>pack_store\<close>.
\<close>

section \<open>Errors and configuration\<close>

text \<open>The reason of a constraint violation, a formatted message in the source.\<close>

datatype Constraint =
    StoryIdExists
  | StoryIsNotActive
  | TurnNumberDoesNotFollow
  | SummaryCoversFutureTurn
  | SummaryMovesBackwards
  | DuplicateFactId FactId
  | AddExistingFact FactId
  | UpdateMissingFact FactId
  | DuplicateRumorId RumorId
  | AddExistingRumor RumorId
  | UpdateMissingRumor RumorId
  | RemoveMissingRumor RumorId
  | DuplicateMemoryId RoleId MemoryId
  | UnknownMemoryRole RoleId
  | AddExistingMemory RoleId MemoryId
  | UpdateMissingMemory RoleId MemoryId

datatype PersistenceError =
    NotFound
  | CreateStoryInstanceFailed StoryId str
  | ConstraintViolation Constraint
  | PackCapacityExceeded nat nat
  | StoryHolderAlreadyExists StoryId
  | InvalidPackReference PackRef
  | AtomicityFailure str
  | Unavailable str
  | InvalidData CoreError
  | InvalidStory StoryError
  | CreateCompensationFailed StoryId PersistenceError PersistenceError

datatype StoreType = Memory | Sqlite

record StoryStoreConfig =
  ssc_store_type :: StoreType
  max_recent_turns :: nat

record PackStoreConfig =
  psc_store_type :: StoreType
  max_packs :: nat

definition StoryStoreConfig_default :: StoryStoreConfig where
  "StoryStoreConfig_default = \<lparr>ssc_store_type = Memory, max_recent_turns = 4096\<rparr>"

definition PackStoreConfig_default :: PackStoreConfig where
  "PackStoreConfig_default = \<lparr>psc_store_type = Memory, max_packs = 128\<rparr>"

section \<open>The interface (\<open>pack_store.rs\<close>)\<close>

text \<open>
  What the engine relies on: operations that fail change nothing, a retained pack can be fetched by
  its reference, releasing a story just retained undoes the retention, and other stories' packs stay
  available. \<open>held\<close> is the reference a story holds.
\<close>

locale pack_store =
  fixes ok :: "'s \<Rightarrow> bool"
    and retain :: "StoryId \<Rightarrow> StoryPackSnapshot \<Rightarrow> 's \<Rightarrow> (PersistenceError + unit) \<times> 's"
    and release :: "StoryId \<Rightarrow> 's \<Rightarrow> (PersistenceError + unit) \<times> 's"
    and get_pack :: "PackRef \<Rightarrow> 's \<Rightarrow> PersistenceError + StoryPack"
    and held :: "'s \<Rightarrow> StoryId \<Rightarrow> PackRef option"
  assumes retain_ok: "ok s \<Longrightarrow> retain sid snap s = (r, s') \<Longrightarrow> ok s'"
    and release_ok: "ok s \<Longrightarrow> release sid s = (r, s') \<Longrightarrow> ok s'"
    and retain_err: "retain sid snap s = (Err e, s') \<Longrightarrow> s' = s"
    and retain_held: "ok s \<Longrightarrow> retain sid snap s = (Ok u, s') \<Longrightarrow>
      held s sid = None \<and> held s' = (held s)(sid \<mapsto> snap_pack_ref snap)"
    and retain_release: "ok s \<Longrightarrow> retain sid snap s = (Ok u, s') \<Longrightarrow> release sid s' = (Ok (), s)"
    and release_held: "ok s \<Longrightarrow> release sid s = (Ok u, s') \<Longrightarrow> held s' = (held s)(sid := None)"
    and held_get: "ok s \<Longrightarrow> held s sid = Some pr \<Longrightarrow> \<exists>pack. get_pack pr s = Ok pack"
begin

lemma retained_get:
  "ok s \<Longrightarrow> retain sid snap s = (Ok u, s') \<Longrightarrow> \<exists>pack. get_pack (snap_pack_ref snap) s' = Ok pack"
  using held_get [of s' sid] retain_held [of s sid snap u s'] retain_ok [of s sid snap "Ok u" s'] by simp

lemma release_keeps_others:
  assumes "ok s" and "release sid s = (Ok u, s')" and "sid' \<noteq> sid" and "held s sid' = Some pr"
  shows "\<exists>pack. get_pack pr s' = Ok pack"
  using held_get [of s' sid' pr] release_held [OF assms(1,2)] release_ok [OF assms(1,2)] assms(3,4) by simp

end

section \<open>The memory store (\<open>pack_store_mem.rs\<close>)\<close>

record Snapshot =
  sn_pack_ref :: PackRef
  sn_value :: StoryPack
  sn_holders :: "StoryId bset"

record PackStoreMem =
  ps_packs :: "(Sha256Digest, Snapshot) bmap"
  ps_holders :: "(StoryId, Sha256Digest) bmap"
  ps_config :: PackStoreConfig

definition PackStoreMem_with_config :: "PackStoreConfig \<Rightarrow> PackStoreMem" where
  "PackStoreMem_with_config config = \<lparr>ps_packs = bm_empty, ps_holders = bm_empty, ps_config = config\<rparr>"

definition retained_snapshot :: "StoryPackSnapshot \<Rightarrow> StoryId \<Rightarrow> Snapshot option \<Rightarrow> Snapshot" where
  "retained_snapshot snapshot sid existing =
     (let entry = (case existing of
                     Some e \<Rightarrow> e
                   | None \<Rightarrow> \<lparr>sn_pack_ref = snap_pack_ref snapshot, sn_value = snap_pack snapshot,
                              sn_holders = bm_empty\<rparr>)
      in entry\<lparr>sn_holders := bs_insert sid (sn_holders entry)\<rparr>)"

definition PackStoreMem_retain ::
  "StoryId \<Rightarrow> StoryPackSnapshot \<Rightarrow> PackStoreMem \<Rightarrow> (PersistenceError + unit) \<times> PackStoreMem" where
  "PackStoreMem_retain sid snapshot s =
     (let pack_ref = snap_pack_ref snapshot; digest = pr_digest pack_ref
      in if bm_contains (ps_holders s) sid then (Err (StoryHolderAlreadyExists sid), s)
         else if \<not> bm_contains (ps_packs s) digest \<and> bm_size (ps_packs s) \<ge> max_packs (ps_config s)
           then (Err (PackCapacityExceeded (usize_saturating_add (bm_size (ps_packs s)) 1)
                        (max_packs (ps_config s))), s)
         else if (case bm_get (ps_packs s) digest of
                    None \<Rightarrow> False | Some existing \<Rightarrow> sn_pack_ref existing \<noteq> pack_ref)
           then (Err (InvalidPackReference pack_ref), s)
         else (Ok (), s\<lparr>ps_packs := bm_insert digest
                            (retained_snapshot snapshot sid (bm_get (ps_packs s) digest)) (ps_packs s),
                        ps_holders := bm_insert sid digest (ps_holders s)\<rparr>))"

definition release_from :: "StoryId \<Rightarrow> Sha256Digest \<Rightarrow> (Sha256Digest, Snapshot) bmap \<Rightarrow> (Sha256Digest, Snapshot) bmap" where
  "release_from sid digest packs =
     (case bm_get packs digest of
        None \<Rightarrow> packs
      | Some snapshot \<Rightarrow>
          let holders = bm_remove sid (sn_holders snapshot)
          in if bm_size holders = 0 then bm_remove digest packs
             else bm_insert digest (snapshot\<lparr>sn_holders := holders\<rparr>) packs)"

definition PackStoreMem_release :: "StoryId \<Rightarrow> PackStoreMem \<Rightarrow> (PersistenceError + unit) \<times> PackStoreMem" where
  "PackStoreMem_release sid s =
     (case bm_get (ps_holders s) sid of
        None \<Rightarrow> (Ok (), s)
      | Some digest \<Rightarrow>
          (Ok (), s\<lparr>ps_holders := bm_remove sid (ps_holders s),
                    ps_packs := release_from sid digest (ps_packs s)\<rparr>))"

definition PackStoreMem_get_pack :: "PackRef \<Rightarrow> PackStoreMem \<Rightarrow> PersistenceError + StoryPack" where
  "PackStoreMem_get_pack pack_ref s =
     rbind (ok_or NotFound (bm_get (ps_packs s) (pr_digest pack_ref))) (\<lambda>snapshot.
       if sn_pack_ref snapshot \<noteq> pack_ref then Err (InvalidPackReference pack_ref)
       else Ok (sn_value snapshot))"

section \<open>The invariant\<close>

definition pack_inv :: "PackStoreMem \<Rightarrow> bool" where
  "pack_inv s \<longleftrightarrow>
     (\<forall>sid d. bm_get (ps_holders s) sid = Some d \<longleftrightarrow>
        (\<exists>snap. bm_get (ps_packs s) d = Some snap \<and> bm_contains (sn_holders snap) sid)) \<and>
     (\<forall>d snap. bm_get (ps_packs s) d = Some snap \<longrightarrow>
        pr_digest (sn_pack_ref snap) = d \<and> (\<exists>sid. bm_contains (sn_holders snap) sid)) \<and>
     bm_size (ps_packs s) \<le> max_packs (ps_config s)"

definition pack_held :: "PackStoreMem \<Rightarrow> StoryId \<Rightarrow> PackRef option" where
  "pack_held s sid =
     (case bm_get (ps_holders s) sid of None \<Rightarrow> None
      | Some d \<Rightarrow> map_option sn_pack_ref (bm_get (ps_packs s) d))"

lemma pack_inv_new: "pack_inv (PackStoreMem_with_config config)"
  by (simp add: pack_inv_def PackStoreMem_with_config_def)

text \<open>The successful case of \<open>retain\<close>.\<close>

lemma retain_OkE:
  assumes "PackStoreMem_retain sid snap s = (Ok u, s')"
  obtains "\<not> bm_contains (ps_holders s) sid"
    "bm_contains (ps_packs s) (pr_digest (snap_pack_ref snap)) \<or> bm_size (ps_packs s) < max_packs (ps_config s)"
    "\<And>e. bm_get (ps_packs s) (pr_digest (snap_pack_ref snap)) = Some e \<Longrightarrow> sn_pack_ref e = snap_pack_ref snap"
    "s' = s\<lparr>ps_packs := bm_insert (pr_digest (snap_pack_ref snap))
              (retained_snapshot snap sid (bm_get (ps_packs s) (pr_digest (snap_pack_ref snap)))) (ps_packs s),
            ps_holders := bm_insert sid (pr_digest (snap_pack_ref snap)) (ps_holders s)\<rparr>"
  using assms by (auto simp: PackStoreMem_retain_def Let_def not_le split: if_splits option.splits)

lemma retained_snapshot_simps:
  "bm_contains (sn_holders (retained_snapshot snap sid old)) x \<longleftrightarrow>
     x = sid \<or> (\<exists>e. old = Some e \<and> bm_contains (sn_holders e) x)"
  "sn_pack_ref (retained_snapshot snap sid old) =
     (case old of None \<Rightarrow> snap_pack_ref snap | Some e \<Rightarrow> sn_pack_ref e)"
  "sn_value (retained_snapshot snap sid old) =
     (case old of None \<Rightarrow> snap_pack snap | Some e \<Rightarrow> sn_value e)"
  by (auto simp: retained_snapshot_def Let_def split: option.splits)

lemma pack_inv_retain:
  assumes inv: "pack_inv s" and eq: "PackStoreMem_retain sid snap s = (r, s')"
  shows "pack_inv s'"
proof (cases r)
  case (Inl e)
  then have "s' = s" using eq by (auto simp: PackStoreMem_retain_def Let_def split: if_splits)
  then show ?thesis using inv by simp
next
  case (Inr u)
  let ?d = "pr_digest (snap_pack_ref snap)"
  show ?thesis
    using eq [unfolded Inr]
  proof (rule retain_OkE)
    assume fresh: "\<not> bm_contains (ps_holders s) sid"
      and cap: "bm_contains (ps_packs s) ?d \<or> bm_size (ps_packs s) < max_packs (ps_config s)"
      and same: "\<And>e. bm_get (ps_packs s) ?d = Some e \<Longrightarrow> sn_pack_ref e = snap_pack_ref snap"
      and s': "s' = s\<lparr>ps_packs := bm_insert ?d (retained_snapshot snap sid (bm_get (ps_packs s) ?d)) (ps_packs s),
            ps_holders := bm_insert sid ?d (ps_holders s)\<rparr>"
    have link: "bm_get (ps_holders s) x = Some d \<longleftrightarrow>
        (\<exists>snap. bm_get (ps_packs s) d = Some snap \<and> bm_contains (sn_holders snap) x)" for x d
      using inv by (simp add: pack_inv_def)
    have packs_ok: "bm_get (ps_packs s) d = Some e \<Longrightarrow>
        pr_digest (sn_pack_ref e) = d \<and> (\<exists>x. bm_contains (sn_holders e) x)" for d e
      using inv by (simp add: pack_inv_def)
    have noh: "\<not> bm_contains (sn_holders e) sid" if "bm_get (ps_packs s) d = Some e" for d e
      using link [of sid d] that fresh by (auto simp: bm_contains_def)
    have "bm_get (ps_holders s') x = Some d \<longleftrightarrow>
        (\<exists>snap. bm_get (ps_packs s') d = Some snap \<and> bm_contains (sn_holders snap) x)" for x d
    proof (cases "x = sid")
      case True
      then show ?thesis using noh by (auto simp: s' retained_snapshot_simps)
    next
      case False
      then have "bm_get (ps_holders s') x = Some d \<longleftrightarrow> bm_get (ps_holders s) x = Some d" by (simp add: s')
      also have "\<dots> \<longleftrightarrow> (\<exists>snap. bm_get (ps_packs s) d = Some snap \<and> bm_contains (sn_holders snap) x)"
        by (rule link)
      also have "\<dots> \<longleftrightarrow> (\<exists>snap. bm_get (ps_packs s') d = Some snap \<and> bm_contains (sn_holders snap) x)"
        using False by (auto simp: s' retained_snapshot_simps)
      finally show ?thesis .
    qed
    moreover have "pr_digest (sn_pack_ref e) = d \<and> (\<exists>x. bm_contains (sn_holders e) x)"
      if "bm_get (ps_packs s') d = Some e" for d e
    proof (cases "d = ?d")
      case True
      then have "e = retained_snapshot snap sid (bm_get (ps_packs s) ?d)" using that by (simp add: s')
      moreover have "sn_pack_ref (retained_snapshot snap sid (bm_get (ps_packs s) ?d)) = snap_pack_ref snap"
        using same by (cases "bm_get (ps_packs s) ?d") (simp_all add: retained_snapshot_simps)
      moreover have "bm_contains (sn_holders (retained_snapshot snap sid (bm_get (ps_packs s) ?d))) sid"
        by (simp add: retained_snapshot_simps)
      ultimately show ?thesis using True by metis
    next
      case False
      then show ?thesis using that packs_ok by (simp add: s')
    qed
    moreover have "bm_size (ps_packs s') \<le> max_packs (ps_config s')"
      using cap inv by (auto simp: s' bm_size_insert pack_inv_def)
    ultimately show ?thesis by (simp add: pack_inv_def)
  qed
qed

lemma release_from_get:
  "bm_get (release_from sid d packs) d' =
     (case bm_get packs d' of
        None \<Rightarrow> None
      | Some e \<Rightarrow> if d' \<noteq> d then Some e
          else if (\<exists>x. x \<noteq> sid \<and> bm_contains (sn_holders e) x)
            then Some (e\<lparr>sn_holders := bm_remove sid (sn_holders e)\<rparr>) else None)"
proof -
  have "bm_size (bm_remove sid h) = 0 \<longleftrightarrow> \<not> (\<exists>x. x \<noteq> sid \<and> bm_contains h x)" for h :: "StoryId bset"
    by (auto simp: bm_size_card)
  then show ?thesis
    by (auto simp: release_from_def Let_def split: option.splits)
qed

lemma release_from_size: "bm_size (release_from sid d packs) \<le> bm_size packs"
  by (auto simp: release_from_def Let_def bm_size_remove bm_size_insert bm_contains_def split: option.splits)

lemma pack_inv_release:
  assumes inv: "pack_inv s" and eq: "PackStoreMem_release sid s = (r, s')"
  shows "pack_inv s'"
proof (cases "bm_get (ps_holders s) sid")
  case None
  then show ?thesis using assms by (auto simp: PackStoreMem_release_def)
next
  case (Some d)
  have s': "s' = s\<lparr>ps_holders := bm_remove sid (ps_holders s), ps_packs := release_from sid d (ps_packs s)\<rparr>"
    using eq Some by (auto simp: PackStoreMem_release_def)
  have link: "bm_get (ps_holders s) x = Some d \<longleftrightarrow>
      (\<exists>snap. bm_get (ps_packs s) d = Some snap \<and> bm_contains (sn_holders snap) x)" for x d
    using inv by (simp add: pack_inv_def)
  have only: "d' = d" if "bm_get (ps_packs s) d' = Some e" "bm_contains (sn_holders e) sid" for d' e
    using link [of sid d'] that Some by auto
  have "bm_get (ps_holders s') x = Some d' \<longleftrightarrow>
      (\<exists>snap. bm_get (ps_packs s') d' = Some snap \<and> bm_contains (sn_holders snap) x)" for x d'
    using only by (auto simp: s' link release_from_get split: option.splits if_splits)
  moreover have "pr_digest (sn_pack_ref e) = d' \<and> (\<exists>x. bm_contains (sn_holders e) x)"
    if "bm_get (ps_packs s') d' = Some e" for d' e
    using that inv by (auto simp: s' release_from_get pack_inv_def split: option.splits if_splits)
  moreover have "bm_size (ps_packs s') \<le> max_packs (ps_config s')"
    using inv release_from_size [of sid d "ps_packs s"] by (simp add: s' pack_inv_def)
  ultimately show ?thesis by (simp add: pack_inv_def)
qed

lemma pack_inv_link:
  "pack_inv s \<Longrightarrow> bm_get (ps_holders s) sid = Some d \<longleftrightarrow>
     (\<exists>snap. bm_get (ps_packs s) d = Some snap \<and> bm_contains (sn_holders snap) sid)"
  by (simp add: pack_inv_def)

lemma pack_inv_pack:
  "pack_inv s \<Longrightarrow> bm_get (ps_packs s) d = Some e \<Longrightarrow>
     pr_digest (sn_pack_ref e) = d \<and> (\<exists>x. bm_contains (sn_holders e) x)"
  by (simp add: pack_inv_def)

lemma pack_inv_fresh:
  assumes "pack_inv s" and "\<not> bm_contains (ps_holders s) sid" and "bm_get (ps_packs s) d = Some e"
  shows "\<not> bm_contains (sn_holders e) sid" and "\<exists>x. x \<noteq> sid \<and> bm_contains (sn_holders e) x"
proof -
  show no: "\<not> bm_contains (sn_holders e) sid"
    using pack_inv_link [OF assms(1), of sid d] assms(2,3) by (auto simp: bm_contains_def)
  obtain x where x: "bm_contains (sn_holders e) x" using pack_inv_pack [OF assms(1,3)] by (elim conjE exE)
  with no have "x \<noteq> sid" by metis
  with x show "\<exists>x. x \<noteq> sid \<and> bm_contains (sn_holders e) x" by metis
qed

lemma release_from_retained:
  assumes inv: "pack_inv s" and fresh: "\<not> bm_contains (ps_holders s) sid"
  shows "release_from sid d (bm_insert d (retained_snapshot snap sid (bm_get (ps_packs s) d)) (ps_packs s))
    = ps_packs s"
proof (rule bm_eqI)
  fix d'
  show "bm_get (release_from sid d (bm_insert d (retained_snapshot snap sid (bm_get (ps_packs s) d))
      (ps_packs s))) d' = bm_get (ps_packs s) d'"
  proof (cases "d' = d")
    case False
    then show ?thesis by (simp add: release_from_get split: option.splits)
  next
    case True
    show ?thesis
    proof (cases "bm_get (ps_packs s) d")
      case None
      then show ?thesis using True by (simp add: release_from_get retained_snapshot_simps)
    next
      case (Some e)
      note e = pack_inv_fresh [OF inv fresh Some]
      have "e\<lparr>sn_holders := bm_remove sid (bs_insert sid (sn_holders e))\<rparr> = e"
        using e(1) by (simp add: bm_remove_insert_fresh)
      then show ?thesis using True Some e(2)
        by (auto simp: release_from_get retained_snapshot_def Let_def)
    qed
  qed
qed

interpretation pm: pack_store pack_inv PackStoreMem_retain PackStoreMem_release PackStoreMem_get_pack pack_held
proof (unfold_locales, goal_cases)
  case (1 s sid snap r s')
  then show ?case by (rule pack_inv_retain)
next
  case (2 s sid r s')
  then show ?case by (rule pack_inv_release)
next
  case (3 sid snap s e s')
  then show ?case by (auto simp: PackStoreMem_retain_def Let_def split: if_splits)
next
  case (4 s sid snap u s')
  from 4(2) show ?case
  proof (rule retain_OkE)
    let ?d = "pr_digest (snap_pack_ref snap)"
    assume fresh: "\<not> bm_contains (ps_holders s) sid"
      and same: "\<And>e. bm_get (ps_packs s) ?d = Some e \<Longrightarrow> sn_pack_ref e = snap_pack_ref snap"
      and s': "s' = s\<lparr>ps_packs := bm_insert ?d (retained_snapshot snap sid (bm_get (ps_packs s) ?d)) (ps_packs s),
            ps_holders := bm_insert sid ?d (ps_holders s)\<rparr>"
    have ref: "sn_pack_ref (retained_snapshot snap sid (bm_get (ps_packs s) ?d)) = snap_pack_ref snap"
      using same by (cases "bm_get (ps_packs s) ?d") (simp_all add: retained_snapshot_simps)
    have "held = None" if "held = pack_held s sid" for held
      using that fresh by (simp add: pack_held_def bm_contains_def)
    moreover have "pack_held s' x = (if x = sid then Some (snap_pack_ref snap) else pack_held s x)" for x
      using ref pack_inv_link [OF 4(1), of x ?d]
      by (auto simp: s' pack_held_def retained_snapshot_simps split: option.splits)
    ultimately show ?thesis by (auto simp: fun_eq_iff)
  qed
next
  case (5 s sid snap u s')
  from 5(2) show ?case
  proof (rule retain_OkE)
    let ?d = "pr_digest (snap_pack_ref snap)"
    assume fresh: "\<not> bm_contains (ps_holders s) sid"
      and s': "s' = s\<lparr>ps_packs := bm_insert ?d (retained_snapshot snap sid (bm_get (ps_packs s) ?d)) (ps_packs s),
            ps_holders := bm_insert sid ?d (ps_holders s)\<rparr>"
    show ?thesis
      using release_from_retained [OF 5(1) fresh] bm_remove_insert_fresh [OF fresh]
      by (simp add: PackStoreMem_release_def s')
  qed
next
  case (6 s sid u s')
  have "pack_held s' x = (if x = sid then None else pack_held s x)" for x
  proof (cases "bm_get (ps_holders s) sid")
    case None
    then show ?thesis using 6 by (auto simp: PackStoreMem_release_def pack_held_def)
  next
    case (Some d)
    have s': "s' = s\<lparr>ps_holders := bm_remove sid (ps_holders s), ps_packs := release_from sid d (ps_packs s)\<rparr>"
      using 6 Some by (auto simp: PackStoreMem_release_def)
    have link: "\<exists>snap. bm_get (ps_packs s) d' = Some snap \<and> bm_contains (sn_holders snap) y"
      if "bm_get (ps_holders s) y = Some d'" for y d'
      using pack_inv_link [OF 6(1), of y d'] that by simp
    show ?thesis
    proof (cases "bm_get (ps_holders s) x")
      case None
      then show ?thesis by (simp add: s' pack_held_def)
    next
      case (Some d')
      then show ?thesis using link [OF Some] by (auto simp: s' pack_held_def release_from_get)
    qed
  qed
  then show ?case by auto
next
  case (7 s sid pr)
  then obtain d e where "bm_get (ps_holders s) sid = Some d" "bm_get (ps_packs s) d = Some e"
    "pr = sn_pack_ref e" by (auto simp: pack_held_def split: option.splits)
  moreover from this have "pr_digest (sn_pack_ref e) = d" using pack_inv_pack [OF 7(1)] by simp
  ultimately show ?case by (auto simp: PackStoreMem_get_pack_def)
qed

section \<open>The SQLite store (\<open>pack_store_sqlite.rs\<close>)\<close>

text \<open>The SQLite backend delegates every operation to an embedded memory store.\<close>

record PackStoreSqlite =
  pq_fake_store :: PackStoreMem

definition PackStoreSqlite_new :: "PackStoreConfig \<Rightarrow> PackStoreSqlite" where
  "PackStoreSqlite_new config = \<lparr>pq_fake_store = PackStoreMem_with_config config\<rparr>"

definition PackStoreSqlite_retain ::
  "StoryId \<Rightarrow> StoryPackSnapshot \<Rightarrow> PackStoreSqlite \<Rightarrow> (PersistenceError + unit) \<times> PackStoreSqlite" where
  "PackStoreSqlite_retain sid snapshot s =
     (case PackStoreMem_retain sid snapshot (pq_fake_store s) of (r, f) \<Rightarrow> (r, s\<lparr>pq_fake_store := f\<rparr>))"

definition PackStoreSqlite_release ::
  "StoryId \<Rightarrow> PackStoreSqlite \<Rightarrow> (PersistenceError + unit) \<times> PackStoreSqlite" where
  "PackStoreSqlite_release sid s =
     (case PackStoreMem_release sid (pq_fake_store s) of (r, f) \<Rightarrow> (r, s\<lparr>pq_fake_store := f\<rparr>))"

definition PackStoreSqlite_get_pack :: "PackRef \<Rightarrow> PackStoreSqlite \<Rightarrow> PersistenceError + StoryPack" where
  "PackStoreSqlite_get_pack pack_ref s = PackStoreMem_get_pack pack_ref (pq_fake_store s)"

interpretation pq: pack_store "\<lambda>s. pack_inv (pq_fake_store s)" PackStoreSqlite_retain
  PackStoreSqlite_release PackStoreSqlite_get_pack "\<lambda>s. pack_held (pq_fake_store s)"
proof (unfold_locales, goal_cases)
  case (1 s sid snap r s')
  then show ?case by (auto simp: PackStoreSqlite_retain_def split: prod.splits dest: pm.retain_ok)
next
  case (2 s sid r s')
  then show ?case by (auto simp: PackStoreSqlite_release_def split: prod.splits dest: pm.release_ok)
next
  case (3 sid snap s e s')
  then show ?case by (auto simp: PackStoreSqlite_retain_def split: prod.splits dest: pm.retain_err)
next
  case (4 s sid snap u s')
  then show ?case
    by (auto simp: PackStoreSqlite_retain_def split: prod.splits dest: pm.retain_held)
next
  case (5 s sid snap u s')
  then obtain f where "PackStoreMem_retain sid snap (pq_fake_store s) = (Ok u, f)"
    "s' = s\<lparr>pq_fake_store := f\<rparr>" by (auto simp: PackStoreSqlite_retain_def split: prod.splits)
  then show ?case using pm.retain_release [OF 5(1)] by (simp add: PackStoreSqlite_release_def)
next
  case (6 s sid u s')
  then show ?case
    by (auto simp: PackStoreSqlite_release_def split: prod.splits dest: pm.release_held)
next
  case (7 s sid pr)
  then show ?case by (simp add: PackStoreSqlite_get_pack_def pm.held_get)
qed

end
