(* ===== verification/Story_Store.thy ===== *)
theory Story_Store
  imports Pack_Store
begin

text \<open>
  \<open>persistence/story_store.rs\<close>, \<open>story_store_mem.rs\<close> and \<open>story_store_sqlite.rs\<close>: the stories with
  their contexts and committed turns. The store is shown to be an event log: the context of a story
  is the replay of its commits, numbered without gaps, one per idempotency key.

  Parameters: \<open>json\<close> (the serialization of roles whose size is limited) and \<open>now\<close> (the clock).
\<close>

section \<open>The memory store\<close>

record StoredStory =
  st_context :: StoryContext
  st_info :: StoryInstanceInfo
  st_committed :: "(IdempotencyKey, StoryCommit) bmap"

record StoryStoreMem =
  ss_stories :: "(StoryId, StoredStory) bmap"
  ss_config :: StoryStoreConfig

definition StoryStoreMem_with_config :: "StoryStoreConfig \<Rightarrow> StoryStoreMem" where
  "StoryStoreMem_with_config config = \<lparr>ss_stories = bm_empty, ss_config = config\<rparr>"

text \<open>The two \<open>while\<close> loops of \<open>adjust_rencent_turns\<close>.\<close>

fun pop_excess :: "nat \<Rightarrow> Turn list \<Rightarrow> Turn list" where
  "pop_excess limit [] = []"
| "pop_excess limit (t # ts) = (if length (t # ts) > limit then pop_excess limit ts else t # ts)"

fun pop_covered :: "TurnNumber \<Rightarrow> Turn list \<Rightarrow> Turn list" where
  "pop_covered covered [] = []"
| "pop_covered covered (t # ts) = (if turn_number t \<le> covered then pop_covered covered ts else t # ts)"

definition adjust_rencent_turns :: "nat \<Rightarrow> StoryContext \<Rightarrow> StoryContext" where
  "adjust_rencent_turns limit ctx =
     (let ctx1 = ctx\<lparr>ctx_recent_turns := pop_excess limit (ctx_recent_turns ctx)\<rparr>
      in case ctx_summary ctx1 of
           None \<Rightarrow> ctx1
         | Some summary \<Rightarrow>
             ctx1\<lparr>ctx_recent_turns := pop_covered (covered_through summary) (ctx_recent_turns ctx1)\<rparr>)"

section \<open>Knowledge changes\<close>

fun fact_op_id :: "FactChangeOp \<Rightarrow> FactId" where
  "fact_op_id (FactAdd i b) = i"
| "fact_op_id (FactUpdate i b) = i"

fun fact_op_check :: "StoryContext \<Rightarrow> FactChangeOp \<Rightarrow> PersistenceError + unit" where
  "fact_op_check ctx (FactAdd i b) =
     (if bm_contains (ctx_facts ctx) i then Err (ConstraintViolation (AddExistingFact i)) else Ok ())"
| "fact_op_check ctx (FactUpdate i b) =
     (if \<not> bm_contains (ctx_facts ctx) i then Err (ConstraintViolation (UpdateMissingFact i)) else Ok ())"

fun rumor_op_id :: "RumorChangeOp \<Rightarrow> RumorId" where
  "rumor_op_id (RumorAdd i b) = i"
| "rumor_op_id (RumorUpdate i b) = i"
| "rumor_op_id (RumorRemove i) = i"

fun rumor_op_check :: "StoryContext \<Rightarrow> RumorChangeOp \<Rightarrow> PersistenceError + unit" where
  "rumor_op_check ctx (RumorAdd i b) =
     (if bm_contains (ctx_rumors ctx) i then Err (ConstraintViolation (AddExistingRumor i)) else Ok ())"
| "rumor_op_check ctx (RumorUpdate i b) =
     (if \<not> bm_contains (ctx_rumors ctx) i then Err (ConstraintViolation (UpdateMissingRumor i)) else Ok ())"
| "rumor_op_check ctx (RumorRemove i) =
     (if \<not> bm_contains (ctx_rumors ctx) i then Err (ConstraintViolation (RemoveMissingRumor i)) else Ok ())"

fun memory_op_key :: "RoleMemoryChangeOp \<Rightarrow> RoleId \<times> MemoryId" where
  "memory_op_key (MemoryAdd r i b) = (r, i)"
| "memory_op_key (MemoryUpdate r i b) = (r, i)"

fun memory_op_check :: "StoryContext \<Rightarrow> RoleMemoryChangeOp \<Rightarrow> PersistenceError + unit" where
  "memory_op_check ctx (MemoryAdd r i b) =
     rbind (ok_or (ConstraintViolation (UnknownMemoryRole r)) (bm_get (ctx_roles ctx) r)) (\<lambda>role.
       if bm_contains (role_memories role) i then Err (ConstraintViolation (AddExistingMemory r i))
       else Ok ())"
| "memory_op_check ctx (MemoryUpdate r i b) =
     rbind (ok_or (ConstraintViolation (UnknownMemoryRole r)) (bm_get (ctx_roles ctx) r)) (\<lambda>role.
       if \<not> bm_contains (role_memories role) i then Err (ConstraintViolation (UpdateMissingMemory r i))
       else Ok ())"

definition duplicate_memory :: "RoleMemoryChangeOp \<Rightarrow> PersistenceError" where
  "duplicate_memory op = (case memory_op_key op of (r, i) \<Rightarrow> ConstraintViolation (DuplicateMemoryId r i))"

definition validate_knowledge_change :: "StoryContext \<Rightarrow> KnowledgeChange \<Rightarrow> PersistenceError + unit" where
  "validate_knowledge_change ctx change =
     rbind (distinct_check fact_op_id (\<lambda>op. ConstraintViolation (DuplicateFactId (fact_op_id op)))
              (fact_op_check ctx) [] (kc_facts change)) (\<lambda>_.
     rbind (distinct_check rumor_op_id (\<lambda>op. ConstraintViolation (DuplicateRumorId (rumor_op_id op)))
              (rumor_op_check ctx) [] (kc_rumors change)) (\<lambda>_.
       distinct_check memory_op_key duplicate_memory (memory_op_check ctx) [] (kc_memories change)))"

fun apply_fact_op :: "TurnNumber \<Rightarrow> (FactId, FactEntry) bmap \<Rightarrow> FactChangeOp \<Rightarrow> (FactId, FactEntry) bmap" where
  "apply_fact_op n facts (FactAdd i b) =
     bm_insert i \<lparr>fe_id = i, fe_origin = TurnOrigin n, fe_body = b\<rparr> facts"
| "apply_fact_op n facts (FactUpdate i b) = bm_modify i (\<lambda>e. e\<lparr>fe_body := b\<rparr>) facts"

fun apply_rumor_op ::
  "TurnNumber \<Rightarrow> (RumorId, RumorEntry) bmap \<Rightarrow> RumorChangeOp \<Rightarrow> (RumorId, RumorEntry) bmap" where
  "apply_rumor_op n rumors (RumorAdd i b) =
     bm_insert i \<lparr>re_id = i, re_origin = TurnOrigin n, re_body = b\<rparr> rumors"
| "apply_rumor_op n rumors (RumorUpdate i b) = bm_modify i (\<lambda>e. e\<lparr>re_body := b\<rparr>) rumors"
| "apply_rumor_op n rumors (RumorRemove i) = bm_remove i rumors"

fun apply_memory_op :: "TurnNumber \<Rightarrow> roles \<Rightarrow> RoleMemoryChangeOp \<Rightarrow> roles" where
  "apply_memory_op n rs (MemoryAdd r i b) =
     bm_modify r (\<lambda>role. role\<lparr>role_memories :=
       bm_insert i \<lparr>me_id = i, me_origin = TurnOrigin n, me_body = b\<rparr> (role_memories role)\<rparr>) rs"
| "apply_memory_op n rs (MemoryUpdate r i b) =
     bm_modify r (\<lambda>role. role\<lparr>role_memories :=
       bm_modify i (\<lambda>e. e\<lparr>me_body := b\<rparr>) (role_memories role)\<rparr>) rs"

definition apply_knowledge_change :: "StoryContext \<Rightarrow> TurnNumber \<Rightarrow> KnowledgeChange \<Rightarrow> StoryContext" where
  "apply_knowledge_change ctx n change =
     ctx\<lparr>ctx_facts := foldl (apply_fact_op n) (ctx_facts ctx) (kc_facts change),
         ctx_rumors := foldl (apply_rumor_op n) (ctx_rumors ctx) (kc_rumors change),
         ctx_roles := foldl (apply_memory_op n) (ctx_roles ctx) (kc_memories change)\<rparr>"

section \<open>Operations\<close>

definition created_context :: "StoryInstanceSpec \<Rightarrow> StoryContext" where
  "created_context spec =
     \<lparr>ctx_story_id = sis_story_id spec, ctx_pack_ref = sis_pack_ref spec,
      ctx_opening = sis_opening spec, ctx_roles = sis_roles spec, ctx_facts = sis_facts spec,
      ctx_rumors = sis_rumors spec, ctx_player = sis_player_role spec, ctx_turn_number = 0,
      ctx_summary = None, ctx_recent_turns = [], ctx_life_cycle = LcActive,
      ctx_narrative = sis_narrative spec\<rparr>"

definition created_info :: "instant \<Rightarrow> StoryInstanceSpec \<Rightarrow> StoryInstanceInfo" where
  "created_info now spec =
     \<lparr>sii_story_id = sis_story_id spec, sii_player_id = sis_player_id spec, sii_description = [],
      sii_created_at = now, sii_updated_at = now, sii_life_cycle = LcActive\<rparr>"

definition created_story :: "instant \<Rightarrow> StoryInstanceSpec \<Rightarrow> StoredStory" where
  "created_story now spec =
     \<lparr>st_context = created_context spec, st_info = created_info now spec, st_committed = bm_empty\<rparr>"

definition StoryStoreMem_create ::
  "(roles \<Rightarrow> json_stream) \<Rightarrow> instant \<Rightarrow> StoryInstanceSpec \<Rightarrow> StoryStoreMem \<Rightarrow>
   (PersistenceError + StoryInstanceInfo) \<times> StoryStoreMem" where
  "StoryStoreMem_create json now spec s =
     (case validate_runtime_roles json (sis_roles spec) of
        Inl e \<Rightarrow> (Err (InvalidStory e), s)
      | Inr _ \<Rightarrow>
          if bm_contains (ss_stories s) (sis_story_id spec)
          then (Err (ConstraintViolation StoryIdExists), s)
          else (Ok (created_info now spec),
                s\<lparr>ss_stories := bm_insert (sis_story_id spec) (created_story now spec) (ss_stories s)\<rparr>))"

definition StoryStoreMem_remove :: "StoryId \<Rightarrow> StoryStoreMem \<Rightarrow> (PersistenceError + unit) \<times> StoryStoreMem" where
  "StoryStoreMem_remove sid s =
     (case bm_get (ss_stories s) sid of
        None \<Rightarrow> (Err NotFound, s)
      | Some _ \<Rightarrow> (Ok (), s\<lparr>ss_stories := bm_remove sid (ss_stories s)\<rparr>))"

definition StoryStoreMem_get_info :: "StoryId \<Rightarrow> StoryStoreMem \<Rightarrow> PersistenceError + StoryInstanceInfo" where
  "StoryStoreMem_get_info sid s = ok_or NotFound (map_option st_info (bm_get (ss_stories s) sid))"

definition StoryStoreMem_load :: "StoryId \<Rightarrow> StoryStoreMem \<Rightarrow> PersistenceError + StoryContext" where
  "StoryStoreMem_load sid s = ok_or NotFound (map_option st_context (bm_get (ss_stories s) sid))"

definition StoryStoreMem_find_committed ::
  "StoryId \<Rightarrow> IdempotencyKey \<Rightarrow> StoryStoreMem \<Rightarrow> PersistenceError + StoryCommit option" where
  "StoryStoreMem_find_committed sid key s =
     rbind (ok_or NotFound (bm_get (ss_stories s) sid)) (\<lambda>story. Ok (bm_get (st_committed story) key))"

definition check_summary :: "StoryContext \<Rightarrow> StoryCommit \<Rightarrow> PersistenceError + unit" where
  "check_summary ctx commit =
     (case sc_summary commit of
        Unchanged \<Rightarrow> Ok ()
      | Replaced summary \<Rightarrow>
          if covered_through summary > turn_number (sc_turn commit)
          then Err (ConstraintViolation SummaryCoversFutureTurn)
          else if (case ctx_summary ctx of None \<Rightarrow> False
                   | Some previous \<Rightarrow> covered_through summary < covered_through previous)
            then Err (ConstraintViolation SummaryMovesBackwards)
          else Ok ())"

text \<open>\<open>next_context\<close> up to the role limits, and the rest of it.\<close>

definition staged_context :: "StoryContext \<Rightarrow> StoryCommit \<Rightarrow> StoryContext" where
  "staged_context ctx commit =
     (let turn = sc_turn commit;
          c1 = apply_knowledge_change (ctx\<lparr>ctx_turn_number := turn_number turn\<rparr>) (turn_number turn)
                 (knowledge_change turn);
          c2 = c1\<lparr>ctx_recent_turns := ctx_recent_turns c1 @ [turn]\<rparr>;
          c3 = (case sc_summary commit of Unchanged \<Rightarrow> c2 | Replaced summary \<Rightarrow> c2\<lparr>ctx_summary := Some summary\<rparr>)
      in case sc_narrative commit of Unchanged \<Rightarrow> c3 | Replaced narrative \<Rightarrow> c3\<lparr>ctx_narrative := narrative\<rparr>)"

definition next_context :: "nat \<Rightarrow> StoryContext \<Rightarrow> StoryCommit \<Rightarrow> StoryContext" where
  "next_context limit ctx commit =
     (let staged = staged_context ctx commit;
          cycled = (case sc_life_cycle commit of Unchanged \<Rightarrow> staged
                    | Replaced life_cycle \<Rightarrow> staged\<lparr>ctx_life_cycle := life_cycle\<rparr>)
      in adjust_rencent_turns limit cycled)"

definition check_commit ::
  "(roles \<Rightarrow> json_stream) \<Rightarrow> StoryContext \<Rightarrow> StoryCommit \<Rightarrow> PersistenceError + unit" where
  "check_commit json ctx commit =
     (if ctx_life_cycle ctx \<noteq> LcActive then Err (ConstraintViolation StoryIsNotActive)
      else if turn_number (sc_turn commit) \<noteq> TurnNumber_increment (ctx_turn_number ctx)
        then Err (ConstraintViolation TurnNumberDoesNotFollow)
      else rbind (check_summary ctx commit) (\<lambda>_.
           rbind (validate_knowledge_change ctx (knowledge_change (sc_turn commit))) (\<lambda>_.
             map_err InvalidStory (validate_runtime_roles json (ctx_roles (staged_context ctx commit))))))"

definition StoryStoreMem_commit ::
  "(roles \<Rightarrow> json_stream) \<Rightarrow> instant \<Rightarrow> StoryCommit \<Rightarrow> StoryStoreMem \<Rightarrow>
   (PersistenceError + StoryCommit) \<times> StoryStoreMem" where
  "StoryStoreMem_commit json now commit s =
     (case bm_get (ss_stories s) (sc_story_id commit) of
        None \<Rightarrow> (Err NotFound, s)
      | Some story \<Rightarrow>
          let key = idempotency_key (sc_turn commit)
          in case bm_get (st_committed story) key of
               Some existing \<Rightarrow> (Ok existing, s)
             | None \<Rightarrow>
                 (case check_commit json (st_context story) commit of
                    Inl e \<Rightarrow> (Err e, s)
                  | Inr _ \<Rightarrow>
                      let info = (case sc_life_cycle commit of Unchanged \<Rightarrow> st_info story
                                  | Replaced lc \<Rightarrow> (st_info story)\<lparr>sii_life_cycle := lc\<rparr>);
                          story' = story\<lparr>
                            st_context := next_context (max_recent_turns (ss_config s)) (st_context story) commit,
                            st_info := info\<lparr>sii_updated_at := now\<rparr>,
                            st_committed := bm_insert key commit (st_committed story)\<rparr>
                      in (Ok commit, s\<lparr>ss_stories := bm_insert (sc_story_id commit) story' (ss_stories s)\<rparr>)))"

section \<open>What a knowledge change does\<close>

lemma find_key_None: "k \<notin> key ` set ops \<Longrightarrow> find (\<lambda>op. key op = k) ops = None"
  by (auto simp: find_None_iff)

text \<open>A fold of updates at pairwise different keys, read back at one key.\<close>

lemma foldl_keyed:
  assumes "\<And>m op k. get (app m op) k = (if k = key op then eff op (get m k) else get m k)"
    and "distinct (map key ops)"
  shows "get (foldl app m ops) k =
    (case find (\<lambda>op. key op = k) ops of None \<Rightarrow> get m k | Some op \<Rightarrow> eff op (get m k))"
  using assms(2)
proof (induction ops arbitrary: m)
  case (Cons op ops)
  show ?case
  proof (cases "key op = k")
    case True
    then have "find (\<lambda>op. key op = k) ops = None" using Cons.prems by (auto intro: find_key_None)
    then show ?thesis using Cons True by (simp add: assms(1))
  next
    case False
    then show ?thesis using Cons by (simp add: assms(1) cong: option.case_cong)
  qed
qed simp

fun fact_effect :: "TurnNumber \<Rightarrow> FactChangeOp \<Rightarrow> FactEntry option \<Rightarrow> FactEntry option" where
  "fact_effect n (FactAdd i b) old = Some \<lparr>fe_id = i, fe_origin = TurnOrigin n, fe_body = b\<rparr>"
| "fact_effect n (FactUpdate i b) old = map_option (\<lambda>e. e\<lparr>fe_body := b\<rparr>) old"

fun rumor_effect :: "TurnNumber \<Rightarrow> RumorChangeOp \<Rightarrow> RumorEntry option \<Rightarrow> RumorEntry option" where
  "rumor_effect n (RumorAdd i b) old = Some \<lparr>re_id = i, re_origin = TurnOrigin n, re_body = b\<rparr>"
| "rumor_effect n (RumorUpdate i b) old = map_option (\<lambda>e. e\<lparr>re_body := b\<rparr>) old"
| "rumor_effect n (RumorRemove i) old = None"

fun memory_effect :: "TurnNumber \<Rightarrow> RoleMemoryChangeOp \<Rightarrow> MemoryEntry option \<Rightarrow> MemoryEntry option" where
  "memory_effect n (MemoryAdd r i b) old = Some \<lparr>me_id = i, me_origin = TurnOrigin n, me_body = b\<rparr>"
| "memory_effect n (MemoryUpdate r i b) old = map_option (\<lambda>e. e\<lparr>me_body := b\<rparr>) old"

definition get_memory :: "roles \<Rightarrow> RoleId \<times> MemoryId \<Rightarrow> MemoryEntry option" where
  "get_memory rs k = (case bm_get rs (fst k) of None \<Rightarrow> None | Some role \<Rightarrow> bm_get (role_memories role) (snd k))"

lemma fact_ops_get:
  "distinct (map fact_op_id ops) \<Longrightarrow> bm_get (foldl (apply_fact_op n) facts ops) i =
     (case find (\<lambda>op. fact_op_id op = i) ops of None \<Rightarrow> bm_get facts i | Some op \<Rightarrow> fact_effect n op (bm_get facts i))"
proof (rule foldl_keyed)
  fix m op k
  show "bm_get (apply_fact_op n m op) k =
      (if k = fact_op_id op then fact_effect n op (bm_get m k) else bm_get m k)"
    by (cases op) auto
qed

lemma rumor_ops_get:
  "distinct (map rumor_op_id ops) \<Longrightarrow> bm_get (foldl (apply_rumor_op n) rumors ops) i =
     (case find (\<lambda>op. rumor_op_id op = i) ops of None \<Rightarrow> bm_get rumors i | Some op \<Rightarrow> rumor_effect n op (bm_get rumors i))"
proof (rule foldl_keyed)
  fix m op k
  show "bm_get (apply_rumor_op n m op) k =
      (if k = rumor_op_id op then rumor_effect n op (bm_get m k) else bm_get m k)"
    by (cases op) auto
qed

lemma apply_memory_op_contains [simp]:
  "bm_contains (apply_memory_op n rs op) r \<longleftrightarrow> bm_contains rs r"
  by (cases op) auto

lemma memory_ops_contains [simp]:
  "bm_contains (foldl (apply_memory_op n) rs ops) r \<longleftrightarrow> bm_contains rs r"
  by (induction ops arbitrary: rs) auto

lemma apply_memory_op_get:
  assumes "bm_contains rs (fst (memory_op_key op))"
  shows "get_memory (apply_memory_op n rs op) k =
    (if k = memory_op_key op then memory_effect n op (get_memory rs k) else get_memory rs k)"
  using assms by (cases op; cases k) (auto simp: get_memory_def bm_contains_def split: option.splits)

text \<open>The role of a memory operation exists once the change was validated.\<close>

lemma memory_ops_get:
  assumes "distinct (map memory_op_key ops)" and "\<forall>op \<in> set ops. bm_contains rs (fst (memory_op_key op))"
  shows "get_memory (foldl (apply_memory_op n) rs ops) k =
    (case find (\<lambda>op. memory_op_key op = k) ops of
       None \<Rightarrow> get_memory rs k | Some op \<Rightarrow> memory_effect n op (get_memory rs k))"
  using assms
proof (induction ops arbitrary: rs)
  case (Cons op ops)
  have IH: "get_memory (foldl (apply_memory_op n) (apply_memory_op n rs op) ops) k =
      (case find (\<lambda>op. memory_op_key op = k) ops of
         None \<Rightarrow> get_memory (apply_memory_op n rs op) k
       | Some op' \<Rightarrow> memory_effect n op' (get_memory (apply_memory_op n rs op) k))"
    using Cons by simp
  have head: "bm_contains rs (fst (memory_op_key op))" using Cons.prems by simp
  show ?case
  proof (cases "memory_op_key op = k")
    case True
    then have "find (\<lambda>op. memory_op_key op = k) ops = None" using Cons.prems by (auto intro: find_key_None)
    then show ?thesis using IH True by (simp add: apply_memory_op_get [OF head])
  next
    case False
    then show ?thesis using IH by (simp add: apply_memory_op_get [OF head] cong: option.case_cong)
  qed
qed simp

lemma validate_knowledge_change_Ok_iff [result_simps]:
  "validate_knowledge_change ctx change = Ok u \<longleftrightarrow>
     distinct (map fact_op_id (kc_facts change)) \<and> (\<forall>op \<in> set (kc_facts change). fact_op_check ctx op = Ok ()) \<and>
     distinct (map rumor_op_id (kc_rumors change)) \<and> (\<forall>op \<in> set (kc_rumors change). rumor_op_check ctx op = Ok ()) \<and>
     distinct (map memory_op_key (kc_memories change)) \<and>
     (\<forall>op \<in> set (kc_memories change). memory_op_check ctx op = Ok ())"
  by (auto simp: validate_knowledge_change_def result_simps)

lemma memory_op_check_role: "memory_op_check ctx op = Ok u \<Longrightarrow> bm_contains (ctx_roles ctx) (fst (memory_op_key op))"
  by (cases op) (auto simp: result_simps bm_contains_def)

section \<open>The log\<close>

definition fresh_context :: "StoryContext \<Rightarrow> bool" where
  "fresh_context ctx \<longleftrightarrow> ctx_turn_number ctx = 0 \<and> ctx_summary ctx = None \<and> ctx_recent_turns ctx = [] \<and>
     ctx_life_cycle ctx = LcActive"

fun valid_log :: "(roles \<Rightarrow> json_stream) \<Rightarrow> nat \<Rightarrow> StoryContext \<Rightarrow> StoryCommit list \<Rightarrow> bool" where
  "valid_log json limit ctx [] \<longleftrightarrow> True"
| "valid_log json limit ctx (c # cs) \<longleftrightarrow>
     check_commit json ctx c = Ok () \<and> valid_log json limit (next_context limit ctx c) cs"

abbreviation commit_key :: "StoryCommit \<Rightarrow> IdempotencyKey" where
  "commit_key c \<equiv> idempotency_key (sc_turn c)"

definition story_log ::
  "(roles \<Rightarrow> json_stream) \<Rightarrow> nat \<Rightarrow> StoredStory \<Rightarrow> StoryContext \<Rightarrow> StoryCommit list \<Rightarrow> bool" where
  "story_log json limit story ctx0 hist \<longleftrightarrow>
     fresh_context ctx0 \<and> st_context story = foldl (next_context limit) ctx0 hist \<and>
     valid_log json limit ctx0 hist \<and> distinct (map commit_key hist) \<and>
     (\<forall>k c. bm_get (st_committed story) k = Some c \<longleftrightarrow> c \<in> set hist \<and> commit_key c = k) \<and>
     (\<forall>c \<in> set hist. sc_story_id c = ctx_story_id ctx0)"

definition story_inv :: "(roles \<Rightarrow> json_stream) \<Rightarrow> nat \<Rightarrow> StoryId \<Rightarrow> StoredStory \<Rightarrow> bool" where
  "story_inv json limit sid story \<longleftrightarrow>
     (\<exists>ctx0 hist. story_log json limit story ctx0 hist \<and> ctx_story_id ctx0 = sid) \<and>
     sii_story_id (st_info story) = sid \<and>
     sii_life_cycle (st_info story) = ctx_life_cycle (st_context story) \<and>
     validate_runtime_roles json (ctx_roles (st_context story)) = Ok ()"

definition store_inv :: "(roles \<Rightarrow> json_stream) \<Rightarrow> StoryStoreMem \<Rightarrow> bool" where
  "store_inv json s \<longleftrightarrow>
     (\<forall>sid story. bm_get (ss_stories s) sid = Some story \<longrightarrow>
        story_inv json (max_recent_turns (ss_config s)) sid story)"

lemma valid_log_append:
  "valid_log json limit ctx (xs @ ys) \<longleftrightarrow>
     valid_log json limit ctx xs \<and> valid_log json limit (foldl (next_context limit) ctx xs) ys"
  by (induction xs arbitrary: ctx) auto

lemma staged_context_simps [simp]:
  "ctx_story_id (staged_context ctx c) = ctx_story_id ctx"
  "ctx_pack_ref (staged_context ctx c) = ctx_pack_ref ctx"
  "ctx_opening (staged_context ctx c) = ctx_opening ctx"
  "ctx_player (staged_context ctx c) = ctx_player ctx"
  "ctx_turn_number (staged_context ctx c) = turn_number (sc_turn c)"
  "ctx_recent_turns (staged_context ctx c) = ctx_recent_turns ctx @ [sc_turn c]"
  "ctx_life_cycle (staged_context ctx c) = ctx_life_cycle ctx"
  "ctx_summary (staged_context ctx c) =
     (case sc_summary c of Unchanged \<Rightarrow> ctx_summary ctx | Replaced s \<Rightarrow> Some s)"
  "ctx_facts (staged_context ctx c) =
     foldl (apply_fact_op (turn_number (sc_turn c))) (ctx_facts ctx) (kc_facts (knowledge_change (sc_turn c)))"
  "ctx_rumors (staged_context ctx c) =
     foldl (apply_rumor_op (turn_number (sc_turn c))) (ctx_rumors ctx) (kc_rumors (knowledge_change (sc_turn c)))"
  "ctx_roles (staged_context ctx c) =
     foldl (apply_memory_op (turn_number (sc_turn c))) (ctx_roles ctx) (kc_memories (knowledge_change (sc_turn c)))"
  "ctx_narrative (staged_context ctx c) =
     (case sc_narrative c of Unchanged \<Rightarrow> ctx_narrative ctx | Replaced n \<Rightarrow> n)"
  by (auto simp: staged_context_def Let_def apply_knowledge_change_def split: Change.splits)

definition trimmed :: "nat \<Rightarrow> StorySummary option \<Rightarrow> Turn list \<Rightarrow> Turn list" where
  "trimmed limit summary ts =
     (case summary of None \<Rightarrow> pop_excess limit ts | Some s \<Rightarrow> pop_covered (covered_through s) (pop_excess limit ts))"

lemma next_context_simps [simp]:
  "ctx_story_id (next_context l ctx c) = ctx_story_id ctx"
  "ctx_pack_ref (next_context l ctx c) = ctx_pack_ref ctx"
  "ctx_opening (next_context l ctx c) = ctx_opening ctx"
  "ctx_player (next_context l ctx c) = ctx_player ctx"
  "ctx_turn_number (next_context l ctx c) = turn_number (sc_turn c)"
  "ctx_life_cycle (next_context l ctx c) =
     (case sc_life_cycle c of Unchanged \<Rightarrow> ctx_life_cycle ctx | Replaced lc \<Rightarrow> lc)"
  "ctx_summary (next_context l ctx c) = ctx_summary (staged_context ctx c)"
  "ctx_recent_turns (next_context l ctx c) =
     trimmed l (ctx_summary (staged_context ctx c)) (ctx_recent_turns ctx @ [sc_turn c])"
  "ctx_facts (next_context l ctx c) = ctx_facts (staged_context ctx c)"
  "ctx_rumors (next_context l ctx c) = ctx_rumors (staged_context ctx c)"
  "ctx_roles (next_context l ctx c) = ctx_roles (staged_context ctx c)"
  "ctx_narrative (next_context l ctx c) = ctx_narrative (staged_context ctx c)"
  by (auto simp: next_context_def Let_def adjust_rencent_turns_def trimmed_def
      simp del: staged_context_simps(8) split: Change.splits option.splits)

lemma check_commit_OkD:
  assumes "check_commit json ctx c = Ok u"
  shows "ctx_life_cycle ctx = LcActive" and "turn_number (sc_turn c) = ctx_turn_number ctx + 1"
    and "check_summary ctx c = Ok ()" and "validate_knowledge_change ctx (knowledge_change (sc_turn c)) = Ok ()"
    and "validate_runtime_roles json (ctx_roles (next_context l ctx c)) = Ok ()"
  using assms by (auto simp: check_commit_def TurnNumber_increment_def result_simps split: if_splits)

lemma StoredStory_all_updated:
  "story\<lparr>st_context := a, st_info := b, st_committed := c\<rparr> =
     \<lparr>st_context = a, st_info = b, st_committed = c\<rparr>"
  for story :: StoredStory
  by (cases story) simp

text \<open>The three outcomes of a commit.\<close>

lemma commit_cases:
  assumes "StoryStoreMem_commit json now c s = (r, s')"
  obtains (failed) e where "r = Err e" "s' = s"
  | (replayed) story old where "bm_get (ss_stories s) (sc_story_id c) = Some story"
      "bm_get (st_committed story) (commit_key c) = Some old" "r = Ok old" "s' = s"
  | (appended) story info where "bm_get (ss_stories s) (sc_story_id c) = Some story"
      "bm_get (st_committed story) (commit_key c) = None" "check_commit json (st_context story) c = Ok ()"
      "r = Ok c" "sii_story_id info = sii_story_id (st_info story)"
      "sii_life_cycle info = (case sc_life_cycle c of Unchanged \<Rightarrow> sii_life_cycle (st_info story) | Replaced lc \<Rightarrow> lc)"
      "s' = s\<lparr>ss_stories := bm_insert (sc_story_id c)
         \<lparr>st_context = next_context (max_recent_turns (ss_config s)) (st_context story) c, st_info = info,
          st_committed = bm_insert (commit_key c) c (st_committed story)\<rparr> (ss_stories s)\<rparr>"
proof (cases "bm_get (ss_stories s) (sc_story_id c)")
  case None
  then have "r = Err NotFound" "s' = s" using assms by (simp_all add: StoryStoreMem_commit_def)
  then show thesis by (rule failed)
next
  case story: (Some story)
  show thesis
  proof (cases "bm_get (st_committed story) (commit_key c)")
    case (Some old)
    then have "r = Ok old" "s' = s" using assms story by (simp_all add: StoryStoreMem_commit_def)
    then show thesis by (rule replayed [OF story Some])
  next
    case None
    show thesis
    proof (cases "check_commit json (st_context story) c")
      case (Inl e)
      then have "r = Err e" "s' = s" using assms story None by (simp_all add: StoryStoreMem_commit_def)
      then show thesis by (rule failed)
    next
      case (Inr u)
      define info where "info = (case sc_life_cycle c of Unchanged \<Rightarrow> st_info story
          | Replaced lc \<Rightarrow> (st_info story)\<lparr>sii_life_cycle := lc\<rparr>)\<lparr>sii_updated_at := now\<rparr>"
      have "sii_story_id info = sii_story_id (st_info story)"
        "sii_life_cycle info = (case sc_life_cycle c of Unchanged \<Rightarrow> sii_life_cycle (st_info story) | Replaced lc \<Rightarrow> lc)"
        by (simp_all add: info_def split: Change.splits)
      moreover have "r = Ok c" "s' = s\<lparr>ss_stories := bm_insert (sc_story_id c)
         \<lparr>st_context = next_context (max_recent_turns (ss_config s)) (st_context story) c, st_info = info,
          st_committed = bm_insert (commit_key c) c (st_committed story)\<rparr> (ss_stories s)\<rparr>"
        using assms story None Inr
        by (simp_all add: StoryStoreMem_commit_def info_def Let_def StoredStory_all_updated)
      moreover have "check_commit json (st_context story) c = Ok ()" using Inr by simp
      ultimately show thesis by (intro appended [OF story None])
    qed
  qed
qed

lemma story_log_append:
  assumes log: "story_log json l story ctx0 hist" and chk: "check_commit json (st_context story) c = Ok ()"
    and fresh: "bm_get (st_committed story) (commit_key c) = None" and sid: "sc_story_id c = ctx_story_id ctx0"
  shows "story_log json l \<lparr>st_context = next_context l (st_context story) c, st_info = info,
      st_committed = bm_insert (commit_key c) c (st_committed story)\<rparr> ctx0 (hist @ [c])"
proof -
  have link: "bm_get (st_committed story) k = Some d \<longleftrightarrow> d \<in> set hist \<and> commit_key d = k" for k d
    using log by (simp add: story_log_def)
  have new: "commit_key c \<notin> commit_key ` set hist"
  proof
    assume "commit_key c \<in> commit_key ` set hist"
    then obtain d where "d \<in> set hist" "commit_key d = commit_key c" by (auto simp: image_iff)
    then show False using link [of "commit_key c" d] fresh by simp
  qed
  have "bm_get (bm_insert (commit_key c) c (st_committed story)) k = Some d \<longleftrightarrow>
      d \<in> set (hist @ [c]) \<and> commit_key d = k" for k d
  proof (cases "k = commit_key c")
    case True
    then show ?thesis using new by (auto simp: image_iff)
  next
    case False
    then show ?thesis using link [of k d] by auto
  qed
  then show ?thesis
    using log chk sid new unfolding story_log_def by (simp add: valid_log_append)
qed

lemma story_inv_append:
  assumes inv: "story_inv json l sid story" and "check_commit json (st_context story) c = Ok ()"
    and "bm_get (st_committed story) (commit_key c) = None" and "sc_story_id c = sid"
    and "sii_story_id info = sii_story_id (st_info story)"
    and "sii_life_cycle info = (case sc_life_cycle c of Unchanged \<Rightarrow> sii_life_cycle (st_info story) | Replaced lc \<Rightarrow> lc)"
  shows "story_inv json l sid \<lparr>st_context = next_context l (st_context story) c, st_info = info,
      st_committed = bm_insert (commit_key c) c (st_committed story)\<rparr>"
proof -
  obtain ctx0 hist where "story_log json l story ctx0 hist" "ctx_story_id ctx0 = sid"
    using inv by (auto simp: story_inv_def)
  then have "\<exists>ctx0 hist. story_log json l \<lparr>st_context = next_context l (st_context story) c, st_info = info,
      st_committed = bm_insert (commit_key c) c (st_committed story)\<rparr> ctx0 hist \<and> ctx_story_id ctx0 = sid"
    using story_log_append assms(2,3,4) by blast
  moreover have "sii_life_cycle info = ctx_life_cycle (next_context l (st_context story) c)"
    using inv assms(6) by (simp add: story_inv_def split: Change.splits)
  ultimately show ?thesis
    using inv assms(5) check_commit_OkD(5) [OF assms(2)] by (simp add: story_inv_def)
qed

lemma store_inv_commit:
  assumes "store_inv json s" and "StoryStoreMem_commit json now c s = (r, s')"
  shows "store_inv json s'"
  using assms(2)
proof (cases rule: commit_cases)
  case (appended story info)
  have "story_inv json (max_recent_turns (ss_config s)) (sc_story_id c) story"
    using assms(1) appended(1) by (simp add: store_inv_def)
  from story_inv_append [OF this appended(3,2) refl appended(5,6)]
  show ?thesis using assms(1) by (simp add: store_inv_def appended(7))
qed (use assms(1) in simp_all)

text \<open>The two outcomes of a creation.\<close>

lemma create_cases:
  assumes "StoryStoreMem_create json now spec s = (r, s')"
  obtains (failed) e where "r = Err e" "s' = s"
  | (created) "r = Ok (created_info now spec)" "\<not> bm_contains (ss_stories s) (sis_story_id spec)"
      "validate_runtime_roles json (sis_roles spec) = Ok ()"
      "s' = s\<lparr>ss_stories := bm_insert (sis_story_id spec) (created_story now spec) (ss_stories s)\<rparr>"
  using assms
  by (cases "validate_runtime_roles json (sis_roles spec)")
     (auto simp: StoryStoreMem_create_def split: if_splits)

lemma fresh_created: "fresh_context (created_context spec)"
  by (simp add: fresh_context_def created_context_def)

lemma story_inv_created:
  assumes "validate_runtime_roles json (sis_roles spec) = Ok ()"
  shows "story_inv json l (sis_story_id spec) (created_story now spec)"
proof -
  have "story_log json l (created_story now spec) (created_context spec) []"
    by (simp add: story_log_def fresh_created created_story_def)
  then show ?thesis
    using assms by (auto simp: story_inv_def created_story_def created_info_def created_context_def)
qed

lemma store_inv_create:
  assumes "store_inv json s" and "StoryStoreMem_create json now spec s = (r, s')"
  shows "store_inv json s'"
  using assms(2)
proof (cases rule: create_cases)
  case created
  then show ?thesis using assms(1) story_inv_created by (simp add: store_inv_def)
qed (use assms(1) in simp)

lemma store_inv_remove:
  "store_inv json s \<Longrightarrow> StoryStoreMem_remove sid s = (r, s') \<Longrightarrow> store_inv json s'"
  by (auto simp: store_inv_def StoryStoreMem_remove_def split: option.splits if_splits)

lemma store_inv_new: "store_inv json (StoryStoreMem_with_config config)"
  by (simp add: store_inv_def StoryStoreMem_with_config_def)

section \<open>The window of recent turns\<close>

lemma pop_excess_drop: "pop_excess l ts = drop (length ts - l) ts"
proof (induction ts)
  case (Cons t ts)
  show ?case
  proof (cases "length (t # ts) > l")
    case True
    then have "length (t # ts) - l = Suc (length ts - l)" by (simp add: Suc_diff_le)
    then show ?thesis using True Cons by simp
  qed simp
qed simp

lemma pop_covered_dropWhile: "pop_covered c ts = dropWhile (\<lambda>t. turn_number t \<le> c) ts"
  by (induction ts) auto

lemma trimmed_drop: "\<exists>j. trimmed l s ts = drop j ts \<and> length ts - j \<le> l"
proof -
  have "\<exists>j. pop_covered c (drop (length ts - l) ts) = drop (j + (length ts - l)) ts" for c
    unfolding pop_covered_dropWhile by (metis dropWhile_eq_drop drop_drop)
  then show ?thesis
    by (fastforce simp: trimmed_def pop_excess_drop split: option.splits)
qed

abbreviation turn_sorted :: "Turn list \<Rightarrow> bool" where
  "turn_sorted \<equiv> sorted_wrt (\<lambda>a b. turn_number a < turn_number b)"

lemma pop_covered_uncovered:
  "turn_sorted ts \<Longrightarrow> t \<in> set (pop_covered c ts) \<Longrightarrow> c < turn_number t"
  by (induction ts) (auto split: if_splits intro: less_trans)

lemma log_turn_number:
  "valid_log json l ctx hist \<Longrightarrow>
   ctx_turn_number (foldl (next_context l) ctx hist) = ctx_turn_number ctx + of_nat (length hist)"
proof (induction hist arbitrary: ctx)
  case (Cons c hist)
  then show ?case using check_commit_OkD(2) [of json ctx c] by (simp add: add.assoc)
qed simp

lemma log_numbers:
  "valid_log json l ctx hist \<Longrightarrow> i < length hist \<Longrightarrow>
   turn_number (sc_turn (hist ! i)) = ctx_turn_number ctx + of_nat (Suc i)"
proof (induction hist arbitrary: ctx i)
  case (Cons c hist)
  show ?case
  proof (cases i)
    case 0
    then show ?thesis using Cons.prems check_commit_OkD(2) [of json ctx c] by simp
  next
    case (Suc k)
    have "turn_number (sc_turn (hist ! k)) = turn_number (sc_turn c) + of_nat (Suc k)"
      using Cons.IH [of "next_context l ctx c" k] Cons.prems Suc by simp
    then show ?thesis using Cons.prems check_commit_OkD(2) [of json ctx c] Suc by simp
  qed
qed simp

lemma log_sorted:
  assumes "valid_log json l ctx0 hist" and "ctx_turn_number ctx0 = 0" and "length hist < 2 ^ 64"
  shows "turn_sorted (map sc_turn hist)"
proof -
  have "turn_number (sc_turn (hist ! i)) < turn_number (sc_turn (hist ! j))"
    if "i < j" "j < length hist" for i j
  proof -
    have "unat (of_nat (Suc i) :: u64) = Suc i" "unat (of_nat (Suc j) :: u64) = Suc j"
      using that assms(3) by (simp_all add: unat_of_nat del: of_nat_Suc)
    then show ?thesis
      using that log_numbers [OF assms(1)] assms(2) by (simp add: word_less_nat_alt del: of_nat_Suc)
  qed
  then show ?thesis by (simp add: sorted_wrt_iff_nth_less)
qed

definition window_ok :: "nat \<Rightarrow> StoryContext \<Rightarrow> Turn list \<Rightarrow> bool" where
  "window_ok l ctx turns \<longleftrightarrow>
     (\<exists>k. ctx_recent_turns ctx = drop k turns) \<and> length (ctx_recent_turns ctx) \<le> l \<and>
     (\<forall>s. ctx_summary ctx = Some s \<longrightarrow> covered_through s \<le> ctx_turn_number ctx \<and>
        (\<forall>t \<in> set (ctx_recent_turns ctx). covered_through s < turn_number t))"

lemma drop_append_last: "drop k xs @ [x] = drop (min k (length xs)) (xs @ [x])"
  by (cases "k \<le> length xs") (simp_all add: min_def)

lemma log_window:
  assumes "valid_log json l ctx0 hist" and "fresh_context ctx0" and "length hist < 2 ^ 64"
  shows "window_ok l (foldl (next_context l) ctx0 hist) (map sc_turn hist)"
  using assms(1,3)
proof (induction hist rule: rev_induct)
  case Nil
  then show ?case using assms(2) by (auto simp: window_ok_def fresh_context_def)
next
  case (snoc c hist)
  let ?ctx = "foldl (next_context l) ctx0 hist"
  have valid: "valid_log json l ctx0 hist" and chk: "check_commit json ?ctx c = Ok ()"
    using snoc.prems(1) by (simp_all add: valid_log_append)
  have zero: "ctx_turn_number ctx0 = 0" using assms(2) by (simp add: fresh_context_def)
  have IH: "window_ok l ?ctx (map sc_turn hist)" using snoc.IH valid snoc.prems(2) by simp
  then obtain k where k: "ctx_recent_turns ?ctx = drop k (map sc_turn hist)" by (auto simp: window_ok_def)
  define all where "all = map sc_turn (hist @ [c])"
  have ext: "\<exists>k'. ctx_recent_turns ?ctx @ [sc_turn c] = drop k' all"
    unfolding k all_def using drop_append_last [of k "map sc_turn hist" "sc_turn c"]
    by (intro exI [of _ "min k (length hist)"]) (simp only: map_append list.map length_map)
  then obtain k' where k': "ctx_recent_turns ?ctx @ [sc_turn c] = drop k' all" by blast
  have sorted: "turn_sorted (ctx_recent_turns ?ctx @ [sc_turn c])"
    using log_sorted [OF snoc.prems(1) zero snoc.prems(2)] unfolding k' all_def by (rule sorted_wrt_drop)
  let ?ctx' = "next_context l ?ctx c"
  obtain j where j: "ctx_recent_turns ?ctx' = drop j (ctx_recent_turns ?ctx @ [sc_turn c])"
    "length (ctx_recent_turns ?ctx @ [sc_turn c]) - j \<le> l"
    using trimmed_drop [of l "ctx_summary (staged_context ?ctx c)" "ctx_recent_turns ?ctx @ [sc_turn c]"]
    by auto
  have unc: "covered_through s < turn_number t"
    if "ctx_summary ?ctx' = Some s" "t \<in> set (ctx_recent_turns ?ctx')" for s t
  proof -
    have "t \<in> set (pop_covered (covered_through s) (pop_excess l (ctx_recent_turns ?ctx @ [sc_turn c])))"
      using that by (simp add: trimmed_def)
    then show ?thesis
      using pop_covered_uncovered sorted unfolding pop_excess_drop by (metis sorted_wrt_drop)
  qed
  have step: "ctx_turn_number ?ctx \<le> turn_number (sc_turn c)"
  proof -
    have "ctx_turn_number ?ctx = of_nat (length hist)" "turn_number (sc_turn c) = of_nat (Suc (length hist))"
      using log_turn_number [OF valid] check_commit_OkD(2) [OF chk] zero by (simp_all add: add.commute)
    moreover have "unat (of_nat (length hist) :: u64) = length hist"
      "unat (of_nat (Suc (length hist)) :: u64) = Suc (length hist)"
      using snoc.prems(2) by (simp_all add: unat_of_nat del: of_nat_Suc)
    ultimately show ?thesis by (simp add: word_le_nat_alt del: of_nat_Suc)
  qed
  have cov: "covered_through s \<le> ctx_turn_number ?ctx'" if "ctx_summary ?ctx' = Some s" for s
    using that check_commit_OkD(3) [OF chk] IH step
    by (auto simp: check_summary_def window_ok_def split: Change.splits if_splits dest: order_trans)
  have "\<exists>k. ctx_recent_turns ?ctx' = drop k all" unfolding j(1) k' by (metis drop_drop)
  then show ?case using j unc cov unfolding window_ok_def all_def by simp
qed

section \<open>The interface (\<open>story_store.rs\<close>)\<close>

text \<open>
  What the clients of a story store rely on: reads do not change it (they return no state), failing
  operations change nothing, a story can be loaded after its creation, and a committed turn is found
  under its key and is returned for every retry.
\<close>

locale story_store =
  fixes ok :: "'s \<Rightarrow> bool"
    and create :: "StoryInstanceSpec \<Rightarrow> 's \<Rightarrow> (PersistenceError + StoryInstanceInfo) \<times> 's"
    and remove :: "StoryId \<Rightarrow> 's \<Rightarrow> (PersistenceError + unit) \<times> 's"
    and load :: "StoryId \<Rightarrow> 's \<Rightarrow> PersistenceError + StoryContext"
    and find_committed :: "StoryId \<Rightarrow> IdempotencyKey \<Rightarrow> 's \<Rightarrow> PersistenceError + StoryCommit option"
    and commit :: "StoryCommit \<Rightarrow> 's \<Rightarrow> (PersistenceError + StoryCommit) \<times> 's"
  assumes create_ok: "ok s \<Longrightarrow> create spec s = (r1, s') \<Longrightarrow> ok s'"
    and remove_ok: "ok s \<Longrightarrow> remove sid s = (r, s') \<Longrightarrow> ok s'"
    and commit_ok: "ok s \<Longrightarrow> commit c s = (r2, s') \<Longrightarrow> ok s'"
    and create_err: "create spec s = (Err e, s') \<Longrightarrow> s' = s"
    and remove_err: "remove sid s = (Err e, s') \<Longrightarrow> s' = s \<and> e = NotFound"
    and commit_err: "commit c s = (Err e, s') \<Longrightarrow> s' = s"
    and create_load: "create spec s = (Ok i, s') \<Longrightarrow> load (sis_story_id spec) s = Err NotFound \<and>
      (\<exists>ctx. load (sis_story_id spec) s' = Ok ctx \<and> fresh_context ctx \<and> ctx_pack_ref ctx = sis_pack_ref spec) \<and>
      (\<forall>sid. sid \<noteq> sis_story_id spec \<longrightarrow> load sid s' = load sid s)"
    and remove_load: "remove sid s = (r, s') \<Longrightarrow> load sid s' = Err NotFound \<and>
      (\<forall>sid'. sid' \<noteq> sid \<longrightarrow> load sid' s' = load sid' s)"
    and commit_pack_ref: "commit c s = (r2, s') \<Longrightarrow> rmap ctx_pack_ref (load sid s') = rmap ctx_pack_ref (load sid s)"
    and commit_found: "ok s \<Longrightarrow> commit c s = (Ok d, s') \<Longrightarrow>
      find_committed (sc_story_id c) (commit_key c) s' = Ok (Some d) \<and> commit_key d = commit_key c"
    and found_commit: "find_committed (sc_story_id c) (commit_key c) s = Ok (Some d) \<Longrightarrow> commit c s = (Ok d, s)"
begin

lemma retry_returns_first:
  assumes "ok s" and "commit c s = (Ok d, s')" and "sc_story_id c' = sc_story_id c"
    and "commit_key c' = commit_key c"
  shows "commit c' s' = (Ok d, s')"
  using commit_found [OF assms(1,2)] found_commit [of c' s' d] assms(3,4) by simp

lemma create_then_remove:
  assumes "create spec s = (Ok i, s')" and "remove (sis_story_id spec) s' = (Ok u, s'')"
  shows "load sid s'' = load sid s"
  using create_load [OF assms(1)] remove_load [OF assms(2)] by (cases "sid = sis_story_id spec") auto

end

lemma commit_found_mem:
  assumes inv: "store_inv json s" and eq: "StoryStoreMem_commit json now c s = (Ok d, s')"
  shows "StoryStoreMem_find_committed (sc_story_id c) (commit_key c) s' = Ok (Some d) \<and> commit_key d = commit_key c"
  using eq
proof (cases rule: commit_cases)
  case (failed e)
  then show ?thesis by simp
next
  case (replayed story old)
  have "story_inv json (max_recent_turns (ss_config s)) (sc_story_id c) story"
    using inv replayed(1) by (simp add: store_inv_def)
  then have "commit_key old = commit_key c"
    using replayed(2) by (auto simp: story_inv_def story_log_def)
  then show ?thesis using replayed by (simp add: StoryStoreMem_find_committed_def)
next
  case (appended story info)
  then show ?thesis by (simp add: StoryStoreMem_find_committed_def)
qed

interpretation sm: story_store "store_inv json" "StoryStoreMem_create json now" StoryStoreMem_remove
  StoryStoreMem_load StoryStoreMem_find_committed "StoryStoreMem_commit json now" for json now
proof (unfold_locales, goal_cases)
  case (1 s spec r s')
  then show ?case by (rule store_inv_create)
next
  case (2 s sid r s')
  then show ?case by (rule store_inv_remove)
next
  case (3 s c r s')
  then show ?case by (rule store_inv_commit)
next
  case (4 spec s e s')
  then show ?case by (cases rule: create_cases) auto
next
  case (5 sid s e s')
  then show ?case by (auto simp: StoryStoreMem_remove_def split: option.splits)
next
  case (6 c s e s')
  then show ?case by (cases rule: commit_cases) auto
next
  case (7 spec s i s')
  then show ?case
  proof (cases rule: create_cases)
    case created
    then show ?thesis
      by (simp add: StoryStoreMem_load_def bm_contains_def created_story_def fresh_created)
         (simp add: created_context_def)
  qed simp
next
  case (8 sid s r s')
  then show ?case
    by (auto simp: StoryStoreMem_remove_def StoryStoreMem_load_def split: option.splits)
next
  case (9 c s r s' sid)
  then show ?case
  proof (cases rule: commit_cases)
    case (appended story info)
    then show ?thesis by (simp add: StoryStoreMem_load_def)
  qed simp_all
next
  case (10 s c d s')
  then show ?case by (rule commit_found_mem)
next
  case (11 c s d)
  then show ?case
    by (auto simp: StoryStoreMem_find_committed_def StoryStoreMem_commit_def result_simps)
qed

section \<open>The SQLite store (\<open>story_store_sqlite.rs\<close>)\<close>

record StoryStoreSqlite =
  sq_fake_store :: StoryStoreMem

definition StoryStoreSqlite_new :: "StoryStoreConfig \<Rightarrow> StoryStoreSqlite" where
  "StoryStoreSqlite_new config = \<lparr>sq_fake_store = StoryStoreMem_with_config config\<rparr>"

definition lift_sqlite :: "(StoryStoreMem \<Rightarrow> 'r \<times> StoryStoreMem) \<Rightarrow> StoryStoreSqlite \<Rightarrow> 'r \<times> StoryStoreSqlite" where
  "lift_sqlite f s = (case f (sq_fake_store s) of (r, m) \<Rightarrow> (r, s\<lparr>sq_fake_store := m\<rparr>))"

definition StoryStoreSqlite_create where
  "StoryStoreSqlite_create json now spec = lift_sqlite (StoryStoreMem_create json now spec)"

definition StoryStoreSqlite_remove where
  "StoryStoreSqlite_remove sid = lift_sqlite (StoryStoreMem_remove sid)"

definition StoryStoreSqlite_get_info where
  "StoryStoreSqlite_get_info sid s = StoryStoreMem_get_info sid (sq_fake_store s)"

definition StoryStoreSqlite_load where
  "StoryStoreSqlite_load sid s = StoryStoreMem_load sid (sq_fake_store s)"

definition StoryStoreSqlite_find_committed where
  "StoryStoreSqlite_find_committed sid key s = StoryStoreMem_find_committed sid key (sq_fake_store s)"

definition StoryStoreSqlite_commit where
  "StoryStoreSqlite_commit json now c = lift_sqlite (StoryStoreMem_commit json now c)"

lemma lift_sqlite_eq:
  "lift_sqlite f s = (r, s') \<longleftrightarrow> (\<exists>m. f (sq_fake_store s) = (r, m) \<and> s' = s\<lparr>sq_fake_store := m\<rparr>)"
  by (auto simp: lift_sqlite_def split: prod.splits)

lemmas sqlite_defs = StoryStoreSqlite_create_def StoryStoreSqlite_remove_def StoryStoreSqlite_load_def
  StoryStoreSqlite_find_committed_def StoryStoreSqlite_commit_def lift_sqlite_eq

interpretation sq: story_store "\<lambda>s. store_inv json (sq_fake_store s)" "StoryStoreSqlite_create json now"
  StoryStoreSqlite_remove StoryStoreSqlite_load StoryStoreSqlite_find_committed
  "StoryStoreSqlite_commit json now" for json now
proof (unfold_locales, goal_cases)
  case (1 s spec r s')
  then show ?case by (auto simp: sqlite_defs dest: store_inv_create)
next
  case (2 s sid r s')
  then show ?case by (auto simp: sqlite_defs dest: store_inv_remove)
next
  case (3 s c r s')
  then show ?case by (auto simp: sqlite_defs dest: store_inv_commit)
next
  case (4 spec s e s')
  then show ?case by (auto simp: sqlite_defs dest: sm.create_err)
next
  case (5 sid s e s')
  then show ?case by (auto simp: sqlite_defs dest: sm.remove_err)
next
  case (6 c s e s')
  then show ?case by (auto simp: sqlite_defs dest: sm.commit_err)
next
  case (7 spec s i s')
  then show ?case by (auto simp: sqlite_defs dest!: sm.create_load)
next
  case (8 sid s r s')
  then show ?case by (auto simp: sqlite_defs dest!: sm.remove_load)
next
  case (9 c s r s' sid)
  then show ?case using sm.commit_pack_ref by (auto simp: sqlite_defs)
next
  case (10 s c d s')
  then show ?case using commit_found_mem by (auto simp: sqlite_defs)
next
  case (11 c s d)
  then show ?case using sm.found_commit by (auto simp: sqlite_defs)
qed

section \<open>What the engine relies on\<close>

text \<open>The states a memory store can be in.\<close>

inductive store_reachable :: "(roles \<Rightarrow> json_stream) \<Rightarrow> StoryStoreConfig \<Rightarrow> StoryStoreMem \<Rightarrow> bool"
  for json config where
  empty: "store_reachable json config (StoryStoreMem_with_config config)"
| created: "store_reachable json config s \<Longrightarrow> StoryStoreMem_create json now spec s = (r, s') \<Longrightarrow>
    store_reachable json config s'"
| removed: "store_reachable json config s \<Longrightarrow> StoryStoreMem_remove sid s = (r, s') \<Longrightarrow>
    store_reachable json config s'"
| committed: "store_reachable json config s \<Longrightarrow> StoryStoreMem_commit json now c s = (r, s') \<Longrightarrow>
    store_reachable json config s'"

lemma store_reachable_inv: "store_reachable json config s \<Longrightarrow> store_inv json s"
  by (induction rule: store_reachable.induct)
     (auto simp: store_inv_new intro: store_inv_create store_inv_remove store_inv_commit)

lemma store_inv_log:
  assumes "store_inv json s" and "bm_get (ss_stories s) sid = Some story"
  obtains ctx0 hist where "story_log json (max_recent_turns (ss_config s)) story ctx0 hist" "ctx_story_id ctx0 = sid"
proof -
  have "story_inv json (max_recent_turns (ss_config s)) sid story" using assms by (simp add: store_inv_def)
  then show thesis using that by (auto simp: story_inv_def)
qed

text \<open>
  C2. A story is the replay of its commits. In every reachable store the context of a story is
  obtained from a fresh context by applying a list of commits, in which the i-th commit (from 0) has
  turn number i + 1, no idempotency key occurs twice, and which holds exactly the commits the
  store answers retries with.
\<close>

theorem reachable_story_replays:
  assumes "store_reachable json config s" and "bm_get (ss_stories s) sid = Some story"
  shows "\<exists>ctx0 hist. fresh_context ctx0 \<and> ctx_story_id ctx0 = sid \<and>
    st_context story = foldl (next_context (max_recent_turns (ss_config s))) ctx0 hist \<and>
    (\<forall>i < length hist. turn_number (sc_turn (hist ! i)) = of_nat (Suc i)) \<and>
    ctx_turn_number (st_context story) = of_nat (length hist) \<and>
    distinct (map commit_key hist) \<and>
    (\<forall>k c. bm_get (st_committed story) k = Some c \<longleftrightarrow> c \<in> set hist \<and> commit_key c = k)"
proof -
  obtain ctx0 hist where log: "story_log json (max_recent_turns (ss_config s)) story ctx0 hist"
    and sid: "ctx_story_id ctx0 = sid" by (rule store_inv_log [OF store_reachable_inv [OF assms(1)] assms(2)])
  have valid: "valid_log json (max_recent_turns (ss_config s)) ctx0 hist" and zero: "ctx_turn_number ctx0 = 0"
    using log by (simp_all add: story_log_def fresh_context_def)
  show ?thesis
    using log sid log_numbers [OF valid] log_turn_number [OF valid] zero
    by (intro exI [of _ ctx0] exI [of _ hist]) (simp add: story_log_def)
qed

text \<open>
  C27. The window of recent turns of a story with fewer than 2^64 turns is a suffix of its turns, is
  never longer than the configured limit, and holds only turns after those its summary covers; the
  summary never covers a turn that was not committed.
\<close>

theorem reachable_story_window:
  assumes "store_reachable json config s" and "bm_get (ss_stories s) sid = Some story"
  shows "\<exists>ctx0 hist. story_log json (max_recent_turns (ss_config s)) story ctx0 hist \<and>
    (length hist < 2 ^ 64 \<longrightarrow>
      window_ok (max_recent_turns (ss_config s)) (st_context story) (map sc_turn hist))"
proof -
  obtain ctx0 hist where log: "story_log json (max_recent_turns (ss_config s)) story ctx0 hist"
    by (rule store_inv_log [OF store_reachable_inv [OF assms(1)] assms(2)])
  then show ?thesis
    using log_window [of json "max_recent_turns (ss_config s)" ctx0 hist]
    by (auto simp: story_log_def)
qed

text \<open>
  Retrying is safe. Once a commit succeeded, every later commit for the same story and
  idempotency key, whatever its content, returns the first commit and leaves the store as it is;
  a commit that fails changes nothing.
\<close>

lemma commit_retry_safe:
  assumes "store_inv json s" and "StoryStoreMem_commit json now c s = (r, s')"
    and "sc_story_id c' = sc_story_id c" and "commit_key c' = commit_key c"
  shows "case r of Inl e \<Rightarrow> s' = s | Inr d \<Rightarrow> StoryStoreMem_commit json now' c' s' = (Ok d, s')"
proof (cases r)
  case (Inl e)
  then show ?thesis using sm.commit_err assms(2) by simp
next
  case (Inr d)
  have "StoryStoreMem_find_committed (sc_story_id c') (commit_key c') s' = Ok (Some d)"
    using commit_found_mem [OF assms(1)] assms Inr by simp
  then show ?thesis using sm.found_commit Inr by simp
qed

text \<open>
  C26. The knowledge a committed turn changes is changed exactly as its operations say and nothing
  else: every fact, rumor and memory is looked up in the new context as the effect of the one
  operation on its key, if there is one, on the old entry.
\<close>

theorem commit_knowledge_effect:
  assumes "check_commit json ctx c = Ok ()" and "change = knowledge_change (sc_turn c)"
    and "n = turn_number (sc_turn c)" and "ctx' = next_context l ctx c"
  shows "bm_get (ctx_facts ctx') i = (case find (\<lambda>op. fact_op_id op = i) (kc_facts change) of
        None \<Rightarrow> bm_get (ctx_facts ctx) i | Some op \<Rightarrow> fact_effect n op (bm_get (ctx_facts ctx) i)) \<and>
    bm_get (ctx_rumors ctx') j = (case find (\<lambda>op. rumor_op_id op = j) (kc_rumors change) of
        None \<Rightarrow> bm_get (ctx_rumors ctx) j | Some op \<Rightarrow> rumor_effect n op (bm_get (ctx_rumors ctx) j)) \<and>
    get_memory (ctx_roles ctx') k = (case find (\<lambda>op. memory_op_key op = k) (kc_memories change) of
        None \<Rightarrow> get_memory (ctx_roles ctx) k | Some op \<Rightarrow> memory_effect n op (get_memory (ctx_roles ctx) k))"
proof -
  note v = check_commit_OkD(4) [OF assms(1), unfolded validate_knowledge_change_Ok_iff]
  have "\<forall>op \<in> set (kc_memories (knowledge_change (sc_turn c))).
      bm_contains (ctx_roles ctx) (fst (memory_op_key op))"
    using v memory_op_check_role by blast
  then show ?thesis
    unfolding assms(2-4) using v by (simp add: fact_ops_get rumor_ops_get memory_ops_get)
qed

end
