(* ===== verification/Store.thy ===== *)
theory Store
  imports Story_Store
begin

text \<open>
  \<open>persistence/store.rs\<close>: the store of the engine, a story store and a pack store behind their
  traits, and the two operations that span them. A trait object is the sum of the backends the
  source implements; the traits' locales are interpreted on the sums, and everything about
  \<open>create_story\<close> and \<open>remove_story\<close> follows from the laws of the two interfaces. Each operation of
  the store is one step here: two creations or removals of the same story do not interleave.
\<close>

section \<open>Backends\<close>

datatype PackBackend = PackMem PackStoreMem | PackSqlite PackStoreSqlite

datatype StoryBackend = StoryMem StoryStoreMem | StorySqlite StoryStoreSqlite

fun PackBackend_retain ::
  "StoryId \<Rightarrow> StoryPackSnapshot \<Rightarrow> PackBackend \<Rightarrow> (PersistenceError + unit) \<times> PackBackend" where
  "PackBackend_retain sid snap (PackMem s) = map_prod id PackMem (PackStoreMem_retain sid snap s)"
| "PackBackend_retain sid snap (PackSqlite s) = map_prod id PackSqlite (PackStoreSqlite_retain sid snap s)"

fun PackBackend_release :: "StoryId \<Rightarrow> PackBackend \<Rightarrow> (PersistenceError + unit) \<times> PackBackend" where
  "PackBackend_release sid (PackMem s) = map_prod id PackMem (PackStoreMem_release sid s)"
| "PackBackend_release sid (PackSqlite s) = map_prod id PackSqlite (PackStoreSqlite_release sid s)"

fun PackBackend_get_pack :: "PackRef \<Rightarrow> PackBackend \<Rightarrow> PersistenceError + StoryPack" where
  "PackBackend_get_pack pr (PackMem s) = PackStoreMem_get_pack pr s"
| "PackBackend_get_pack pr (PackSqlite s) = PackStoreSqlite_get_pack pr s"

fun StoryBackend_create ::
  "(roles \<Rightarrow> json_stream) \<Rightarrow> instant \<Rightarrow> StoryInstanceSpec \<Rightarrow> StoryBackend \<Rightarrow>
   (PersistenceError + StoryInstanceInfo) \<times> StoryBackend" where
  "StoryBackend_create json now spec (StoryMem s) = map_prod id StoryMem (StoryStoreMem_create json now spec s)"
| "StoryBackend_create json now spec (StorySqlite s) =
     map_prod id StorySqlite (StoryStoreSqlite_create json now spec s)"

fun StoryBackend_remove :: "StoryId \<Rightarrow> StoryBackend \<Rightarrow> (PersistenceError + unit) \<times> StoryBackend" where
  "StoryBackend_remove sid (StoryMem s) = map_prod id StoryMem (StoryStoreMem_remove sid s)"
| "StoryBackend_remove sid (StorySqlite s) = map_prod id StorySqlite (StoryStoreSqlite_remove sid s)"

fun StoryBackend_get_info :: "StoryId \<Rightarrow> StoryBackend \<Rightarrow> PersistenceError + StoryInstanceInfo" where
  "StoryBackend_get_info sid (StoryMem s) = StoryStoreMem_get_info sid s"
| "StoryBackend_get_info sid (StorySqlite s) = StoryStoreSqlite_get_info sid s"

fun StoryBackend_load :: "StoryId \<Rightarrow> StoryBackend \<Rightarrow> PersistenceError + StoryContext" where
  "StoryBackend_load sid (StoryMem s) = StoryStoreMem_load sid s"
| "StoryBackend_load sid (StorySqlite s) = StoryStoreSqlite_load sid s"

fun StoryBackend_find_committed ::
  "StoryId \<Rightarrow> IdempotencyKey \<Rightarrow> StoryBackend \<Rightarrow> PersistenceError + StoryCommit option" where
  "StoryBackend_find_committed sid key (StoryMem s) = StoryStoreMem_find_committed sid key s"
| "StoryBackend_find_committed sid key (StorySqlite s) = StoryStoreSqlite_find_committed sid key s"

fun StoryBackend_commit ::
  "(roles \<Rightarrow> json_stream) \<Rightarrow> instant \<Rightarrow> StoryCommit \<Rightarrow> StoryBackend \<Rightarrow>
   (PersistenceError + StoryCommit) \<times> StoryBackend" where
  "StoryBackend_commit json now c (StoryMem s) = map_prod id StoryMem (StoryStoreMem_commit json now c s)"
| "StoryBackend_commit json now c (StorySqlite s) =
     map_prod id StorySqlite (StoryStoreSqlite_commit json now c s)"

section \<open>The store\<close>

record Store =
  store_story :: StoryBackend
  store_pack :: PackBackend

record PersistanceConfig =
  pers_story_store :: StoryStoreConfig
  pers_pack_store :: PackStoreConfig

definition create_story_store :: "StoryStoreConfig \<Rightarrow> StoryBackend" where
  "create_story_store config =
     (case ssc_store_type config of
        Memory \<Rightarrow> StoryMem (StoryStoreMem_with_config config)
      | Sqlite \<Rightarrow> StorySqlite (StoryStoreSqlite_new config))"

definition create_pack_store :: "PackStoreConfig \<Rightarrow> PackBackend" where
  "create_pack_store config =
     (case psc_store_type config of
        Memory \<Rightarrow> PackMem (PackStoreMem_with_config config)
      | Sqlite \<Rightarrow> PackSqlite (PackStoreSqlite_new config))"

definition Store_new :: "PersistanceConfig \<Rightarrow> Store" where
  "Store_new config =
     \<lparr>store_story = create_story_store (pers_story_store config),
      store_pack = create_pack_store (pers_pack_store config)\<rparr>"

definition Store_create_story ::
  "(roles \<Rightarrow> json_stream) \<Rightarrow> instant \<Rightarrow> StoryCreateBundle \<Rightarrow> Store \<Rightarrow>
   (PersistenceError + StoryInstanceInfo) \<times> Store" where
  "Store_create_story json now bundle st =
     (let instance = scb_instance bundle; sid = sis_story_id instance
      in case PackBackend_retain sid (scb_snapshot bundle) (store_pack st) of
           (Inl e, p) \<Rightarrow> (Err e, st\<lparr>store_pack := p\<rparr>)
         | (Inr _, p) \<Rightarrow>
             (case StoryBackend_create json now instance (store_story st) of
                (Inr info, s) \<Rightarrow> (Ok info, st\<lparr>store_story := s, store_pack := p\<rparr>)
              | (Inl create_source, s) \<Rightarrow>
                  (case PackBackend_release sid p of
                     (Inr _, p') \<Rightarrow> (Err create_source, st\<lparr>store_story := s, store_pack := p'\<rparr>)
                   | (Inl cleanup_source, p') \<Rightarrow>
                       (Err (CreateCompensationFailed sid create_source cleanup_source),
                        st\<lparr>store_story := s, store_pack := p'\<rparr>))))"

definition Store_remove_story :: "StoryId \<Rightarrow> Store \<Rightarrow> (PersistenceError + unit) \<times> Store" where
  "Store_remove_story sid st =
     (case StoryBackend_remove sid (store_story st) of
        (r, s) \<Rightarrow>
          let st1 = st\<lparr>store_story := s\<rparr>
          in if (case r of Inr _ \<Rightarrow> True | Inl e \<Rightarrow> e = NotFound)
             then (case PackBackend_release sid (store_pack st1) of
                     (Inl e, p) \<Rightarrow> (Err e, st1\<lparr>store_pack := p\<rparr>)
                   | (Inr _, p) \<Rightarrow> (Ok (), st1\<lparr>store_pack := p\<rparr>))
             else (case r of Inl e \<Rightarrow> (Err e, st1) | Inr _ \<Rightarrow> (Ok (), st1)))"

section \<open>The backends implement their interfaces\<close>

fun pack_backend_ok :: "PackBackend \<Rightarrow> bool" where
  "pack_backend_ok (PackMem s) = pack_inv s"
| "pack_backend_ok (PackSqlite s) = pack_inv (pq_fake_store s)"

fun pack_backend_held :: "PackBackend \<Rightarrow> StoryId \<Rightarrow> PackRef option" where
  "pack_backend_held (PackMem s) = pack_held s"
| "pack_backend_held (PackSqlite s) = pack_held (pq_fake_store s)"

fun story_backend_ok :: "(roles \<Rightarrow> json_stream) \<Rightarrow> StoryBackend \<Rightarrow> bool" where
  "story_backend_ok json (StoryMem s) = store_inv json s"
| "story_backend_ok json (StorySqlite s) = store_inv json (sq_fake_store s)"

lemma map_prod_id_eq: "map_prod id f p = (r, y) \<longleftrightarrow> (\<exists>x. p = (r, x) \<and> y = f x)"
  by (cases p) auto

interpretation pb: pack_store pack_backend_ok PackBackend_retain PackBackend_release
  PackBackend_get_pack pack_backend_held
proof (unfold_locales, goal_cases)
  case (1 s sid snap r s')
  then show ?case by (cases s) (auto simp: map_prod_id_eq dest: pm.retain_ok pq.retain_ok)
next
  case (2 s sid r s')
  then show ?case by (cases s) (auto simp: map_prod_id_eq dest: pm.release_ok pq.release_ok)
next
  case (3 sid snap s e s')
  then show ?case by (cases s) (auto simp: map_prod_id_eq dest: pm.retain_err pq.retain_err)
next
  case (4 s sid snap u s')
  then show ?case
    by (cases s) (auto simp: map_prod_id_eq dest: pm.retain_held pq.retain_held)
next
  case (5 s sid snap u s')
  then show ?case
    by (cases s) (auto simp: map_prod_id_eq dest: pm.retain_release pq.retain_release)
next
  case (6 s sid u s')
  then show ?case
    by (cases s) (auto simp: map_prod_id_eq dest: pm.release_held pq.release_held)
next
  case (7 s sid pr)
  then show ?case by (cases s) (auto dest: pm.held_get pq.held_get)
qed

interpretation sb: story_store "story_backend_ok json" "StoryBackend_create json now" StoryBackend_remove
  StoryBackend_load StoryBackend_find_committed "StoryBackend_commit json now" for json now
proof (unfold_locales, goal_cases)
  case (1 s spec r s')
  then show ?case by (cases s) (auto simp: map_prod_id_eq dest: sm.create_ok sq.create_ok)
next
  case (2 s sid r s')
  then show ?case by (cases s) (auto simp: map_prod_id_eq dest: sm.remove_ok sq.remove_ok)
next
  case (3 s c r s')
  then show ?case by (cases s) (auto simp: map_prod_id_eq dest: sm.commit_ok sq.commit_ok)
next
  case (4 spec s e s')
  then show ?case by (cases s) (auto simp: map_prod_id_eq dest: sm.create_err sq.create_err)
next
  case (5 sid s e s')
  then show ?case by (cases s) (auto simp: map_prod_id_eq dest: sm.remove_err sq.remove_err)
next
  case (6 c s e s')
  then show ?case by (cases s) (auto simp: map_prod_id_eq dest: sm.commit_err sq.commit_err)
next
  case (7 spec s i s')
  then show ?case by (cases s) (auto simp: map_prod_id_eq dest!: sm.create_load sq.create_load)
next
  case (8 sid s r s')
  then show ?case by (cases s) (auto simp: map_prod_id_eq dest!: sm.remove_load sq.remove_load)
next
  case (9 c s r s' sid)
  then show ?case by (cases s) (auto simp: map_prod_id_eq intro: sm.commit_pack_ref sq.commit_pack_ref)
next
  case (10 s c d s')
  then show ?case by (cases s) (auto simp: map_prod_id_eq dest: sm.commit_found sq.commit_found)
next
  case (11 c s d)
  then show ?case by (cases s) (auto simp: map_prod_id_eq dest: sm.found_commit sq.found_commit)
qed

section \<open>The stores together\<close>

definition bundle_ok :: "StoryCreateBundle \<Rightarrow> bool" where
  "bundle_ok b \<longleftrightarrow> sis_pack_ref (scb_instance b) = snap_pack_ref (scb_snapshot b)"

lemma assembled_bundle_ok: "bundle_ok (StoryCreateBundle_assemble a b c d e f g h i)"
  by (simp add: bundle_ok_def StoryCreateBundle_assemble_def)

definition loaded_ref :: "StoryBackend \<Rightarrow> StoryId \<Rightarrow> PackRef option" where
  "loaded_ref s sid = (case StoryBackend_load sid s of Inl _ \<Rightarrow> None | Inr ctx \<Rightarrow> Some (ctx_pack_ref ctx))"

text \<open>Both stores are well formed and a story holds a pack exactly while it exists.\<close>

definition store_ok :: "(roles \<Rightarrow> json_stream) \<Rightarrow> Store \<Rightarrow> bool" where
  "store_ok json st \<longleftrightarrow> pack_backend_ok (store_pack st) \<and> story_backend_ok json (store_story st) \<and>
     pack_backend_held (store_pack st) = loaded_ref (store_story st)"

text \<open>The two outcomes of \<open>create_story\<close>: the compensation always succeeds.\<close>

lemma create_story_cases:
  assumes ok: "pack_backend_ok (store_pack st)" and eq: "Store_create_story json now b st = (r, st')"
  obtains (failed) e where "r = Err e" "st' = st"
  | (created) info p s where "r = Ok info" "st' = st\<lparr>store_story := s, store_pack := p\<rparr>"
      "PackBackend_retain (sis_story_id (scb_instance b)) (scb_snapshot b) (store_pack st) = (Ok (), p)"
      "StoryBackend_create json now (scb_instance b) (store_story st) = (Ok info, s)"
proof -
  let ?sid = "sis_story_id (scb_instance b)"
  obtain rp p where rp: "PackBackend_retain ?sid (scb_snapshot b) (store_pack st) = (rp, p)" by fastforce
  obtain rc s where rc: "StoryBackend_create json now (scb_instance b) (store_story st) = (rc, s)" by fastforce
  show thesis
  proof (cases rp)
    case (Inl e)
    then have "p = store_pack st" using rp pb.retain_err by simp
    then show thesis using failed eq rp Inl by (auto simp: Store_create_story_def Let_def)
  next
    case (Inr u)
    then have rel: "PackBackend_release ?sid p = (Ok (), store_pack st)"
      using pb.retain_release [OF ok] rp by simp
    show thesis
    proof (cases rc)
      case (Inl e)
      then have "s = store_story st" using rc sb.create_err by simp
      then show thesis using failed eq rp rc rel Inl Inr by (auto simp: Store_create_story_def Let_def)
    next
      case (Inr info)
      then show thesis using created eq rp rc \<open>rp = Inr u\<close> by (auto simp: Store_create_story_def Let_def)
    qed
  qed
qed

lemma store_ok_create:
  assumes ok: "store_ok json st" and b: "bundle_ok b" and eq: "Store_create_story json now b st = (r, st')"
  shows "store_ok json st'"
proof -
  have pok: "pack_backend_ok (store_pack st)" and sok: "story_backend_ok json (store_story st)"
    and link: "pack_backend_held (store_pack st) = loaded_ref (store_story st)"
    using ok by (simp_all add: store_ok_def)
  from pok eq show ?thesis
  proof (cases rule: create_story_cases)
    case (failed e)
    then show ?thesis using ok by simp
  next
    case (created info p s)
    let ?sid = "sis_story_id (scb_instance b)"
    have "pack_backend_ok p" "story_backend_ok json s"
      using pb.retain_ok [OF pok created(3)] sb.create_ok [OF sok created(4)] by simp_all
    moreover have "pack_backend_held p = loaded_ref s"
    proof
      fix sid
      show "pack_backend_held p sid = loaded_ref s sid"
        using pb.retain_held [OF pok created(3)] sb.create_load [OF created(4)] link b
        by (cases "sid = ?sid") (auto simp: loaded_ref_def bundle_ok_def)
    qed
    ultimately show ?thesis by (simp add: store_ok_def created(2))
  qed
qed

lemma release_never_fails: "\<exists>s'. PackBackend_release sid s = (Ok (), s')"
  by (cases s) (auto simp: PackStoreSqlite_release_def PackStoreMem_release_def map_prod_id_eq split: option.splits)

lemma store_ok_remove:
  assumes ok: "store_ok json st" and eq: "Store_remove_story sid st = (r, st')"
  shows "store_ok json st'" and "r = Ok ()" and "loaded_ref (store_story st') = (loaded_ref (store_story st))(sid := None)"
proof -
  have pok: "pack_backend_ok (store_pack st)" and sok: "story_backend_ok json (store_story st)"
    and link: "pack_backend_held (store_pack st) = loaded_ref (store_story st)"
    using ok by (simp_all add: store_ok_def)
  obtain rs s where rs: "StoryBackend_remove sid (store_story st) = (rs, s)" by fastforce
  obtain p where p: "PackBackend_release sid (store_pack st) = (Ok (), p)" using release_never_fails by blast
  have "case rs of Inr _ \<Rightarrow> True | Inl e \<Rightarrow> e = NotFound"
    using sb.remove_err rs by (auto split: sum.splits)
  then have st': "st' = st\<lparr>store_story := s, store_pack := p\<rparr>" and r: "r = Ok ()"
    using eq rs p by (simp_all add: Store_remove_story_def Let_def)
  have lr: "loaded_ref s = (loaded_ref (store_story st))(sid := None)"
    using sb.remove_load [OF rs] by (auto simp: loaded_ref_def fun_eq_iff)
  have "pack_backend_ok p" "story_backend_ok json s"
    using pb.release_ok [OF pok p] sb.remove_ok [OF sok rs] by simp_all
  then show "store_ok json st'"
    using pb.release_held [OF pok p] lr link by (simp add: store_ok_def st')
  show "r = Ok ()" by (rule r)
  show "loaded_ref (store_story st') = (loaded_ref (store_story st))(sid := None)" using lr st' by simp
qed

lemma store_ok_commit:
  assumes ok: "store_ok json st" and eq: "StoryBackend_commit json now c (store_story st) = (r, s)"
  shows "store_ok json (st\<lparr>store_story := s\<rparr>)"
proof -
  have "loaded_ref s sid = loaded_ref (store_story st) sid" for sid
    using sb.commit_pack_ref [OF eq, of sid]
    by (cases "StoryBackend_load sid s"; cases "StoryBackend_load sid (store_story st)")
       (auto simp: loaded_ref_def)
  then show ?thesis using ok sb.commit_ok [OF _ eq] by (simp add: store_ok_def fun_eq_iff)
qed

lemma store_ok_new: "store_ok json (Store_new config)"
proof -
  have 1: "pack_backend_ok (create_pack_store c) \<and> pack_backend_held (create_pack_store c) sid = None" for c sid
    by (simp add: create_pack_store_def PackStoreSqlite_new_def pack_inv_new pack_held_def
        PackStoreMem_with_config_def [of c] pack_inv_new [unfolded PackStoreMem_with_config_def] split: StoreType.splits)
  have 2: "story_backend_ok json (create_story_store c) \<and> loaded_ref (create_story_store c) sid = None" for c sid
    using store_inv_new [of json c]
    by (simp add: create_story_store_def StoryStoreSqlite_new_def loaded_ref_def StoryStoreSqlite_load_def
        StoryStoreMem_load_def split: StoreType.splits) (simp add: StoryStoreMem_with_config_def)
  show ?thesis using 1 2 by (simp add: store_ok_def Store_new_def fun_eq_iff)
qed

inductive engine_store_reachable :: "(roles \<Rightarrow> json_stream) \<Rightarrow> PersistanceConfig \<Rightarrow> Store \<Rightarrow> bool"
  for json config where
  start: "engine_store_reachable json config (Store_new config)"
| create: "engine_store_reachable json config st \<Longrightarrow> bundle_ok b \<Longrightarrow>
    Store_create_story json now b st = (r, st') \<Longrightarrow> engine_store_reachable json config st'"
| remove: "engine_store_reachable json config st \<Longrightarrow> Store_remove_story sid st = (r, st') \<Longrightarrow>
    engine_store_reachable json config st'"
| commit: "engine_store_reachable json config st \<Longrightarrow>
    StoryBackend_commit json now c (store_story st) = (r, s) \<Longrightarrow>
    engine_store_reachable json config (st\<lparr>store_story := s\<rparr>)"

lemma engine_store_reachable_ok: "engine_store_reachable json config st \<Longrightarrow> store_ok json st"
  by (induction rule: engine_store_reachable.induct)
     (auto intro: store_ok_new store_ok_create store_ok_remove(1) store_ok_commit)

text \<open>
  C24. A story creation that fails leaves both stores exactly as they were: when the story store
  refuses the instance, releasing the pack undoes its retention, and the compensation itself never
  fails.
\<close>

theorem create_story_atomic:
  assumes "engine_store_reachable json config st" and "Store_create_story json now b st = (Err e, st')"
  shows "st' = st"
proof -
  have "pack_backend_ok (store_pack st)"
    using engine_store_reachable_ok [OF assms(1)] by (simp add: store_ok_def)
  from this assms(2) show ?thesis by (cases rule: create_story_cases) auto
qed


end
