(* ===== verification/Pipeline_Common.thy ===== *)
theory Pipeline_Common
  imports Store
begin

text \<open>
  \<open>pipeline/common\<close>: stages and errors of the turn pipeline, the validation report, the proposal
  quality policy, and the projections of story data into prompt text that several stages share.

  Three things a stage calls are parameters, the fields of \<open>pipe_env\<close>: the JSON printer of
  \<open>serde_json\<close> (\<open>pe_json\<close>), the template engine behind \<open>Prompt::render\<close> (\<open>pe_render\<close>) and the
  language model behind \<open>LlmGateway\<close> (\<open>pe_llm\<close>). The answer of the model may depend on which
  call of the turn it is; every call site of a turn is a different \<open>llm_call\<close>, so that a function
  describes any behaviour of the model within a turn. Traces are not modelled; the text of an error
  message is not, its stage and code are.
\<close>

section \<open>Messages, models, prompts\<close>

datatype ChatMessageRole = System | User

record ChatMessage =
  cmsg_role :: ChatMessageRole
  cmsg_content :: str

datatype LlmError =
    Cancelled
  | Timeout
  | ConcurrencyLimiterClosed
  | Transport
  | Rejected u16 "str option"
  | InvalidResponse string
  | EmptyCompletion

fun LlmError_kind :: "LlmError \<Rightarrow> string" where
  "LlmError_kind Cancelled = ''cancelled''"
| "LlmError_kind Timeout = ''timeout''"
| "LlmError_kind ConcurrencyLimiterClosed = ''concurrency_limiter_closed''"
| "LlmError_kind Transport = ''transport''"
| "LlmError_kind (Rejected s m) = ''rejected''"
| "LlmError_kind (InvalidResponse r) = ''invalid_response''"
| "LlmError_kind EmptyCompletion = ''empty_completion''"

datatype PromptLayer = Csi | Rc | Fti

text \<open>
  The variants of \<open>PromptError\<close> with what they carry, except the \<open>source\<close> errors of the file
  system, the TOML parser and the template engine they wrap. A path is its text.
\<close>

datatype PromptError =
    PromptInvalidConfig string string
  | ManifestRead str
  | ManifestTooLarge str nat nat
  | ManifestParse str
  | TooManyPrompts nat nat
  | EmptyPromptId nat
  | DuplicatePromptId str
  | PromptNotFound str
  | InvalidTemplatePath str PromptLayer str string
  | TemplateRead str PromptLayer str
  | TemplateTooLarge str PromptLayer str nat nat
  | TotalTemplateBytesExceeded nat nat
  | TemplateCompile str PromptLayer
  | TemplateRender str PromptLayer

fun PromptError_kind :: "PromptError \<Rightarrow> string" where
  "PromptError_kind (PromptInvalidConfig field reason) = ''invalid_config''"
| "PromptError_kind (ManifestRead path) = ''manifest_read''"
| "PromptError_kind (ManifestTooLarge path bytes limit) = ''manifest_too_large''"
| "PromptError_kind (ManifestParse path) = ''manifest_parse''"
| "PromptError_kind (TooManyPrompts count limit) = ''too_many_prompts''"
| "PromptError_kind (EmptyPromptId index) = ''empty_prompt_id''"
| "PromptError_kind (DuplicatePromptId prompt_id) = ''duplicate_prompt_id''"
| "PromptError_kind (PromptNotFound prompt_id) = ''prompt_not_found''"
| "PromptError_kind (InvalidTemplatePath prompt_id layer path reason) = ''invalid_template_path''"
| "PromptError_kind (TemplateRead prompt_id layer path) = ''template_read''"
| "PromptError_kind (TemplateTooLarge prompt_id layer path bytes limit) = ''template_too_large''"
| "PromptError_kind (TotalTemplateBytesExceeded bytes limit) = ''total_template_bytes_exceeded''"
| "PromptError_kind (TemplateCompile prompt_id layer) = ''template_compile''"
| "PromptError_kind (TemplateRender prompt_id layer) = ''template_render''"

text \<open>JSON values as the source builds them (\<open>serde_json::Value\<close> and derived \<open>Serialize\<close>).\<close>

datatype json =
    JNull
  | JBool bool
  | JNat nat
  | JInt int
  | JF64 f64
  | JStr str
  | JArr "json list"
  | JObj "(string \<times> json) list"

datatype PipelineStage =
    Baseline | Plan | Retrieval | Think | Generate | Validate | Repair | Extract | Summary | Commit

fun PipelineStage_as_str :: "PipelineStage \<Rightarrow> string" where
  "PipelineStage_as_str Baseline = ''baseline''"
| "PipelineStage_as_str Plan = ''plan''"
| "PipelineStage_as_str Retrieval = ''retrieval''"
| "PipelineStage_as_str Think = ''think''"
| "PipelineStage_as_str Generate = ''generate''"
| "PipelineStage_as_str Validate = ''validate''"
| "PipelineStage_as_str Repair = ''repair''"
| "PipelineStage_as_str Extract = ''extract''"
| "PipelineStage_as_str Summary = ''summary''"
| "PipelineStage_as_str Commit = ''commit''"

text \<open>The calls a turn makes to the language model.\<close>

datatype llm_call =
    CallBaseline
  | CallPlan
  | CallThink RoleId
  | CallGenerate
  | CallValidate u32
  | CallRepair u32
  | CallExtractWorld
  | CallExtractMemory RoleId
  | CallExtractNarrative
  | CallSummary

type_synonym prompt_vars = "(string \<times> json) list"

record pipe_env =
  pe_json :: "json \<Rightarrow> str"
  pe_render :: "string \<Rightarrow> prompt_vars \<Rightarrow> PromptError + ChatMessage list"
  pe_llm :: "llm_call \<Rightarrow> ChatMessage list \<Rightarrow> LlmError + str"

section \<open>Errors (\<open>common/error.rs\<close>)\<close>

datatype PipelineError =
    PipelineLlm PipelineStage LlmError
  | PipelinePrompt PipelineStage PromptError
  | PipelinePersistence PipelineStage PersistenceError
  | PipelineNarrative PipelineStage NarrativeError
  | EmptyOutput PipelineStage
  | InvalidOutput PipelineStage string
  | InconsistentData PipelineStage string
  | InvalidConfig PipelineStage string
  | ValidationFailed string u32

section \<open>Validation (\<open>common/validation.rs\<close>, \<open>proposal_quality.rs\<close>)\<close>

record ProposalCheckCriterion =
  pcc_name :: str
  pcc_description :: str

record ProposalScoreCriterion =
  psc_name :: str
  psc_description :: str
  psc_min_score :: f64
  psc_max_score :: f64
  psc_target_score :: f64
  psc_target_guidance :: str

record ProposalQualityPolicy =
  pol_checks :: "ProposalCheckCriterion list"
  pol_scores :: "ProposalScoreCriterion list"

datatype ValidationIssue = IssueCheck str BoundedText | IssueScore str f64 f64 BoundedText

record ValidationContext =
  vc_story_goal :: BoundedText
  vc_player_contribution :: PlayerContribution
  vc_directions :: "NarrativeDirection list"
  vc_constraints :: "BoundedText list"
  vc_knowledge :: ActivatedKnowledge
  vc_retrieved_facts :: "FactEntry list"
  vc_retrieved_rumors :: "RumorEntry list"
  vc_role_ids :: "RoleId list"
  vc_character_decisions :: "CharacterDecision list"

record ValidationCheckResult =
  vcr_name :: str
  vcr_description :: str
  vcr_passed :: bool
  vcr_issue :: "BoundedText option"

record ValidationScoreResult =
  vsr_name :: str
  vsr_description :: str
  vsr_min_score :: f64
  vsr_max_score :: f64
  vsr_target_score :: f64
  vsr_score :: f64
  vsr_issue :: "BoundedText option"

record ValidationReport =
  vr_proposal_version :: u32
  vr_checks :: "ValidationCheckResult list"
  vr_scores :: "ValidationScoreResult list"

definition all_checks_pass :: "ValidationReport \<Rightarrow> bool" where
  "all_checks_pass report \<longleftrightarrow> list_all vcr_passed (vr_checks report)"

definition all_scores_meet_target :: "ValidationReport \<Rightarrow> bool" where
  "all_scores_meet_target report \<longleftrightarrow>
     list_all (\<lambda>s. f_le (vsr_target_score s) (vsr_score s)) (vr_scores report)"

definition score_unmet :: "ValidationScoreResult \<Rightarrow> bool" where
  "score_unmet s \<longleftrightarrow> f_lt (vsr_score s) (vsr_target_score s)"

text \<open>The \<open>expect\<close> of a missing issue is a panic: no list of issues.\<close>

fun collect_options :: "'a option list \<Rightarrow> 'a list option" where
  "collect_options [] = Some []"
| "collect_options (None # xs) = None"
| "collect_options (Some x # xs) = map_option ((#) x) (collect_options xs)"

definition failed_issues :: "ValidationReport \<Rightarrow> ValidationIssue list option" where
  "failed_issues report =
     collect_options
       (map (\<lambda>c. map_option (IssueCheck (vcr_name c)) (vcr_issue c))
          (filter (\<lambda>c. \<not> vcr_passed c) (vr_checks report)) @
        map (\<lambda>s. map_option (IssueScore (vsr_name s) (vsr_score s) (vsr_target_score s)) (vsr_issue s))
          (filter score_unmet (vr_scores report)))"

definition unmet_score_count :: "ValidationReport \<Rightarrow> nat" where
  "unmet_score_count report = length (filter score_unmet (vr_scores report))"

text \<open>A report that \<open>failed_issues\<close> can read: every failure carries its issue.\<close>

definition report_ok :: "ValidationReport \<Rightarrow> bool" where
  "report_ok report \<longleftrightarrow>
     (\<forall>c \<in> set (vr_checks report). \<not> vcr_passed c \<longrightarrow> vcr_issue c \<noteq> None) \<and>
     (\<forall>s \<in> set (vr_scores report). score_unmet s \<longrightarrow> vsr_issue s \<noteq> None)"

lemma collect_options_Some: "(\<forall>x \<in> set xs. x \<noteq> None) \<Longrightarrow> \<exists>ys. collect_options xs = Some ys \<and> length ys = length xs"
  by (induction xs rule: collect_options.induct) auto

lemma failed_issues_total:
  assumes "report_ok r"
  shows "\<exists>is. failed_issues r = Some is"
proof -
  let ?xs = "map (\<lambda>c. map_option (IssueCheck (vcr_name c)) (vcr_issue c))
      (filter (\<lambda>c. \<not> vcr_passed c) (vr_checks r)) @
    map (\<lambda>s. map_option (IssueScore (vsr_name s) (vsr_score s) (vsr_target_score s)) (vsr_issue s))
      (filter score_unmet (vr_scores r))"
  have "\<forall>x \<in> set ?xs. x \<noteq> None" using assms by (auto simp: report_ok_def)
  then obtain ys where "collect_options ?xs = Some ys" using collect_options_Some by blast
  then show ?thesis by (simp add: failed_issues_def)
qed

section \<open>Loop limits (\<open>common/config.rs\<close>)\<close>

abbreviation MAX_REPAIR_ROUNDS_LIMIT :: u32 where
  "MAX_REPAIR_ROUNDS_LIMIT \<equiv> 8"

record ValidationLoopConfig =
  max_repair_rounds :: u32

definition ValidationLoopConfig_validate :: "ValidationLoopConfig \<Rightarrow> PipelineError + unit" where
  "ValidationLoopConfig_validate config =
     (if max_repair_rounds config > MAX_REPAIR_ROUNDS_LIMIT
      then Err (InvalidConfig Validate ''validation_max_repair_rounds_exceeded'') else Ok ())"

definition ValidationLoopConfig_default :: ValidationLoopConfig where
  "ValidationLoopConfig_default = \<lparr>max_repair_rounds = 2\<rparr>"

section \<open>Story text (\<open>common/pipeline_prompt.rs\<close>)\<close>

definition story_summary :: "StoryContext \<Rightarrow> str option" where
  "story_summary ctx =
     (case ctx_summary ctx of
        None \<Rightarrow> None
      | Some s \<Rightarrow> let t = trim (summary_text s) in if t = [] then None else Some t)"

definition summary_or_empty :: "StoryContext \<Rightarrow> str" where
  "summary_or_empty ctx = (case story_summary ctx of None \<Rightarrow> [] | Some t \<Rightarrow> t)"

definition story_opening :: "StoryContext \<Rightarrow> str" where
  "story_opening ctx = (case story_summary ctx of Some _ \<Rightarrow> [] | None \<Rightarrow> ctx_opening ctx)"

definition turns_story :: "Turn list \<Rightarrow> str" where
  "turns_story turns =
     join (newline @ newline)
       (filter (\<lambda>s. s \<noteq> [])
         (map (\<lambda>t. trim (turn_segment t))
           (filter (\<lambda>t. turn_status t = Pass \<or> turn_status t = Choice) turns)))"

definition recent_story :: "StoryContext \<Rightarrow> str" where
  "recent_story ctx = turns_story (ctx_recent_turns ctx)"

definition bullet_list :: "str list \<Rightarrow> str" where
  "bullet_list items =
     join newline (map (\<lambda>item. lit ''- '' @ item) (filter (\<lambda>i. i \<noteq> []) (map trim items)))"

definition narrative_directions :: "NarrativeDirection list \<Rightarrow> str" where
  "narrative_directions ds = bullet_list (map nd_dramatic_focus ds)"

definition story_constraints :: "BoundedText list \<Rightarrow> str" where
  "story_constraints cs = bullet_list cs"

definition known_facts_with_retrieved :: "FactEntry list \<Rightarrow> FactEntry list \<Rightarrow> str" where
  "known_facts_with_retrieved activated retrieved =
     bullet_list (map (\<lambda>f. fb_content (fe_body f)) (activated @ retrieved))"

definition known_facts :: "FactEntry list \<Rightarrow> str" where
  "known_facts facts = known_facts_with_retrieved facts []"

definition rumors_with_retrieved :: "RumorEntry list \<Rightarrow> RumorEntry list \<Rightarrow> str" where
  "rumors_with_retrieved activated retrieved =
     bullet_list (map (\<lambda>r. rb_content (re_body r)) (activated @ retrieved))"

definition rumors_text :: "RumorEntry list \<Rightarrow> str" where
  "rumors_text rumors = rumors_with_retrieved rumors []"

section \<open>Quality criteria (\<open>common/proposal_quality_prompt.rs\<close>)\<close>

definition check_criterion_json :: "ProposalCheckCriterion \<Rightarrow> json" where
  "check_criterion_json c = JObj [(''name'', JStr (pcc_name c)), (''description'', JStr (pcc_description c))]"

definition score_criterion_json :: "ProposalScoreCriterion \<Rightarrow> json" where
  "score_criterion_json s =
     JObj [(''name'', JStr (psc_name s)), (''description'', JStr (psc_description s)),
           (''min_score'', JF64 (psc_min_score s)), (''max_score'', JF64 (psc_max_score s)),
           (''target_score'', JF64 (psc_target_score s)), (''target_guidance'', JStr (psc_target_guidance s))]"

definition serialize_optional_slice :: "pipe_env \<Rightarrow> json list \<Rightarrow> str" where
  "serialize_optional_slice env values = (if values = [] then [] else pe_json env (JArr values))"

record ProposalQualityPrompt =
  pqp_check_criteria :: str
  pqp_score_criteria :: str

definition project_proposal_quality :: "pipe_env \<Rightarrow> ProposalQualityPolicy \<Rightarrow> ProposalQualityPrompt" where
  "project_proposal_quality env policy =
     \<lparr>pqp_check_criteria = serialize_optional_slice env (map check_criterion_json (pol_checks policy)),
      pqp_score_criteria = serialize_optional_slice env (map score_criterion_json (pol_scores policy))\<rparr>"

section \<open>Validation evidence (\<open>common/validation_prompt.rs\<close>)\<close>

definition opt_text_json :: "BoundedText option \<Rightarrow> json" where
  "opt_text_json t = (case t of None \<Rightarrow> JNull | Some s \<Rightarrow> JStr s)"

definition profile_json :: "CharacterProfile \<Rightarrow> json" where
  "profile_json p =
     JObj [(''appearance'', opt_text_json (appearance p)), (''personality'', opt_text_json (personality p)),
           (''speaking_style'', opt_text_json (speaking_style p)),
           (''dialogue_examples'', JArr (map (\<lambda>d. JObj [(''situation'', JStr (de_situation d)),
              (''response'', JStr (de_response d))]) (dialogue_examples p)))]"

definition role_view :: "RoleEntry \<Rightarrow> json" where
  "role_view role =
     JObj [(''role_id'', JStr (role_id role)), (''name'', JStr (rs_name (role_spec role))),
           (''aliases'', JArr (map JStr (rs_alias (role_spec role)))),
           (''profile'', profile_json (role_profile role)),
           (''backstory'', JStr (rs_backstory (role_spec role)))]"

definition decision_json :: "CharacterDecision \<Rightarrow> json" where
  "decision_json d =
     JObj [(''role_id'', JStr (cd_role_id d)), (''decision'', JStr (cd_decision d)),
           (''suggested_utterance'', opt_text_json (cd_suggested_utterance d))]"

fun missing_role_code :: "PipelineStage \<Rightarrow> string" where
  "missing_role_code Validate = ''validate_role_missing''"
| "missing_role_code Repair = ''repair_role_missing''"
| "missing_role_code _ = ''validation_role_missing''"

definition evidence_role :: "PipelineStage \<Rightarrow> StoryContext \<Rightarrow> RoleId \<Rightarrow> PipelineError + RoleEntry" where
  "evidence_role stage ctx rid =
     ok_or (InconsistentData stage (missing_role_code stage)) (bm_get (ctx_roles ctx) rid)"

text \<open>The evidence record as the prompt variables it becomes, in the order of both users.\<close>

definition project_validation_evidence ::
  "pipe_env \<Rightarrow> PipelineStage \<Rightarrow> StoryContext \<Rightarrow> ValidationContext \<Rightarrow> PipelineError + prompt_vars" where
  "project_validation_evidence env stage ctx context =
     rbind (evidence_role stage ctx (ctx_player ctx)) (\<lambda>player.
     rbind (try_map (\<lambda>rid. rmap role_view (evidence_role stage ctx rid)) (vc_role_ids context)) (\<lambda>roles.
       Ok [(''story_summary'', JStr (summary_or_empty ctx)),
           (''story_opening'', JStr (story_opening ctx)),
           (''recent_story'', JStr (recent_story ctx)),
           (''story_goal'', JStr (vc_story_goal context)),
           (''player_contribution'', JStr (pc_processed (vc_player_contribution context))),
           (''narrative_directions'', JStr (narrative_directions (vc_directions context))),
           (''story_constraints'', JStr (story_constraints (vc_constraints context))),
           (''activated_facts'', JStr (known_facts (ak_facts (vc_knowledge context)))),
           (''activated_rumors'', JStr (rumors_text (ak_rumors (vc_knowledge context)))),
           (''retrieved_facts'', JStr (known_facts (vc_retrieved_facts context))),
           (''retrieved_rumors'', JStr (rumors_text (vc_retrieved_rumors context))),
           (''player_role'', JStr (pe_json env (role_view player))),
           (''resolved_roles'', JStr (serialize_optional_slice env roles)),
           (''character_decisions'',
              JStr (serialize_optional_slice env (map decision_json (vc_character_decisions context))))]))"

text \<open>Rendering a prompt and asking the model, the tail every stage shares.\<close>

definition render :: "pipe_env \<Rightarrow> PipelineStage \<Rightarrow> string \<Rightarrow> prompt_vars \<Rightarrow> PipelineError + ChatMessage list" where
  "render env stage prompt_id vars = map_err (PipelinePrompt stage) (pe_render env prompt_id vars)"

definition complete :: "pipe_env \<Rightarrow> PipelineStage \<Rightarrow> llm_call \<Rightarrow> ChatMessage list \<Rightarrow> PipelineError + str" where
  "complete env stage call messages = map_err (PipelineLlm stage) (pe_llm env call messages)"

section \<open>Facts\<close>

lemma project_validation_evidence_Ok:
  assumes "bm_contains (ctx_roles ctx) (ctx_player ctx)"
    and "\<forall>rid \<in> set (vc_role_ids context). bm_contains (ctx_roles ctx) rid"
  shows "\<exists>vars. project_validation_evidence env stage ctx context = Ok vars"
proof -
  have "evidence_role stage ctx rid = Ok (the (bm_get (ctx_roles ctx) rid))"
    if "bm_contains (ctx_roles ctx) rid" for rid
    using that by (auto simp: evidence_role_def bm_contains_def)
  then show ?thesis
    using assms try_map_Ok_if [of "vc_role_ids context" "\<lambda>rid. rmap role_view (evidence_role stage ctx rid)"
        "\<lambda>rid. role_view (the (bm_get (ctx_roles ctx) rid))"]
    by (simp add: project_validation_evidence_def)
qed

end
