(* ===== verification/Plan_Stage.thy ===== *)
theory Plan_Stage
  imports Pipeline_Common
begin

text \<open>
  \<open>pipeline/plan\<close> and \<open>pipeline/retrieval\<close>: the model is offered retrievable facts and rumors and
  a catalog of roles, its answer is checked against what was offered, and the selected entries are
  fetched. \<open>from_json\<close> is the deserializer of the answer.
\<close>

section \<open>Configuration (\<open>plan/config.rs\<close>)\<close>

record PlanConfig =
  max_retrieval_candidates_per_kind :: nat
  max_story_goal_bytes :: nat
  max_player_role_context_bytes :: nat
  max_roles_for_generation :: nat
  max_character_think_requests :: nat
  max_thinking_focus_bytes :: nat

definition PlanConfig_default :: PlanConfig where
  "PlanConfig_default =
     \<lparr>max_retrieval_candidates_per_kind = 32, max_story_goal_bytes = 512,
      max_player_role_context_bytes = 16384, max_roles_for_generation = 16,
      max_character_think_requests = 8, max_thinking_focus_bytes = 512\<rparr>"

section \<open>Inputs and outputs (\<open>plan/plan.rs\<close>)\<close>

record PlanInput =
  pi_player_contribution :: PlayerContribution
  pi_directions :: "NarrativeDirection list"
  pi_constraints :: "BoundedText list"
  pi_knowledge :: ActivatedKnowledge

record PlanOutput =
  po_story_goal :: BoundedText
  po_facts_to_retrieve :: "FactId list"
  po_rumors_to_retrieve :: "RumorId list"
  po_roles_for_generation :: "RoleId list"
  po_character_think_requests :: "CharacterThinkRequest list"

definition requires_retrieval :: "PlanOutput \<Rightarrow> bool" where
  "requires_retrieval out \<longleftrightarrow> po_facts_to_retrieve out \<noteq> [] \<or> po_rumors_to_retrieve out \<noteq> []"

definition requires_character_thinking :: "PlanOutput \<Rightarrow> bool" where
  "requires_character_thinking out \<longleftrightarrow> po_character_think_requests out \<noteq> []"

section \<open>Candidates (\<open>plan/plan_candidates.rs\<close>)\<close>

record RetrievalCandidate =
  rc_id :: str
  rc_retrieval_hint :: RetrievalHint

record PlanCandidates =
  pcs_facts :: "RetrievalCandidate list"
  pcs_rumors :: "RetrievalCandidate list"

definition contains_fact :: "PlanCandidates \<Rightarrow> FactId \<Rightarrow> bool" where
  "contains_fact c i \<longleftrightarrow> list_ex (\<lambda>x. rc_id x = i) (pcs_facts c)"

definition contains_rumor :: "PlanCandidates \<Rightarrow> RumorId \<Rightarrow> bool" where
  "contains_rumor c i \<longleftrightarrow> list_ex (\<lambda>x. rc_id x = i) (pcs_rumors c)"

definition collect_candidates :: "StoryContext \<Rightarrow> ActivatedKnowledge \<Rightarrow> nat \<Rightarrow> PlanCandidates" where
  "collect_candidates ctx activated limit =
     (let fact_ids = bs_of_list (map fe_id (ak_facts activated));
          rumor_ids = bs_of_list (map re_id (ak_rumors activated))
      in \<lparr>pcs_facts = map (\<lambda>(i, e). \<lparr>rc_id = i, rc_retrieval_hint = fb_retrieval (fe_body e)\<rparr>)
            (take limit (filter (\<lambda>(i, _). \<not> bm_contains fact_ids i) (bm_entries (ctx_facts ctx)))),
          pcs_rumors = map (\<lambda>(i, e). \<lparr>rc_id = i, rc_retrieval_hint = rb_retrieval (re_body e)\<rparr>)
            (take limit (filter (\<lambda>(i, _). \<not> bm_contains rumor_ids i) (bm_entries (ctx_rumors ctx))))\<rparr>)"

section \<open>Roles (\<open>plan/plan_roles.rs\<close>)\<close>

record RoleCatalogEntry =
  rce_role_id :: RoleId
  rce_name :: BoundedText
  rce_aliases :: "BoundedText list"
  rce_retrieval_hint :: RetrievalHint

definition collect_role_catalog :: "StoryContext \<Rightarrow> RoleId \<Rightarrow> RoleCatalogEntry list" where
  "collect_role_catalog ctx player =
     map (\<lambda>(rid, role). \<lparr>rce_role_id = rid, rce_name = rs_name (role_spec role),
            rce_aliases = rs_alias (role_spec role), rce_retrieval_hint = rs_retrieval (role_spec role)\<rparr>)
       (filter (\<lambda>(rid, _). rid \<noteq> player) (bm_entries (ctx_roles ctx)))"

definition resolve_player_role :: "StoryContext \<Rightarrow> PipelineError + RoleEntry" where
  "resolve_player_role ctx =
     ok_or (InconsistentData Plan ''plan_player_role_missing'') (bm_get (ctx_roles ctx) (ctx_player ctx))"

definition contains_role :: "RoleCatalogEntry list \<Rightarrow> RoleId \<Rightarrow> bool" where
  "contains_role catalog rid \<longleftrightarrow> list_ex (\<lambda>e. rce_role_id e = rid) catalog"

section \<open>The prompt (\<open>plan/plan_prompt.rs\<close>)\<close>

definition candidate_line :: "pipe_env \<Rightarrow> RetrievalCandidate \<Rightarrow> str" where
  "candidate_line env c =
     lit ''- id: '' @ pe_json env (JStr (rc_id c)) @ newline @ lit ''  retrieval_hint: '' @
     pe_json env (JStr (rc_retrieval_hint c))"

definition retrievable :: "pipe_env \<Rightarrow> RetrievalCandidate list \<Rightarrow> str" where
  "retrievable env cs = join newline (map (candidate_line env) cs)"

definition plan_optional_text :: "pipe_env \<Rightarrow> BoundedText option \<Rightarrow> str" where
  "plan_optional_text env v = (case v of Some t \<Rightarrow> pe_json env (JStr t) | None \<Rightarrow> pe_json env JNull)"

definition player_role_text :: "pipe_env \<Rightarrow> RoleEntry \<Rightarrow> PlanConfig \<Rightarrow> PipelineError + str" where
  "player_role_text env role config =
     (let text_of = (\<lambda>t. pe_json env (JStr t));
          rendered = lit ''role_id: '' @ text_of (role_id role) @ newline @
            lit ''name: '' @ text_of (rs_name (role_spec role)) @ newline @
            lit ''aliases: ['' @ join (lit '', '') (map text_of (rs_alias (role_spec role))) @ lit '']'' @ newline @
            lit ''appearance: '' @ plan_optional_text env (appearance (role_profile role)) @ newline @
            lit ''personality: '' @ plan_optional_text env (personality (role_profile role)) @ newline @
            lit ''backstory: '' @ text_of (rs_backstory (role_spec role))
      in if str_len rendered > max_player_role_context_bytes config
         then Err (InconsistentData Plan ''plan_player_role_context_too_large'') else Ok rendered)"

definition catalog_line :: "pipe_env \<Rightarrow> RoleCatalogEntry \<Rightarrow> str" where
  "catalog_line env e =
     (let text_of = (\<lambda>t. pe_json env (JStr t))
      in lit ''- role_id: '' @ text_of (rce_role_id e) @ newline @
         lit ''  name: '' @ text_of (rce_name e) @ newline @
         lit ''  aliases: ['' @ join (lit '', '') (map text_of (rce_aliases e)) @ lit '']'' @ newline @
         lit ''  retrieval_hint: '' @ text_of (rce_retrieval_hint e))"

definition role_catalog_text :: "pipe_env \<Rightarrow> RoleCatalogEntry list \<Rightarrow> str" where
  "role_catalog_text env catalog = join newline (map (catalog_line env) catalog)"

definition plan_vars ::
  "pipe_env \<Rightarrow> StoryContext \<Rightarrow> PlanInput \<Rightarrow> PlanCandidates \<Rightarrow> str \<Rightarrow> str \<Rightarrow> nat \<Rightarrow> prompt_vars" where
  "plan_vars env ctx input candidates player_role role_catalog goal_bytes =
     [(''story_summary'', JStr (summary_or_empty ctx)), (''story_opening'', JStr (story_opening ctx)),
      (''recent_story'', JStr (recent_story ctx)), (''player_role'', JStr player_role),
      (''known_facts'', JStr (known_facts (ak_facts (pi_knowledge input)))),
      (''rumors'', JStr (rumors_text (ak_rumors (pi_knowledge input)))),
      (''retrievable_facts'', JStr (retrievable env (pcs_facts candidates))),
      (''retrievable_rumors'', JStr (retrievable env (pcs_rumors candidates))),
      (''role_catalog'', JStr role_catalog),
      (''narrative_directions'', JStr (narrative_directions (pi_directions input))),
      (''story_constraints'', JStr (story_constraints (pi_constraints input))),
      (''player_input'', JStr (pc_processed (pi_player_contribution input))),
      (''max_story_goal_bytes'', JStr (show_nat goal_bytes))]"

definition plan_prompt ::
  "pipe_env \<Rightarrow> StoryContext \<Rightarrow> PlanInput \<Rightarrow> PlanCandidates \<Rightarrow> RoleEntry \<Rightarrow> RoleCatalogEntry list \<Rightarrow>
   PlanConfig \<Rightarrow> PipelineError + ChatMessage list" where
  "plan_prompt env ctx input candidates player_role catalog config =
     rbind (player_role_text env player_role config) (\<lambda>role_text.
       render env Plan ''plan.process_story_plan''
         (plan_vars env ctx input candidates role_text (role_catalog_text env catalog)
            (max_story_goal_bytes config)))"

section \<open>The answer (\<open>plan/plan_llm.rs\<close>)\<close>

record CharacterThinkRequestDto =
  ctd_role_id :: RoleId
  ctd_thinking_focus :: str

record PlanLlmOutputDto =
  pld_story_goal :: str
  pld_facts_to_retrieve :: "FactId list"
  pld_rumors_to_retrieve :: "RumorId list"
  pld_roles_for_generation :: "RoleId list"
  pld_character_think_requests :: "CharacterThinkRequestDto list"

abbreviation plan_invalid :: "string \<Rightarrow> PipelineError" where
  "plan_invalid code \<equiv> InvalidOutput Plan code"

definition validate_fact_ids :: "FactId list \<Rightarrow> PlanCandidates \<Rightarrow> PipelineError + unit" where
  "validate_fact_ids ids candidates =
     distinct_check id (\<lambda>_. plan_invalid ''plan_duplicate_fact_id'')
       (\<lambda>i. if \<not> contains_fact candidates i then Err (plan_invalid ''plan_unknown_fact_id'') else Ok ()) [] ids"

definition validate_rumor_ids :: "RumorId list \<Rightarrow> PlanCandidates \<Rightarrow> PipelineError + unit" where
  "validate_rumor_ids ids candidates =
     distinct_check id (\<lambda>_. plan_invalid ''plan_duplicate_rumor_id'')
       (\<lambda>i. if \<not> contains_rumor candidates i then Err (plan_invalid ''plan_unknown_rumor_id'') else Ok ()) [] ids"

definition validate_generation_roles ::
  "RoleId list \<Rightarrow> RoleCatalogEntry list \<Rightarrow> RoleId \<Rightarrow> PlanConfig \<Rightarrow> PipelineError + unit" where
  "validate_generation_roles role_ids catalog player config =
     (if length role_ids > max_roles_for_generation config
      then Err (plan_invalid ''plan_too_many_generation_roles'')
      else distinct_check id (\<lambda>_. plan_invalid ''plan_duplicate_generation_role_id'')
        (\<lambda>rid. if rid = player then Err (plan_invalid ''plan_player_generation_role_forbidden'')
               else if \<not> contains_role catalog rid then Err (plan_invalid ''plan_unknown_generation_role_id'')
               else Ok ()) [] role_ids)"

definition validate_think_request ::
  "RoleCatalogEntry list \<Rightarrow> RoleId \<Rightarrow> PlanConfig \<Rightarrow> CharacterThinkRequestDto \<Rightarrow>
   PipelineError + CharacterThinkRequest" where
  "validate_think_request catalog player config request =
     (if ctd_role_id request = player then Err (plan_invalid ''plan_player_character_think_forbidden'')
      else if \<not> contains_role catalog (ctd_role_id request)
        then Err (plan_invalid ''plan_unknown_character_think_role_id'')
      else let focus = trim (ctd_thinking_focus request)
        in if focus = [] then Err (plan_invalid ''plan_thinking_focus_empty'')
           else if str_len focus > max_thinking_focus_bytes config
             then Err (plan_invalid ''plan_thinking_focus_too_long'')
           else rmap (\<lambda>f. \<lparr>ctr_role_id = ctd_role_id request, ctr_thinking_focus = f\<rparr>)
                  (map_err (\<lambda>_. plan_invalid ''plan_thinking_focus_too_long'')
                     (BoundedText_try_new focus ''thinking_focus'' (max_thinking_focus_bytes config))))"

definition validate_character_think_requests ::
  "CharacterThinkRequestDto list \<Rightarrow> RoleCatalogEntry list \<Rightarrow> RoleId \<Rightarrow> PlanConfig \<Rightarrow>
   PipelineError + CharacterThinkRequest list" where
  "validate_character_think_requests requests catalog player config =
     (if length requests > max_character_think_requests config
      then Err (plan_invalid ''plan_too_many_character_think_requests'')
      else distinct_map ctd_role_id (\<lambda>_. plan_invalid ''plan_duplicate_character_think_role_id'')
             (validate_think_request catalog player config) [] requests)"

definition parse_plan_output ::
  "(str \<Rightarrow> PlanLlmOutputDto option) \<Rightarrow> str \<Rightarrow> PlanCandidates \<Rightarrow> RoleCatalogEntry list \<Rightarrow> RoleId \<Rightarrow>
   PlanConfig \<Rightarrow> PipelineError + PlanOutput" where
  "parse_plan_output from_json raw candidates catalog player config =
     rbind (ok_or (plan_invalid ''plan_output_invalid_json'') (from_json raw)) (\<lambda>output.
       if trim (pld_story_goal output) = [] then Err (plan_invalid ''plan_story_goal_empty'')
       else if str_len (pld_story_goal output) > max_story_goal_bytes config
         then Err (plan_invalid ''plan_story_goal_too_long'')
       else rbind (validate_fact_ids (pld_facts_to_retrieve output) candidates) (\<lambda>_.
            rbind (validate_rumor_ids (pld_rumors_to_retrieve output) candidates) (\<lambda>_.
            rbind (validate_generation_roles (pld_roles_for_generation output) catalog player config) (\<lambda>_.
            rbind (validate_character_think_requests (pld_character_think_requests output) catalog player config)
              (\<lambda>requests.
            rbind (map_err (\<lambda>_. plan_invalid ''plan_story_goal_too_long'')
                     (BoundedText_try_new (pld_story_goal output) ''story_goal'' (max_story_goal_bytes config)))
              (\<lambda>goal.
                Ok \<lparr>po_story_goal = goal, po_facts_to_retrieve = pld_facts_to_retrieve output,
                    po_rumors_to_retrieve = pld_rumors_to_retrieve output,
                    po_roles_for_generation = pld_roles_for_generation output,
                    po_character_think_requests = requests\<rparr>))))))"

definition process_story_plan ::
  "pipe_env \<Rightarrow> (str \<Rightarrow> PlanLlmOutputDto option) \<Rightarrow> PlanConfig \<Rightarrow> PlanInput \<Rightarrow> StoryContext \<Rightarrow>
   PipelineError + PlanOutput" where
  "process_story_plan env from_json config input ctx =
     (let candidates = collect_candidates ctx (pi_knowledge input) (max_retrieval_candidates_per_kind config)
      in rbind (resolve_player_role ctx) (\<lambda>player_role.
         let catalog = collect_role_catalog ctx (ctx_player ctx)
         in rbind (plan_prompt env ctx input candidates player_role catalog config) (\<lambda>messages.
            rbind (complete env Plan CallPlan messages) (\<lambda>raw.
              parse_plan_output from_json raw candidates catalog (role_id player_role) config))))"

section \<open>Retrieval (\<open>retrieval/retrieval.rs\<close>)\<close>

record RetrievalOutput =
  ro_facts :: "FactEntry list"
  ro_rumors :: "RumorEntry list"

definition RetrievalOutput_default :: RetrievalOutput where
  "RetrievalOutput_default = \<lparr>ro_facts = [], ro_rumors = []\<rparr>"

definition resolve_facts :: "StoryContext \<Rightarrow> FactId list \<Rightarrow> PipelineError + FactEntry list" where
  "resolve_facts ctx ids =
     try_map (\<lambda>i. ok_or (InconsistentData Retrieval ''retrieval_fact_missing'') (bm_get (ctx_facts ctx) i)) ids"

definition resolve_rumors :: "StoryContext \<Rightarrow> RumorId list \<Rightarrow> PipelineError + RumorEntry list" where
  "resolve_rumors ctx ids =
     try_map (\<lambda>i. ok_or (InconsistentData Retrieval ''retrieval_rumor_missing'') (bm_get (ctx_rumors ctx) i)) ids"

definition retrieve :: "StoryContext \<Rightarrow> FactId list \<Rightarrow> RumorId list \<Rightarrow> PipelineError + RetrievalOutput" where
  "retrieve ctx fact_ids rumor_ids =
     rbind (resolve_facts ctx fact_ids) (\<lambda>facts.
     rbind (resolve_rumors ctx rumor_ids) (\<lambda>rumors. Ok \<lparr>ro_facts = facts, ro_rumors = rumors\<rparr>))"

section \<open>What a plan promises\<close>

definition role_offered :: "StoryContext \<Rightarrow> RoleId \<Rightarrow> bool" where
  "role_offered ctx rid \<longleftrightarrow> bm_contains (ctx_roles ctx) rid \<and> rid \<noteq> ctx_player ctx"

definition plan_ok :: "StoryContext \<Rightarrow> ActivatedKnowledge \<Rightarrow> PlanConfig \<Rightarrow> PlanOutput \<Rightarrow> bool" where
  "plan_ok ctx known config out \<longleftrightarrow>
     trim (po_story_goal out) \<noteq> [] \<and> str_len (po_story_goal out) \<le> max_story_goal_bytes config \<and>
     distinct (po_facts_to_retrieve out) \<and>
     (\<forall>i \<in> set (po_facts_to_retrieve out). bm_contains (ctx_facts ctx) i \<and> i \<notin> fe_id ` set (ak_facts known)) \<and>
     distinct (po_rumors_to_retrieve out) \<and>
     (\<forall>i \<in> set (po_rumors_to_retrieve out). bm_contains (ctx_rumors ctx) i \<and> i \<notin> re_id ` set (ak_rumors known)) \<and>
     distinct (po_roles_for_generation out) \<and> length (po_roles_for_generation out) \<le> max_roles_for_generation config \<and>
     (\<forall>rid \<in> set (po_roles_for_generation out). role_offered ctx rid) \<and>
     distinct (map ctr_role_id (po_character_think_requests out)) \<and>
     length (po_character_think_requests out) \<le> max_character_think_requests config \<and>
     (\<forall>r \<in> set (po_character_think_requests out). role_offered ctx (ctr_role_id r) \<and>
        ctr_thinking_focus r \<noteq> [] \<and> str_len (ctr_thinking_focus r) \<le> max_thinking_focus_bytes config)"

lemma contains_role_catalog: "contains_role (collect_role_catalog ctx (ctx_player ctx)) rid \<longleftrightarrow> role_offered ctx rid"
  by (force simp: contains_role_def collect_role_catalog_def role_offered_def list_ex_iff bm_contains_def
      bm_entries_iff)

lemma bs_contains: "bm_contains (bs_of_list (map f xs)) k \<longleftrightarrow> k \<in> f ` set xs"
  by force

lemma entries_contains: "(k, v) \<in> set (bm_entries m) \<Longrightarrow> bm_contains m k"
  by (simp add: bm_entries_iff bm_contains_def)

lemma taken_candidate:
  assumes "(k, v) \<in> set (take l (filter (\<lambda>(i, _). \<not> bm_contains (bs_of_list (map f xs)) i) (bm_entries m)))"
  shows "bm_contains m k \<and> k \<notin> f ` set xs"
  using in_set_takeD [OF assms] by (auto simp del: map_map bm_contains_of_list simp: bs_contains dest: entries_contains)

lemma contains_fact_candidates:
  "contains_fact (collect_candidates ctx known l) i \<Longrightarrow>
     bm_contains (ctx_facts ctx) i \<and> i \<notin> fe_id ` set (ak_facts known)"
  unfolding contains_fact_def collect_candidates_def Let_def list_ex_iff
  using taken_candidate by (fastforce simp del: map_map bm_contains_of_list)

lemma contains_rumor_candidates:
  "contains_rumor (collect_candidates ctx known l) i \<Longrightarrow>
     bm_contains (ctx_rumors ctx) i \<and> i \<notin> re_id ` set (ak_rumors known)"
  unfolding contains_rumor_def collect_candidates_def Let_def list_ex_iff
  using taken_candidate by (fastforce simp del: map_map bm_contains_of_list)

lemma validate_think_request_Ok:
  "validate_think_request catalog player config q = Ok r \<Longrightarrow>
     contains_role catalog (ctd_role_id q) \<and> ctr_role_id r = ctd_role_id q \<and>
     ctr_thinking_focus r \<noteq> [] \<and> str_len (ctr_thinking_focus r) \<le> max_thinking_focus_bytes config"
  by (auto simp: validate_think_request_def Let_def result_simps split: if_splits)

lemma plan_parsed_ok:
  assumes "parse_plan_output from_json raw (collect_candidates ctx known l)
      (collect_role_catalog ctx (ctx_player ctx)) player config = Ok out"
  shows "plan_ok ctx known config out"
proof -
  let ?cands = "collect_candidates ctx known l" and ?cat = "collect_role_catalog ctx (ctx_player ctx)"
  obtain dto where dto: "from_json raw = Some dto"
    using assms by (auto simp: parse_plan_output_def result_simps)
  have facts: "validate_fact_ids (po_facts_to_retrieve out) ?cands = Ok ()"
    and rumors: "validate_rumor_ids (po_rumors_to_retrieve out) ?cands = Ok ()"
    and roles: "validate_generation_roles (po_roles_for_generation out) ?cat player config = Ok ()"
    and reqs: "validate_character_think_requests (pld_character_think_requests dto) ?cat player config =
      Ok (po_character_think_requests out)"
    and goal: "trim (po_story_goal out) \<noteq> []" "str_len (po_story_goal out) \<le> max_story_goal_bytes config"
    using assms dto by (auto simp: parse_plan_output_def result_simps split: if_splits)
  have all2: "list_all2 (\<lambda>q r. validate_think_request ?cat player config q = Ok r)
      (pld_character_think_requests dto) (po_character_think_requests out)"
    and dist: "distinct (map ctd_role_id (pld_character_think_requests dto))"
    and len: "length (pld_character_think_requests dto) \<le> max_character_think_requests config"
    using reqs by (auto simp: validate_character_think_requests_def result_simps split: if_splits)
  have ids: "map ctr_role_id (po_character_think_requests out) = map ctd_role_id (pld_character_think_requests dto)"
    using all2 by (induction rule: list_all2_induct) (auto dest: validate_think_request_Ok)
  have each: "\<forall>r \<in> set (po_character_think_requests out). role_offered ctx (ctr_role_id r) \<and>
        ctr_thinking_focus r \<noteq> [] \<and> str_len (ctr_thinking_focus r) \<le> max_thinking_focus_bytes config"
    using all2 by (induction rule: list_all2_induct)
      (auto dest!: validate_think_request_Ok simp: contains_role_catalog)
  have F: "distinct (po_facts_to_retrieve out)" "\<forall>i \<in> set (po_facts_to_retrieve out). contains_fact ?cands i"
    using facts by (auto simp: validate_fact_ids_def result_simps split: if_splits)
  have R: "distinct (po_rumors_to_retrieve out)" "\<forall>i \<in> set (po_rumors_to_retrieve out). contains_rumor ?cands i"
    using rumors by (auto simp: validate_rumor_ids_def result_simps split: if_splits)
  have G: "distinct (po_roles_for_generation out)"
    "length (po_roles_for_generation out) \<le> max_roles_for_generation config"
    "\<forall>rid \<in> set (po_roles_for_generation out). role_offered ctx rid"
    using roles by (auto simp: validate_generation_roles_def result_simps contains_role_catalog split: if_splits)
  show ?thesis
    unfolding plan_ok_def ids
    using F R G goal dist len each list_all2_lengthD [OF all2]
    by (intro conjI ballI) (auto dest: contains_fact_candidates contains_rumor_candidates)
qed

text \<open>
  A plan the parser accepts only refers to what the model was offered: the selected facts and
  rumors exist and were not already activated, the roles exist and are not the player's, nothing is
  selected twice, and every limit of the configuration is respected.
\<close>

lemma parse_plan_output_sound:
  assumes "parse_plan_output from_json raw (collect_candidates ctx known l)
      (collect_role_catalog ctx (ctx_player ctx)) player config = Ok out"
  shows "plan_ok ctx known config out"
  by (rule plan_parsed_ok [OF assms])

lemma retrieve_plan_ok:
  assumes "plan_ok ctx known config out"
  shows "retrieve ctx (po_facts_to_retrieve out) (po_rumors_to_retrieve out) =
    Ok \<lparr>ro_facts = map (\<lambda>i. the (bm_get (ctx_facts ctx) i)) (po_facts_to_retrieve out),
        ro_rumors = map (\<lambda>i. the (bm_get (ctx_rumors ctx) i)) (po_rumors_to_retrieve out)\<rparr>"
proof -
  have "resolve_facts ctx (po_facts_to_retrieve out) =
      Ok (map (\<lambda>i. the (bm_get (ctx_facts ctx) i)) (po_facts_to_retrieve out))"
    unfolding resolve_facts_def
    using assms by (intro try_map_Ok_if) (auto simp: plan_ok_def bm_contains_def)
  moreover have "resolve_rumors ctx (po_rumors_to_retrieve out) =
      Ok (map (\<lambda>i. the (bm_get (ctx_rumors ctx) i)) (po_rumors_to_retrieve out))"
    unfolding resolve_rumors_def
    using assms by (intro try_map_Ok_if) (auto simp: plan_ok_def bm_contains_def)
  ultimately show ?thesis by (simp add: retrieve_def)
qed

text \<open>
  Retrieval cannot fail on a plan the parser accepted: it returns exactly the selected entries,
  in the order of the selection.
\<close>

lemma retrieve_after_plan:
  assumes "plan_ok ctx known config out"
  shows "retrieve ctx (po_facts_to_retrieve out) (po_rumors_to_retrieve out) =
    Ok \<lparr>ro_facts = map (\<lambda>i. the (bm_get (ctx_facts ctx) i)) (po_facts_to_retrieve out),
        ro_rumors = map (\<lambda>i. the (bm_get (ctx_rumors ctx) i)) (po_rumors_to_retrieve out)\<rparr>"
  by (rule retrieve_plan_ok [OF assms])

end
