(* ===== verification/Think_Stage.thy ===== *)
theory Think_Stage
  imports Plan_Stage
begin

text \<open>
  \<open>pipeline/think\<close>: every character the plan asks to think gets a prompt with what it knows, cut to
  the byte budgets of the configuration, and its answer becomes a decision. The source runs the
  requests as a buffered stream; \<open>buffered\<close> yields the results in the order of the requests and
  \<open>try_collect\<close> stops at the first error, so that the outcome is that of a sequential pass.
\<close>

section \<open>Configuration (\<open>think/config.rs\<close>)\<close>

record ThinkConfig =
  max_concurrency :: nat
  max_profile_bytes :: nat
  max_backstory_bytes :: nat
  max_memories_in_prompt :: nat
  max_seed_memory_bytes :: nat
  max_rumor_bytes :: nat
  max_decision_bytes :: nat
  max_suggested_utterance_bytes :: nat
  max_total_output_bytes :: nat

definition ThinkConfig_default :: ThinkConfig where
  "ThinkConfig_default =
     \<lparr>max_concurrency = 4, max_profile_bytes = 4096, max_backstory_bytes = 4096, max_memories_in_prompt = 8,
      max_seed_memory_bytes = 8192, max_rumor_bytes = 8192, max_decision_bytes = 512,
      max_suggested_utterance_bytes = 512, max_total_output_bytes = 1024\<rparr>"

record ThinkInput =
  ti_requests :: "CharacterThinkRequest list"
  ti_player_contribution :: PlayerContribution
  ti_activated_rumors :: "RumorEntry list"
  ti_retrieved_rumors :: "RumorEntry list"

section \<open>What a character knows (\<open>think/think_context.rs\<close>)\<close>

text \<open>The loop both functions share: append items, one per line, until the next one does not fit.\<close>

fun budget_lines :: "nat \<Rightarrow> str \<Rightarrow> str list \<Rightarrow> str" where
  "budget_lines limit rendered [] = rendered"
| "budget_lines limit rendered (item # items) =
     (let separator_bytes = (if rendered \<noteq> [] then 1 else 0)
      in if usize_saturating_add (usize_saturating_add (str_len rendered) separator_bytes) (str_len item) > limit
         then rendered
         else budget_lines limit ((if rendered \<noteq> [] then rendered @ newline else rendered) @ item) items)"

definition context_item :: "pipe_env \<Rightarrow> BoundedText \<Rightarrow> str" where
  "context_item env content = lit ''- '' @ pe_json env (JStr content)"

definition think_memories :: "pipe_env \<Rightarrow> RoleEntry \<Rightarrow> ThinkConfig \<Rightarrow> str" where
  "think_memories env role config =
     budget_lines (max_seed_memory_bytes config) []
       (map (\<lambda>m. context_item env (mb_content (me_body m)))
          (take (max_memories_in_prompt config) (bm_values (role_memories role))))"

definition think_rumors :: "pipe_env \<Rightarrow> RumorEntry list \<Rightarrow> RumorEntry list \<Rightarrow> ThinkConfig \<Rightarrow> str" where
  "think_rumors env activated retrieved config =
     budget_lines (max_rumor_bytes config) []
       (map (\<lambda>r. context_item env (rb_content (re_body r))) (activated @ retrieved))"

section \<open>The prompt (\<open>think/think_prompt.rs\<close>)\<close>

definition think_validate_context :: "RoleEntry \<Rightarrow> str \<Rightarrow> ThinkConfig \<Rightarrow> PipelineError + unit" where
  "think_validate_context role profile config =
     (if str_len profile > max_profile_bytes config then Err (InconsistentData Think ''think_profile_too_long'')
      else if str_len (rs_backstory (role_spec role)) > max_backstory_bytes config
        then Err (InconsistentData Think ''think_backstory_too_long'')
      else Ok ())"

definition character_decision_vars ::
  "pipe_env \<Rightarrow> StoryContext \<Rightarrow> ThinkInput \<Rightarrow> CharacterThinkRequest \<Rightarrow> RoleEntry \<Rightarrow> str \<Rightarrow> ThinkConfig \<Rightarrow> prompt_vars" where
  "character_decision_vars env ctx input request role profile config =
     [(''story_summary'', JStr (summary_or_empty ctx)), (''story_opening'', JStr (story_opening ctx)),
      (''recent_story'', JStr (recent_story ctx)),
      (''player_contribution'', JStr (pc_processed (ti_player_contribution input))),
      (''rumors'', JStr (think_rumors env (ti_activated_rumors input) (ti_retrieved_rumors input) config)),
      (''target_role_id'', JStr (role_id role)), (''target_name'', JStr (rs_name (role_spec role))),
      (''target_aliases'', JStr (pe_json env (JArr (map JStr (rs_alias (role_spec role)))))),
      (''target_profile'', JStr profile), (''target_backstory'', JStr (rs_backstory (role_spec role))),
      (''target_memories'', JStr (think_memories env role config)),
      (''thinking_focus'', JStr (ctr_thinking_focus request))]"

definition character_decision_prompt ::
  "pipe_env \<Rightarrow> StoryContext \<Rightarrow> ThinkInput \<Rightarrow> CharacterThinkRequest \<Rightarrow> RoleEntry \<Rightarrow> ThinkConfig \<Rightarrow>
   PipelineError + ChatMessage list" where
  "character_decision_prompt env ctx input request role config =
     (let profile = pe_json env (profile_json (role_profile role))
      in rbind (think_validate_context role profile config) (\<lambda>_.
           render env Think ''think.character_decision''
             (character_decision_vars env ctx input request role profile config)))"

section \<open>The answer (\<open>think/think_output.rs\<close>)\<close>

record CharacterDecisionDto =
  cdd_decision :: str
  cdd_suggested_utterance :: "str option"

abbreviation think_invalid :: "string \<Rightarrow> PipelineError" where
  "think_invalid code \<equiv> InvalidOutput Think code"

definition opt_len :: "str option \<Rightarrow> nat" where
  "opt_len v = (case v of None \<Rightarrow> 0 | Some t \<Rightarrow> str_len t)"

definition think_bounded :: "str \<Rightarrow> string \<Rightarrow> nat \<Rightarrow> string \<Rightarrow> PipelineError + BoundedText" where
  "think_bounded value field maximum_bytes code =
     map_err (\<lambda>_. think_invalid code) (BoundedText_try_new value field maximum_bytes)"

text \<open>\<open>Option::transpose\<close> after \<open>map\<close>.\<close>

fun opt_transpose :: "('e + 'a) option \<Rightarrow> 'e + 'a option" where
  "opt_transpose None = Inr None"
| "opt_transpose (Some (Inl e)) = Inl e"
| "opt_transpose (Some (Inr x)) = Inr (Some x)"

definition parse_character_decision ::
  "(str \<Rightarrow> CharacterDecisionDto option) \<Rightarrow> str \<Rightarrow> RoleId \<Rightarrow> ThinkConfig \<Rightarrow> PipelineError + CharacterDecision" where
  "parse_character_decision from_json raw rid config =
     rbind (ok_or (think_invalid ''think_output_invalid_json'') (from_json raw)) (\<lambda>dto.
       let decision = trim (cdd_decision dto);
           suggested_utterance = map_option trim (cdd_suggested_utterance dto)
       in if decision = [] then Err (think_invalid ''think_decision_empty'')
          else if str_len decision > max_decision_bytes config then Err (think_invalid ''think_decision_too_long'')
          else if suggested_utterance = Some [] then Err (think_invalid ''think_suggested_utterance_empty'')
          else if (case suggested_utterance of None \<Rightarrow> False | Some v \<Rightarrow> str_len v > max_suggested_utterance_bytes config)
            then Err (think_invalid ''think_suggested_utterance_too_long'')
          else if str_len decision + opt_len suggested_utterance > max_total_output_bytes config
            then Err (think_invalid ''think_output_too_long'')
          else rbind (think_bounded decision ''decision'' (max_decision_bytes config) ''think_decision_too_long'') (\<lambda>d.
               rbind (opt_transpose (map_option (\<lambda>v. think_bounded v ''suggested_utterance''
                        (max_suggested_utterance_bytes config) ''think_suggested_utterance_too_long'') suggested_utterance))
                 (\<lambda>u. Ok \<lparr>cd_role_id = rid, cd_decision = d, cd_suggested_utterance = u\<rparr>)))"

section \<open>The stage (\<open>think/think.rs\<close>)\<close>

definition think_validate_input :: "ThinkInput \<Rightarrow> StoryContext \<Rightarrow> PipelineError + unit" where
  "think_validate_input input ctx =
     distinct_check ctr_role_id (\<lambda>_. InconsistentData Think ''think_duplicate_request_role_id'')
       (\<lambda>request. if ctr_role_id request = ctx_player ctx then Err (InconsistentData Think ''think_player_role_forbidden'')
          else rmap (\<lambda>_. ()) (ok_or (InconsistentData Think ''think_resolved_role_missing'')
                 (bm_get (ctx_roles ctx) (ctr_role_id request)))) [] (ti_requests input)"

definition decide_role ::
  "pipe_env \<Rightarrow> (str \<Rightarrow> CharacterDecisionDto option) \<Rightarrow> ThinkConfig \<Rightarrow> ThinkInput \<Rightarrow> StoryContext \<Rightarrow>
   CharacterThinkRequest \<Rightarrow> RoleEntry \<Rightarrow> PipelineError + CharacterDecision" where
  "decide_role env from_json config input ctx request role =
     rbind (character_decision_prompt env ctx input request role config) (\<lambda>messages.
     rbind (complete env Think (CallThink (ctr_role_id request)) messages) (\<lambda>raw.
       parse_character_decision from_json raw (ctr_role_id request) config))"

definition think ::
  "pipe_env \<Rightarrow> (str \<Rightarrow> CharacterDecisionDto option) \<Rightarrow> ThinkConfig \<Rightarrow> ThinkInput \<Rightarrow> StoryContext \<Rightarrow>
   PipelineError + CharacterDecision list" where
  "think env from_json config input ctx =
     rbind (think_validate_input input ctx) (\<lambda>_.
       try_map (\<lambda>request.
           rbind (ok_or (InconsistentData Think ''think_resolved_role_missing'')
                    (bm_get (ctx_roles ctx) (ctr_role_id request)))
             (decide_role env from_json config input ctx request)) (ti_requests input))"

section \<open>Facts\<close>

definition decision_ok :: "ThinkConfig \<Rightarrow> CharacterDecision \<Rightarrow> bool" where
  "decision_ok config d \<longleftrightarrow>
     cd_decision d \<noteq> [] \<and> str_len (cd_decision d) \<le> max_decision_bytes config \<and>
     cd_suggested_utterance d \<noteq> Some [] \<and>
     (\<forall>u. cd_suggested_utterance d = Some u \<longrightarrow> str_len u \<le> max_suggested_utterance_bytes config) \<and>
     str_len (cd_decision d) + opt_len (cd_suggested_utterance d) \<le> max_total_output_bytes config"

lemma opt_transpose_Ok_iff [result_simps]:
  "opt_transpose x = Ok y \<longleftrightarrow> (case x of None \<Rightarrow> y = None | Some r \<Rightarrow> (\<exists>v. r = Ok v \<and> y = Some v))"
  by (induction x rule: opt_transpose.induct) auto

lemma parse_character_decision_Ok:
  assumes "parse_character_decision from_json raw rid config = Ok d"
  shows "cd_role_id d = rid \<and> decision_ok config d"
  using assms
  by (auto simp: parse_character_decision_def decision_ok_def Let_def think_bounded_def result_simps
      split: if_splits option.splits)

lemma join_snoc: "xs \<noteq> [] \<Longrightarrow> join sep (xs @ [x]) = join sep xs @ sep @ x"
  by (induction sep xs rule: join.induct) auto

text \<open>The text is the longest prefix of the items, one per line, that fits.\<close>

definition longest_prefix :: "nat \<Rightarrow> str list \<Rightarrow> str \<Rightarrow> bool" where
  "longest_prefix limit items t \<longleftrightarrow>
     (\<exists>n \<le> length items. t = join newline (take n items) \<and> str_len t \<le> limit \<and>
        (n < length items \<longrightarrow> str_len (join newline (take (Suc n) items)) > limit))"

lemma budget_lines_prefix:
  assumes "limit < usize_max" and "\<forall>x \<in> set (done @ items). x \<noteq> []" and "str_len (join newline done) \<le> limit"
  shows "\<exists>n \<le> length items. budget_lines limit (join newline done) items = join newline (done @ take n items) \<and>
    str_len (join newline (done @ take n items)) \<le> limit \<and>
    (n < length items \<longrightarrow> str_len (join newline (done @ take (Suc n) items)) > limit)"
  using assms
proof (induction items arbitrary: "done")
  case Nil
  then show ?case by (intro exI [of _ 0]) simp
next
  case (Cons item items)
  let ?next = "join newline (done @ [item])"
  have empty: "join newline done = [] \<longleftrightarrow> done = []"
    using Cons.prems(2) by (cases "done"; cases "tl done") auto
  have nxt: "?next = (if join newline done \<noteq> [] then join newline done @ newline else join newline done) @ item"
    by (simp add: empty join_snoc)
  have len: "str_len ?next = str_len (join newline done) + (if join newline done \<noteq> [] then 1 else 0) + str_len item"
    unfolding nxt by (simp add: newline_def utf8_len_def)
  have step: "budget_lines limit (join newline done) (item # items) =
      (if str_len ?next > limit then join newline done else budget_lines limit ?next items)"
    using Cons.prems(1) unfolding len
    by (auto simp: Let_def nxt usize_saturating_add_def min_def)
  show ?case
  proof (cases "str_len ?next > limit")
    case True
    then show ?thesis using Cons.prems(3) step by (intro exI [of _ 0]) simp
  next
    case False
    then obtain n where "n \<le> length items \<and> budget_lines limit ?next items = join newline ((done @ [item]) @ take n items) \<and>
        str_len (join newline ((done @ [item]) @ take n items)) \<le> limit \<and>
        (n < length items \<longrightarrow> str_len (join newline ((done @ [item]) @ take (Suc n) items)) > limit)"
      using Cons.IH [of "done @ [item]"] Cons.prems(1,2) by auto
    then show ?thesis using False step by (intro exI [of _ "Suc n"]) simp
  qed
qed

lemma budget_lines_longest:
  assumes "limit < usize_max" and "\<forall>x \<in> set items. x \<noteq> []"
  shows "longest_prefix limit items (budget_lines limit [] items)"
  using budget_lines_prefix [OF assms(1), of "[]" items] assms(2) by (auto simp: longest_prefix_def)

text \<open>
  A character's prompt shows the longest prefix of its memories (at most the configured number,
  in the order of their identifiers) whose rendering fits the byte budget, one per line; the same
  holds of the rumors, activated ones first.
\<close>

lemma think_context_fits:
  assumes "max_seed_memory_bytes config < usize_max" and "max_rumor_bytes config < usize_max"
  shows "longest_prefix (max_seed_memory_bytes config)
      (map (\<lambda>m. context_item env (mb_content (me_body m))) (take (max_memories_in_prompt config) (bm_values (role_memories role))))
      (think_memories env role config) \<and>
    longest_prefix (max_rumor_bytes config)
      (map (\<lambda>r. context_item env (rb_content (re_body r))) (activated @ retrieved))
      (think_rumors env activated retrieved config)"
  unfolding think_memories_def think_rumors_def
  by (intro conjI budget_lines_longest assms) (auto simp: context_item_def lit_def)

lemma think_validate_input_after_plan:
  assumes "plan_ok ctx known config plan" and "ti_requests input = po_character_think_requests plan"
  shows "think_validate_input input ctx = Ok ()"
  using assms by (auto simp: think_validate_input_def result_simps plan_ok_def role_offered_def bm_contains_def)

lemma think_plan_results:
  assumes "plan_ok ctx known plan_config plan" and "ti_requests input = po_character_think_requests plan"
  shows "case think env from_json config input ctx of
      Inr ds \<Rightarrow> map cd_role_id ds = map ctr_role_id (po_character_think_requests plan) \<and> list_all (decision_ok config) ds
    | Inl e \<Rightarrow> (\<exists>r \<in> set (po_character_think_requests plan). \<exists>role.
        bm_get (ctx_roles ctx) (ctr_role_id r) = Some role \<and> decide_role env from_json config input ctx r role = Err e)"
proof -
  let ?f = "\<lambda>r. rbind (ok_or (InconsistentData Think ''think_resolved_role_missing'') (bm_get (ctx_roles ctx) (ctr_role_id r)))
      (decide_role env from_json config input ctx r)"
  have t: "think env from_json config input ctx = try_map ?f (po_character_think_requests plan)"
    using think_validate_input_after_plan [OF assms] assms(2) by (simp add: think_def)
  have held: "\<exists>role. bm_get (ctx_roles ctx) (ctr_role_id r) = Some role" if "r \<in> set (po_character_think_requests plan)" for r
    using assms(1) that by (auto simp: plan_ok_def role_offered_def bm_contains_def)
  have one: "?f r = Ok d \<Longrightarrow> cd_role_id d = ctr_role_id r \<and> decision_ok config d" for r d
    by (auto simp: result_simps decide_role_def dest: parse_character_decision_Ok)
  have many: "map cd_role_id ds = map ctr_role_id rs \<and> list_all (decision_ok config) ds"
    if "list_all2 (\<lambda>r d. ?f r = Ok d) rs ds" for rs ds
    using that by (induction rule: list_all2_induct) (auto dest: one)
  show ?thesis
  proof (cases "try_map ?f (po_character_think_requests plan)")
    case (Inl e)
    from try_map_Err_mem [OF this] held show ?thesis unfolding t Inl by (fastforce simp: result_simps)
  next
    case (Inr ds)
    show ?thesis using many [OF Inr [unfolded try_map_Ok_iff]] by (simp add: t Inr)
  qed
qed

text \<open>
  On the requests of an accepted plan the role checks of the stage never fail: it returns one
  decision per request, for the same roles in the same order, each within the configured sizes, or
  the error of deciding for one of the requested roles.
\<close>

lemma think_after_plan:
  assumes "plan_ok ctx known plan_config plan" and "ti_requests input = po_character_think_requests plan"
  shows "case think env from_json config input ctx of
      Inr ds \<Rightarrow> map cd_role_id ds = map ctr_role_id (po_character_think_requests plan) \<and> list_all (decision_ok config) ds
    | Inl e \<Rightarrow> (\<exists>r \<in> set (po_character_think_requests plan). \<exists>role.
        bm_get (ctx_roles ctx) (ctr_role_id r) = Some role \<and> decide_role env from_json config input ctx r role = Err e)"
  by (rule think_plan_results [OF assms])

end
