(* ===== verification/Generate_Stage.thy ===== *)
theory Generate_Stage
  imports Think_Stage
begin

text \<open>
  \<open>pipeline/generate\<close>: the roles and decisions of a turn are checked once more, rendered within the
  byte budgets (a backstory that does not fit is cut at a character boundary found by binary search
  and marked), and the model writes the proposal.
\<close>

section \<open>Configuration (\<open>generate/config.rs\<close>)\<close>

record GenerateConfig =
  max_role_bytes_per_role :: nat
  max_role_context_bytes :: nat
  max_decision_context_bytes :: nat

definition GenerateConfig_default :: GenerateConfig where
  "GenerateConfig_default =
     \<lparr>max_role_bytes_per_role = 16384, max_role_context_bytes = 393216, max_decision_context_bytes = 16384\<rparr>"

record GenerateInput =
  gi_story_goal :: str
  gi_player_contribution :: PlayerContribution
  gi_directions :: "NarrativeDirection list"
  gi_constraints :: "BoundedText list"
  gi_knowledge :: ActivatedKnowledge
  gi_retrieved_facts :: "FactEntry list"
  gi_retrieved_rumors :: "RumorEntry list"
  gi_role_ids :: "RoleId list"
  gi_character_decisions :: "CharacterDecision list"

abbreviation generate_inconsistent :: "string \<Rightarrow> PipelineError" where
  "generate_inconsistent code \<equiv> InconsistentData Generate code"

section \<open>Role checks (\<open>generate/generate_roles.rs\<close>)\<close>

definition generate_resolve_role :: "StoryContext \<Rightarrow> RoleId \<Rightarrow> PipelineError + RoleEntry" where
  "generate_resolve_role ctx rid = ok_or (generate_inconsistent ''generate_role_missing'') (bm_get (ctx_roles ctx) rid)"

definition generate_resolve_roles :: "StoryContext \<Rightarrow> RoleId list \<Rightarrow> PipelineError + RoleEntry list" where
  "generate_resolve_roles ctx rids =
     distinct_map id (\<lambda>_. generate_inconsistent ''generate_duplicate_role_id'') (generate_resolve_role ctx) [] rids"

definition validate_ai_roles :: "RoleEntry \<Rightarrow> RoleEntry list \<Rightarrow> PipelineError + unit" where
  "validate_ai_roles player rs =
     (if list_ex (\<lambda>r. role_id r = role_id player) rs
      then Err (generate_inconsistent ''generate_player_role_in_ai_roles'') else Ok ())"

text \<open>Here the player check comes before the duplicate check.\<close>

fun validate_decisions_loop ::
  "RoleEntry \<Rightarrow> RoleEntry list \<Rightarrow> RoleId list \<Rightarrow> CharacterDecision list \<Rightarrow> PipelineError + unit" where
  "validate_decisions_loop player rs seen [] = Ok ()"
| "validate_decisions_loop player rs seen (d # ds) =
     (if cd_role_id d = role_id player
      then Err (generate_inconsistent ''generate_player_character_decision_forbidden'')
      else if cd_role_id d \<in> set seen then Err (generate_inconsistent ''generate_duplicate_character_decision'')
      else if \<not> list_ex (\<lambda>r. role_id r = cd_role_id d) rs
        then Err (generate_inconsistent ''generate_character_decision_role_missing'')
      else validate_decisions_loop player rs (cd_role_id d # seen) ds)"

definition validate_decisions :: "RoleEntry \<Rightarrow> RoleEntry list \<Rightarrow> CharacterDecision list \<Rightarrow> PipelineError + unit" where
  "validate_decisions player rs decisions = validate_decisions_loop player rs [] decisions"

section \<open>Truncation\<close>

definition TRUNCATION_MARKER :: str where
  "TRUNCATION_MARKER = lit ''[truncated]''"

definition generate_json_string :: "pipe_env \<Rightarrow> str \<Rightarrow> str" where
  "generate_json_string env value = pe_json env (JStr value)"

text \<open>
  The binary search of \<open>truncated_json_string\<close>. \<open>boundaries[m]\<close> is the byte offset of the \<open>m\<close>-th
  character (or the end), so that \<open>&value[..boundaries[m]]\<close> is the first \<open>m\<close> characters.
\<close>

function truncation_search :: "(nat \<Rightarrow> bool) \<Rightarrow> nat \<Rightarrow> nat \<Rightarrow> nat" where
  "truncation_search fits low high =
     (if low < high
      then let middle = low + (high - low) div 2
           in if fits middle then truncation_search fits (middle + 1) high
              else truncation_search fits low middle
      else low)"
  by pat_completeness auto

termination by (relation "measure (\<lambda>(fits, low, high). high - low)") auto

declare truncation_search.simps [simp del]

definition truncated_json_string :: "pipe_env \<Rightarrow> str \<Rightarrow> nat \<Rightarrow> str option" where
  "truncated_json_string env value maximum_bytes =
     (if str_len (generate_json_string env TRUNCATION_MARKER) > maximum_bytes then None
      else let candidate = (\<lambda>m. generate_json_string env (take m value @ TRUNCATION_MARKER));
               low = truncation_search (\<lambda>m. str_len (candidate m) \<le> maximum_bytes) 0 (length value + 1)
           in Some (candidate (low - 1)))"

section \<open>Rendering\<close>

text \<open>\<open>serde_json::Map\<close> is ordered by key.\<close>

definition dialogue_examples_json :: "CharacterProfile \<Rightarrow> json" where
  "dialogue_examples_json p =
     JArr (map (\<lambda>d. JObj [(''response'', JStr (de_response d)), (''situation'', JStr (de_situation d))])
       (dialogue_examples p))"

definition role_identity :: "pipe_env \<Rightarrow> RoleEntry \<Rightarrow> str" where
  "role_identity env role =
     (let profile = role_profile role
      in join newline
        [lit ''role_id: '' @ generate_json_string env (role_id role),
         lit ''name: '' @ generate_json_string env (rs_name (role_spec role)),
         lit ''aliases: '' @ pe_json env (JArr (map JStr (rs_alias (role_spec role)))),
         lit ''profile.appearance: '' @ pe_json env (opt_text_json (appearance profile)),
         lit ''profile.personality: '' @ pe_json env (opt_text_json (personality profile)),
         lit ''profile.speaking_style: '' @ pe_json env (opt_text_json (speaking_style profile)),
         lit ''profile.dialogue_examples: '' @ pe_json env (dialogue_examples_json profile)])"

definition backstory_prefix :: str where
  "backstory_prefix = newline @ lit ''backstory: ''"

abbreviation role_too_large :: PipelineError where
  "role_too_large \<equiv> generate_inconsistent ''generate_role_projection_too_large''"

definition render_role :: "pipe_env \<Rightarrow> GenerateConfig \<Rightarrow> RoleEntry \<Rightarrow> PipelineError + str" where
  "render_role env config role =
     (let rendered = role_identity env role; maximum = max_role_bytes_per_role config;
          with_backstory = (\<lambda>b. usize_saturating_add
            (usize_saturating_add (str_len rendered) (str_len backstory_prefix)) (str_len b));
          full_backstory = generate_json_string env (rs_backstory (role_spec role))
      in if str_len rendered > maximum then Err role_too_large
         else rmap (\<lambda>backstory. rendered @ backstory_prefix @ backstory)
           (if with_backstory full_backstory \<le> maximum then Ok full_backstory
            else if with_backstory (generate_json_string env TRUNCATION_MARKER) > maximum then Err role_too_large
            else ok_or role_too_large (truncated_json_string env (rs_backstory (role_spec role))
                   (maximum - str_len rendered - str_len backstory_prefix))))"

definition render_roles_step :: "pipe_env \<Rightarrow> GenerateConfig \<Rightarrow> str \<Rightarrow> RoleEntry \<Rightarrow> PipelineError + str" where
  "render_roles_step env config rendered role =
     rmap (\<lambda>r. (if rendered \<noteq> [] then rendered @ newline @ newline else rendered) @ r) (render_role env config role)"

definition render_roles :: "pipe_env \<Rightarrow> GenerateConfig \<Rightarrow> RoleEntry list \<Rightarrow> PipelineError + str" where
  "render_roles env config rs = try_fold (render_roles_step env config) [] rs"

definition validate_aggregate_role_context :: "str \<Rightarrow> str \<Rightarrow> GenerateConfig \<Rightarrow> PipelineError + unit" where
  "validate_aggregate_role_context player roles_text config =
     (let separator_bytes = (if roles_text \<noteq> [] then 2 else 0)
      in if usize_saturating_add (usize_saturating_add (str_len player) separator_bytes) (str_len roles_text)
            > max_role_context_bytes config
         then Err (generate_inconsistent ''generate_role_context_too_large'') else Ok ())"

definition decision_item :: "pipe_env \<Rightarrow> CharacterDecision \<Rightarrow> str" where
  "decision_item env d =
     lit ''- role_id: '' @ generate_json_string env (cd_role_id d) @ newline @
     lit ''  decision: '' @ generate_json_string env (cd_decision d) @ newline @
     lit ''  suggested_utterance: '' @ pe_json env (opt_text_json (cd_suggested_utterance d))"

definition render_decisions_step :: "pipe_env \<Rightarrow> GenerateConfig \<Rightarrow> str \<Rightarrow> CharacterDecision \<Rightarrow> PipelineError + str" where
  "render_decisions_step env config rendered d =
     (let item = decision_item env d; separator_bytes = (if rendered \<noteq> [] then 1 else 0)
      in if usize_saturating_add (usize_saturating_add (str_len rendered) separator_bytes) (str_len item)
            > max_decision_context_bytes config
         then Err (generate_inconsistent ''generate_decision_context_too_large'')
         else Ok ((if rendered \<noteq> [] then rendered @ newline else rendered) @ item))"

definition render_decisions :: "pipe_env \<Rightarrow> GenerateConfig \<Rightarrow> CharacterDecision list \<Rightarrow> PipelineError + str" where
  "render_decisions env config ds = try_fold (render_decisions_step env config) [] ds"

record GenerateRoleContext =
  grc_player_role :: str
  grc_roles :: str
  grc_decisions :: str

definition check_role_context ::
  "StoryContext \<Rightarrow> RoleId list \<Rightarrow> CharacterDecision list \<Rightarrow> PipelineError + RoleEntry \<times> RoleEntry list" where
  "check_role_context ctx rids decisions =
     rbind (generate_resolve_role ctx (ctx_player ctx)) (\<lambda>player.
     rbind (generate_resolve_roles ctx rids) (\<lambda>rs.
     rbind (validate_ai_roles player rs) (\<lambda>_.
     rbind (validate_decisions player rs decisions) (\<lambda>_. Ok (player, rs)))))"

definition project_role_context ::
  "pipe_env \<Rightarrow> StoryContext \<Rightarrow> RoleId list \<Rightarrow> CharacterDecision list \<Rightarrow> GenerateConfig \<Rightarrow>
   PipelineError + GenerateRoleContext" where
  "project_role_context env ctx rids decisions config =
     rbind (check_role_context ctx rids decisions) (\<lambda>(player, rs).
     rbind (render_role env config player) (\<lambda>player_role.
     rbind (render_roles env config rs) (\<lambda>roles_text.
     rbind (validate_aggregate_role_context player_role roles_text config) (\<lambda>_.
     rbind (render_decisions env config decisions) (\<lambda>decisions_text.
       Ok \<lparr>grc_player_role = player_role, grc_roles = roles_text, grc_decisions = decisions_text\<rparr>)))))"

section \<open>The stage (\<open>generate/generate_prompt.rs\<close>, \<open>generate.rs\<close>)\<close>

definition generate_vars ::
  "pipe_env \<Rightarrow> StoryContext \<Rightarrow> GenerateInput \<Rightarrow> GenerateRoleContext \<Rightarrow> ProposalQualityPolicy \<Rightarrow> prompt_vars" where
  "generate_vars env ctx input rc policy =
     (let quality = project_proposal_quality env policy
      in [(''story_summary'', JStr (summary_or_empty ctx)), (''story_opening'', JStr (story_opening ctx)),
          (''recent_story'', JStr (recent_story ctx)),
          (''known_facts'', JStr (known_facts_with_retrieved (ak_facts (gi_knowledge input)) (gi_retrieved_facts input))),
          (''rumors'', JStr (rumors_with_retrieved (ak_rumors (gi_knowledge input)) (gi_retrieved_rumors input))),
          (''player_role'', JStr (grc_player_role rc)), (''relevant_roles'', JStr (grc_roles rc)),
          (''character_decisions'', JStr (grc_decisions rc)),
          (''narrative_directions'', JStr (narrative_directions (gi_directions input))),
          (''story_constraints'', JStr (story_constraints (gi_constraints input))),
          (''story_goal'', JStr (gi_story_goal input)),
          (''player_contribution'', JStr (pc_processed (gi_player_contribution input))),
          (''check_criteria'', JStr (pqp_check_criteria quality)), (''score_criteria'', JStr (pqp_score_criteria quality))])"

definition generate_story ::
  "pipe_env \<Rightarrow> GenerateConfig \<Rightarrow> ProposalQualityPolicy \<Rightarrow> GenerateInput \<Rightarrow> StoryContext \<Rightarrow> PipelineError + str" where
  "generate_story env config policy input ctx =
     rbind (project_role_context env ctx (gi_role_ids input) (gi_character_decisions input) config) (\<lambda>rc.
     rbind (render env Generate ''generate.generate_story'' (generate_vars env ctx input rc policy)) (\<lambda>messages.
       complete env Generate CallGenerate messages))"

section \<open>Facts\<close>

lemma validate_decisions_loop_Ok_iff [result_simps]:
  "validate_decisions_loop player rs seen ds = Ok u \<longleftrightarrow>
     distinct (map cd_role_id ds) \<and> cd_role_id ` set ds \<inter> set seen = {} \<and>
     (\<forall>d \<in> set ds. cd_role_id d \<noteq> role_id player \<and> (\<exists>r \<in> set rs. role_id r = cd_role_id d))"
  by (induction ds arbitrary: seen) (auto simp: list_ex_iff)

text \<open>Below the result the predicate held where it was tested.\<close>

lemma truncation_search_fits:
  "low = 0 \<or> fits (low - 1) \<Longrightarrow> low \<le> high \<Longrightarrow>
     (truncation_search fits low high = 0 \<or> fits (truncation_search fits low high - 1)) \<and>
     truncation_search fits low high \<le> high"
proof (induction fits low high rule: truncation_search.induct)
  case (1 fits low high)
  show ?case
  proof (cases "low < high")
    case True
    then have "low + (high - low) div 2 < high" by linarith
    with True 1 show ?thesis
      by (subst (1 2 3) truncation_search.simps) (auto simp: Let_def)
  next
    case False
    with "1.prems" show ?thesis by (simp add: truncation_search.simps)
  qed
qed

text \<open>With an antitone predicate the search finds the border.\<close>

lemma truncation_search_border:
  assumes "\<And>i j. i \<le> j \<Longrightarrow> fits j \<Longrightarrow> fits i"
  shows "\<forall>i < low. fits i \<Longrightarrow> \<forall>i. high \<le> i \<and> i < n \<longrightarrow> \<not> fits i \<Longrightarrow> low \<le> high \<Longrightarrow> high \<le> n \<Longrightarrow>
    (\<forall>i < truncation_search fits low high. fits i) \<and>
    (\<forall>i. truncation_search fits low high \<le> i \<and> i < n \<longrightarrow> \<not> fits i)"
  using assms
proof (induction fits low high rule: truncation_search.induct)
  case (1 fits low high)
  let ?m = "low + (high - low) div 2"
  show ?case
  proof (cases "low < high")
    case True
    then have m: "low \<le> ?m" "?m < high" by linarith+
    show ?thesis
    proof (cases "fits ?m")
      case fit: True
      have "\<forall>i < ?m + 1. fits i" using "1.prems"(5) [OF _ fit] by auto
      from "1.IH"(1) [OF True refl fit this] "1.prems" m show ?thesis
        by (subst (1 2) truncation_search.simps) (simp add: True fit Let_def)
    next
      case unfit: False
      have "\<forall>i. ?m \<le> i \<and> i < n \<longrightarrow> \<not> fits i" using "1.prems"(5) unfit by blast
      from "1.IH"(2) [OF True refl unfit _ this] "1.prems" m show ?thesis
        by (subst (1 2) truncation_search.simps) (simp add: True unfit Let_def)
    qed
  next
    case False
    with "1.prems" show ?thesis by (simp add: truncation_search.simps)
  qed
qed

lemma truncated_json_string_fits:
  assumes "truncated_json_string env value maximum = Some t"
  shows "str_len t \<le> maximum"
proof -
  let ?c = "\<lambda>m. generate_json_string env (take m value @ TRUNCATION_MARKER)"
  let ?low = "truncation_search (\<lambda>m. str_len (?c m) \<le> maximum) 0 (length value + 1)"
  have "str_len (?c 0) \<le> maximum" and t: "t = ?c (?low - 1)"
    using assms by (auto simp: truncated_json_string_def Let_def split: if_splits)
  moreover have "?low = 0 \<or> str_len (?c (?low - 1)) \<le> maximum"
    using truncation_search_fits [of 0 "\<lambda>m. str_len (?c m) \<le> maximum" "length value + 1"] by simp
  ultimately show ?thesis by auto
qed

text \<open>What serde\_json does with a string: quotes around its characters, each escaped on its own.\<close>

definition json_escapes :: "pipe_env \<Rightarrow> (uchar \<Rightarrow> str) \<Rightarrow> bool" where
  "json_escapes env esc \<longleftrightarrow> (\<forall>t. pe_json env (JStr t) = [34] @ concat (map esc t) @ [34])"

lemma json_string_mono:
  assumes "json_escapes env esc" and "i \<le> j"
  shows "str_len (generate_json_string env (take i value @ m)) \<le> str_len (generate_json_string env (take j value @ m))"
proof -
  have "take j value = take i value @ take (j - i) (drop i value)"
    using assms(2) by (metis take_add le_add_diff_inverse)
  then show ?thesis using assms(1) by (simp add: generate_json_string_def json_escapes_def)
qed

text \<open>
  A backstory that is cut is cut as little as possible: the result is a prefix of the backstory
  with the marker, it fits, and either nothing was lost but for the marker or one more character
  would not have fitted.
\<close>

lemma truncation_maximal:
  assumes "json_escapes env esc" and "str_len (generate_json_string env TRUNCATION_MARKER) \<le> maximum"
  shows "\<exists>n \<le> length value.
    truncated_json_string env value maximum = Some (generate_json_string env (take n value @ TRUNCATION_MARKER)) \<and>
    str_len (generate_json_string env (take n value @ TRUNCATION_MARKER)) \<le> maximum \<and>
    (n < length value \<longrightarrow> str_len (generate_json_string env (take (Suc n) value @ TRUNCATION_MARKER)) > maximum)"
proof -
  let ?c = "\<lambda>m. generate_json_string env (take m value @ TRUNCATION_MARKER)"
  let ?fits = "\<lambda>m. str_len (?c m) \<le> maximum"
  define low where "low = truncation_search ?fits 0 (length value + 1)"
  have res: "truncated_json_string env value maximum = Some (?c (low - 1))"
    using assms(2) by (simp add: truncated_json_string_def Let_def low_def)
  have anti: "\<And>i j. i \<le> j \<Longrightarrow> ?fits j \<Longrightarrow> ?fits i"
    by (rule order_trans [OF json_string_mono [OF assms(1)]])
  have "(\<forall>i < low. ?fits i) \<and> (\<forall>i. low \<le> i \<and> i < length value + 1 \<longrightarrow> \<not> ?fits i)"
    unfolding low_def by (rule truncation_search_border [of ?fits, OF anti]) simp_all
  then have border: "\<forall>i. low \<le> i \<and> i < length value + 1 \<longrightarrow> \<not> ?fits i" ..
  have "low \<le> length value + 1"
    using truncation_search_fits [of 0 ?fits "length value + 1"] by (simp add: low_def)
  moreover obtain n where "low = Suc n"
    using border [rule_format, of 0] assms(2) by (cases low) simp_all
  moreover have "n < length value \<Longrightarrow> \<not> ?fits (Suc n)" if "low = Suc n" for n
    using border [rule_format, of "Suc n"] that by simp
  ultimately show ?thesis
    using res truncated_json_string_fits [OF res] by (intro exI [of _ n]) (auto simp: not_le)
qed

lemma render_role_fits:
  assumes "render_role env config role = Ok t" and "max_role_bytes_per_role config < usize_max"
  shows "str_len t \<le> max_role_bytes_per_role config"
  using assms(1) assms(2)
  by (auto simp: render_role_def Let_def result_simps usize_saturating_add_def split: if_splits
      dest!: truncated_json_string_fits)

lemma render_decisions_fits:
  assumes "render_decisions env config ds = Ok t" and "max_decision_context_bytes config < usize_max"
  shows "str_len t \<le> max_decision_context_bytes config"
  using assms(1) unfolding render_decisions_def
proof (rule try_fold_inv)
  fix s d s'
  assume "render_decisions_step env config s d = Ok s'"
  then show "str_len s' \<le> max_decision_context_bytes config"
    using assms(2) by (auto simp: render_decisions_step_def Let_def usize_saturating_add_def newline_def
        utf8_len_def split: if_splits)
qed simp

text \<open>
  The role context handed to the generation prompt respects every budget: the player's role fits
  the per-role budget, the player's role, the separator and the other roles together fit the
  aggregate budget, and the decisions fit theirs.
\<close>

lemma role_context_fits:
  assumes "project_role_context env ctx rids decisions config = Ok rc"
    and "max_role_bytes_per_role config < usize_max" and "max_role_context_bytes config < usize_max"
    and "max_decision_context_bytes config < usize_max"
  shows "str_len (grc_player_role rc) \<le> max_role_bytes_per_role config \<and>
    str_len (grc_player_role rc) + (if grc_roles rc = [] then 0 else 2 + str_len (grc_roles rc))
      \<le> max_role_context_bytes config \<and>
    str_len (grc_decisions rc) \<le> max_decision_context_bytes config"
proof -
  obtain player rs where player: "render_role env config player = Ok (grc_player_role rc)"
    and "render_roles env config rs = Ok (grc_roles rc)"
    and agg: "validate_aggregate_role_context (grc_player_role rc) (grc_roles rc) config = Ok ()"
    and decs: "render_decisions env config decisions = Ok (grc_decisions rc)"
    using assms(1) by (auto simp: project_role_context_def result_simps split: prod.splits)
  have "str_len (grc_player_role rc) + (if grc_roles rc = [] then 0 else 2 + str_len (grc_roles rc))
      \<le> max_role_context_bytes config"
    using agg assms(3)
    by (auto simp: validate_aggregate_role_context_def Let_def usize_saturating_add_def split: if_splits)
  then show ?thesis
    using render_role_fits [OF player assms(2)] render_decisions_fits [OF decs assms(4)] by simp
qed

text \<open>When the role checks of the stage cannot fail: the keys of the roles are their identifiers.\<close>

definition roles_keyed :: "roles \<Rightarrow> bool" where
  "roles_keyed rs \<longleftrightarrow> (\<forall>rid r. bm_get rs rid = Some r \<longrightarrow> role_id r = rid)"

lemma check_role_context_Ok:
  assumes "roles_keyed (ctx_roles ctx)" and "bm_contains (ctx_roles ctx) (ctx_player ctx)"
    and "distinct rids" and "\<forall>rid \<in> set rids. role_offered ctx rid"
    and "distinct (map cd_role_id ds)" and "cd_role_id ` set ds \<subseteq> set rids"
  shows "\<exists>player rs. check_role_context ctx rids ds = Ok (player, rs)"
proof -
  let ?get = "\<lambda>rid. the (bm_get (ctx_roles ctx) rid)"
  have keyed: "role_id (?get rid) = rid" if "bm_contains (ctx_roles ctx) rid" for rid
    using assms(1) that by (auto simp: roles_keyed_def bm_contains_def)
  have get: "generate_resolve_role ctx rid = Ok (?get rid)" if "bm_contains (ctx_roles ctx) rid" for rid
    using that by (auto simp: generate_resolve_role_def bm_contains_def)
  have offered: "bm_contains (ctx_roles ctx) rid \<and> rid \<noteq> ctx_player ctx" if "rid \<in> set rids" for rid
    using assms(4) that by (auto simp: role_offered_def)
  have rs: "generate_resolve_roles ctx rids = Ok (map ?get rids)"
    using assms(3) get offered
    by (auto simp: generate_resolve_roles_def distinct_map_Ok_iff list_all2_map2 intro!: list.rel_refl_strong)
  have ids: "role_id ` set (map ?get rids) = set rids" using keyed offered by force
  have ai: "validate_ai_roles (?get (ctx_player ctx)) (map ?get rids) = Ok ()"
    using keyed offered keyed [OF assms(2)] by (auto simp: validate_ai_roles_def list_ex_iff)
  have "validate_decisions (?get (ctx_player ctx)) (map ?get rids) ds = Ok ()"
    unfolding validate_decisions_def validate_decisions_loop_Ok_iff
    using assms(5,6) offered keyed [OF assms(2)] ids
    by (auto simp: image_iff) (metis imageE keyed list.set_map subsetD imageI offered)+
  with get [OF assms(2)] rs ai show ?thesis by (simp add: check_role_context_def)
qed

end
