(* ===== verification/Validate_Stage.thy ===== *)
theory Validate_Stage
  imports Pipeline_Common
begin

text \<open>
  \<open>pipeline/validate\<close>: the criteria a proposal is judged by and their configuration, the evaluator's
  prompt, and the parser that turns the model's judgement into a report. \<open>from_json\<close> is the
  deserializer of the answer; on an error it gives the text of the error.
\<close>

section \<open>Configuration (\<open>validate/config.rs\<close>)\<close>

abbreviation MAX_VALIDATE_CHECKS :: nat where
  "MAX_VALIDATE_CHECKS \<equiv> 16"

abbreviation MAX_VALIDATE_SCORES :: nat where
  "MAX_VALIDATE_SCORES \<equiv> 16"

abbreviation MAX_CRITERION_NAME_BYTES :: nat where
  "MAX_CRITERION_NAME_BYTES \<equiv> 64"

abbreviation MAX_CRITERION_DESCRIPTION_BYTES :: nat where
  "MAX_CRITERION_DESCRIPTION_BYTES \<equiv> 2048"

abbreviation MAX_TARGET_GUIDANCE_BYTES :: nat where
  "MAX_TARGET_GUIDANCE_BYTES \<equiv> 2048"

abbreviation MAX_ISSUE_BYTES_LIMIT :: nat where
  "MAX_ISSUE_BYTES_LIMIT \<equiv> 16384"

record ValidateConfig =
  vcf_checks :: "ProposalCheckCriterion list"
  vcf_scores :: "ProposalScoreCriterion list"
  max_issue_bytes :: nat

abbreviation validate_config_error :: "string \<Rightarrow> PipelineError" where
  "validate_config_error code \<equiv> InvalidConfig Validate code"

definition validate_text_fields :: "str \<Rightarrow> str \<Rightarrow> PipelineError + unit" where
  "validate_text_fields name description =
     (if name = [] then Err (validate_config_error ''validate_criterion_name_empty'')
      else if str_len name > MAX_CRITERION_NAME_BYTES
        then Err (validate_config_error ''validate_criterion_name_too_long'')
      else if trim description = [] then Err (validate_config_error ''validate_criterion_description_empty'')
      else if str_len (trim description) > MAX_CRITERION_DESCRIPTION_BYTES
        then Err (validate_config_error ''validate_criterion_description_too_long'')
      else Ok ())"

text \<open>The two loops over the criteria; the accumulator is the set \<open>names\<close>.\<close>

definition check_criterion_step :: "str list \<Rightarrow> ProposalCheckCriterion \<Rightarrow> PipelineError + str list" where
  "check_criterion_step names c =
     rbind (validate_text_fields (pcc_name c) (pcc_description c)) (\<lambda>_.
       if pcc_name c \<in> set names then Err (validate_config_error ''validate_criterion_name_duplicate'')
       else Ok (pcc_name c # names))"

definition validate_score_criterion :: "ProposalScoreCriterion \<Rightarrow> PipelineError + unit" where
  "validate_score_criterion s =
     (if \<not> is_finite (psc_min_score s) \<or> \<not> is_finite (psc_max_score s) \<or> \<not> is_finite (psc_target_score s)
      then Err (validate_config_error ''validate_score_value_non_finite'')
      else if f_le (psc_max_score s) (psc_min_score s) \<or> f_lt (psc_target_score s) (psc_min_score s) \<or>
              f_lt (psc_max_score s) (psc_target_score s)
        then Err (validate_config_error ''validate_score_range_invalid'')
      else if trim (psc_target_guidance s) = []
        then Err (validate_config_error ''validate_score_target_guidance_empty'')
      else if str_len (trim (psc_target_guidance s)) > MAX_TARGET_GUIDANCE_BYTES
        then Err (validate_config_error ''validate_score_target_guidance_too_long'')
      else Ok ())"

definition score_criterion_step :: "str list \<Rightarrow> ProposalScoreCriterion \<Rightarrow> PipelineError + str list" where
  "score_criterion_step names s =
     rbind (validate_text_fields (psc_name s) (psc_description s)) (\<lambda>_.
       if psc_name s \<in> set names then Err (validate_config_error ''validate_criterion_name_duplicate'')
       else rbind (validate_score_criterion s) (\<lambda>_. Ok (psc_name s # names)))"

definition ValidateConfig_validate :: "ValidateConfig \<Rightarrow> PipelineError + unit" where
  "ValidateConfig_validate config =
     (if vcf_checks config = [] \<and> vcf_scores config = []
      then Err (validate_config_error ''validate_criteria_empty'')
      else if length (vcf_checks config) > MAX_VALIDATE_CHECKS
        then Err (validate_config_error ''validate_checks_too_many'')
      else if length (vcf_scores config) > MAX_VALIDATE_SCORES
        then Err (validate_config_error ''validate_scores_too_many'')
      else rbind (try_fold check_criterion_step [] (vcf_checks config)) (\<lambda>names.
           rbind (try_fold score_criterion_step names (vcf_scores config)) (\<lambda>_.
             if \<not> (1 \<le> max_issue_bytes config \<and> max_issue_bytes config \<le> MAX_ISSUE_BYTES_LIMIT)
             then Err (validate_config_error ''validate_max_issue_bytes_invalid'')
             else Ok ())))"

definition quality_policy :: "ValidateConfig \<Rightarrow> ProposalQualityPolicy" where
  "quality_policy config = \<lparr>pol_checks = vcf_checks config, pol_scores = vcf_scores config\<rparr>"

definition default_check :: "string \<Rightarrow> string \<Rightarrow> ProposalCheckCriterion" where
  "default_check name description = \<lparr>pcc_name = lit name, pcc_description = lit description\<rparr>"

definition default_score :: "string \<Rightarrow> string \<Rightarrow> string \<Rightarrow> ProposalScoreCriterion" where
  "default_score name description target_guidance =
     \<lparr>psc_name = lit name, psc_description = lit description, psc_min_score = Fin 0, psc_max_score = Fin 10,
      psc_target_score = Fin 8, psc_target_guidance = lit target_guidance\<rparr>"

definition ValidateConfig_default :: ValidateConfig where
  "ValidateConfig_default =
     \<lparr>vcf_checks =
        [default_check ''internal_logic''
           ''The proposal contains no internal causal or temporal contradiction.'',
         default_check ''narrative_consistency''
           ''The proposal follows the current narrative state and direction.'',
         default_check ''explicit_constraints''
           ''The proposal satisfies every explicit story constraint.'',
         default_check ''private_knowledge_boundary''
           ''The proposal does not present private character knowledge as public fact.''],
      vcf_scores =
        [default_score ''story_goal_completion''
           ''The proposal advances the immediate story goal.''
           ''The segment makes visible, causally grounded progress toward the immediate story goal without forcing completion unsupported by the evidence.'',
         default_score ''player_response''
           ''The proposal gives the player's contribution a visible, context-appropriate response.''
           ''The segment visibly acknowledges, reacts to, or is causally influenced by the pending player contribution. It may paraphrase, soften, redirect, delay, partially realize, or reject the contribution when warranted by story context, character agency, logic, or constraints. Judge whether the contribution affects the narrative, not whether its requested wording, intensity, or outcome is preserved. Do not invent an unprovided consequential player choice.'',
         default_score ''character_consistency''
           ''The proposal keeps each character consistent with the supplied role evidence.''
           ''Character actions, knowledge, voice, and immediate intent remain consistent with supplied role evidence and character decisions unless visible events justify a change.'',
         default_score ''narrative_quality''
           ''The proposal is coherent and readable as story prose.''
           ''The segment uses clear causal and temporal transitions, readable prose, and a natural interaction boundary without relying on abrupt or unsupported developments.''],
      max_issue_bytes = 2048\<rparr>"

section \<open>The prompt (\<open>validate/validate_prompt.rs\<close>)\<close>

record ValidateInput =
  vi_context :: ValidationContext
  vi_proposal :: str
  vi_proposal_version :: u32
  vi_repair_rounds_used :: u32
  vi_repair_rounds_remaining :: u32

definition evaluate_vars ::
  "pipe_env \<Rightarrow> ValidateInput \<Rightarrow> ProposalQualityPolicy \<Rightarrow> nat \<Rightarrow> prompt_vars \<Rightarrow> prompt_vars" where
  "evaluate_vars env input policy max_bytes evidence =
     (let quality = project_proposal_quality env policy
      in evidence @
         [(''current_proposal'', JStr (vi_proposal input)),
          (''proposal_version'', JNat (unat (vi_proposal_version input))),
          (''check_criteria'', JStr (pqp_check_criteria quality)),
          (''score_criteria'', JStr (pqp_score_criteria quality)),
          (''max_issue_bytes'', JNat max_bytes)])"

definition evaluate_prompt ::
  "pipe_env \<Rightarrow> StoryContext \<Rightarrow> ValidateInput \<Rightarrow> ProposalQualityPolicy \<Rightarrow> nat \<Rightarrow> PipelineError + ChatMessage list" where
  "evaluate_prompt env ctx input policy max_bytes =
     rbind (project_validation_evidence env Validate ctx (vi_context input)) (\<lambda>evidence.
       render env Validate ''validate.evaluate_story'' (evaluate_vars env input policy max_bytes evidence))"

section \<open>The report (\<open>validate/validate_report.rs\<close>)\<close>

record ValidateCheckDto =
  vcd_name :: str
  vcd_passed :: bool
  vcd_issue :: "str option"

record ValidateScoreDto =
  vsd_name :: str
  vsd_score :: f64
  vsd_issue :: "str option"

record ValidateLlmOutputDto =
  vld_checks :: "ValidateCheckDto list"
  vld_scores :: "ValidateScoreDto list"

abbreviation validate_invalid :: "string \<Rightarrow> PipelineError" where
  "validate_invalid code \<equiv> InvalidOutput Validate code"

definition starts_with :: "str \<Rightarrow> str \<Rightarrow> bool" where
  "starts_with p t \<longleftrightarrow> take (length p) t = p"

fun str_contains :: "str \<Rightarrow> str \<Rightarrow> bool" where
  "str_contains p [] = (p = [])"
| "str_contains p (c # t) = (starts_with p (c # t) \<or> str_contains p t)"

definition SCORE_TOKEN :: str where
  "SCORE_TOKEN = [34] @ lit ''score'' @ [34]"

text \<open>What follows a \<open>"score"\<close>: the text after the first colon.\<close>

definition non_finite_value :: "str \<Rightarrow> bool" where
  "non_finite_value rest =
     (case dropWhile (\<lambda>c. c \<noteq> 58) rest of
        [] \<Rightarrow> False
      | _ # value \<Rightarrow>
          let v = trim_start value
          in starts_with (lit ''NaN'') v \<or> starts_with (lit ''Infinity'') v \<or> starts_with (lit ''-Infinity'') v)"

text \<open>\<open>match_indices\<close> continues after the end of a match.\<close>

function contains_non_finite_score_token :: "str \<Rightarrow> bool" where
  "contains_non_finite_score_token [] = False"
| "contains_non_finite_score_token (c # t) =
     (if starts_with SCORE_TOKEN (c # t)
      then let rest = drop (length SCORE_TOKEN) (c # t)
           in non_finite_value rest \<or> contains_non_finite_score_token rest
      else contains_non_finite_score_token t)"
  by pat_completeness auto

termination by (relation "measure length") (auto simp: SCORE_TOKEN_def lit_def)

definition json_error_code :: "str \<Rightarrow> str \<Rightarrow> string" where
  "json_error_code error_text raw =
     (if str_contains (lit ''number out of range'') error_text \<or> contains_non_finite_score_token raw
      then ''validate_score_non_finite'' else ''validate_output_invalid_json'')"

definition validate_name_kind :: "str \<Rightarrow> str list \<Rightarrow> str list \<Rightarrow> PipelineError + unit" where
  "validate_name_kind name matching_kind opposite_kind =
     (if name \<in> set matching_kind then Ok ()
      else if name \<in> set opposite_kind then Err (validate_invalid ''validate_criterion_kind_mismatch'')
      else Err (validate_invalid ''validate_criterion_unknown''))"

definition validate_returned_names :: "ValidateLlmOutputDto \<Rightarrow> ProposalQualityPolicy \<Rightarrow> PipelineError + unit" where
  "validate_returned_names output policy =
     (let configured_checks = map pcc_name (pol_checks policy); configured_scores = map psc_name (pol_scores policy)
      in rbind (distinct_check vcd_name (\<lambda>_. validate_invalid ''validate_criterion_duplicate'')
                 (\<lambda>c. validate_name_kind (vcd_name c) configured_checks configured_scores) [] (vld_checks output)) (\<lambda>_.
           distinct_check vsd_name (\<lambda>_. validate_invalid ''validate_criterion_duplicate'')
             (\<lambda>s. validate_name_kind (vsd_name s) configured_scores configured_checks) [] (vld_scores output)))"

definition validate_issue :: "str option \<Rightarrow> bool \<Rightarrow> nat \<Rightarrow> PipelineError + BoundedText option" where
  "validate_issue issue required max_bytes =
     (case (required, issue) of
        (False, None) \<Rightarrow> Ok None
      | (False, Some _) \<Rightarrow> Err (validate_invalid ''validate_issue_unexpected'')
      | (True, None) \<Rightarrow> Err (validate_invalid ''validate_issue_missing'')
      | (True, Some i) \<Rightarrow>
          let t = trim i
          in if t = [] then Err (validate_invalid ''validate_issue_missing'')
             else if str_len t > max_bytes then Err (validate_invalid ''validate_issue_too_long'')
             else map_err (\<lambda>_. validate_invalid ''validate_issue_too_long'')
                    (rmap Some (BoundedText_try_new t ''validation_issue'' max_bytes)))"

text \<open>\<open>map(|criterion| results.remove(&criterion.name)...).collect()\<close> over the policy's criteria.\<close>

fun take_results :: "('c \<Rightarrow> str) \<Rightarrow> 'e \<Rightarrow> ('c \<Rightarrow> 'r \<Rightarrow> 'e + 'out) \<Rightarrow> (str, 'r) bmap \<Rightarrow> 'c list \<Rightarrow> 'e + 'out list" where
  "take_results key missing f results [] = Ok []"
| "take_results key missing f results (c # cs) =
     rbind (ok_or missing (bm_get results (key c))) (\<lambda>r.
     rbind (f c r) (\<lambda>x.
     rbind (take_results key missing f (bm_remove (key c) results) cs) (\<lambda>xs. Ok (x # xs))))"

definition check_result :: "nat \<Rightarrow> ProposalCheckCriterion \<Rightarrow> ValidateCheckDto \<Rightarrow> PipelineError + ValidationCheckResult" where
  "check_result max_bytes criterion result =
     rmap (\<lambda>issue. \<lparr>vcr_name = pcc_name criterion, vcr_description = pcc_description criterion,
                    vcr_passed = vcd_passed result, vcr_issue = issue\<rparr>)
       (validate_issue (vcd_issue result) (\<not> vcd_passed result) max_bytes)"

definition score_result :: "nat \<Rightarrow> ProposalScoreCriterion \<Rightarrow> ValidateScoreDto \<Rightarrow> PipelineError + ValidationScoreResult" where
  "score_result max_bytes criterion result =
     (if \<not> is_finite (vsd_score result) then Err (validate_invalid ''validate_score_non_finite'')
      else if f_lt (vsd_score result) (psc_min_score criterion) \<or> f_lt (psc_max_score criterion) (vsd_score result)
        then Err (validate_invalid ''validate_score_out_of_range'')
      else rmap (\<lambda>issue. \<lparr>vsr_name = psc_name criterion, vsr_description = psc_description criterion,
                    vsr_min_score = psc_min_score criterion, vsr_max_score = psc_max_score criterion,
                    vsr_target_score = psc_target_score criterion, vsr_score = vsd_score result, vsr_issue = issue\<rparr>)
             (validate_issue (vsd_issue result) (f_lt (vsd_score result) (psc_target_score criterion)) max_bytes))"

definition parse_validation_report ::
  "(str \<Rightarrow> str + ValidateLlmOutputDto) \<Rightarrow> str \<Rightarrow> u32 \<Rightarrow> ProposalQualityPolicy \<Rightarrow> nat \<Rightarrow> PipelineError + ValidationReport" where
  "parse_validation_report from_json raw version policy max_bytes =
     rbind (map_err (\<lambda>e. validate_invalid (json_error_code e raw)) (from_json raw)) (\<lambda>output.
     rbind (validate_returned_names output policy) (\<lambda>_.
       if length (vld_checks output) \<noteq> length (pol_checks policy)
       then Err (validate_invalid ''validate_check_count_mismatch'')
       else if length (vld_scores output) \<noteq> length (pol_scores policy)
       then Err (validate_invalid ''validate_score_count_mismatch'')
       else rbind (take_results pcc_name (validate_invalid ''validate_check_count_mismatch'') (check_result max_bytes)
                     (bm_of_list (map (\<lambda>c. (vcd_name c, c)) (vld_checks output))) (pol_checks policy)) (\<lambda>checks.
            rbind (take_results psc_name (validate_invalid ''validate_score_count_mismatch'') (score_result max_bytes)
                     (bm_of_list (map (\<lambda>s. (vsd_name s, s)) (vld_scores output))) (pol_scores policy)) (\<lambda>scores.
              Ok \<lparr>vr_proposal_version = version, vr_checks = checks, vr_scores = scores\<rparr>))))"

section \<open>The stage (\<open>validate/validate.rs\<close>)\<close>

definition validate_evaluate ::
  "pipe_env \<Rightarrow> (str \<Rightarrow> str + ValidateLlmOutputDto) \<Rightarrow> ValidateConfig \<Rightarrow> ProposalQualityPolicy \<Rightarrow> ValidateInput \<Rightarrow>
   StoryContext \<Rightarrow> PipelineError + ValidationReport" where
  "validate_evaluate env from_json config policy input ctx =
     rbind (evaluate_prompt env ctx input policy (max_issue_bytes config)) (\<lambda>messages.
     rbind (complete env Validate (CallValidate (vi_proposal_version input)) messages) (\<lambda>raw.
       parse_validation_report from_json raw (vi_proposal_version input) policy (max_issue_bytes config)))"

section \<open>Facts about configurations\<close>

lemma check_criterion_step_Ok:
  "check_criterion_step names c = Ok names1 \<Longrightarrow> pcc_name c \<notin> set names \<and> names1 = pcc_name c # names"
  by (auto simp: check_criterion_step_def result_simps split: if_splits)

lemma score_criterion_step_Ok:
  "score_criterion_step names c = Ok names1 \<Longrightarrow>
     psc_name c \<notin> set names \<and> names1 = psc_name c # names \<and> validate_score_criterion c = Ok ()"
  by (auto simp: score_criterion_step_def result_simps split: if_splits)

lemma check_criteria_names:
  "try_fold check_criterion_step names cs = Ok names' \<Longrightarrow>
     distinct (map pcc_name cs) \<and> pcc_name ` set cs \<inter> set names = {} \<and> set names' = pcc_name ` set cs \<union> set names"
proof (induction cs arbitrary: names)
  case Nil
  then show ?case by simp
next
  case (Cons c cs)
  then obtain names1 where step: "check_criterion_step names c = Ok names1"
    and rest: "try_fold check_criterion_step names1 cs = Ok names'"
    by (auto simp: result_simps)
  show ?case using Cons.IH [OF rest] check_criterion_step_Ok [OF step] by auto
qed

lemma score_criteria_names:
  "try_fold score_criterion_step names cs = Ok names' \<Longrightarrow>
     distinct (map psc_name cs) \<and> psc_name ` set cs \<inter> set names = {} \<and> (\<forall>c \<in> set cs. validate_score_criterion c = Ok ())"
proof (induction cs arbitrary: names)
  case Nil
  then show ?case by simp
next
  case (Cons c cs)
  then obtain names1 where step: "score_criterion_step names c = Ok names1"
    and rest: "try_fold score_criterion_step names1 cs = Ok names'"
    by (auto simp: result_simps)
  show ?case using Cons.IH [OF rest] score_criterion_step_Ok [OF step] by auto
qed

lemma ValidateConfig_validate_Ok:
  assumes "ValidateConfig_validate config = Ok ()"
  shows "distinct (map pcc_name (vcf_checks config) @ map psc_name (vcf_scores config)) \<and>
    (\<forall>c \<in> set (vcf_scores config). validate_score_criterion c = Ok ())"
  using assms
  by (auto simp: ValidateConfig_validate_def result_simps split: if_splits
      dest!: check_criteria_names score_criteria_names)

section \<open>Facts about reports\<close>

definition issue_ok :: "bool \<Rightarrow> nat \<Rightarrow> BoundedText option \<Rightarrow> bool" where
  "issue_ok required n issue \<longleftrightarrow>
     (required \<longleftrightarrow> issue \<noteq> None) \<and> (\<forall>i. issue = Some i \<longrightarrow> i \<noteq> [] \<and> str_len i \<le> n)"

definition check_matches :: "nat \<Rightarrow> ProposalCheckCriterion \<Rightarrow> ValidationCheckResult \<Rightarrow> bool" where
  "check_matches n c r \<longleftrightarrow>
     vcr_name r = pcc_name c \<and> vcr_description r = pcc_description c \<and> issue_ok (\<not> vcr_passed r) n (vcr_issue r)"

definition score_matches :: "nat \<Rightarrow> ProposalScoreCriterion \<Rightarrow> ValidationScoreResult \<Rightarrow> bool" where
  "score_matches n c r \<longleftrightarrow>
     vsr_name r = psc_name c \<and> vsr_description r = psc_description c \<and> vsr_min_score r = psc_min_score c \<and>
     vsr_max_score r = psc_max_score c \<and> vsr_target_score r = psc_target_score c \<and> is_finite (vsr_score r) \<and>
     \<not> f_lt (vsr_score r) (vsr_min_score r) \<and> \<not> f_lt (vsr_max_score r) (vsr_score r) \<and>
     issue_ok (score_unmet r) n (vsr_issue r)"

definition report_matches :: "ProposalQualityPolicy \<Rightarrow> nat \<Rightarrow> ValidationReport \<Rightarrow> bool" where
  "report_matches policy n rep \<longleftrightarrow>
     list_all2 (check_matches n) (pol_checks policy) (vr_checks rep) \<and>
     list_all2 (score_matches n) (pol_scores policy) (vr_scores rep)"

lemma validate_issue_Ok: "validate_issue issue required n = Ok r \<Longrightarrow> issue_ok required n r"
  by (auto simp: validate_issue_def issue_ok_def Let_def result_simps split: bool.splits option.splits if_splits)

lemma check_result_Ok: "check_result n c d = Ok r \<Longrightarrow> check_matches n c r"
  by (auto simp: check_result_def check_matches_def result_simps dest: validate_issue_Ok)

lemma score_result_Ok: "score_result n c d = Ok r \<Longrightarrow> score_matches n c r"
  by (auto simp: score_result_def score_matches_def score_unmet_def result_simps split: if_splits
      dest: validate_issue_Ok)

lemma take_results_Ok:
  "take_results key missing f results cs = Ok xs \<Longrightarrow> list_all2 (\<lambda>c x. \<exists>r. f c r = Ok x) cs xs"
  by (induction cs arbitrary: results xs) (auto simp: result_simps)

lemma take_results_total:
  assumes "distinct (map key cs)" and "\<forall>c \<in> set cs. \<exists>r x. bm_get results (key c) = Some r \<and> f c r = Ok x"
  shows "\<exists>xs. take_results key missing f results cs = Ok xs"
  using assms
proof (induction cs arbitrary: results)
  case Nil
  then show ?case by simp
next
  case (Cons c cs)
  obtain r x where c: "bm_get results (key c) = Some r" "f c r = Ok x" using Cons.prems(2) by auto
  have "\<forall>d \<in> set cs. \<exists>r x. bm_get (bm_remove (key c) results) (key d) = Some r \<and> f d r = Ok x"
    using Cons.prems by (auto simp: image_iff)
  then obtain xs where "take_results key missing f (bm_remove (key c) results) cs = Ok xs"
    using Cons.IH Cons.prems(1) by fastforce
  then show ?case using c by simp
qed

lemma parse_report_matches:
  assumes "parse_validation_report from_json raw version policy n = Ok rep"
  shows "vr_proposal_version rep = version \<and> report_matches policy n rep"
proof -
  obtain checks scores where rep: "rep = \<lparr>vr_proposal_version = version, vr_checks = checks, vr_scores = scores\<rparr>"
    and "list_all2 (\<lambda>c x. \<exists>r. check_result n c r = Ok x) (pol_checks policy) checks"
    and "list_all2 (\<lambda>c x. \<exists>r. score_result n c r = Ok x) (pol_scores policy) scores"
    using assms
    by (auto simp: parse_validation_report_def result_simps split: if_splits dest!: take_results_Ok)
  then show ?thesis
    by (auto simp: report_matches_def elim!: list_all2_mono dest: check_result_Ok score_result_Ok)
qed

text \<open>
  A report the parser accepts is about the configured criteria, in their order and with their
  ranges and targets, whatever order the model answered in; every score is finite and in range; an
  issue is present, not blank and within its limit exactly when the check failed or the score is
  below its target.
\<close>

lemma parse_validation_report_sound:
  assumes "parse_validation_report from_json raw version policy n = Ok rep"
  shows "vr_proposal_version rep = version \<and> report_matches policy n rep"
  by (rule parse_report_matches [OF assms])

lemma report_matches_ok: "report_matches policy n rep \<Longrightarrow> report_ok rep"
  unfolding report_matches_def report_ok_def
  by (auto simp: list_all2_conv_all_nth in_set_conv_nth check_matches_def score_matches_def issue_ok_def)

text \<open>An answer that judges every configured criterion once, with the issues the rules ask for.\<close>

definition dto_issue_ok :: "bool \<Rightarrow> nat \<Rightarrow> str option \<Rightarrow> bool" where
  "dto_issue_ok required n issue \<longleftrightarrow>
     (case issue of None \<Rightarrow> \<not> required | Some i \<Rightarrow> required \<and> trim i \<noteq> [] \<and> str_len (trim i) \<le> n)"

definition answer_ok :: "ProposalQualityPolicy \<Rightarrow> nat \<Rightarrow> ValidateLlmOutputDto \<Rightarrow> bool" where
  "answer_ok policy n d \<longleftrightarrow>
     distinct (map vcd_name (vld_checks d)) \<and> set (map vcd_name (vld_checks d)) = set (map pcc_name (pol_checks policy)) \<and>
     distinct (map vsd_name (vld_scores d)) \<and> set (map vsd_name (vld_scores d)) = set (map psc_name (pol_scores policy)) \<and>
     (\<forall>c \<in> set (vld_checks d). dto_issue_ok (\<not> vcd_passed c) n (vcd_issue c)) \<and>
     (\<forall>s \<in> set (vld_scores d). \<forall>c \<in> set (pol_scores policy). psc_name c = vsd_name s \<longrightarrow>
        is_finite (vsd_score s) \<and> \<not> f_lt (vsd_score s) (psc_min_score c) \<and> \<not> f_lt (psc_max_score c) (vsd_score s) \<and>
        dto_issue_ok (f_lt (vsd_score s) (psc_target_score c)) n (vsd_issue s))"

lemma validate_issue_total: "dto_issue_ok required n issue \<Longrightarrow> \<exists>r. validate_issue issue required n = Ok r"
  by (auto simp: dto_issue_ok_def validate_issue_def Let_def BoundedText_try_new_def split: option.splits)

lemma bm_get_named:
  assumes "distinct (map f xs)" and "x \<in> set xs"
  shows "bm_get (bm_of_list (map (\<lambda>x. (f x, x)) xs)) (f x) = Some x"
  using assms by (subst bm_get_of_list) (auto simp: o_def intro: map_of_is_SomeI)

lemma same_length: "distinct xs \<Longrightarrow> distinct ys \<Longrightarrow> set xs = set ys \<Longrightarrow> length xs = length ys"
  by (metis distinct_card)

text \<open>
  The parser accepts every answer that judges each configured criterion exactly once, in any
  order, with scores in range and issues where they are due.
\<close>

lemma parse_validation_report_complete:
  assumes "ValidateConfig_validate config = Ok ()" and "policy = quality_policy config"
    and "from_json raw = Ok d" and "answer_ok policy n d"
  shows "\<exists>rep. parse_validation_report from_json raw version policy n = Ok rep"
proof -
  have dc: "distinct (map pcc_name (pol_checks policy))" and ds: "distinct (map psc_name (pol_scores policy))"
    using ValidateConfig_validate_Ok [OF assms(1)] assms(2) by (auto simp: quality_policy_def)
  have names: "validate_returned_names d policy = Ok ()"
    using assms(4) by (auto simp: validate_returned_names_def Let_def result_simps validate_name_kind_def answer_ok_def)
  have lens: "length (vld_checks d) = length (pol_checks policy)" "length (vld_scores d) = length (pol_scores policy)"
    using assms(4) dc ds same_length [of "map vcd_name (vld_checks d)" "map pcc_name (pol_checks policy)"]
      same_length [of "map vsd_name (vld_scores d)" "map psc_name (pol_scores policy)"]
    unfolding answer_ok_def by auto
  let ?checks = "bm_of_list (map (\<lambda>c. (vcd_name c, c)) (vld_checks d))"
  let ?scores = "bm_of_list (map (\<lambda>s. (vsd_name s, s)) (vld_scores d))"
  have c: "\<exists>r x. bm_get ?checks (pcc_name c) = Some r \<and> check_result n c r = Ok x" if "c \<in> set (pol_checks policy)" for c
  proof -
    have "pcc_name c \<in> vcd_name ` set (vld_checks d)"
      using assms(4) that by (auto simp: answer_ok_def)
    then obtain r where r: "r \<in> set (vld_checks d)" "vcd_name r = pcc_name c" by auto
    then have "bm_get ?checks (pcc_name c) = Some r"
      using bm_get_named [of vcd_name "vld_checks d" r] assms(4) by (simp add: answer_ok_def)
    moreover have "dto_issue_ok (\<not> vcd_passed r) n (vcd_issue r)"
      using assms(4) r(1) by (auto simp: answer_ok_def)
    then obtain i where "validate_issue (vcd_issue r) (\<not> vcd_passed r) n = Ok i"
      using validate_issue_total by blast
    ultimately show ?thesis by (simp add: check_result_def)
  qed
  have s: "\<exists>r x. bm_get ?scores (psc_name c) = Some r \<and> score_result n c r = Ok x" if "c \<in> set (pol_scores policy)" for c
  proof -
    have "psc_name c \<in> vsd_name ` set (vld_scores d)"
      using assms(4) that by (auto simp: answer_ok_def)
    then obtain r where r: "r \<in> set (vld_scores d)" "vsd_name r = psc_name c" by auto
    then have "bm_get ?scores (psc_name c) = Some r"
      using bm_get_named [of vsd_name "vld_scores d" r] assms(4) by (simp add: answer_ok_def)
    moreover have a: "is_finite (vsd_score r)" "\<not> f_lt (vsd_score r) (psc_min_score c)" "\<not> f_lt (psc_max_score c) (vsd_score r)"
      "dto_issue_ok (f_lt (vsd_score r) (psc_target_score c)) n (vsd_issue r)"
      using assms(4) r that unfolding answer_ok_def by metis+
    moreover obtain i where "validate_issue (vsd_issue r) (f_lt (vsd_score r) (psc_target_score c)) n = Ok i"
      using validate_issue_total [OF a(4)] by auto
    ultimately show ?thesis by (simp add: score_result_def)
  qed
  obtain cr where "take_results pcc_name (validate_invalid ''validate_check_count_mismatch'') (check_result n) ?checks
      (pol_checks policy) = Ok cr"
    using take_results_total [OF dc] c by meson
  moreover obtain sr where "take_results psc_name (validate_invalid ''validate_score_count_mismatch'') (score_result n) ?scores
      (pol_scores policy) = Ok sr"
    using take_results_total [OF ds] s by meson
  ultimately show ?thesis using assms(3) names lens by (simp add: parse_validation_report_def)
qed

end
