(* ===== verification/Repair_Stage.thy ===== *)
theory Repair_Stage
  imports Validate_Stage
begin

text \<open>
  \<open>pipeline/repair\<close>: the model is shown a proposal with the issues of its report and writes a new
  proposal, which must not be blank or too long.
\<close>

section \<open>Configuration (\<open>repair/config.rs\<close>)\<close>

abbreviation MAX_REPAIR_PROPOSAL_BYTES_LIMIT :: nat where
  "MAX_REPAIR_PROPOSAL_BYTES_LIMIT \<equiv> 1048576"

record RepairConfig =
  max_proposal_bytes :: nat

definition RepairConfig_validate :: "RepairConfig \<Rightarrow> PipelineError + unit" where
  "RepairConfig_validate config =
     (if \<not> (1 \<le> max_proposal_bytes config \<and> max_proposal_bytes config \<le> MAX_REPAIR_PROPOSAL_BYTES_LIMIT)
      then Err (InvalidConfig Repair ''repair_max_proposal_bytes_invalid'') else Ok ())"

definition RepairConfig_default :: RepairConfig where
  "RepairConfig_default = \<lparr>max_proposal_bytes = 65536\<rparr>"

record RepairInput =
  ri_context :: ValidationContext
  ri_proposal :: str
  ri_proposal_version :: u32
  ri_issues :: "ValidationIssue list"
  ri_repair_round :: u32
  ri_repair_rounds_remaining :: u32

section \<open>The prompt (\<open>repair/repair_prompt.rs\<close>)\<close>

text \<open>\<open>#[serde(tag = "kind")]\<close>\<close>

fun issue_json :: "ValidationIssue \<Rightarrow> json" where
  "issue_json (IssueCheck name message) =
     JObj [(''kind'', JStr (lit ''Check'')), (''name'', JStr name), (''message'', JStr message)]"
| "issue_json (IssueScore name current target message) =
     JObj [(''kind'', JStr (lit ''Score'')), (''name'', JStr name), (''current_score'', JF64 current),
           (''target_score'', JF64 target), (''message'', JStr message)]"

definition repair_vars ::
  "pipe_env \<Rightarrow> RepairInput \<Rightarrow> ProposalQualityPolicy \<Rightarrow> RepairConfig \<Rightarrow> prompt_vars \<Rightarrow> prompt_vars" where
  "repair_vars env input policy config evidence =
     (let quality = project_proposal_quality env policy;
          repair_issues = pe_json env (JArr (map issue_json (ri_issues input)))
      in evidence @
         [(''check_criteria'', JStr (pqp_check_criteria quality)), (''score_criteria'', JStr (pqp_score_criteria quality)),
          (''current_proposal'', JStr (ri_proposal input)),
          (''proposal_version'', JNat (unat (ri_proposal_version input))),
          (''repair_issues'', JStr repair_issues), (''max_proposal_bytes'', JNat (max_proposal_bytes config))])"

definition repair_prompt ::
  "pipe_env \<Rightarrow> StoryContext \<Rightarrow> RepairInput \<Rightarrow> ProposalQualityPolicy \<Rightarrow> RepairConfig \<Rightarrow> PipelineError + ChatMessage list" where
  "repair_prompt env ctx input policy config =
     rbind (project_validation_evidence env Repair ctx (ri_context input)) (\<lambda>evidence.
       render env Repair ''repair.repair_story'' (repair_vars env input policy config evidence))"

section \<open>The stage (\<open>repair/repair_output.rs\<close>, \<open>repair.rs\<close>)\<close>

definition validate_repaired_proposal :: "str \<Rightarrow> RepairConfig \<Rightarrow> PipelineError + str" where
  "validate_repaired_proposal raw config =
     (if trim raw = [] then Err (EmptyOutput Repair)
      else if str_len raw > max_proposal_bytes config then Err (InvalidOutput Repair ''repair_proposal_too_long'')
      else Ok raw)"

definition repair ::
  "pipe_env \<Rightarrow> RepairConfig \<Rightarrow> ProposalQualityPolicy \<Rightarrow> RepairInput \<Rightarrow> StoryContext \<Rightarrow> PipelineError + str" where
  "repair env config policy input ctx =
     rbind (repair_prompt env ctx input policy config) (\<lambda>messages.
     rbind (complete env Repair (CallRepair (ri_repair_round input)) messages) (\<lambda>raw.
       validate_repaired_proposal raw config))"

text \<open>What every proposal of a turn satisfies, generated or repaired.\<close>

definition proposal_ok :: "nat \<Rightarrow> str \<Rightarrow> bool" where
  "proposal_ok n p \<longleftrightarrow> trim p \<noteq> [] \<and> str_len p \<le> n"

lemma repair_Ok: "repair env config policy input ctx = Ok p \<Longrightarrow> proposal_ok (max_proposal_bytes config) p"
  by (auto simp: repair_def validate_repaired_proposal_def proposal_ok_def result_simps split: if_splits)

end
