(* ===== verification/Summary_Stage.thy ===== *)
theory Summary_Stage
  imports Pipeline_Common
begin

text \<open>
  \<open>pipeline/summary\<close> and \<open>pipeline/commit\<close>: old turns are folded into the summary once the window of
  recent turns is full, and the finished turn is committed to the store.
\<close>

section \<open>Summary (\<open>summary/*.rs\<close>)\<close>

record SummaryConfig =
  summary_turn_count :: nat

definition SummaryConfig_default :: SummaryConfig where
  "SummaryConfig_default = \<lparr>summary_turn_count = 6\<rparr>"

definition covered_turn_count :: "SummaryConfig \<Rightarrow> StoryContext \<Rightarrow> nat" where
  "covered_turn_count config ctx =
     (if summary_turn_count config = 0 then 0
      else (length (ctx_recent_turns ctx) + 1) - summary_turn_count config)"

definition summary_vars :: "StoryContext \<Rightarrow> nat \<Rightarrow> prompt_vars" where
  "summary_vars ctx covered_turns =
     [(''story_summary'', JStr (summary_or_empty ctx)), (''story_opening'', JStr (story_opening ctx)),
      (''story_to_summarize'', JStr (turns_story (take covered_turns (ctx_recent_turns ctx))))]"

definition summarize_story :: "pipe_env \<Rightarrow> StoryContext \<Rightarrow> nat \<Rightarrow> PipelineError + str" where
  "summarize_story env ctx covered_turns =
     rbind (render env Summary ''summary.summarize_story'' (summary_vars ctx covered_turns)) (\<lambda>messages.
     rbind (complete env Summary CallSummary messages) (\<lambda>raw.
       let t = trim raw in if t = [] then Err (EmptyOutput Summary) else Ok t))"

text \<open>The index \<open>recent_turns[covered_turns - 1]\<close> panics out of range: no result.\<close>

definition summary_execute :: "pipe_env \<Rightarrow> SummaryConfig \<Rightarrow> StoryContext \<Rightarrow> (PipelineError + StorySummary Change) option" where
  "summary_execute env config ctx =
     (let covered_turns = covered_turn_count config ctx
      in if covered_turns = 0 then Some (Ok Unchanged)
         else if covered_turns - 1 < length (ctx_recent_turns ctx)
           then let covered = turn_number (ctx_recent_turns ctx ! (covered_turns - 1))
                in Some (rmap (\<lambda>t. Replaced \<lparr>summary_text = t, covered_through = covered\<rparr>)
                          (summarize_story env ctx covered_turns))
         else None)"

section \<open>Commit (\<open>commit/commit.rs\<close>)\<close>

record CommitInput =
  ci_player_contribution :: PlayerContribution
  ci_idempotency_key :: IdempotencyKey
  ci_turn_segment :: TurnSegment
  ci_knowledge_change :: KnowledgeChange
  ci_turn_status :: TurnStatus
  ci_turn_evaluation :: TurnEvaluation
  ci_summary :: "StorySummary Change"
  ci_narrative :: "NarrativeState Change"
  ci_life_cycle :: "StoryLifeCycle Change"

definition story_commit :: "CommitInput \<Rightarrow> StoryContext \<Rightarrow> StoryCommit" where
  "story_commit input ctx =
     \<lparr>sc_story_id = ctx_story_id ctx,
      sc_turn = \<lparr>turn_number = ctx_turn_number ctx + 1, idempotency_key = ci_idempotency_key input,
        player_contribution = ci_player_contribution input, turn_segment = ci_turn_segment input,
        knowledge_change = ci_knowledge_change input, turn_evaluation = ci_turn_evaluation input,
        turn_status = ci_turn_status input\<rparr>,
      sc_summary = ci_summary input, sc_narrative = ci_narrative input, sc_life_cycle = ci_life_cycle input\<rparr>"

definition commit_execute ::
  "(roles \<Rightarrow> json_stream) \<Rightarrow> instant \<Rightarrow> CommitInput \<Rightarrow> StoryContext \<Rightarrow> Store \<Rightarrow> (PipelineError + StoryCommit) \<times> Store" where
  "commit_execute json now input ctx st =
     (case StoryBackend_find_committed (ctx_story_id ctx) (ci_idempotency_key input) (store_story st) of
        Inl e \<Rightarrow> (Err (PipelinePersistence Commit e), st)
      | Inr (Some commit) \<Rightarrow> (Ok commit, st)
      | Inr None \<Rightarrow>
          (case StoryBackend_commit json now (story_commit input ctx) (store_story st) of
             (r, s) \<Rightarrow> (map_err (PipelinePersistence Commit) r, st\<lparr>store_story := s\<rparr>)))"

section \<open>Facts\<close>

lemma summary_returns:
  "\<exists>r. summary_execute env config ctx = Some r \<and> (covered_turn_count config ctx = 0 \<longrightarrow> r = Ok Unchanged)"
  by (auto simp: summary_execute_def covered_turn_count_def Let_def)

lemma covered_below: "covered_turn_count config ctx \<le> length (ctx_recent_turns ctx)"
  by (auto simp: covered_turn_count_def)

lemma sorted_dropWhile_filter:
  assumes "sorted_wrt (\<lambda>a b. turn_number a < turn_number b) ts"
  shows "dropWhile (\<lambda>t. turn_number t \<le> c) ts = filter (\<lambda>t. c < turn_number t) ts"
  using assms
proof (induction ts)
  case Nil
  then show ?case by simp
next
  case (Cons t ts)
  show ?case
  proof (cases "turn_number t \<le> c")
    case True
    then show ?thesis using Cons by (simp add: not_less)
  next
    case False
    moreover have "\<forall>u \<in> set ts. c < turn_number u"
      using Cons.prems False by auto
    ultimately show ?thesis by (simp add: filter_id_conv [THEN iffD2])
  qed
qed

lemma sorted_filter_after:
  assumes "sorted_wrt (\<lambda>a b. turn_number a < turn_number b) ts" and "i < length ts"
  shows "filter (\<lambda>t. turn_number (ts ! i) < turn_number t) ts = drop (Suc i) ts"
proof -
  have "filter (\<lambda>t. turn_number (ts ! i) < turn_number t) (take (Suc i) ts) = []"
    using assms by (auto simp: filter_empty_conv in_set_conv_nth sorted_wrt_iff_nth_less)
      (metis less_Suc_eq not_less_iff_gr_or_eq)
  moreover have "filter (\<lambda>t. turn_number (ts ! i) < turn_number t) (drop (Suc i) ts) = drop (Suc i) ts"
    using assms by (auto simp: filter_id_conv in_set_conv_nth sorted_wrt_iff_nth_less)
  ultimately show ?thesis
    by (metis append_Nil append_take_drop_id filter_append)
qed

text \<open>What the log of a story gives for its current context.\<close>

definition window_sorted :: "StoryContext \<Rightarrow> bool" where
  "window_sorted ctx \<longleftrightarrow>
     turn_sorted (ctx_recent_turns ctx) \<and> (\<forall>t \<in> set (ctx_recent_turns ctx). turn_number t \<le> ctx_turn_number ctx) \<and>
     (\<forall>s. ctx_summary ctx = Some s \<longrightarrow> (\<forall>t \<in> set (ctx_recent_turns ctx). covered_through s < turn_number t)) \<and>
     ctx_turn_number ctx \<noteq> - 1"

lemma log_window_sorted:
  assumes "story_log json l story ctx0 hist" and "length hist < 2 ^ 64 - 1"
  shows "window_sorted (st_context story)"
proof -
  let ?ctx = "st_context story" and ?ts = "map sc_turn hist"
  have len: "length hist < 2 ^ 64" using assms(2) by simp
  have log: "valid_log json l ctx0 hist" "fresh_context ctx0" "?ctx = foldl (next_context l) ctx0 hist"
    using assms(1) by (simp_all add: story_log_def)
  then have zero: "ctx_turn_number ctx0 = 0" by (simp add: fresh_context_def)
  have win: "window_ok l ?ctx ?ts" using log_window [OF log(1,2) len] log(3) by simp
  then obtain k where k: "ctx_recent_turns ?ctx = drop k ?ts" by (auto simp: window_ok_def)
  have num: "ctx_turn_number ?ctx = of_nat (length hist)" using log_turn_number [OF log(1)] log(3) zero by simp
  have sorted: "turn_sorted (ctx_recent_turns ?ctx)"
    using log_sorted [OF log(1) zero len] unfolding k by (simp add: sorted_wrt_drop)
  have unat: "unat (of_nat n :: u64) = n" if "n \<le> length hist" for n
    using that len by (simp add: unat_of_nat)
  have le: "turn_number t \<le> ctx_turn_number ?ctx" if t: "t \<in> set (ctx_recent_turns ?ctx)" for t
  proof -
    have "t \<in> set ?ts" using t unfolding k by (rule in_set_dropD)
    then obtain i where "i < length hist" "t = sc_turn (hist ! i)" by (auto simp: in_set_conv_nth)
    then have "turn_number t = of_nat (Suc i)" "Suc i \<le> length hist"
      using log_numbers [OF log(1)] zero by (simp_all del: of_nat_Suc)
    then show ?thesis using unat unfolding num word_le_nat_alt by (simp del: of_nat_Suc)
  qed
  have "ctx_turn_number ?ctx \<noteq> - 1"
  proof
    assume "ctx_turn_number ?ctx = - 1"
    then have "unat (of_nat (length hist) :: u64) = unat (- 1 :: u64)" unfolding num by simp
    then show False using unat [of "length hist"] assms(2) by (simp add: unsigned_minus_1_eq_mask mask_eq_exp_minus_1)
  qed
  then show ?thesis using sorted le win by (auto simp: window_sorted_def window_ok_def)
qed

lemma trimmed_covered_length:
  assumes "turn_sorted ts" and "i < length ts" and "summary = Some s" and "covered_through s = turn_number (ts ! i)"
  shows "length (trimmed l summary ts) \<le> length ts - Suc i"
proof -
  let ?late = "\<lambda>t. turn_number (ts ! i) < turn_number t" and ?d = "length ts - l"
  have "trimmed l summary ts = filter ?late (drop ?d ts)"
    using assms by (simp add: trimmed_def pop_excess_drop pop_covered_dropWhile sorted_dropWhile_filter sorted_wrt_drop)
  moreover have "length (filter ?late (drop ?d ts)) \<le> length (filter ?late ts)"
    by (metis append_take_drop_id filter_append le_add2 length_append)
  ultimately show ?thesis using sorted_filter_after [OF assms(1,2)] by simp
qed

lemma length_trimmed_le: "length (trimmed l s ts) \<le> length ts"
  using trimmed_drop [of l s ts] by auto

lemma summary_acceptable:
  assumes "story_log json l story ctx0 hist" and "length hist < 2 ^ 64 - 1"
    and "summary_execute env config (st_context story) = Some (Ok change)"
    and "sc_summary c = change" and "turn_number (sc_turn c) = TurnNumber_increment (ctx_turn_number (st_context story))"
  shows "check_summary (st_context story) c = Ok () \<and>
    (0 < summary_turn_count config \<longrightarrow>
      length (ctx_recent_turns (next_context l (st_context story) c)) \<le> summary_turn_count config)"
proof -
  let ?ctx = "st_context story" let ?ts = "ctx_recent_turns ?ctx" and ?n = "covered_turn_count config ?ctx"
  have win: "window_sorted ?ctx" using log_window_sorted [OF assms(1,2)] .
  then have new: "ctx_turn_number ?ctx < turn_number (sc_turn c)"
    using TurnNumber_increment_gt assms(5) by (simp add: window_sorted_def)
  have sorted: "turn_sorted (?ts @ [sc_turn c])"
    using win new by (force simp: window_sorted_def sorted_wrt_append)
  show ?thesis
  proof (cases "?n = 0")
    case True
    then have u: "sc_summary c = Unchanged" using assms(3,4) by (simp add: summary_execute_def)
    moreover have "0 < summary_turn_count config \<Longrightarrow> length (?ts @ [sc_turn c]) \<le> summary_turn_count config"
      using True by (simp add: covered_turn_count_def split: if_splits)
    ultimately show ?thesis
      using length_trimmed_le [of l "ctx_summary (staged_context ?ctx c)" "?ts @ [sc_turn c]"]
      by (auto simp: check_summary_def intro: order_trans)
  next
    case False
    let ?i = "?n - 1"
    have i: "?i < length ?ts" using covered_below [of config ?ctx] False by linarith
    then obtain t where rep: "sc_summary c = Replaced \<lparr>summary_text = t, covered_through = turn_number (?ts ! ?i)\<rparr>"
      using assms(3,4) False by (auto simp: summary_execute_def Let_def result_simps)
    have mem: "?ts ! ?i \<in> set ?ts" using i by simp
    then have "turn_number (?ts ! ?i) \<le> ctx_turn_number ?ctx" using win by (simp add: window_sorted_def)
    then have "\<not> turn_number (sc_turn c) < turn_number (?ts ! ?i)" using new by simp
    moreover have "covered_through s < turn_number (?ts ! ?i)" if "ctx_summary ?ctx = Some s" for s
      using win mem that by (simp add: window_sorted_def)
    ultimately have check: "check_summary ?ctx c = Ok ()"
      by (auto simp: check_summary_def rep split: option.splits dest: less_asym)
    have "length (ctx_recent_turns (next_context l ?ctx c)) \<le> length (?ts @ [sc_turn c]) - Suc ?i"
      unfolding next_context_simps
      by (rule trimmed_covered_length [OF sorted]) (use i rep in \<open>auto simp: nth_append\<close>)
    then show ?thesis using check False by (auto simp: covered_turn_count_def split: if_splits)
  qed
qed

text \<open>
  The summary a turn writes is always acceptable to the store: it covers only turns that were
  committed and never moves backwards; and with it the window of recent turns of the next context
  holds at most the configured number of turns.
\<close>

lemma summary_commits:
  assumes "story_log json l story ctx0 hist" and "length hist < 2 ^ 64 - 1"
    and "summary_execute env config (st_context story) = Some (Ok change)"
    and "sc_summary c = change" and "turn_number (sc_turn c) = TurnNumber_increment (ctx_turn_number (st_context story))"
  shows "check_summary (st_context story) c = Ok () \<and>
    (0 < summary_turn_count config \<longrightarrow>
      length (ctx_recent_turns (next_context l (st_context story) c)) \<le> summary_turn_count config)"
  by (rule summary_acceptable [OF assms])

end
