(* ===== verification/Examples.thy ===== *)
theory Examples
  imports Activation_Safety Generate_Stage Repair_Stage Summary_Stage "HOL-Library.Code_Target_Numeral"
begin

text \<open>
  A small story on which the properties of the other theories are applied: a pack with two roles, one
  fact, one rumor and a narrative of two nodes; the store after the story was created and after its
  first turn. Every hypothesis of a property is discharged here by evaluation.
\<close>

section \<open>Activation\<close>

definition demo_unicode :: unicode where
  "demo_unicode = \<lparr>uni_lower = (\<lambda>c. [c]), uni_alphanumeric = (\<lambda>c. False)\<rparr>"

definition demo_letters :: unicode where
  "demo_letters = \<lparr>uni_lower = (\<lambda>c. [c]), uni_alphanumeric = (\<lambda>c. c \<noteq> 32)\<rparr>"

definition demo_act_env :: "str ActEnv" where
  "demo_act_env = \<lparr>env_unicode = demo_unicode, env_sha256 = (\<lambda>b. [0, 0, 0, 0, 0, 0, 0, 1]), env_display = id\<rparr>"

definition demo_rule :: "str list \<Rightarrow> bool \<Rightarrow> str list \<Rightarrow> ActivationRule" where
  "demo_rule keys const groups = ActivationRule_default\<lparr>
     match_rule := ActivationMatchRule_default\<lparr>match_keys := keys\<rparr>,
     rule_mode := \<lparr>mode_enabled = True, mode_constant = const\<rparr>,
     rule_selection := ActivationSelectionRule_default\<lparr>sel_groups := groups\<rparr>\<rparr>"

definition demo_candidates :: "str ActivationCandidate list" where
  "demo_candidates =
     [\<lparr>cand_key = lit ''gate'', cand_rule = demo_rule [lit ''gate''] False [lit ''place''], cand_content = lit ''The tower''\<rparr>,
      \<lparr>cand_key = lit ''law'', cand_rule = demo_rule [] True [], cand_content = lit ''No magic''\<rparr>,
      \<lparr>cand_key = lit ''tower'', cand_rule = demo_rule [lit ''tower''] False [lit ''place''], cand_content = lit ''Old''\<rparr>]"

definition demo_turn :: ActivationTurn where
  "demo_turn = \<lparr>at_story_id = lit ''s1'', at_turn_number = 1\<rparr>"

definition demo_fragments :: "ScanFragment list" where
  "demo_fragments = [ScanFragment_new demo_unicode PlayerContributionFragment 0 (lit ''Open the GATE'')]"

lemma demo_activation:
  "map act_key (out_activated (activate demo_act_env demo_candidates demo_fragments demo_turn ActivationConfig_default)) =
     [lit ''law'', lit ''gate'']"
  by code_simp

abbreviation demo_outcome :: "str ActivationOutcome" where
  "demo_outcome \<equiv> activate demo_act_env demo_candidates demo_fragments demo_turn ActivationConfig_default"

lemma demo_budget: "cfg_max_knowledge_bytes ActivationConfig_default < usize_max"
  by (simp add: ActivationConfig_default_def)

theorem activate_sound_witness:
  "out_activated demo_outcome \<noteq> [] \<and> (\<exists>idxs. distinct idxs \<and>
    list_all2 (act_ok demo_candidates) (out_activated demo_outcome) idxs \<and>
    (\<forall>i \<in> set idxs. \<forall>j \<in> set idxs. i \<noteq> j \<longrightarrow>
       set (cand_groups demo_candidates i) \<inter> set (cand_groups demo_candidates j) = {}) \<and>
    length idxs \<le> cfg_max_activated_entries ActivationConfig_default \<and>
    sum_list (map (cand_bytes demo_candidates) idxs) \<le> cfg_max_knowledge_bytes ActivationConfig_default)"
  using activate_sound [OF demo_budget, of demo_candidates demo_act_env demo_fragments demo_turn] demo_activation
  by auto

definition demo_session :: "str Session" where
  "demo_session = Session_new demo_act_env demo_candidates demo_turn ActivationConfig_default"

definition demo_members :: "Candidate list" where
  "demo_members = [\<lparr>cnd_index = 0, cnd_class = TextMatch, cnd_score = 1\<rparr>, \<lparr>cnd_index = 2, cnd_class = TextMatch, cnd_score = 1\<rparr>]"

lemma group_winner_best_witness:
  "\<exists>c \<in> set demo_members. group_winner demo_act_env demo_session (lit ''place'') demo_members = Some (cnd_index c) \<and>
    (\<forall>d \<in> set demo_members. candidate_rank demo_session d \<le> candidate_rank demo_session c)"
  by (rule group_winner_best) (simp add: demo_members_def)

lemma activate_accounting_witness:
  "length (out_activated demo_outcome) +
     length (finish_reasons (final_session demo_act_env demo_candidates demo_fragments demo_turn ActivationConfig_default))
     \<le> length demo_candidates"
  using activate_accounting [OF demo_budget refl refl, of demo_act_env demo_candidates demo_fragments demo_turn]
  by blast

text \<open>
  Two corners of the activation. The search for whole words only looks at occurrences that do not overlap
  an earlier one: in \<open>xa a a\<close> the key \<open>a a\<close> stands as whole words at the end and is not counted. And an
  entry of two groups that wins the first and loses the second still occupies the first: the group is
  left without an activated member.
\<close>

lemma whole_word_overlap_missed:
  "literal_count demo_letters (lit ''xa a a'') (lit ''a a'') True = 0 \<and>
   literal_count demo_letters (lit ''a a'') (lit ''a a'') True = 1"
  by code_simp

definition demo_ordered :: "str \<Rightarrow> int \<Rightarrow> str list \<Rightarrow> str ActivationCandidate" where
  "demo_ordered key ord groups = \<lparr>cand_key = key,
     cand_rule = (demo_rule [lit ''gate''] False groups)\<lparr>rule_selection :=
       ActivationSelectionRule_default\<lparr>sel_groups := groups, sel_order := ord\<rparr>\<rparr>, cand_content = lit ''text''\<rparr>"

lemma lost_group_winner:
  "map act_key (out_activated (activate demo_act_env
      [demo_ordered (lit ''both'') 1 [lit ''a'', lit ''b''], demo_ordered (lit ''only_a'') 0 [lit ''a''],
       demo_ordered (lit ''only_b'') 2 [lit ''b'']] demo_fragments demo_turn ActivationConfig_default)) = [lit ''only_b'']"
  by code_simp

section \<open>Narrative\<close>

definition demo_graph :: NarrativeGraph where
  "demo_graph = \<lparr>graph_nodes = bm_of_list
     [(lit ''end'', \<lparr>node_title = lit ''End'', dramatic_focus = None, activate_when = NodeIs (lit ''meet'') Completed,
        complete_when = TurnReaches 9, skip_when = None, node_constraints = [], node_terminal = True\<rparr>),
      (lit ''meet'', \<lparr>node_title = lit ''Meet'', dramatic_focus = Some (lit ''A stranger''), activate_when = StoryStarted,
        complete_when = AllOf [TurnReaches 1, Semantic (lit ''q1'') (lit ''They met'')], skip_when = None,
        node_constraints = [\<lparr>forbid = lit ''No exit'', window = WhileActive\<rparr>], node_terminal = False\<rparr>)]\<rparr>"

definition demo_evidence :: "Truth \<Rightarrow> NarrativeEvidence" where
  "demo_evidence t = \<lparr>ne_turn = 1, ne_semantic_results = bm_of_list [(lit ''q1'', t)]\<rparr>"

lemma demo_graph_valid: "NarrativeGraph_validate demo_graph = Ok ()"
  by code_simp

lemma demo_graph_plans: "\<exists>p. graph_plan demo_graph (initial_state demo_graph) = Ok p \<and> map sq_condition_id (np_queries p) = [lit ''q1'']"
proof -
  have "(case graph_plan demo_graph (initial_state demo_graph) of Inl e \<Rightarrow> False
      | Inr p \<Rightarrow> map sq_condition_id (np_queries p) = [lit ''q1''])" by code_simp
  then show ?thesis by (auto split: sum.splits)
qed

lemma evaluate_refines_witness:
  "refines (evaluate (initial_state demo_graph) (demo_evidence Unknown) (Semantic (lit ''q1'') (lit ''They met'')))
     (evaluate (initial_state demo_graph) (demo_evidence Satisfied) (Semantic (lit ''q1'') (lit ''They met'')))"
  by (rule evaluate_refines) (auto simp: evidence_le_def demo_evidence_def bm_get_of_list)

lemma plan_queries_complete_witness:
  "resolve demo_graph (initial_state demo_graph) (demo_evidence Satisfied) =
   resolve demo_graph (initial_state demo_graph)
     ((demo_evidence Satisfied)\<lparr>ne_semantic_results := bm_of_list [(lit ''q1'', Satisfied), (lit ''other'', Satisfied)]\<rparr>)"
proof -
  obtain p where p: "graph_plan demo_graph (initial_state demo_graph) = Ok p"
    and q: "map sq_condition_id (np_queries p) = [lit ''q1'']" using demo_graph_plans by (elim exE conjE) (rule that)
  have "\<forall>x \<in> set (np_queries p). sq_condition_id x = lit ''q1''"
    using q by (auto simp: map_eq_Cons_conv)
  moreover have "lit ''q1'' \<noteq> lit ''other''" by code_simp
  ultimately show ?thesis
    by (intro plan_queries_complete [OF p]) (simp_all add: demo_evidence_def bm_get_of_list)
qed

section \<open>A story in the store\<close>

definition demo_json :: "roles \<Rightarrow> json_stream" where
  "demo_json rs = \<lparr>js_buffers = [2], js_error = None\<rparr>"

definition demo_profile :: CharacterProfile where
  "demo_profile = \<lparr>appearance = Some (lit ''tall''), personality = None, speaking_style = None,
     dialogue_examples = [\<lparr>de_situation = lit ''greeting'', de_response = lit ''Hello''\<rparr>]\<rparr>"

definition demo_spec :: "str \<Rightarrow> RoleSpec" where
  "demo_spec name = \<lparr>rs_name = name, rs_alias = [], rs_backstory = lit ''long ago'', rs_retrieval = lit ''hint''\<rparr>"

definition demo_memory :: MemoryBody where
  "demo_memory = \<lparr>mb_content = lit ''a promise'', mb_activation = demo_rule [lit ''promise''] False [], mb_retrieval = lit ''promise''\<rparr>"

definition demo_seed_roles :: "(RoleId, SeedRole) bmap" where
  "demo_seed_roles = bm_of_list
     [(lit ''guide'', \<lparr>sr_spec = demo_spec (lit ''Guide''), sr_default_profile = demo_profile,
         sr_seed_memories = bm_of_list [(lit ''m1'', demo_memory)]\<rparr>),
      (lit ''xu_xian'', \<lparr>sr_spec = demo_spec (lit ''Hero''), sr_default_profile = demo_profile, sr_seed_memories = bm_empty\<rparr>)]"

definition demo_fact :: "str \<Rightarrow> FactBody" where
  "demo_fact content = \<lparr>fb_content = content, fb_activation = demo_rule [lit ''gate''] False [], fb_retrieval = lit ''gate''\<rparr>"

definition demo_rumor :: RumorBody where
  "demo_rumor = \<lparr>rb_content = lit ''a ghost'', rb_activation = demo_rule [lit ''ghost''] False [], rb_retrieval = lit ''ghost''\<rparr>"

definition demo_pack :: StoryPack where
  "demo_pack = \<lparr>sp_spec = StoryV1, sp_pack_id = lit ''pack'',
     sp_meta = \<lparr>spm_creator = lit ''me'', spm_version = lit ''1.0.0'', spm_tags = []\<rparr>,
     sp_profile = \<lparr>spp_title = lit ''T'', spp_description = None, spp_genres = [], spp_themes = [], spp_tones = [],
       spp_point_of_view = lit ''first'', spp_tense = lit ''past''\<rparr>,
     sp_roles = demo_seed_roles, sp_play = \<lparr>playable_roles = bs_of_list [lit ''xu_xian'']\<rparr>,
     sp_opening = lit ''At the gate'', sp_seed_facts = bm_of_list [(lit ''f1'', demo_fact (lit ''It is shut''))],
     sp_seed_rumors = bm_of_list [(lit ''r1'', demo_rumor)], sp_constraints = [lit ''Be kind''],
     sp_narrative = Some demo_graph\<rparr>"

definition demo_ref :: PackRef where
  "demo_ref = \<lparr>pr_pack_id = lit ''pack'', pr_version = lit ''1.0.0'', pr_digest = lit ''d1''\<rparr>"

definition demo_bundle :: StoryCreateBundle where
  "demo_bundle = StoryCreateBundle_assemble \<lparr>snap_pack_ref = demo_ref, snap_pack = demo_pack\<rparr> (lit ''s1'')
     (sp_opening demo_pack) (bm_map role_projection demo_seed_roles)
     (bm_map (\<lambda>i b. \<lparr>fe_id = i, fe_origin = Seed, fe_body = b\<rparr>) (sp_seed_facts demo_pack))
     (bm_map (\<lambda>i b. \<lparr>re_id = i, re_origin = Seed, re_body = b\<rparr>) (sp_seed_rumors demo_pack))
     (lit ''p1'') (lit ''xu_xian'') (initial_state demo_graph)"

definition demo_commit :: "str \<Rightarrow> StoryCommit" where
  "demo_commit key = \<lparr>sc_story_id = lit ''s1'',
     sc_turn = \<lparr>turn_number = 1, idempotency_key = key,
       player_contribution = \<lparr>pc_raw = lit ''I knock'', pc_processed = lit ''I knock''\<rparr>,
       turn_segment = lit ''The gate opens.'',
       knowledge_change = \<lparr>kc_facts = [FactUpdate (lit ''f1'') (demo_fact (lit ''It is open'')), FactAdd (lit ''f2'') (demo_fact (lit ''A yard''))],
         kc_rumors = [RumorRemove (lit ''r1'')], kc_memories = [MemoryAdd (lit ''guide'') (lit ''m2'') demo_memory]\<rparr>,
       turn_evaluation = \<lparr>te_proposal_version = 1, te_repair_rounds = 0, te_checks = [], te_scores = [], te_choice = None\<rparr>,
       turn_status = Pass\<rparr>,
     sc_summary = Replaced \<lparr>summary_text = lit ''It began.'', covered_through = 1\<rparr>, sc_narrative = Unchanged,
     sc_life_cycle = Unchanged\<rparr>"

definition demo_store0 :: StoryStoreMem where
  "demo_store0 = snd (StoryStoreMem_create demo_json 5 (scb_instance demo_bundle) (StoryStoreMem_with_config StoryStoreConfig_default))"

definition demo_store1 :: StoryStoreMem where
  "demo_store1 = snd (StoryStoreMem_commit demo_json 6 (demo_commit (lit ''k1'')) demo_store0)"

lemma demo_store0_reachable: "store_reachable demo_json StoryStoreConfig_default demo_store0"
  unfolding demo_store0_def
  by (rule store_reachable.created [OF store_reachable.empty prod.collapse [symmetric]])

lemma demo_store1_reachable: "store_reachable demo_json StoryStoreConfig_default demo_store1"
  unfolding demo_store1_def
  by (rule store_reachable.committed [OF demo_store0_reachable prod.collapse [symmetric]])

lemma demo_committed:
  "case StoryStoreMem_commit demo_json 6 (demo_commit (lit ''k1'')) demo_store0 of (r, s) \<Rightarrow> \<not> isl r"
  by code_simp

lemma demo_story_held: "bm_contains (ss_stories demo_store1) (lit ''s1'')"
  by code_simp

definition demo_story :: StoredStory where
  "demo_story = the (bm_get (ss_stories demo_store1) (lit ''s1''))"

lemma demo_story_get: "bm_get (ss_stories demo_store1) (lit ''s1'') = Some demo_story"
  using demo_story_held by (auto simp: demo_story_def bm_contains_def)

theorem reachable_story_replays_witness:
  "\<exists>ctx0 hist. fresh_context ctx0 \<and> ctx_story_id ctx0 = lit ''s1'' \<and>
    st_context demo_story = foldl (next_context (max_recent_turns (ss_config demo_store1))) ctx0 hist \<and>
    (\<forall>i < length hist. turn_number (sc_turn (hist ! i)) = of_nat (Suc i)) \<and>
    ctx_turn_number (st_context demo_story) = of_nat (length hist) \<and>
    distinct (map commit_key hist) \<and>
    (\<forall>k c. bm_get (st_committed demo_story) k = Some c \<longleftrightarrow> c \<in> set hist \<and> commit_key c = k)"
  by (rule reachable_story_replays [OF demo_store1_reachable demo_story_get])

theorem reachable_story_window_witness:
  "\<exists>ctx0 hist. story_log demo_json (max_recent_turns (ss_config demo_store1)) demo_story ctx0 hist \<and>
    (length hist < 2 ^ 64 \<longrightarrow>
      window_ok (max_recent_turns (ss_config demo_store1)) (st_context demo_story) (map sc_turn hist))"
  by (rule reachable_story_window [OF demo_store1_reachable demo_story_get])

lemma commit_retry_safe_witness:
  "case fst (StoryStoreMem_commit demo_json 6 (demo_commit (lit ''k1'')) demo_store0) of
     Inl e \<Rightarrow> demo_store1 = demo_store0
   | Inr d \<Rightarrow> StoryStoreMem_commit demo_json 7
       ((demo_commit (lit ''k1''))\<lparr>sc_life_cycle := Replaced LcCancelled\<rparr>) demo_store1 = (Ok d, demo_store1)"
  unfolding demo_store1_def
  by (rule commit_retry_safe [OF store_reachable_inv [OF demo_store0_reachable] prod.collapse [symmetric]])
     simp_all

abbreviation demo_ctx0 :: StoryContext where
  "demo_ctx0 \<equiv> created_context (scb_instance demo_bundle)"

lemma demo_check_commit: "check_commit demo_json demo_ctx0 (demo_commit (lit ''k1'')) = Ok ()"
proof -
  have "\<not> isl (check_commit demo_json demo_ctx0 (demo_commit (lit ''k1'')))" by code_simp
  then show ?thesis by (cases "check_commit demo_json demo_ctx0 (demo_commit (lit ''k1''))") simp_all
qed

theorem commit_knowledge_effect_witness:
  "bm_get (ctx_facts (next_context 9 demo_ctx0 (demo_commit (lit ''k1'')))) (lit ''f2'') =
     Some \<lparr>fe_id = lit ''f2'', fe_origin = TurnOrigin 1, fe_body = demo_fact (lit ''A yard'')\<rparr>"
  using commit_knowledge_effect [OF demo_check_commit refl refl refl, of 9 "lit ''f2''"]
  by (simp add: demo_commit_def lit_def)

section \<open>The engine's store\<close>

definition demo_config :: PersistanceConfig where
  "demo_config = \<lparr>pers_story_store = StoryStoreConfig_default, pers_pack_store = PackStoreConfig_default\<rparr>"

definition demo_engine_store :: Store where
  "demo_engine_store = snd (Store_create_story demo_json 5 demo_bundle (Store_new demo_config))"

lemma demo_engine_store_reachable: "engine_store_reachable demo_json demo_config demo_engine_store"
  unfolding demo_engine_store_def demo_bundle_def
  by (rule engine_store_reachable.create [OF engine_store_reachable.start assembled_bundle_ok prod.collapse [symmetric]])

lemma demo_create_again:
  "\<exists>e st'. Store_create_story demo_json 6 demo_bundle demo_engine_store = (Err e, st')"
proof -
  have "isl (fst (Store_create_story demo_json 6 demo_bundle demo_engine_store))" by code_simp
  then show ?thesis
    by (cases "Store_create_story demo_json 6 demo_bundle demo_engine_store"; cases "fst (Store_create_story demo_json 6 demo_bundle demo_engine_store)") auto
qed

theorem create_story_atomic_witness:
  "\<exists>e. Store_create_story demo_json 6 demo_bundle demo_engine_store = (Err e, demo_engine_store)"
  using demo_create_again create_story_atomic [OF demo_engine_store_reachable] by metis


section \<open>A plan\<close>

definition demo_plan_dto :: PlanLlmOutputDto where
  "demo_plan_dto = \<lparr>pld_story_goal = lit ''Enter'', pld_facts_to_retrieve = [lit ''f1''], pld_rumors_to_retrieve = [],
     pld_roles_for_generation = [lit ''guide''],
     pld_character_think_requests = [\<lparr>ctd_role_id = lit ''guide'', ctd_thinking_focus = lit '' trust ''\<rparr>]\<rparr>"

definition demo_known :: ActivatedKnowledge where
  "demo_known = \<lparr>ak_facts = [], ak_rumors = []\<rparr>"

abbreviation demo_parsed_plan :: "PipelineError + PlanOutput" where
  "demo_parsed_plan \<equiv> parse_plan_output (\<lambda>_. Some demo_plan_dto) [] (collect_candidates demo_ctx0 demo_known 32)
     (collect_role_catalog demo_ctx0 (ctx_player demo_ctx0)) (lit ''xu_xian'') PlanConfig_default"

definition demo_plan :: PlanOutput where
  "demo_plan = projr demo_parsed_plan"

lemma demo_plan_parsed: "demo_parsed_plan = Ok demo_plan"
proof -
  have "\<not> isl demo_parsed_plan" by code_simp
  then show ?thesis by (cases demo_parsed_plan) (simp_all add: demo_plan_def)
qed

lemma parse_plan_output_sound_witness: "plan_ok demo_ctx0 demo_known PlanConfig_default demo_plan"
  by (rule parse_plan_output_sound [OF demo_plan_parsed])

lemma demo_plan_ok: "plan_ok demo_ctx0 demo_known PlanConfig_default demo_plan"
  by code_simp

lemma retrieve_after_plan_witness:
  "\<exists>out. retrieve demo_ctx0 (po_facts_to_retrieve demo_plan) (po_rumors_to_retrieve demo_plan) = Ok out \<and>
     length (ro_facts out) = length (po_facts_to_retrieve demo_plan)"
  using retrieve_after_plan [OF demo_plan_ok] by simp

section \<open>Thinking and generating\<close>

fun demo_render_json :: "json \<Rightarrow> str" where
  "demo_render_json (JStr t) = [34] @ concat (map (\<lambda>c. if c = 34 then [92, 34] else [c]) t) @ [34]"
| "demo_render_json j = lit ''null''"

definition demo_env :: pipe_env where
  "demo_env = \<lparr>pe_json = demo_render_json, pe_render = (\<lambda>i v. Ok []), pe_llm = (\<lambda>c m. Ok (lit ''The gate opens.''))\<rparr>"

definition demo_contribution :: PlayerContribution where
  "demo_contribution = \<lparr>pc_raw = lit ''I knock'', pc_processed = lit ''I knock''\<rparr>"

lemma think_context_fits_witness:
  "longest_prefix 8192
      (map (\<lambda>m. context_item demo_env (mb_content (me_body m)))
        (take 8 (bm_values (role_memories (role_projection (lit ''guide'') (the (bm_get demo_seed_roles (lit ''guide'')))))))) 
      (think_memories demo_env (role_projection (lit ''guide'') (the (bm_get demo_seed_roles (lit ''guide'')))) ThinkConfig_default) \<and>
   longest_prefix 8192 (map (\<lambda>r. context_item demo_env (rb_content (re_body r))) (bm_values (ctx_rumors demo_ctx0) @ []))
      (think_rumors demo_env (bm_values (ctx_rumors demo_ctx0)) [] ThinkConfig_default)"
  using think_context_fits [of ThinkConfig_default demo_env "role_projection (lit ''guide'') (the (bm_get demo_seed_roles (lit ''guide'')))"
      "bm_values (ctx_rumors demo_ctx0)" "[]"]
  by (simp add: ThinkConfig_default_def)

definition demo_think_input :: ThinkInput where
  "demo_think_input = \<lparr>ti_requests = po_character_think_requests demo_plan, ti_player_contribution = demo_contribution,
     ti_activated_rumors = [], ti_retrieved_rumors = []\<rparr>"

definition demo_decision_json :: "str \<Rightarrow> CharacterDecisionDto option" where
  "demo_decision_json raw = Some \<lparr>cdd_decision = lit '' open it '', cdd_suggested_utterance = Some (lit ''Enter'')\<rparr>"

lemma think_after_plan_witness:
  "case think demo_env demo_decision_json ThinkConfig_default demo_think_input demo_ctx0 of
      Inr ds \<Rightarrow> map cd_role_id ds = map ctr_role_id (po_character_think_requests demo_plan) \<and>
        list_all (decision_ok ThinkConfig_default) ds
    | Inl e \<Rightarrow> (\<exists>r \<in> set (po_character_think_requests demo_plan). \<exists>role.
        bm_get (ctx_roles demo_ctx0) (ctr_role_id r) = Some role \<and>
        decide_role demo_env demo_decision_json ThinkConfig_default demo_think_input demo_ctx0 r role = Err e)"
  by (rule think_after_plan [OF demo_plan_ok]) (simp add: demo_think_input_def)

lemma demo_json_escapes: "json_escapes demo_env (\<lambda>c. if c = 34 then [92, 34] else [c])"
  by (simp add: json_escapes_def demo_env_def)

lemma truncation_maximal_witness:
  "\<exists>n \<le> length (lit ''once upon a time''). truncated_json_string demo_env (lit ''once upon a time'') 20 =
      Some (generate_json_string demo_env (take n (lit ''once upon a time'') @ TRUNCATION_MARKER))"
proof -
  have "str_len (generate_json_string demo_env TRUNCATION_MARKER) \<le> 20" by code_simp
  from truncation_maximal [OF demo_json_escapes this, of "lit ''once upon a time''"] show ?thesis
    by (elim exE conjE) (rule exI conjI | assumption)+
qed

definition demo_role_context :: GenerateRoleContext where
  "demo_role_context = projr (project_role_context demo_env demo_ctx0 [lit ''guide''] [] GenerateConfig_default)"

lemma demo_role_context_Ok:
  "project_role_context demo_env demo_ctx0 [lit ''guide''] [] GenerateConfig_default = Ok demo_role_context"
proof -
  have "\<not> isl (project_role_context demo_env demo_ctx0 [lit ''guide''] [] GenerateConfig_default)" by code_simp
  then show ?thesis
    by (cases "project_role_context demo_env demo_ctx0 [lit ''guide''] [] GenerateConfig_default")
      (simp_all add: demo_role_context_def)
qed

lemma role_context_fits_witness: "str_len (grc_player_role demo_role_context) \<le> 16384"
  using role_context_fits [OF demo_role_context_Ok] by (simp add: GenerateConfig_default_def)

section \<open>Validating\<close>

definition demo_checks :: "ValidateCheckDto list" where
  "demo_checks = map (\<lambda>c. \<lparr>vcd_name = pcc_name c, vcd_passed = True, vcd_issue = None\<rparr>) (vcf_checks ValidateConfig_default)"

definition demo_scores :: "ValidateScoreDto list" where
  "demo_scores = map (\<lambda>c. \<lparr>vsd_name = psc_name c, vsd_score = Fin 7, vsd_issue = Some (lit ''too short'')\<rparr>)
     (vcf_scores ValidateConfig_default)"

text \<open>The model answers in another order than the configured one.\<close>

definition demo_answer :: ValidateLlmOutputDto where
  "demo_answer = \<lparr>vld_checks = rev demo_checks, vld_scores = rev demo_scores\<rparr>"

abbreviation demo_parsed_report :: "PipelineError + ValidationReport" where
  "demo_parsed_report \<equiv>
     parse_validation_report (\<lambda>_. Ok demo_answer) [] 1 (quality_policy ValidateConfig_default) 2048"

lemma demo_config_valid: "ValidateConfig_validate ValidateConfig_default = Ok ()"
proof -
  have "\<not> isl (ValidateConfig_validate ValidateConfig_default)" by code_simp
  then show ?thesis by (cases "ValidateConfig_validate ValidateConfig_default") simp_all
qed

lemma demo_answer_ok: "answer_ok (quality_policy ValidateConfig_default) 2048 demo_answer"
  by code_simp

lemma parse_validation_report_complete_witness: "\<exists>rep. demo_parsed_report = Ok rep"
  by (rule parse_validation_report_complete [OF demo_config_valid refl refl demo_answer_ok])

definition demo_report :: ValidationReport where
  "demo_report = projr demo_parsed_report"

lemma demo_report_parsed: "demo_parsed_report = Ok demo_report"
proof -
  have "\<not> isl demo_parsed_report" by code_simp
  then show ?thesis by (cases demo_parsed_report) (simp_all add: demo_report_def)
qed

lemma parse_validation_report_sound_witness:
  "vr_proposal_version demo_report = 1 \<and> report_matches (quality_policy ValidateConfig_default) 2048 demo_report"
  by (rule parse_validation_report_sound [OF demo_report_parsed])

section \<open>Summarising\<close>

definition demo_stored :: StoredStory where
  "demo_stored = created_story 5 (scb_instance demo_bundle)"

lemma demo_stored_log: "story_log demo_json 4096 demo_stored demo_ctx0 []"
  by (simp add: story_log_def demo_stored_def created_story_def fresh_created)

lemma summary_commits_witness:
  "check_summary (st_context demo_stored) ((demo_commit (lit ''k1''))\<lparr>sc_summary := Unchanged\<rparr>) = Ok () \<and>
   length (ctx_recent_turns (next_context 4096 (st_context demo_stored) ((demo_commit (lit ''k1''))\<lparr>sc_summary := Unchanged\<rparr>))) \<le> 6"
proof -
  have "covered_turn_count SummaryConfig_default (st_context demo_stored) = 0" by code_simp
  then have "summary_execute demo_env SummaryConfig_default (st_context demo_stored) = Some (Ok Unchanged)"
    by (simp add: summary_execute_def)
  from summary_commits [OF demo_stored_log _ this, of "(demo_commit (lit ''k1''))\<lparr>sc_summary := Unchanged\<rparr>"] show ?thesis
    by (simp add: demo_commit_def demo_stored_def created_story_def created_context_def TurnNumber_increment_def
        SummaryConfig_default_def)
qed

end
