(* ===== verification/Baseline_Stage.thy ===== *)
theory Baseline_Stage
  imports Pipeline_Common Activation_Safety
begin

text \<open>
  \<open>pipeline/baseline\<close>: the first stage of a turn. It loads the pack, projects the narrative into
  directions and constraints, has the model process the player's input, and activates the facts and
  rumors the scanned text calls for. The Unicode tables and the SHA-256 of the activation run are the
  parameters of \<open>Activation_Engine\<close>.
\<close>

section \<open>Narrative (\<open>baseline/baseline_narrative.rs\<close>)\<close>

record NarrativeProjection =
  npr_directions :: "NarrativeDirection list"
  npr_constraints :: "BoundedText list"

definition NarrativePlan_default :: NarrativePlan where
  "NarrativePlan_default = \<lparr>np_directions = [], np_constraints = [], np_queries = []\<rparr>"

definition build_projection :: "StoryPack \<Rightarrow> StoryContext \<Rightarrow> NarrativeError + NarrativeProjection" where
  "build_projection pack ctx =
     rbind (case sp_narrative pack of
              Some graph \<Rightarrow> graph_plan graph (ctx_narrative ctx)
            | None \<Rightarrow> Ok NarrativePlan_default) (\<lambda>plan.
       Ok \<lparr>npr_directions = np_directions plan,
           npr_constraints = sp_constraints pack @ map ac_forbid (np_constraints plan)\<rparr>)"

section \<open>Knowledge (\<open>baseline/baseline_knowledge.rs\<close>)\<close>

datatype KnowledgeKey = FactKey FactId | RumorKey RumorId

fun KnowledgeKey_display :: "KnowledgeKey \<Rightarrow> str" where
  "KnowledgeKey_display (FactKey i) = lit ''fact:'' @ i"
| "KnowledgeKey_display (RumorKey i) = lit ''rumor:'' @ i"

text \<open>The derived order: facts before rumors, then by identifier.\<close>

fun key_rank :: "KnowledgeKey \<Rightarrow> nat \<times> str" where
  "key_rank (FactKey i) = (0, i)"
| "key_rank (RumorKey i) = (1, i)"

lemma key_rank_inject: "key_rank a = key_rank b \<longleftrightarrow> a = b"
  by (cases a; cases b) auto

instantiation KnowledgeKey :: linorder
begin

definition less_eq_KnowledgeKey :: "KnowledgeKey \<Rightarrow> KnowledgeKey \<Rightarrow> bool" where
  "less_eq_KnowledgeKey a b \<longleftrightarrow> key_rank a \<le> key_rank b"

definition less_KnowledgeKey :: "KnowledgeKey \<Rightarrow> KnowledgeKey \<Rightarrow> bool" where
  "less_KnowledgeKey a b \<longleftrightarrow> key_rank a < key_rank b"

instance
  by standard
    (auto simp: less_eq_KnowledgeKey_def less_KnowledgeKey_def key_rank_inject less_le_not_le
      intro: order_trans antisym linear)

end

record KnowledgeScope =
  ks_story_ctx :: StoryContext
  ks_player_contribution :: PlayerContribution
  ks_narrative :: NarrativeProjection

definition fact_candidate :: "FactId \<times> FactEntry \<Rightarrow> KnowledgeKey ActivationCandidate" where
  "fact_candidate e = \<lparr>cand_key = FactKey (fst e), cand_rule = fb_activation (fe_body (snd e)),
     cand_content = fb_content (fe_body (snd e))\<rparr>"

definition rumor_candidate :: "RumorId \<times> RumorEntry \<Rightarrow> KnowledgeKey ActivationCandidate" where
  "rumor_candidate e = \<lparr>cand_key = RumorKey (fst e), cand_rule = rb_activation (re_body (snd e)),
     cand_content = rb_content (re_body (snd e))\<rparr>"

definition knowledge_candidates :: "StoryContext \<Rightarrow> KnowledgeKey ActivationCandidate list" where
  "knowledge_candidates ctx =
     map fact_candidate (bm_entries (ctx_facts ctx)) @ map rumor_candidate (bm_entries (ctx_rumors ctx))"

text \<open>\<open>iter().rev().enumerate()\<close> over the recent turns: the latest turn has depth 1.\<close>

definition recent_fragments :: "unicode \<Rightarrow> Turn list \<Rightarrow> ScanFragment list" where
  "recent_fragments u turns =
     map (\<lambda>(n, turn). ScanFragment_new u RecentStory (u16_of_usize (usize_saturating_add n 1)) (turn_segment turn))
       (List.enumerate 0 (rev turns))"

definition prior_story :: "unicode \<Rightarrow> StoryContext \<Rightarrow> ScanFragment" where
  "prior_story u ctx =
     (let prior_story_depth = u16_of_usize (usize_saturating_add (length (ctx_recent_turns ctx)) 1);
          opening = ScanFragment_new u StoryOpening prior_story_depth (ctx_opening ctx)
      in case ctx_summary ctx of
           None \<Rightarrow> opening
         | Some summary \<Rightarrow> if trim (summary_text summary) = [] then opening
             else ScanFragment_new u StorySummaryFragment prior_story_depth (summary_text summary))"

definition build_scan_buffer :: "unicode \<Rightarrow> KnowledgeScope \<Rightarrow> ScanFragment list" where
  "build_scan_buffer u scope =
     (let ctx = ks_story_ctx scope
      in ScanBuffer_new
        ([ScanFragment_new u PlayerContributionFragment 0 (pc_processed (ks_player_contribution scope))] @
         (case bm_get (ctx_roles ctx) (ctx_player ctx) of
            None \<Rightarrow> [] | Some role \<Rightarrow> [ScanFragment_new u PlayerRoleName 0 (rs_name (role_spec role))]) @
         map (\<lambda>d. ScanFragment_new u NarrativeDirectionFragment 0 (nd_dramatic_focus d)) (npr_directions (ks_narrative scope)) @
         recent_fragments u (ctx_recent_turns ctx) @ [prior_story u ctx]))"

definition run_activation ::
  "unicode \<Rightarrow> (u8 list \<Rightarrow> u8 list) \<Rightarrow> KnowledgeScope \<Rightarrow> ActivationConfig \<Rightarrow> KnowledgeKey ActivationOutcome" where
  "run_activation u sha256 scope config =
     (let ctx = ks_story_ctx scope
      in activate \<lparr>env_unicode = u, env_sha256 = sha256, env_display = KnowledgeKey_display\<rparr>
           (knowledge_candidates ctx) (build_scan_buffer u scope)
           \<lparr>at_story_id = ctx_story_id ctx, at_turn_number = ctx_turn_number ctx\<rparr> config)"

fun collect_entry :: "StoryContext \<Rightarrow> ActivatedKnowledge \<Rightarrow> KnowledgeKey \<Rightarrow> ActivatedKnowledge" where
  "collect_entry ctx k (FactKey i) =
     (case bm_get (ctx_facts ctx) i of None \<Rightarrow> k | Some entry \<Rightarrow> k\<lparr>ak_facts := ak_facts k @ [entry]\<rparr>)"
| "collect_entry ctx k (RumorKey i) =
     (case bm_get (ctx_rumors ctx) i of None \<Rightarrow> k | Some entry \<Rightarrow> k\<lparr>ak_rumors := ak_rumors k @ [entry]\<rparr>)"

definition collect_knowledge :: "StoryContext \<Rightarrow> KnowledgeKey ActivationOutcome \<Rightarrow> ActivatedKnowledge" where
  "collect_knowledge ctx outcome =
     foldl (collect_entry ctx) \<lparr>ak_facts = [], ak_rumors = []\<rparr> (map act_key (out_activated outcome))"

definition activate_knowledge ::
  "unicode \<Rightarrow> (u8 list \<Rightarrow> u8 list) \<Rightarrow> KnowledgeScope \<Rightarrow> ActivationConfig \<Rightarrow> ActivatedKnowledge" where
  "activate_knowledge u sha256 scope config =
     collect_knowledge (ks_story_ctx scope) (run_activation u sha256 scope config)"

section \<open>The stage (\<open>baseline/baseline.rs\<close>)\<close>

record BaselineConfig =
  bc_activation :: ActivationConfig

definition BaselineConfig_default :: BaselineConfig where
  "BaselineConfig_default = \<lparr>bc_activation = ActivationConfig_default\<rparr>"

record BaselineOutput =
  bo_player_contribution :: PlayerContribution
  bo_narrative :: NarrativeProjection
  bo_knowledge :: ActivatedKnowledge

definition player_input_vars :: "StoryContext \<Rightarrow> str \<Rightarrow> prompt_vars" where
  "player_input_vars ctx input =
     [(''player_input'', JStr input), (''story_summary'', JStr (summary_or_empty ctx)),
      (''story_opening'', JStr (story_opening ctx)), (''recent_story'', JStr (recent_story ctx))]"

definition process_player_input :: "pipe_env \<Rightarrow> str \<Rightarrow> StoryContext \<Rightarrow> PipelineError + PlayerContribution" where
  "process_player_input env input ctx =
     rbind (render env Baseline ''baseline.process_player_input'' (player_input_vars ctx input)) (\<lambda>messages.
     rbind (complete env Baseline CallBaseline messages) (\<lambda>content.
       Ok \<lparr>pc_raw = input, pc_processed = content\<rparr>))"

definition baseline_execute ::
  "pipe_env \<Rightarrow> unicode \<Rightarrow> (u8 list \<Rightarrow> u8 list) \<Rightarrow> BaselineConfig \<Rightarrow> Store \<Rightarrow> str \<Rightarrow> StoryContext \<Rightarrow>
   PipelineError + BaselineOutput" where
  "baseline_execute env u sha256 config store player_input ctx =
     rbind (map_err (PipelinePersistence Baseline) (PackBackend_get_pack (ctx_pack_ref ctx) (store_pack store))) (\<lambda>pack.
     rbind (map_err (PipelineNarrative Baseline) (build_projection pack ctx)) (\<lambda>narrative.
     rbind (process_player_input env player_input ctx) (\<lambda>contribution.
       Ok \<lparr>bo_player_contribution = contribution, bo_narrative = narrative,
           bo_knowledge = activate_knowledge u sha256
             \<lparr>ks_story_ctx = ctx, ks_player_contribution = contribution, ks_narrative = narrative\<rparr>
             (bc_activation config)\<rparr>)))"

section \<open>What is activated\<close>

text \<open>Collecting is a filter by kind, in the order of activation.\<close>

fun key_fact :: "StoryContext \<Rightarrow> KnowledgeKey \<Rightarrow> FactEntry option" where
  "key_fact ctx (FactKey i) = bm_get (ctx_facts ctx) i"
| "key_fact ctx (RumorKey i) = None"

fun key_rumor :: "StoryContext \<Rightarrow> KnowledgeKey \<Rightarrow> RumorEntry option" where
  "key_rumor ctx (FactKey i) = None"
| "key_rumor ctx (RumorKey i) = bm_get (ctx_rumors ctx) i"

lemma collect_entries:
  "foldl (collect_entry ctx) k keys =
     \<lparr>ak_facts = ak_facts k @ List.map_filter (key_fact ctx) keys,
      ak_rumors = ak_rumors k @ List.map_filter (key_rumor ctx) keys\<rparr>"
proof (induction keys arbitrary: k)
  case Nil
  then show ?case by simp
next
  case (Cons key keys)
  then show ?case by (cases key) (simp_all split: option.splits)
qed

lemma knowledge_candidates_distinct: "distinct (map cand_key (knowledge_candidates ctx))"
proof -
  have "map cand_key (knowledge_candidates ctx) =
      map FactKey (bm_keys (ctx_facts ctx)) @ map RumorKey (bm_keys (ctx_rumors ctx))"
    by (simp add: knowledge_candidates_def fact_candidate_def rumor_candidate_def bm_keys_def)
  then show ?thesis by (auto simp: distinct_map inj_on_def)
qed

lemma knowledge_candidate_cases:
  assumes "c \<in> set (knowledge_candidates ctx)"
  obtains (fact) i e where "bm_get (ctx_facts ctx) i = Some e" "c = fact_candidate (i, e)"
  | (rumor) i e where "bm_get (ctx_rumors ctx) i = Some e" "c = rumor_candidate (i, e)"
  using assms by (auto simp: knowledge_candidates_def bm_entries_iff)

text \<open>An activated key: it names an entry of the context whose rule is enabled.\<close>

definition key_enabled :: "StoryContext \<Rightarrow> KnowledgeKey \<Rightarrow> bool" where
  "key_enabled ctx key \<longleftrightarrow>
     (\<exists>i e. key = FactKey i \<and> bm_get (ctx_facts ctx) i = Some e \<and> mode_enabled (rule_mode (fb_activation (fe_body e)))) \<or>
     (\<exists>i e. key = RumorKey i \<and> bm_get (ctx_rumors ctx) i = Some e \<and> mode_enabled (rule_mode (rb_activation (re_body e))))"

definition key_bytes :: "StoryContext \<Rightarrow> KnowledgeKey \<Rightarrow> nat" where
  "key_bytes ctx key =
     (case key_fact ctx key of Some e \<Rightarrow> str_len (fb_content (fe_body e)) | None \<Rightarrow> 0) +
     (case key_rumor ctx key of Some e \<Rightarrow> str_len (rb_content (re_body e)) | None \<Rightarrow> 0)"

lemma candidate_key:
  assumes "i < length (knowledge_candidates ctx)" and "cand_enabled (knowledge_candidates ctx) i"
  shows "key_enabled ctx (cand_key (knowledge_candidates ctx ! i))"
    and "cand_bytes (knowledge_candidates ctx) i = key_bytes ctx (cand_key (knowledge_candidates ctx ! i))"
proof -
  have "knowledge_candidates ctx ! i \<in> set (knowledge_candidates ctx)" using assms(1) by simp
  then show "key_enabled ctx (cand_key (knowledge_candidates ctx ! i))"
    using assms(2)
    by (cases rule: knowledge_candidate_cases)
      (simp_all add: key_enabled_def cand_enabled_def fact_candidate_def rumor_candidate_def)
  from \<open>knowledge_candidates ctx ! i \<in> set (knowledge_candidates ctx)\<close>
  show "cand_bytes (knowledge_candidates ctx) i = key_bytes ctx (cand_key (knowledge_candidates ctx ! i))"
    by (cases rule: knowledge_candidate_cases)
      (simp_all add: key_bytes_def cand_bytes_def fact_candidate_def rumor_candidate_def)
qed

lemma activation_keys:
  assumes "cfg_max_knowledge_bytes config < usize_max"
    and "keys = map act_key (out_activated (run_activation u sha256 scope config))"
  shows "distinct keys" and "\<forall>key \<in> set keys. key_enabled (ks_story_ctx scope) key"
    and "length keys \<le> cfg_max_activated_entries config"
    and "sum_list (map (key_bytes (ks_story_ctx scope)) keys) \<le> cfg_max_knowledge_bytes config"
proof -
  let ?ctx = "ks_story_ctx scope" let ?cs = "knowledge_candidates ?ctx"
  let ?s = "final_session \<lparr>env_unicode = u, env_sha256 = sha256, env_display = KnowledgeKey_display\<rparr> ?cs
    (build_scan_buffer u scope) \<lparr>at_story_id = ctx_story_id ?ctx, at_turn_number = ctx_turn_number ?ctx\<rparr> config"
  have inv: "act_inv ?cs config ?s" by (rule act_inv_final [OF assms(1)])
  then obtain idxs where idxs: "act_indices ?cs ?s idxs" by (auto simp: act_inv_def)
  then have all: "list_all2 (act_ok ?cs) (s_activated ?s) idxs" by (simp add: act_indices_def)
  have keys: "keys = map (\<lambda>i. cand_key (?cs ! i)) idxs"
    using all by (simp add: assms(2) run_activation_def Let_def activate_final Session_finish_def list_eq_iff_nth_eq
        list_all2_conv_all_nth act_ok_def)
  have mem: "i < length ?cs \<and> cand_enabled ?cs i" if "i \<in> set idxs" for i
    using all that by (auto simp: in_set_conv_nth list_all2_conv_all_nth act_ok_def)
  have "inj_on (\<lambda>i. cand_key (?cs ! i)) (set idxs)"
  proof (rule inj_onI)
    fix i j assume ij: "i \<in> set idxs" "j \<in> set idxs" "cand_key (?cs ! i) = cand_key (?cs ! j)"
    then have "map cand_key ?cs ! i = map cand_key ?cs ! j" using mem by simp
    moreover have "i < length (map cand_key ?cs)" "j < length (map cand_key ?cs)" using ij mem by simp_all
    ultimately show "i = j" using nth_eq_iff_index_eq [OF knowledge_candidates_distinct] by blast
  qed
  then show "distinct keys" using idxs by (simp add: keys distinct_map act_indices_def)
  show "\<forall>key \<in> set keys. key_enabled ?ctx key" using mem candidate_key(1) by (auto simp: keys)
  show "length keys \<le> cfg_max_activated_entries config"
    using inv list_all2_lengthD [OF all] by (simp add: keys act_inv_def)
  have "map (key_bytes ?ctx) keys = map (cand_bytes ?cs) idxs" using mem candidate_key(2) by (simp add: keys)
  then show "sum_list (map (key_bytes ?ctx) keys) \<le> cfg_max_knowledge_bytes config"
    using inv idxs by (simp add: act_inv_def act_indices_def)
qed

lemma enabled_split:
  assumes "\<forall>key \<in> set keys. key_enabled ctx key"
  shows "length (List.map_filter (key_fact ctx) keys) + length (List.map_filter (key_rumor ctx) keys) = length keys"
    and "sum_list (map (\<lambda>e. str_len (fb_content (fe_body e))) (List.map_filter (key_fact ctx) keys)) +
      sum_list (map (\<lambda>e. str_len (rb_content (re_body e))) (List.map_filter (key_rumor ctx) keys)) =
      sum_list (map (key_bytes ctx) keys)"
proof (use assms in \<open>induction keys\<close>)
  case (Cons key keys)
  {
    case 1
    then show ?case using Cons.IH(1) by (auto simp: key_enabled_def)
  next
    case 2
    then show ?case using Cons.IH(2) by (auto simp: key_enabled_def key_bytes_def)
  }
qed simp_all

text \<open>
  What a turn knows: the facts and rumors handed to the later stages are entries of the story, each
  taken once, with an enabled rule; together they are within the configured number of entries and
  bytes. The contribution keeps the player's input as it was typed.
\<close>

lemma baseline_knowledge_bounded:
  assumes "baseline_execute env u sha256 config store player_input ctx = Ok out"
    and "cfg_max_knowledge_bytes (bc_activation config) < usize_max"
    and "facts = ak_facts (bo_knowledge out)" and "rumors = ak_rumors (bo_knowledge out)"
  shows "(\<exists>keys. distinct keys \<and> (\<forall>key \<in> set keys. key_enabled ctx key) \<and>
      facts = List.map_filter (key_fact ctx) keys \<and> rumors = List.map_filter (key_rumor ctx) keys) \<and>
    length facts + length rumors \<le> cfg_max_activated_entries (bc_activation config) \<and>
    sum_list (map (\<lambda>e. str_len (fb_content (fe_body e))) facts) +
      sum_list (map (\<lambda>e. str_len (rb_content (re_body e))) rumors) \<le> cfg_max_knowledge_bytes (bc_activation config) \<and>
    pc_raw (bo_player_contribution out) = player_input"
proof -
  define scope where "scope = \<lparr>ks_story_ctx = ctx, ks_player_contribution = bo_player_contribution out,
    ks_narrative = bo_narrative out\<rparr>"
  have know: "bo_knowledge out = activate_knowledge u sha256 scope (bc_activation config)"
    and raw: "pc_raw (bo_player_contribution out) = player_input"
    using assms(1) by (auto simp: scope_def baseline_execute_def process_player_input_def result_simps)
  have scope: "ks_story_ctx scope = ctx" by (simp add: scope_def)
  define keys where "keys = map act_key (out_activated (run_activation u sha256 scope (bc_activation config)))"
  note K = activation_keys [OF assms(2) keys_def, unfolded scope]
  have "facts = List.map_filter (key_fact ctx) keys" "rumors = List.map_filter (key_rumor ctx) keys"
    by (simp_all add: assms(3,4) know activate_knowledge_def collect_knowledge_def collect_entries scope keys_def)
  then show ?thesis using K raw enabled_split [OF K(2)] by (simp only:) blast
qed

end
