(* ===== verification/Extract_Knowledge.thy ===== *)
theory Extract_Knowledge
  imports Pipeline_Common
begin

text \<open>
  \<open>pipeline/extract/extract_knowledge.rs\<close>: the changes the model proposes after a turn become
  operations on the story's knowledge. New entries get identifiers no entry has and no earlier
  operation of the turn was given; updates and removals must name an existing entry, once.
\<close>

section \<open>Configuration (\<open>extract/config.rs\<close>)\<close>

record ExtractConfig =
  max_fact_changes :: nat
  max_rumor_changes :: nat
  max_roles_for_memory :: nat
  max_memory_changes_per_role :: nat
  max_memory_concurrency :: nat

definition ExtractConfig_validate :: "ExtractConfig \<Rightarrow> PipelineError + unit" where
  "ExtractConfig_validate config = Ok ()"

definition ExtractConfig_default :: ExtractConfig where
  "ExtractConfig_default =
     \<lparr>max_fact_changes = 8, max_rumor_changes = 8, max_roles_for_memory = 4, max_memory_changes_per_role = 4,
      max_memory_concurrency = 4\<rparr>"

section \<open>Proposals\<close>

datatype FactProposal = FactProposalAdd FactBody | FactProposalUpdate FactId FactBody

datatype RumorProposal = RumorProposalAdd RumorBody | RumorProposalUpdate RumorId RumorBody | RumorProposalRemove RumorId

datatype RoleMemoryProposal = MemoryProposalAdd MemoryBody | MemoryProposalUpdate MemoryId MemoryBody

record WorldKnowledgeExtraction =
  wke_facts :: "FactChangeOp list"
  wke_rumors :: "RumorChangeOp list"
  wke_roles_for_memory :: "RoleId list"

abbreviation extract_invalid :: "string \<Rightarrow> PipelineError" where
  "extract_invalid code \<equiv> InvalidOutput Extract code"

section \<open>Identifiers\<close>

text \<open>\<open>format!("{prefix}{turn}_{seq}")\<close>\<close>

definition candidate_id :: "str \<Rightarrow> TurnNumber \<Rightarrow> nat \<Rightarrow> str" where
  "candidate_id prefix turn seq = prefix @ show_nat (unat turn) @ lit ''_'' @ show_nat seq"

lemma candidate_id_inject: "candidate_id prefix turn m = candidate_id prefix turn n \<longleftrightarrow> m = n"
  by (auto simp: candidate_id_def dest: injD [OF inj_show_nat])

lemma candidate_id_not_blank: "trim (candidate_id prefix turn n) \<noteq> []"
proof -
  obtain c where "c \<in> set (show_nat n)" by (meson show_nat_not_Nil list.set_sel(1))
  then have "c \<in> set (candidate_id prefix turn n)" "\<not> is_whitespace c"
    using show_nat_digits [of c n] by (auto simp: candidate_id_def is_whitespace_def)
  then show ?thesis by (auto simp: trim_eq_Nil_iff)
qed

text \<open>
  The loop of the three \<open>allocate_*_id_with_reserved\<close>: try the next number until the identifier is
  neither in the map nor reserved. It ends because every step passes one of the taken identifiers.
\<close>

function allocate_loop :: "string \<Rightarrow> PipelineError \<Rightarrow> str \<Rightarrow> TurnNumber \<Rightarrow> str list \<Rightarrow> nat \<Rightarrow> PipelineError + str" where
  "allocate_loop field failed prefix turn taken seq =
     (case id_try_new field (candidate_id prefix turn seq) of
        Inl e \<Rightarrow> Err failed
      | Inr c \<Rightarrow> if c \<notin> set taken then Ok c else allocate_loop field failed prefix turn taken (seq + 1))"
  by pat_completeness auto

termination
proof (relation "measure (\<lambda>(field, failed, prefix, turn, taken, seq).
    card {k \<in> set taken. \<exists>n \<ge> seq. k = candidate_id prefix turn n})", goal_cases)
  case (2 field failed prefix turn taken seq c)
  let ?from = "\<lambda>m. {k \<in> set taken. \<exists>n \<ge> m. k = candidate_id prefix turn n}"
  have c: "c = candidate_id prefix turn seq" using 2(1) by (simp add: id_try_new_def split: if_splits)
  have "c \<in> ?from seq" "c \<notin> ?from (seq + 1)" using 2(2) by (auto simp: c candidate_id_inject)
  moreover have "?from (seq + 1) \<subseteq> ?from seq" using Suc_leD by fastforce
  ultimately have "?from (seq + 1) \<subset> ?from seq" by blast
  then show ?case by (simp add: psubset_card_mono)
qed simp

declare allocate_loop.simps [simp del]

lemma allocate_loop_Ok:
  "\<exists>n \<ge> seq. allocate_loop field failed prefix turn taken seq = Ok (candidate_id prefix turn n) \<and>
     candidate_id prefix turn n \<notin> set taken"
proof (induction field failed prefix turn taken seq rule: allocate_loop.induct)
  case (1 field failed prefix turn taken seq)
  have valid: "id_try_new field (candidate_id prefix turn seq) = Ok (candidate_id prefix turn seq)"
    using candidate_id_not_blank by (simp add: id_try_new_def)
  show ?case
  proof (cases "candidate_id prefix turn seq \<in> set taken")
    case False
    then show ?thesis using valid by (intro exI [of _ seq]) (simp add: allocate_loop.simps)
  next
    case True
    then obtain n where "n \<ge> seq + 1 \<and> allocate_loop field failed prefix turn taken (seq + 1) = Ok (candidate_id prefix turn n) \<and>
        candidate_id prefix turn n \<notin> set taken"
      using "1.IH" [OF valid] by auto
    then show ?thesis
      using valid True by (intro exI [of _ n]) (simp add: allocate_loop.simps [of field failed prefix turn taken seq])
  qed
qed

definition allocate_fact_id_with_reserved ::
  "StoryContext \<Rightarrow> TurnNumber \<Rightarrow> nat \<Rightarrow> FactId list \<Rightarrow> PipelineError + FactId" where
  "allocate_fact_id_with_reserved ctx turn seq reserved =
     allocate_loop ''fact_id'' (InconsistentData Extract ''extract_fact_id_allocation'') (lit ''fact_t'') turn
       (bm_keys (ctx_facts ctx) @ reserved) (max seq 1)"

definition allocate_fact_id :: "StoryContext \<Rightarrow> TurnNumber \<Rightarrow> nat \<Rightarrow> PipelineError + FactId" where
  "allocate_fact_id ctx turn seq = allocate_fact_id_with_reserved ctx turn seq []"

definition allocate_rumor_id_with_reserved ::
  "StoryContext \<Rightarrow> TurnNumber \<Rightarrow> nat \<Rightarrow> RumorId list \<Rightarrow> PipelineError + RumorId" where
  "allocate_rumor_id_with_reserved ctx turn seq reserved =
     allocate_loop ''rumor_id'' (InconsistentData Extract ''extract_rumor_id_allocation'') (lit ''rumor_t'') turn
       (bm_keys (ctx_rumors ctx) @ reserved) (max seq 1)"

definition allocate_rumor_id :: "StoryContext \<Rightarrow> TurnNumber \<Rightarrow> nat \<Rightarrow> PipelineError + RumorId" where
  "allocate_rumor_id ctx turn seq = allocate_rumor_id_with_reserved ctx turn seq []"

definition allocate_memory_id_with_reserved ::
  "StoryContext \<Rightarrow> RoleId \<Rightarrow> TurnNumber \<Rightarrow> nat \<Rightarrow> MemoryId list \<Rightarrow> PipelineError + MemoryId" where
  "allocate_memory_id_with_reserved ctx rid turn seq reserved =
     rbind (ok_or (extract_invalid ''extract_role_unknown'') (bm_get (ctx_roles ctx) rid)) (\<lambda>role.
       allocate_loop ''memory_id'' (InconsistentData Extract ''extract_memory_id_allocation'') (lit ''mem_t'') turn
         (bm_keys (role_memories role) @ reserved) (max seq 1))"

definition allocate_memory_id :: "StoryContext \<Rightarrow> RoleId \<Rightarrow> TurnNumber \<Rightarrow> nat \<Rightarrow> PipelineError + MemoryId" where
  "allocate_memory_id ctx rid turn seq = allocate_memory_id_with_reserved ctx rid turn seq []"

section \<open>Resolving proposals\<close>

definition validate_activation_rule :: "ActivationRule \<Rightarrow> PipelineError + unit" where
  "validate_activation_rule rule =
     (if mode_enabled (rule_mode rule) \<and> \<not> mode_constant (rule_mode rule) \<and> match_keys (match_rule rule) = []
      then Err (extract_invalid ''extract_activation_rule_invalid'') else Ok ())"

text \<open>
  The variables of the three loops: the entries updated or removed so far, the identifiers given out,
  the number of additions, the operations.
\<close>

record 'op change_state =
  cs_targeted :: "str list"
  cs_reserved :: "str list"
  cs_add_seq :: nat
  cs_ops :: "'op list"

definition change_state_new :: "'op change_state" where
  "change_state_new = \<lparr>cs_targeted = [], cs_reserved = [], cs_add_seq = 0, cs_ops = []\<rparr>"

definition added :: "'op change_state \<Rightarrow> str \<Rightarrow> 'op \<Rightarrow> 'op change_state" where
  "added s i op = s\<lparr>cs_reserved := i # cs_reserved s, cs_add_seq := cs_add_seq s + 1, cs_ops := cs_ops s @ [op]\<rparr>"

definition targeted :: "'op change_state \<Rightarrow> str \<Rightarrow> 'op \<Rightarrow> 'op change_state" where
  "targeted s i op = s\<lparr>cs_targeted := i # cs_targeted s, cs_ops := cs_ops s @ [op]\<rparr>"

fun fact_proposal_step ::
  "StoryContext \<Rightarrow> TurnNumber \<Rightarrow> FactChangeOp change_state \<Rightarrow> FactProposal \<Rightarrow> PipelineError + FactChangeOp change_state" where
  "fact_proposal_step ctx turn s (FactProposalAdd body) =
     rbind (validate_activation_rule (fb_activation body)) (\<lambda>_.
     rbind (if cs_reserved s = [] then allocate_fact_id ctx turn (cs_add_seq s + 1)
            else allocate_fact_id_with_reserved ctx turn (cs_add_seq s + 1) (cs_reserved s)) (\<lambda>i.
       Ok (added s i (FactAdd i body))))"
| "fact_proposal_step ctx turn s (FactProposalUpdate i body) =
     (if \<not> bm_contains (ctx_facts ctx) i then Err (extract_invalid ''extract_fact_unknown_id'')
      else if i \<in> set (cs_targeted s) then Err (extract_invalid ''extract_fact_duplicate_id'')
      else rbind (validate_activation_rule (fb_activation body)) (\<lambda>_. Ok (targeted s i (FactUpdate i body))))"

fun rumor_proposal_step ::
  "StoryContext \<Rightarrow> TurnNumber \<Rightarrow> RumorChangeOp change_state \<Rightarrow> RumorProposal \<Rightarrow> PipelineError + RumorChangeOp change_state" where
  "rumor_proposal_step ctx turn s (RumorProposalAdd body) =
     rbind (validate_activation_rule (rb_activation body)) (\<lambda>_.
     rbind (if cs_reserved s = [] then allocate_rumor_id ctx turn (cs_add_seq s + 1)
            else allocate_rumor_id_with_reserved ctx turn (cs_add_seq s + 1) (cs_reserved s)) (\<lambda>i.
       Ok (added s i (RumorAdd i body))))"
| "rumor_proposal_step ctx turn s (RumorProposalUpdate i body) =
     (if \<not> bm_contains (ctx_rumors ctx) i then Err (extract_invalid ''extract_rumor_unknown_id'')
      else if i \<in> set (cs_targeted s) then Err (extract_invalid ''extract_rumor_duplicate_id'')
      else rbind (validate_activation_rule (rb_activation body)) (\<lambda>_. Ok (targeted s i (RumorUpdate i body))))"
| "rumor_proposal_step ctx turn s (RumorProposalRemove i) =
     (if \<not> bm_contains (ctx_rumors ctx) i then Err (extract_invalid ''extract_rumor_unknown_id'')
      else if i \<in> set (cs_targeted s) then Err (extract_invalid ''extract_rumor_duplicate_id'')
      else Ok (targeted s i (RumorRemove i)))"

text \<open>The last loop checks existence before repetition.\<close>

fun check_memory_roles :: "StoryContext \<Rightarrow> RoleId list \<Rightarrow> RoleId list \<Rightarrow> PipelineError + unit" where
  "check_memory_roles ctx seen [] = Ok ()"
| "check_memory_roles ctx seen (rid # rids) =
     (if \<not> bm_contains (ctx_roles ctx) rid then Err (extract_invalid ''extract_role_unknown'')
      else if rid \<in> set seen then Err (extract_invalid ''extract_role_duplicate'')
      else check_memory_roles ctx (rid # seen) rids)"

definition resolve_world_knowledge ::
  "StoryContext \<Rightarrow> ExtractConfig \<Rightarrow> FactProposal list \<Rightarrow> RumorProposal list \<Rightarrow> RoleId list \<Rightarrow>
   PipelineError + WorldKnowledgeExtraction" where
  "resolve_world_knowledge ctx config facts rumors roles_for_memory =
     (if length facts > max_fact_changes config then Err (extract_invalid ''extract_fact_changes_exceeded'')
      else if length rumors > max_rumor_changes config then Err (extract_invalid ''extract_rumor_changes_exceeded'')
      else if length roles_for_memory > max_roles_for_memory config
        then Err (extract_invalid ''extract_roles_for_memory_exceeded'')
      else let next_turn = TurnNumber_increment (ctx_turn_number ctx)
        in rbind (try_fold (fact_proposal_step ctx next_turn) change_state_new facts) (\<lambda>fs.
           rbind (try_fold (rumor_proposal_step ctx next_turn) change_state_new rumors) (\<lambda>rs.
           rbind (check_memory_roles ctx [] roles_for_memory) (\<lambda>_.
             Ok \<lparr>wke_facts = cs_ops fs, wke_rumors = cs_ops rs, wke_roles_for_memory = roles_for_memory\<rparr>))))"

fun memory_proposal_step ::
  "StoryContext \<Rightarrow> RoleId \<Rightarrow> RoleEntry \<Rightarrow> TurnNumber \<Rightarrow> RoleMemoryChangeOp change_state \<Rightarrow> RoleMemoryProposal \<Rightarrow>
   PipelineError + RoleMemoryChangeOp change_state" where
  "memory_proposal_step ctx rid role turn s (MemoryProposalAdd body) =
     rbind (validate_activation_rule (mb_activation body)) (\<lambda>_.
     rbind (if cs_reserved s = [] then allocate_memory_id ctx rid turn (cs_add_seq s + 1)
            else allocate_memory_id_with_reserved ctx rid turn (cs_add_seq s + 1) (cs_reserved s)) (\<lambda>i.
       Ok (added s i (MemoryAdd rid i body))))"
| "memory_proposal_step ctx rid role turn s (MemoryProposalUpdate i body) =
     (if \<not> bm_contains (role_memories role) i then Err (extract_invalid ''extract_memory_unknown_id'')
      else if i \<in> set (cs_targeted s) then Err (extract_invalid ''extract_memory_duplicate_id'')
      else rbind (validate_activation_rule (mb_activation body)) (\<lambda>_. Ok (targeted s i (MemoryUpdate rid i body))))"

definition resolve_role_memories ::
  "StoryContext \<Rightarrow> ExtractConfig \<Rightarrow> RoleId \<Rightarrow> RoleMemoryProposal list \<Rightarrow> PipelineError + RoleMemoryChangeOp list" where
  "resolve_role_memories ctx config rid proposals =
     rbind (ok_or (extract_invalid ''extract_role_unknown'') (bm_get (ctx_roles ctx) rid)) (\<lambda>role.
       if length proposals > max_memory_changes_per_role config
       then Err (extract_invalid ''extract_memory_changes_exceeded'')
       else rmap cs_ops (try_fold (memory_proposal_step ctx rid role (TurnNumber_increment (ctx_turn_number ctx)))
              change_state_new proposals))"

definition assemble_knowledge_change ::
  "WorldKnowledgeExtraction \<Rightarrow> RoleMemoryChangeOp list list \<Rightarrow> KnowledgeChange" where
  "assemble_knowledge_change w mems =
     \<lparr>kc_facts = wke_facts w, kc_rumors = wke_rumors w, kc_memories = concat mems\<rparr>"

section \<open>What the loops share\<close>

text \<open>
  A loop that turns proposals into operations: each step appends one operation, which either adds an
  entry under an identifier that is unknown and not reserved, or targets a known entry not yet targeted.
\<close>

locale change_loop =
  fixes known :: "str \<Rightarrow> bool" and op_id :: "'op \<Rightarrow> str" and is_add :: "'op \<Rightarrow> bool"
    and step :: "'op change_state \<Rightarrow> 'p \<Rightarrow> PipelineError + 'op change_state"
  assumes step_ok: "step s p = Ok s' \<Longrightarrow>
    \<exists>op. (is_add op \<and> \<not> known (op_id op) \<and> op_id op \<notin> set (cs_reserved s) \<and> s' = added s (op_id op) op) \<or>
         (\<not> is_add op \<and> known (op_id op) \<and> op_id op \<notin> set (cs_targeted s) \<and> s' = targeted s (op_id op) op)"
begin

definition loop_inv :: "'op change_state \<Rightarrow> bool" where
  "loop_inv s \<longleftrightarrow>
     distinct (map op_id (cs_ops s)) \<and> (\<forall>op \<in> set (cs_ops s). is_add op \<longleftrightarrow> \<not> known (op_id op)) \<and>
     op_id ` {op \<in> set (cs_ops s). is_add op} = set (cs_reserved s) \<and>
     op_id ` {op \<in> set (cs_ops s). \<not> is_add op} = set (cs_targeted s)"

lemma loop_inv_step:
  assumes "loop_inv s" and "step s p = Ok s'"
  shows "loop_inv s'"
proof -
  obtain op where "(is_add op \<and> \<not> known (op_id op) \<and> op_id op \<notin> set (cs_reserved s) \<and> s' = added s (op_id op) op) \<or>
      (\<not> is_add op \<and> known (op_id op) \<and> op_id op \<notin> set (cs_targeted s) \<and> s' = targeted s (op_id op) op)"
    using step_ok [OF assms(2)] by blast
  then show ?thesis
  proof (elim disjE conjE)
    assume a: "is_add op" "\<not> known (op_id op)" "op_id op \<notin> set (cs_reserved s)" "s' = added s (op_id op) op"
    have "op_id op \<notin> op_id ` set (cs_ops s)" using assms(1) a unfolding loop_inv_def by (metis (mono_tags, lifting) imageE imageI mem_Collect_eq)
    moreover have "{x \<in> set (cs_ops s @ [op]). is_add x} = insert op {x \<in> set (cs_ops s). is_add x}"
      "{x \<in> set (cs_ops s @ [op]). \<not> is_add x} = {x \<in> set (cs_ops s). \<not> is_add x}" using a(1) by auto
    ultimately show ?thesis using assms(1) a by (simp add: loop_inv_def added_def)
  next
    assume a: "\<not> is_add op" "known (op_id op)" "op_id op \<notin> set (cs_targeted s)" "s' = targeted s (op_id op) op"
    have "op_id op \<notin> op_id ` set (cs_ops s)" using assms(1) a unfolding loop_inv_def by (metis (mono_tags, lifting) imageE imageI mem_Collect_eq)
    moreover have "{x \<in> set (cs_ops s @ [op]). is_add x} = {x \<in> set (cs_ops s). is_add x}"
      "{x \<in> set (cs_ops s @ [op]). \<not> is_add x} = insert op {x \<in> set (cs_ops s). \<not> is_add x}" using a(1) by auto
    ultimately show ?thesis using assms(1) a by (simp add: loop_inv_def targeted_def)
  qed
qed

lemma loop_result:
  assumes "try_fold step change_state_new ps = Ok s"
  shows "distinct (map op_id (cs_ops s))" and "\<And>op. op \<in> set (cs_ops s) \<Longrightarrow> is_add op \<longleftrightarrow> \<not> known (op_id op)"
proof -
  have "loop_inv (change_state_new :: 'op change_state)" by (simp add: loop_inv_def change_state_new_def)
  then have "loop_inv s" using try_fold_inv [OF assms, of loop_inv] loop_inv_step by blast
  then show "distinct (map op_id (cs_ops s))" "\<And>op. op \<in> set (cs_ops s) \<Longrightarrow> is_add op \<longleftrightarrow> \<not> known (op_id op)"
    by (auto simp: loop_inv_def)
qed

end

fun is_fact_add :: "FactChangeOp \<Rightarrow> bool" where
  "is_fact_add (FactAdd i b) = True"
| "is_fact_add (FactUpdate i b) = False"

fun is_rumor_add :: "RumorChangeOp \<Rightarrow> bool" where
  "is_rumor_add (RumorAdd i b) = True"
| "is_rumor_add (RumorUpdate i b) = False"
| "is_rumor_add (RumorRemove i) = False"

fun is_memory_add :: "RoleMemoryChangeOp \<Rightarrow> bool" where
  "is_memory_add (MemoryAdd r i b) = True"
| "is_memory_add (MemoryUpdate r i b) = False"

lemma allocate_loop_fresh:
  "allocate_loop field failed prefix turn taken seq = Ok i \<Longrightarrow> i \<notin> set taken"
  using allocate_loop_Ok [of seq field failed prefix turn taken] by auto

lemmas allocate_defs = allocate_fact_id_def allocate_fact_id_with_reserved_def allocate_rumor_id_def
  allocate_rumor_id_with_reserved_def allocate_memory_id_def allocate_memory_id_with_reserved_def

interpretation fact_loop: change_loop "bm_contains (ctx_facts ctx)" fact_op_id is_fact_add "fact_proposal_step ctx turn"
  for ctx turn
proof
  fix s p s'
  assume "fact_proposal_step ctx turn s p = Ok s'"
  then show "\<exists>op. (is_fact_add op \<and> \<not> bm_contains (ctx_facts ctx) (fact_op_id op) \<and> fact_op_id op \<notin> set (cs_reserved s) \<and>
        s' = added s (fact_op_id op) op) \<or>
      (\<not> is_fact_add op \<and> bm_contains (ctx_facts ctx) (fact_op_id op) \<and> fact_op_id op \<notin> set (cs_targeted s) \<and>
        s' = targeted s (fact_op_id op) op)"
  proof (cases p)
    case (FactProposalAdd body)
    then obtain i where "s' = added s i (FactAdd i body)" "\<not> bm_contains (ctx_facts ctx) i" "i \<notin> set (cs_reserved s)"
      using \<open>fact_proposal_step ctx turn s p = Ok s'\<close>
      by (auto simp: result_simps allocate_defs split: if_splits dest!: allocate_loop_fresh)
    then show ?thesis by (intro exI [of _ "FactAdd i body"]) simp
  next
    case (FactProposalUpdate i body)
    then show ?thesis using \<open>fact_proposal_step ctx turn s p = Ok s'\<close>
      by (intro exI [of _ "FactUpdate i body"]) (auto simp: result_simps split: if_splits)
  qed
qed

interpretation rumor_loop: change_loop "bm_contains (ctx_rumors ctx)" rumor_op_id is_rumor_add "rumor_proposal_step ctx turn"
  for ctx turn
proof
  fix s p s'
  assume "rumor_proposal_step ctx turn s p = Ok s'"
  then show "\<exists>op. (is_rumor_add op \<and> \<not> bm_contains (ctx_rumors ctx) (rumor_op_id op) \<and> rumor_op_id op \<notin> set (cs_reserved s) \<and>
        s' = added s (rumor_op_id op) op) \<or>
      (\<not> is_rumor_add op \<and> bm_contains (ctx_rumors ctx) (rumor_op_id op) \<and> rumor_op_id op \<notin> set (cs_targeted s) \<and>
        s' = targeted s (rumor_op_id op) op)"
  proof (cases p)
    case (RumorProposalAdd body)
    then obtain i where "s' = added s i (RumorAdd i body)" "\<not> bm_contains (ctx_rumors ctx) i" "i \<notin> set (cs_reserved s)"
      using \<open>rumor_proposal_step ctx turn s p = Ok s'\<close>
      by (auto simp: result_simps allocate_defs split: if_splits dest!: allocate_loop_fresh)
    then show ?thesis by (intro exI [of _ "RumorAdd i body"]) simp
  next
    case (RumorProposalUpdate i body)
    then show ?thesis using \<open>rumor_proposal_step ctx turn s p = Ok s'\<close>
      by (intro exI [of _ "RumorUpdate i body"]) (auto simp: result_simps split: if_splits)
  next
    case (RumorProposalRemove i)
    then show ?thesis using \<open>rumor_proposal_step ctx turn s p = Ok s'\<close>
      by (intro exI [of _ "RumorRemove i"]) (auto split: if_splits)
  qed
qed

interpretation memory_loop: change_loop "bm_contains (role_memories (the (bm_get (ctx_roles ctx) rid)))"
    "\<lambda>op. snd (memory_op_key op)" is_memory_add "memory_proposal_step ctx rid (the (bm_get (ctx_roles ctx) rid)) turn"
  for ctx rid turn
proof
  fix s p s'
  let ?role = "the (bm_get (ctx_roles ctx) rid)"
  assume step: "memory_proposal_step ctx rid ?role turn s p = Ok s'"
  show "\<exists>op. (is_memory_add op \<and> \<not> bm_contains (role_memories ?role) (snd (memory_op_key op)) \<and>
        snd (memory_op_key op) \<notin> set (cs_reserved s) \<and> s' = added s (snd (memory_op_key op)) op) \<or>
      (\<not> is_memory_add op \<and> bm_contains (role_memories ?role) (snd (memory_op_key op)) \<and>
        snd (memory_op_key op) \<notin> set (cs_targeted s) \<and> s' = targeted s (snd (memory_op_key op)) op)"
  proof (cases p)
    case (MemoryProposalAdd body)
    then obtain i where "s' = added s i (MemoryAdd rid i body)" "\<not> bm_contains (role_memories ?role) i" "i \<notin> set (cs_reserved s)"
      using step by (auto simp: result_simps allocate_defs split: if_splits dest!: allocate_loop_fresh)
    then show ?thesis by (intro exI [of _ "MemoryAdd rid i body"]) simp
  next
    case (MemoryProposalUpdate i body)
    then show ?thesis using step
      by (intro exI [of _ "MemoryUpdate rid i body"]) (auto simp: result_simps split: if_splits)
  qed
qed

section \<open>The result is acceptable to the store\<close>

lemma fact_check_iff: "fact_op_check ctx op = Ok () \<longleftrightarrow> (is_fact_add op \<longleftrightarrow> \<not> bm_contains (ctx_facts ctx) (fact_op_id op))"
  by (cases op) auto

lemma rumor_check_iff: "rumor_op_check ctx op = Ok () \<longleftrightarrow> (is_rumor_add op \<longleftrightarrow> \<not> bm_contains (ctx_rumors ctx) (rumor_op_id op))"
  by (cases op) auto

lemma memory_check_iff:
  assumes "bm_get (ctx_roles ctx) (fst (memory_op_key op)) = Some role"
  shows "memory_op_check ctx op = Ok () \<longleftrightarrow> (is_memory_add op \<longleftrightarrow> \<not> bm_contains (role_memories role) (snd (memory_op_key op)))"
  using assms by (cases op) auto

lemma memory_steps_role:
  assumes "try_fold (memory_proposal_step ctx rid role turn) change_state_new ps = Ok s"
  shows "\<forall>op \<in> set (cs_ops s). fst (memory_op_key op) = rid"
proof (rule try_fold_inv [OF assms])
  fix s p s'
  assume "memory_proposal_step ctx rid role turn s p = Ok s'"
    and "\<forall>op \<in> set (cs_ops s). fst (memory_op_key op) = rid"
  then show "\<forall>op \<in> set (cs_ops s'). fst (memory_op_key op) = rid"
    by (cases p) (auto simp: result_simps added_def targeted_def split: if_splits)
qed (simp add: change_state_new_def)

lemma check_memory_roles_Ok:
  "check_memory_roles ctx seen rids = Ok u \<longleftrightarrow>
     distinct rids \<and> set rids \<inter> set seen = {} \<and> (\<forall>rid \<in> set rids. bm_contains (ctx_roles ctx) rid)"
  by (induction rids arbitrary: seen) auto

lemma distinct_map_compD: "distinct (map (\<lambda>x. f (g x)) xs) \<Longrightarrow> distinct (map g xs)"
  by (induction xs) auto

lemma resolve_role_memories_Ok:
  assumes "resolve_role_memories ctx config rid ps = Ok ops"
  shows "distinct (map memory_op_key ops)"
    and "\<And>op. op \<in> set ops \<Longrightarrow> fst (memory_op_key op) = rid \<and> memory_op_check ctx op = Ok ()"
proof -
  let ?turn = "TurnNumber_increment (ctx_turn_number ctx)"
  obtain role s where role: "bm_get (ctx_roles ctx) rid = Some role"
    and steps: "try_fold (memory_proposal_step ctx rid role ?turn) change_state_new ps = Ok s"
    and ops: "ops = cs_ops s"
    using assms by (auto simp: resolve_role_memories_def result_simps split: if_splits)
  have steps': "try_fold (memory_proposal_step ctx rid (the (bm_get (ctx_roles ctx) rid)) ?turn) change_state_new ps = Ok s"
    using steps role by simp
  note R = memory_loop.loop_result [OF steps']
  show "distinct (map memory_op_key ops)" using distinct_map_compD [of snd memory_op_key] R(1) ops by simp
  fix op
  assume op: "op \<in> set ops"
  have rid: "fst (memory_op_key op) = rid" using memory_steps_role [OF steps] ops op by simp
  then show "fst (memory_op_key op) = rid \<and> memory_op_check ctx op = Ok ()"
    using R(2) op role ops memory_check_iff [of ctx op role] by simp
qed

lemma resolve_world_knowledge_Ok:
  assumes "resolve_world_knowledge ctx config facts rumors rids = Ok w"
  shows "distinct (map fact_op_id (wke_facts w))" "\<And>op. op \<in> set (wke_facts w) \<Longrightarrow> fact_op_check ctx op = Ok ()"
    and "distinct (map rumor_op_id (wke_rumors w))" "\<And>op. op \<in> set (wke_rumors w) \<Longrightarrow> rumor_op_check ctx op = Ok ()"
    and "wke_roles_for_memory w = rids" "distinct rids" "\<And>rid. rid \<in> set rids \<Longrightarrow> bm_contains (ctx_roles ctx) rid"
    and "length rids \<le> max_roles_for_memory config"
proof -
  let ?turn = "TurnNumber_increment (ctx_turn_number ctx)"
  obtain fs rs where f: "try_fold (fact_proposal_step ctx ?turn) change_state_new facts = Ok fs"
    and r: "try_fold (rumor_proposal_step ctx ?turn) change_state_new rumors = Ok rs"
    and m: "check_memory_roles ctx [] rids = Ok ()"
    and w: "w = \<lparr>wke_facts = cs_ops fs, wke_rumors = cs_ops rs, wke_roles_for_memory = rids\<rparr>"
    and len: "length rids \<le> max_roles_for_memory config"
    using assms by (auto simp: resolve_world_knowledge_def result_simps Let_def split: if_splits)
  show "distinct (map fact_op_id (wke_facts w))" "\<And>op. op \<in> set (wke_facts w) \<Longrightarrow> fact_op_check ctx op = Ok ()"
    using fact_loop.loop_result [OF f] w by (simp_all add: fact_check_iff)
  show "distinct (map rumor_op_id (wke_rumors w))" "\<And>op. op \<in> set (wke_rumors w) \<Longrightarrow> rumor_op_check ctx op = Ok ()"
    using rumor_loop.loop_result [OF r] w by (simp_all add: rumor_check_iff)
  show "wke_roles_for_memory w = rids" "distinct rids" "\<And>rid. rid \<in> set rids \<Longrightarrow> bm_contains (ctx_roles ctx) rid"
    "length rids \<le> max_roles_for_memory config"
    using m w len by (simp_all add: check_memory_roles_Ok)
qed

text \<open>Batches of operations for different roles do not clash.\<close>

lemma distinct_batches:
  assumes "list_all2 (\<lambda>rid ops. distinct (map memory_op_key ops) \<and> (\<forall>op \<in> set ops. fst (memory_op_key op) = rid)) rids mems"
    and "distinct rids"
  shows "distinct (map memory_op_key (concat mems)) \<and> fst ` memory_op_key ` set (concat mems) \<subseteq> set rids"
  using assms
proof (induction rids mems rule: list_all2_induct)
  case Nil
  then show ?case by simp
next
  case (Cons rid rids ops mems)
  then have IH: "distinct (map memory_op_key (concat mems))" "fst ` memory_op_key ` set (concat mems) \<subseteq> set rids"
    by simp_all
  have "memory_op_key ` set ops \<inter> memory_op_key ` set (concat mems) = {}"
  proof (rule ccontr)
    assume "memory_op_key ` set ops \<inter> memory_op_key ` set (concat mems) \<noteq> {}"
    then obtain a b where "a \<in> set ops" "b \<in> set (concat mems)" "memory_op_key a = memory_op_key b" by blast
    then have "rid \<in> set rids" using Cons.hyps(1) IH(2) by force
    then show False using Cons.prems by simp
  qed
  then have "distinct (map memory_op_key (concat (ops # mems)))" using Cons.hyps(1) IH(1) by simp
  moreover have "fst (memory_op_key op) \<in> set (rid # rids)" if "op \<in> set (concat (ops # mems))" for op
    using that Cons.hyps(1) IH(2) by (auto simp: image_subset_iff)
  ultimately show ?case by (simp only: image_subset_iff) simp
qed

text \<open>What the proposals resolve to, the knowledge checks of a commit accept.\<close>

lemma assembled_accepted:
  assumes "resolve_world_knowledge ctx config facts rumors rids = Ok w"
    and "list_all2 (\<lambda>rid ops. \<exists>ps. resolve_role_memories ctx config rid ps = Ok ops) (wke_roles_for_memory w) mems"
  shows "validate_knowledge_change ctx (assemble_knowledge_change w mems) = Ok ()"
proof -
  note W = resolve_world_knowledge_Ok [OF assms(1)]
  have all: "list_all2 (\<lambda>rid ops. distinct (map memory_op_key ops) \<and> (\<forall>op \<in> set ops. fst (memory_op_key op) = rid)) rids mems"
    using assms(2) W(5) by (auto elim!: list_all2_mono dest: resolve_role_memories_Ok)
  have "memory_op_check ctx op = Ok ()" if op: "op \<in> set (concat mems)" for op
  proof -
    obtain ops where "ops \<in> set mems" "op \<in> set ops" using op by auto
    then obtain i where "i < length mems" "ops = mems ! i" by (auto simp: in_set_conv_nth)
    then obtain rid ps where "resolve_role_memories ctx config rid ps = Ok ops"
      using list_all2_nthD2 [OF assms(2)] by blast
    from resolve_role_memories_Ok(2) [OF this \<open>op \<in> set ops\<close>] show ?thesis by simp
  qed
  then show ?thesis
    using W(1-4) distinct_batches [OF all W(6)]
    by (simp add: validate_knowledge_change_Ok_iff assemble_knowledge_change_def)
qed


end
