(* ===== verification/Extract_Stage.thy ===== *)
theory Extract_Stage
  imports Extract_Knowledge
begin

text \<open>
  \<open>pipeline/extract\<close>: after a turn's text is accepted, the model answers the open questions of the
  narrative and proposes knowledge changes. The deserializers of \<open>serde_json\<close> are parameters, the
  fields of \<open>extract_json\<close>; what is done with their values is the model. The narrative and the world
  knowledge are evaluated concurrently (\<open>tokio::try_join!\<close>): when both fail, the error is that of the
  one that fails first, which the argument \<open>world_first\<close> says. Role memories run in a buffered stream,
  which yields its results in order: the first error in the order of the roles wins.
\<close>

section \<open>Answers (\<open>extract/extract_llm.rs\<close>)\<close>

record SemanticEvaluationDto =
  sed_condition_id :: NarrativeConditionId
  sed_truth :: Truth

datatype FactProposalDto = FactDtoAdd FactBody | FactDtoUpdate FactId FactBody

datatype RumorProposalDto = RumorDtoAdd RumorBody | RumorDtoUpdate RumorId RumorBody | RumorDtoRemove RumorId

datatype RoleMemoryProposalDto = MemoryDtoAdd MemoryBody | MemoryDtoUpdate MemoryId MemoryBody

record WorldKnowledgeLlmDto =
  wkd_facts :: "FactProposalDto list"
  wkd_rumors :: "RumorProposalDto list"
  wkd_roles_for_memory :: "RoleId list"

record extract_json =
  ej_narrative :: "str \<Rightarrow> SemanticEvaluationDto list option"
  ej_world :: "str \<Rightarrow> WorldKnowledgeLlmDto option"
  ej_memory :: "str \<Rightarrow> RoleMemoryProposalDto list option"

fun fact_proposal :: "FactProposalDto \<Rightarrow> FactProposal" where
  "fact_proposal (FactDtoAdd body) = FactProposalAdd body"
| "fact_proposal (FactDtoUpdate i body) = FactProposalUpdate i body"

fun rumor_proposal :: "RumorProposalDto \<Rightarrow> RumorProposal" where
  "rumor_proposal (RumorDtoAdd body) = RumorProposalAdd body"
| "rumor_proposal (RumorDtoUpdate i body) = RumorProposalUpdate i body"
| "rumor_proposal (RumorDtoRemove i) = RumorProposalRemove i"

fun memory_proposal :: "RoleMemoryProposalDto \<Rightarrow> RoleMemoryProposal" where
  "memory_proposal (MemoryDtoAdd body) = MemoryProposalAdd body"
| "memory_proposal (MemoryDtoUpdate i body) = MemoryProposalUpdate i body"

type_synonym evaluations = "(NarrativeConditionId, Truth) bmap"

definition evaluation_step ::
  "SemanticQuery list \<Rightarrow> evaluations \<Rightarrow> SemanticEvaluationDto \<Rightarrow> PipelineError + evaluations" where
  "evaluation_step queries evaluations e =
     (if bm_contains evaluations (sed_condition_id e)
        then Err (extract_invalid ''extract_narrative_duplicate_condition'')
      else if sed_condition_id e \<notin> sq_condition_id ` set queries
        then Err (extract_invalid ''extract_narrative_unknown_condition'')
      else Ok (bm_insert (sed_condition_id e) (sed_truth e) evaluations))"

definition parse_narrative_evaluations ::
  "extract_json \<Rightarrow> str \<Rightarrow> SemanticQuery list \<Rightarrow> PipelineError + evaluations" where
  "parse_narrative_evaluations from_json raw queries =
     rbind (ok_or (extract_invalid ''extract_narrative_invalid_json'') (ej_narrative from_json raw)) (\<lambda>output.
     rbind (try_fold (evaluation_step queries) bm_empty output) (\<lambda>evaluations.
       if filter (\<lambda>q. \<not> bm_contains evaluations (sq_condition_id q)) queries \<noteq> []
       then Err (extract_invalid ''extract_narrative_missing_condition'')
       else Ok evaluations))"

definition parse_world_knowledge ::
  "extract_json \<Rightarrow> str \<Rightarrow> StoryContext \<Rightarrow> ExtractConfig \<Rightarrow> PipelineError + WorldKnowledgeExtraction" where
  "parse_world_knowledge from_json raw ctx config =
     rbind (ok_or (extract_invalid ''extract_world_invalid_json'') (ej_world from_json raw)) (\<lambda>dto.
       resolve_world_knowledge ctx config (map fact_proposal (wkd_facts dto)) (map rumor_proposal (wkd_rumors dto))
         (wkd_roles_for_memory dto))"

definition parse_role_memory ::
  "extract_json \<Rightarrow> str \<Rightarrow> StoryContext \<Rightarrow> RoleId \<Rightarrow> ExtractConfig \<Rightarrow> PipelineError + RoleMemoryChangeOp list" where
  "parse_role_memory from_json raw ctx rid config =
     rbind (ok_or (extract_invalid ''extract_memory_invalid_json'') (ej_memory from_json raw)) (\<lambda>dto.
       resolve_role_memories ctx config rid (map memory_proposal dto))"

section \<open>Views (\<open>extract/extract_knowledge.rs\<close>)\<close>

fun secondary_logic_str :: "SecondaryLogic \<Rightarrow> string" where
  "secondary_logic_str AndAny = ''and_any''"
| "secondary_logic_str AndAll = ''and_all''"
| "secondary_logic_str NotAny = ''not_any''"
| "secondary_logic_str NotAll = ''not_all''"

definition opt_u16_json :: "u16 option \<Rightarrow> json" where
  "opt_u16_json v = (case v of None \<Rightarrow> JNull | Some n \<Rightarrow> JNat (unat n))"

definition activation_rule_json :: "ActivationRule \<Rightarrow> json" where
  "activation_rule_json rule =
     (let m = match_rule rule; r = rule_recursion rule; s = rule_selection rule
      in JObj [
        (''match'', JObj [
          (''keys'', JArr (map JStr (match_keys m))), (''secondary_keys'', JArr (map JStr (secondary_keys m))),
          (''secondary_logic'', JStr (lit (secondary_logic_str (secondary_logic m)))),
          (''case_sensitive'', JBool (case_sensitive m)), (''match_whole_words'', JBool (match_whole_words m)),
          (''scan_depth'', opt_u16_json (rule_scan_depth m))]),
        (''mode'', JObj [
          (''enabled'', JBool (mode_enabled (rule_mode rule))), (''constant'', JBool (mode_constant (rule_mode rule)))]),
        (''recursion'', JObj [
          (''exclude_recursion'', JBool (exclude_recursion r)), (''prevent_recursion'', JBool (prevent_recursion r)),
          (''delay_until_recursion'', opt_u16_json (delay_until_recursion r))]),
        (''selection'', JObj [
          (''order'', JInt (sel_order s)), (''probability'', JNat (unat (sel_probability s))),
          (''groups'', JArr (map JStr (sel_groups s))), (''group_override'', JBool (group_override s)),
          (''group_weight'', JNat (unat (group_weight s))), (''use_group_scoring'', JBool (use_group_scoring s))])])"

definition entry_view :: "str \<Rightarrow> BoundedText \<Rightarrow> RetrievalHint \<Rightarrow> ActivationRule \<Rightarrow> json" where
  "entry_view i content retrieval activation =
     JObj [(''id'', JStr i), (''content'', JStr content), (''retrieval'', JStr retrieval),
           (''activation'', activation_rule_json activation)]"

definition project_facts :: "StoryContext \<Rightarrow> json list" where
  "project_facts ctx =
     map (\<lambda>e. entry_view (fe_id e) (fb_content (fe_body e)) (fb_retrieval (fe_body e)) (fb_activation (fe_body e)))
       (bm_values (ctx_facts ctx))"

definition project_rumors :: "StoryContext \<Rightarrow> json list" where
  "project_rumors ctx =
     map (\<lambda>e. entry_view (re_id e) (rb_content (re_body e)) (rb_retrieval (re_body e)) (rb_activation (re_body e)))
       (bm_values (ctx_rumors ctx))"

definition project_role_catalog :: "StoryContext \<Rightarrow> json list" where
  "project_role_catalog ctx =
     map (\<lambda>role. JObj [(''role_id'', JStr (role_id role)), (''name'', JStr (rs_name (role_spec role))),
            (''aliases'', JArr (map JStr (rs_alias (role_spec role)))),
            (''retrieval_hint'', JStr (rs_retrieval (role_spec role)))])
       (bm_values (ctx_roles ctx))"

definition project_role_memories :: "StoryContext \<Rightarrow> RoleId \<Rightarrow> PipelineError + json list" where
  "project_role_memories ctx rid =
     rbind (ok_or (extract_invalid ''extract_role_unknown'') (bm_get (ctx_roles ctx) rid)) (\<lambda>role.
       Ok (map (\<lambda>e. entry_view (me_id e) (mb_content (me_body e)) (mb_retrieval (me_body e)) (mb_activation (me_body e)))
         (bm_values (role_memories role))))"

section \<open>Prompts (\<open>extract/extract_prompt.rs\<close>)\<close>

definition extract_context_vars :: "StoryContext \<Rightarrow> str \<Rightarrow> prompt_vars" where
  "extract_context_vars ctx proposal =
     [(''story_summary'', JStr (summary_or_empty ctx)), (''story_opening'', JStr (story_opening ctx)),
      (''recent_story'', JStr (recent_story ctx)), (''current_proposal'', JStr proposal)]"

definition query_json :: "SemanticQuery \<Rightarrow> json" where
  "query_json q = JObj [(''condition_id'', JStr (sq_condition_id q)), (''criterion'', JStr (sq_criterion q))]"

definition prompt_evaluate_narrative ::
  "pipe_env \<Rightarrow> StoryContext \<Rightarrow> str \<Rightarrow> SemanticQuery list \<Rightarrow> PipelineError + ChatMessage list" where
  "prompt_evaluate_narrative env ctx proposal queries =
     render env Extract ''extract.evaluate_narrative''
       (extract_context_vars ctx proposal @ [(''semantic_queries'', JStr (pe_json env (JArr (map query_json queries))))])"

definition prompt_extract_world_knowledge ::
  "pipe_env \<Rightarrow> StoryContext \<Rightarrow> str \<Rightarrow> ExtractConfig \<Rightarrow> PipelineError + ChatMessage list" where
  "prompt_extract_world_knowledge env ctx proposal config =
     render env Extract ''extract.extract_world_knowledge''
       (extract_context_vars ctx proposal @
        [(''existing_facts'', JStr (pe_json env (JArr (project_facts ctx)))),
         (''existing_rumors'', JStr (pe_json env (JArr (project_rumors ctx)))),
         (''role_catalog'', JStr (pe_json env (JArr (project_role_catalog ctx)))),
         (''max_fact_changes'', JNat (max_fact_changes config)),
         (''max_rumor_changes'', JNat (max_rumor_changes config)),
         (''max_roles_for_memory'', JNat (max_roles_for_memory config))])"

definition prompt_extract_role_memory ::
  "pipe_env \<Rightarrow> StoryContext \<Rightarrow> str \<Rightarrow> RoleId \<Rightarrow> ExtractConfig \<Rightarrow> PipelineError + ChatMessage list" where
  "prompt_extract_role_memory env ctx proposal rid config =
     rbind (ok_or (extract_invalid ''extract_role_unknown'') (bm_get (ctx_roles ctx) rid)) (\<lambda>role.
     rbind (project_role_memories ctx rid) (\<lambda>memories.
       render env Extract ''extract.extract_role_memory''
         (extract_context_vars ctx proposal @
          [(''target_role_id'', JStr rid), (''target_name'', JStr (rs_name (role_spec role))),
           (''target_aliases'', JStr (pe_json env (JArr (map JStr (rs_alias (role_spec role)))))),
           (''target_backstory'', JStr (rs_backstory (role_spec role))),
           (''existing_memories'', JStr (pe_json env (JArr memories))),
           (''max_memory_changes_per_role'', JNat (max_memory_changes_per_role config))])))"

section \<open>Narrative (\<open>extract/extract_narrative.rs\<close>)\<close>

record NarrativeChange =
  nc_narrative :: "NarrativeState Change"
  nc_life_cycle :: "StoryLifeCycle Change"

definition collect_semantic_queries :: "StoryPack \<Rightarrow> StoryContext \<Rightarrow> NarrativeError + SemanticQuery list" where
  "collect_semantic_queries pack ctx =
     (case sp_narrative pack of
        Some graph \<Rightarrow> rmap np_queries (graph_plan graph (ctx_narrative ctx))
      | None \<Rightarrow> Ok [])"

definition resolve_narrative :: "StoryPack \<Rightarrow> StoryContext \<Rightarrow> evaluations \<Rightarrow> NarrativeChange" where
  "resolve_narrative pack ctx semantic_results =
     (case sp_narrative pack of
        None \<Rightarrow> \<lparr>nc_narrative = Unchanged, nc_life_cycle = Unchanged\<rparr>
      | Some graph \<Rightarrow>
          let evidence = \<lparr>ne_turn = TurnNumber_increment (ctx_turn_number ctx), ne_semantic_results = semantic_results\<rparr>;
              resolution = resolve graph (ctx_narrative ctx) evidence
          in \<lparr>nc_narrative = (if nr_transitions resolution = [] then Unchanged
                else Replaced (NarrativeState_apply (ctx_narrative ctx) (nr_transitions resolution))),
              nc_life_cycle = (if nr_story_completed resolution then Replaced LcCompleted else Unchanged)\<rparr>)"

section \<open>The stage (\<open>extract/extract.rs\<close>)\<close>

record ExtractOutput =
  eo_knowledge_change :: KnowledgeChange
  eo_narrative :: "NarrativeState Change"
  eo_life_cycle :: "StoryLifeCycle Change"

definition evaluate_narrative_queries ::
  "pipe_env \<Rightarrow> extract_json \<Rightarrow> StoryContext \<Rightarrow> str \<Rightarrow> SemanticQuery list \<Rightarrow> PipelineError + evaluations" where
  "evaluate_narrative_queries env from_json ctx proposal queries =
     rbind (prompt_evaluate_narrative env ctx proposal queries) (\<lambda>messages.
     rbind (complete env Extract CallExtractNarrative messages) (\<lambda>raw.
       parse_narrative_evaluations from_json raw queries))"

definition evaluate_narrative ::
  "pipe_env \<Rightarrow> extract_json \<Rightarrow> StoryPack \<Rightarrow> StoryContext \<Rightarrow> str \<Rightarrow> PipelineError + NarrativeChange" where
  "evaluate_narrative env from_json pack ctx proposal =
     rbind (map_err (PipelineNarrative Extract) (collect_semantic_queries pack ctx)) (\<lambda>queries.
     rbind (if queries = [] then Ok bm_empty else evaluate_narrative_queries env from_json ctx proposal queries)
       (\<lambda>semantic_results. Ok (resolve_narrative pack ctx semantic_results)))"

definition extract_world_knowledge ::
  "pipe_env \<Rightarrow> extract_json \<Rightarrow> ExtractConfig \<Rightarrow> StoryContext \<Rightarrow> str \<Rightarrow> PipelineError + WorldKnowledgeExtraction" where
  "extract_world_knowledge env from_json config ctx proposal =
     rbind (prompt_extract_world_knowledge env ctx proposal config) (\<lambda>messages.
     rbind (complete env Extract CallExtractWorld messages) (\<lambda>raw.
       parse_world_knowledge from_json raw ctx config))"

definition extract_role_memory ::
  "pipe_env \<Rightarrow> extract_json \<Rightarrow> ExtractConfig \<Rightarrow> StoryContext \<Rightarrow> str \<Rightarrow> RoleId \<Rightarrow> PipelineError + RoleMemoryChangeOp list" where
  "extract_role_memory env from_json config ctx proposal rid =
     rbind (prompt_extract_role_memory env ctx proposal rid config) (\<lambda>messages.
     rbind (complete env Extract (CallExtractMemory rid) messages) (\<lambda>raw.
       parse_role_memory from_json raw ctx rid config))"

definition extract_role_memories ::
  "pipe_env \<Rightarrow> extract_json \<Rightarrow> ExtractConfig \<Rightarrow> StoryContext \<Rightarrow> str \<Rightarrow> RoleId list \<Rightarrow>
   PipelineError + RoleMemoryChangeOp list list" where
  "extract_role_memories env from_json config ctx proposal rids =
     (if rids = [] then Ok [] else try_map (extract_role_memory env from_json config ctx proposal) rids)"

fun try_join :: "bool \<Rightarrow> 'e + 'a \<Rightarrow> 'e + 'b \<Rightarrow> 'e + 'a \<times> 'b" where
  "try_join second_first (Inr a) (Inr b) = Inr (a, b)"
| "try_join second_first (Inl e) (Inr b) = Inl e"
| "try_join second_first (Inr a) (Inl e) = Inl e"
| "try_join second_first (Inl e) (Inl e') = Inl (if second_first then e' else e)"

definition extract_execute ::
  "pipe_env \<Rightarrow> extract_json \<Rightarrow> bool \<Rightarrow> ExtractConfig \<Rightarrow> Store \<Rightarrow> StoryContext \<Rightarrow> str \<Rightarrow> PipelineError + ExtractOutput" where
  "extract_execute env from_json world_first config store ctx proposal =
     rbind (ExtractConfig_validate config) (\<lambda>_.
     rbind (map_err (PipelinePersistence Extract) (PackBackend_get_pack (ctx_pack_ref ctx) (store_pack store))) (\<lambda>pack.
     rbind (try_join world_first (evaluate_narrative env from_json pack ctx proposal)
              (extract_world_knowledge env from_json config ctx proposal)) (\<lambda>(narrative_change, world).
     rbind (extract_role_memories env from_json config ctx proposal (wke_roles_for_memory world)) (\<lambda>memories.
       Ok \<lparr>eo_knowledge_change = assemble_knowledge_change world memories,
           eo_narrative = nc_narrative narrative_change, eo_life_cycle = nc_life_cycle narrative_change\<rparr>))))"

section \<open>What the stage guarantees\<close>

definition evaluation_pairs :: "SemanticEvaluationDto list \<Rightarrow> (NarrativeConditionId \<times> Truth) list" where
  "evaluation_pairs answers = map (\<lambda>e. (sed_condition_id e, sed_truth e)) answers"

lemma evaluation_steps_Ok:
  "try_fold (evaluation_step queries) m answers = Ok m' \<longleftrightarrow>
     distinct (map sed_condition_id answers) \<and>
     (\<forall>e \<in> set answers. sed_condition_id e \<in> sq_condition_id ` set queries \<and> \<not> bm_contains m (sed_condition_id e)) \<and>
     m' = fold (\<lambda>(k, v) m. bm_insert k v m) (evaluation_pairs answers) m"
proof (induction answers arbitrary: m)
  case Nil
  then show ?case by (auto simp: evaluation_pairs_def)
next
  case (Cons e es)
  show ?case
  proof (cases "bm_contains m (sed_condition_id e) \<or> sed_condition_id e \<notin> sq_condition_id ` set queries")
    case True
    then show ?thesis by (auto simp: evaluation_step_def)
  next
    case False
    then have "try_fold (evaluation_step queries) m (e # es) =
        try_fold (evaluation_step queries) (bm_insert (sed_condition_id e) (sed_truth e) m) es"
      by (simp add: evaluation_step_def)
    then show ?thesis unfolding \<open>try_fold _ _ (e # es) = _\<close> Cons.IH
      using False by (simp add: evaluation_pairs_def image_iff) (metis (no_types, lifting))
  qed
qed

lemma evaluation_keys:
  "bm_contains (fold (\<lambda>(k, v) m. bm_insert k v m) (evaluation_pairs answers) bm_empty) k \<longleftrightarrow>
     k \<in> sed_condition_id ` set answers"
  using bm_contains_of_list [of "evaluation_pairs answers" k] by (force simp: bm_of_list_def evaluation_pairs_def)

lemma parse_narrative_evaluations_iff:
  "parse_narrative_evaluations from_json raw queries = Ok m \<longleftrightarrow>
     (\<exists>answers. ej_narrative from_json raw = Some answers \<and> distinct (map sed_condition_id answers) \<and>
        sed_condition_id ` set answers = sq_condition_id ` set queries \<and> m = bm_of_list (evaluation_pairs answers))"
proof (cases "ej_narrative from_json raw")
  case None
  then show ?thesis by (simp add: parse_narrative_evaluations_def)
next
  case (Some answers)
  show ?thesis
  proof (cases "try_fold (evaluation_step queries) bm_empty answers")
    case (Inl e)
    then show ?thesis
      using Some evaluation_steps_Ok [of queries bm_empty answers] by (auto simp: parse_narrative_evaluations_def)
  next
    case (Inr m')
    note steps = this [unfolded evaluation_steps_Ok]
    then have "filter (\<lambda>q. \<not> bm_contains m' (sq_condition_id q)) queries = [] \<longleftrightarrow>
        sq_condition_id ` set queries \<subseteq> sed_condition_id ` set answers"
      by (auto simp: evaluation_keys filter_empty_conv)
    then show ?thesis using Some Inr steps
      by (auto simp: parse_narrative_evaluations_def bm_of_list_def)
  qed
qed

lemma parsed_answers_keys:
  "parse_narrative_evaluations from_json raw queries = Ok m \<Longrightarrow>
     bm_contains m i \<longleftrightarrow> i \<in> sq_condition_id ` set queries"
  by (auto simp: parse_narrative_evaluations_iff evaluation_keys bm_of_list_def)

lemma try_join_Ok_iff: "try_join b x y = Ok p \<longleftrightarrow> x = Ok (fst p) \<and> y = Ok (snd p)"
  by (cases p; cases x; cases y) auto

lemma extract_role_memories_Ok:
  assumes "extract_role_memories env from_json config ctx proposal rids = Ok mems"
  shows "list_all2 (\<lambda>rid ops. \<exists>ps. resolve_role_memories ctx config rid ps = Ok ops) rids mems"
proof -
  have "list_all2 (\<lambda>rid ops. extract_role_memory env from_json config ctx proposal rid = Ok ops) rids mems"
    using assms by (auto simp: extract_role_memories_def try_map_Ok_iff split: if_splits)
  then show ?thesis
    by (rule list_all2_mono) (auto simp: extract_role_memory_def parse_role_memory_def result_simps)
qed

lemma story_completed_iff:
  "nr_story_completed (resolve g s ev) \<longleftrightarrow>
     (\<exists>i node. bm_get (graph_nodes g) i = Some node \<and> node_terminal node \<and> NarrativeState_status s i = Active \<and>
        NarrativeState_status (narrative_step g s ev) i = Completed)"
proof -
  have "next_status node (NarrativeState_status s i) s ev = Some Completed \<longleftrightarrow>
      NarrativeState_status s i = Active \<and> NarrativeState_status (narrative_step g s ev) i = Completed"
    if "bm_get (graph_nodes g) i = Some node" for i node
    using that next_status_step [of node "NarrativeState_status s i" s ev]
    by (cases "NarrativeState_status s i") (auto simp: narrative_step_status status_step_from split: option.splits if_splits)
  moreover have "nr_story_completed (resolve g s ev) \<longleftrightarrow>
      (\<exists>i node. bm_get (graph_nodes g) i = Some node \<and> node_terminal node \<and>
         next_status node (NarrativeState_status s i) s ev = Some Completed)"
    (is "?lhs \<longleftrightarrow> ?rhs")
  proof
    assume ?lhs
    then show ?rhs
      by (auto simp: resolve_def Let_def list_ex_iff completes_story_def set_map_filter bm_entries_iff split: option.splits)
        blast
  next
    assume ?rhs
    then obtain i node where "bm_get (graph_nodes g) i = Some node" "node_terminal node"
      "next_status node (NarrativeState_status s i) s ev = Some Completed" by blast
    then have "completes_story g \<lparr>nt_node_id = i, nt_to = Completed\<rparr>"
      "\<lparr>nt_node_id = i, nt_to = Completed\<rparr> \<in> set (nr_transitions (resolve g s ev))"
      by (auto simp: completes_story_def resolve_def Let_def set_map_filter bm_entries_iff intro!: bexI [of _ "(i, node)"])
    then show ?lhs by (auto simp: resolve_def Let_def list_ex_iff)
  qed
  ultimately show ?thesis by (simp cong: conj_cong)
qed

lemma resolve_narrative_step:
  assumes "sp_narrative pack = Some g"
    and ev: "ev = \<lparr>ne_turn = TurnNumber_increment (ctx_turn_number ctx), ne_semantic_results = results\<rparr>"
  shows "(case nc_narrative (resolve_narrative pack ctx results) of Unchanged \<Rightarrow> ctx_narrative ctx | Replaced n \<Rightarrow> n) =
      narrative_step g (ctx_narrative ctx) ev"
    and "nc_life_cycle (resolve_narrative pack ctx results) =
      (if nr_story_completed (resolve g (ctx_narrative ctx) ev) then Replaced LcCompleted else Unchanged)"
  using assms by (auto simp: resolve_narrative_def Let_def narrative_step_def NarrativeState_apply_def)

text \<open>
  The answers to the narrative questions are taken exactly when the model answers every question
  once and nothing else; the evidence is then the map of its answers.
\<close>

lemma narrative_answers_exact:
  "parse_narrative_evaluations from_json raw queries = Ok m \<longleftrightarrow>
     (\<exists>answers. ej_narrative from_json raw = Some answers \<and> distinct (map sed_condition_id answers) \<and>
        sed_condition_id ` set answers = sq_condition_id ` set queries \<and> m = bm_of_list (evaluation_pairs answers))"
  by (rule parse_narrative_evaluations_iff)

lemma extract_accepted:
  assumes "extract_execute env from_json world_first config store ctx proposal = Ok out"
  shows "validate_knowledge_change ctx (eo_knowledge_change out) = Ok () \<and>
    extract_execute env from_json (\<not> world_first) config store ctx proposal = Ok out"
proof -
  obtain pack nc world mems
    where pack: "PackBackend_get_pack (ctx_pack_ref ctx) (store_pack store) = Ok pack"
      and nc: "evaluate_narrative env from_json pack ctx proposal = Ok nc"
      and world: "extract_world_knowledge env from_json config ctx proposal = Ok world"
      and mems: "extract_role_memories env from_json config ctx proposal (wke_roles_for_memory world) = Ok mems"
      and out: "eo_knowledge_change out = assemble_knowledge_change world mems"
    using assms by (auto simp: extract_execute_def result_simps try_join_Ok_iff)
  obtain facts rumors rids where "resolve_world_knowledge ctx config facts rumors rids = Ok world"
    using world by (auto simp: extract_world_knowledge_def parse_world_knowledge_def result_simps)
  from assembled_accepted [OF this extract_role_memories_Ok [OF mems]]
  show ?thesis using assms out by (auto simp: extract_execute_def result_simps try_join_Ok_iff)
qed

text \<open>
  C10. Whatever the model answers, an extraction that succeeds is one the store accepts: its knowledge
  change passes the checks of a commit against the context it was made for. Which of the two concurrent
  evaluations finishes first does not change it.
\<close>

theorem extraction_accepted:
  assumes "extract_execute env from_json world_first config store ctx proposal = Ok out"
  shows "validate_knowledge_change ctx (eo_knowledge_change out) = Ok () \<and>
    extract_execute env from_json (\<not> world_first) config store ctx proposal = Ok out"
  by (rule extract_accepted [OF assms])

text \<open>
  C17. The stage moves the narrative as the graph prescribes: for evidence that answers exactly the
  questions of the plan, the state after the turn is the narrative step, and the story is completed
  exactly when a terminal node goes from active to completed.
\<close>

theorem extraction_narrative_step:
  assumes "extract_execute env from_json world_first config store ctx proposal = Ok out"
    and "PackBackend_get_pack (ctx_pack_ref ctx) (store_pack store) = Ok pack" and "sp_narrative pack = Some g"
  shows "\<exists>plan results ev. graph_plan g (ctx_narrative ctx) = Ok plan \<and>
    (\<forall>i. bm_contains results i \<longleftrightarrow> i \<in> sq_condition_id ` set (np_queries plan)) \<and>
    ev = \<lparr>ne_turn = TurnNumber_increment (ctx_turn_number ctx), ne_semantic_results = results\<rparr> \<and>
    (case eo_narrative out of Unchanged \<Rightarrow> ctx_narrative ctx | Replaced n \<Rightarrow> n) = narrative_step g (ctx_narrative ctx) ev \<and>
    eo_life_cycle out =
      (if \<exists>i node. bm_get (graph_nodes g) i = Some node \<and> node_terminal node \<and>
          NarrativeState_status (ctx_narrative ctx) i = Active \<and>
          NarrativeState_status (narrative_step g (ctx_narrative ctx) ev) i = Completed
       then Replaced LcCompleted else Unchanged)"
proof -
  obtain nc where nc: "evaluate_narrative env from_json pack ctx proposal = Ok nc"
    and out: "eo_narrative out = nc_narrative nc" "eo_life_cycle out = nc_life_cycle nc"
    using assms(1,2) by (auto simp: extract_execute_def result_simps try_join_Ok_iff)
  then obtain plan results where plan: "graph_plan g (ctx_narrative ctx) = Ok plan"
    and results: "(if np_queries plan = [] then Ok bm_empty
        else evaluate_narrative_queries env from_json ctx proposal (np_queries plan)) = Ok results"
    and nc': "nc = resolve_narrative pack ctx results"
    using assms(3) by (auto simp: evaluate_narrative_def collect_semantic_queries_def result_simps)
  have keys: "bm_contains results i \<longleftrightarrow> i \<in> sq_condition_id ` set (np_queries plan)" for i
  proof (cases "np_queries plan = []")
    case True
    then show ?thesis using results by auto
  next
    case False
    then obtain raw where "parse_narrative_evaluations from_json raw (np_queries plan) = Ok results"
      using results by (auto simp: evaluate_narrative_queries_def result_simps)
    from parsed_answers_keys [OF this] show ?thesis .
  qed
  show ?thesis
    using plan keys out resolve_narrative_step [OF assms(3) refl, of ctx results] unfolding nc' story_completed_iff
    by (intro exI [of _ plan] exI [of _ results] exI conjI) auto
qed

end
