(* ===== verification/Validation_Loop.thy ===== *)
theory Validation_Loop
  imports Repair_Stage Validate_Stage
begin

text \<open>
  \<open>pipeline/runtime/runtime_validation.rs\<close>: a generated proposal is validated and repaired until it
  passes or the repair budget is used up, and then the best proposal that passes every check is chosen.
  The loop is compared with a transition system on histories of validated proposals.

  A run of stages has its events (\<open>TurnEvent::TurnPipeline\<close> with the name of the stage, emitted by
  \<open>PipelineRunner::run\<close> before the stage executes) and an outcome; no outcome is a panic.
\<close>

section \<open>Runs (\<open>common/pipeline.rs\<close>)\<close>

type_synonym 'a run = "PipelineStage list \<times> (PipelineError + 'a) option"

definition run_ok :: "'a \<Rightarrow> 'a run" where
  "run_ok x = ([], Some (Ok x))"

definition run_err :: "PipelineError \<Rightarrow> 'a run" where
  "run_err e = ([], Some (Err e))"

definition run_panic :: "'a run" where
  "run_panic = ([], None)"

definition run_result :: "PipelineError + 'a \<Rightarrow> 'a run" where
  "run_result r = ([], Some r)"

text \<open>\<open>PipelineRunner::run\<close>\<close>

definition run_stage :: "PipelineStage \<Rightarrow> PipelineError + 'a \<Rightarrow> 'a run" where
  "run_stage stage r = ([stage], Some r)"

definition run_bind :: "'a run \<Rightarrow> ('a \<Rightarrow> 'b run) \<Rightarrow> 'b run" where
  "run_bind m f =
     (case m of
        (events, None) \<Rightarrow> (events, None)
      | (events, Some (Inl e)) \<Rightarrow> (events, Some (Inl e))
      | (events, Some (Inr x)) \<Rightarrow> (case f x of (events', r) \<Rightarrow> (events @ events', r)))"

lemma run_bind_cong [fundef_cong]:
  "m = m' \<Longrightarrow> (\<And>x. snd m' = Some (Inr x) \<Longrightarrow> f x = g x) \<Longrightarrow> run_bind m f = run_bind m' g"
  by (auto simp: run_bind_def split: prod.splits option.splits sum.splits)

lemma run_bind_simps [simp]:
  "run_bind (run_stage s (Inl e)) f = ([s], Some (Inl e))"
  "run_bind (run_stage s (Inr x)) f = (s # fst (f x), snd (f x))"
  "run_bind (run_result (Inl e)) f = ([], Some (Inl e))"
  "run_bind (run_result (Inr x)) f = f x"
  by (simp_all add: run_bind_def run_stage_def run_result_def split: prod.splits)

section \<open>The choice\<close>

record ValidatedProposal =
  vp_proposal :: str
  vp_report :: ValidationReport

record ValidationLoopResult =
  vlr_proposal :: str
  vlr_report :: ValidationReport
  vlr_repair_rounds :: u32
  vlr_status :: TurnStatus
  vlr_choice :: "TurnChoiceEvaluation option"

record ChoiceSelection =
  chs_history_index :: nat
  chs_proposal_version :: u32
  chs_target_gap_mse :: f64
  chs_unmet_score_count :: nat

definition score_deficit :: "(rat \<Rightarrow> f64) \<Rightarrow> ValidationScoreResult \<Rightarrow> f64" where
  "score_deficit rnd s =
     f_max (f_div rnd (f_sub rnd (vsr_target_score s) (vsr_score s)) (f_sub rnd (vsr_max_score s) (vsr_min_score s)))
       (Fin 0)"

definition target_gap_mse :: "(rat \<Rightarrow> f64) \<Rightarrow> ValidatedProposal \<Rightarrow> PipelineError + f64" where
  "target_gap_mse rnd proposal =
     (let report = vp_report proposal; scores = vr_scores report
      in if scores = [] then Err (ValidationFailed ''validation_choice_scores_empty'' (vr_proposal_version report))
         else let metric = f_div rnd (f_sum rnd (map (\<lambda>s. f_mul rnd (score_deficit rnd s) (score_deficit rnd s)) scores))
                             (rnd (of_nat (length scores)))
           in if \<not> is_finite metric
              then Err (ValidationFailed ''validation_choice_score_non_finite'' (vr_proposal_version report))
              else Ok metric)"

definition is_better :: "ChoiceSelection \<Rightarrow> ChoiceSelection \<Rightarrow> bool" where
  "is_better candidate current =
     (case total_cmp (chs_target_gap_mse candidate) (chs_target_gap_mse current) of
        Less \<Rightarrow> True
      | Greater \<Rightarrow> False
      | Equal \<Rightarrow>
          (case nat_cmp (chs_unmet_score_count candidate) (chs_unmet_score_count current) of
             Less \<Rightarrow> True
           | Greater \<Rightarrow> False
           | Equal \<Rightarrow> chs_proposal_version current < chs_proposal_version candidate))"

definition choice_candidate :: "nat \<Rightarrow> ValidatedProposal \<Rightarrow> f64 \<Rightarrow> ChoiceSelection" where
  "choice_candidate history_index proposal gap =
     \<lparr>chs_history_index = history_index, chs_proposal_version = vr_proposal_version (vp_report proposal),
      chs_target_gap_mse = gap, chs_unmet_score_count = unmet_score_count (vp_report proposal)\<rparr>"

text \<open>The loop of \<open>select_choice\<close>: the index of the next proposal and the best selection so far.\<close>

fun select_loop ::
  "(rat \<Rightarrow> f64) \<Rightarrow> nat \<Rightarrow> ChoiceSelection option \<Rightarrow> ValidatedProposal list \<Rightarrow> PipelineError + ChoiceSelection option" where
  "select_loop rnd history_index best [] = Ok best"
| "select_loop rnd history_index best (proposal # ps) =
     (if \<not> all_checks_pass (vp_report proposal) then select_loop rnd (history_index + 1) best ps
      else rbind (target_gap_mse rnd proposal) (\<lambda>gap.
        let candidate = choice_candidate history_index proposal gap
        in select_loop rnd (history_index + 1)
             (case best of None \<Rightarrow> Some candidate
              | Some current \<Rightarrow> if is_better candidate current then Some candidate else best) ps))"

definition select_choice :: "(rat \<Rightarrow> f64) \<Rightarrow> ValidatedProposal list \<Rightarrow> PipelineError + ChoiceSelection" where
  "select_choice rnd history =
     rbind (select_loop rnd 0 None history) (\<lambda>best.
       ok_or (ValidationFailed ''validation_choice_unavailable''
                (if history = [] then 0 else vr_proposal_version (vp_report (last history)))) best)"

section \<open>The loop\<close>

lemma unat_u32_increment: "n < m \<Longrightarrow> unat (n + 1) = Suc (unat n)" for n m :: u32
  using unat_u32_less [of m] by (simp add: unat_word_ariths word_less_nat_alt)

text \<open>What the loop uses of the runtime.\<close>

record loop_env =
  le_pipe :: pipe_env
  le_json :: "str \<Rightarrow> str + ValidateLlmOutputDto"
  le_rnd :: "rat \<Rightarrow> f64"
  le_validate :: ValidateConfig
  le_repair :: RepairConfig
  le_loop :: ValidationLoopConfig
  le_ctx :: StoryContext
  le_context :: ValidationContext

definition loop_validate :: "loop_env \<Rightarrow> str \<Rightarrow> u32 \<Rightarrow> u32 \<Rightarrow> PipelineError + ValidationReport" where
  "loop_validate le proposal version rounds =
     validate_evaluate (le_pipe le) (le_json le) (le_validate le) (quality_policy (le_validate le))
       \<lparr>vi_context = le_context le, vi_proposal = proposal, vi_proposal_version = version,
        vi_repair_rounds_used = rounds, vi_repair_rounds_remaining = max_repair_rounds (le_loop le) - rounds\<rparr> (le_ctx le)"

definition loop_repair :: "loop_env \<Rightarrow> ValidatedProposal \<Rightarrow> ValidationIssue list \<Rightarrow> u32 \<Rightarrow> PipelineError + str" where
  "loop_repair le latest issues repair_round =
     repair (le_pipe le) (le_repair le) (quality_policy (le_validate le))
       \<lparr>ri_context = le_context le, ri_proposal = vp_proposal latest,
        ri_proposal_version = vr_proposal_version (vp_report latest), ri_issues = issues,
        ri_repair_round = repair_round, ri_repair_rounds_remaining = max_repair_rounds (le_loop le) - repair_round\<rparr> (le_ctx le)"

definition passes :: "ValidationReport \<Rightarrow> bool" where
  "passes report \<longleftrightarrow> all_checks_pass report \<and> all_scores_meet_target report"

text \<open>The end of the loop with a used-up budget. \<open>swap_remove\<close> panics out of range.\<close>

definition loop_exhausted :: "(rat \<Rightarrow> f64) \<Rightarrow> ValidatedProposal list \<Rightarrow> ValidatedProposal \<Rightarrow> u32 \<Rightarrow> ValidationLoopResult run" where
  "loop_exhausted rnd history latest rounds =
     (if \<not> all_checks_pass (vp_report latest)
      then (case failed_issues (vp_report latest) of
              None \<Rightarrow> run_panic
            | Some issues \<Rightarrow>
                run_err (ValidationFailed ''validation_hard_gate_exhausted'' (vr_proposal_version (vp_report latest))))
      else run_bind (run_result (select_choice rnd history)) (\<lambda>selection.
        if chs_history_index selection < length history
        then let selected = history ! chs_history_index selection
             in run_ok \<lparr>vlr_proposal = vp_proposal selected, vlr_report = vp_report selected,
                  vlr_repair_rounds = rounds, vlr_status = Choice,
                  vlr_choice = Some \<lparr>selected_proposal_version = chs_proposal_version selection,
                    choice_target_gap_mse = chs_target_gap_mse selection\<rparr>\<rparr>
        else run_panic))"

function validate_and_repair ::
  "loop_env \<Rightarrow> ValidatedProposal list \<Rightarrow> str \<Rightarrow> u32 \<Rightarrow> ValidationLoopResult run" where
  "validate_and_repair le history current_proposal repair_rounds =
     (if 2 ^ 32 \<le> length history + 1 then run_panic
      else let proposal_version = of_nat (length history + 1)
        in run_bind (run_stage Validate (loop_validate le current_proposal proposal_version repair_rounds)) (\<lambda>report.
          let latest = \<lparr>vp_proposal = current_proposal, vp_report = report\<rparr>
          in if passes report
             then run_ok \<lparr>vlr_proposal = current_proposal, vlr_report = report, vlr_repair_rounds = repair_rounds,
                          vlr_status = Pass, vlr_choice = None\<rparr>
             else if max_repair_rounds (le_loop le) \<le> repair_rounds
               then loop_exhausted (le_rnd le) (history @ [latest]) latest repair_rounds
             else (case failed_issues report of
                     None \<Rightarrow> run_panic
                   | Some issues \<Rightarrow>
                       run_bind (run_stage Repair (loop_repair le latest issues (repair_rounds + 1))) (\<lambda>proposal.
                         validate_and_repair le (history @ [latest]) proposal (repair_rounds + 1)))))"
  by pat_completeness auto

termination
proof (relation "measure (\<lambda>(le, history, current, rounds). unat (max_repair_rounds (le_loop le)) - unat rounds)", goal_cases)
  case (2 le history current rounds)
  then have "rounds < max_repair_rounds (le_loop le)" by simp
  then show ?case using unat_u32_increment by (simp add: word_less_nat_alt diff_less_mono2)
qed simp

declare validate_and_repair.simps [simp del]

definition validate_generated_proposal :: "str \<Rightarrow> nat \<Rightarrow> PipelineError + str" where
  "validate_generated_proposal proposal max_bytes =
     (if trim proposal = [] then Err (EmptyOutput Generate)
      else if str_len proposal > max_bytes then Err (InvalidOutput Generate ''generate_proposal_too_long'')
      else Ok proposal)"

definition turn_evaluation_of :: "ValidationLoopResult \<Rightarrow> TurnEvaluation" where
  "turn_evaluation_of result =
     \<lparr>te_proposal_version = vr_proposal_version (vlr_report result), te_repair_rounds = vlr_repair_rounds result,
      te_checks = map (\<lambda>c. \<lparr>tce_name = vcr_name c, tce_passed = vcr_passed c, tce_issue = vcr_issue c\<rparr>)
        (vr_checks (vlr_report result)),
      te_scores = map (\<lambda>s. \<lparr>tse_name = vsr_name s, tse_min_score = vsr_min_score s, tse_max_score = vsr_max_score s,
          tse_target_score = vsr_target_score s, tse_score = vsr_score s, tse_issue = vsr_issue s\<rparr>)
        (vr_scores (vlr_report result)),
      te_choice = vlr_choice result\<rparr>"

end
