(* ===== verification/Validation_Safety.thy ===== *)
theory Validation_Safety
  imports Validation_Loop
begin

text \<open>
  The validation loop against its specification: \<open>repair_chain\<close> is the transition system of histories
  of validated proposals; the loop ends in one of its states, in the one the specification prescribes,
  within the budget, and it does not panic.
\<close>

section \<open>The best candidate\<close>

lemma total_cmp_trans: "total_cmp a b = Less \<Longrightarrow> total_cmp b c = Less \<Longrightarrow> total_cmp a c = Less"
  by (cases a; cases b; cases c) (auto split: if_splits)

lemma total_cmp_Equal: "total_cmp a b = Equal \<longleftrightarrow> a = b"
  by (cases a; cases b) auto

lemma total_cmp_refl [simp]: "total_cmp a a = Equal"
  by (simp add: total_cmp_Equal)

lemma nat_cmp_iff: "nat_cmp a b = Less \<longleftrightarrow> a < b" "nat_cmp a b = Equal \<longleftrightarrow> a = b" "nat_cmp a b = Greater \<longleftrightarrow> b < a"
  by (auto simp: nat_cmp_def)

lemma is_better_iff:
  "is_better a b \<longleftrightarrow>
     total_cmp (chs_target_gap_mse a) (chs_target_gap_mse b) = Less \<or>
     (chs_target_gap_mse a = chs_target_gap_mse b \<and>
       (chs_unmet_score_count a < chs_unmet_score_count b \<or>
        (chs_unmet_score_count a = chs_unmet_score_count b \<and> chs_proposal_version b < chs_proposal_version a)))"
  by (auto simp: is_better_def total_cmp_Equal nat_cmp_iff split: ordering.splits)

lemma total_cmp_split: "total_cmp a c = Less \<Longrightarrow> total_cmp a b = Less \<or> total_cmp b c = Less"
  by (cases a; cases b; cases c) (auto split: if_splits)

lemma total_cmp_linear: "a = b \<or> total_cmp a b = Less \<or> total_cmp b a = Less"
  by (cases a; cases b) auto

lemma is_better_split: "is_better a c \<Longrightarrow> is_better a b \<or> is_better b c"
  using total_cmp_split [of "chs_target_gap_mse a" "chs_target_gap_mse c" "chs_target_gap_mse b"]
    total_cmp_linear [of "chs_target_gap_mse a" "chs_target_gap_mse b"]
  by (auto simp: is_better_iff)

lemma is_better_trans: "is_better a b \<Longrightarrow> is_better b c \<Longrightarrow> is_better a c"
  by (auto simp: is_better_iff intro: total_cmp_trans dest: less_trans)

lemma is_better_irrefl [simp]: "\<not> is_better a a"
  by (simp add: is_better_iff)

text \<open>A selection no candidate of the list beats.\<close>

definition unbeaten :: "(rat \<Rightarrow> f64) \<Rightarrow> nat \<Rightarrow> ValidatedProposal list \<Rightarrow> ChoiceSelection \<Rightarrow> bool" where
  "unbeaten rnd k ps sel \<longleftrightarrow>
     (\<forall>i < length ps. all_checks_pass (vp_report (ps ! i)) \<longrightarrow>
        (\<exists>gap. target_gap_mse rnd (ps ! i) = Ok gap \<and> \<not> is_better (choice_candidate (k + i) (ps ! i) gap) sel))"

lemma unbeaten_Cons:
  "unbeaten rnd k (p # ps) sel \<longleftrightarrow>
     (all_checks_pass (vp_report p) \<longrightarrow>
        (\<exists>gap. target_gap_mse rnd p = Ok gap \<and> \<not> is_better (choice_candidate k p gap) sel)) \<and>
     unbeaten rnd (Suc k) ps sel"
  by (simp add: unbeaten_def All_less_Suc2 nth_Cons')

definition chosen_from :: "(rat \<Rightarrow> f64) \<Rightarrow> nat \<Rightarrow> ValidatedProposal list \<Rightarrow> ChoiceSelection \<Rightarrow> bool" where
  "chosen_from rnd k ps sel \<longleftrightarrow>
     (\<exists>i < length ps. \<exists>gap. all_checks_pass (vp_report (ps ! i)) \<and> target_gap_mse rnd (ps ! i) = Ok gap \<and>
        sel = choice_candidate (k + i) (ps ! i) gap)"

lemma chosen_from_Cons:
  "chosen_from rnd k (p # ps) sel \<longleftrightarrow>
     (\<exists>gap. all_checks_pass (vp_report p) \<and> target_gap_mse rnd p = Ok gap \<and> sel = choice_candidate k p gap) \<or>
     chosen_from rnd (Suc k) ps sel"
  by (simp add: chosen_from_def Ex_less_Suc2 nth_Cons')

lemma select_loop_spec:
  "select_loop rnd k best ps = Ok (Some sel) \<Longrightarrow>
     (best = Some sel \<or> chosen_from rnd k ps sel) \<and> unbeaten rnd k ps sel \<and>
     (\<forall>b. best = Some b \<longrightarrow> \<not> is_better b sel)"
proof (induction ps arbitrary: k best)
  case Nil
  then show ?case by (auto simp: unbeaten_def is_better_iff)
next
  case (Cons p ps)
  show ?case
  proof (cases "all_checks_pass (vp_report p)")
    case False
    then show ?thesis using Cons.prems Cons.IH [of "Suc k" best] by (simp add: unbeaten_Cons chosen_from_Cons)
  next
    case True
    then obtain gap where gap: "target_gap_mse rnd p = Ok gap" using Cons.prems by (auto simp: result_simps)
    let ?c = "choice_candidate k p gap"
    define best' where "best' = (case best of None \<Rightarrow> Some ?c | Some b \<Rightarrow> if is_better ?c b then Some ?c else best)"
    have "select_loop rnd (Suc k) best' ps = Ok (Some sel)"
      using Cons.prems True gap by (simp add: best'_def Let_def)
    from Cons.IH [OF this] have IH: "best' = Some sel \<or> chosen_from rnd (Suc k) ps sel"
      "unbeaten rnd (Suc k) ps sel" "\<And>b. best' = Some b \<Longrightarrow> \<not> is_better b sel" by auto
    have "best' = Some sel \<Longrightarrow> sel = ?c \<or> best = Some sel" by (auto simp: best'_def split: option.splits if_splits)
    moreover have "\<not> is_better ?c sel"
    proof (cases best')
      case None
      then show ?thesis by (simp add: best'_def split: option.splits if_splits)
    next
      case (Some b)
      then have "\<not> is_better ?c b" using is_better_irrefl by (auto simp: best'_def split: option.splits if_splits)
      then show ?thesis using is_better_split [of ?c sel b] IH(3) [OF Some] by blast
    qed
    moreover have "\<not> is_better b sel" if "best = Some b" for b
      using IH(3) [of ?c] IH(3) [of b] is_better_trans [of ?c b sel] that
      by (cases "is_better ?c b") (auto simp: best'_def)
    ultimately show ?thesis using IH(1,2) True gap by (auto simp: unbeaten_Cons chosen_from_Cons)
  qed
qed

lemma select_loop_Some:
  "select_loop rnd k best ps = Ok sel \<Longrightarrow> best \<noteq> None \<or> (\<exists>p \<in> set ps. all_checks_pass (vp_report p)) \<Longrightarrow> sel \<noteq> None"
  by (induction ps arbitrary: k best) (auto simp: result_simps Let_def split: if_splits option.splits)

lemma select_loop_Err:
  "select_loop rnd k best ps = Err e \<Longrightarrow> \<exists>p \<in> set ps. target_gap_mse rnd p = Err e"
  by (induction ps arbitrary: k best) (auto simp: result_simps Let_def split: if_splits)

lemma select_choice_Ok:
  assumes "select_choice rnd history = Ok sel"
  shows "chosen_from rnd 0 history sel" and "unbeaten rnd 0 history sel"
proof -
  have "select_loop rnd 0 None history = Ok (Some sel)" using assms by (auto simp: select_choice_def result_simps)
  from select_loop_spec [OF this] show "chosen_from rnd 0 history sel" "unbeaten rnd 0 history sel" by simp_all
qed

section \<open>The metric is a number\<close>

text \<open>What the metric needs of the hardware's rounding.\<close>

definition ieee_rounding :: "(rat \<Rightarrow> f64) \<Rightarrow> bool" where
  "ieee_rounding rnd \<longleftrightarrow>
     (\<forall>x y. x \<le> y \<longrightarrow> f_le (rnd x) (rnd y)) \<and>
     (\<forall>n \<le> MAX_VALIDATE_SCORES. rnd (of_nat n) = Fin (of_nat n)) \<and>
     (\<forall>x y. rnd x = Fin x \<longrightarrow> rnd y = Fin y \<longrightarrow> rnd (x - y) = Fin 0 \<longrightarrow> x = y)"

definition is_double :: "(rat \<Rightarrow> f64) \<Rightarrow> f64 \<Rightarrow> bool" where
  "is_double rnd v \<longleftrightarrow> (case v of Fin x \<Rightarrow> rnd x = Fin x | _ \<Rightarrow> True)"

definition in_unit :: "f64 \<Rightarrow> bool" where
  "in_unit v \<longleftrightarrow> (\<exists>q. v = Fin q \<and> 0 \<le> q \<and> q \<le> 1)"

lemma rounding_bounds:
  assumes "ieee_rounding rnd" and "0 \<le> x" and "x \<le> of_nat n" and "n \<le> MAX_VALIDATE_SCORES"
  shows "\<exists>q. rnd x = Fin q \<and> 0 \<le> q \<and> q \<le> of_nat n"
proof -
  have "f_le (rnd x) (rnd y)" if "x \<le> y" for x y using assms(1) that by (simp add: ieee_rounding_def)
  then have "f_le (rnd (of_nat 0)) (rnd x)" "f_le (rnd x) (rnd (of_nat n))" using assms(2,3) by simp_all
  moreover have "rnd (of_nat 0) = Fin 0" "rnd (of_nat n) = Fin (of_nat n)"
    using assms(1,4) by (auto simp: ieee_rounding_def simp del: of_nat_0)
  ultimately show ?thesis by (cases "rnd x") (auto simp: f_le_def)
qed

lemma deficit_unit:
  assumes rnd: "ieee_rounding rnd" and t: "t - s \<le> b - a" and "a < b" and "rnd a = Fin a" "rnd b = Fin b"
  shows "in_unit (f_max (f_div rnd (f_sub rnd (Fin t) (Fin s)) (f_sub rnd (Fin b) (Fin a))) (Fin 0))"
proof -
  have mono: "f_le (rnd (t - s)) (rnd (b - a))" using rnd t by (simp add: ieee_rounding_def)
  have zero: "rnd 0 = Fin 0" using rnd by (auto simp: ieee_rounding_def dest: spec [of _ 0])
  have pos: "f_le (Fin 0) (rnd (b - a))" using rnd \<open>a < b\<close> zero unfolding ieee_rounding_def
    by (metis diff_ge_0_iff_ge less_imp_le)
  have "rnd (b - a) \<noteq> Fin 0" using rnd assms(3-5) by (force simp: ieee_rounding_def)
  then consider (inf) "rnd (b - a) = PInf" | (fin) d where "rnd (b - a) = Fin d" "0 < d"
    using pos by (cases "rnd (b - a)") (auto simp: f_le_def)
  then show ?thesis
  proof cases
    case inf
    then show ?thesis by (cases "rnd (t - s)") (auto simp: f_sub_def in_unit_def)
  next
    case fin
    show ?thesis
    proof (cases "rnd (t - s)")
      case (Fin x)
      then have "x \<le> d" using mono fin by (auto simp: f_le_def)
      then have "x / d \<le> of_nat 1" using fin(2) by simp
      then have le: "f_le (rnd (x / d)) (Fin 1)"
        using rnd unfolding ieee_rounding_def by (metis of_nat_1 one_le_numeral)
      show ?thesis using Fin fin le by (cases "rnd (x / d)") (auto simp: f_sub_def in_unit_def f_le_def)
    next
      case PInf
      then show ?thesis using mono fin by (simp add: f_le_def)
    next
      case NInf
      then show ?thesis using fin by (simp add: f_sub_def in_unit_def inf_of_sign_def)
    next
      case NaN
      then show ?thesis using mono by (simp add: f_le_def)
    qed
  qed
qed

lemma f_sum_bounds:
  assumes rnd: "ieee_rounding rnd"
  shows "length xs \<le> MAX_VALIDATE_SCORES \<Longrightarrow> \<forall>x \<in> set xs. in_unit x \<Longrightarrow>
    \<exists>q. f_sum rnd xs = Fin q \<and> 0 \<le> q \<and> q \<le> of_nat (length xs)"
proof (induction xs rule: rev_induct)
  case Nil
  then show ?case by (simp add: f_sum_def)
next
  case (snoc x xs)
  then obtain q r where q: "f_sum rnd xs = Fin q" "0 \<le> q" "q \<le> of_nat (length xs)"
    and r: "x = Fin r" "0 \<le> r" "r \<le> 1" by (auto simp: in_unit_def)
  then show ?case using rounding_bounds [OF rnd, of "q + r" "Suc (length xs)"] snoc.prems(1)
    by (simp add: f_sum_def)
qed

lemma metric_finite:
  assumes rnd: "ieee_rounding rnd" and "scores \<noteq> []" and len: "length scores \<le> MAX_VALIDATE_SCORES"
    and unit: "\<forall>s \<in> set scores. in_unit (score_deficit rnd s)"
  shows "is_finite (f_div rnd (f_sum rnd (map (\<lambda>s. f_mul rnd (score_deficit rnd s) (score_deficit rnd s)) scores))
    (rnd (of_nat (length scores))))"
proof -
  let ?n = "length scores"
  have sq: "in_unit (f_mul rnd d d)" if "in_unit d" for d
    using that rounding_bounds [OF rnd, of _ 1] by (auto simp: in_unit_def mult_le_one)
  obtain q where q: "f_sum rnd (map (\<lambda>s. f_mul rnd (score_deficit rnd s) (score_deficit rnd s)) scores) = Fin q"
    "0 \<le> q" "q \<le> of_nat ?n"
    using f_sum_bounds [OF rnd, of "map (\<lambda>s. f_mul rnd (score_deficit rnd s) (score_deficit rnd s)) scores"] len unit sq
    by auto
  have n: "rnd (of_nat ?n) = Fin (of_nat ?n)" using rnd len by (simp add: ieee_rounding_def)
  have "q / of_nat ?n \<le> of_nat 1" using q(3) assms(2) by (simp add: divide_le_eq)
  then obtain z where "rnd (q / of_nat ?n) = Fin z"
    using rounding_bounds [OF rnd, of "q / of_nat ?n" 1] q(2) by auto
  then show ?thesis using q n assms(2) by simp
qed

section \<open>Reports of the loop\<close>

lemma loop_validate_Ok:
  assumes "loop_validate le p version rounds = Ok rep"
  shows "vr_proposal_version rep = version"
    and "report_matches (quality_policy (le_validate le)) (max_issue_bytes (le_validate le)) rep"
  using assms by (auto simp: loop_validate_def validate_evaluate_def result_simps dest: parse_report_matches)

lemma project_validation_evidence_not_failed:
  "project_validation_evidence env stage ctx context \<noteq> Err (ValidationFailed code v)"
  by (auto simp: project_validation_evidence_def evidence_role_def result_simps dest!: try_map_Err_mem)

lemma take_results_Err:
  "take_results key missing f results cs = Err e \<Longrightarrow> e = missing \<or> (\<exists>c r. f c r = Err e)"
  by (induction cs arbitrary: results) (auto simp: result_simps)

lemma parse_validation_report_not_failed:
  "parse_validation_report from_json raw version policy n \<noteq> Err (ValidationFailed code v)"
proof
  assume "parse_validation_report from_json raw version policy n = Err (ValidationFailed code v)"
  then show False
    by (auto simp: parse_validation_report_def validate_returned_names_def validate_name_kind_def Let_def result_simps
        check_result_def score_result_def validate_issue_def BoundedText_try_new_def
        split: if_splits option.splits bool.splits dest!: distinct_check_Err take_results_Err)
qed

lemma loop_validate_not_failed: "loop_validate le p version rounds \<noteq> Err (ValidationFailed code v)"
  by (auto simp: loop_validate_def validate_evaluate_def evaluate_prompt_def render_def complete_def result_simps
      project_validation_evidence_not_failed parse_validation_report_not_failed)

lemma loop_repair_not_failed: "loop_repair le latest issues r \<noteq> Err (ValidationFailed code v)"
  by (auto simp: loop_repair_def repair_def repair_prompt_def render_def complete_def validate_repaired_proposal_def
      result_simps project_validation_evidence_not_failed split: if_splits)

section \<open>Histories\<close>

text \<open>
  The specification: a history starts with the validated initial proposal, and grows by repairing its
  last proposal, with the issues of its report, while that one does not pass and the budget lasts.
\<close>

inductive repair_chain :: "loop_env \<Rightarrow> str \<Rightarrow> ValidatedProposal list \<Rightarrow> bool" for le initial where
  validated: "loop_validate le initial 1 0 = Ok report \<Longrightarrow>
    repair_chain le initial [\<lparr>vp_proposal = initial, vp_report = report\<rparr>]"
| repaired: "repair_chain le initial h \<Longrightarrow> \<not> passes (vp_report (last h)) \<Longrightarrow>
    length h \<le> unat (max_repair_rounds (le_loop le)) \<Longrightarrow> failed_issues (vp_report (last h)) = Some issues \<Longrightarrow>
    loop_repair le (last h) issues (of_nat (length h)) = Ok p \<Longrightarrow>
    loop_validate le p (of_nat (length h + 1)) (of_nat (length h)) = Ok report \<Longrightarrow>
    repair_chain le initial (h @ [\<lparr>vp_proposal = p, vp_report = report\<rparr>])"

lemma repair_chain_facts:
  assumes "repair_chain le initial h"
  shows "h \<noteq> [] \<and> length h \<le> Suc (unat (max_repair_rounds (le_loop le))) \<and>
    (\<forall>i < length h. vr_proposal_version (vp_report (h ! i)) = of_nat (i + 1) \<and>
       report_matches (quality_policy (le_validate le)) (max_issue_bytes (le_validate le)) (vp_report (h ! i)) \<and>
       (i + 1 < length h \<longrightarrow> \<not> passes (vp_report (h ! i))))"
  using assms
proof (induction rule: repair_chain.induct)
  case (validated report)
  then show ?case using loop_validate_Ok [OF validated] by simp
next
  case (repaired h issues p report)
  have "\<not> passes (vp_report (h ! i))" if "Suc i = length h" for i
    using repaired.hyps(2) repaired.IH that by (metis diff_Suc_1 last_conv_nth)
  then show ?case
    using repaired.hyps(3) repaired.IH loop_validate_Ok [OF repaired.hyps(6)]
    by (auto simp: nth_append less_Suc_eq)
qed

lemma chain_member:
  assumes "repair_chain le initial h" and "x \<in> set h"
  shows "report_matches (quality_policy (le_validate le)) (max_issue_bytes (le_validate le)) (vp_report x)"
  using repair_chain_facts [OF assms(1)] assms(2) by (auto simp: in_set_conv_nth)

text \<open>The state of the loop before a validation.\<close>

definition loop_inv :: "loop_env \<Rightarrow> str \<Rightarrow> ValidatedProposal list \<Rightarrow> str \<Rightarrow> u32 \<Rightarrow> bool" where
  "loop_inv le initial history current rounds \<longleftrightarrow>
     rounds = of_nat (length history) \<and> length history \<le> unat (max_repair_rounds (le_loop le)) \<and>
     (if history = [] then current = initial
      else repair_chain le initial history \<and> \<not> passes (vp_report (last history)) \<and>
        (\<exists>issues. failed_issues (vp_report (last history)) = Some issues \<and>
           loop_repair le (last history) issues rounds = Ok current))"

lemma loop_inv_chain:
  assumes "loop_inv le initial history current rounds"
    and "loop_validate le current (of_nat (length history + 1)) rounds = Ok report"
  shows "repair_chain le initial (history @ [\<lparr>vp_proposal = current, vp_report = report\<rparr>])"
proof (cases "history = []")
  case True
  then show ?thesis using assms by (auto simp: loop_inv_def intro: repair_chain.validated)
next
  case False
  then show ?thesis using assms by (auto simp: loop_inv_def intro: repair_chain.repaired)
qed

lemma loop_inv_rounds:
  assumes "loop_inv le initial history current rounds"
  shows "unat rounds = length history" and "unat rounds \<le> unat (max_repair_rounds (le_loop le))"
proof -
  have "length history < 2 ^ 32"
    using assms unat_u32_less [of "max_repair_rounds (le_loop le)"] by (simp add: loop_inv_def)
  then show "unat rounds = length history" using assms by (simp add: loop_inv_def unat_of_nat)
  then show "unat rounds \<le> unat (max_repair_rounds (le_loop le))" using assms by (simp add: loop_inv_def)
qed

lemma loop_inv_next:
  assumes "loop_inv le initial history current rounds" and "latest = \<lparr>vp_proposal = current, vp_report = report\<rparr>"
    and "loop_validate le current (of_nat (length history + 1)) rounds = Ok report" and "\<not> passes report"
    and "\<not> max_repair_rounds (le_loop le) \<le> rounds" and "failed_issues report = Some issues"
    and "loop_repair le latest issues (rounds + 1) = Ok p"
  shows "loop_inv le initial (history @ [latest]) p (rounds + 1)"
  using assms loop_inv_chain [OF assms(1,3)] loop_inv_rounds [OF assms(1)]
  by (auto simp: loop_inv_def not_le word_less_nat_alt)

section \<open>The loop\<close>

text \<open>One iteration, with the panics of the conversions out of the way.\<close>

lemma loop_unfold:
  assumes "loop_inv le initial history current rounds" and "ValidationLoopConfig_validate (le_loop le) = Ok ()"
  shows "validate_and_repair le history current rounds =
    run_bind (run_stage Validate (loop_validate le current (of_nat (length history + 1)) rounds)) (\<lambda>report.
      let latest = \<lparr>vp_proposal = current, vp_report = report\<rparr>
      in if passes report
         then run_ok \<lparr>vlr_proposal = current, vlr_report = report, vlr_repair_rounds = rounds,
                      vlr_status = Pass, vlr_choice = None\<rparr>
         else if max_repair_rounds (le_loop le) \<le> rounds
           then loop_exhausted (le_rnd le) (history @ [latest]) latest rounds
         else (case failed_issues report of
                 None \<Rightarrow> run_panic
               | Some issues \<Rightarrow>
                   run_bind (run_stage Repair (loop_repair le latest issues (rounds + 1))) (\<lambda>proposal.
                     validate_and_repair le (history @ [latest]) proposal (rounds + 1))))"
proof -
  have "unat (max_repair_rounds (le_loop le)) \<le> unat (8 :: u32)"
    using assms(2) by (simp add: ValidationLoopConfig_validate_def word_le_nat_alt not_less split: if_splits)
  then have "\<not> 2 ^ 32 \<le> length history + 1" using assms(1) by (simp add: loop_inv_def)
  then show ?thesis by (subst validate_and_repair.simps) (simp add: Let_def)
qed

text \<open>How the loop may end in a history.\<close>

definition loop_end :: "loop_env \<Rightarrow> ValidatedProposal list \<Rightarrow> (PipelineError + ValidationLoopResult) option \<Rightarrow> bool" where
  "loop_end le h out \<longleftrightarrow>
     (if passes (vp_report (last h))
      then out = Some (Ok \<lparr>vlr_proposal = vp_proposal (last h), vlr_report = vp_report (last h),
             vlr_repair_rounds = of_nat (length h - 1), vlr_status = Pass, vlr_choice = None\<rparr>)
      else length h = Suc (unat (max_repair_rounds (le_loop le))) \<and>
        out = snd (loop_exhausted (le_rnd le) h (last h) (of_nat (length h - 1))))"

lemma loop_exhausted_events: "fst (loop_exhausted rnd h latest rounds) = []"
  by (cases "select_choice rnd h")
    (auto simp: loop_exhausted_def run_ok_def run_err_def run_panic_def run_result_def run_bind_def Let_def
      split: option.splits)

text \<open>The stages of the rest of a loop that validates \<open>n\<close> more proposals.\<close>

definition loop_events :: "nat \<Rightarrow> PipelineStage list" where
  "loop_events n = Validate # concat (replicate (n - 1) [Repair, Validate])"

lemma loop_events_Suc: "0 < n \<Longrightarrow> loop_events (Suc n) = Validate # Repair # loop_events n"
  by (cases n) (simp_all add: loop_events_def)

lemma length_loop_events: "length (loop_events n) = 2 * (n - 1) + 1"
  by (simp add: loop_events_def length_concat sum_list_replicate)

lemma loop_spec:
  assumes "loop_inv le initial history current rounds" and "ValidationLoopConfig_validate (le_loop le) = Ok ()"
    and "validate_and_repair le history current rounds = (es, out)"
  shows "(\<exists>h. repair_chain le initial h \<and> length history < length h \<and> loop_end le h out \<and>
        es = loop_events (length h - length history)) \<or>
      (\<exists>e. out = Some (Err e) \<and> ((\<exists>p v r. loop_validate le p v r = Err e) \<or> (\<exists>l is r. loop_repair le l is r = Err e)) \<and>
        length es \<le> 2 * (unat (max_repair_rounds (le_loop le)) - length history) + 1)"
  using assms(1,3)
proof (induction "unat (max_repair_rounds (le_loop le)) - length history" arbitrary: history current rounds es rule: less_induct)
  case less
  let ?max = "max_repair_rounds (le_loop le)"
  note unfold = loop_unfold [OF less.prems(1) assms(2)]
  note rounds = loop_inv_rounds [OF less.prems(1)]
  show ?case
  proof (cases "loop_validate le current (of_nat (length history + 1)) rounds")
    case (Inl e)
    then have "es = [Validate]" "out = Some (Err e)" using less.prems(2) unfold by simp_all
    then show ?thesis using Inl by auto
  next
    case (Inr report)
    define latest where "latest = \<lparr>vp_proposal = current, vp_report = report\<rparr>"
    have chain: "repair_chain le initial (history @ [latest])"
      using loop_inv_chain [OF less.prems(1) Inr] by (simp add: latest_def)
    have run: "(es, out) = (Validate # fst rest, snd rest)"
      if "rest = (if passes report
         then run_ok \<lparr>vlr_proposal = current, vlr_report = report, vlr_repair_rounds = rounds,
                      vlr_status = Pass, vlr_choice = None\<rparr>
         else if ?max \<le> rounds then loop_exhausted (le_rnd le) (history @ [latest]) latest rounds
         else (case failed_issues report of None \<Rightarrow> run_panic | Some issues \<Rightarrow>
                   run_bind (run_stage Repair (loop_repair le latest issues (rounds + 1))) (\<lambda>proposal.
                     validate_and_repair le (history @ [latest]) proposal (rounds + 1))))" for rest
      using less.prems(2) unfold Inr unfolding that latest_def by (simp add: Let_def)
    show ?thesis
    proof (cases "passes report \<or> ?max \<le> rounds")
      case True
      have "loop_end le (history @ [latest]) out \<and> es = [Validate]"
        using run [OF refl] True rounds loop_exhausted_events less.prems(1)
        by (auto simp: loop_end_def latest_def run_ok_def loop_inv_def word_le_nat_alt)
      then show ?thesis using chain by (intro disjI1 exI [of _ "history @ [latest]"]) (simp add: loop_events_def)
    next
      case False
      then have budget: "length history < unat ?max" using rounds by (simp add: word_le_nat_alt not_le)
      obtain issues where issues: "failed_issues report = Some issues"
        using failed_issues_total [OF report_matches_ok [OF loop_validate_Ok(2) [OF Inr]]] by blast
      show ?thesis
      proof (cases "loop_repair le latest issues (rounds + 1)")
        case (Inl e)
        then have "es = [Validate, Repair]" "out = Some (Err e)" using run [OF refl] False issues by simp_all
        then show ?thesis using Inl budget by auto
      next
        case (Inr p)
        obtain es' out' where rec: "validate_and_repair le (history @ [latest]) p (rounds + 1) = (es', out')" by fastforce
        then have es: "es = Validate # Repair # es'" "out' = out" using run [OF refl] False issues Inr by simp_all
        have inv: "loop_inv le initial (history @ [latest]) p (rounds + 1)"
          using loop_inv_next [OF less.prems(1) latest_def \<open>loop_validate le current _ rounds = Ok report\<close> _ _ issues Inr] False
          by simp
        have "unat ?max - length (history @ [latest]) < unat ?max - length history" using budget by simp
        from less.hyps [OF this inv rec [unfolded es(2)]]
        consider (ended) h where "repair_chain le initial h" "length (history @ [latest]) < length h" "loop_end le h out"
            "es' = loop_events (length h - length (history @ [latest]))"
          | (failed) e where "out = Some (Err e)" "(\<exists>p v r. loop_validate le p v r = Err e) \<or> (\<exists>l is r. loop_repair le l is r = Err e)"
            "length es' \<le> 2 * (unat ?max - length (history @ [latest])) + 1" by blast
        then show ?thesis
        proof cases
          case ended
          then have "es = loop_events (length h - length history)"
            using es(1) loop_events_Suc [of "length h - length (history @ [latest])"] by (simp add: Suc_diff_Suc)
          then show ?thesis using ended by (intro disjI1 exI [of _ h]) simp
        next
          case failed
          then show ?thesis using es(1) budget by (intro disjI2 exI [of _ e]) (simp only: list.size length_append, simp)
        qed
      qed
    qed
  qed
qed

section \<open>The configured criteria give a finite metric\<close>

definition criteria_doubles :: "(rat \<Rightarrow> f64) \<Rightarrow> ValidateConfig \<Rightarrow> bool" where
  "criteria_doubles rnd config \<longleftrightarrow>
     (\<forall>c \<in> set (vcf_scores config). is_double rnd (psc_min_score c) \<and> is_double rnd (psc_max_score c))"

lemma score_deficit_unit:
  assumes "ieee_rounding rnd" and "score_matches n c r" and "validate_score_criterion c = Ok ()"
    and "is_double rnd (psc_min_score c)" and "is_double rnd (psc_max_score c)"
  shows "in_unit (score_deficit rnd r)"
proof -
  have crit: "is_finite (psc_min_score c)" "is_finite (psc_max_score c)" "is_finite (psc_target_score c)"
    "\<not> f_le (psc_max_score c) (psc_min_score c)" "\<not> f_lt (psc_max_score c) (psc_target_score c)"
    using assms(3) by (auto simp: validate_score_criterion_def split: if_splits)
  have res: "vsr_min_score r = psc_min_score c" "vsr_max_score r = psc_max_score c" "vsr_target_score r = psc_target_score c"
    "is_finite (vsr_score r)" "\<not> f_lt (vsr_score r) (vsr_min_score r)"
    using assms(2) by (auto simp: score_matches_def)
  obtain a b t s where v: "psc_min_score c = Fin a" "psc_max_score c = Fin b" "psc_target_score c = Fin t" "vsr_score r = Fin s"
    using crit(1-3) res(4) by (auto elim!: is_finiteE)
  have "a < b" "t - s \<le> b - a" using crit(4,5) res(5) unfolding res v by (auto simp: f_le_def)
  then show ?thesis
    using deficit_unit [OF assms(1)] assms(4,5) unfolding score_deficit_def res v is_double_def by simp
qed

lemma target_gap_mse_total:
  assumes rnd: "ieee_rounding rnd" "criteria_doubles rnd config" and "ValidateConfig_validate config = Ok ()"
    and m: "report_matches (quality_policy config) n (vp_report p)" and ne: "vcf_scores config \<noteq> []"
  shows "\<exists>gap. target_gap_mse rnd p = Ok gap"
proof -
  let ?scores = "vr_scores (vp_report p)"
  have all: "list_all2 (score_matches n) (vcf_scores config) ?scores"
    using m by (simp add: report_matches_def quality_policy_def)
  have len: "length (vcf_scores config) \<le> MAX_VALIDATE_SCORES"
    using assms(3) by (auto simp: ValidateConfig_validate_def split: if_splits)
  have valid: "\<forall>c \<in> set (vcf_scores config). validate_score_criterion c = Ok ()"
    using ValidateConfig_validate_Ok [OF assms(3)] by simp
  have "in_unit (score_deficit rnd s)" if "s \<in> set ?scores" for s
  proof -
    obtain i where i: "i < length ?scores" "s = ?scores ! i" using \<open>s \<in> set ?scores\<close> by (auto simp: in_set_conv_nth)
    let ?c = "vcf_scores config ! i"
    have "?c \<in> set (vcf_scores config)" using i list_all2_lengthD [OF all] by simp
    then show ?thesis
      using score_deficit_unit [OF rnd(1), of n ?c s] list_all2_nthD2 [OF all i(1)] valid rnd(2) i(2)
      by (simp add: criteria_doubles_def)
  qed
  moreover have "?scores \<noteq> []" "length ?scores \<le> MAX_VALIDATE_SCORES"
    using all ne len list_all2_lengthD [OF all] by auto
  ultimately show ?thesis using metric_finite [OF rnd(1), of ?scores] by (simp add: target_gap_mse_def Let_def)
qed

lemma unmet_scores:
  assumes "report_matches (quality_policy config) n rep" and "all_checks_pass rep" and "\<not> passes rep"
  shows "vcf_scores config \<noteq> []"
  using assms by (auto simp: report_matches_def quality_policy_def passes_def all_scores_meet_target_def)

lemma select_choice_total:
  assumes "ieee_rounding rnd" "criteria_doubles rnd (le_validate le)" and "ValidateConfig_validate (le_validate le) = Ok ()"
    and chain: "repair_chain le initial h" and "all_checks_pass (vp_report (last h))" and "\<not> passes (vp_report (last h))"
  shows "\<exists>sel. select_choice rnd h = Ok sel"
proof -
  have last: "last h \<in> set h" using repair_chain_facts [OF chain] by simp
  have ne: "vcf_scores (le_validate le) \<noteq> []"
    using unmet_scores [OF chain_member [OF chain last] assms(5,6)] .
  have "\<exists>gap. target_gap_mse rnd p = Ok gap" if "p \<in> set h" for p
    using target_gap_mse_total [OF assms(1-3) chain_member [OF chain that] ne] .
  then have "select_loop rnd 0 None h \<noteq> Err e" for e using select_loop_Err [of rnd 0 None h e] by fastforce
  then obtain best where "select_loop rnd 0 None h = Ok best" using result_not_Err by blast
  moreover from this have "best \<noteq> None" using select_loop_Some last assms(5) by blast
  ultimately show ?thesis by (auto simp: select_choice_def)
qed

lemma loop_exhausted_total:
  assumes "ieee_rounding rnd" "criteria_doubles rnd (le_validate le)" and "ValidateConfig_validate (le_validate le) = Ok ()"
    and chain: "repair_chain le initial h" and "\<not> passes (vp_report (last h))"
  shows "if all_checks_pass (vp_report (last h)) then \<exists>r. snd (loop_exhausted rnd h (last h) n) = Some (Ok r)
    else snd (loop_exhausted rnd h (last h) n) =
      Some (Err (ValidationFailed ''validation_hard_gate_exhausted'' (vr_proposal_version (vp_report (last h)))))"
proof (cases "all_checks_pass (vp_report (last h))")
  case True
  obtain sel where sel: "select_choice rnd h = Ok sel" using select_choice_total [OF assms(1-4) True assms(5)] by blast
  have "chs_history_index sel < length h"
    using select_choice_Ok(1) [OF sel] by (auto simp: chosen_from_def choice_candidate_def)
  then show ?thesis using True sel by (simp add: loop_exhausted_def run_ok_def Let_def)
next
  case False
  have "last h \<in> set h" using repair_chain_facts [OF chain] by simp
  then obtain issues where "failed_issues (vp_report (last h)) = Some issues"
    using failed_issues_total [OF report_matches_ok [OF chain_member [OF chain]]] by blast
  then show ?thesis using False by (simp add: loop_exhausted_def run_err_def)
qed

section \<open>What the runtime relies on\<close>

lemma loop_inv_start: "loop_inv le initial [] initial 0"
  by (simp add: loop_inv_def)

lemma loop_refines:
  assumes "ValidationLoopConfig_validate (le_loop le) = Ok ()"
    and "validate_and_repair le [] initial 0 = (es, Some (Ok r))"
  shows "\<exists>h. repair_chain le initial h \<and> es = loop_events (length h) \<and> vlr_repair_rounds r = of_nat (length h - 1) \<and>
    (case vlr_status r of
       Pass \<Rightarrow> vlr_proposal r = vp_proposal (last h) \<and> vlr_report r = vp_report (last h) \<and>
         passes (vlr_report r) \<and> vlr_choice r = None
     | Choice \<Rightarrow> length h = Suc (unat (max_repair_rounds (le_loop le))) \<and> \<not> passes (vp_report (last h)) \<and>
         (\<exists>i < length h. \<exists>gap. vlr_proposal r = vp_proposal (h ! i) \<and> vlr_report r = vp_report (h ! i) \<and>
            all_checks_pass (vlr_report r) \<and> target_gap_mse (le_rnd le) (h ! i) = Ok gap \<and>
            vlr_choice r = Some \<lparr>selected_proposal_version = of_nat (i + 1), choice_target_gap_mse = gap\<rparr> \<and>
            unbeaten (le_rnd le) 0 h (choice_candidate i (h ! i) gap)))"
proof -
  obtain h where h: "repair_chain le initial h" "loop_end le h (Some (Ok r))" "es = loop_events (length h)"
    using loop_spec [OF loop_inv_start assms] by auto
  note facts = repair_chain_facts [OF h(1)]
  show ?thesis
  proof (cases "passes (vp_report (last h))")
    case True
    then show ?thesis using h by (intro exI [of _ h]) (simp add: loop_end_def)
  next
    case False
    then have len: "length h = Suc (unat (max_repair_rounds (le_loop le)))"
      and out: "snd (loop_exhausted (le_rnd le) h (last h) (of_nat (length h - 1))) = Some (Ok r)"
      using h(2) by (simp_all add: loop_end_def)
    obtain sel where sel: "select_choice (le_rnd le) h = Ok sel"
      using out by (cases "select_choice (le_rnd le) h")
        (auto simp: loop_exhausted_def run_panic_def run_err_def split: if_splits option.splits)
    obtain i gap where i: "i < length h" "all_checks_pass (vp_report (h ! i))" "target_gap_mse (le_rnd le) (h ! i) = Ok gap"
      "sel = choice_candidate i (h ! i) gap"
      using select_choice_Ok(1) [OF sel] by (auto simp: chosen_from_def)
    have r: "r = \<lparr>vlr_proposal = vp_proposal (h ! i), vlr_report = vp_report (h ! i),
        vlr_repair_rounds = of_nat (length h - 1), vlr_status = Choice,
        vlr_choice = Some \<lparr>selected_proposal_version = of_nat (i + 1), choice_target_gap_mse = gap\<rparr>\<rparr>"
      using out sel i(1) facts unfolding i(4)
      by (cases "all_checks_pass (vp_report (last h))")
        (auto simp: loop_exhausted_def run_ok_def run_panic_def run_err_def choice_candidate_def Let_def
          split: option.splits)
    show ?thesis
      using h len False i select_choice_Ok(2) [OF sel] by (intro exI [of _ h]) (auto simp: r)
  qed
qed

text \<open>
  C4. The loop implements its specification. A result belongs to a history of the transition system,
  whose stages are the events of the run. A result with status Pass is the last proposal of the
  history and passes every check and score; with status Choice the budget is used up, the last
  proposal still misses a target, and the result is a proposal of the history that passes every check
  and that no other such proposal beats (lower mean squared gap, then fewer unmet scores, then later).
\<close>

theorem validation_loop_refines:
  assumes "ValidationLoopConfig_validate (le_loop le) = Ok ()"
    and "validate_and_repair le [] initial 0 = (es, Some (Ok r))"
  shows "\<exists>h. repair_chain le initial h \<and> es = loop_events (length h) \<and> vlr_repair_rounds r = of_nat (length h - 1) \<and>
    (case vlr_status r of
       Pass \<Rightarrow> vlr_proposal r = vp_proposal (last h) \<and> vlr_report r = vp_report (last h) \<and>
         passes (vlr_report r) \<and> vlr_choice r = None
     | Choice \<Rightarrow> length h = Suc (unat (max_repair_rounds (le_loop le))) \<and> \<not> passes (vp_report (last h)) \<and>
         (\<exists>i < length h. \<exists>gap. vlr_proposal r = vp_proposal (h ! i) \<and> vlr_report r = vp_report (h ! i) \<and>
            all_checks_pass (vlr_report r) \<and> target_gap_mse (le_rnd le) (h ! i) = Ok gap \<and>
            vlr_choice r = Some \<lparr>selected_proposal_version = of_nat (i + 1), choice_target_gap_mse = gap\<rparr> \<and>
            unbeaten (le_rnd le) 0 h (choice_candidate i (h ! i) gap)))"
  by (rule loop_refines [OF assms])

lemma loop_errors:
  assumes "ValidationLoopConfig_validate (le_loop le) = Ok ()" and "ValidateConfig_validate (le_validate le) = Ok ()"
    and "ieee_rounding (le_rnd le)" and "criteria_doubles (le_rnd le) (le_validate le)"
    and "validate_and_repair le [] initial 0 = (es, out)"
  shows "out \<noteq> None \<and> length es \<le> 2 * unat (max_repair_rounds (le_loop le)) + 1 \<and>
    (\<forall>code v. out = Some (Err (ValidationFailed code v)) \<longrightarrow>
       code = ''validation_hard_gate_exhausted'' \<and> v = max_repair_rounds (le_loop le) + 1 \<and>
       (\<exists>h. repair_chain le initial h \<and> length h = Suc (unat (max_repair_rounds (le_loop le))) \<and>
          \<not> all_checks_pass (vp_report (last h))))"
  using loop_spec [OF loop_inv_start assms(1,5)]
proof (elim disjE exE conjE, goal_cases)
  case (1 h)
  let ?max = "max_repair_rounds (le_loop le)"
  note facts = repair_chain_facts [OF 1(1)]
  have es: "length es \<le> 2 * unat ?max + 1" using 1(4) facts by (auto simp: length_loop_events)
  show ?case
  proof (cases "passes (vp_report (last h))")
    case True
    then show ?thesis using 1(3) es by (simp add: loop_end_def)
  next
    case False
    note exh = loop_exhausted_total [OF assms(3,4,2) 1(1) False, of "of_nat (length h - 1)"]
    have len: "length h = Suc (unat ?max)"
      and out: "out = snd (loop_exhausted (le_rnd le) h (last h) (of_nat (length h - 1)))"
      using 1(3) False by (simp_all add: loop_end_def)
    have ver: "vr_proposal_version (vp_report (last h)) = ?max + 1"
      using facts len by (simp add: last_conv_nth)
    show ?thesis
    proof (cases "all_checks_pass (vp_report (last h))")
      case True
      then show ?thesis using exh out es by auto
    next
      case False
      then show ?thesis using exh out es ver 1(1) len by auto
    qed
  qed
qed (use loop_validate_not_failed loop_repair_not_failed in auto)

text \<open>
  C36. How the loop can fail. Under a validated configuration it never panics and makes at most one
  validation more than it makes repairs, within the budget; and a validation failure is only ever
  reported when the last proposal of a history of full length fails a check. In particular there is
  always a proposal to choose, with a score, whose metric is a number.
\<close>

theorem validation_loop_errors:
  assumes "ValidationLoopConfig_validate (le_loop le) = Ok ()" and "ValidateConfig_validate (le_validate le) = Ok ()"
    and "ieee_rounding (le_rnd le)" and "criteria_doubles (le_rnd le) (le_validate le)"
    and "validate_and_repair le [] initial 0 = (es, out)"
  shows "out \<noteq> None \<and> length es \<le> 2 * unat (max_repair_rounds (le_loop le)) + 1 \<and>
    (\<forall>code v. out = Some (Err (ValidationFailed code v)) \<longrightarrow>
       code = ''validation_hard_gate_exhausted'' \<and> v = max_repair_rounds (le_loop le) + 1 \<and>
       (\<exists>h. repair_chain le initial h \<and> length h = Suc (unat (max_repair_rounds (le_loop le))) \<and>
          \<not> all_checks_pass (vp_report (last h))))"
  by (rule loop_errors [OF assms])

end
