(* ===== verification/Runtime.thy ===== *)
theory Runtime
  imports Baseline_Stage Generate_Stage Extract_Stage Summary_Stage Validation_Safety
begin

text \<open>
  \<open>pipeline/runtime/runtime.rs\<close> and the pipeline configuration of \<open>common/config.rs\<close>: a turn is the
  composition of the ten stages. \<open>turn_env\<close> collects what the stages take from outside: the model, the
  template engine, the JSON printers and readers, the Unicode tables, the hash, the rounding of the
  hardware, the clock, and which of the two concurrent extractions fails first.
\<close>

section \<open>Configuration\<close>

record PipelineConfig =
  pcfg_baseline :: BaselineConfig
  pcfg_plan :: PlanConfig
  pcfg_think :: ThinkConfig
  pcfg_generate :: GenerateConfig
  pcfg_validate :: ValidateConfig
  pcfg_repair :: RepairConfig
  pcfg_validation_loop :: ValidationLoopConfig
  pcfg_extract :: ExtractConfig
  pcfg_summary :: SummaryConfig

definition PipelineConfig_validate :: "PipelineConfig \<Rightarrow> PipelineError + unit" where
  "PipelineConfig_validate config =
     rbind (ValidateConfig_validate (pcfg_validate config)) (\<lambda>_.
     rbind (RepairConfig_validate (pcfg_repair config)) (\<lambda>_.
     rbind (ValidationLoopConfig_validate (pcfg_validation_loop config)) (\<lambda>_.
       ExtractConfig_validate (pcfg_extract config))))"

definition PipelineConfig_default :: PipelineConfig where
  "PipelineConfig_default =
     \<lparr>pcfg_baseline = BaselineConfig_default, pcfg_plan = PlanConfig_default, pcfg_think = ThinkConfig_default,
      pcfg_generate = GenerateConfig_default, pcfg_validate = ValidateConfig_default, pcfg_repair = RepairConfig_default,
      pcfg_validation_loop = ValidationLoopConfig_default, pcfg_extract = ExtractConfig_default,
      pcfg_summary = SummaryConfig_default\<rparr>"

section \<open>The turn\<close>

record turn_env =
  tv_pipe :: pipe_env
  tv_plan_json :: "str \<Rightarrow> PlanLlmOutputDto option"
  tv_think_json :: "str \<Rightarrow> CharacterDecisionDto option"
  tv_validate_json :: "str \<Rightarrow> str + ValidateLlmOutputDto"
  tv_extract_json :: extract_json
  tv_roles_json :: "roles \<Rightarrow> json_stream"
  tv_unicode :: unicode
  tv_sha256 :: "u8 list \<Rightarrow> u8 list"
  tv_rnd :: "rat \<Rightarrow> f64"
  tv_world_first :: bool
  tv_now :: instant

fun dedup_roles :: "RoleId list \<Rightarrow> RoleId list \<Rightarrow> RoleId list" where
  "dedup_roles seen [] = []"
| "dedup_roles seen (rid # rids) =
     (if rid \<in> set seen then dedup_roles seen rids else rid # dedup_roles (rid # seen) rids)"

definition effective_role_ids :: "PlanOutput \<Rightarrow> RoleId list" where
  "effective_role_ids plan =
     dedup_roles [] (po_roles_for_generation plan @ map ctr_role_id (po_character_think_requests plan))"

definition validation_context ::
  "PlanOutput \<Rightarrow> BaselineOutput \<Rightarrow> RetrievalOutput \<Rightarrow> RoleId list \<Rightarrow> CharacterDecision list \<Rightarrow> ValidationContext" where
  "validation_context plan baseline retrieval rids decisions =
     \<lparr>vc_story_goal = po_story_goal plan, vc_player_contribution = bo_player_contribution baseline,
      vc_directions = npr_directions (bo_narrative baseline), vc_constraints = npr_constraints (bo_narrative baseline),
      vc_knowledge = bo_knowledge baseline, vc_retrieved_facts = ro_facts retrieval,
      vc_retrieved_rumors = ro_rumors retrieval, vc_role_ids = rids, vc_character_decisions = decisions\<rparr>"

definition turn_plan_input :: "BaselineOutput \<Rightarrow> PlanInput" where
  "turn_plan_input baseline =
     \<lparr>pi_player_contribution = bo_player_contribution baseline, pi_directions = npr_directions (bo_narrative baseline),
      pi_constraints = npr_constraints (bo_narrative baseline), pi_knowledge = bo_knowledge baseline\<rparr>"

definition turn_think_input :: "PlanOutput \<Rightarrow> BaselineOutput \<Rightarrow> RetrievalOutput \<Rightarrow> ThinkInput" where
  "turn_think_input plan baseline retrieval =
     \<lparr>ti_requests = po_character_think_requests plan, ti_player_contribution = bo_player_contribution baseline,
      ti_activated_rumors = ak_rumors (bo_knowledge baseline), ti_retrieved_rumors = ro_rumors retrieval\<rparr>"

definition turn_generate_input ::
  "PlanOutput \<Rightarrow> BaselineOutput \<Rightarrow> RetrievalOutput \<Rightarrow> RoleId list \<Rightarrow> CharacterDecision list \<Rightarrow> GenerateInput" where
  "turn_generate_input plan baseline retrieval rids decisions =
     \<lparr>gi_story_goal = po_story_goal plan, gi_player_contribution = bo_player_contribution baseline,
      gi_directions = npr_directions (bo_narrative baseline), gi_constraints = npr_constraints (bo_narrative baseline),
      gi_knowledge = bo_knowledge baseline, gi_retrieved_facts = ro_facts retrieval,
      gi_retrieved_rumors = ro_rumors retrieval, gi_role_ids = rids, gi_character_decisions = decisions\<rparr>"

definition turn_loop_env :: "turn_env \<Rightarrow> PipelineConfig \<Rightarrow> StoryContext \<Rightarrow> ValidationContext \<Rightarrow> loop_env" where
  "turn_loop_env te config ctx context =
     \<lparr>le_pipe = tv_pipe te, le_json = tv_validate_json te, le_rnd = tv_rnd te, le_validate = pcfg_validate config,
      le_repair = pcfg_repair config, le_loop = pcfg_validation_loop config, le_ctx = ctx, le_context = context\<rparr>"

text \<open>What the stages before generation leave for the rest of the turn.\<close>

record TurnDraft =
  td_baseline :: BaselineOutput
  td_plan :: PlanOutput
  td_retrieval :: RetrievalOutput
  td_role_ids :: "RoleId list"
  td_decisions :: "CharacterDecision list"

text \<open>Baseline, plan, retrieval and thinking.\<close>

definition draft_turn :: "turn_env \<Rightarrow> PipelineConfig \<Rightarrow> StoryContext \<Rightarrow> TurnRequest \<Rightarrow> Store \<Rightarrow> TurnDraft run" where
  "draft_turn te config ctx request store =
     run_bind (run_stage Baseline (baseline_execute (tv_pipe te) (tv_unicode te) (tv_sha256 te) (pcfg_baseline config)
       store (tr_player_input request) ctx)) (\<lambda>baseline.
     run_bind (run_stage Plan (process_story_plan (tv_pipe te) (tv_plan_json te) (pcfg_plan config)
       (turn_plan_input baseline) ctx)) (\<lambda>plan.
     run_bind (if requires_retrieval plan
               then run_stage Retrieval (retrieve ctx (po_facts_to_retrieve plan) (po_rumors_to_retrieve plan))
               else run_ok RetrievalOutput_default) (\<lambda>retrieval.
     run_bind (if requires_character_thinking plan
               then run_stage Think (think (tv_pipe te) (tv_think_json te) (pcfg_think config)
                      (turn_think_input plan baseline retrieval) ctx)
               else run_ok []) (\<lambda>decisions.
       run_ok \<lparr>td_baseline = baseline, td_plan = plan, td_retrieval = retrieval,
               td_role_ids = effective_role_ids plan, td_decisions = decisions\<rparr>))))"

text \<open>Generation, and the validation loop on the generated proposal.\<close>

definition write_turn :: "turn_env \<Rightarrow> PipelineConfig \<Rightarrow> StoryContext \<Rightarrow> TurnDraft \<Rightarrow> ValidationLoopResult run" where
  "write_turn te config ctx d =
     run_bind (run_stage Generate (generate_story (tv_pipe te) (pcfg_generate config) (quality_policy (pcfg_validate config))
       (turn_generate_input (td_plan d) (td_baseline d) (td_retrieval d) (td_role_ids d) (td_decisions d)) ctx)) (\<lambda>generated.
     run_bind (run_result (validate_generated_proposal generated (max_proposal_bytes (pcfg_repair config)))) (\<lambda>initial.
       validate_and_repair (turn_loop_env te config ctx
         (validation_context (td_plan d) (td_baseline d) (td_retrieval d) (td_role_ids d) (td_decisions d))) [] initial 0))"

text \<open>
  Extraction and summary. The store is read here a second time: other turns may have run since the
  baseline stage read it.
\<close>

definition conclude_turn ::
  "turn_env \<Rightarrow> PipelineConfig \<Rightarrow> StoryContext \<Rightarrow> TurnRequest \<Rightarrow> TurnDraft \<Rightarrow> ValidationLoopResult \<Rightarrow> Store \<Rightarrow> CommitInput run" where
  "conclude_turn te config ctx request d written store =
     run_bind (run_stage Extract (extract_execute (tv_pipe te) (tv_extract_json te) (tv_world_first te) (pcfg_extract config)
       store ctx (vlr_proposal written))) (\<lambda>extract.
     run_bind ([Summary], summary_execute (tv_pipe te) (pcfg_summary config) ctx) (\<lambda>summary.
       run_ok \<lparr>ci_player_contribution = bo_player_contribution (td_baseline d),
               ci_idempotency_key = tr_idempotency_key request, ci_turn_segment = vlr_proposal written,
               ci_knowledge_change = eo_knowledge_change extract, ci_turn_status = vlr_status written,
               ci_turn_evaluation = turn_evaluation_of written, ci_summary = summary,
               ci_narrative = eo_narrative extract, ci_life_cycle = eo_life_cycle extract\<rparr>))"

definition prepare_turn ::
  "turn_env \<Rightarrow> PipelineConfig \<Rightarrow> StoryContext \<Rightarrow> TurnRequest \<Rightarrow> Store \<Rightarrow> Store \<Rightarrow> CommitInput run" where
  "prepare_turn te config ctx request store store' =
     run_bind (draft_turn te config ctx request store) (\<lambda>d.
     run_bind (write_turn te config ctx d) (\<lambda>written.
       conclude_turn te config ctx request d written store'))"

text \<open>The commit stage, on the store as it is then.\<close>

definition commit_turn ::
  "turn_env \<Rightarrow> StoryContext \<Rightarrow> CommitInput run \<Rightarrow> Store \<Rightarrow> StoryCommit run \<times> Store" where
  "commit_turn te ctx prepared store =
     (case prepared of
        (events, None) \<Rightarrow> ((events, None), store)
      | (events, Some (Inl e)) \<Rightarrow> ((events, Some (Inl e)), store)
      | (events, Some (Inr input)) \<Rightarrow>
          (case commit_execute (tv_roles_json te) (tv_now te) input ctx store of
             (r, store') \<Rightarrow> ((events @ [Commit], Some r), store')))"

text \<open>\<open>Runtime::run_turn\<close>, when nothing else runs in between.\<close>

definition run_turn ::
  "turn_env \<Rightarrow> PipelineConfig \<Rightarrow> StoryContext \<Rightarrow> TurnRequest \<Rightarrow> Store \<Rightarrow> StoryCommit run \<times> Store" where
  "run_turn te config ctx request store = commit_turn te ctx (prepare_turn te config ctx request store store) store"

end
