(* ===== verification/Turn_Safety.thy ===== *)
theory Turn_Safety
  imports Runtime
begin

text \<open>
  What the composition of the stages guarantees: the order of the stages, the quality of the committed
  text, and which failures a turn can have. The checks one stage makes on the output of another are
  never what a turn fails on.
\<close>

section \<open>Runs\<close>

lemma run_bind_Ok_iff:
  "run_bind m f = (es, Some (Inr y)) \<longleftrightarrow>
     (\<exists>es1 x es2. m = (es1, Some (Inr x)) \<and> f x = (es2, Some (Inr y)) \<and> es = es1 @ es2)"
  by (auto simp: run_bind_def split: prod.splits option.splits sum.splits)

lemma run_bind_Err_iff:
  "run_bind m f = (es, Some (Inl e)) \<longleftrightarrow>
     m = (es, Some (Inl e)) \<or> (\<exists>es1 x es2. m = (es1, Some (Inr x)) \<and> f x = (es2, Some (Inl e)) \<and> es = es1 @ es2)"
  by (auto simp: run_bind_def split: prod.splits option.splits sum.splits)

lemma run_bind_None_iff:
  "run_bind m f = (es, None) \<longleftrightarrow>
     m = (es, None) \<or> (\<exists>es1 x es2. m = (es1, Some (Inr x)) \<and> f x = (es2, None) \<and> es = es1 @ es2)"
  by (auto simp: run_bind_def split: prod.splits option.splits sum.splits)

lemma run_stage_eq: "run_stage s r = (es, out) \<longleftrightarrow> es = [s] \<and> Some r = out"
  by (auto simp: run_stage_def)

lemma run_ok_eq: "run_ok x = (es, out) \<longleftrightarrow> es = [] \<and> Some (Ok x) = out"
  by (auto simp: run_ok_def)

lemma run_result_eq: "run_result r = (es, out) \<longleftrightarrow> es = [] \<and> Some r = out"
  by (auto simp: run_result_def)

lemmas run_simps = run_bind_Ok_iff run_stage_eq run_ok_eq run_result_eq

section \<open>Roles of a turn\<close>

lemma dedup_roles_spec: "distinct (dedup_roles seen rids) \<and> set (dedup_roles seen rids) = set rids - set seen"
  by (induction seen rids rule: dedup_roles.induct) auto

definition ctx_wf :: "StoryContext \<Rightarrow> bool" where
  "ctx_wf ctx \<longleftrightarrow> roles_keyed (ctx_roles ctx) \<and> bm_contains (ctx_roles ctx) (ctx_player ctx)"

lemma effective_roles:
  assumes "plan_ok ctx known config plan"
  shows "distinct (effective_role_ids plan)" and "\<forall>rid \<in> set (effective_role_ids plan). role_offered ctx rid"
    and "ctr_role_id ` set (po_character_think_requests plan) \<subseteq> set (effective_role_ids plan)"
  using assms dedup_roles_spec
  by (auto simp: effective_role_ids_def plan_ok_def)

lemma process_story_plan_Ok:
  "process_story_plan env from_json config input ctx = Ok plan \<Longrightarrow> plan_ok ctx (pi_knowledge input) config plan"
  by (auto simp: process_story_plan_def Let_def result_simps dest: plan_parsed_ok)

lemma think_Ok:
  assumes "plan_ok ctx known plan_config plan" and "ti_requests input = po_character_think_requests plan"
    and "think env from_json config input ctx = Ok ds"
  shows "map cd_role_id ds = map ctr_role_id (po_character_think_requests plan)"
  using think_plan_results [OF assms(1,2), of env from_json config] assms(3) by simp

lemma draft_turn_Ok:
  assumes "draft_turn te config ctx request store = (es, Some (Ok d))"
  shows "plan_ok ctx (bo_knowledge (td_baseline d)) (pcfg_plan config) (td_plan d)"
    and "td_role_ids d = effective_role_ids (td_plan d)"
    and "map cd_role_id (td_decisions d) = map ctr_role_id (po_character_think_requests (td_plan d))"
    and "es = [Baseline, Plan] @ (if requires_retrieval (td_plan d) then [Retrieval] else []) @
      (if requires_character_thinking (td_plan d) then [Think] else [])"
proof -
  obtain baseline plan retrieval decisions es1 es2
    where plan: "process_story_plan (tv_pipe te) (tv_plan_json te) (pcfg_plan config) (turn_plan_input baseline) ctx = Ok plan"
      and r: "(if requires_retrieval plan
          then run_stage Retrieval (retrieve ctx (po_facts_to_retrieve plan) (po_rumors_to_retrieve plan))
          else run_ok RetrievalOutput_default) = (es1, Some (Ok retrieval))"
      and t: "(if requires_character_thinking plan
          then run_stage Think (think (tv_pipe te) (tv_think_json te) (pcfg_think config)
            (turn_think_input plan baseline retrieval) ctx)
          else run_ok []) = (es2, Some (Ok decisions))"
      and d: "d = \<lparr>td_baseline = baseline, td_plan = plan, td_retrieval = retrieval,
          td_role_ids = effective_role_ids plan, td_decisions = decisions\<rparr>"
      and es: "es = [Baseline, Plan] @ es1 @ es2"
    using assms unfolding draft_turn_def run_bind_Ok_iff run_stage_eq run_ok_eq by auto
  show ok: "plan_ok ctx (bo_knowledge (td_baseline d)) (pcfg_plan config) (td_plan d)"
    using process_story_plan_Ok [OF plan] by (simp add: d turn_plan_input_def)
  show "td_role_ids d = effective_role_ids (td_plan d)" by (simp add: d)
  show "map cd_role_id (td_decisions d) = map ctr_role_id (po_character_think_requests (td_plan d))"
    using t think_Ok [OF ok [unfolded d, simplified], of "turn_think_input plan baseline retrieval"]
    by (auto simp: d run_simps turn_think_input_def requires_character_thinking_def split: if_splits)
  show "es = [Baseline, Plan] @ (if requires_retrieval (td_plan d) then [Retrieval] else []) @
      (if requires_character_thinking (td_plan d) then [Think] else [])"
    using r t by (auto simp: es d run_simps split: if_splits)
qed

abbreviation draft_loop :: "turn_env \<Rightarrow> PipelineConfig \<Rightarrow> StoryContext \<Rightarrow> TurnDraft \<Rightarrow> loop_env" where
  "draft_loop te config ctx d \<equiv> turn_loop_env te config ctx
     (validation_context (td_plan d) (td_baseline d) (td_retrieval d) (td_role_ids d) (td_decisions d))"

lemma write_turn_Ok:
  assumes "write_turn te config ctx d = (es, Some (Ok written))"
  obtains initial es' where "proposal_ok (max_proposal_bytes (pcfg_repair config)) initial"
    "validate_and_repair (draft_loop te config ctx d) [] initial 0 = (es', Some (Ok written))" "es = Generate # es'"
proof -
  obtain initial es' where "trim initial \<noteq> []" "str_len initial \<le> max_proposal_bytes (pcfg_repair config)"
    "validate_and_repair (draft_loop te config ctx d) [] initial 0 = (es', Some (Ok written))" "es = Generate # es'"
    using assms by (auto simp: write_turn_def run_simps validate_generated_proposal_def split: if_splits)
  then show thesis using that by (simp add: proposal_ok_def)
qed

section \<open>The text of a turn\<close>

lemma chain_proposals_ok:
  assumes "repair_chain le initial h" and "proposal_ok (max_proposal_bytes (le_repair le)) initial"
  shows "\<forall>x \<in> set h. proposal_ok (max_proposal_bytes (le_repair le)) (vp_proposal x)"
  using assms by (induction rule: repair_chain.induct) (auto simp: loop_repair_def dest: repair_Ok)

lemma loop_config_valid:
  "PipelineConfig_validate config = Ok u \<Longrightarrow>
     ValidationLoopConfig_validate (pcfg_validation_loop config) = Ok () \<and> ValidateConfig_validate (pcfg_validate config) = Ok ()"
  by (auto simp: PipelineConfig_validate_def result_simps)

lemma turn_loop_env_simps [simp]:
  "le_loop (turn_loop_env te config ctx context) = pcfg_validation_loop config"
  "le_repair (turn_loop_env te config ctx context) = pcfg_repair config"
  "le_validate (turn_loop_env te config ctx context) = pcfg_validate config"
  "le_rnd (turn_loop_env te config ctx context) = tv_rnd te"
  by (simp_all add: turn_loop_env_def)

lemma max_rounds_word: "length h = Suc (unat m) \<Longrightarrow> of_nat (length h - 1) = m" for m :: u32
  by simp

text \<open>What every result of the loop has in common.\<close>

lemma accepted_result:
  assumes "ValidationLoopConfig_validate (le_loop le) = Ok ()"
    and "validate_and_repair le [] initial 0 = (es, Some (Ok r))"
    and "proposal_ok (max_proposal_bytes (le_repair le)) initial"
  shows "proposal_ok (max_proposal_bytes (le_repair le)) (vlr_proposal r)" and "all_checks_pass (vlr_report r)"
    and "vlr_status r = Pass \<Longrightarrow> all_scores_meet_target (vlr_report r) \<and> vlr_choice r = None"
    and "vlr_status r = Choice \<Longrightarrow> vlr_repair_rounds r = max_repair_rounds (le_loop le) \<and>
      (\<exists>gap. vlr_choice r = Some \<lparr>selected_proposal_version = vr_proposal_version (vlr_report r), choice_target_gap_mse = gap\<rparr>)"
    and "\<exists>n \<le> unat (max_repair_rounds (le_loop le)). es = loop_events (Suc n) \<and> vlr_repair_rounds r = of_nat n"
proof -
  obtain h where h: "repair_chain le initial h" "es = loop_events (length h)" "vlr_repair_rounds r = of_nat (length h - 1)"
    and res: "case vlr_status r of
       Pass \<Rightarrow> vlr_proposal r = vp_proposal (last h) \<and> vlr_report r = vp_report (last h) \<and>
         passes (vlr_report r) \<and> vlr_choice r = None
     | Choice \<Rightarrow> length h = Suc (unat (max_repair_rounds (le_loop le))) \<and> \<not> passes (vp_report (last h)) \<and>
         (\<exists>i < length h. \<exists>gap. vlr_proposal r = vp_proposal (h ! i) \<and> vlr_report r = vp_report (h ! i) \<and>
            all_checks_pass (vlr_report r) \<and> target_gap_mse (le_rnd le) (h ! i) = Ok gap \<and>
            vlr_choice r = Some \<lparr>selected_proposal_version = of_nat (i + 1), choice_target_gap_mse = gap\<rparr> \<and>
            unbeaten (le_rnd le) 0 h (choice_candidate i (h ! i) gap))"
    using loop_refines [OF assms(1,2)] by auto
  note facts = repair_chain_facts [OF h(1)] and ok = chain_proposals_ok [OF h(1) assms(3)]
  obtain i where i: "i < length h" "vlr_proposal r = vp_proposal (h ! i)" "vlr_report r = vp_report (h ! i)"
    and checks: "all_checks_pass (vlr_report r)"
    and choice: "vlr_status r = Choice \<Longrightarrow>
      \<exists>gap. vlr_choice r = Some \<lparr>selected_proposal_version = of_nat (i + 1), choice_target_gap_mse = gap\<rparr>"
  proof (cases "vlr_status r")
    case Pass
    then show thesis using that [of "length h - 1"] res facts by (auto simp: last_conv_nth passes_def)
  next
    case Choice
    then obtain i gap where "i < length h" "vlr_proposal r = vp_proposal (h ! i)" "vlr_report r = vp_report (h ! i)"
      "all_checks_pass (vlr_report r)"
      "vlr_choice r = Some \<lparr>selected_proposal_version = of_nat (i + 1), choice_target_gap_mse = gap\<rparr>" using res by auto
    then show thesis using that [of i] by blast
  qed
  show "proposal_ok (max_proposal_bytes (le_repair le)) (vlr_proposal r)" using ok i(1,2) by simp
  show "all_checks_pass (vlr_report r)" by (rule checks)
  show "vlr_status r = Pass \<Longrightarrow> all_scores_meet_target (vlr_report r) \<and> vlr_choice r = None"
    using res by (auto simp: passes_def)
  show "vlr_repair_rounds r = max_repair_rounds (le_loop le) \<and>
      (\<exists>gap. vlr_choice r = Some \<lparr>selected_proposal_version = vr_proposal_version (vlr_report r), choice_target_gap_mse = gap\<rparr>)"
    if "vlr_status r = Choice"
    using choice [OF that] res that facts i h(3) by simp
  show "\<exists>n \<le> unat (max_repair_rounds (le_loop le)). es = loop_events (Suc n) \<and> vlr_repair_rounds r = of_nat n"
    using h facts by (intro exI [of _ "length h - 1"]) (cases h; auto)
qed

lemma conclude_turn_Ok:
  assumes "conclude_turn te config ctx request d written store = (es, Some (Ok input))"
  shows "es = [Extract, Summary]" and "ci_turn_segment input = vlr_proposal written"
    and "ci_turn_status input = vlr_status written" and "ci_turn_evaluation input = turn_evaluation_of written"
    and "ci_idempotency_key input = tr_idempotency_key request"
    and "summary_execute (tv_pipe te) (pcfg_summary config) ctx = Some (Ok (ci_summary input))"
    and "\<exists>out. extract_execute (tv_pipe te) (tv_extract_json te) (tv_world_first te) (pcfg_extract config) store ctx
      (vlr_proposal written) = Ok out \<and> ci_knowledge_change input = eo_knowledge_change out \<and>
      ci_narrative input = eo_narrative out \<and> ci_life_cycle input = eo_life_cycle out"
  using assms by (auto simp: conclude_turn_def run_simps)

lemma prepare_turn_Ok:
  assumes "prepare_turn te config ctx request store store' = (es, Some (Ok input))"
  obtains d written es1 es2 where "draft_turn te config ctx request store = (es1, Some (Ok d))"
    "write_turn te config ctx d = (es2, Some (Ok written))"
    "conclude_turn te config ctx request d written store' = ([Extract, Summary], Some (Ok input))"
    "es = es1 @ es2 @ [Extract, Summary]"
proof -
  obtain d written es1 es2 es3 where "draft_turn te config ctx request store = (es1, Some (Ok d))"
    "write_turn te config ctx d = (es2, Some (Ok written))"
    and c: "conclude_turn te config ctx request d written store' = (es3, Some (Ok input))" and "es = es1 @ es2 @ es3"
    using assms unfolding prepare_turn_def run_bind_Ok_iff by auto
  then show thesis using that conclude_turn_Ok(1) [OF c] by simp
qed

text \<open>
  C6. Only text that passed is committed: whatever the model answers, the segment of a prepared turn is
  not blank and within the configured size, its evaluation passes every hard check, and either every
  score meets its target (status Pass) or every repair round was used and the choice names the
  version that was taken (status Choice).
\<close>

theorem turn_text_accepted:
  assumes "PipelineConfig_validate config = Ok ()"
    and "prepare_turn te config ctx request store store' = (es, Some (Ok input))"
    and "ev = ci_turn_evaluation input"
  shows "proposal_ok (max_proposal_bytes (pcfg_repair config)) (ci_turn_segment input) \<and>
    list_all tce_passed (te_checks ev) \<and>
    (case ci_turn_status input of
       Pass \<Rightarrow> list_all (\<lambda>s. f_le (tse_target_score s) (tse_score s)) (te_scores ev) \<and> te_choice ev = None
     | Choice \<Rightarrow> te_repair_rounds ev = max_repair_rounds (pcfg_validation_loop config) \<and>
         (\<exists>gap. te_choice ev = Some \<lparr>selected_proposal_version = te_proposal_version ev, choice_target_gap_mse = gap\<rparr>))"
proof -
  obtain d written es2 where w: "write_turn te config ctx d = (es2, Some (Ok written))"
    and c: "conclude_turn te config ctx request d written store' = ([Extract, Summary], Some (Ok input))"
    using assms(2) by (rule prepare_turn_Ok)
  obtain initial es' where ok: "proposal_ok (max_proposal_bytes (pcfg_repair config)) initial"
    and loop: "validate_and_repair (draft_loop te config ctx d) [] initial 0 = (es', Some (Ok written))"
    using w by (rule write_turn_Ok)
  note R = accepted_result [OF _ loop, simplified, OF conjunct1 [OF loop_config_valid [OF assms(1)]] ok]
  show ?thesis
    using R(1-4) by (cases "vlr_status written")
      (auto simp: assms(3) conclude_turn_Ok(2-4) [OF c] turn_evaluation_of_def all_checks_pass_def
        all_scores_meet_target_def list.pred_map comp_def)
qed


section \<open>How a turn can fail\<close>

text \<open>The data a stage receives is refused only for its size.\<close>

definition size_codes :: "string list" where
  "size_codes = [''plan_player_role_context_too_large'', ''think_profile_too_long'', ''think_backstory_too_long'',
     ''generate_role_projection_too_large'', ''generate_role_context_too_large'', ''generate_decision_context_too_large'']"

definition expected :: "PipelineError \<Rightarrow> bool" where
  "expected e \<longleftrightarrow>
     (case e of
        InconsistentData stage code \<Rightarrow> code \<in> set size_codes
      | ValidationFailed code version \<Rightarrow> code = ''validation_hard_gate_exhausted''
      | _ \<Rightarrow> True)"

lemma expected_simps [simp]:
  "expected (PipelineLlm s a)" "expected (PipelinePrompt s b)" "expected (PipelinePersistence s c)"
  "expected (PipelineNarrative s d)" "expected (EmptyOutput s)" "expected (InvalidOutput s code)" "expected (InvalidConfig s code)"
  by (simp_all add: expected_def)

lemma render_expected: "render env stage i vars = Err e \<Longrightarrow> expected e"
  by (auto simp: render_def result_simps)

lemma complete_expected: "complete env stage call msgs = Err e \<Longrightarrow> expected e"
  by (auto simp: complete_def result_simps)

lemma baseline_expected: "baseline_execute env u sha config store input ctx = Err e \<Longrightarrow> expected e"
  by (auto simp: baseline_execute_def process_player_input_def result_simps render_expected complete_expected)

lemma plan_expected:
  assumes "bm_contains (ctx_roles ctx) (ctx_player ctx)" and "process_story_plan env from_json config input ctx = Err e"
  shows "expected e"
proof -
  obtain player where "bm_get (ctx_roles ctx) (ctx_player ctx) = Some player"
    using assms(1) by (auto simp: bm_contains_def)
  then have "plan_prompt env ctx input c player cat config = Err e \<or> complete env Plan CallPlan msgs = Err e \<or>
      parse_plan_output from_json raw c cat (role_id player) config = Err e \<Longrightarrow> expected e" for c cat msgs raw
    by (auto simp: plan_prompt_def player_role_text_def Let_def result_simps expected_def [of "InconsistentData _ _"] size_codes_def
        parse_plan_output_def validate_fact_ids_def validate_rumor_ids_def validate_generation_roles_def
        validate_character_think_requests_def validate_think_request_def render_expected complete_expected
        split: if_splits dest!: distinct_check_Err distinct_map_Err)
  then show ?thesis
    using assms(2) \<open>bm_get _ _ = Some player\<close>
    by (auto simp: process_story_plan_def resolve_player_role_def Let_def result_simps)
qed

lemma decide_expected: "decide_role env from_json config input ctx r role = Err e \<Longrightarrow> expected e"
  by (auto simp: decide_role_def character_decision_prompt_def think_validate_context_def parse_character_decision_def
      think_bounded_def Let_def result_simps expected_def [of "InconsistentData _ _"] size_codes_def
      render_expected complete_expected split: if_splits option.splits elim!: opt_transpose.elims)

lemma think_expected:
  assumes "plan_ok ctx known plan_config plan" and "ti_requests input = po_character_think_requests plan"
    and "think env from_json config input ctx = Err e"
  shows "expected e"
  using think_plan_results [OF assms(1,2), of env from_json config] assms(3) decide_expected by auto

lemma size_expected: "code \<in> set size_codes \<Longrightarrow> expected (InconsistentData stage code)"
  by (simp add: expected_def)

lemma render_role_expected: "render_role env config role = Err e \<Longrightarrow> expected e"
  by (auto simp: render_role_def Let_def result_simps size_codes_def split: if_splits intro!: size_expected)

lemma generate_expected:
  assumes "check_role_context ctx (gi_role_ids input) (gi_character_decisions input) = Ok (player, rs)"
    and "generate_story env config policy input ctx = Err e"
  shows "expected e"
proof -
  have "expected e" if "render_roles env config rs = Err e"
    using that render_role_expected
    by (auto simp: render_roles_def render_roles_step_def result_simps dest!: try_fold_Err)
  moreover have "expected e" if "render_decisions env config (gi_character_decisions input) = Err e"
    using that by (auto simp: render_decisions_def render_decisions_step_def Let_def size_codes_def split: if_splits
        dest!: try_fold_Err intro!: size_expected)
  moreover have "expected e" if "validate_aggregate_role_context p t config = Err e" for p t
    using that by (auto simp: validate_aggregate_role_context_def Let_def size_codes_def split: if_splits intro!: size_expected)
  ultimately show ?thesis
    using assms render_role_expected render_expected complete_expected
    by (auto simp: generate_story_def project_role_context_def result_simps)
qed

lemma allocate_loop_not_Err: "allocate_loop field failed pre turn taken seq \<noteq> Err e"
  using allocate_loop_Ok [of seq field failed pre turn taken] by auto

lemma fact_step_expected: "fact_proposal_step ctx turn s p = Err e \<Longrightarrow> expected e"
  by (cases p) (auto simp: result_simps allocate_defs allocate_loop_not_Err validate_activation_rule_def split: if_splits)

lemma rumor_step_expected: "rumor_proposal_step ctx turn s p = Err e \<Longrightarrow> expected e"
  by (cases p) (auto simp: result_simps allocate_defs allocate_loop_not_Err validate_activation_rule_def split: if_splits)

lemma memory_step_expected: "memory_proposal_step ctx rid role turn s p = Err e \<Longrightarrow> expected e"
  by (cases p) (auto simp: result_simps allocate_defs allocate_loop_not_Err validate_activation_rule_def split: if_splits)

lemma memory_roles_expected: "check_memory_roles ctx seen rids = Err e \<Longrightarrow> expected e"
  by (induction rids arbitrary: seen) (auto split: if_splits)

lemma resolve_world_expected: "resolve_world_knowledge ctx config facts rumors rids = Err e \<Longrightarrow> expected e"
  by (auto simp: resolve_world_knowledge_def result_simps Let_def split: if_splits
      dest!: try_fold_Err intro: fact_step_expected rumor_step_expected memory_roles_expected)

lemma resolve_memories_expected: "resolve_role_memories ctx config rid ps = Err e \<Longrightarrow> expected e"
  by (auto simp: resolve_role_memories_def result_simps split: if_splits dest!: try_fold_Err intro: memory_step_expected)

lemma extract_memories_expected: "extract_role_memories env from_json config ctx proposal rids = Err e \<Longrightarrow> expected e"
  by (auto simp: extract_role_memories_def extract_role_memory_def prompt_extract_role_memory_def project_role_memories_def
      parse_role_memory_def result_simps split: if_splits dest!: try_map_Err_mem
      intro: render_expected complete_expected resolve_memories_expected)

lemma evaluate_narrative_expected: "evaluate_narrative env from_json pack ctx proposal = Err e \<Longrightarrow> expected e"
  by (auto simp: evaluate_narrative_def evaluate_narrative_queries_def prompt_evaluate_narrative_def
      parse_narrative_evaluations_def evaluation_step_def result_simps split: if_splits dest!: try_fold_Err
      intro: render_expected complete_expected)

lemma extract_world_expected: "extract_world_knowledge env from_json config ctx proposal = Err e \<Longrightarrow> expected e"
  by (auto simp: extract_world_knowledge_def prompt_extract_world_knowledge_def parse_world_knowledge_def result_simps
      intro: render_expected complete_expected resolve_world_expected)

lemma try_join_Err: "try_join b x y = Err e \<Longrightarrow> x = Err e \<or> y = Err e"
  by (cases x; cases y) (auto split: if_splits)

lemma extract_expected: "extract_execute env from_json b config store ctx proposal = Err e \<Longrightarrow> expected e"
  by (auto simp: extract_execute_def ExtractConfig_validate_def result_simps dest!: try_join_Err
      intro: evaluate_narrative_expected extract_world_expected extract_memories_expected)

lemma summary_expected: "summary_execute env config ctx = Some (Err e) \<Longrightarrow> expected e"
  by (auto simp: summary_execute_def summarize_story_def Let_def result_simps split: if_splits
      intro: render_expected complete_expected)

text \<open>The validation loop, when the roles of the turn exist.\<close>

definition loop_roles :: "loop_env \<Rightarrow> bool" where
  "loop_roles le \<longleftrightarrow> bm_contains (ctx_roles (le_ctx le)) (ctx_player (le_ctx le)) \<and>
     (\<forall>rid \<in> set (vc_role_ids (le_context le)). bm_contains (ctx_roles (le_ctx le)) rid)"

lemma loop_evidence:
  assumes "loop_roles le"
  shows "\<exists>vars. project_validation_evidence (le_pipe le) stage (le_ctx le) (le_context le) = Ok vars"
  using project_validation_evidence_Ok [of "le_ctx le" "le_context le"] assms by (simp add: loop_roles_def)

lemma parse_validation_report_expected:
  "parse_validation_report from_json raw version policy n = Err e \<Longrightarrow> expected e"
  by (auto simp: parse_validation_report_def validate_returned_names_def validate_name_kind_def Let_def result_simps
      check_result_def score_result_def validate_issue_def BoundedText_try_new_def
      split: if_splits option.splits bool.splits dest!: distinct_check_Err take_results_Err)

lemma loop_validate_expected:
  assumes "loop_roles le" and "loop_validate le p v r = Err e"
  shows "expected e"
proof -
  obtain vars where "project_validation_evidence (le_pipe le) Validate (le_ctx le) (le_context le) = Ok vars"
    using loop_evidence [OF assms(1)] by blast
  then show ?thesis
    using assms(2) parse_validation_report_expected render_expected complete_expected
    by (auto simp: loop_validate_def validate_evaluate_def evaluate_prompt_def result_simps)
qed

lemma loop_repair_expected:
  assumes "loop_roles le" and "loop_repair le l is r = Err e"
  shows "expected e"
proof -
  obtain vars where "project_validation_evidence (le_pipe le) Repair (le_ctx le) (le_context le) = Ok vars"
    using loop_evidence [OF assms(1)] by blast
  then show ?thesis
    using assms(2) render_expected complete_expected
    by (auto simp: loop_repair_def repair_def repair_prompt_def validate_repaired_proposal_def result_simps split: if_splits)
qed

lemma loop_expected:
  assumes "loop_roles le" and "ValidationLoopConfig_validate (le_loop le) = Ok ()"
    and "ValidateConfig_validate (le_validate le) = Ok ()"
    and "ieee_rounding (le_rnd le)" and "criteria_doubles (le_rnd le) (le_validate le)"
    and "validate_and_repair le [] initial 0 = (es, Some (Err e))"
  shows "expected e"
  using loop_spec [OF loop_inv_start assms(2,6)]
proof (elim disjE exE conjE, goal_cases)
  case (1 h)
  then have np: "\<not> passes (vp_report (last h))"
    and out: "Some (Err e) = snd (loop_exhausted (le_rnd le) h (last h) (of_nat (length h - 1)))"
    by (auto simp: loop_end_def split: if_splits)
  then show ?case
    using loop_exhausted_total [OF assms(4,5,3) 1(1) np, of "of_nat (length h - 1)"]
    by (auto simp: expected_def split: if_splits)
qed (use loop_validate_expected [OF assms(1)] loop_repair_expected [OF assms(1)] in auto)

lemma draft_roles:
  assumes "ctx_wf ctx" and "draft_turn te config ctx request store = (es, Some (Ok d))"
  shows "loop_roles (draft_loop te config ctx d)"
    and "\<exists>player rs. check_role_context ctx (td_role_ids d) (td_decisions d) = Ok (player, rs)"
proof -
  note D = draft_turn_Ok [OF assms(2)]
  note E = effective_roles [OF D(1)]
  have ids: "distinct (map cd_role_id (td_decisions d))" "cd_role_id ` set (td_decisions d) \<subseteq> set (td_role_ids d)"
  proof -
    have "cd_role_id ` set (td_decisions d) = ctr_role_id ` set (po_character_think_requests (td_plan d))"
      using D(3) by (metis list.set_map)
    then show "cd_role_id ` set (td_decisions d) \<subseteq> set (td_role_ids d)" using E(3) D(2) by simp
    show "distinct (map cd_role_id (td_decisions d))" using D(1,3) by (simp add: plan_ok_def)
  qed
  show "loop_roles (draft_loop te config ctx d)"
    using assms(1) E(2) D(2)
    by (simp add: loop_roles_def turn_loop_env_def validation_context_def ctx_wf_def role_offered_def)
  show "\<exists>player rs. check_role_context ctx (td_role_ids d) (td_decisions d) = Ok (player, rs)"
    using check_role_context_Ok [of ctx "td_role_ids d" "td_decisions d"] assms(1) E(1,2) D(2) ids by (simp add: ctx_wf_def)
qed

lemma draft_turn_errors:
  assumes "ctx_wf ctx" and "draft_turn te config ctx request store = (es, out)"
  shows "out \<noteq> None" and "out = Some (Err e) \<Longrightarrow> expected e"
proof -
  have player: "bm_contains (ctx_roles ctx) (ctx_player ctx)" using assms(1) by (simp add: ctx_wf_def)
  let ?plan = "\<lambda>baseline. process_story_plan (tv_pipe te) (tv_plan_json te) (pcfg_plan config) (turn_plan_input baseline) ctx"
  have retr: "retrieve ctx (po_facts_to_retrieve plan) (po_rumors_to_retrieve plan) \<noteq> Err e"
    if "?plan baseline = Ok plan" for baseline plan
    using retrieve_plan_ok [OF process_story_plan_Ok [OF that]] by simp
  have thought: "expected e" if "?plan baseline = Ok plan"
    "think (tv_pipe te) (tv_think_json te) (pcfg_think config) (turn_think_input plan baseline retrieval) ctx = Err e"
    for baseline plan retrieval
    using think_expected [OF process_story_plan_Ok [OF that(1)] _ that(2)] by (simp add: turn_think_input_def)
  show "out \<noteq> None"
  proof
    assume "out = None"
    then show False
      using assms(2) by (auto simp: draft_turn_def run_bind_None_iff run_stage_eq run_ok_eq split: if_splits)
  qed
  assume "out = Some (Err e)"
  then show "expected e"
    using assms(2) retr thought baseline_expected plan_expected [OF player]
    by (auto simp: draft_turn_def run_bind_Err_iff run_stage_eq run_ok_eq split: if_splits)
qed

lemma write_turn_errors:
  assumes "ctx_wf ctx" and "draft_turn te config ctx request store = (es0, Some (Ok d))"
    and "PipelineConfig_validate config = Ok ()" and "ieee_rounding (tv_rnd te)"
    and "criteria_doubles (tv_rnd te) (pcfg_validate config)" and "write_turn te config ctx d = (es, out)"
  shows "out \<noteq> None" and "out = Some (Err e) \<Longrightarrow> expected e"
proof -
  note cfg = loop_config_valid [OF assms(3)] and roles = draft_roles [OF assms(1,2)]
  let ?le = "draft_loop te config ctx d"
  have loop: "validate_and_repair ?le [] initial 0 \<noteq> (es', None)" for initial es'
    using loop_errors [of ?le initial es' None] cfg assms(4,5) by auto
  have loop_err: "expected e" if "validate_and_repair ?le [] initial 0 = (es', Some (Err e))" for initial es'
    using loop_expected [OF roles(1) _ _ _ _ that] cfg assms(4,5) by simp
  have gen: "expected e"
    if "generate_story env gc policy (turn_generate_input (td_plan d) (td_baseline d) (td_retrieval d) (td_role_ids d)
      (td_decisions d)) ctx = Err e" for env gc policy
    using roles(2) generate_expected [OF _ that] by (auto simp: turn_generate_input_def)
  show "out \<noteq> None"
  proof
    assume "out = None"
    then show False
      using assms(6) loop by (auto simp: write_turn_def run_bind_None_iff run_stage_eq run_result_eq)
  qed
  assume "out = Some (Err e)"
  then show "expected e"
    using assms(6) gen loop_err
    by (auto simp: write_turn_def run_bind_Err_iff run_stage_eq run_result_eq validate_generated_proposal_def split: if_splits)
qed

text \<open>
  C7. How a turn can fail. On a well-formed context and under a validated configuration a turn never
  panics; the consistency checks the stages make on each other's output only ever refuse data for its
  size, and the validation loop only gives up when a hard check still fails after the last repair.
  Every other failure comes from the model, the templates, the store, or an answer that was refused.
\<close>

theorem turn_failures:
  assumes "ctx_wf ctx" and "PipelineConfig_validate config = Ok ()" and "ieee_rounding (tv_rnd te)"
    and "criteria_doubles (tv_rnd te) (pcfg_validate config)"
    and "prepare_turn te config ctx request store store' = (es, out)"
  shows "out \<noteq> None \<and> (\<forall>e. out = Some (Err e) \<longrightarrow> expected e)"
proof -
  note draft = draft_turn_errors [OF assms(1)]
  note writing = write_turn_errors [OF assms(1) _ assms(2-4)]
  have concl: "conclude_turn te config ctx request d written store' \<noteq> (es', None) \<and>
      (conclude_turn te config ctx request d written store' = (es', Some (Err e)) \<longrightarrow> expected e)" for d written es' e
    using summary_returns [of "tv_pipe te" "pcfg_summary config" ctx] extract_expected summary_expected
    by (auto simp: conclude_turn_def run_bind_None_iff run_bind_Err_iff run_stage_eq run_ok_eq)
  show ?thesis
  proof (intro conjI allI impI notI)
    assume "out = None"
    moreover have "draft_turn te config ctx request store \<noteq> (es', None)" for es'
      using draft(1) [of te config request store es' None] by auto
    moreover have "write_turn te config ctx d \<noteq> (es', None)"
      if "draft_turn te config ctx request store = (es1, Some (Ok d))" for es1 d es'
      using writing(1) [OF that, of es' None] by auto
    ultimately show False using assms(5) concl by (auto simp: prepare_turn_def run_bind_None_iff)
  next
    fix e assume "out = Some (Err e)"
    then show "expected e" using assms(5) draft(2) writing(2) concl
      by (auto simp: prepare_turn_def run_bind_Err_iff)
  qed
qed

end
