(* ===== verification/Engine.thy ===== *)
theory Engine
  imports Turn_Safety
begin

text \<open>
  \<open>engine/engine.rs\<close>, \<open>engine/factory.rs\<close>, \<open>engine/error.rs\<close>: stories are created from validated packs, turns
  are run on active stories. The engine has no state of its own besides the store.
\<close>

section \<open>Errors\<close>

datatype EngineError =
    StoryNotActive StoryLifeCycle
  | Dependency str
  | EngineCore CoreError
  | EngineStory StoryError
  | EngineNarrative NarrativeError
  | EnginePersistence PersistenceError
  | EnginePrompt PromptError
  | EngineLlm LlmError
  | EnginePipeline PipelineError
  | NotInitialized

section \<open>Freezing a story (\<open>factory.rs\<close>)\<close>

datatype RoleActorSpec = ActorDefault | ActorCard CharacterCard

record StoryCreationSpec =
  scs_story_pack :: StoryPack
  scs_cast :: "(RoleId, RoleActorSpec) bmap"
  scs_player_id :: PlayerId
  scs_player_role :: RoleId

definition validate_cast :: "StoryPack \<Rightarrow> RoleId \<Rightarrow> (RoleId, RoleActorSpec) bmap \<Rightarrow> StoryError + unit" where
  "validate_cast pack player_role cast =
     (if \<not> bm_contains (playable_roles (sp_play pack)) player_role then Err (RoleNotPlayable player_role)
      else case find (\<lambda>rid. \<not> bm_contains (sp_roles pack) rid) (bm_keys cast) of
             Some rid \<Rightarrow> Err (UnknownRole ''cast'' rid)
           | None \<Rightarrow> Ok ())"

text \<open>\<open>cast.remove(role_id)\<close>: every role is looked up once, so the removal is a lookup.\<close>

definition freeze_profile :: "(RoleId, RoleActorSpec) bmap \<Rightarrow> RoleId \<Rightarrow> SeedRole \<Rightarrow> CharacterProfile" where
  "freeze_profile cast rid seed =
     (case bm_get cast rid of
        Some (ActorCard c) \<Rightarrow> cc_profile c
      | Some ActorDefault \<Rightarrow> sr_default_profile seed
      | None \<Rightarrow> sr_default_profile seed)"

definition freeze_roles :: "StoryPack \<Rightarrow> (RoleId, RoleActorSpec) bmap \<Rightarrow> roles" where
  "freeze_roles pack cast =
     bm_map (\<lambda>rid seed.
       \<lparr>role_id = rid, role_origin = Seed, role_spec = sr_spec seed, role_profile = freeze_profile cast rid seed,
        role_memories = bm_map (\<lambda>i body. \<lparr>me_id = i, me_origin = Seed, me_body = body\<rparr>) (sr_seed_memories seed)\<rparr>)
       (sp_roles pack)"

definition freeze_facts :: "StoryPack \<Rightarrow> (FactId, FactEntry) bmap" where
  "freeze_facts pack = bm_map (\<lambda>i body. \<lparr>fe_id = i, fe_origin = Seed, fe_body = body\<rparr>) (sp_seed_facts pack)"

definition freeze_rumors :: "StoryPack \<Rightarrow> (RumorId, RumorEntry) bmap" where
  "freeze_rumors pack = bm_map (\<lambda>i body. \<lparr>re_id = i, re_origin = Seed, re_body = body\<rparr>) (sp_seed_rumors pack)"

definition freeze_story ::
  "digest_env \<Rightarrow> (roles \<Rightarrow> json_stream) \<Rightarrow> StoryId \<Rightarrow> StoryCreationSpec \<Rightarrow> EngineError + StoryCreateBundle" where
  "freeze_story denv json sid spec =
     (let pack = scs_story_pack spec
      in rbind (map_err EngineStory (StoryPack_validate_play pack)) (\<lambda>_.
         rbind (map_err EngineNarrative (StoryPack_validate_narrative pack)) (\<lambda>_.
         rbind (map_err EngineStory (StoryPack_validate_roles json pack)) (\<lambda>_.
         rbind (map_err EngineStory (validate_cast pack (scs_player_role spec) (scs_cast spec))) (\<lambda>_.
           if str_len (sp_opening pack) > MAX_OPENING_BYTES
           then Err (EngineStory (OpeningTooLarge (str_len (sp_opening pack)) MAX_OPENING_BYTES))
           else let rs = freeze_roles pack (scs_cast spec)
             in rbind (map_err EngineStory (validate_runtime_roles json rs)) (\<lambda>_.
                let narrative = (case sp_narrative pack of Some graph \<Rightarrow> initial_state graph | None \<Rightarrow> NarrativeState_default)
                in rbind (map_err EngineCore (StoryPackSnapshot_from_pack denv pack)) (\<lambda>snapshot.
                     Ok (StoryCreateBundle_assemble snapshot sid (sp_opening pack) rs (freeze_facts pack)
                           (freeze_rumors pack) (scs_player_id spec) (scs_player_role spec) narrative))))))))"

text \<open>The text of the UUID is a parameter; an invalid identifier would be a panic.\<close>

definition generate_story_id :: "str \<Rightarrow> StoryId option" where
  "generate_story_id uuid = (case id_try_new ''story_id'' (lit ''story-'' @ uuid) of Inl e \<Rightarrow> None | Inr v \<Rightarrow> Some v)"

definition AiseFactory_create_story ::
  "digest_env \<Rightarrow> (roles \<Rightarrow> json_stream) \<Rightarrow> instant \<Rightarrow> str \<Rightarrow> StoryCreationSpec \<Rightarrow> Store \<Rightarrow>
   (EngineError + StoryInstanceInfo) option \<times> Store" where
  "AiseFactory_create_story denv json now uuid spec store =
     (case generate_story_id uuid of
        None \<Rightarrow> (None, store)
      | Some sid \<Rightarrow>
          (case freeze_story denv json sid spec of
             Inl e \<Rightarrow> (Some (Err e), store)
           | Inr bundle \<Rightarrow>
               (case Store_create_story json now bundle store of
                  (r, store') \<Rightarrow> (Some (map_err EnginePersistence r), store'))))"

definition AiseFactory_remove_story :: "StoryId \<Rightarrow> Store \<Rightarrow> (EngineError + unit) \<times> Store" where
  "AiseFactory_remove_story sid store =
     (case Store_remove_story sid store of (r, store') \<Rightarrow> (map_err EnginePersistence r, store'))"

section \<open>The engine (\<open>engine.rs\<close>)\<close>

record AiseEngine =
  eng_pipeline :: PipelineConfig
  eng_store :: Store

text \<open>The result of the prompt loader (\<open>Prompt_new\<close> of \<open>Prompt_Catalog\<close>) is an argument.\<close>

definition AiseEngine_new :: "PromptError + unit \<Rightarrow> PersistanceConfig \<Rightarrow> PipelineConfig \<Rightarrow> EngineError + AiseEngine" where
  "AiseEngine_new prompt persistence_config pipeline_config =
     rbind (map_err EnginePrompt prompt) (\<lambda>_.
     rbind (map_err EnginePipeline (PipelineConfig_validate pipeline_config)) (\<lambda>_.
       Ok \<lparr>eng_pipeline = pipeline_config, eng_store = Store_new persistence_config\<rparr>))"

definition engine_get_story_info :: "StoryId \<Rightarrow> AiseEngine \<Rightarrow> EngineError + StoryInstanceInfo" where
  "engine_get_story_info sid engine = map_err EnginePersistence (StoryBackend_get_info sid (store_story (eng_store engine)))"

definition stage_event :: "PipelineStage \<Rightarrow> TurnEvent" where
  "stage_event s = TurnPipeline (PipelineStage_as_str s)"

definition engine_run_turn ::
  "turn_env \<Rightarrow> TurnRequest \<Rightarrow> AiseEngine \<Rightarrow> (TurnEvent list \<times> (EngineError + StoryCommit) option) \<times> AiseEngine" where
  "engine_run_turn te request engine =
     (case StoryBackend_load (tr_story_id request) (store_story (eng_store engine)) of
        Inl e \<Rightarrow> (([TurnStarted], Some (Err (EnginePersistence e))), engine)
      | Inr ctx \<Rightarrow>
          if ctx_life_cycle ctx \<noteq> LcActive
          then (([TurnStarted], Some (Err (StoryNotActive (ctx_life_cycle ctx)))), engine)
          else (case run_turn te (eng_pipeline engine) ctx request (eng_store engine) of
                  ((es, out), store') \<Rightarrow>
                    ((TurnStarted # map stage_event es @ (case out of Some (Inr _) \<Rightarrow> [TurnCommitted] | _ \<Rightarrow> []),
                      map_option (map_err EnginePipeline) out),
                     engine\<lparr>eng_store := store'\<rparr>)))"

end
