(* ===== verification/Engine_Safety.thy ===== *)
theory Engine_Safety
  imports Engine
begin

text \<open>
  What holds in every state of the engine. Concurrent calls share the store: \<open>engine_reachable\<close> lets the
  commit of any turn, prepared from any context, happen at any time, so that its states include those
  of every interleaving of turns.
\<close>

section \<open>The backends are one memory store each\<close>

fun story_mem :: "StoryBackend \<Rightarrow> StoryStoreMem" where
  "story_mem (StoryMem s) = s"
| "story_mem (StorySqlite s) = sq_fake_store s"

fun pack_mem :: "PackBackend \<Rightarrow> PackStoreMem" where
  "pack_mem (PackMem s) = s"
| "pack_mem (PackSqlite s) = pq_fake_store s"

lemma StoryBackend_mem:
  "StoryBackend_load sid s = StoryStoreMem_load sid (story_mem s)"
  "StoryBackend_find_committed sid key s = StoryStoreMem_find_committed sid key (story_mem s)"
  by (cases s; simp add: StoryStoreSqlite_load_def StoryStoreSqlite_find_committed_def)+

lemma StoryBackend_commit_mem:
  "StoryBackend_commit json now c s = (r, s') \<Longrightarrow> StoryStoreMem_commit json now c (story_mem s) = (r, story_mem s')"
  by (cases s) (auto simp: map_prod_id_eq StoryStoreSqlite_commit_def lift_sqlite_eq)

lemma StoryBackend_create_mem:
  "StoryBackend_create json now spec s = (r, s') \<Longrightarrow> StoryStoreMem_create json now spec (story_mem s) = (r, story_mem s')"
  by (cases s) (auto simp: map_prod_id_eq StoryStoreSqlite_create_def lift_sqlite_eq)

lemma StoryBackend_remove_mem:
  "StoryBackend_remove sid s = (r, s') \<Longrightarrow> StoryStoreMem_remove sid (story_mem s) = (r, story_mem s')"
  by (cases s) (auto simp: map_prod_id_eq StoryStoreSqlite_remove_def lift_sqlite_eq)

lemma PackBackend_mem:
  "PackBackend_get_pack pr s = PackStoreMem_get_pack pr (pack_mem s)"
  "PackBackend_retain sid snap s = (r, s') \<Longrightarrow> PackStoreMem_retain sid snap (pack_mem s) = (r, pack_mem s')"
  "PackBackend_release sid s = (r, s') \<Longrightarrow> PackStoreMem_release sid (pack_mem s) = (r, pack_mem s')"
  by (cases s; auto simp: PackStoreSqlite_get_pack_def PackStoreSqlite_retain_def PackStoreSqlite_release_def map_prod_id_eq
      split: prod.splits)+

section \<open>Well-formed stories\<close>

definition entries_keyed :: "StoryContext \<Rightarrow> bool" where
  "entries_keyed ctx \<longleftrightarrow>
     (\<forall>i e. bm_get (ctx_facts ctx) i = Some e \<longrightarrow> fe_id e = i) \<and> (\<forall>i e. bm_get (ctx_rumors ctx) i = Some e \<longrightarrow> re_id e = i)"

definition story_wf :: "StoryContext \<Rightarrow> bool" where
  "story_wf ctx \<longleftrightarrow> ctx_wf ctx \<and> entries_keyed ctx"

lemma apply_fact_ops_keyed:
  "\<forall>i e. bm_get m i = Some e \<longrightarrow> fe_id e = i \<Longrightarrow> bm_get (foldl (apply_fact_op n) m ops) i = Some e \<Longrightarrow> fe_id e = i"
proof (induction ops arbitrary: m)
  case (Cons op ops)
  have "\<forall>i e. bm_get (apply_fact_op n m op) i = Some e \<longrightarrow> fe_id e = i"
    using Cons.prems(1) by (cases op) (auto split: if_splits)
  then show ?case using Cons.IH Cons.prems(2) by simp
qed simp

lemma apply_rumor_ops_keyed:
  "\<forall>i e. bm_get m i = Some e \<longrightarrow> re_id e = i \<Longrightarrow> bm_get (foldl (apply_rumor_op n) m ops) i = Some e \<Longrightarrow> re_id e = i"
proof (induction ops arbitrary: m)
  case (Cons op ops)
  have "\<forall>i e. bm_get (apply_rumor_op n m op) i = Some e \<longrightarrow> re_id e = i"
    using Cons.prems(1) by (cases op) (auto split: if_splits)
  then show ?case using Cons.IH Cons.prems(2) by simp
qed simp

lemma apply_memory_ops_keyed: "roles_keyed rs \<Longrightarrow> roles_keyed (foldl (apply_memory_op n) rs ops)"
proof (induction ops arbitrary: rs)
  case (Cons op ops)
  have "roles_keyed (apply_memory_op n rs op)"
    using Cons.prems by (cases op) (auto simp: roles_keyed_def split: if_splits)
  then show ?case using Cons.IH by simp
qed simp

lemma apply_memory_ops_contains: "bm_contains (foldl (apply_memory_op n) rs ops) rid = bm_contains rs rid"
proof (induction ops arbitrary: rs)
  case (Cons op ops)
  have "bm_contains (apply_memory_op n rs op) rid = bm_contains rs rid"
    by (cases op) (auto simp: bm_contains_def split: option.splits)
  then show ?case using Cons.IH by simp
qed simp

lemma ctx_wf_next: "ctx_wf ctx \<Longrightarrow> ctx_wf (next_context l ctx c)"
  by (simp only: ctx_wf_def next_context_simps staged_context_simps apply_memory_ops_contains apply_memory_ops_keyed simp_thms)

lemma entries_keyed_next:
  assumes "entries_keyed ctx"
  shows "entries_keyed (next_context l ctx c)"
proof -
  have "\<forall>i e. bm_get (ctx_facts ctx) i = Some e \<longrightarrow> fe_id e = i" "\<forall>i e. bm_get (ctx_rumors ctx) i = Some e \<longrightarrow> re_id e = i"
    using assms unfolding entries_keyed_def by blast+
  from apply_fact_ops_keyed [OF this(1)] apply_rumor_ops_keyed [OF this(2)] show ?thesis
    unfolding entries_keyed_def next_context_simps staged_context_simps by blast
qed

lemma story_wf_next: "story_wf ctx \<Longrightarrow> story_wf (next_context l ctx c)"
  by (simp only: story_wf_def ctx_wf_next entries_keyed_next simp_thms)

lemma freeze_story_Ok:
  assumes "freeze_story denv json sid spec = Ok b"
  shows "story_wf (created_context (scb_instance b))" and "bundle_ok b" and "sis_story_id (scb_instance b) = sid"
    and "StoryPack_validate_narrative (snap_pack (scb_snapshot b)) = Ok ()"
proof -
  let ?pack = "scs_story_pack spec"
  obtain snapshot narrative where play: "StoryPack_validate_play ?pack = Ok ()"
    and narr: "StoryPack_validate_narrative ?pack = Ok ()"
    and cast: "validate_cast ?pack (scs_player_role spec) (scs_cast spec) = Ok ()"
    and snap: "StoryPackSnapshot_from_pack denv ?pack = Ok snapshot"
    and b: "b = StoryCreateBundle_assemble snapshot sid (sp_opening ?pack) (freeze_roles ?pack (scs_cast spec))
        (freeze_facts ?pack) (freeze_rumors ?pack) (scs_player_id spec) (scs_player_role spec) narrative"
    using assms by (auto simp: freeze_story_def Let_def result_simps split: if_splits)
  have "bm_contains (playable_roles (sp_play ?pack)) (scs_player_role spec)"
    using cast by (auto simp: validate_cast_def split: if_splits)
  then have player: "bm_contains (freeze_roles ?pack (scs_cast spec)) (scs_player_role spec)"
    using play by (auto simp: StoryPack_validate_play_def result_simps freeze_roles_def)
  show "story_wf (created_context (scb_instance b))"
    using player unfolding b
    by (auto simp: story_wf_def ctx_wf_def entries_keyed_def roles_keyed_def created_context_def StoryCreateBundle_assemble_def
        freeze_roles_def freeze_facts_def freeze_rumors_def)
  show "bundle_ok b" unfolding b by (rule assembled_bundle_ok)
  show "sis_story_id (scb_instance b) = sid" by (simp add: b StoryCreateBundle_assemble_def)
  show "StoryPack_validate_narrative (snap_pack (scb_snapshot b)) = Ok ()"
    using narr snap by (auto simp: b StoryCreateBundle_assemble_def StoryPackSnapshot_from_pack_def result_simps)
qed

section \<open>The states of the engine\<close>

inductive engine_reachable :: "digest_env \<Rightarrow> (roles \<Rightarrow> json_stream) \<Rightarrow> PersistanceConfig \<Rightarrow> Store \<Rightarrow> bool"
  for denv json config where
  start: "engine_reachable denv json config (Store_new config)"
| create: "engine_reachable denv json config st \<Longrightarrow> AiseFactory_create_story denv json now uuid spec st = (r, st') \<Longrightarrow>
    engine_reachable denv json config st'"
| remove: "engine_reachable denv json config st \<Longrightarrow> AiseFactory_remove_story sid st = (r, st') \<Longrightarrow>
    engine_reachable denv json config st'"
| commit: "engine_reachable denv json config st \<Longrightarrow> commit_execute json now input ctx st = (r, st') \<Longrightarrow>
    engine_reachable denv json config st'"

lemma commit_execute_cases:
  assumes "commit_execute json now input ctx st = (r, st')"
  obtains (missing) e where "r = Err (PipelinePersistence Commit e)" "st' = st"
      "StoryBackend_find_committed (ctx_story_id ctx) (ci_idempotency_key input) (store_story st) = Err e"
  | (found) c where "r = Ok c" "st' = st"
      "StoryBackend_find_committed (ctx_story_id ctx) (ci_idempotency_key input) (store_story st) = Ok (Some c)"
  | (fresh) r' s where "StoryBackend_commit json now (story_commit input ctx) (store_story st) = (r', s)"
      "r = map_err (PipelinePersistence Commit) r'" "st' = st\<lparr>store_story := s\<rparr>"
      "StoryBackend_find_committed (ctx_story_id ctx) (ci_idempotency_key input) (store_story st) = Ok None"
  using assms by (auto simp: commit_execute_def split: sum.splits option.splits prod.splits)

lemma create_story_step:
  assumes "AiseFactory_create_story denv json now uuid spec st = (r, st')"
  obtains (unchanged) "st' = st"
  | (stored) sid b r' where "freeze_story denv json sid spec = Ok b" "Store_create_story json now b st = (r', st')"
  using assms by (auto simp: AiseFactory_create_story_def split: option.splits sum.splits prod.splits)

lemma remove_story_step:
  "AiseFactory_remove_story sid st = (r, st') \<Longrightarrow> \<exists>r'. Store_remove_story sid st = (r', st')"
  by (auto simp: AiseFactory_remove_story_def split: prod.splits)

lemma engine_reachable_store: "engine_reachable denv json config st \<Longrightarrow> engine_store_reachable json config st"
proof (induction rule: engine_reachable.induct)
  case start
  then show ?case by (rule engine_store_reachable.start)
next
  case (create st now uuid spec r st')
  from create.hyps(2) show ?case
  proof (cases rule: create_story_step)
    case unchanged
    then show ?thesis using create.IH by simp
  next
    case (stored sid b r')
    then show ?thesis using create.IH freeze_story_Ok(2) by (blast intro: engine_store_reachable.create)
  qed
next
  case (remove st sid r st')
  then show ?case using remove_story_step by (blast intro: engine_store_reachable.remove)
next
  case (commit st now input ctx r st')
  from commit.hyps(2) show ?case
    by (cases rule: commit_execute_cases) (use commit.IH engine_store_reachable.commit in auto)
qed

text \<open>What every state keeps besides the invariants of the stores.\<close>

definition stories_wf :: "StoryStoreMem \<Rightarrow> bool" where
  "stories_wf s \<longleftrightarrow> (\<forall>sid story. bm_get (ss_stories s) sid = Some story \<longrightarrow> story_wf (st_context story))"

definition packs_valid :: "PackStoreMem \<Rightarrow> bool" where
  "packs_valid s \<longleftrightarrow> (\<forall>d snap. bm_get (ps_packs s) d = Some snap \<longrightarrow> StoryPack_validate_narrative (sn_value snap) = Ok ())"

lemma stories_wf_commit:
  assumes "stories_wf s" and "StoryStoreMem_commit json now c s = (r, s')"
  shows "stories_wf s'"
  using assms(2)
proof (cases rule: commit_cases)
  case (appended story info)
  have "story_wf (st_context story)" using assms(1) appended(1) by (simp only: stories_wf_def)
  then show ?thesis using assms(1) story_wf_next by (simp add: stories_wf_def appended(7))
qed (use assms(1) in simp_all)

lemma stories_wf_create:
  assumes "stories_wf s" and "story_wf (created_context spec)" and "StoryStoreMem_create json now spec s = (r, s')"
  shows "stories_wf s'"
  using assms(3)
proof (cases rule: create_cases)
  case created
  then show ?thesis using assms(1,2) by (simp add: stories_wf_def created_story_def)
qed (use assms(1) in simp)

lemma stories_wf_remove:
  "stories_wf s \<Longrightarrow> StoryStoreMem_remove sid s = (r, s') \<Longrightarrow> stories_wf s'"
  by (auto simp: stories_wf_def StoryStoreMem_remove_def split: option.splits if_splits)

lemma packs_valid_retain:
  assumes "packs_valid s" and "StoryPack_validate_narrative (snap_pack snap) = Ok ()"
    and "PackStoreMem_retain sid snap s = (r, s')"
  shows "packs_valid s'"
proof (cases r)
  case (Inl e)
  then show ?thesis using assms(1,3) pm.retain_err by blast
next
  case (Inr u)
  let ?old = "bm_get (ps_packs s) (pr_digest (snap_pack_ref snap))"
  have "ps_packs s' = bm_insert (pr_digest (snap_pack_ref snap)) (retained_snapshot snap sid ?old) (ps_packs s)"
    using assms(3) [unfolded Inr] by (rule retain_OkE) simp
  moreover have "StoryPack_validate_narrative (sn_value (retained_snapshot snap sid ?old)) = Ok ()"
    using assms(1,2) by (cases ?old) (simp_all add: packs_valid_def retained_snapshot_simps)
  ultimately show ?thesis using assms(1) by (simp add: packs_valid_def)
qed

lemma packs_valid_release:
  "packs_valid s \<Longrightarrow> PackStoreMem_release sid s = (r, s') \<Longrightarrow> packs_valid s'"
  by (auto simp: packs_valid_def PackStoreMem_release_def release_from_get split: option.splits if_splits)

definition engine_inv :: "Store \<Rightarrow> bool" where
  "engine_inv st \<longleftrightarrow> stories_wf (story_mem (store_story st)) \<and> packs_valid (pack_mem (store_pack st))"

lemma engine_inv_new: "engine_inv (Store_new config)"
proof -
  have "stories_wf (story_mem (create_story_store c))" for c
    by (simp add: stories_wf_def create_story_store_def StoryStoreSqlite_new_def StoryStoreMem_with_config_def split: StoreType.splits)
  moreover have "packs_valid (pack_mem (create_pack_store c))" for c
    by (simp add: packs_valid_def create_pack_store_def PackStoreSqlite_new_def PackStoreMem_with_config_def split: StoreType.splits)
  ultimately show ?thesis by (simp add: engine_inv_def Store_new_def)
qed

lemma engine_inv_remove:
  assumes "engine_inv st" and "Store_remove_story sid st = (r, st')"
  shows "engine_inv st'"
proof -
  obtain rs s where s: "StoryBackend_remove sid (store_story st) = (rs, s)" by fastforce
  obtain p where p: "PackBackend_release sid (store_pack st) = (Ok (), p)" using release_never_fails by blast
  have "stories_wf (story_mem s)"
    using stories_wf_remove [OF _ StoryBackend_remove_mem [OF s]] assms(1) by (simp add: engine_inv_def)
  moreover have "packs_valid (pack_mem p)"
    using packs_valid_release [OF _ PackBackend_mem(3) [OF p]] assms(1) by (simp add: engine_inv_def)
  ultimately show ?thesis
    using assms by (auto simp: engine_inv_def Store_remove_story_def s p Let_def split: if_splits sum.splits)
qed

lemma engine_inv_create:
  assumes "engine_inv st" and "pack_backend_ok (store_pack st)" and "freeze_story denv json sid spec = Ok b"
    and "Store_create_story json now b st = (r, st')"
  shows "engine_inv st'"
  using assms(2,4)
proof (cases rule: create_story_cases)
  case (failed e)
  then show ?thesis using assms(1) by simp
next
  case (created info p s)
  note F = freeze_story_Ok [OF assms(3)]
  have "stories_wf (story_mem s)"
    using stories_wf_create [OF _ F(1) StoryBackend_create_mem [OF created(4)]] assms(1) by (simp add: engine_inv_def)
  moreover have "packs_valid (pack_mem p)"
    using packs_valid_retain [OF _ F(4) PackBackend_mem(2) [OF created(3)]] assms(1) by (simp add: engine_inv_def)
  ultimately show ?thesis by (simp add: engine_inv_def created(2))
qed

lemma engine_inv_commit:
  assumes "engine_inv st" and "StoryBackend_commit json now c (store_story st) = (r, s)"
  shows "engine_inv (st\<lparr>store_story := s\<rparr>)"
  using stories_wf_commit [OF _ StoryBackend_commit_mem [OF assms(2)]] assms(1) by (simp add: engine_inv_def)

lemma engine_reachable_inv: "engine_reachable denv json config st \<Longrightarrow> engine_inv st"
proof (induction rule: engine_reachable.induct)
  case start
  show ?case by (rule engine_inv_new)
next
  case (create st now uuid spec r st')
  have ok: "pack_backend_ok (store_pack st)"
    using engine_store_reachable_ok [OF engine_reachable_store [OF create.hyps(1)]] by (simp add: store_ok_def)
  from create.hyps(2) show ?case
    by (cases rule: create_story_step) (use create.IH engine_inv_create [OF _ ok] in auto)
next
  case (remove st sid r st')
  then show ?case using remove_story_step engine_inv_remove by blast
next
  case (commit st now input ctx r st')
  from commit.hyps(2) show ?case
    by (cases rule: commit_execute_cases) (use commit.IH engine_inv_commit in auto)
qed

section \<open>Loaded stories\<close>

lemma load_story:
  "StoryBackend_load sid s = Ok ctx \<longleftrightarrow>
     (\<exists>story. bm_get (ss_stories (story_mem s)) sid = Some story \<and> st_context story = ctx)"
  by (auto simp: StoryBackend_mem StoryStoreMem_load_def result_simps)

lemma find_committed_story:
  "StoryBackend_find_committed sid key s = Ok r \<longleftrightarrow>
     (\<exists>story. bm_get (ss_stories (story_mem s)) sid = Some story \<and> bm_get (st_committed story) key = r)"
  by (auto simp: StoryBackend_mem StoryStoreMem_find_committed_def result_simps)

lemma story_backend_inv: "story_backend_ok json s \<Longrightarrow> store_inv json (story_mem s)"
  by (cases s) simp_all

lemma loaded_story:
  assumes "story_backend_ok json s" and "bm_get (ss_stories (story_mem s)) sid = Some story"
  shows "ctx_story_id (st_context story) = sid" and "validate_runtime_roles json (ctx_roles (st_context story)) = Ok ()"
proof -
  have inv: "story_inv json (max_recent_turns (ss_config (story_mem s))) sid story"
    using story_backend_inv [OF assms(1)] assms(2) by (simp add: store_inv_def)
  show "validate_runtime_roles json (ctx_roles (st_context story)) = Ok ()" using inv by (simp add: story_inv_def)
  obtain ctx0 hist where log: "story_log json (max_recent_turns (ss_config (story_mem s))) story ctx0 hist" "ctx_story_id ctx0 = sid"
    using inv by (auto simp: story_inv_def)
  have "ctx_story_id (foldl (next_context l) ctx hist) = ctx_story_id ctx" for l ctx
    by (induction hist arbitrary: ctx) simp_all
  then show "ctx_story_id (st_context story) = sid" using log by (simp add: story_log_def)
qed

lemma projection_total:
  assumes "StoryPack_validate_narrative pack = Ok ()"
  shows "\<exists>p qs. build_projection pack ctx = Ok p \<and> collect_semantic_queries pack ctx = Ok qs"
proof (cases "sp_narrative pack")
  case None
  then show ?thesis by (simp add: build_projection_def collect_semantic_queries_def)
next
  case (Some g)
  then obtain p where "graph_plan g (ctx_narrative ctx) = Ok p"
    using graph_plan_total [of g "ctx_narrative ctx"] assms by (auto simp: StoryPack_validate_narrative_def)
  then show ?thesis using Some by (simp add: build_projection_def collect_semantic_queries_def)
qed

lemma held_pack_valid:
  assumes "packs_valid (pack_mem s)" and "PackBackend_get_pack pr s = Ok pack"
  shows "StoryPack_validate_narrative pack = Ok ()"
  using assms by (auto simp: PackBackend_mem(1) PackStoreMem_get_pack_def packs_valid_def result_simps split: if_splits)

text \<open>
  C8. Every story of a reachable engine is ready for a turn: its roles and entries are stored under
  their own identifiers, the player's role exists, the role limits hold, its pack can be loaded, and
  the narrative can be projected and its questions asked.
\<close>

theorem engine_story_ready:
  assumes "engine_reachable denv json config st" and "StoryBackend_load sid (store_story st) = Ok ctx"
  shows "ctx_story_id ctx = sid \<and> story_wf ctx \<and> validate_runtime_roles json (ctx_roles ctx) = Ok () \<and>
    (\<exists>pack p qs. PackBackend_get_pack (ctx_pack_ref ctx) (store_pack st) = Ok pack \<and>
       build_projection pack ctx = Ok p \<and> collect_semantic_queries pack ctx = Ok qs)"
proof -
  obtain story where story: "bm_get (ss_stories (story_mem (store_story st))) sid = Some story" "st_context story = ctx"
    using assms(2) by (auto simp: load_story)
  have ok: "store_ok json st" by (rule engine_store_reachable_ok [OF engine_reachable_store [OF assms(1)]])
  have inv: "engine_inv st" by (rule engine_reachable_inv [OF assms(1)])
  have "pack_backend_held (store_pack st) sid = Some (ctx_pack_ref ctx)"
    using ok assms(2) by (simp add: store_ok_def loaded_ref_def)
  then obtain pack where pack: "PackBackend_get_pack (ctx_pack_ref ctx) (store_pack st) = Ok pack"
    using pb.held_get [of "store_pack st" sid] ok unfolding store_ok_def by blast
  then have "StoryPack_validate_narrative pack = Ok ()"
    using inv held_pack_valid [of "store_pack st"] by (simp only: engine_inv_def)
  then obtain p qs where "build_projection pack ctx = Ok p" "collect_semantic_queries pack ctx = Ok qs"
    using projection_total [of pack ctx] by blast
  moreover have "story_wf ctx" using inv story by (auto simp only: engine_inv_def stories_wf_def)
  ultimately show ?thesis
    using loaded_story [OF _ story(1)] story(2) ok pack by (auto simp only: store_ok_def)
qed

section \<open>Committing\<close>

lemma commit_execute_fresh:
  assumes "StoryBackend_find_committed (ctx_story_id ctx) (ci_idempotency_key input) (store_story st) = Ok None"
    and "bm_get (ss_stories (story_mem (store_story st))) (ctx_story_id ctx) = Some story"
  shows "commit_execute json now input ctx st = (r, st') \<Longrightarrow>
    case check_commit json (st_context story) (story_commit input ctx) of
      Inl e \<Rightarrow> r = Err (PipelinePersistence Commit e) \<and> st' = st
    | Inr _ \<Rightarrow> r = Ok (story_commit input ctx) \<and>
        StoryBackend_load (ctx_story_id ctx) (store_story st') =
          Ok (next_context (max_recent_turns (ss_config (story_mem (store_story st)))) (st_context story) (story_commit input ctx))"
proof -
  let ?c = "story_commit input ctx"
  have key: "bm_get (st_committed story) (commit_key ?c) = None"
    using assms by (auto simp: find_committed_story story_commit_def)
  have sid: "sc_story_id ?c = ctx_story_id ctx" by (simp add: story_commit_def)
  assume eq: "commit_execute json now input ctx st = (r, st')"
  then obtain r' s where com: "StoryBackend_commit json now ?c (store_story st) = (r', s)"
    and r: "r = map_err (PipelinePersistence Commit) r'" and st': "st' = st\<lparr>store_story := s\<rparr>"
    using assms(1) by (auto simp: commit_execute_def split: prod.splits)
  have mem: "StoryStoreMem_commit json now ?c (story_mem (store_story st)) = (r', story_mem s)"
    by (rule StoryBackend_commit_mem [OF com])
  show ?thesis
  proof (cases "check_commit json (st_context story) ?c")
    case (Inl e)
    then have "r' = Err e" using mem assms(2) key sid by (simp add: StoryStoreMem_commit_def)
    then show ?thesis using sb.commit_err com Inl r st' by auto
  next
    case (Inr u)
    from mem show ?thesis
    proof (cases rule: commit_cases)
      case (failed e)
      then show ?thesis using mem assms(2) key sid Inr by (simp add: StoryStoreMem_commit_def Let_def)
    next
      case (replayed story' old)
      then show ?thesis using assms(2) key sid by simp
    next
      case (appended story' info)
      then show ?thesis using assms(2) sid Inr r st' by (simp add: load_story)
    qed
  qed
qed

text \<open>The commits of a story are as many as the keys it remembers.\<close>

lemma committed_size:
  assumes "story_log json l story ctx0 hist"
  shows "bm_size (st_committed story) = length hist"
proof -
  have "{k. bm_contains (st_committed story) k} = commit_key ` set hist"
    using assms by (auto simp: story_log_def bm_contains_def image_iff)
  then have "bm_size (st_committed story) = length (map commit_key hist)"
    using assms distinct_card [of "map commit_key hist"] by (simp add: bm_size_card story_log_def)
  then show ?thesis by simp
qed

lemma prepared_commit_checks:
  assumes "story_backend_ok json (store_story st)"
    and "bm_get (ss_stories (story_mem (store_story st))) (ctx_story_id ctx) = Some story" and "st_context story = ctx"
    and "ctx_life_cycle ctx = LcActive" and "bm_size (st_committed story) < 2 ^ 64 - 1"
    and "prepare_turn te config ctx request store1 store2 = (es, Some (Ok input))"
  shows "check_commit json ctx (story_commit input ctx) =
    map_err InvalidStory (validate_runtime_roles json (ctx_roles (staged_context ctx (story_commit input ctx))))"
proof -
  let ?c = "story_commit input ctx"
  obtain ctx0 hist where log: "story_log json (max_recent_turns (ss_config (story_mem (store_story st)))) story ctx0 hist"
    by (rule store_inv_log [OF story_backend_inv [OF assms(1)] assms(2)])
  obtain d written where c: "conclude_turn te config ctx request d written store2 = ([Extract, Summary], Some (Ok input))"
    using assms(6) by (rule prepare_turn_Ok)
  have number: "turn_number (sc_turn ?c) = TurnNumber_increment (ctx_turn_number ctx)"
    by (simp add: story_commit_def TurnNumber_increment_def)
  have "check_summary ctx ?c = Ok ()"
    using summary_acceptable [OF log, of "tv_pipe te" "pcfg_summary config" "ci_summary input" ?c] conclude_turn_Ok(6) [OF c]
      assms(3,5) committed_size [OF log] number by (simp add: story_commit_def)
  moreover have "validate_knowledge_change ctx (ci_knowledge_change input) = Ok ()"
    using conclude_turn_Ok(7) [OF c] by (auto dest: extract_accepted)
  then have "validate_knowledge_change ctx (knowledge_change (sc_turn ?c)) = Ok ()" by (simp add: story_commit_def)
  ultimately show ?thesis using assms(4) number by (simp add: check_commit_def)
qed

text \<open>
  C1. A prepared turn is committed. When a turn was prepared on the stored context of an active story
  with fewer than 2^64 - 1 turns, whatever the model answered, the store accepts it as the next turn
  under a new key and the story moves to the next context; the one thing the store can still refuse are
  the limits of the roles and their memories, and then nothing changes.
\<close>

theorem turn_commit_succeeds:
  assumes "engine_reachable denv json config st"
    and "bm_get (ss_stories (story_mem (store_story st))) sid = Some story" and "ctx_life_cycle (st_context story) = LcActive"
    and "bm_size (st_committed story) < 2 ^ 64 - 1" and "bm_get (st_committed story) (ci_idempotency_key input) = None"
    and "prepare_turn te pipeline (st_context story) request store1 store2 = (es, Some (Ok input))"
    and "commit_execute json now input (st_context story) st = (r, st')"
    and "c = story_commit input (st_context story)"
  shows "case validate_runtime_roles json (ctx_roles (staged_context (st_context story) c)) of
      Inl e \<Rightarrow> r = Err (PipelinePersistence Commit (InvalidStory e)) \<and> st' = st
    | Inr _ \<Rightarrow> r = Ok c \<and> turn_number (sc_turn c) = ctx_turn_number (st_context story) + 1 \<and>
        StoryBackend_load sid (store_story st') =
          Ok (next_context (max_recent_turns (ss_config (story_mem (store_story st)))) (st_context story) c)"
proof -
  have ok: "story_backend_ok json (store_story st)"
    using engine_store_reachable_ok [OF engine_reachable_store [OF assms(1)]] by (simp add: store_ok_def)
  have sid: "ctx_story_id (st_context story) = sid" by (rule loaded_story(1) [OF ok assms(2)])
  have chk: "check_commit json (st_context story) c =
      map_err InvalidStory (validate_runtime_roles json (ctx_roles (staged_context (st_context story) c)))"
    using prepared_commit_checks [OF ok _ refl assms(3,4,6)] assms(2) sid unfolding assms(8) by simp
  have "StoryBackend_find_committed (ctx_story_id (st_context story)) (ci_idempotency_key input) (store_story st) = Ok None"
    using assms(2,5) sid by (simp add: find_committed_story)
  from commit_execute_fresh [OF this _ assms(7)] show ?thesis
    using chk assms(2) sid unfolding assms(8) by (auto simp: story_commit_def split: sum.splits)
qed

text \<open>
  C9. Of two turns prepared concurrently from the same context only one is committed. After the first
  commit, committing the other under the same key returns the first commit, and under another new key
  it is refused, because the story is no longer active or the turn number does not follow; either way
  the store does not change.
\<close>

theorem concurrent_turn_serialized:
  assumes "engine_reachable denv json config st" and "StoryBackend_load sid (store_story st) = Ok ctx"
    and "StoryBackend_find_committed sid (ci_idempotency_key a) (store_story st) = Ok None"
    and "StoryBackend_find_committed sid (ci_idempotency_key b) (store_story st) = Ok None"
    and "commit_execute json now a ctx st = (Ok c, st')"
    and "commit_execute json now' b ctx st' = (r, st'')"
  shows "st'' = st' \<and>
    (if ci_idempotency_key b = ci_idempotency_key a then r = Ok c
     else \<exists>v \<in> {StoryIsNotActive, TurnNumberDoesNotFollow}. r = Err (PipelinePersistence Commit (ConstraintViolation v)))"
proof -
  have ok: "story_backend_ok json (store_story st)"
    using engine_store_reachable_ok [OF engine_reachable_store [OF assms(1)]] by (simp add: store_ok_def)
  obtain story where story: "bm_get (ss_stories (story_mem (store_story st))) sid = Some story" "st_context story = ctx"
    using assms(2) by (auto simp: load_story)
  have sid: "ctx_story_id ctx = sid" using loaded_story(1) [OF ok story(1)] story(2) by simp
  let ?c = "story_commit a ctx"
  have key: "commit_key ?c = ci_idempotency_key a" "sc_story_id ?c = sid" by (simp_all add: story_commit_def sid)
  obtain s where com: "StoryBackend_commit json now ?c (store_story st) = (Ok c, s)" and st': "st' = st\<lparr>store_story := s\<rparr>"
    using assms(3,5) sid by (auto simp: commit_execute_def result_simps split: prod.splits)
  obtain info where new: "bm_get (ss_stories (story_mem s)) sid =
      Some \<lparr>st_context = next_context (max_recent_turns (ss_config (story_mem (store_story st)))) ctx ?c, st_info = info,
        st_committed = bm_insert (ci_idempotency_key a) ?c (st_committed story)\<rparr>" and c: "c = ?c"
    using StoryBackend_commit_mem [OF com]
  proof (cases rule: commit_cases)
    case (replayed story' old)
    then show thesis using story assms(3) key by (simp add: find_committed_story)
  next
    case (appended story' info)
    then show thesis using story key that by simp
  qed simp
  show ?thesis
  proof (cases "ci_idempotency_key b = ci_idempotency_key a")
    case True
    then have "StoryBackend_find_committed sid (ci_idempotency_key b) s = Ok (Some ?c)"
      using new by (simp add: find_committed_story)
    then show ?thesis using True assms(6) sid st' c by (simp add: commit_execute_def)
  next
    case False
    then have fresh: "StoryBackend_find_committed (ctx_story_id ctx) (ci_idempotency_key b) (store_story st') = Ok None"
      using new assms(4) story sid st' by (auto simp: find_committed_story)
    have "\<exists>v \<in> {StoryIsNotActive, TurnNumberDoesNotFollow}.
        check_commit json (next_context l ctx ?c) (story_commit b ctx) = Err (ConstraintViolation v)" for l
      by (simp add: check_commit_def TurnNumber_increment_def story_commit_def)
    from this [of "max_recent_turns (ss_config (story_mem (store_story st)))"] show ?thesis
      using commit_execute_fresh [OF fresh _ assms(6)] new sid st' False by auto
  qed
qed

section \<open>The operations of the engine\<close>

text \<open>The five ways a call of \<open>run_turn\<close> ends.\<close>

lemma engine_run_turn_cases:
  assumes "engine_run_turn te request eng = ((es, out), eng')"
  obtains (unknown) e where "StoryBackend_load (tr_story_id request) (store_story (eng_store eng)) = Err e"
      "es = [TurnStarted]" "out = Some (Err (EnginePersistence e))" "eng' = eng"
  | (inactive) ctx where "StoryBackend_load (tr_story_id request) (store_story (eng_store eng)) = Ok ctx"
      "ctx_life_cycle ctx \<noteq> LcActive" "es = [TurnStarted]" "out = Some (Err (StoryNotActive (ctx_life_cycle ctx)))" "eng' = eng"
  | (unprepared) stages r where "es = TurnStarted # map stage_event stages" "eng' = eng"
      "out = map_option (map_err EnginePipeline) r" "\<forall>c. r \<noteq> Some (Ok c)"
  | (refused) ctx stages input e st where "es = TurnStarted # map stage_event (stages @ [Commit])"
      "out = Some (Err (EnginePipeline e))" "eng' = eng\<lparr>eng_store := st\<rparr>"
      "StoryBackend_load (tr_story_id request) (store_story (eng_store eng)) = Ok ctx"
      "prepare_turn te (eng_pipeline eng) ctx request (eng_store eng) (eng_store eng) = (stages, Some (Ok input))"
      "commit_execute (tv_roles_json te) (tv_now te) input ctx (eng_store eng) = (Err e, st)"
  | (committed) ctx stages input c st where "es = TurnStarted # map stage_event (stages @ [Commit]) @ [TurnCommitted]"
      "out = Some (Ok c)" "eng' = eng\<lparr>eng_store := st\<rparr>"
      "StoryBackend_load (tr_story_id request) (store_story (eng_store eng)) = Ok ctx"
      "prepare_turn te (eng_pipeline eng) ctx request (eng_store eng) (eng_store eng) = (stages, Some (Ok input))"
      "commit_execute (tv_roles_json te) (tv_now te) input ctx (eng_store eng) = (Ok c, st)"
proof (cases "StoryBackend_load (tr_story_id request) (store_story (eng_store eng))")
  case (Inl e)
  then show thesis using assms by (intro unknown [of e]) (simp_all add: engine_run_turn_def)
next
  case load: (Inr ctx)
  show thesis
  proof (cases "ctx_life_cycle ctx = LcActive")
    case False
    then show thesis using assms load by (intro inactive [of ctx]) (simp_all add: engine_run_turn_def)
  next
    case True
    obtain stages prepared where prep: "prepare_turn te (eng_pipeline eng) ctx request (eng_store eng) (eng_store eng) = (stages, prepared)"
      by fastforce
    have run: "((es, out), eng') = (case commit_turn te ctx (stages, prepared) (eng_store eng) of
        ((es, out), store') \<Rightarrow>
          ((TurnStarted # map stage_event es @ (case out of Some (Inr _) \<Rightarrow> [TurnCommitted] | _ \<Rightarrow> []),
            map_option (map_err EnginePipeline) out), eng\<lparr>eng_store := store'\<rparr>))"
      using assms load True prep by (simp add: engine_run_turn_def run_turn_def)
    show thesis
    proof (cases prepared)
      case None
      then show thesis using run by (intro unprepared [of stages None]) (simp_all add: commit_turn_def)
    next
      case (Some p)
      show thesis
      proof (cases p)
        case (Inl e)
        then show thesis using run Some by (intro unprepared [of stages "Some (Err e)"]) (simp_all add: commit_turn_def)
      next
        case input: (Inr input)
        obtain r st where com: "commit_execute (tv_roles_json te) (tv_now te) input ctx (eng_store eng) = (r, st)" by fastforce
        show thesis
        proof (cases r)
          case (Inl e)
          then show thesis using run Some input com prep load
            by (intro refused [of stages e st ctx input]) (simp_all add: commit_turn_def)
        next
          case (Inr c)
          then show thesis using run Some input com prep load
            by (intro committed [of stages c st ctx input]) (simp_all add: commit_turn_def)
        qed
      qed
    qed
  qed
qed

lemma commit_execute_err:
  assumes "commit_execute json now input ctx st = (Err e, st')"
  shows "st' = st"
  using assms
proof (cases rule: commit_execute_cases)
  case (fresh r' s)
  then have "StoryBackend_commit json now (story_commit input ctx) (store_story st) = (r', s)" "\<exists>e'. r' = Err e'"
    by (cases r'; simp)+
  then have "s = store_story st" using sb.commit_err by blast
  then show ?thesis using fresh(3) by simp
qed simp_all

lemma commit_execute_found:
  assumes "story_backend_ok json (store_story st)" and "commit_execute json now input ctx st = (Ok c, st')"
  shows "StoryBackend_find_committed (ctx_story_id ctx) (ci_idempotency_key input) (store_story st') = Ok (Some c)"
  using assms(2)
proof (cases rule: commit_execute_cases)
  case (fresh r' s)
  then have "StoryBackend_commit json now (story_commit input ctx) (store_story st) = (Ok c, s)"
    by (cases r') simp_all
  from sb.commit_found [OF assms(1) this] show ?thesis using fresh(3) by (simp add: story_commit_def)
qed simp_all

lemma reachable_store_ok: "engine_reachable denv json config st \<Longrightarrow> story_backend_ok json (store_story st)"
  using engine_store_reachable_ok [OF engine_reachable_store] by (simp add: store_ok_def)

lemma prepare_turn_key:
  "prepare_turn te config ctx request store store' = (es, Some (Ok input)) \<Longrightarrow> ci_idempotency_key input = tr_idempotency_key request"
  by (erule prepare_turn_Ok) (rule conclude_turn_Ok(5))

lemma run_turn_outcome:
  assumes "engine_reachable denv (tv_roles_json te) config (eng_store eng)"
    and "engine_run_turn te request eng = ((es, out), eng')"
  shows "engine_reachable denv (tv_roles_json te) config (eng_store eng') \<and> eng_pipeline eng' = eng_pipeline eng \<and>
    hd es = TurnStarted \<and>
    (case out of
       Some (Inr c) \<Rightarrow> last es = TurnCommitted \<and>
         StoryBackend_find_committed (tr_story_id request) (tr_idempotency_key request) (store_story (eng_store eng')) = Ok (Some c)
     | _ \<Rightarrow> eng' = eng \<and> TurnCommitted \<notin> set es)"
  using assms(2)
proof (cases rule: engine_run_turn_cases)
  case (unprepared stages r)
  then show ?thesis using assms(1) by (cases r) (auto simp: stage_event_def result_simps split: sum.splits option.splits)
next
  case (refused ctx stages input e st)
  then show ?thesis using assms(1) commit_execute_err [OF refused(6)] by (auto simp: stage_event_def)
next
  case (committed ctx stages input c st)
  have ok: "story_backend_ok (tv_roles_json te) (store_story (eng_store eng))" by (rule reachable_store_ok [OF assms(1)])
  have "ctx_story_id ctx = tr_story_id request" using committed(4) loaded_story(1) [OF ok] by (auto simp: load_story)
  then show ?thesis
    using committed(1-3) commit_execute_found [OF ok committed(6)] prepare_turn_key [OF committed(5)]
      engine_reachable.commit [OF assms(1) committed(6)] by simp
qed (use assms(1) in simp_all)

text \<open>
  C3. A turn is all or nothing. A call of the engine that returns a commit has announced it with its
  last event and the store answers the key with it; a call that ends in any other way leaves the
  engine as it was and never announces a commit.
\<close>

theorem run_turn_atomic:
  assumes "engine_reachable denv (tv_roles_json te) config (eng_store eng)"
    and "engine_run_turn te request eng = ((es, out), eng')"
  shows "engine_reachable denv (tv_roles_json te) config (eng_store eng') \<and> eng_pipeline eng' = eng_pipeline eng \<and>
    hd es = TurnStarted \<and>
    (case out of
       Some (Inr c) \<Rightarrow> last es = TurnCommitted \<and>
         StoryBackend_find_committed (tr_story_id request) (tr_idempotency_key request) (store_story (eng_store eng')) = Ok (Some c)
     | _ \<Rightarrow> eng' = eng \<and> TurnCommitted \<notin> set es)"
  by (rule run_turn_outcome [OF assms])

text \<open>
  C28. Retrying a committed turn with the same key never commits again and never returns another commit.
  When the turn completed the story the retry is refused as not active, although the store still knows
  the commit.
\<close>

theorem run_turn_retry:
  assumes "engine_reachable denv (tv_roles_json te) config (eng_store eng)"
    and "engine_run_turn te request eng = ((es, Some (Ok c)), eng')"
    and "tr_story_id request' = tr_story_id request" and "tr_idempotency_key request' = tr_idempotency_key request"
    and "engine_run_turn te' request' eng' = ((es', out), eng'')"
    and "StoryBackend_load (tr_story_id request) (store_story (eng_store eng')) = Ok ctx"
  shows "eng'' = eng' \<and>
    StoryBackend_find_committed (tr_story_id request) (tr_idempotency_key request) (store_story (eng_store eng')) = Ok (Some c) \<and>
    (if ctx_life_cycle ctx = LcActive then \<forall>d. out = Some (Ok d) \<longrightarrow> d = c
     else out = Some (Err (StoryNotActive (ctx_life_cycle ctx))))"
proof -
  note first = run_turn_outcome [OF assms(1,2)]
  have found: "StoryBackend_find_committed (tr_story_id request) (tr_idempotency_key request) (store_story (eng_store eng')) = Ok (Some c)"
    using first by simp
  have sid: "ctx_story_id ctx = tr_story_id request"
    using loaded_story(1) [OF reachable_store_ok] first assms(6) by (auto simp: load_story)
  have again: "commit_execute json now input ctx (eng_store eng') = (Ok c, eng_store eng')"
    if "ci_idempotency_key input = tr_idempotency_key request" for json now input
    using found that sid by (simp add: commit_execute_def)
  show ?thesis
  proof (cases "ctx_life_cycle ctx = LcActive")
    case False
    then show ?thesis using assms(3,5,6) found by (simp add: engine_run_turn_def)
  next
    case active: True
    from assms(5) show ?thesis
    proof (cases rule: engine_run_turn_cases)
      case (unprepared stages r)
      then show ?thesis using active found by (cases r) (auto simp: result_simps)
    next
      case (refused ctx' stages input e st)
      then have "commit_execute (tv_roles_json te') (tv_now te') input ctx (eng_store eng') = (Err e, st)" using assms(3,6) by simp
      then show ?thesis using again [of input] prepare_turn_key [OF refused(5)] assms(4) by simp
    next
      case (committed ctx' stages input d st)
      then have "commit_execute (tv_roles_json te') (tv_now te') input ctx (eng_store eng') = (Ok d, st)" using assms(3,6) by simp
      then have "st = eng_store eng'" "d = c" using again [of input] prepare_turn_key [OF committed(5)] assms(4) by simp_all
      then show ?thesis using committed(2,3) found active by simp
    qed (use assms(3,6) found active in simp_all)
  qed
qed

lemma create_story_OkE:
  assumes "engine_reachable denv json config st" and "AiseFactory_create_story denv json now uuid spec st = (Some (Ok info), st')"
  obtains b p s where "freeze_story denv json (sii_story_id info) spec = Ok b"
    "StoryBackend_create json now (scb_instance b) (store_story st) = (Ok info, s)"
    "st' = st\<lparr>store_story := s, store_pack := p\<rparr>"
proof -
  obtain sid b where b: "freeze_story denv json sid spec = Ok b" and st: "Store_create_story json now b st = (Ok info, st')"
    using assms(2) by (auto simp: AiseFactory_create_story_def result_simps split: option.splits sum.splits prod.splits)
  have "pack_backend_ok (store_pack st)"
    using engine_store_reachable_ok [OF engine_reachable_store [OF assms(1)]] by (simp add: store_ok_def)
  from this st show thesis
  proof (cases rule: create_story_cases)
    case (created info' p s)
    then have "info = created_info now (scb_instance b)"
      using StoryBackend_create_mem [OF created(4)] by (auto elim: create_cases)
    then have "sii_story_id info = sid" using freeze_story_Ok(3) [OF b] by (simp add: created_info_def)
    then show thesis using that b created by simp
  qed simp
qed

text \<open>
  A creation that succeeds makes a story that was not there: it loads with a fresh, active and
  well-formed context at turn 0 in which the requested role, one the pack lets players take, is the
  player's, and no other story changes.
\<close>

lemma created_story_loads:
  assumes "engine_reachable denv json config st" and "AiseFactory_create_story denv json now uuid spec st = (Some (Ok info), st')"
  shows "StoryBackend_load (sii_story_id info) (store_story st) = Err NotFound \<and>
    (\<exists>ctx. StoryBackend_load (sii_story_id info) (store_story st') = Ok ctx \<and> fresh_context ctx \<and> story_wf ctx \<and>
       ctx_player ctx = scs_player_role spec \<and> bm_contains (playable_roles (sp_play (scs_story_pack spec))) (ctx_player ctx)) \<and>
    (\<forall>sid. sid \<noteq> sii_story_id info \<longrightarrow> StoryBackend_load sid (store_story st') = StoryBackend_load sid (store_story st))"
proof -
  obtain b p s where b: "freeze_story denv json (sii_story_id info) spec = Ok b"
    and cr: "StoryBackend_create json now (scb_instance b) (store_story st) = (Ok info, s)"
    and st': "st' = st\<lparr>store_story := s, store_pack := p\<rparr>"
    using assms by (rule create_story_OkE)
  note F = freeze_story_Ok [OF b]
  have sid: "sis_story_id (scb_instance b) = sii_story_id info" by (rule F(3))
  have ctx: "StoryBackend_load (sii_story_id info) s = Ok (created_context (scb_instance b))"
    using StoryBackend_create_mem [OF cr] sid by (cases rule: create_cases) (simp_all add: load_story created_story_def)
  moreover have "ctx_player (created_context (scb_instance b)) = scs_player_role spec \<and>
      bm_contains (playable_roles (sp_play (scs_story_pack spec))) (scs_player_role spec)"
    using b by (auto simp: freeze_story_def validate_cast_def Let_def result_simps created_context_def StoryCreateBundle_assemble_def
        split: if_splits)
  ultimately show ?thesis
    using sb.create_load [OF cr] F(1) fresh_created [of "scb_instance b"] sid st' by simp
qed

end
