(* ===== verification/Examples_Turn.thy ===== *)
theory Examples_Turn
  imports Examples Engine_Safety
begin

text \<open>
  A whole turn on the small story of \<open>Examples\<close>: an engine creates the story from its pack and runs its
  first turn. The model's first proposal misses the target scores, is repaired once and passes; the
  model answers the question of the narrative and proposes a fact and a memory. The properties of the
  later stages, of the validation loop, of the runtime and of the engine are applied to this turn.
\<close>

section \<open>The engine\<close>

definition demo_denv :: digest_env where
  "demo_denv = \<lparr>dg_json = (\<lambda>pack. Ok [1, 2]), dg_hex_sha256 = (\<lambda>b. lit ''d1'')\<rparr>"

definition demo_card :: CharacterCard where
  "demo_card = \<lparr>cc_spec = CharV1, cc_card_id = lit ''card'', cc_name = lit ''Xu Xian'',
     cc_meta = \<lparr>cm_creator = lit ''me'', cm_version = lit ''1.0.0'', cm_tags = []\<rparr>, cc_profile = demo_profile\<rparr>"

definition demo_creation :: StoryCreationSpec where
  "demo_creation = \<lparr>scs_story_pack = demo_pack, scs_cast = bm_insert (lit ''xu_xian'') (ActorCard demo_card) bm_empty,
     scs_player_id = lit ''web-player'', scs_player_role = lit ''xu_xian''\<rparr>"

definition demo_created :: "(EngineError + StoryInstanceInfo) option \<times> Store" where
  "demo_created = AiseFactory_create_story demo_denv demo_json 5 (lit ''u1'') demo_creation (Store_new demo_config)"

lemma demo_creation_ok: "case fst demo_created of Some (Inr info) \<Rightarrow> sii_story_id info = lit ''story-u1'' | _ \<Rightarrow> False"
  by code_simp

definition demo_st :: Store where
  "demo_st = snd demo_created"

definition demo_engine :: AiseEngine where
  "demo_engine = \<lparr>eng_pipeline = PipelineConfig_default, eng_store = demo_st\<rparr>"

section \<open>The model\<close>

definition demo_llm :: "llm_call \<Rightarrow> ChatMessage list \<Rightarrow> LlmError + str" where
  "demo_llm call messages =
     (case call of
        CallValidate n \<Rightarrow> Ok (if n = 1 then lit ''low'' else lit ''high'')
      | CallRepair n \<Rightarrow> Ok (lit ''The gate opens slowly.'')
      | _ \<Rightarrow> Ok (lit ''The gate opens.''))"

definition demo_high :: ValidateLlmOutputDto where
  "demo_high = \<lparr>vld_checks = demo_checks,
     vld_scores = map (\<lambda>c. \<lparr>vsd_name = psc_name c, vsd_score = Fin 9, vsd_issue = None\<rparr>) (vcf_scores ValidateConfig_default)\<rparr>"

definition demo_extract_json :: extract_json where
  "demo_extract_json =
     \<lparr>ej_narrative = (\<lambda>raw. Some [\<lparr>sed_condition_id = lit ''q1'', sed_truth = Satisfied\<rparr>]),
      ej_world = (\<lambda>raw. Some \<lparr>wkd_facts = [FactDtoAdd (demo_fact (lit ''A yard''))], wkd_rumors = [RumorDtoRemove (lit ''r1'')],
        wkd_roles_for_memory = [lit ''guide'']\<rparr>),
      ej_memory = (\<lambda>raw. Some [MemoryDtoAdd demo_memory])\<rparr>"

text \<open>The fact is activated by the player's words; the rumor is still to be retrieved.\<close>

definition demo_turn_plan :: PlanLlmOutputDto where
  "demo_turn_plan = demo_plan_dto\<lparr>pld_facts_to_retrieve := [], pld_rumors_to_retrieve := [lit ''r1'']\<rparr>"

definition demo_te :: turn_env where
  "demo_te = \<lparr>tv_pipe = \<lparr>pe_json = demo_render_json, pe_render = (\<lambda>i v. Ok []), pe_llm = demo_llm\<rparr>,
     tv_plan_json = (\<lambda>raw. Some demo_turn_plan), tv_think_json = demo_decision_json,
     tv_validate_json = (\<lambda>raw. Ok (if raw = lit ''low'' then demo_answer else demo_high)),
     tv_extract_json = demo_extract_json, tv_roles_json = demo_json, tv_unicode = demo_unicode,
     tv_sha256 = (\<lambda>b. [0, 0, 0, 0, 0, 0, 0, 1]), tv_rnd = Fin, tv_world_first = True, tv_now = 6\<rparr>"

definition demo_request :: TurnRequest where
  "demo_request = \<lparr>tr_story_id = lit ''story-u1'', tr_idempotency_key = lit ''web-turn-u'', tr_player_input = lit ''I knock at the gate''\<rparr>"

abbreviation demo_stages :: "PipelineStage list" where
  "demo_stages \<equiv> [Baseline, Plan, Retrieval, Think, Generate, Validate, Repair, Validate, Extract, Summary]"

lemma demo_turn_runs:
  "fst (fst (engine_run_turn demo_te demo_request demo_engine)) =
     TurnStarted # map stage_event (demo_stages @ [Commit]) @ [TurnCommitted]"
  by code_simp

section \<open>What the turn consists of\<close>

lemma demo_st_reachable: "engine_reachable demo_denv demo_json demo_config demo_st"
  unfolding demo_st_def demo_created_def
  by (rule engine_reachable.create [OF engine_reachable.start prod.collapse [symmetric]])

definition demo_engine' :: AiseEngine where
  "demo_engine' = snd (engine_run_turn demo_te demo_request demo_engine)"

definition demo_ctx :: StoryContext where
  "demo_ctx = projr (StoryBackend_load (lit ''story-u1'') (store_story demo_st))"

lemma demo_simps [simp]:
  "tv_roles_json demo_te = demo_json" "tv_now demo_te = 6" "tv_rnd demo_te = Fin"
  "tr_story_id demo_request = lit ''story-u1''" "tr_idempotency_key demo_request = lit ''web-turn-u''"
  "eng_pipeline demo_engine = PipelineConfig_default" "eng_store demo_engine = demo_st"
  by (simp_all add: demo_te_def demo_request_def demo_engine_def)

lemma demo_committed_turn:
  obtains input c stages where
    "engine_run_turn demo_te demo_request demo_engine =
       ((TurnStarted # map stage_event (demo_stages @ [Commit]) @ [TurnCommitted], Some (Ok c)), demo_engine')"
    "StoryBackend_load (lit ''story-u1'') (store_story demo_st) = Ok demo_ctx"
    "prepare_turn demo_te PipelineConfig_default demo_ctx demo_request demo_st demo_st = (stages, Some (Ok input))"
    "commit_execute demo_json 6 input demo_ctx demo_st = (Ok c, eng_store demo_engine')"
proof -
  obtain es out where run: "engine_run_turn demo_te demo_request demo_engine = ((es, out), demo_engine')"
    and es: "es = TurnStarted # map stage_event (demo_stages @ [Commit]) @ [TurnCommitted]"
    using demo_turn_runs by (cases "engine_run_turn demo_te demo_request demo_engine") (auto simp: demo_engine'_def)
  have "TurnCommitted \<in> set es" by (simp add: es)
  from run show thesis
  proof (cases rule: engine_run_turn_cases)
    case (committed ctx stages input c st)
    have "ctx = demo_ctx" using committed(4) by (simp add: demo_ctx_def)
    moreover have "eng_store demo_engine' = st" unfolding committed(3) by simp
    ultimately show thesis using that [of c stages input] run es committed by simp
  qed (use \<open>TurnCommitted \<in> set es\<close> in \<open>auto simp: stage_event_def\<close>)
qed

section \<open>The stages\<close>

lemma not_isl_projr: "\<not> isl r \<Longrightarrow> r = Ok (projr r)"
  by (cases r) simp_all

abbreviation demo_extraction :: "PipelineError + ExtractOutput" where
  "demo_extraction \<equiv> extract_execute (tv_pipe demo_te) demo_extract_json True ExtractConfig_default demo_st demo_ctx (lit ''The gate opens.'')"

lemma demo_extraction_Ok: "demo_extraction = Ok (projr demo_extraction)"
  by (rule not_isl_projr) code_simp

theorem extraction_accepted_witness:
  "validate_knowledge_change demo_ctx (eo_knowledge_change (projr demo_extraction)) = Ok ()"
  using extraction_accepted [OF demo_extraction_Ok] by (rule conjunct1)

lemma demo_pack_loads:
  "PackBackend_get_pack (ctx_pack_ref demo_ctx) (store_pack demo_st) =
     Ok (projr (PackBackend_get_pack (ctx_pack_ref demo_ctx) (store_pack demo_st)))"
  by (rule not_isl_projr) code_simp

definition demo_stored_graph :: NarrativeGraph where
  "demo_stored_graph = the (sp_narrative (projr (PackBackend_get_pack (ctx_pack_ref demo_ctx) (store_pack demo_st))))"

lemma demo_stored_graph_Some:
  "sp_narrative (projr (PackBackend_get_pack (ctx_pack_ref demo_ctx) (store_pack demo_st))) = Some demo_stored_graph"
proof -
  have "\<not> Option.is_none (sp_narrative (projr (PackBackend_get_pack (ctx_pack_ref demo_ctx) (store_pack demo_st))))" by code_simp
  then show ?thesis by (auto simp: demo_stored_graph_def Option.is_none_def)
qed

theorem extraction_narrative_step_witness:
  "\<exists>plan results. graph_plan demo_stored_graph (ctx_narrative demo_ctx) = Ok plan \<and>
    (\<forall>i. bm_contains results i \<longleftrightarrow> i \<in> sq_condition_id ` set (np_queries plan)) \<and>
    (case eo_narrative (projr demo_extraction) of Unchanged \<Rightarrow> ctx_narrative demo_ctx | Replaced n \<Rightarrow> n) =
      narrative_step demo_stored_graph (ctx_narrative demo_ctx)
        \<lparr>ne_turn = TurnNumber_increment (ctx_turn_number demo_ctx), ne_semantic_results = results\<rparr>"
  using extraction_narrative_step [OF demo_extraction_Ok demo_pack_loads demo_stored_graph_Some] by auto

abbreviation demo_baseline :: "PipelineError + BaselineOutput" where
  "demo_baseline \<equiv> baseline_execute (tv_pipe demo_te) demo_unicode (tv_sha256 demo_te) BaselineConfig_default demo_st
     (lit ''I knock at the gate'') demo_ctx"

lemma demo_baseline_Ok: "demo_baseline = Ok (projr demo_baseline)"
  by (rule not_isl_projr) code_simp

lemma demo_baseline_facts: "map fe_id (ak_facts (bo_knowledge (projr demo_baseline))) = [lit ''f1'']"
  by code_simp

lemma baseline_knowledge_bounded_witness:
  "map fe_id (ak_facts (bo_knowledge (projr demo_baseline))) = [lit ''f1''] \<and>
   length (ak_facts (bo_knowledge (projr demo_baseline))) + length (ak_rumors (bo_knowledge (projr demo_baseline)))
     \<le> cfg_max_activated_entries ActivationConfig_default"
  using baseline_knowledge_bounded [OF demo_baseline_Ok _ refl refl] demo_budget demo_baseline_facts
  by (simp add: BaselineConfig_default_def)

section \<open>The validation loop\<close>

definition demo_vctx :: ValidationContext where
  "demo_vctx = \<lparr>vc_story_goal = lit ''Enter'', vc_player_contribution = demo_contribution, vc_directions = [], vc_constraints = [],
     vc_knowledge = demo_known, vc_retrieved_facts = [], vc_retrieved_rumors = [], vc_role_ids = [lit ''guide''],
     vc_character_decisions = []\<rparr>"

definition demo_le :: loop_env where
  "demo_le = turn_loop_env demo_te PipelineConfig_default demo_ctx0 demo_vctx"

abbreviation demo_loop :: "ValidationLoopResult run" where
  "demo_loop \<equiv> validate_and_repair demo_le [] (lit ''The gate opens.'') 0"

definition demo_loop_result :: ValidationLoopResult where
  "demo_loop_result = projr (the (snd demo_loop))"

lemma demo_loop_Ok: "demo_loop = ([Validate, Repair, Validate], Some (Ok demo_loop_result))"
proof -
  have "fst demo_loop = [Validate, Repair, Validate]" by code_simp
  moreover have "case snd demo_loop of Some (Inr r) \<Rightarrow> True | _ \<Rightarrow> False" by code_simp
  then have "snd demo_loop = Some (Ok demo_loop_result)" by (auto simp: demo_loop_result_def split: option.splits sum.splits)
  ultimately show ?thesis by (simp add: prod_eq_iff)
qed

lemma demo_pipeline_valid: "PipelineConfig_validate PipelineConfig_default = Ok ()"
proof -
  have "\<not> isl (PipelineConfig_validate PipelineConfig_default)" by code_simp
  then show ?thesis by (cases "PipelineConfig_validate PipelineConfig_default") simp_all
qed

lemma demo_le_simps [simp]:
  "le_loop demo_le = ValidationLoopConfig_default" "le_validate demo_le = ValidateConfig_default" "le_rnd demo_le = Fin"
  by (simp_all add: demo_le_def PipelineConfig_default_def)

lemma demo_loop_config: "ValidationLoopConfig_validate ValidationLoopConfig_default = Ok ()"
  using loop_config_valid [OF demo_pipeline_valid] by (simp add: PipelineConfig_default_def)

theorem validation_loop_refines_witness:
  "\<exists>h. repair_chain demo_le (lit ''The gate opens.'') h \<and> [Validate, Repair, Validate] = loop_events (length h) \<and>
     vlr_repair_rounds demo_loop_result = of_nat (length h - 1)"
  using validation_loop_refines [OF _ demo_loop_Ok] demo_loop_config by auto

lemma exact_rounding: "ieee_rounding Fin"
  by (auto simp: ieee_rounding_def f_le_def)

lemma exact_criteria: "criteria_doubles Fin config"
  by (simp add: criteria_doubles_def is_double_def split: f64.splits)

theorem validation_loop_errors_witness: "snd demo_loop \<noteq> None \<and> length (fst demo_loop) \<le> 5"
  using validation_loop_errors [of demo_le "lit ''The gate opens.''" "fst demo_loop" "snd demo_loop"]
    demo_loop_config demo_config_valid exact_rounding exact_criteria
  by (simp add: ValidationLoopConfig_default_def)

section \<open>The turn\<close>

abbreviation demo_prepared :: "CommitInput run" where
  "demo_prepared \<equiv> prepare_turn demo_te PipelineConfig_default demo_ctx demo_request demo_st demo_st"

theorem turn_text_accepted_witness:
  "\<exists>es input. demo_prepared = (es, Some (Ok input)) \<and>
     proposal_ok (max_proposal_bytes (pcfg_repair PipelineConfig_default)) (ci_turn_segment input) \<and>
     list_all tce_passed (te_checks (ci_turn_evaluation input))"
proof (rule demo_committed_turn)
  fix es input assume "demo_prepared = (es, Some (Ok input))"
  from this turn_text_accepted [OF demo_pipeline_valid this refl] show ?thesis by blast
qed


lemma demo_load: "StoryBackend_load (lit ''story-u1'') (store_story demo_st) = Ok demo_ctx"
  by (rule demo_committed_turn)

lemma demo_ctx_wf: "ctx_wf demo_ctx"
proof -
  obtain story where story: "bm_get (ss_stories (story_mem (store_story demo_st))) (lit ''story-u1'') = Some story"
    "st_context story = demo_ctx" using demo_load unfolding load_story by blast
  have "story_wf (st_context story)"
    using engine_reachable_inv [OF demo_st_reachable] story(1) unfolding engine_inv_def stories_wf_def by blast
  then show ?thesis unfolding story(2) story_wf_def by (rule conjunct1)
qed

text \<open>The same turn with a model that times out: it fails in its first stage, in an expected way.\<close>

definition demo_busy_te :: turn_env where
  "demo_busy_te = demo_te\<lparr>tv_pipe := (tv_pipe demo_te)\<lparr>pe_llm := \<lambda>call messages. Err Timeout\<rparr>\<rparr>"

abbreviation demo_busy :: "CommitInput run" where
  "demo_busy \<equiv> prepare_turn demo_busy_te PipelineConfig_default demo_ctx demo_request demo_st demo_st"

theorem turn_failures_witness: "\<exists>e. snd demo_busy = Some (Err e) \<and> expected e"
proof -
  have "case snd demo_busy of Some (Inl e) \<Rightarrow> True | _ \<Rightarrow> False" by code_simp
  then obtain e where "snd demo_busy = Some (Err e)" by (auto split: option.splits sum.splits)
  moreover have "\<forall>e. snd demo_busy = Some (Err e) \<longrightarrow> expected e"
    by (rule turn_failures [OF demo_ctx_wf demo_pipeline_valid _ _ prod.collapse [symmetric], THEN conjunct2])
       (simp_all add: demo_busy_te_def exact_rounding exact_criteria)
  ultimately show ?thesis by blast
qed

section \<open>The store of the engine\<close>

theorem engine_story_ready_witness:
  "\<exists>pack p qs. PackBackend_get_pack (ctx_pack_ref demo_ctx) (store_pack demo_st) = Ok pack \<and>
     build_projection pack demo_ctx = Ok p \<and> collect_semantic_queries pack demo_ctx = Ok qs"
  using engine_story_ready [OF demo_st_reachable demo_load] by blast

definition demo_stored1 :: StoredStory where
  "demo_stored1 = the (bm_get (ss_stories (story_mem (store_story demo_st))) (lit ''story-u1''))"

lemma demo_stored1:
  "bm_get (ss_stories (story_mem (store_story demo_st))) (lit ''story-u1'') = Some demo_stored1" "st_context demo_stored1 = demo_ctx"
proof -
  obtain story where "bm_get (ss_stories (story_mem (store_story demo_st))) (lit ''story-u1'') = Some story"
    "st_context story = demo_ctx" using demo_load unfolding load_story by blast
  then show "bm_get (ss_stories (story_mem (store_story demo_st))) (lit ''story-u1'') = Some demo_stored1"
    "st_context demo_stored1 = demo_ctx" by (simp_all add: demo_stored1_def)
qed

lemma demo_stored1_facts: "ctx_life_cycle (st_context demo_stored1) = LcActive \<and> bm_size (st_committed demo_stored1) = 0"
  by code_simp

lemma demo_stored1_fresh: "bm_get (st_committed demo_stored1) key = None"
proof -
  have "\<not> bm_contains (st_committed demo_stored1) key" using demo_stored1_facts by (auto simp: bm_size_card)
  then show ?thesis by (simp add: bm_contains_def)
qed

theorem turn_commit_succeeds_witness:
  "\<exists>input c st. commit_execute demo_json 6 input (st_context demo_stored1) demo_st = (Ok c, st) \<and>
     turn_number (sc_turn c) = ctx_turn_number (st_context demo_stored1) + 1 \<and>
     (\<exists>l. StoryBackend_load (lit ''story-u1'') (store_story st) = Ok (next_context l (st_context demo_stored1) c))"
proof (rule demo_committed_turn)
  fix es input c
  assume prep: "demo_prepared = (es, Some (Ok input))"
    and com: "commit_execute demo_json 6 input demo_ctx demo_st = (Ok c, eng_store demo_engine')"
  have "bm_size (st_committed demo_stored1) < 2 ^ 64 - 1" using demo_stored1_facts by simp
  note turn_commit_succeeds [OF demo_st_reachable demo_stored1(1) conjunct1 [OF demo_stored1_facts] this demo_stored1_fresh,
      unfolded demo_stored1(2), OF prep com refl]
  with com show ?thesis unfolding demo_stored1(2) by (auto split: sum.splits)
qed

lemma demo_not_committed: "StoryBackend_find_committed (lit ''story-u1'') key (store_story demo_st) = Ok None"
  using demo_stored1(1) demo_stored1_fresh by (simp add: find_committed_story)

theorem concurrent_turn_serialized_witness:
  "\<exists>input c st. commit_execute demo_json 6 input demo_ctx demo_st = (Ok c, st) \<and>
     snd (commit_execute demo_json 7 (input\<lparr>ci_idempotency_key := lit ''k2''\<rparr>) demo_ctx st) = st"
proof (rule demo_committed_turn)
  fix es input c
  assume com: "commit_execute demo_json 6 input demo_ctx demo_st = (Ok c, eng_store demo_engine')"
  from com concurrent_turn_serialized [OF demo_st_reachable demo_load demo_not_committed demo_not_committed com prod.collapse [symmetric]]
  show ?thesis by blast
qed

theorem run_turn_atomic_witness:
  "engine_reachable demo_denv demo_json demo_config (eng_store demo_engine') \<and>
   (\<exists>c. StoryBackend_find_committed (lit ''story-u1'') (lit ''web-turn-u'') (store_story (eng_store demo_engine')) = Ok (Some c))"
proof (rule demo_committed_turn)
  fix c assume run: "engine_run_turn demo_te demo_request demo_engine =
    ((TurnStarted # map stage_event (demo_stages @ [Commit]) @ [TurnCommitted], Some (Ok c)), demo_engine')"
  have "engine_reachable demo_denv (tv_roles_json demo_te) demo_config (eng_store demo_engine)" using demo_st_reachable by simp
  from run_turn_atomic [OF this run] show ?thesis by auto
qed

theorem run_turn_retry_witness:
  "\<exists>es c. engine_run_turn demo_te demo_request demo_engine = ((es, Some (Ok c)), demo_engine') \<and>
     snd (engine_run_turn demo_te demo_request demo_engine') = demo_engine'"
proof (rule demo_committed_turn)
  fix c assume run: "engine_run_turn demo_te demo_request demo_engine =
    ((TurnStarted # map stage_event (demo_stages @ [Commit]) @ [TurnCommitted], Some (Ok c)), demo_engine')"
  have reach: "engine_reachable demo_denv (tv_roles_json demo_te) demo_config (eng_store demo_engine)" using demo_st_reachable by simp
  obtain ctx where load: "StoryBackend_load (tr_story_id demo_request) (store_story (eng_store demo_engine')) = Ok ctx"
    using run_turn_outcome [OF reach run] by (auto simp: find_committed_story load_story)
  obtain es' out eng'' where again: "engine_run_turn demo_te demo_request demo_engine' = ((es', out), eng'')" by (metis prod.collapse)
  from run_turn_retry [OF reach run refl refl again load] run again show ?thesis by auto
qed

lemma created_story_loads_witness:
  "\<exists>ctx. StoryBackend_load (lit ''story-u1'') (store_story demo_st) = Ok ctx \<and> fresh_context ctx \<and> story_wf ctx \<and>
     ctx_player ctx = lit ''xu_xian''"
proof -
  obtain info where info: "fst demo_created = Some (Ok info)" "sii_story_id info = lit ''story-u1''"
    using demo_creation_ok by (auto split: option.splits sum.splits)
  have "AiseFactory_create_story demo_denv demo_json 5 (lit ''u1'') demo_creation (Store_new demo_config) = (Some (Ok info), demo_st)"
    using info by (simp add: demo_created_def demo_st_def prod_eq_iff)
  from created_story_loads [OF engine_reachable.start this] info(2) show ?thesis by (auto simp: demo_creation_def)
qed

end
