(* ===== verification/Utf8.thy ===== *)
theory Utf8
  imports Prelude
begin

text \<open>
  UTF-8 as the standard library encodes and validates it: \<open>str::as_bytes\<close>, \<open>str::from_utf8\<close> and the
  loop that drops trailing bytes until a buffer is valid text. A byte is a natural number.

  The lemmas show that validation accepts exactly the encodings of sequences of Unicode scalar
  values and returns the sequence, that the encoding of text is as long as \<open>str_len\<close> says, and that
  no encoding is a proper prefix of another character's, so that cutting an encoded text at a byte
  limit and dropping the broken tail leaves the longest run of whole characters within the limit.
\<close>

type_synonym byte = nat

definition is_scalar :: "uchar \<Rightarrow> bool" where
  "is_scalar c \<longleftrightarrow> c < 55296 \<or> (57344 \<le> c \<and> c < 1114112)"

definition utf8_bytes :: "uchar \<Rightarrow> byte list" where
  "utf8_bytes c =
     (if c < 128 then [c]
      else if c < 2048 then [192 + c div 64, 128 + c mod 64]
      else if c < 65536 then [224 + c div 4096, 128 + c div 64 mod 64, 128 + c mod 64]
      else [240 + c div 262144, 128 + c div 4096 mod 64, 128 + c div 64 mod 64, 128 + c mod 64])"

definition as_bytes :: "str \<Rightarrow> byte list" where
  "as_bytes t = concat (map utf8_bytes t)"

definition is_continuation :: "byte \<Rightarrow> bool" where
  "is_continuation b \<longleftrightarrow> 128 \<le> b \<and> b < 192"

text \<open>One step of the validator: the first character of the bytes, by the well-formedness table.\<close>

fun utf8_step :: "byte list \<Rightarrow> (uchar \<times> byte list) option" where
  "utf8_step [] = None"
| "utf8_step (a # bs) =
     (if a < 128 then Some (a, bs)
      else if 194 \<le> a \<and> a < 224 then
        (case bs of
           b # r \<Rightarrow> if is_continuation b then Some ((a - 192) * 64 + (b - 128), r) else None
         | _ \<Rightarrow> None)
      else if 224 \<le> a \<and> a < 240 then
        (case bs of
           b # c # r \<Rightarrow>
             if is_continuation b \<and> is_continuation c \<and> (a = 224 \<longrightarrow> 160 \<le> b) \<and> (a = 237 \<longrightarrow> b < 160)
             then Some ((a - 224) * 4096 + (b - 128) * 64 + (c - 128), r) else None
         | _ \<Rightarrow> None)
      else if 240 \<le> a \<and> a < 245 then
        (case bs of
           b # c # d # r \<Rightarrow>
             if is_continuation b \<and> is_continuation c \<and> is_continuation d
                \<and> (a = 240 \<longrightarrow> 144 \<le> b) \<and> (a = 244 \<longrightarrow> b < 144)
             then Some ((a - 240) * 262144 + (b - 128) * 4096 + (c - 128) * 64 + (d - 128), r) else None
         | _ \<Rightarrow> None)
      else None)"

lemma utf8_bytes_not_Nil [simp]: "utf8_bytes c \<noteq> []"
  by (simp add: utf8_bytes_def)

lemma length_utf8_bytes [simp]: "length (utf8_bytes c) = utf8_len c"
  by (simp add: utf8_bytes_def utf8_len_def)

lemma as_bytes_Nil [simp]: "as_bytes [] = []"
  by (simp add: as_bytes_def)

lemma as_bytes_Cons [simp]: "as_bytes (c # t) = utf8_bytes c @ as_bytes t"
  by (simp add: as_bytes_def)

lemma as_bytes_append [simp]: "as_bytes (s @ t) = as_bytes s @ as_bytes t"
  by (simp add: as_bytes_def)

lemma length_as_bytes [simp]: "length (as_bytes t) = str_len t"
  by (induction t) simp_all

lemma utf8_step_bytes: "is_scalar c \<Longrightarrow> utf8_step (utf8_bytes c @ r) = Some (c, r)"
proof -
  assume c: "is_scalar c"
  consider "c < 128" | "128 \<le> c" "c < 2048" | "2048 \<le> c" "c < 65536" | "65536 \<le> c" by linarith
  then show ?thesis
  proof cases
    case 1
    then show ?thesis by (simp add: utf8_bytes_def)
  next
    case 2
    then have "2 \<le> c div 64" "c div 64 < 32" by simp_all
    with 2 show ?thesis by (simp add: utf8_bytes_def is_continuation_def)
  next
    case 3
    define q where "q = c div 64"
    have q: "c div 4096 = q div 64" by (simp add: q_def div_mult2_eq [symmetric])
    have b: "32 \<le> q" "q < 1024" using 3 by (auto simp: q_def)
    have "q div 64 = 13 \<longrightarrow> q < 864 \<or> 896 \<le> q" using c by (auto simp: is_scalar_def q_def)
    moreover have "q = q div 64 * 64 + q mod 64" "q mod 64 < 64" by simp_all
    ultimately have "q div 64 = 0 \<longrightarrow> 32 \<le> q mod 64" "q div 64 = 13 \<longrightarrow> q mod 64 < 32" "q div 64 < 16"
      using b by linarith+
    moreover have "q div 64 * 4096 + q mod 64 * 64 + c mod 64 = c"
    proof -
      have "q = q div 64 * 64 + q mod 64" "c = q * 64 + c mod 64" by (simp_all add: q_def)
      then show ?thesis by linarith
    qed
    ultimately show ?thesis using 3 by (simp add: utf8_bytes_def is_continuation_def q q_def [symmetric])
  next
    case 4
    define q where "q = c div 64"
    define p where "p = q div 64"
    have q: "c div 262144 = p div 64" "c div 4096 = p"
      by (simp_all add: q_def p_def div_mult2_eq [symmetric])
    have b: "16 \<le> p" "p < 272" using 4 c by (auto simp: q [symmetric] is_scalar_def)
    moreover have "p = p div 64 * 64 + p mod 64" "p mod 64 < 64" by simp_all
    ultimately have "p div 64 = 0 \<longrightarrow> 16 \<le> p mod 64" "p div 64 = 4 \<longrightarrow> p mod 64 < 16" "p div 64 < 5"
      by linarith+
    moreover have "p div 64 * 262144 + p mod 64 * 4096 + q mod 64 * 64 + c mod 64 = c"
    proof -
      have "p = p div 64 * 64 + p mod 64" "q = p * 64 + q mod 64" "c = q * 64 + c mod 64"
        by (simp_all add: p_def q_def)
      then show ?thesis by linarith
    qed
    ultimately show ?thesis using 4 by (simp add: utf8_bytes_def is_continuation_def q q_def [symmetric])
  qed
qed

lemma mix_div_mod: "b < 64 \<Longrightarrow> (a * 64 + b) div 64 = (a :: nat)" "b < 64 \<Longrightarrow> (a * 64 + b) mod 64 = b"
  by simp_all

lemma utf8_step_Some:
  assumes "utf8_step bs = Some (c, r)"
  shows "is_scalar c \<and> bs = utf8_bytes c @ r"
proof (cases bs)
  case Nil
  with assms show ?thesis by simp
next
  case (Cons a xs)
  consider "a < 128" | "194 \<le> a" "a < 224" | "224 \<le> a" "a < 240" | "240 \<le> a" "a < 245"
    using assms Cons by (auto split: if_splits)
  then show ?thesis
  proof cases
    case 1
    with assms Cons show ?thesis by (simp add: utf8_bytes_def is_scalar_def)
  next
    case 2
    with assms Cons obtain b where xs: "xs = b # r" "128 \<le> b" "b < 192"
      and c: "c = (a - 192) * 64 + (b - 128)"
      by (auto simp: is_continuation_def split: list.splits if_splits)
    have "c div 64 = a - 192" "c mod 64 = b - 128"
      unfolding c by (rule mix_div_mod, use xs in linarith)+
    moreover have "128 \<le> c" "c < 2048" using c 2 xs by linarith+
    ultimately show ?thesis using Cons xs 2 by (simp add: utf8_bytes_def is_scalar_def)
  next
    case 3
    with assms Cons obtain b d where xs: "xs = b # d # r" "128 \<le> b" "b < 192" "128 \<le> d" "d < 192"
        "a = 224 \<longrightarrow> 160 \<le> b" "a = 237 \<longrightarrow> b < 160"
      and c: "c = ((a - 224) * 64 + (b - 128)) * 64 + (d - 128)"
      by (auto simp: is_continuation_def algebra_simps split: list.splits if_splits)
    have q: "c div 64 = (a - 224) * 64 + (b - 128)" "c mod 64 = d - 128"
      unfolding c by (rule mix_div_mod, use xs in linarith)+
    have p: "c div 4096 = a - 224" "c div 64 mod 64 = b - 128"
      using q(1) xs mix_div_mod [of "b - 128" "a - 224"] by (simp_all add: div_mult2_eq [of c 64 64, simplified])
    have "2048 \<le> c" "c < 65536" "is_scalar c"
    proof -
      define i j k where "i = a - 224" and "j = b - 128" and "k = d - 128"
      have i: "i < 16" "i = 0 \<longrightarrow> 32 \<le> j" "i = 13 \<longrightarrow> j < 32" "j < 64" "k < 64"
        using 3 xs by (auto simp: i_def j_def k_def)
      have ci: "c = (i * 64 + j) * 64 + k" using c by (simp add: i_def j_def k_def)
      show "2048 \<le> c" using i ci by (cases "i = 0") simp_all
      show "c < 65536" using i ci by simp
      show "is_scalar c" unfolding is_scalar_def using i ci by (cases "i = 13") auto
    qed
    with p q(2) show ?thesis using Cons xs 3 by (simp add: utf8_bytes_def)
  next
    case 4
    with assms Cons obtain b d e where xs: "xs = b # d # e # r" "128 \<le> b" "b < 192" "128 \<le> d" "d < 192"
        "128 \<le> e" "e < 192" "a = 240 \<longrightarrow> 144 \<le> b" "a = 244 \<longrightarrow> b < 144"
      and c: "c = (((a - 240) * 64 + (b - 128)) * 64 + (d - 128)) * 64 + (e - 128)"
      by (auto simp: is_continuation_def algebra_simps split: list.splits if_splits)
    have q: "c div 64 = ((a - 240) * 64 + (b - 128)) * 64 + (d - 128)" "c mod 64 = e - 128"
      unfolding c by (rule mix_div_mod, use xs in linarith)+
    have p: "c div 4096 = (a - 240) * 64 + (b - 128)" "c div 64 mod 64 = d - 128"
      using q(1) xs mix_div_mod [of "d - 128" "(a - 240) * 64 + (b - 128)"]
      by (simp_all add: div_mult2_eq [of c 64 64, simplified])
    have o: "c div 262144 = a - 240" "c div 4096 mod 64 = b - 128"
      using p(1) xs mix_div_mod [of "b - 128" "a - 240"] by (simp_all add: div_mult2_eq [of c 4096 64, simplified])
    have "65536 \<le> c" "is_scalar c"
    proof -
      define i j k l where "i = a - 240" and "j = b - 128" and "k = d - 128" and "l = e - 128"
      have i: "i < 5" "i = 0 \<longrightarrow> 16 \<le> j" "i = 4 \<longrightarrow> j < 16" "j < 64" "k < 64" "l < 64"
        using 4 xs by (auto simp: i_def j_def k_def l_def)
      have ci: "c = ((i * 64 + j) * 64 + k) * 64 + l" using c by (simp add: i_def j_def k_def l_def)
      show "65536 \<le> c" using i ci by (cases "i = 0") simp_all
      then show "is_scalar c" unfolding is_scalar_def using i ci by (cases "i = 4") auto
    qed
    with o p(2) q(2) show ?thesis using Cons xs 4 by (simp add: utf8_bytes_def)
  qed
qed

lemma utf8_step_Some_iff: "utf8_step bs = Some (c, r) \<longleftrightarrow> is_scalar c \<and> bs = utf8_bytes c @ r"
  using utf8_step_Some utf8_step_bytes by blast

lemma utf8_step_shorter: "utf8_step bs = Some (c, r) \<Longrightarrow> length r < length bs"
  by (simp add: utf8_step_Some_iff)

function from_utf8 :: "byte list \<Rightarrow> str option" where
  "from_utf8 bs =
     (if bs = [] then Some []
      else case utf8_step bs of
          None \<Rightarrow> None
        | Some (c, r) \<Rightarrow> map_option (Cons c) (from_utf8 r))"
  by pat_completeness auto
termination
  by (relation "measure length") (auto dest: utf8_step_shorter)

declare from_utf8.simps [simp del]

lemma from_utf8_iff: "from_utf8 bs = Some t \<longleftrightarrow> list_all is_scalar t \<and> bs = as_bytes t"
proof (induction bs arbitrary: t rule: from_utf8.induct)
  case (1 bs)
  show ?case
  proof (cases t)
    case Nil
    then show ?thesis by (auto simp: from_utf8.simps [of bs] split: option.splits)
  next
    case (Cons c u)
    have "from_utf8 bs = Some (c # u) \<longleftrightarrow> (\<exists>r. utf8_step bs = Some (c, r) \<and> from_utf8 r = Some u)"
      by (cases "bs = []") (simp add: from_utf8.simps, auto simp: from_utf8.simps [of bs] split: option.splits)
    also have "\<dots> \<longleftrightarrow> (\<exists>r. utf8_step bs = Some (c, r) \<and> list_all is_scalar u \<and> r = as_bytes u)"
    proof -
      have "utf8_step bs = Some (c, r) \<Longrightarrow> from_utf8 r = Some u \<longleftrightarrow> list_all is_scalar u \<and> r = as_bytes u" for r
        by (cases "bs = []") (simp, rule "1" [OF _ _ refl], simp_all)
      then show ?thesis by blast
    qed
    also have "\<dots> \<longleftrightarrow> list_all is_scalar t \<and> bs = as_bytes t"
      by (auto simp: utf8_step_Some_iff Cons)
    finally show ?thesis by (simp add: Cons)
  qed
qed

lemma from_as_bytes [simp]: "list_all is_scalar t \<Longrightarrow> from_utf8 (as_bytes t) = Some t"
  by (simp add: from_utf8_iff)

lemma from_utf8_Nil [simp]: "from_utf8 [] = Some []"
  by (simp add: from_utf8.simps)

lemma from_utf8_length: "from_utf8 bs = Some t \<Longrightarrow> str_len t = length bs"
  by (auto simp: from_utf8_iff)

lemma as_bytes_prefix:
  "list_all is_scalar s \<Longrightarrow> list_all is_scalar t \<Longrightarrow> as_bytes s @ x = as_bytes t
   \<Longrightarrow> \<exists>w. t = s @ w \<and> x = as_bytes w"
proof (induction s arbitrary: t)
  case Nil
  then show ?case by simp
next
  case (Cons c s)
  have st: "utf8_step (as_bytes t) = Some (c, as_bytes s @ x)"
    using Cons.prems by (simp add: utf8_step_Some_iff flip: Cons.prems(3))
  then obtain d u where t: "t = d # u" by (cases t) auto
  then have "utf8_step (as_bytes t) = Some (d, as_bytes u)"
    using Cons.prems(2) by (simp add: utf8_step_bytes)
  with st have "d = c" "as_bytes s @ x = as_bytes u" by simp_all
  with Cons t show ?case by auto
qed

section \<open>Dropping a broken tail\<close>

text \<open>\<open>while from_utf8(&bytes).is_err() { bytes.pop(); }\<close>\<close>

function trim_to_utf8 :: "byte list \<Rightarrow> byte list" where
  "trim_to_utf8 bs = (if from_utf8 bs = None then trim_to_utf8 (butlast bs) else bs)"
  by pat_completeness auto
termination
proof (relation "measure length")
  fix bs
  assume "from_utf8 bs = None"
  then have "bs \<noteq> []" by auto
  then show "(butlast bs, bs) \<in> measure length" by simp
qed simp

declare trim_to_utf8.simps [simp del]

lemma trim_to_utf8_longest:
  "\<exists>k. trim_to_utf8 bs = take k bs \<and> k \<le> length bs \<and> from_utf8 (take k bs) \<noteq> None
     \<and> (\<forall>j. k < j \<and> j \<le> length bs \<longrightarrow> from_utf8 (take j bs) = None)"
proof (induction bs rule: trim_to_utf8.induct)
  case (1 bs)
  show ?case
  proof (cases "from_utf8 bs = None")
    case False
    then have "trim_to_utf8 bs = bs" unfolding trim_to_utf8.simps [of bs] by (rule if_not_P)
    with False show ?thesis by (intro exI [of _ "length bs"]) auto
  next
    case True
    let ?b = "butlast bs"
    from "1.IH" [OF True] obtain k where k: "trim_to_utf8 ?b = take k ?b" "k \<le> length ?b"
        "from_utf8 (take k ?b) \<noteq> None" "\<forall>j. k < j \<and> j \<le> length ?b \<longrightarrow> from_utf8 (take j ?b) = None"
      by blast
    have tk: "take j ?b = take j bs" if "j \<le> length ?b" for j
      using that by (simp add: butlast_conv_take)
    have "from_utf8 (take j bs) = None" if j: "k < j" "j \<le> length bs" for j
    proof (cases "j = length bs")
      case False
      with j have "j \<le> length ?b" by simp
      with k(4) j tk [of j] show ?thesis by auto
    qed (use True in simp)
    moreover have "k \<le> length bs" using k(2) by simp
    ultimately show ?thesis
      using k True tk [OF k(2)] by (intro exI [of _ k]) (simp add: trim_to_utf8.simps [of bs])
  qed
qed

text \<open>
  Cutting encoded text at \<open>n\<close> bytes and dropping the broken tail keeps the longest run of whole
  characters that fits.
\<close>

lemma trim_take_as_bytes:
  assumes t: "list_all is_scalar t"
  obtains u w where "t = u @ w" "trim_to_utf8 (take n (as_bytes t)) = as_bytes u" "str_len u \<le> n"
    "w \<noteq> [] \<Longrightarrow> n < str_len u + utf8_len (hd w)"
proof -
  let ?b = "take n (as_bytes t)"
  obtain k where k: "trim_to_utf8 ?b = take k ?b" "k \<le> length ?b" "from_utf8 (take k ?b) \<noteq> None"
      "\<forall>j. k < j \<and> j \<le> length ?b \<longrightarrow> from_utf8 (take j ?b) = None"
    using trim_to_utf8_longest by blast
  then obtain u where "from_utf8 (take k ?b) = Some u" by blast
  then have u: "list_all is_scalar u" "take k ?b = as_bytes u" by (simp_all add: from_utf8_iff)
  have kn: "k \<le> n" "k \<le> str_len t" using k(2) by auto
  then have ku: "take k ?b = take k (as_bytes t)" by (simp add: min_absorb1)
  then have lu: "str_len u = k" using u(2) kn by (metis length_as_bytes length_take min_absorb2)
  have "as_bytes u @ drop k (as_bytes t) = as_bytes t" using u(2) ku by (metis append_take_drop_id)
  from as_bytes_prefix [OF u(1) t this] obtain w where w: "t = u @ w" by blast
  have "n < str_len u + utf8_len (hd w)" if "w \<noteq> []"
  proof (rule ccontr)
    assume n: "\<not> n < str_len u + utf8_len (hd w)"
    from that obtain c v where cv: "w = c # v" by (cases w) auto
    let ?j = "str_len (u @ [c])"
    have j: "k < ?j" "?j \<le> length ?b" using n cv w lu by auto
    have "take ?j ?b = take ?j (as_bytes t)" using j(2) by (simp add: min_absorb1)
    also have "\<dots> = as_bytes (u @ [c])" using w cv length_as_bytes [of "u @ [c]"]
      by (metis append.assoc append_Cons append_Nil append_eq_conv_conj as_bytes_append)
    finally have "from_utf8 (take ?j ?b) = Some (u @ [c])"
      using t w cv by (simp add: from_utf8_iff)
    with k(4) j show False by auto
  qed
  then show thesis using that [OF w] k(1) u(2) lu kn by simp
qed

end
