(* ===== verification/Prompt_Catalog.thy ===== *)
theory Prompt_Catalog
  imports Pipeline_Common Utf8
begin

text \<open>
  \<open>prompt/\<close>: the catalog of prompt templates. \<open>load_catalog\<close> reads the manifest and the three
  template files of every prompt under byte limits and inside the prompt directory, \<open>PromptRenderer\<close>
  registers them with the template engine, \<open>Prompt::render\<close> turns a prompt id and its variables
  into the System, User, System messages of a model call.

  Parameters: the file system (\<open>file_system\<close>), the TOML parser (\<open>toml_from_str\<close>) and the
  \<open>minijinja\<close> engine (\<open>minijinja\<close>: whether a source compiles, and what a registered template
  renders to, given all registered sources, since a template may include others). Paths are Unix
  paths, as text; \<open>Path::components\<close>, \<open>join\<close> and \<open>starts_with\<close> are written out. Sizes are natural
  numbers: all loaded templates are in memory at once, so that their total cannot overflow; the one
  sum that can, \<open>max_template_bytes as u64 + 1\<close>, wraps as in the release build.
\<close>

section \<open>Paths\<close>

type_synonym path = str

datatype Component = RootDir | CurDir | ParentDir | Normal str

text \<open>The pieces between slashes, empty ones included.\<close>

fun split_slash :: "str \<Rightarrow> str list" where
  "split_slash [] = [[]]"
| "split_slash (c # t) =
     (if c = 47 then [] # split_slash t
      else case split_slash t of p # ps \<Rightarrow> (c # p) # ps | [] \<Rightarrow> [[c]])"

definition has_root :: "path \<Rightarrow> bool" where
  "has_root p \<longleftrightarrow> p \<noteq> [] \<and> hd p = 47"

definition component_of :: "str \<Rightarrow> Component option" where
  "component_of s =
     (if s = [] \<or> s = lit ''.'' then None
      else if s = lit ''..'' then Some ParentDir
      else Some (Normal s))"

definition components :: "path \<Rightarrow> Component list" where
  "components p =
     (let pieces = split_slash p
      in (if has_root p then [RootDir] else if hd pieces = lit ''.'' then [CurDir] else [])
         @ List.map_filter component_of pieces)"

definition path_join :: "path \<Rightarrow> path \<Rightarrow> path" where
  "path_join base p =
     (if has_root p then p
      else if base = [] \<or> last base = 47 then base @ p
      else base @ [47] @ p)"

definition path_starts_with :: "path \<Rightarrow> path \<Rightarrow> bool" where
  "path_starts_with p base \<longleftrightarrow> take (length (components base)) (components p) = components base"

section \<open>What the module calls\<close>

record file_system =
  fs_metadata_len :: "path \<Rightarrow> nat option"
  fs_read_to_string :: "path \<Rightarrow> str option"
  fs_canonicalize :: "path \<Rightarrow> path option"
  fs_contents :: "path \<Rightarrow> byte list option"

record minijinja =
  mj_compiles :: "str \<Rightarrow> str \<Rightarrow> bool"
  mj_render :: "(str \<rightharpoonup> str) \<Rightarrow> str \<Rightarrow> prompt_vars \<Rightarrow> str option"

section \<open>Configuration and manifest (\<open>config.rs\<close>, \<open>manifest.rs\<close>)\<close>

record PromptConfig =
  pcfg_directory :: path
  max_prompts :: nat
  max_template_bytes :: nat
  max_total_template_bytes :: nat

definition PromptConfig_default :: PromptConfig where
  "PromptConfig_default =
     \<lparr>pcfg_directory = lit ''prompts'', max_prompts = 100, max_template_bytes = 1024,
      max_total_template_bytes = 10240\<rparr>"

record PromptManifestEntry =
  pme_id :: str
  pme_csi :: str
  pme_rc :: str
  pme_fti :: str

record PromptManifest =
  pm_prompts :: "PromptManifestEntry list"

fun PromptManifestEntry_path :: "PromptManifestEntry \<Rightarrow> PromptLayer \<Rightarrow> str" where
  "PromptManifestEntry_path e Csi = pme_csi e"
| "PromptManifestEntry_path e Rc = pme_rc e"
| "PromptManifestEntry_path e Fti = pme_fti e"

definition PromptLayer_ORDERED :: "PromptLayer list" where
  "PromptLayer_ORDERED = [Csi, Rc, Fti]"

fun PromptLayer_as_str :: "PromptLayer \<Rightarrow> string" where
  "PromptLayer_as_str Csi = ''csi''"
| "PromptLayer_as_str Rc = ''rc''"
| "PromptLayer_as_str Fti = ''fti''"

fun PromptLayer_role :: "PromptLayer \<Rightarrow> ChatMessageRole" where
  "PromptLayer_role Csi = System"
| "PromptLayer_role Fti = System"
| "PromptLayer_role Rc = User"

definition MANIFEST_FILE_NAME :: str where
  "MANIFEST_FILE_NAME = lit ''index.toml''"

section \<open>Loading (\<open>loader.rs\<close>)\<close>

record LoadedPrompt =
  lp_id :: str
  lp_csi :: str
  lp_rc :: str
  lp_fti :: str

fun LoadedPrompt_source :: "LoadedPrompt \<Rightarrow> PromptLayer \<Rightarrow> str" where
  "LoadedPrompt_source p Csi = lp_csi p"
| "LoadedPrompt_source p Rc = lp_rc p"
| "LoadedPrompt_source p Fti = lp_fti p"

record LoadedCatalog =
  lc_prompts :: "LoadedPrompt list"
  lc_total_template_bytes :: nat

definition validate_config :: "PromptConfig \<Rightarrow> PromptError + unit" where
  "validate_config config =
     (let limits = [(''max_prompts'', max_prompts config),
                    (''max_template_bytes'', max_template_bytes config),
                    (''max_total_template_bytes'', max_total_template_bytes config)]
      in case find (\<lambda>(_, v). v = 0) limits of
           Some (field, _) \<Rightarrow> Err (PromptInvalidConfig field ''must be non-zero'')
         | None \<Rightarrow> Ok ())"

definition prompt_canonicalize :: "file_system \<Rightarrow> path \<Rightarrow> str \<Rightarrow> PromptLayer \<Rightarrow> PromptError + path" where
  "prompt_canonicalize fs p prompt_id layer = ok_or (TemplateRead prompt_id layer p) (fs_canonicalize fs p)"

definition resolve_template_path ::
  "file_system \<Rightarrow> path \<Rightarrow> str \<Rightarrow> PromptLayer \<Rightarrow> str \<Rightarrow> PromptError + path" where
  "resolve_template_path fs base_dir prompt_id layer relative =
     (let invalid = InvalidTemplatePath prompt_id layer relative
      in if relative = [] then Err (invalid ''empty'')
         else if has_root relative \<or> RootDir \<in> set (components relative) then Err (invalid ''absolute'')
         else if ParentDir \<in> set (components relative) then Err (invalid ''parent_component'')
         else rbind (prompt_canonicalize fs base_dir prompt_id layer) (\<lambda>canonical_root.
              rbind (prompt_canonicalize fs (path_join base_dir relative) prompt_id layer) (\<lambda>canonical_path.
                if \<not> path_starts_with canonical_path canonical_root then Err (invalid ''outside_root'')
                else Ok canonical_path)))"

definition read_manifest :: "file_system \<Rightarrow> (str \<Rightarrow> PromptManifest option) \<Rightarrow> PromptConfig \<Rightarrow> PromptError + PromptManifest" where
  "read_manifest fs toml_from_str config =
     (let p = path_join (pcfg_directory config) MANIFEST_FILE_NAME
      in rbind (ok_or (ManifestRead p) (fs_metadata_len fs p)) (\<lambda>bytes.
         if bytes > max_template_bytes config
         then Err (ManifestTooLarge p bytes (max_template_bytes config))
         else rbind (ok_or (ManifestRead p) (fs_read_to_string fs p)) (\<lambda>t.
              ok_or (ManifestParse p) (toml_from_str t))))"

definition read_template :: "file_system \<Rightarrow> PromptConfig \<Rightarrow> str \<Rightarrow> PromptLayer \<Rightarrow> path \<Rightarrow> PromptError + str" where
  "read_template fs config prompt_id layer p =
     rbind (ok_or (TemplateRead prompt_id layer p) (fs_contents fs p)) (\<lambda>contents.
       let bytes = take ((max_template_bytes config + 1) mod 2 ^ 64) contents
       in if length bytes > max_template_bytes config
          then Err (TemplateTooLarge prompt_id layer p (length bytes) (max_template_bytes config))
          else ok_or (TemplateRead prompt_id layer p) (from_utf8 bytes))"

definition load_layer ::
  "file_system \<Rightarrow> PromptConfig \<Rightarrow> PromptManifestEntry \<Rightarrow> PromptLayer \<Rightarrow> nat \<Rightarrow> PromptError + (str \<times> nat)" where
  "load_layer fs config entry layer total_template_bytes =
     rbind (resolve_template_path fs (pcfg_directory config) (pme_id entry) layer
              (PromptManifestEntry_path entry layer)) (\<lambda>p.
     rbind (read_template fs config (pme_id entry) layer p) (\<lambda>source.
       let total_template_bytes = total_template_bytes + str_len source
       in if total_template_bytes > max_total_template_bytes config
          then Err (TotalTemplateBytesExceeded total_template_bytes (max_total_template_bytes config))
          else Ok (source, total_template_bytes)))"

definition load_prompt ::
  "file_system \<Rightarrow> PromptConfig \<Rightarrow> PromptManifestEntry \<Rightarrow> nat \<Rightarrow> PromptError + (LoadedPrompt \<times> nat)" where
  "load_prompt fs config entry n =
     rbind (load_layer fs config entry Csi n) (\<lambda>(csi, n).
     rbind (load_layer fs config entry Rc n) (\<lambda>(rc, n).
     rbind (load_layer fs config entry Fti n) (\<lambda>(fti, n).
       Ok (\<lparr>lp_id = pme_id entry, lp_csi = csi, lp_rc = rc, lp_fti = fti\<rparr>, n))))"

fun load_prompts ::
  "file_system \<Rightarrow> PromptConfig \<Rightarrow> nat \<Rightarrow> str set \<Rightarrow> nat \<Rightarrow> PromptManifestEntry list \<Rightarrow> PromptError + LoadedCatalog" where
  "load_prompts fs config index seen n [] = Ok \<lparr>lc_prompts = [], lc_total_template_bytes = n\<rparr>"
| "load_prompts fs config index seen n (entry # entries) =
     (if trim (pme_id entry) = [] then Err (EmptyPromptId index)
      else if pme_id entry \<in> seen then Err (DuplicatePromptId (pme_id entry))
      else rbind (load_prompt fs config entry n) (\<lambda>(p, n).
           rmap (\<lambda>c. c\<lparr>lc_prompts := p # lc_prompts c\<rparr>)
             (load_prompts fs config (index + 1) (insert (pme_id entry) seen) n entries)))"

definition load_catalog :: "file_system \<Rightarrow> (str \<Rightarrow> PromptManifest option) \<Rightarrow> PromptConfig \<Rightarrow> PromptError + LoadedCatalog" where
  "load_catalog fs toml_from_str config =
     rbind (validate_config config) (\<lambda>_.
     rbind (read_manifest fs toml_from_str config) (\<lambda>manifest.
       if length (pm_prompts manifest) > max_prompts config
       then Err (TooManyPrompts (length (pm_prompts manifest)) (max_prompts config))
       else load_prompts fs config 0 {} 0 (pm_prompts manifest)))"

section \<open>Compiling and rendering (\<open>renderer.rs\<close>)\<close>

record PromptTemplateNames =
  ptn_csi :: str
  ptn_rc :: str
  ptn_fti :: str

fun PromptTemplateNames_get :: "PromptTemplateNames \<Rightarrow> PromptLayer \<Rightarrow> str" where
  "PromptTemplateNames_get n Csi = ptn_csi n"
| "PromptTemplateNames_get n Rc = ptn_rc n"
| "PromptTemplateNames_get n Fti = ptn_fti n"

definition template_name :: "str \<Rightarrow> PromptLayer \<Rightarrow> str" where
  "template_name prompt_id layer = prompt_id @ lit ''/'' @ lit (PromptLayer_as_str layer)"

text \<open>The engine's environment: the sources registered under each name.\<close>

record PromptRenderer =
  pr_env :: "str \<rightharpoonup> str"

definition PromptRenderer_new :: PromptRenderer where
  "PromptRenderer_new = \<lparr>pr_env = Map.empty\<rparr>"

definition add_template_owned :: "minijinja \<Rightarrow> str \<Rightarrow> str \<Rightarrow> PromptRenderer \<Rightarrow> unit + PromptRenderer" where
  "add_template_owned mj name source r =
     (if mj_compiles mj name source then Ok (r\<lparr>pr_env := (pr_env r)(name \<mapsto> source)\<rparr>) else Err ())"

definition PromptRenderer_compile ::
  "minijinja \<Rightarrow> PromptRenderer \<Rightarrow> LoadedPrompt \<Rightarrow> PromptError + (PromptTemplateNames \<times> PromptRenderer)" where
  "PromptRenderer_compile mj r prompt =
     (let names = \<lparr>ptn_csi = template_name (lp_id prompt) Csi, ptn_rc = template_name (lp_id prompt) Rc,
                   ptn_fti = template_name (lp_id prompt) Fti\<rparr>
      in rmap (Pair names)
           (try_fold (\<lambda>r layer. map_err (\<lambda>_. TemplateCompile (lp_id prompt) layer)
                        (add_template_owned mj (PromptTemplateNames_get names layer)
                           (LoadedPrompt_source prompt layer) r))
              r PromptLayer_ORDERED))"

definition PromptRenderer_render ::
  "minijinja \<Rightarrow> PromptRenderer \<Rightarrow> PromptTemplateNames \<Rightarrow> str \<Rightarrow> PromptLayer \<Rightarrow> prompt_vars \<Rightarrow> PromptError + str" where
  "PromptRenderer_render mj r names prompt_id layer vars =
     (case pr_env r (PromptTemplateNames_get names layer) of
        None \<Rightarrow> Err (TemplateRender prompt_id layer)
      | Some _ \<Rightarrow> ok_or (TemplateRender prompt_id layer)
                    (mj_render mj (pr_env r) (PromptTemplateNames_get names layer) vars))"

section \<open>The catalog (\<open>prompt.rs\<close>)\<close>

record RenderedPrompt =
  rp_prompt_id :: str
  rp_messages :: "ChatMessage list"

record Prompt =
  prompt_catalog :: "str \<rightharpoonup> PromptTemplateNames"
  prompt_renderer :: PromptRenderer

definition layer_message :: "PromptLayer \<Rightarrow> str \<Rightarrow> ChatMessage" where
  "layer_message layer content = \<lparr>cmsg_role = PromptLayer_role layer, cmsg_content = content\<rparr>"

definition compile_prompt :: "minijinja \<Rightarrow> Prompt \<Rightarrow> LoadedPrompt \<Rightarrow> PromptError + Prompt" where
  "compile_prompt mj P p =
     rmap (\<lambda>(names, r). P\<lparr>prompt_renderer := r, prompt_catalog := (prompt_catalog P)(lp_id p \<mapsto> names)\<rparr>)
       (PromptRenderer_compile mj (prompt_renderer P) p)"

definition Prompt_new ::
  "file_system \<Rightarrow> (str \<Rightarrow> PromptManifest option) \<Rightarrow> minijinja \<Rightarrow> PromptConfig \<Rightarrow> PromptError + Prompt" where
  "Prompt_new fs toml_from_str mj config =
     rbind (load_catalog fs toml_from_str config) (\<lambda>loaded.
       try_fold (compile_prompt mj)
         \<lparr>prompt_catalog = Map.empty, prompt_renderer = PromptRenderer_new\<rparr> (lc_prompts loaded))"

definition inner_render :: "minijinja \<Rightarrow> Prompt \<Rightarrow> str \<Rightarrow> prompt_vars \<Rightarrow> PromptError + RenderedPrompt" where
  "inner_render mj P prompt_id vars =
     rbind (ok_or (PromptNotFound prompt_id) (prompt_catalog P prompt_id)) (\<lambda>names.
     rbind (try_map (\<lambda>layer. rmap (layer_message layer)
                       (PromptRenderer_render mj (prompt_renderer P) names prompt_id layer vars))
              PromptLayer_ORDERED) (\<lambda>messages.
       Ok \<lparr>rp_prompt_id = prompt_id, rp_messages = messages\<rparr>))"

section \<open>The loader keeps its limits\<close>

definition prompt_sources :: "LoadedPrompt \<Rightarrow> str list" where
  "prompt_sources p = map (LoadedPrompt_source p) PromptLayer_ORDERED"

lemma resolve_template_path_Ok:
  "resolve_template_path fs base_dir prompt_id layer relative = Ok p \<longleftrightarrow>
     relative \<noteq> [] \<and> \<not> has_root relative \<and> RootDir \<notin> set (components relative)
     \<and> ParentDir \<notin> set (components relative)
     \<and> fs_canonicalize fs (path_join base_dir relative) = Some p
     \<and> (\<exists>r. fs_canonicalize fs base_dir = Some r \<and> path_starts_with p r)"
  by (auto simp: resolve_template_path_def prompt_canonicalize_def Let_def result_simps)

lemma read_template_Ok:
  assumes "read_template fs config prompt_id layer p = Ok source"
  obtains contents where "fs_contents fs p = Some contents" "str_len source \<le> max_template_bytes config"
    "as_bytes source = take ((max_template_bytes config + 1) mod 2 ^ 64) contents"
proof -
  let ?n = "(max_template_bytes config + 1) mod 2 ^ 64"
  from assms obtain contents where k: "fs_contents fs p = Some contents"
      "length (take ?n contents) \<le> max_template_bytes config" "from_utf8 (take ?n contents) = Some source"
    unfolding read_template_def Let_def by (auto simp: result_simps split: if_splits)
  with from_utf8_length [OF k(3)] have "str_len source \<le> max_template_bytes config" by argo
  with k show thesis using that by (auto simp: from_utf8_iff)
qed

lemma load_layer_Ok:
  assumes "load_layer fs config entry layer n = Ok (source, m)"
  shows "m = n + str_len source \<and> m \<le> max_total_template_bytes config
    \<and> str_len source \<le> max_template_bytes config
    \<and> (\<exists>p. resolve_template_path fs (pcfg_directory config) (pme_id entry) layer
               (PromptManifestEntry_path entry layer) = Ok p
           \<and> read_template fs config (pme_id entry) layer p = Ok source)"
  using assms
  by (auto simp: load_layer_def Let_def result_simps split: if_splits elim: read_template_Ok)

lemma load_prompt_Ok:
  assumes "load_prompt fs config entry n = Ok (p, m)"
  shows "lp_id p = pme_id entry \<and> m = n + sum_list (map str_len (prompt_sources p))
    \<and> m \<le> max_total_template_bytes config
    \<and> (\<forall>layer. \<exists>k j. load_layer fs config entry layer k = Ok (LoadedPrompt_source p layer, j))"
proof -
  from assms obtain csi k rc j fti where
    l: "load_layer fs config entry Csi n = Ok (csi, k)" "load_layer fs config entry Rc k = Ok (rc, j)"
       "load_layer fs config entry Fti j = Ok (fti, m)"
    and p: "p = \<lparr>lp_id = pme_id entry, lp_csi = csi, lp_rc = rc, lp_fti = fti\<rparr>"
    by (auto simp: load_prompt_def result_simps)
  have "\<exists>k j. load_layer fs config entry layer k = Ok (LoadedPrompt_source p layer, j)" for layer
    using l by (cases layer) (auto simp: p)
  moreover have "m = n + sum_list (map str_len (prompt_sources p)) \<and> m \<le> max_total_template_bytes config"
    using load_layer_Ok [OF l(1)] load_layer_Ok [OF l(2)] load_layer_Ok [OF l(3)]
    by (simp add: prompt_sources_def PromptLayer_ORDERED_def p)
  ultimately show ?thesis by (simp add: p)
qed

lemma load_prompts_Ok:
  "load_prompts fs config i seen n es = Ok c \<Longrightarrow> n \<le> max_total_template_bytes config \<Longrightarrow>
     map lp_id (lc_prompts c) = map pme_id es \<and> distinct (map lp_id (lc_prompts c))
     \<and> lp_id ` set (lc_prompts c) \<inter> seen = {}
     \<and> list_all2 (\<lambda>e p. trim (pme_id e) \<noteq> [] \<and> (\<exists>k j. load_prompt fs config e k = Ok (p, j))) es (lc_prompts c)
     \<and> lc_total_template_bytes c = n + sum_list (map str_len (concat (map prompt_sources (lc_prompts c))))
     \<and> lc_total_template_bytes c \<le> max_total_template_bytes config"
proof (induction es arbitrary: i seen n c)
  case Nil
  then show ?case by auto
next
  case (Cons e es)
  from Cons.prems(1) obtain p m d where
    e: "trim (pme_id e) \<noteq> []" "pme_id e \<notin> seen" and p: "load_prompt fs config e n = Ok (p, m)"
    and d: "load_prompts fs config (i + 1) (insert (pme_id e) seen) m es = Ok d"
    and c: "c = d\<lparr>lc_prompts := p # lc_prompts d\<rparr>"
    by (auto simp: result_simps split: if_splits)
  note pm = load_prompt_Ok [OF p]
  from pm have m: "m \<le> max_total_template_bytes config" by blast
  note IH = Cons.IH [OF d m]
  have ids: "map lp_id (lc_prompts d) = map pme_id es" using IH by blast
  have "pme_id e \<notin> lp_id ` set (lc_prompts d)" using IH by blast
  then have ne: "pme_id e \<notin> pme_id ` set es" using arg_cong [OF ids, of set] by simp
  have "lp_id p = pme_id e" using pm by blast
  moreover have "distinct (map pme_id es)" using IH ids by metis
  ultimately have "distinct (map lp_id (lc_prompts c)) \<and> map lp_id (lc_prompts c) = map pme_id (e # es)"
    using ne ids by (simp add: c)
  with IH pm p e show ?case by (simp add: c) blast
qed

lemma load_catalog_Ok:
  assumes "load_catalog fs toml_from_str config = Ok c"
  shows "\<exists>m. read_manifest fs toml_from_str config = Ok m
    \<and> length (pm_prompts m) \<le> max_prompts config \<and> load_prompts fs config 0 {} 0 (pm_prompts m) = Ok c"
  using assms by (auto simp: load_catalog_def result_simps split: if_splits)

lemma loaded_layer:
  assumes c: "load_catalog fs toml_from_str config = Ok c" and p: "p \<in> set (lc_prompts c)"
  obtains e k j where "load_layer fs config e layer k = Ok (LoadedPrompt_source p layer, j)"
    "lp_id p = pme_id e" "trim (lp_id p) \<noteq> []"
proof -
  obtain m :: PromptManifest where m: "load_prompts fs config 0 {} 0 (pm_prompts m) = Ok c"
    using load_catalog_Ok [OF c] by blast
  then have "list_all2 (\<lambda>e p. trim (pme_id e) \<noteq> [] \<and> (\<exists>k j. load_prompt fs config e k = Ok (p, j)))
      (pm_prompts m) (lc_prompts c)"
    using load_prompts_Ok [OF m] by simp
  with p obtain e k j where "trim (pme_id e) \<noteq> []" "load_prompt fs config e k = Ok (p, j)"
    by (auto simp: list_all2_conv_all_nth in_set_conv_nth)
  then show thesis using load_prompt_Ok that by metis
qed

lemma sum_list_sources:
  "sum_list (map str_len (concat (map prompt_sources ps)))
   = (\<Sum>p \<leftarrow> ps. \<Sum>layer \<leftarrow> PromptLayer_ORDERED. str_len (LoadedPrompt_source p layer))"
  by (induction ps) (simp_all add: prompt_sources_def comp_def)

lemma catalog_ids:
  assumes "load_catalog fs toml_from_str config = Ok c"
  shows "distinct (map lp_id (lc_prompts c))"
proof -
  obtain m :: PromptManifest where m: "load_prompts fs config 0 {} 0 (pm_prompts m) = Ok c"
    using load_catalog_Ok [OF assms] by blast
  show ?thesis using load_prompts_Ok [OF m, OF le0] by blast
qed

text \<open>
  A catalog that loads respects every limit of its configuration: at most \<open>max_prompts\<close> prompts
  with distinct, non-blank ids, every template at most \<open>max_template_bytes\<close> bytes long, and the
  reported total, the sum of all template lengths, at most \<open>max_total_template_bytes\<close>.
\<close>

lemma load_catalog_bounded:
  assumes "load_catalog fs toml_from_str config = Ok c"
  shows "length (lc_prompts c) \<le> max_prompts config \<and> distinct (map lp_id (lc_prompts c))
    \<and> (\<forall>p \<in> set (lc_prompts c). trim (lp_id p) \<noteq> []
         \<and> (\<forall>layer. str_len (LoadedPrompt_source p layer) \<le> max_template_bytes config))
    \<and> lc_total_template_bytes c
        = (\<Sum>p \<leftarrow> lc_prompts c. \<Sum>layer \<leftarrow> PromptLayer_ORDERED. str_len (LoadedPrompt_source p layer))
    \<and> lc_total_template_bytes c \<le> max_total_template_bytes config"
proof -
  obtain m :: PromptManifest where m: "length (pm_prompts m) \<le> max_prompts config"
      "load_prompts fs config 0 {} 0 (pm_prompts m) = Ok c"
    using load_catalog_Ok [OF assms] by blast
  note L = load_prompts_Ok [OF m(2), simplified]
  have "length (lc_prompts c) \<le> max_prompts config" using L m(1) by (metis length_map)
  moreover have "lc_total_template_bytes c
      = (\<Sum>p \<leftarrow> lc_prompts c. \<Sum>layer \<leftarrow> PromptLayer_ORDERED. str_len (LoadedPrompt_source p layer))"
    using L by (simp add: sum_list_sources)
  moreover have "trim (lp_id p) \<noteq> [] \<and> str_len (LoadedPrompt_source p layer) \<le> max_template_bytes config"
    if "p \<in> set (lc_prompts c)" for p layer
    using loaded_layer [OF assms that] load_layer_Ok by metis
  ultimately show ?thesis using L catalog_ids [OF assms] by blast
qed

text \<open>
  C33. Every template that reaches the engine is, byte for byte, the contents of a file whose
  canonical path lies under the canonical prompt directory, reached by a relative path of the
  manifest without a parent component.
\<close>

theorem templates_confined:
  assumes c: "load_catalog fs toml_from_str config = Ok c" and p: "p \<in> set (lc_prompts c)"
    and limit: "max_template_bytes config < usize_max"
  shows "\<exists>relative base_dir file. ParentDir \<notin> set (components relative) \<and> \<not> has_root relative
    \<and> fs_canonicalize fs (pcfg_directory config) = Some base_dir
    \<and> fs_canonicalize fs (path_join (pcfg_directory config) relative) = Some file
    \<and> path_starts_with file base_dir
    \<and> fs_contents fs file = Some (as_bytes (LoadedPrompt_source p layer))"
proof -
  let ?s = "LoadedPrompt_source p layer"
  obtain e k j where "load_layer fs config e layer k = Ok (?s, j)"
    using c p by (rule loaded_layer [of fs toml_from_str config c p layer])
  from load_layer_Ok [OF this] obtain f where
    f: "resolve_template_path fs (pcfg_directory config) (pme_id e) layer (PromptManifestEntry_path e layer) = Ok f"
    and r: "read_template fs config (pme_id e) layer f = Ok ?s" by blast
  from read_template_Ok [OF r] obtain contents where
    k: "fs_contents fs f = Some contents" "str_len ?s \<le> max_template_bytes config"
    "as_bytes ?s = take ((max_template_bytes config + 1) mod 2 ^ 64) contents" .
  have "(max_template_bytes config + 1) mod 2 ^ 64 = max_template_bytes config + 1" using limit by simp
  then have t: "as_bytes ?s = take (max_template_bytes config + 1) contents" using k(3) by simp
  moreover have "length contents \<le> max_template_bytes config + 1"
    using k(2) arg_cong [OF t, of length] by simp
  ultimately have "as_bytes ?s = contents" by simp
  then show ?thesis using f k(1) unfolding resolve_template_path_Ok by blast
qed

section \<open>The renderer serves the loaded templates\<close>

lemma template_name_inject:
  "template_name i l = template_name j k \<longleftrightarrow> i = j \<and> l = k"
proof
  assume e: "template_name i l = template_name j k"
  then have "rev (template_name i l) = rev (template_name j k)" by simp
  then show "i = j \<and> l = k"
    by (cases l; cases k) (simp_all add: template_name_def lit_def)
qed simp

text \<open>The environment the templates of a list of prompts make, and the names they are found under.\<close>

definition template_env :: "LoadedPrompt list \<Rightarrow> str \<rightharpoonup> str" where
  "template_env ps = map_of
     (rev (concat (map (\<lambda>p. map (\<lambda>l. (template_name (lp_id p) l, LoadedPrompt_source p l)) PromptLayer_ORDERED) ps)))"

definition names_of :: "str \<Rightarrow> PromptTemplateNames" where
  "names_of i = \<lparr>ptn_csi = template_name i Csi, ptn_rc = template_name i Rc, ptn_fti = template_name i Fti\<rparr>"

lemma names_of_get [simp]: "PromptTemplateNames_get (names_of i) l = template_name i l"
  by (cases l) (simp_all add: names_of_def)

lemma template_env_lookup:
  assumes "distinct (map lp_id ps)" and "p \<in> set ps"
  shows "template_env ps (template_name (lp_id p) l) = Some (LoadedPrompt_source p l)"
proof -
  let ?ts = "\<lambda>p. map (\<lambda>l. (template_name (lp_id p) l, LoadedPrompt_source p l)) PromptLayer_ORDERED"
  let ?xs = "concat (map ?ts ps)"
  have keys: "fst ` set (?ts p) = range (template_name (lp_id p))" for p
    by (auto simp: PromptLayer_ORDERED_def image_iff) (metis PromptLayer.exhaust)
  have "distinct (map fst ?xs)"
    using assms(1)
  proof (induction ps)
    case (Cons q qs)
    have "distinct (map fst (?ts q))" by (simp add: PromptLayer_ORDERED_def template_name_inject)
    moreover have "set (map fst (?ts q)) \<inter> set (map fst (concat (map ?ts qs))) = {}"
      using Cons.prems by (auto simp: PromptLayer_ORDERED_def template_name_inject)
    ultimately show ?case using Cons by simp
  qed simp
  moreover have "(template_name (lp_id p) l, LoadedPrompt_source p l) \<in> set ?xs"
    using assms(2) by (cases l) (auto simp: PromptLayer_ORDERED_def)
  ultimately show ?thesis by (simp add: template_env_def rev_map [symmetric])
qed

lemma compile_prompt_Ok:
  "compile_prompt mj P p = Ok Q \<Longrightarrow>
     prompt_catalog Q = (prompt_catalog P)(lp_id p \<mapsto> names_of (lp_id p))
     \<and> pr_env (prompt_renderer Q) = pr_env (prompt_renderer P)
         ++ template_env [p]
     \<and> (\<forall>l. mj_compiles mj (template_name (lp_id p) l) (LoadedPrompt_source p l))"
  by (auto simp: compile_prompt_def PromptRenderer_compile_def PromptLayer_ORDERED_def Let_def result_simps
      add_template_owned_def template_env_def names_of_def split: if_splits)
    (metis LoadedPrompt_source.simps PromptLayer.exhaust)

lemma compile_prompts_Ok:
  "try_fold (compile_prompt mj) P ps = Ok Q \<Longrightarrow>
     prompt_catalog Q i = (if i \<in> lp_id ` set ps then Some (names_of i) else prompt_catalog P i)
     \<and> pr_env (prompt_renderer Q) = pr_env (prompt_renderer P) ++ template_env ps"
proof (induction ps arbitrary: P)
  case Nil
  then show ?case by (simp add: template_env_def)
next
  case (Cons p ps)
  then obtain R where R: "compile_prompt mj P p = Ok R" "try_fold (compile_prompt mj) R ps = Ok Q"
    by (auto simp: result_simps)
  have "template_env (p # ps) = template_env [p] ++ template_env ps" by (simp add: template_env_def)
  with Cons.IH [OF R(2)] compile_prompt_Ok [OF R(1)] show ?case by simp
qed

lemma Prompt_new_Ok:
  assumes "Prompt_new fs toml_from_str mj config = Ok P"
  obtains c where "load_catalog fs toml_from_str config = Ok c"
    "prompt_catalog P = (\<lambda>i. if i \<in> lp_id ` set (lc_prompts c) then Some (names_of i) else None)"
    "pr_env (prompt_renderer P) = template_env (lc_prompts c)"
proof -
  from assms obtain c where c: "load_catalog fs toml_from_str config = Ok c"
    and f: "try_fold (compile_prompt mj) \<lparr>prompt_catalog = Map.empty, prompt_renderer = PromptRenderer_new\<rparr>
      (lc_prompts c) = Ok P"
    by (auto simp: Prompt_new_def result_simps)
  from compile_prompts_Ok [OF f] show thesis
    by (intro that [OF c]) (simp_all add: PromptRenderer_new_def fun_eq_iff)
qed

text \<open>
  A prompt catalog serves exactly what it loaded. An id the manifest does not declare is
  \<open>PromptNotFound\<close>; for a declared id, each of the three layers is registered under its own name with
  that prompt's own source (no two prompts or layers share a template name), and rendering is the
  System, User and System message of the engine's output on them, or the first render error.
\<close>

lemma prompt_serves_loaded:
  assumes P: "Prompt_new fs toml_from_str mj config = Ok P"
  shows "\<exists>c env. load_catalog fs toml_from_str config = Ok c \<and> pr_env (prompt_renderer P) = env
    \<and> (\<forall>p \<in> set (lc_prompts c). \<forall>l. env (template_name (lp_id p) l) = Some (LoadedPrompt_source p l))
    \<and> (\<forall>i. i \<notin> lp_id ` set (lc_prompts c) \<longrightarrow> inner_render mj P i vars = Err (PromptNotFound i))
    \<and> (\<forall>i \<in> lp_id ` set (lc_prompts c). inner_render mj P i vars =
         (case (mj_render mj env (template_name i Csi) vars, mj_render mj env (template_name i Rc) vars,
                mj_render mj env (template_name i Fti) vars) of
            (Some a, Some b, Some d) \<Rightarrow>
              Ok \<lparr>rp_prompt_id = i,
                  rp_messages = [\<lparr>cmsg_role = System, cmsg_content = a\<rparr>, \<lparr>cmsg_role = User, cmsg_content = b\<rparr>,
                                 \<lparr>cmsg_role = System, cmsg_content = d\<rparr>]\<rparr>
          | (None, _, _) \<Rightarrow> Err (TemplateRender i Csi)
          | (Some _, None, _) \<Rightarrow> Err (TemplateRender i Rc)
          | (Some _, Some _, None) \<Rightarrow> Err (TemplateRender i Fti)))"
proof -
  obtain c where c: "load_catalog fs toml_from_str config = Ok c"
    and cat: "prompt_catalog P = (\<lambda>i. if i \<in> lp_id ` set (lc_prompts c) then Some (names_of i) else None)"
    and env: "pr_env (prompt_renderer P) = template_env (lc_prompts c)"
    using P by (rule Prompt_new_Ok)
  have own: "template_env (lc_prompts c) (template_name (lp_id p) l) = Some (LoadedPrompt_source p l)"
    if "p \<in> set (lc_prompts c)" for p l
    using template_env_lookup [OF catalog_ids [OF c] that] .
  have "inner_render mj P i vars = Err (PromptNotFound i)" if "i \<notin> lp_id ` set (lc_prompts c)" for i
    using that by (simp add: inner_render_def cat)
  moreover have "inner_render mj P (lp_id p) vars =
      rbind (try_map (\<lambda>l. rmap (layer_message l) (ok_or (TemplateRender (lp_id p) l)
         (mj_render mj (template_env (lc_prompts c)) (template_name (lp_id p) l) vars))) PromptLayer_ORDERED)
       (\<lambda>messages. Ok \<lparr>rp_prompt_id = lp_id p, rp_messages = messages\<rparr>)"
    if "p \<in> set (lc_prompts c)" for p
    using that own [OF that] by (simp add: inner_render_def cat PromptRenderer_render_def env)
  ultimately show ?thesis
    by (intro exI [of _ c] exI [of _ "template_env (lc_prompts c)"])
      (auto simp: c env own PromptLayer_ORDERED_def layer_message_def split: option.splits)
qed

end
