(* ===== verification/Tracing.thy ===== *)
theory Tracing
  imports Pipeline_Common Utf8
begin

text \<open>
  \<open>trace/\<close>: what the engine records about a turn. \<open>ContentCapture\<close> bounds the captured text of an
  observation, \<open>Observation\<close> writes attributes to one span and finishes it once, \<open>Trace\<close> owns the
  root observation and the attributes every observation below it inherits.

  Parameters: the bytes \<open>serde_json\<close> writes for a value, as the chunks it writes them in (or its
  error), the SHA-256 digest in hexadecimal, and, for a new span, the context the tracer gives it and
  whether a subscriber records it. A span is what was set on it, in order; on a span that is not
  recorded every setter is a no-op, as it is in \<open>tracing\<close>. A \<open>usize\<close> count is a natural number with
  its saturation written out.
\<close>

section \<open>Model (\<open>model.rs\<close>)\<close>

datatype ObservationKind = Chain | Span | Generation | Retriever | Tool | Evaluator

fun ObservationKind_as_str :: "ObservationKind \<Rightarrow> string" where
  "ObservationKind_as_str Chain = ''chain''"
| "ObservationKind_as_str Span = ''span''"
| "ObservationKind_as_str Generation = ''generation''"
| "ObservationKind_as_str Retriever = ''retriever''"
| "ObservationKind_as_str Tool = ''tool''"
| "ObservationKind_as_str Evaluator = ''evaluator''"

datatype ObservationStatus = StOk | StError | StCancelled | StDeadlineExceeded | StConflict | StIncomplete

fun ObservationStatus_as_str :: "ObservationStatus \<Rightarrow> string" where
  "ObservationStatus_as_str StOk = ''ok''"
| "ObservationStatus_as_str StError = ''error''"
| "ObservationStatus_as_str StCancelled = ''cancelled''"
| "ObservationStatus_as_str StDeadlineExceeded = ''deadline_exceeded''"
| "ObservationStatus_as_str StConflict = ''conflict''"
| "ObservationStatus_as_str StIncomplete = ''incomplete''"

datatype AttributeValue =
    AvString str
  | AvBool bool
  | AvI64 int
  | AvU64 u64
  | AvF64 f64
  | AvStringList "str list"

record Attribute =
  at_key :: string
  at_value :: AttributeValue

definition Attribute_string :: "string \<Rightarrow> str \<Rightarrow> Attribute" where
  "Attribute_string k v = \<lparr>at_key = k, at_value = AvString v\<rparr>"

definition Attribute_bool :: "string \<Rightarrow> bool \<Rightarrow> Attribute" where
  "Attribute_bool k v = \<lparr>at_key = k, at_value = AvBool v\<rparr>"

definition Attribute_u64 :: "string \<Rightarrow> u64 \<Rightarrow> Attribute" where
  "Attribute_u64 k v = \<lparr>at_key = k, at_value = AvU64 v\<rparr>"

record ObservationError =
  oe_code :: string
  oe_failure_kind :: string
  oe_stage :: "string option"
  oe_message :: str

record GenerationUsage =
  gu_input :: u64
  gu_input_cached_tokens :: u64
  gu_output :: u64
  gu_output_reasoning_tokens :: u64
  gu_total :: u64

definition u64_checked_add :: "u64 \<Rightarrow> u64 \<Rightarrow> u64 option" where
  "u64_checked_add a b = (if unat a + unat b < 2 ^ 64 then Some (a + b) else None)"

definition GenerationUsage_is_valid :: "GenerationUsage \<Rightarrow> bool" where
  "GenerationUsage_is_valid u \<longleftrightarrow>
     Option.bind (Option.bind (u64_checked_add (gu_input u) (gu_input_cached_tokens u))
       (\<lambda>v. u64_checked_add v (gu_output u))) (\<lambda>v. u64_checked_add v (gu_output_reasoning_tokens u))
     = Some (gu_total u)"

record GenerationCost =
  gc_currency :: string
  gc_input :: "f64 option"
  gc_input_cached_tokens :: "f64 option"
  gc_output :: "f64 option"
  gc_output_reasoning_tokens :: "f64 option"
  gc_total :: f64

definition GenerationCost_is_exportable :: "GenerationCost \<Rightarrow> bool" where
  "GenerationCost_is_exportable c \<longleftrightarrow>
     gc_currency c = ''USD'' \<and> is_finite (gc_total c) \<and> f_le (Fin 0) (gc_total c)
     \<and> list_all (\<lambda>v. is_finite v \<and> f_le (Fin 0) v)
         (List.map_filter id [gc_input c, gc_input_cached_tokens c, gc_output c, gc_output_reasoning_tokens c])"

datatype ContentCapturePolicy = MetadataOnly | RedactedContent | FullContent

record ObservabilityContentConfig =
  occ_policy :: ContentCapturePolicy
  occ_max_field_bytes :: nat
  occ_max_observation_bytes :: nat
  occ_detector_overlap_bytes :: nat

record BoundedContent =
  bc_json :: str
  bc_original_bytes :: nat
  bc_captured_bytes :: nat
  bc_truncated :: bool
  bc_sha256 :: str

record SessionSpec =
  ss_id :: "str option"
  ss_user_id :: "str option"
  ss_metadata :: "Attribute list"

record TraceSpec =
  ts_name :: string
  ts_input :: "BoundedContent option"
  ts_metadata :: "Attribute list"
  ts_tags :: "str list"

record ObservationSpec =
  os_name :: string
  os_kind :: ObservationKind
  os_input :: "BoundedContent option"
  os_metadata :: "Attribute list"

record ObservationOutcome =
  oo_status :: ObservationStatus
  oo_metadata :: "Attribute list"
  oo_output :: "BoundedContent option"
  oo_error :: "ObservationError option"
  oo_usage :: "GenerationUsage option"
  oo_cost :: "GenerationCost option"

definition ObservationOutcome_default :: ObservationOutcome where
  "ObservationOutcome_default =
     \<lparr>oo_status = StIncomplete, oo_metadata = [], oo_output = None, oo_error = None, oo_usage = None, oo_cost = None\<rparr>"

section \<open>Content capture (\<open>content.rs\<close>)\<close>

record BoundedHashWriter =
  hw_captured :: "byte list"
  hw_limit :: nat
  hw_original_bytes :: nat
  hw_hashed :: "byte list"

definition BoundedHashWriter_new :: "nat \<Rightarrow> BoundedHashWriter" where
  "BoundedHashWriter_new limit =
     \<lparr>hw_captured = [], hw_limit = limit, hw_original_bytes = 0, hw_hashed = []\<rparr>"

definition BoundedHashWriter_write :: "BoundedHashWriter \<Rightarrow> byte list \<Rightarrow> BoundedHashWriter" where
  "BoundedHashWriter_write w bytes =
     (let remaining = hw_limit w - length (hw_captured w)
      in w\<lparr>hw_hashed := hw_hashed w @ bytes,
           hw_original_bytes := usize_saturating_add (hw_original_bytes w) (length bytes),
           hw_captured := hw_captured w @ take (min remaining (length bytes)) bytes\<rparr>)"

definition BoundedHashWriter_finish :: "(byte list \<Rightarrow> str) \<Rightarrow> BoundedHashWriter \<Rightarrow> BoundedContent" where
  "BoundedHashWriter_finish sha256 w =
     (let captured = trim_to_utf8 (hw_captured w);
          captured_bytes = length captured;
          json = (case from_utf8 captured of Some t \<Rightarrow> t | None \<Rightarrow> [])
      in \<lparr>bc_json = json, bc_original_bytes = hw_original_bytes w, bc_captured_bytes = captured_bytes,
          bc_truncated = (hw_original_bytes w > captured_bytes), bc_sha256 = sha256 (hw_hashed w)\<rparr>)"

record CaptureResult =
  cr_content :: "BoundedContent option"
  cr_encode_failed :: bool

definition capture_limit :: "ObservabilityContentConfig \<Rightarrow> nat \<Rightarrow> nat" where
  "capture_limit config remaining =
     (let field_limit = usize_saturating_add (occ_max_field_bytes config) (occ_detector_overlap_bytes config);
          observation_limit = usize_saturating_add (min remaining (occ_max_observation_bytes config))
                                (occ_detector_overlap_bytes config)
      in min field_limit observation_limit)"

text \<open>\<open>written\<close> is what \<open>serde_json::to_writer\<close> writes for the value, chunk by chunk.\<close>

definition ContentCapture_encode ::
  "(byte list \<Rightarrow> str) \<Rightarrow> ObservabilityContentConfig \<Rightarrow> byte list list option \<Rightarrow> nat \<Rightarrow> CaptureResult" where
  "ContentCapture_encode sha256 config written remaining =
     (if occ_policy config = MetadataOnly then \<lparr>cr_content = None, cr_encode_failed = False\<rparr>
      else case written of
          Some chunks \<Rightarrow>
            \<lparr>cr_content = Some (BoundedHashWriter_finish sha256
               (foldl BoundedHashWriter_write (BoundedHashWriter_new (capture_limit config remaining)) chunks)),
             cr_encode_failed = False\<rparr>
        | None \<Rightarrow> \<lparr>cr_content = None, cr_encode_failed = True\<rparr>)"

section \<open>Observations (\<open>observation.rs\<close>)\<close>

type_synonym context_id = nat

datatype otel_value = OvString str | OvBool bool | OvI64 int | OvF64 f64 | OvArray "str list"

record span =
  sp_name :: string
  sp_parent :: "context_id option"
  sp_recording :: bool
  sp_attributes :: "(string \<times> otel_value) list"
  sp_status_code :: "string option"
  sp_status_message :: "str option"

definition set_attribute :: "string \<Rightarrow> otel_value \<Rightarrow> span \<Rightarrow> span" where
  "set_attribute k v s = (if sp_recording s then s\<lparr>sp_attributes := sp_attributes s @ [(k, v)]\<rparr> else s)"

definition record_status_code :: "string \<Rightarrow> span \<Rightarrow> span" where
  "record_status_code v s = (if sp_recording s then s\<lparr>sp_status_code := Some v\<rparr> else s)"

definition record_status_message :: "str \<Rightarrow> span \<Rightarrow> span" where
  "record_status_message v s = (if sp_recording s then s\<lparr>sp_status_message := Some v\<rparr> else s)"

record Observation =
  ob_span :: span
  ob_context :: context_id
  ob_content :: ObservabilityContentConfig
  ob_propagated :: "Attribute list"
  ob_finished :: bool

definition on_span :: "(span \<Rightarrow> span) \<Rightarrow> Observation \<Rightarrow> Observation" where
  "on_span f ob = ob\<lparr>ob_span := f (ob_span ob)\<rparr>"

definition is_recording :: "Observation \<Rightarrow> bool" where
  "is_recording ob \<longleftrightarrow> sp_recording (ob_span ob)"

fun attribute_value :: "AttributeValue \<Rightarrow> otel_value" where
  "attribute_value (AvString v) = OvString v"
| "attribute_value (AvBool v) = OvBool v"
| "attribute_value (AvI64 v) = OvI64 v"
| "attribute_value (AvU64 v) = (if unat v < 2 ^ 63 then OvI64 (int (unat v)) else OvString (show_nat (unat v)))"
| "attribute_value (AvF64 v) = OvF64 v"
| "attribute_value (AvStringList v) = OvArray v"

definition record_attribute :: "Observation \<Rightarrow> Attribute \<Rightarrow> Observation" where
  "record_attribute ob a =
     (if \<not> is_recording ob then ob else on_span (set_attribute (at_key a) (attribute_value (at_value a))) ob)"

definition record_attributes :: "Observation \<Rightarrow> Attribute list \<Rightarrow> Observation" where
  "record_attributes ob as = foldl record_attribute ob as"

definition record_static :: "string \<Rightarrow> string \<Rightarrow> Observation \<Rightarrow> Observation" where
  "record_static k v ob = (if is_recording ob then on_span (set_attribute k (OvString (lit v))) ob else ob)"

datatype ContentDirection = Input | Output

fun content_keys :: "ContentDirection \<Rightarrow> string \<times> string \<times> string \<times> string \<times> string" where
  "content_keys Input =
     (''aise.observation.input'', ''aise.observation.metadata.input_original_bytes'',
      ''aise.observation.metadata.input_captured_bytes'', ''aise.observation.metadata.input_truncated'',
      ''aise.observation.metadata.input_sha256'')"
| "content_keys Output =
     (''aise.observation.output'', ''aise.observation.metadata.output_original_bytes'',
      ''aise.observation.metadata.output_captured_bytes'', ''aise.observation.metadata.output_truncated'',
      ''aise.observation.metadata.output_sha256'')"

definition record_content :: "Observation \<Rightarrow> BoundedContent \<Rightarrow> ContentDirection \<Rightarrow> Observation" where
  "record_content ob content direction =
     (let (content_key, original_key, captured_key, truncated_key, hash_key) = content_keys direction;
          ob = on_span (set_attribute content_key (OvString (bc_json content))) ob;
          ob = record_attribute ob (Attribute_u64 original_key (of_nat (bc_original_bytes content)));
          ob = record_attribute ob (Attribute_u64 captured_key (of_nat (bc_captured_bytes content)));
          ob = record_attribute ob (Attribute_bool truncated_key (bc_truncated content))
      in on_span (set_attribute hash_key (OvString (bc_sha256 content))) ob)"

definition usage_json :: "GenerationUsage \<Rightarrow> json" where
  "usage_json u = JObj [(''input'', JNat (unat (gu_input u))),
     (''input_cached_tokens'', JNat (unat (gu_input_cached_tokens u))), (''output'', JNat (unat (gu_output u))),
     (''output_reasoning_tokens'', JNat (unat (gu_output_reasoning_tokens u))), (''total'', JNat (unat (gu_total u)))]"

definition cost_json :: "GenerationCost \<Rightarrow> json" where
  "cost_json c = (let opt = (\<lambda>v. case v of None \<Rightarrow> JNull | Some f \<Rightarrow> JF64 f) in
     JObj [(''currency'', JStr (lit (gc_currency c))), (''input'', opt (gc_input c)),
       (''input_cached_tokens'', opt (gc_input_cached_tokens c)), (''output'', opt (gc_output c)),
       (''output_reasoning_tokens'', opt (gc_output_reasoning_tokens c)), (''total'', JF64 (gc_total c))])"

text \<open>\<open>to_string\<close> is \<open>serde_json::to_string\<close>, \<open>None\<close> when it fails.\<close>

definition record_details :: "(json \<Rightarrow> str option) \<Rightarrow> string \<Rightarrow> json \<Rightarrow> Observation \<Rightarrow> Observation" where
  "record_details to_string k v ob =
     (case to_string v of
        Some t \<Rightarrow> on_span (set_attribute k (OvString t)) ob
      | None \<Rightarrow> record_attribute ob (Attribute_bool ''aise.observation.metadata.content_encode_failed'' True))"

definition record_usage :: "(json \<Rightarrow> str option) \<Rightarrow> Observation \<Rightarrow> GenerationUsage \<Rightarrow> Observation" where
  "record_usage to_string ob u =
     (if \<not> GenerationUsage_is_valid u then ob
      else record_details to_string ''aise.observation.usage_details'' (usage_json u) ob)"

definition record_cost :: "(json \<Rightarrow> str option) \<Rightarrow> Observation \<Rightarrow> GenerationCost \<Rightarrow> Observation" where
  "record_cost to_string ob c =
     (if \<not> GenerationCost_is_exportable c then ob
      else record_details to_string ''aise.observation.cost_details'' (cost_json c) ob)"

definition set_level :: "string \<Rightarrow> Observation \<Rightarrow> Observation" where
  "set_level level ob = on_span (set_attribute ''aise.observation.level'' (OvString (lit level))) ob"

definition set_status_message :: "str \<Rightarrow> Observation \<Rightarrow> Observation" where
  "set_status_message m ob = on_span (set_attribute ''aise.observation.status_message'' (OvString m)) ob"

definition record_status_only :: "ObservationStatus \<Rightarrow> Observation \<Rightarrow> Observation" where
  "record_status_only status ob =
     (let msg = lit (ObservationStatus_as_str status) in
      if status = StOk then on_span (record_status_code ''OK'') ob
      else if status \<in> {StCancelled, StConflict, StIncomplete}
      then set_status_message msg (set_level ''WARNING'' (on_span (record_status_message msg) ob))
      else set_status_message msg (set_level ''ERROR''
             (on_span (record_status_message msg) (on_span (record_status_code ''ERROR'') ob))))"

definition record_error :: "ObservationStatus \<Rightarrow> ObservationError \<Rightarrow> Observation \<Rightarrow> Observation" where
  "record_error status error ob =
     (let message = take 1024 (oe_message error);
          ob = on_span (record_status_code ''ERROR'') ob;
          ob = on_span (record_status_message message) ob;
          ob = set_level (if status = StConflict then ''WARNING'' else ''ERROR'') ob;
          ob = set_status_message message ob;
          ob = on_span (set_attribute ''aise.observation.metadata.error_code'' (OvString (lit (oe_code error)))) ob;
          ob = on_span (set_attribute ''aise.observation.metadata.failure_kind''
                 (OvString (lit (oe_failure_kind error)))) ob
      in case oe_stage error of
           Some stage \<Rightarrow> on_span (set_attribute ''aise.observation.metadata.stage'' (OvString (lit stage))) ob
         | None \<Rightarrow> ob)"

definition record_status :: "Observation \<Rightarrow> ObservationStatus \<Rightarrow> ObservationError option \<Rightarrow> Observation" where
  "record_status ob status error =
     (let ob = record_status_only status ob
      in case error of Some e \<Rightarrow> record_error status e ob | None \<Rightarrow> ob)"

definition finish_inner :: "(json \<Rightarrow> str option) \<Rightarrow> Observation \<Rightarrow> ObservationOutcome \<Rightarrow> Observation" where
  "finish_inner to_string ob outcome =
     (if ob_finished ob then ob
      else let ob = (if is_recording ob
             then let ob = record_attributes ob (oo_metadata outcome);
                      ob = (case oo_output outcome of Some c \<Rightarrow> record_content ob c Output | None \<Rightarrow> ob);
                      ob = (case oo_usage outcome of Some u \<Rightarrow> record_usage to_string ob u | None \<Rightarrow> ob);
                      ob = (case oo_cost outcome of Some c \<Rightarrow> record_cost to_string ob c | None \<Rightarrow> ob)
                  in record_status ob (oo_status outcome) (oo_error outcome)
             else ob)
           in ob\<lparr>ob_finished := True\<rparr>)"

definition Observation_drop :: "(json \<Rightarrow> str option) \<Rightarrow> Observation \<Rightarrow> Observation" where
  "Observation_drop to_string ob =
     (if \<not> ob_finished ob then finish_inner to_string ob ObservationOutcome_default else ob)"

text \<open>\<open>finish\<close> takes the observation by value, which drops it at the end of the call.\<close>

definition Observation_finish :: "(json \<Rightarrow> str option) \<Rightarrow> Observation \<Rightarrow> ObservationOutcome \<Rightarrow> Observation" where
  "Observation_finish to_string ob outcome = Observation_drop to_string (finish_inner to_string ob outcome)"

definition Observation_new ::
  "context_id \<Rightarrow> bool \<Rightarrow> ObservationSpec \<Rightarrow> context_id option \<Rightarrow> ObservabilityContentConfig \<Rightarrow> Attribute list
   \<Rightarrow> Observation" where
  "Observation_new ctx recording spec parent content propagated =
     (let span = \<lparr>sp_name = os_name spec, sp_parent = parent, sp_recording = recording, sp_attributes = [],
                  sp_status_code = None, sp_status_message = None\<rparr>;
          ob = \<lparr>ob_span = span, ob_context = ctx, ob_content = content, ob_propagated = propagated,
                ob_finished = False\<rparr>;
          ob = record_static ''aise.observation.type'' (ObservationKind_as_str (os_kind spec)) ob;
          ob = record_static ''aise.schema.version'' ''2'' ob;
          ob = record_attributes ob (ob_propagated ob);
          ob = record_attributes ob (os_metadata spec)
      in case os_input spec of Some c \<Rightarrow> record_content ob c Input | None \<Rightarrow> ob)"

definition Observation_begin :: "context_id \<Rightarrow> bool \<Rightarrow> Observation \<Rightarrow> ObservationSpec \<Rightarrow> Observation" where
  "Observation_begin ctx recording ob spec =
     Observation_new ctx recording spec (Some (ob_context ob)) (ob_content ob) (ob_propagated ob)"

definition capture_content :: "(byte list \<Rightarrow> str) \<Rightarrow> Observation \<Rightarrow> byte list list option \<Rightarrow> BoundedContent option" where
  "capture_content sha256 ob written =
     cr_content (ContentCapture_encode sha256 (ob_content ob) written (occ_max_observation_bytes (ob_content ob)))"

section \<open>Traces (\<open>trace.rs\<close>, \<open>session.rs\<close>)\<close>

definition is_propagated :: "string \<Rightarrow> bool" where
  "is_propagated k \<longleftrightarrow> k \<in> {''aise.trace.name'', ''aise.trace.tags'', ''aise.trace.environment'',
     ''aise.trace.release'', ''aise.schema.version'', ''langfuse.session.id'', ''aise.trace.metadata.story_id'',
     ''aise.trace.metadata.idempotency_key_digest'', ''aise.trace.metadata.turn_number''}"

record Trace =
  tr_root :: "Observation option"
  tr_context :: context_id
  tr_content :: ObservabilityContentConfig
  tr_propagated :: "Attribute list"
  tr_finished :: bool

text \<open>\<open>iter_mut().find(key)\<close>, replaced in place, or a push at the end.\<close>

fun put_attribute :: "Attribute \<Rightarrow> Attribute list \<Rightarrow> Attribute list" where
  "put_attribute a [] = [a]"
| "put_attribute a (b # bs) = (if at_key b = at_key a then a # bs else b # put_attribute a bs)"

definition bind_attribute :: "Trace \<Rightarrow> Attribute \<Rightarrow> Trace" where
  "bind_attribute tr a =
     (if \<not> is_propagated (at_key a) then tr
      else let root' = map_option (\<lambda>r. record_attribute r a) (tr_root tr)
           in tr\<lparr>tr_root := root', tr_propagated := put_attribute a (tr_propagated tr),
                 tr_context := (case root' of Some r \<Rightarrow> ob_context r | None \<Rightarrow> tr_context tr)\<rparr>)"

definition Trace_bind :: "Trace \<Rightarrow> Attribute list \<Rightarrow> Trace" where
  "Trace_bind tr as =
     (let tr = foldl bind_attribute tr as
      in tr\<lparr>tr_root := map_option (\<lambda>r. r\<lparr>ob_propagated := tr_propagated tr\<rparr>) (tr_root tr)\<rparr>)"

definition Trace_begin ::
  "context_id \<Rightarrow> bool \<Rightarrow> SessionSpec \<Rightarrow> TraceSpec \<Rightarrow> ObservabilityContentConfig \<Rightarrow> Trace" where
  "Trace_begin ctx recording session spec content =
     (let metadata = ss_metadata session @ ts_metadata spec
            @ [Attribute_string ''aise.trace.name'' (lit (ts_name spec)),
               Attribute_string ''aise.schema.version'' (lit ''2'')]
            @ (case ss_id session of Some i \<Rightarrow> [Attribute_string ''langfuse.session.id'' i] | None \<Rightarrow> []);
          propagated = filter (\<lambda>a. is_propagated (at_key a)) metadata;
          root' = Observation_new ctx recording
            \<lparr>os_name = ts_name spec, os_kind = Chain, os_input = ts_input spec, os_metadata = metadata\<rparr>
            None content propagated;
          tr = \<lparr>tr_root = Some root', tr_context = ob_context root', tr_content = content,
                tr_propagated = propagated, tr_finished = False\<rparr>
      in Trace_bind tr [Attribute_string ''aise.trace.tags'' (join (lit '','') (ts_tags spec))])"

definition begin_observation :: "context_id \<Rightarrow> bool \<Rightarrow> Trace \<Rightarrow> ObservationSpec \<Rightarrow> Observation" where
  "begin_observation ctx recording tr spec =
     Observation_new ctx recording spec (Some (tr_context tr)) (tr_content tr) (tr_propagated tr)"

text \<open>\<open>finish\<close> and the drop of an unfinished trace give the root observation, finished.\<close>

definition Trace_finish :: "(json \<Rightarrow> str option) \<Rightarrow> Trace \<Rightarrow> ObservationOutcome \<Rightarrow> Observation option \<times> Trace" where
  "Trace_finish to_string tr outcome =
     (map_option (\<lambda>r. Observation_finish to_string r outcome) (tr_root tr), tr\<lparr>tr_root := None, tr_finished := True\<rparr>)"

definition Trace_drop :: "(json \<Rightarrow> str option) \<Rightarrow> Trace \<Rightarrow> Trace" where
  "Trace_drop to_string tr =
     (if \<not> tr_finished tr
      then tr\<lparr>tr_root := map_option (\<lambda>r. finish_inner to_string r ObservationOutcome_default) (tr_root tr)\<rparr>
      else tr)"

record ObservationSession =
  se_context :: SessionSpec
  se_content :: ObservabilityContentConfig
  se_finished :: bool

definition ObservationSession_begin :: "SessionSpec \<Rightarrow> ObservabilityContentConfig \<Rightarrow> ObservationSession" where
  "ObservationSession_begin spec content = \<lparr>se_context = spec, se_content = content, se_finished = False\<rparr>"

definition begin_trace :: "context_id \<Rightarrow> bool \<Rightarrow> ObservationSession \<Rightarrow> TraceSpec \<Rightarrow> Trace" where
  "begin_trace ctx recording session spec =
     Trace_begin ctx recording (se_context session) spec (se_content session)"

section \<open>What is captured\<close>

lemma usize_saturating_add_assoc:
  "usize_saturating_add (usize_saturating_add a b) d = usize_saturating_add a (b + d)"
  by (simp add: usize_saturating_add_def)

lemma write_chunks:
  "foldl BoundedHashWriter_write w chunks =
     w\<lparr>hw_hashed := hw_hashed w @ concat chunks,
       hw_original_bytes := (if chunks = [] then hw_original_bytes w
          else usize_saturating_add (hw_original_bytes w) (length (concat chunks))),
       hw_captured := hw_captured w @ take (hw_limit w - length (hw_captured w)) (concat chunks)\<rparr>"
proof (induction chunks arbitrary: w)
  case Nil
  then show ?case by simp
next
  case (Cons c cs)
  have "take (min n (length c)) c = take n c" for n by (simp add: min_def)
  then have "BoundedHashWriter_write w c = w\<lparr>hw_hashed := hw_hashed w @ c,
      hw_original_bytes := usize_saturating_add (hw_original_bytes w) (length c),
      hw_captured := hw_captured w @ take (hw_limit w - length (hw_captured w)) c\<rparr>"
    by (simp add: BoundedHashWriter_write_def Let_def)
  moreover have "hw_limit w - (length (hw_captured w) + min (length c) (hw_limit w - length (hw_captured w)))
      = hw_limit w - (length (hw_captured w) + length c)"
    by (simp add: min_def)
  ultimately show ?case
    unfolding foldl.simps Cons.IH by (simp add: usize_saturating_add_assoc)
qed

lemma write_new_chunks:
  "foldl BoundedHashWriter_write (BoundedHashWriter_new limit) chunks =
     \<lparr>hw_captured = take limit (concat chunks), hw_limit = limit,
      hw_original_bytes = min (length (concat chunks)) usize_max, hw_hashed = concat chunks\<rparr>"
  by (simp add: write_chunks BoundedHashWriter_new_def usize_saturating_add_def)

text \<open>
  C35. What a span captures of a value is the longest run of whole characters of its JSON text within
  the limit (the field or observation budget plus the detector overlap), however the serializer
  splits the text into writes; the truncation flag is exact, and the length and the digest are those
  of the whole text.
\<close>

theorem capture_longest_prefix:
  assumes policy: "occ_policy config \<noteq> MetadataOnly"
    and chunks: "concat chunks = as_bytes t" and t: "list_all is_scalar t" and len: "str_len t \<le> usize_max"
  shows "\<exists>u rest. t = u @ rest
    \<and> ContentCapture_encode sha256 config (Some chunks) remaining
        = \<lparr>cr_content = Some \<lparr>bc_json = u, bc_original_bytes = str_len t, bc_captured_bytes = str_len u,
             bc_truncated = (rest \<noteq> []), bc_sha256 = sha256 (as_bytes t)\<rparr>, cr_encode_failed = False\<rparr>
    \<and> str_len u \<le> capture_limit config remaining
    \<and> (rest \<noteq> [] \<longrightarrow> capture_limit config remaining < str_len u + utf8_len (hd rest))"
proof -
  let ?l = "capture_limit config remaining"
  obtain u rest where u: "t = u @ rest" "trim_to_utf8 (take ?l (as_bytes t)) = as_bytes u" "str_len u \<le> ?l"
      "rest \<noteq> [] \<Longrightarrow> ?l < str_len u + utf8_len (hd rest)"
    using trim_take_as_bytes [OF t, of ?l] by metis
  have sc: "list_all is_scalar u" using t u(1) by simp
  have lt: "str_len u < str_len t \<longleftrightarrow> rest \<noteq> []" by (simp add: u(1) zero_less_iff_neq_zero)
  have "ContentCapture_encode sha256 config (Some chunks) remaining
        = \<lparr>cr_content = Some \<lparr>bc_json = u, bc_original_bytes = str_len t, bc_captured_bytes = str_len u,
             bc_truncated = (rest \<noteq> []), bc_sha256 = sha256 (as_bytes t)\<rparr>, cr_encode_failed = False\<rparr>"
    using policy len
    by (simp add: ContentCapture_encode_def BoundedHashWriter_finish_def Let_def write_new_chunks
        chunks u(2) sc lt min_absorb1)
  with u show ?thesis by blast
qed

section \<open>Observations\<close>

lemma set_attribute_sel [simp]:
  "sp_recording (set_attribute k v s) = sp_recording s" "sp_parent (set_attribute k v s) = sp_parent s"
  "sp_status_code (set_attribute k v s) = sp_status_code s"
  "sp_status_message (set_attribute k v s) = sp_status_message s"
  "sp_attributes (set_attribute k v s) = sp_attributes s @ (if sp_recording s then [(k, v)] else [])"
  by (simp_all add: set_attribute_def)

lemma record_status_sel [simp]:
  "sp_recording (record_status_code c s) = sp_recording s" "sp_parent (record_status_code c s) = sp_parent s"
  "sp_status_code (record_status_code c s) = (if sp_recording s then Some c else sp_status_code s)"
  "sp_status_message (record_status_code c s) = sp_status_message s"
  "sp_attributes (record_status_code c s) = sp_attributes s"
  "sp_recording (record_status_message m s) = sp_recording s" "sp_parent (record_status_message m s) = sp_parent s"
  "sp_status_code (record_status_message m s) = sp_status_code s"
  "sp_status_message (record_status_message m s) = (if sp_recording s then Some m else sp_status_message s)"
  "sp_attributes (record_status_message m s) = sp_attributes s"
  by (simp_all add: record_status_code_def record_status_message_def)

lemma on_span_sel [simp]:
  "ob_span (on_span f ob) = f (ob_span ob)"
  "ob_context (on_span f ob) = ob_context ob" "ob_content (on_span f ob) = ob_content ob"
  "ob_propagated (on_span f ob) = ob_propagated ob" "ob_finished (on_span f ob) = ob_finished ob"
  by (simp_all add: on_span_def)

lemma record_attribute_on_span:
  "record_attribute ob a = on_span (set_attribute (at_key a) (attribute_value (at_value a))) ob"
  by (cases "sp_recording (ob_span ob)")
    (simp_all add: record_attribute_def is_recording_def set_attribute_def on_span_def)

lemma record_attribute_sel [simp]:
  "sp_recording (ob_span (record_attribute ob a)) = sp_recording (ob_span ob)"
  "ob_context (record_attribute ob a) = ob_context ob" "ob_content (record_attribute ob a) = ob_content ob"
  "ob_propagated (record_attribute ob a) = ob_propagated ob" "ob_finished (record_attribute ob a) = ob_finished ob"
  "sp_parent (ob_span (record_attribute ob a)) = sp_parent (ob_span ob)"
  "sp_status_code (ob_span (record_attribute ob a)) = sp_status_code (ob_span ob)"
  "sp_attributes (ob_span (record_attribute ob a)) = sp_attributes (ob_span ob)
     @ (if sp_recording (ob_span ob) then [(at_key a, attribute_value (at_value a))] else [])"
  by (simp_all add: record_attribute_on_span)

lemma record_attributes_sel [simp]:
  "sp_recording (ob_span (record_attributes ob as)) = sp_recording (ob_span ob)"
  "ob_context (record_attributes ob as) = ob_context ob" "ob_content (record_attributes ob as) = ob_content ob"
  "ob_propagated (record_attributes ob as) = ob_propagated ob" "ob_finished (record_attributes ob as) = ob_finished ob"
  "sp_parent (ob_span (record_attributes ob as)) = sp_parent (ob_span ob)"
  "sp_status_code (ob_span (record_attributes ob as)) = sp_status_code (ob_span ob)"
  "sp_attributes (ob_span (record_attributes ob as)) = sp_attributes (ob_span ob)
     @ (if sp_recording (ob_span ob) then map (\<lambda>a. (at_key a, attribute_value (at_value a))) as else [])"
  by (induction "as" arbitrary: ob) (simp_all add: record_attributes_def)

lemma record_content_sel [simp]:
  "sp_recording (ob_span (record_content ob c d)) = sp_recording (ob_span ob)"
  "ob_context (record_content ob c d) = ob_context ob" "ob_content (record_content ob c d) = ob_content ob"
  "ob_propagated (record_content ob c d) = ob_propagated ob" "ob_finished (record_content ob c d) = ob_finished ob"
  "sp_parent (ob_span (record_content ob c d)) = sp_parent (ob_span ob)"
  "sp_status_code (ob_span (record_content ob c d)) = sp_status_code (ob_span ob)"
  by (cases d; simp add: record_content_def)+

lemma record_content_attributes:
  "set (sp_attributes (ob_span ob)) \<subseteq> set (sp_attributes (ob_span (record_content ob c d)))"
  by (cases d) (auto simp: record_content_def)

lemma record_static_sel [simp]:
  "sp_recording (ob_span (record_static k v ob)) = sp_recording (ob_span ob)"
  "ob_context (record_static k v ob) = ob_context ob" "ob_content (record_static k v ob) = ob_content ob"
  "ob_propagated (record_static k v ob) = ob_propagated ob" "ob_finished (record_static k v ob) = ob_finished ob"
  "sp_parent (ob_span (record_static k v ob)) = sp_parent (ob_span ob)"
  "sp_status_code (ob_span (record_static k v ob)) = sp_status_code (ob_span ob)"
  by (simp_all add: record_static_def)

lemma Observation_new_sel [simp]:
  "sp_recording (ob_span (Observation_new ctx r spec parent content pr)) = r"
  "ob_context (Observation_new ctx r spec parent content pr) = ctx"
  "ob_content (Observation_new ctx r spec parent content pr) = content"
  "ob_propagated (Observation_new ctx r spec parent content pr) = pr"
  "ob_finished (Observation_new ctx r spec parent content pr) = False"
  "sp_parent (ob_span (Observation_new ctx r spec parent content pr)) = parent"
  "sp_status_code (ob_span (Observation_new ctx r spec parent content pr)) = None"
  by (simp_all add: Observation_new_def Let_def split: option.split)

lemma Observation_new_carries:
  assumes "a \<in> set pr \<union> set (os_metadata spec)"
  shows "(at_key a, attribute_value (at_value a)) \<in> set (sp_attributes (ob_span (Observation_new ctx True spec parent content pr)))"
proof -
  have "(at_key a, attribute_value (at_value a)) \<in>
      set (sp_attributes (ob_span (record_attributes (record_attributes ob pr) (os_metadata spec))))"
    if "is_recording ob" for ob
    using assms that by (auto simp: is_recording_def)
  then show ?thesis
    unfolding Observation_new_def Let_def
    by (auto simp: is_recording_def intro: subsetD [OF record_content_attributes] split: option.split)
qed

section \<open>Propagation\<close>

text \<open>The traces a session makes, and the observations begun under a trace, at any depth.\<close>

inductive trace_state :: "Trace \<Rightarrow> bool" where
  started: "trace_state (begin_trace ctx recording session spec)"
| bound: "trace_state tr \<Longrightarrow> trace_state (Trace_bind tr as)"

inductive observed_under :: "Trace \<Rightarrow> Observation \<Rightarrow> bool" for tr where
  from_trace: "observed_under tr (begin_observation ctx recording tr spec)"
| from_root: "tr_root tr = Some r \<Longrightarrow> observed_under tr (Observation_begin ctx recording r spec)"
| nested: "observed_under tr ob \<Longrightarrow> observed_under tr (Observation_begin ctx recording ob spec)"
| recorded: "observed_under tr ob \<Longrightarrow> observed_under tr (record_attributes ob as)"

definition carries :: "Observation \<Rightarrow> Attribute list \<Rightarrow> bool" where
  "carries ob as \<longleftrightarrow>
     (\<forall>a \<in> set as. (at_key a, attribute_value (at_value a)) \<in> set (sp_attributes (ob_span ob)))"

definition trace_ok :: "Trace \<Rightarrow> bool" where
  "trace_ok tr \<longleftrightarrow> (\<exists>r. tr_root tr = Some r \<and> ob_context r = tr_context tr
     \<and> (is_recording r \<longrightarrow> carries r (tr_propagated tr)))
     \<and> (\<forall>a \<in> set (tr_propagated tr). is_propagated (at_key a))
     \<and> {''aise.trace.name'', ''aise.schema.version''} \<subseteq> at_key ` set (tr_propagated tr)"

lemma set_put_attribute: "set (put_attribute a bs) \<subseteq> insert a (set bs)"
  by (induction bs) auto

lemma put_attribute_keys: "at_key ` set (put_attribute a bs) = insert (at_key a) (at_key ` set bs)"
  by (induction bs) auto

lemma bind_attribute_ok: "trace_ok tr \<Longrightarrow> trace_ok (bind_attribute tr a)"
proof (cases "is_propagated (at_key a)")
  case True
  assume ok: "trace_ok tr"
  then obtain r where r: "tr_root tr = Some r" "ob_context r = tr_context tr"
      "is_recording r \<longrightarrow> carries r (tr_propagated tr)"
    by (auto simp: trace_ok_def)
  have "is_recording (record_attribute r a) \<longrightarrow> carries (record_attribute r a) (put_attribute a (tr_propagated tr))"
    using r(3) set_put_attribute [of a "tr_propagated tr"] by (auto simp: carries_def is_recording_def)
  moreover have "\<forall>b \<in> set (put_attribute a (tr_propagated tr)). is_propagated (at_key b)"
    using ok True set_put_attribute [of a "tr_propagated tr"] by (auto simp: trace_ok_def)
  ultimately show ?thesis
    using ok r True by (auto simp: trace_ok_def bind_attribute_def put_attribute_keys)
qed (simp add: bind_attribute_def)

lemma bind_attribute_tags:
  "''aise.trace.tags'' \<in> at_key ` set (tr_propagated tr)
   \<Longrightarrow> ''aise.trace.tags'' \<in> at_key ` set (tr_propagated (bind_attribute tr a))"
  by (simp add: bind_attribute_def put_attribute_keys)

lemma fold_bind_ok: "trace_ok tr \<Longrightarrow> trace_ok (foldl bind_attribute tr as)"
  by (induction "as" arbitrary: tr) (simp_all add: bind_attribute_ok)

lemma fold_bind_tags:
  "''aise.trace.tags'' \<in> at_key ` set (tr_propagated tr)
   \<Longrightarrow> ''aise.trace.tags'' \<in> at_key ` set (tr_propagated (foldl bind_attribute tr as))"
  by (induction "as" arbitrary: tr) (simp_all add: bind_attribute_tags)

text \<open>After every bind the root passes on what the trace passes on.\<close>

definition trace_synced :: "Trace \<Rightarrow> bool" where
  "trace_synced tr \<longleftrightarrow> trace_ok tr \<and> ''aise.trace.tags'' \<in> at_key ` set (tr_propagated tr)
     \<and> map_option ob_propagated (tr_root tr) = Some (tr_propagated tr)"

lemma Trace_bind_synced:
  assumes "trace_ok (foldl bind_attribute tr as)"
    and "''aise.trace.tags'' \<in> at_key ` set (tr_propagated (foldl bind_attribute tr as))"
  shows "trace_synced (Trace_bind tr as)"
  using assms by (auto simp: trace_synced_def Trace_bind_def Let_def trace_ok_def carries_def is_recording_def)

lemma begin_trace_synced: "trace_synced (begin_trace ctx recording session spec)"
proof -
  define tags where "tags = Attribute_string ''aise.trace.tags'' (join (lit '','') (ts_tags spec))"
  define md where "md = ss_metadata (se_context session) @ ts_metadata spec
    @ [Attribute_string ''aise.trace.name'' (lit (ts_name spec)), Attribute_string ''aise.schema.version'' (lit ''2'')]
    @ (case ss_id (se_context session) of Some i \<Rightarrow> [Attribute_string ''langfuse.session.id'' i] | None \<Rightarrow> [])"
  define pr where "pr = filter (\<lambda>a. is_propagated (at_key a)) md"
  define r where "r = Observation_new ctx recording
    \<lparr>os_name = ts_name spec, os_kind = Chain, os_input = ts_input spec, os_metadata = md\<rparr> None (se_content session) pr"
  define tr where "tr = \<lparr>tr_root = Some r, tr_context = ob_context r, tr_content = se_content session,
    tr_propagated = pr, tr_finished = False\<rparr>"
  have eq: "begin_trace ctx recording session spec = Trace_bind tr [tags]"
    by (simp add: begin_trace_def Trace_begin_def tr_def r_def pr_def md_def tags_def Let_def)
  have keys: "{''aise.trace.name'', ''aise.schema.version''} \<subseteq> at_key ` set pr"
    by (auto simp: pr_def md_def Attribute_string_def is_propagated_def image_def split: option.splits)
  have "is_recording r \<longrightarrow> carries r pr"
    using Observation_new_carries [of _ pr] by (cases recording) (auto simp: r_def is_recording_def carries_def)
  with keys have "trace_ok tr" by (auto simp: trace_ok_def tr_def pr_def)
  then have "trace_ok (foldl bind_attribute tr [tags])" by (rule fold_bind_ok)
  moreover have "''aise.trace.tags'' \<in> at_key ` set (tr_propagated (foldl bind_attribute tr [tags]))"
    by (simp add: bind_attribute_def tags_def Attribute_string_def is_propagated_def put_attribute_keys)
  ultimately show ?thesis unfolding eq by (rule Trace_bind_synced)
qed

lemma trace_state_synced: "trace_state tr \<Longrightarrow> trace_synced tr"
proof (induction rule: trace_state.induct)
  case (started ctx recording session spec)
  show ?case by (rule begin_trace_synced)
next
  case (bound tr "as")
  then show ?case
    by (intro Trace_bind_synced fold_bind_ok fold_bind_tags) (simp_all add: trace_synced_def)
qed

lemma Observation_new_carries_all: "is_recording (Observation_new ctx r spec parent content pr)
  \<Longrightarrow> carries (Observation_new ctx r spec parent content pr) pr"
  using Observation_new_carries [of _ pr spec] by (cases r) (simp_all add: carries_def is_recording_def)

text \<open>
  Every observation begun under a trace, at any depth and after any bindings, passes on and (when
  its span is recorded) records exactly the attributes of the trace: the trace name, schema version
  and tags are always among them, and no key outside the allow-list ever is.
\<close>

lemma trace_attributes_reach_observations:
  assumes "trace_state tr" and "observed_under tr ob"
  shows "ob_propagated ob = tr_propagated tr \<and> sp_parent (ob_span ob) \<noteq> None
    \<and> (is_recording ob \<longrightarrow> (\<forall>a \<in> set (tr_propagated tr).
         (at_key a, attribute_value (at_value a)) \<in> set (sp_attributes (ob_span ob))))
    \<and> (\<forall>a \<in> set (tr_propagated tr). is_propagated (at_key a))
    \<and> {''aise.trace.name'', ''aise.schema.version'', ''aise.trace.tags''} \<subseteq> at_key ` set (tr_propagated tr)"
proof -
  have sync: "trace_synced tr" using assms(1) by (rule trace_state_synced)
  have "ob_propagated ob = tr_propagated tr \<and> sp_parent (ob_span ob) \<noteq> None
      \<and> (is_recording ob \<longrightarrow> carries ob (tr_propagated tr))"
    using assms(2)
  proof (induction rule: observed_under.induct)
    case (from_trace ctx recording spec)
    then show ?case by (simp add: begin_observation_def Observation_new_carries_all)
  next
    case (from_root r ctx recording spec)
    then have "ob_propagated r = tr_propagated tr" using sync by (simp add: trace_synced_def)
    then show ?case by (simp add: Observation_begin_def Observation_new_carries_all)
  next
    case (nested ob ctx recording spec)
    then show ?case by (simp add: Observation_begin_def Observation_new_carries_all)
  next
    case (recorded ob "as")
    then show ?case by (auto simp: carries_def is_recording_def)
  qed
  with sync show ?thesis by (simp add: trace_synced_def trace_ok_def carries_def)
qed

section \<open>Outcomes\<close>

lemma finish_inner_finished: "ob_finished (finish_inner to_string ob outcome)"
  by (simp add: finish_inner_def Let_def)

lemma finish_inner_again: "finish_inner to_string (finish_inner to_string ob a) b = finish_inner to_string ob a"
  using finish_inner_finished [of to_string ob a] by (simp add: finish_inner_def [of _ "finish_inner _ _ _"])

definition span_level :: "span \<Rightarrow> otel_value option" where
  "span_level s = map_of (rev (sp_attributes s)) ''aise.observation.level''"

lemma set_level_sel [simp]:
  "ob_span (set_level l ob) = set_attribute ''aise.observation.level'' (OvString (lit l)) (ob_span ob)"
  "ob_span (set_status_message m ob) = set_attribute ''aise.observation.status_message'' (OvString m) (ob_span ob)"
  by (simp_all add: set_level_def set_status_message_def)

lemma record_details_sel [simp]:
  "sp_recording (ob_span (record_details to_string k v ob)) = sp_recording (ob_span ob)"
  "sp_status_code (ob_span (record_details to_string k v ob)) = sp_status_code (ob_span ob)"
  by (simp_all add: record_details_def split: option.split)

lemma record_usage_cost_sel [simp]:
  "sp_recording (ob_span (record_usage to_string ob u)) = sp_recording (ob_span ob)"
  "sp_status_code (ob_span (record_usage to_string ob u)) = sp_status_code (ob_span ob)"
  "sp_recording (ob_span (record_cost to_string ob c)) = sp_recording (ob_span ob)"
  "sp_status_code (ob_span (record_cost to_string ob c)) = sp_status_code (ob_span ob)"
  by (simp_all add: record_usage_def record_cost_def)

lemma record_status_outcome:
  assumes "sp_recording (ob_span ob)"
  shows "sp_status_code (ob_span (record_status ob st e)) =
      (if e \<noteq> None \<or> st \<in> {StError, StDeadlineExceeded} then Some ''ERROR''
       else if st = StOk then Some ''OK'' else sp_status_code (ob_span ob))"
    and "st \<noteq> StOk \<or> e \<noteq> None \<Longrightarrow> span_level (ob_span (record_status ob st e)) =
      Some (OvString (lit (if st \<in> {StError, StDeadlineExceeded} \<or> (e \<noteq> None \<and> st \<noteq> StConflict)
                           then ''ERROR'' else ''WARNING'')))"
proof -
  show "sp_status_code (ob_span (record_status ob st e)) =
      (if e \<noteq> None \<or> st \<in> {StError, StDeadlineExceeded} then Some ''ERROR''
       else if st = StOk then Some ''OK'' else sp_status_code (ob_span ob))"
    using assms by (cases st; cases e)
      (simp_all add: record_status_def record_status_only_def record_error_def Let_def split: option.split)
  show "st \<noteq> StOk \<or> e \<noteq> None \<Longrightarrow> span_level (ob_span (record_status ob st e)) =
      Some (OvString (lit (if st \<in> {StError, StDeadlineExceeded} \<or> (e \<noteq> None \<and> st \<noteq> StConflict)
                           then ''ERROR'' else ''WARNING'')))"
    using assms by (cases st; cases e)
      (simp_all add: record_status_def record_status_only_def record_error_def Let_def span_level_def split: option.split)
qed

text \<open>
  An observation reports one outcome. Finishing a recorded observation sets its status to OK
  exactly when it ended well, to ERROR with an error, and leaves a warning level otherwise; whatever
  happens later (a second finish, the drop at the end of its scope) changes nothing, and an
  observation dropped unfinished is reported as incomplete.
\<close>

lemma observation_single_outcome:
  assumes "\<not> ob_finished ob" and "is_recording ob" and "sp_status_code (ob_span ob) = None"
  shows "let fin = Observation_finish to_string ob outcome in
      ob_finished fin
      \<and> finish_inner to_string fin other = fin \<and> Observation_drop to_string fin = fin
      \<and> sp_status_code (ob_span fin) =
          (if oo_error outcome \<noteq> None \<or> oo_status outcome \<in> {StError, StDeadlineExceeded} then Some ''ERROR''
           else if oo_status outcome = StOk then Some ''OK'' else None)
      \<and> (oo_status outcome \<noteq> StOk \<or> oo_error outcome \<noteq> None \<longrightarrow> span_level (ob_span fin) =
           Some (OvString (lit (if oo_status outcome \<in> {StError, StDeadlineExceeded}
                                   \<or> (oo_error outcome \<noteq> None \<and> oo_status outcome \<noteq> StConflict)
                                then ''ERROR'' else ''WARNING''))))
      \<and> Observation_drop to_string ob = Observation_finish to_string ob ObservationOutcome_default"
proof -
  have drop: "Observation_drop to_string (finish_inner to_string ob o') = finish_inner to_string ob o'" for o'
    by (simp add: Observation_drop_def finish_inner_finished)
  obtain q where q: "ob_span (finish_inner to_string ob outcome)
      = ob_span (record_status q (oo_status outcome) (oo_error outcome))"
      "sp_recording (ob_span q)" "sp_status_code (ob_span q) = None"
  proof -
    let ?a = "record_attributes ob (oo_metadata outcome)"
    let ?b = "case oo_output outcome of Some c \<Rightarrow> record_content ?a c Output | None \<Rightarrow> ?a"
    let ?c = "case oo_usage outcome of Some u \<Rightarrow> record_usage to_string ?b u | None \<Rightarrow> ?b"
    let ?d = "case oo_cost outcome of Some c \<Rightarrow> record_cost to_string ?c c | None \<Rightarrow> ?c"
    have "sp_recording (ob_span ?d)" "sp_status_code (ob_span ?d) = None"
      using assms by (simp_all add: is_recording_def split: option.split)
    then show thesis using assms by (intro that [of ?d]) (simp_all add: finish_inner_def Let_def)
  qed
  show ?thesis
    unfolding Let_def Observation_finish_def drop q(1)
    using record_status_outcome [OF q(2), of "oo_status outcome" "oo_error outcome"] assms(1) q(3)
    by (simp add: finish_inner_again finish_inner_finished drop Observation_drop_def)
qed

end
