(* ===== verification/Llm.thy ===== *)
theory Llm
  imports Tracing
begin

text \<open>
  \<open>llm/\<close>: the OpenAI-compatible provider (request, response and usage translation) and the gateway
  every model call of a turn goes through.

  The gateway is a transition system. Its state is the semaphore, the clock and the calls in flight;
  a step is a call entering, the clock advancing, a caller's token being cancelled, the provider's
  answer arriving, the task of a call being polled, or the caller dropping the future. A poll runs
  one round of the \<open>select!\<close> the call waits in, whose arms are tried in the written order (\<open>biased\<close>).
  Whether the semaphore hands a free permit to this poll is part of the step, so that every fairness
  policy of \<open>tokio\<close> is covered. Instants and durations are numbers of milliseconds.

  Parameters: the JSON parser, the HTTP exchange and, for the trace, the text of values and errors.
  \<open>temperature\<close> is an \<open>f32\<close> the code only copies; it is held as the \<open>f64\<close> it equals.
\<close>

section \<open>Completions and configuration (\<open>completion.rs\<close>, \<open>config.rs\<close>)\<close>

datatype LlmCompletionFinishReason = FinishStop | FinishTimeout | FinishLength | FinishContentFilter | FinishOther

datatype LlmReasoningEffort = EffortNone | EffortLow | EffortMedium | EffortHigh | EffortMax

record LlmCompletionRequest =
  lcr_model :: str
  lcr_messages :: "ChatMessage list"
  lcr_temperature :: f64
  lcr_reasoning_effort :: "LlmReasoningEffort option"

record LlmTokenUsage =
  ltu_input_tokens :: u64
  ltu_cached_input_tokens :: "u64 option"
  ltu_output_tokens :: u64
  ltu_reasoning_tokens :: "u64 option"
  ltu_total_tokens :: u64

record LlmCompletionResponse =
  lrs_content :: str
  lrs_finish_reason :: LlmCompletionFinishReason
  lrs_usage :: "LlmTokenUsage option"

datatype LlmProviderType = OpenAiCompat | OtherProvider

record LlmConfig =
  lc_provider :: LlmProviderType
  lc_base_url :: str
  lc_api_key :: str
  lc_model :: str
  lc_temperature :: f64
  lc_timeout_ms :: nat
  lc_max_concurrent_calls :: nat

section \<open>The provider (\<open>openai_compat.rs\<close>)\<close>

record OpenAiChatMessage =
  ocm_role :: string
  ocm_content :: str

record OpenAiChatRequest =
  ocr_model :: str
  ocr_messages :: "OpenAiChatMessage list"
  ocr_temperature :: f64
  ocr_reasoning_effort :: "LlmReasoningEffort option"

record OpenAiUsage =
  ou_prompt_tokens :: u64
  ou_completion_tokens :: u64
  ou_total_tokens :: "u64 option"
  ou_prompt_tokens_details :: "u64 option option"
  ou_completion_tokens_details :: "u64 option option"

record OpenAiChatChoice =
  occh_content :: "str option"
  occh_finish_reason :: "str option"

record OpenAiChatResponse =
  ocs_choices :: "OpenAiChatChoice list"
  ocs_usage :: "OpenAiUsage option"

text \<open>The exchange \<open>reqwest\<close> performs: a transport error (timed out or not), or a status and the body read after it.\<close>

record http_error =
  he_is_timeout :: bool

record http_response =
  hr_status :: u16
  hr_text :: "http_error + str"

record http_client =
  hc_post :: "str \<Rightarrow> str \<Rightarrow> OpenAiChatRequest \<Rightarrow> http_error + http_response"

record OpenAiCompatProvider =
  op_base_url :: str
  op_api_key :: str

definition OpenAiCompatProvider_new :: "LlmConfig \<Rightarrow> OpenAiCompatProvider" where
  "OpenAiCompatProvider_new config = \<lparr>op_base_url = lc_base_url config, op_api_key = lc_api_key config\<rparr>"

definition trim_end_slashes :: "str \<Rightarrow> str" where
  "trim_end_slashes t = rev (dropWhile (\<lambda>c. c = 47) (rev t))"

definition completions_url :: "OpenAiCompatProvider \<Rightarrow> str" where
  "completions_url p = trim_end_slashes (op_base_url p) @ lit ''/chat/completions''"

fun message_role :: "ChatMessageRole \<Rightarrow> string" where
  "message_role System = ''system''"
| "message_role User = ''user''"

definition to_chat_message :: "ChatMessage \<Rightarrow> OpenAiChatMessage" where
  "to_chat_message m = \<lparr>ocm_role = message_role (cmsg_role m), ocm_content = cmsg_content m\<rparr>"

definition to_chat_request :: "LlmCompletionRequest \<Rightarrow> OpenAiChatRequest" where
  "to_chat_request r =
     \<lparr>ocr_model = lcr_model r, ocr_messages = map to_chat_message (lcr_messages r),
      ocr_temperature = lcr_temperature r, ocr_reasoning_effort = lcr_reasoning_effort r\<rparr>"

definition map_transport_error :: "http_error \<Rightarrow> LlmError" where
  "map_transport_error e = (if he_is_timeout e then Timeout else Transport)"

definition is_success :: "u16 \<Rightarrow> bool" where
  "is_success status \<longleftrightarrow> 200 \<le> unat status \<and> unat status < 300"

definition send :: "http_client \<Rightarrow> OpenAiCompatProvider \<Rightarrow> LlmCompletionRequest \<Rightarrow> LlmError + str" where
  "send http p request =
     rbind (map_err map_transport_error
              (hc_post http (completions_url p) (op_api_key p) (to_chat_request request))) (\<lambda>response.
     rbind (map_err map_transport_error (hr_text response)) (\<lambda>body.
       if \<not> is_success (hr_status response)
       then Err (Rejected (hr_status response) (if body = [] then None else Some body))
       else Ok body))"

definition u64_saturating_add :: "u64 \<Rightarrow> u64 \<Rightarrow> u64" where
  "u64_saturating_add a b = (if unat a + unat b < 2 ^ 64 then a + b else 2 ^ 64 - 1)"

definition u64_saturating_sub :: "u64 \<Rightarrow> u64 \<Rightarrow> u64" where
  "u64_saturating_sub a b = (if b \<le> a then a - b else 0)"

definition to_token_usage :: "OpenAiUsage \<Rightarrow> LlmTokenUsage" where
  "to_token_usage u =
     \<lparr>ltu_input_tokens = ou_prompt_tokens u,
      ltu_cached_input_tokens = Option.bind (ou_prompt_tokens_details u) id,
      ltu_output_tokens = ou_completion_tokens u,
      ltu_reasoning_tokens = Option.bind (ou_completion_tokens_details u) id,
      ltu_total_tokens = (case ou_total_tokens u of Some t \<Rightarrow> t
        | None \<Rightarrow> u64_saturating_add (ou_prompt_tokens u) (ou_completion_tokens u))\<rparr>"

definition map_finish_reason :: "str option \<Rightarrow> LlmCompletionFinishReason" where
  "map_finish_reason reason =
     (if reason = Some (lit ''stop'') then FinishStop
      else if reason = Some (lit ''length'') then FinishLength
      else if reason = Some (lit ''content_filter'') then FinishContentFilter
      else FinishOther)"

definition option_filter :: "('a \<Rightarrow> bool) \<Rightarrow> 'a option \<Rightarrow> 'a option" where
  "option_filter P r = (case r of Some x \<Rightarrow> if P x then Some x else None | None \<Rightarrow> None)"

definition parse_chat_response :: "(str \<Rightarrow> OpenAiChatResponse option) \<Rightarrow> str \<Rightarrow> LlmError + LlmCompletionResponse" where
  "parse_chat_response from_json body =
     rbind (ok_or (InvalidResponse ''malformed chat completion json'') (from_json body)) (\<lambda>response.
     let usage = map_option to_token_usage (ocs_usage response) in
     rbind (ok_or (InvalidResponse ''missing choices'')
              (case ocs_choices response of [] \<Rightarrow> None | c # _ \<Rightarrow> Some c)) (\<lambda>choice.
     rbind (ok_or EmptyCompletion (option_filter (\<lambda>t. t \<noteq> []) (occh_content choice))) (\<lambda>content.
       Ok \<lparr>lrs_content = content, lrs_finish_reason = map_finish_reason (occh_finish_reason choice),
           lrs_usage = usage\<rparr>)))"

definition provider_complete ::
  "http_client \<Rightarrow> (str \<Rightarrow> OpenAiChatResponse option) \<Rightarrow> OpenAiCompatProvider \<Rightarrow> LlmCompletionRequest
   \<Rightarrow> LlmError + LlmCompletionResponse" where
  "provider_complete http from_json p request =
     rbind (send http p request) (parse_chat_response from_json)"

section \<open>The gateway (\<open>gateway.rs\<close>)\<close>

record TurnControl =
  tc_cancelled :: bool
  tc_deadline :: nat

record Semaphore =
  sem_permits :: nat
  sem_closed :: bool

text \<open>
  Where a call stands: waiting for a permit, holding one while the provider works until the call's
  deadline, or returned. \<open>call_answer\<close> is the provider's answer once it has arrived.
\<close>

datatype call_phase =
    Acquiring
  | Calling nat
  | Returned "LlmError + LlmCompletionResponse"

record llm_task =
  call_request :: LlmCompletionRequest
  call_control :: TurnControl
  call_answer :: "(LlmError + LlmCompletionResponse) option"
  task_phase :: call_phase

record LlmGateway =
  gw_config :: LlmConfig
  gw_limiter :: Semaphore
  gw_now :: nat
  gw_calls :: "nat \<rightharpoonup> llm_task"

definition LlmGateway_new :: "LlmConfig \<Rightarrow> LlmGateway" where
  "LlmGateway_new config =
     \<lparr>gw_config = config, gw_limiter = \<lparr>sem_permits = lc_max_concurrent_calls config, sem_closed = False\<rparr>,
      gw_now = 0, gw_calls = Map.empty\<rparr>"

definition build_request ::
  "LlmGateway \<Rightarrow> ChatMessage list \<Rightarrow> LlmReasoningEffort option \<Rightarrow> LlmCompletionRequest" where
  "build_request gw messages reasoning_effort =
     \<lparr>lcr_model = lc_model (gw_config gw), lcr_messages = messages,
      lcr_temperature = lc_temperature (gw_config gw), lcr_reasoning_effort = reasoning_effort\<rparr>"

definition call_deadline :: "LlmGateway \<Rightarrow> TurnControl \<Rightarrow> nat" where
  "call_deadline gw control = min (tc_deadline control) (gw_now gw + lc_timeout_ms (gw_config gw))"

text \<open>One poll of the \<open>select!\<close> in \<open>complete_request\<close>; \<open>granted\<close> is the semaphore's choice.\<close>

definition poll_permit :: "LlmGateway \<Rightarrow> bool \<Rightarrow> TurnControl \<Rightarrow> (LlmError + unit) option" where
  "poll_permit gw granted control =
     (if tc_cancelled control then Some (Err Cancelled)
      else if tc_deadline control \<le> gw_now gw then Some (Err Timeout)
      else if sem_closed (gw_limiter gw) then Some (Err ConcurrencyLimiterClosed)
      else if granted \<and> 0 < sem_permits (gw_limiter gw) then Some (Ok ())
      else None)"

text \<open>One poll of the \<open>select!\<close> in \<open>call_provider\<close>.\<close>

definition poll_provider ::
  "LlmGateway \<Rightarrow> nat \<Rightarrow> TurnControl \<Rightarrow> (LlmError + LlmCompletionResponse) option
   \<Rightarrow> (LlmError + LlmCompletionResponse) option" where
  "poll_provider gw deadline control answer =
     (if tc_cancelled control then Some (Err Cancelled)
      else if deadline \<le> gw_now gw then Some (Err Timeout)
      else answer)"

definition take_permit :: "LlmGateway \<Rightarrow> LlmGateway" where
  "take_permit gw = gw\<lparr>gw_limiter := (gw_limiter gw)\<lparr>sem_permits := sem_permits (gw_limiter gw) - 1\<rparr>\<rparr>"

definition drop_permit :: "LlmGateway \<Rightarrow> LlmGateway" where
  "drop_permit gw = gw\<lparr>gw_limiter := (gw_limiter gw)\<lparr>sem_permits := sem_permits (gw_limiter gw) + 1\<rparr>\<rparr>"

definition set_call :: "nat \<Rightarrow> llm_task \<Rightarrow> LlmGateway \<Rightarrow> LlmGateway" where
  "set_call i t gw = gw\<lparr>gw_calls := (gw_calls gw)(i \<mapsto> t)\<rparr>"

text \<open>
  A poll of a call: the first \<open>select!\<close>, and with the permit in the same poll the second one, as an
  \<open>await\<close> that is ready does not suspend. The provider's future is created by the second one; an
  answer it gives at once is an \<open>Answer\<close> step right after.
\<close>

definition poll_calling :: "LlmGateway \<Rightarrow> nat \<Rightarrow> llm_task \<Rightarrow> nat \<Rightarrow> LlmGateway" where
  "poll_calling gw i t deadline =
     (case poll_provider gw deadline (call_control t) (call_answer t) of
        Some result \<Rightarrow> set_call i (t\<lparr>task_phase := Returned result\<rparr>) (drop_permit gw)
      | None \<Rightarrow> set_call i (t\<lparr>task_phase := Calling deadline\<rparr>) gw)"

definition poll_call :: "LlmGateway \<Rightarrow> bool \<Rightarrow> nat \<Rightarrow> llm_task \<Rightarrow> LlmGateway" where
  "poll_call gw granted i t =
     (case task_phase t of
        Acquiring \<Rightarrow>
          (case poll_permit gw granted (call_control t) of
             Some (Inr _) \<Rightarrow> poll_calling (take_permit gw) i t (call_deadline gw (call_control t))
           | Some (Inl e) \<Rightarrow> set_call i (t\<lparr>task_phase := Returned (Err e)\<rparr>) gw
           | None \<Rightarrow> gw)
      | Calling deadline \<Rightarrow> poll_calling gw i t deadline
      | Returned _ \<Rightarrow> gw)"

datatype gw_step =
    Enter nat "ChatMessage list" "LlmReasoningEffort option" TurnControl
  | Advance nat
  | Cancel nat
  | Answer nat "LlmError + LlmCompletionResponse"
  | Poll nat bool
  | DropCall nat

text \<open>\<open>complete\<close> and \<open>complete_with_reasoning_effort\<close> enter with an effort; a call id is used once.\<close>

fun gateway_step :: "LlmGateway \<Rightarrow> gw_step \<Rightarrow> LlmGateway" where
  "gateway_step gw (Enter i messages effort control) =
     (if gw_calls gw i \<noteq> None then gw
      else set_call i \<lparr>call_request = build_request gw messages effort, call_control = control,
                       call_answer = None, task_phase = Acquiring\<rparr> gw)"
| "gateway_step gw (Advance ms) = gw\<lparr>gw_now := gw_now gw + ms\<rparr>"
| "gateway_step gw (Cancel i) =
     (case gw_calls gw i of
        Some t \<Rightarrow> set_call i (t\<lparr>call_control := (call_control t)\<lparr>tc_cancelled := True\<rparr>\<rparr>) gw
      | None \<Rightarrow> gw)"
| "gateway_step gw (Answer i result) =
     (case gw_calls gw i of
        Some t \<Rightarrow>
          (case task_phase t of
             Calling _ \<Rightarrow> set_call i (t\<lparr>call_answer := (case call_answer t of None \<Rightarrow> Some result | a \<Rightarrow> a)\<rparr>) gw
           | _ \<Rightarrow> gw)
      | None \<Rightarrow> gw)"
| "gateway_step gw (Poll i granted) =
     (case gw_calls gw i of Some t \<Rightarrow> poll_call gw granted i t | None \<Rightarrow> gw)"
| "gateway_step gw (DropCall i) =
     (case gw_calls gw i of
        Some t \<Rightarrow>
          (case task_phase t of
             Calling _ \<Rightarrow> drop_permit (gw\<lparr>gw_calls := (gw_calls gw)(i := None)\<rparr>)
           | _ \<Rightarrow> gw\<lparr>gw_calls := (gw_calls gw)(i := None)\<rparr>)
      | None \<Rightarrow> gw)"

definition gateway_run :: "LlmConfig \<Rightarrow> gw_step list \<Rightarrow> LlmGateway" where
  "gateway_run config steps = foldl gateway_step (LlmGateway_new config) steps"

section \<open>Trace of a call (\<open>llm_trace.rs\<close>)\<close>

definition generation_usage :: "LlmTokenUsage \<Rightarrow> GenerationUsage" where
  "generation_usage u =
     (let input_cached_tokens = min (case ltu_cached_input_tokens u of Some n \<Rightarrow> n | None \<Rightarrow> 0) (ltu_input_tokens u);
          output_reasoning_tokens = min (case ltu_reasoning_tokens u of Some n \<Rightarrow> n | None \<Rightarrow> 0) (ltu_output_tokens u);
          inp = u64_saturating_sub (ltu_input_tokens u) input_cached_tokens;
          outp = u64_saturating_sub (ltu_output_tokens u) output_reasoning_tokens;
          tot = u64_saturating_add (u64_saturating_add (u64_saturating_add inp input_cached_tokens) outp)
                  output_reasoning_tokens
      in \<lparr>gu_input = inp, gu_input_cached_tokens = input_cached_tokens, gu_output = outp,
          gu_output_reasoning_tokens = output_reasoning_tokens, gu_total = tot\<rparr>)"

text \<open>
  \<open>messages\<close>, \<open>parameters\<close> and \<open>response\<close> are what \<open>serde_json\<close> writes for them, \<open>display\<close> is the
  \<open>Display\<close> text of an error.
\<close>

definition begin_provider_call ::
  "(byte list \<Rightarrow> str) \<Rightarrow> context_id \<Rightarrow> bool \<Rightarrow> Observation \<Rightarrow> byte list list option \<Rightarrow> str \<Rightarrow> LlmCompletionRequest
   \<Rightarrow> Observation" where
  "begin_provider_call sha256 ctx recording ob messages parameters request =
     Observation_begin ctx recording ob
       \<lparr>os_name = ''llm_provider_call'', os_kind = Generation, os_input = capture_content sha256 ob messages,
        os_metadata = [Attribute_string ''aise.observation.model.name'' (lcr_model request),
                       Attribute_string ''aise.observation.model.parameters'' parameters]\<rparr>"

definition provider_call_outcome ::
  "(byte list \<Rightarrow> str) \<Rightarrow> (LlmError \<Rightarrow> str) \<Rightarrow> Observation \<Rightarrow> byte list list option
   \<Rightarrow> LlmError + LlmCompletionResponse \<Rightarrow> ObservationOutcome" where
  "provider_call_outcome sha256 display ob response result =
     (case result of
        Inr r \<Rightarrow> ObservationOutcome_default\<lparr>oo_status := StOk, oo_output := capture_content sha256 ob response,
                   oo_usage := map_option generation_usage (lrs_usage r)\<rparr>
      | Inl e \<Rightarrow> ObservationOutcome_default\<lparr>oo_status := StError,
                   oo_error := Some \<lparr>oe_code = ''llm_provider_call_failed'', oe_failure_kind = ''llm'',
                                     oe_stage = Some ''llm_provider_call'', oe_message = display e\<rparr>\<rparr>)"

definition finish_provider_call ::
  "(json \<Rightarrow> str option) \<Rightarrow> (byte list \<Rightarrow> str) \<Rightarrow> (LlmError \<Rightarrow> str) \<Rightarrow> Observation \<Rightarrow> byte list list option
   \<Rightarrow> LlmError + LlmCompletionResponse \<Rightarrow> Observation" where
  "finish_provider_call to_string sha256 display ob response result =
     Observation_finish to_string ob (provider_call_outcome sha256 display ob response result)"

section \<open>Token usage\<close>

lemma unat_u64_less: "unat (x :: u64) < 2 ^ 64"
  using unsigned_less [where ?'a = nat, of x] by simp

lemma unat_u64_saturating_add: "unat (u64_saturating_add a b) = min (unat a + unat b) (2 ^ 64 - 1)"
  by (auto simp: u64_saturating_add_def unat_word_ariths)

lemma u64_saturating_sub_add:
  assumes "b \<le> a"
  shows "unat (u64_saturating_sub a b) + unat b = unat a"
  using assms by (simp add: u64_saturating_sub_def unat_sub word_le_nat_alt)

lemma u64_checked_add_Some: "u64_checked_add a b = Some c \<longleftrightarrow> unat a + unat b < 2 ^ 64 \<and> c = a + b"
  by (auto simp: u64_checked_add_def)

lemma u64_saturating_add_fits: "unat a + unat b < 2 ^ 64 \<Longrightarrow> u64_saturating_add a b = a + b"
  by (simp add: u64_saturating_add_def)

lemma unat_add_fits: "unat a + unat b < 2 ^ 64 \<Longrightarrow> unat (a + b :: u64) = unat a + unat b"
  by (simp add: unat_word_ariths)

text \<open>
  The usage reported for a call always splits the provider's token counts exactly (cached plus
  uncached input is the input, reasoning plus visible output is the output, even when the provider
  reports more cached or reasoning tokens than tokens), and it is accepted for export precisely when
  the two counts do not overflow 64 bits together.
\<close>

lemma generation_usage_exact:
  "let g = generation_usage u in
     unat (gu_input g) + unat (gu_input_cached_tokens g) = unat (ltu_input_tokens u)
     \<and> unat (gu_output g) + unat (gu_output_reasoning_tokens g) = unat (ltu_output_tokens u)
     \<and> unat (gu_total g) = min (unat (ltu_input_tokens u) + unat (ltu_output_tokens u)) (2 ^ 64 - 1)
     \<and> (GenerationUsage_is_valid g \<longleftrightarrow> unat (ltu_input_tokens u) + unat (ltu_output_tokens u) < 2 ^ 64)"
proof -
  define g where "g = generation_usage u"
  let ?i = "ltu_input_tokens u" and ?o = "ltu_output_tokens u"
  have i: "unat (gu_input g) + unat (gu_input_cached_tokens g) = unat ?i"
    unfolding g_def generation_usage_def Let_def by (simp add: u64_saturating_sub_add)
  have ou: "unat (gu_output g) + unat (gu_output_reasoning_tokens g) = unat ?o"
    unfolding g_def generation_usage_def Let_def by (simp add: u64_saturating_sub_add)
  have tot: "gu_total g = u64_saturating_add (u64_saturating_add (u64_saturating_add (gu_input g)
      (gu_input_cached_tokens g)) (gu_output g)) (gu_output_reasoning_tokens g)"
    by (simp add: g_def generation_usage_def Let_def)
  have lt: "unat ?i < 2 ^ 64" "unat ?o < 2 ^ 64" by (rule unat_u64_less)+
  have ii: "unat (gu_input g + gu_input_cached_tokens g) = unat ?i"
    using i lt(1) unat_add_fits by metis
  have t: "unat (gu_total g) = min (unat ?i + unat ?o) (2 ^ 64 - 1)"
    unfolding tot unat_u64_saturating_add using i ou lt by linarith
  have "GenerationUsage_is_valid g \<longleftrightarrow> unat ?i + unat ?o < 2 ^ 64"
  proof
    assume "GenerationUsage_is_valid g"
    then have "unat (gu_input g + gu_input_cached_tokens g) + unat (gu_output g) < 2 ^ 64"
      and b: "unat (gu_input g + gu_input_cached_tokens g + gu_output g) + unat (gu_output_reasoning_tokens g) < 2 ^ 64"
      by (auto simp: GenerationUsage_is_valid_def bind_eq_Some_conv u64_checked_add_Some)
    then show "unat ?i + unat ?o < 2 ^ 64"
      using ii ou unat_add_fits [of "gu_input g + gu_input_cached_tokens g" "gu_output g"] by simp
  next
    assume f: "unat ?i + unat ?o < 2 ^ 64"
    have a: "unat (gu_input g) + unat (gu_input_cached_tokens g) < 2 ^ 64" using i lt by simp
    have b: "unat (gu_input g + gu_input_cached_tokens g) + unat (gu_output g) < 2 ^ 64"
      using ii ou f by simp
    have c: "unat (gu_input g + gu_input_cached_tokens g + gu_output g) + unat (gu_output_reasoning_tokens g) < 2 ^ 64"
      using unat_add_fits [OF b] ii ou f by simp
    show "GenerationUsage_is_valid g"
      using a b c by (simp add: GenerationUsage_is_valid_def u64_checked_add_def tot u64_saturating_add_fits)
  qed
  with i ou t show ?thesis by (simp add: g_def Let_def)
qed

section \<open>Responses\<close>

lemma parse_chat_response_Ok:
  "parse_chat_response from_json body = Ok r \<Longrightarrow>
     (\<exists>p choice rest. from_json body = Some p \<and> ocs_choices p = choice # rest
        \<and> occh_content choice = Some (lrs_content r) \<and> lrs_content r \<noteq> []
        \<and> lrs_finish_reason r = map_finish_reason (occh_finish_reason choice)
        \<and> lrs_usage r = map_option to_token_usage (ocs_usage p))"
  by (cases "from_json body")
    (auto simp: parse_chat_response_def Let_def option_filter_def result_simps split: list.splits option.splits if_splits)

lemma send_Ok:
  "send http p request = Ok body \<longleftrightarrow>
     (\<exists>response. hc_post http (completions_url p) (op_api_key p) (to_chat_request request) = Ok response
        \<and> is_success (hr_status response) \<and> hr_text response = Ok body)"
  by (auto simp: send_def result_simps)

lemma completion_not_empty: "provider_complete http from_json p request = Ok r \<Longrightarrow> lrs_content r \<noteq> []"
  by (auto simp: provider_complete_def result_simps dest: parse_chat_response_Ok)

section \<open>The gateway keeps its permits\<close>

definition is_calling :: "llm_task \<Rightarrow> bool" where
  "is_calling t = (case task_phase t of Calling _ \<Rightarrow> True | _ \<Rightarrow> False)"

definition in_flight :: "LlmGateway \<Rightarrow> nat set" where
  "in_flight gw = {i. \<exists>t. gw_calls gw i = Some t \<and> is_calling t}"

definition gw_inv :: "LlmGateway \<Rightarrow> bool" where
  "gw_inv gw \<longleftrightarrow> finite (in_flight gw)
     \<and> sem_permits (gw_limiter gw) + card (in_flight gw) = lc_max_concurrent_calls (gw_config gw)
     \<and> \<not> sem_closed (gw_limiter gw)
     \<and> (\<forall>i t d. gw_calls gw i = Some t \<and> task_phase t = Calling d \<longrightarrow> d \<le> tc_deadline (call_control t))"

lemma permit_sel [simp]:
  "gw_config (take_permit gw) = gw_config gw" "gw_calls (take_permit gw) = gw_calls gw"
  "gw_now (take_permit gw) = gw_now gw" "sem_closed (gw_limiter (take_permit gw)) = sem_closed (gw_limiter gw)"
  "sem_permits (gw_limiter (take_permit gw)) = sem_permits (gw_limiter gw) - 1"
  "gw_config (drop_permit gw) = gw_config gw" "gw_calls (drop_permit gw) = gw_calls gw"
  "gw_now (drop_permit gw) = gw_now gw" "sem_closed (gw_limiter (drop_permit gw)) = sem_closed (gw_limiter gw)"
  "sem_permits (gw_limiter (drop_permit gw)) = sem_permits (gw_limiter gw) + 1"
  by (simp_all add: take_permit_def drop_permit_def)

lemma set_call_sel [simp]:
  "gw_config (set_call i t gw) = gw_config gw" "gw_limiter (set_call i t gw) = gw_limiter gw"
  "gw_now (set_call i t gw) = gw_now gw" "gw_calls (set_call i t gw) = (gw_calls gw)(i \<mapsto> t)"
  by (simp_all add: set_call_def)

lemma is_calling_simps [simp]:
  "task_phase t = Acquiring \<Longrightarrow> \<not> is_calling t" "task_phase t = Returned r \<Longrightarrow> \<not> is_calling t"
  "task_phase t = Calling d \<Longrightarrow> is_calling t"
  by (simp_all add: is_calling_def)

lemma in_flight_upd:
  "gw_calls gw' = (gw_calls gw)(i \<mapsto> t) \<Longrightarrow>
     in_flight gw' = (if is_calling t then insert i (in_flight gw) else in_flight gw - {i})"
  by (auto simp: in_flight_def)

lemma in_flight_del: "gw_calls gw' = (gw_calls gw)(i := None) \<Longrightarrow> in_flight gw' = in_flight gw - {i}"
  by (auto simp: in_flight_def)

lemma in_flight_iff: "gw_calls gw i = Some t \<Longrightarrow> i \<in> in_flight gw \<longleftrightarrow> is_calling t"
  by (simp add: in_flight_def)

lemma gw_inv_deadline: "gw_inv gw \<Longrightarrow> gw_calls gw i = Some t \<Longrightarrow> task_phase t = Calling d
    \<Longrightarrow> d \<le> tc_deadline (call_control t)"
  by (auto simp: gw_inv_def)

text \<open>The three ways a step touches the calls: in place, into a permit, out of one.\<close>

lemma gw_inv_keep:
  assumes "gw_inv gw" and "gw_calls gw' = (gw_calls gw)(i \<mapsto> t)" and "is_calling t \<longleftrightarrow> i \<in> in_flight gw"
    and "gw_limiter gw' = gw_limiter gw" and "gw_config gw' = gw_config gw"
    and "\<And>d. task_phase t = Calling d \<Longrightarrow> d \<le> tc_deadline (call_control t)"
  shows "gw_inv gw'"
proof -
  have "in_flight gw' = in_flight gw" using in_flight_upd [OF assms(2)] assms(3) by auto
  with assms show ?thesis by (auto simp: gw_inv_def)
qed

lemma gw_inv_acquire:
  assumes "gw_inv gw" and "gw_calls gw' = (gw_calls gw)(i \<mapsto> t)" and "is_calling t" and "i \<notin> in_flight gw"
    and "0 < sem_permits (gw_limiter gw)" and "gw_limiter gw' = gw_limiter (take_permit gw)"
    and "gw_config gw' = gw_config gw"
    and "\<And>d. task_phase t = Calling d \<Longrightarrow> d \<le> tc_deadline (call_control t)"
  shows "gw_inv gw'"
proof -
  have "in_flight gw' = insert i (in_flight gw)" using in_flight_upd [OF assms(2)] assms(3) by simp
  with assms show ?thesis by (auto simp: gw_inv_def)
qed

lemma gw_inv_release:
  assumes "gw_inv gw" and "in_flight gw' = in_flight gw - {i}" and "i \<in> in_flight gw"
    and "gw_limiter gw' = gw_limiter (drop_permit gw)" and "gw_config gw' = gw_config gw"
    and "\<And>j u. gw_calls gw' j = Some u \<Longrightarrow> is_calling u \<Longrightarrow> gw_calls gw j = Some u"
  shows "gw_inv gw'"
proof -
  have "card (in_flight gw) = Suc (card (in_flight gw'))"
    using assms(1,2,3) card.remove [of "in_flight gw" i] by (simp add: gw_inv_def)
  moreover have "d \<le> tc_deadline (call_control u)" if "gw_calls gw' j = Some u" "task_phase u = Calling d" for j u d
    using assms(6) [OF that(1)] that(2) gw_inv_deadline [OF assms(1)] by simp
  ultimately show ?thesis using assms by (auto simp: gw_inv_def)
qed

lemma gw_inv_new: "gw_inv (LlmGateway_new config)"
  by (simp add: gw_inv_def LlmGateway_new_def in_flight_def)

lemma call_deadline_le: "call_deadline gw control \<le> tc_deadline control"
  by (simp add: call_deadline_def)

lemma poll_calling_inv:
  assumes "gw_inv gw" and "gw_calls gw i = Some t" and "task_phase t = Calling d"
  shows "gw_inv (poll_calling gw i t d)"
proof (cases "poll_provider gw d (call_control t) (call_answer t)")
  case None
  have "gw_inv (set_call i (t\<lparr>task_phase := Calling d\<rparr>) gw)"
    using assms gw_inv_deadline [OF assms]
    by (intro gw_inv_keep [OF assms(1), where i = i and t = "t\<lparr>task_phase := Calling d\<rparr>"]) (simp_all add: in_flight_iff is_calling_def)
  with None show ?thesis by (simp add: poll_calling_def)
next
  case (Some r)
  let ?g = "set_call i (t\<lparr>task_phase := Returned r\<rparr>) (drop_permit gw)"
  have "in_flight ?g = in_flight gw - {i}"
    by (subst in_flight_upd [of _ gw i "t\<lparr>task_phase := Returned r\<rparr>"]) (simp_all add: is_calling_def)
  moreover have "i \<in> in_flight gw" using assms by (simp add: in_flight_iff)
  ultimately have "gw_inv ?g"
    by (rule gw_inv_release [OF assms(1)]) (auto split: if_splits)
  with Some show ?thesis by (simp add: poll_calling_def)
qed

lemma poll_provider_take [simp]: "poll_provider (take_permit gw) d c a = poll_provider gw d c a"
  by (simp add: poll_provider_def)

text \<open>A poll that gets the permit and returns at once gives it back.\<close>

lemma drop_take_permit: "0 < sem_permits (gw_limiter gw) \<Longrightarrow> gw_limiter (drop_permit (take_permit gw)) = gw_limiter gw"
  by (simp add: drop_permit_def take_permit_def)

lemma poll_fresh_inv:
  assumes "gw_inv gw" and "gw_calls gw i = Some t" and "task_phase t = Acquiring"
    and "0 < sem_permits (gw_limiter gw)" and "d \<le> tc_deadline (call_control t)"
  shows "gw_inv (poll_calling (take_permit gw) i t d)"
proof (cases "poll_provider gw d (call_control t) (call_answer t)")
  case None
  have "gw_inv (set_call i (t\<lparr>task_phase := Calling d\<rparr>) (take_permit gw))"
    using assms by (intro gw_inv_acquire [OF assms(1), where i = i and t = "t\<lparr>task_phase := Calling d\<rparr>"]) (simp_all add: in_flight_iff)
  with None show ?thesis by (simp add: poll_calling_def)
next
  case (Some r)
  let ?g = "set_call i (t\<lparr>task_phase := Returned r\<rparr>) (drop_permit (take_permit gw))"
  have "gw_limiter ?g = gw_limiter gw" using assms(4) by (simp add: drop_take_permit)
  then have "gw_inv ?g"
    using assms by (intro gw_inv_keep [OF assms(1), where i = i and t = "t\<lparr>task_phase := Returned r\<rparr>"]) (simp_all add: in_flight_iff)
  with Some show ?thesis by (simp add: poll_calling_def)
qed

lemma poll_call_inv:
  assumes "gw_inv gw" and "gw_calls gw i = Some t"
  shows "gw_inv (poll_call gw granted i t)"
proof (cases "task_phase t")
  case Acquiring
  show ?thesis
  proof (cases "poll_permit gw granted (call_control t)")
    case None
    with Acquiring assms show ?thesis by (simp add: poll_call_def)
  next
    case (Some r)
    show ?thesis
    proof (cases r)
      case (Inl e)
      have "gw_inv (set_call i (t\<lparr>task_phase := Returned (Err e)\<rparr>) gw)"
        using assms Acquiring by (intro gw_inv_keep [OF assms(1), where i = i and t = "t\<lparr>task_phase := Returned (Err e)\<rparr>"]) (simp_all add: in_flight_iff)
      with Inl Some Acquiring show ?thesis by (simp add: poll_call_def)
    next
      case (Inr u)
      then have "0 < sem_permits (gw_limiter gw)" using Some by (auto simp: poll_permit_def split: if_splits)
      then show ?thesis
        using Inr Some Acquiring poll_fresh_inv [OF assms Acquiring _ call_deadline_le]
        by (simp add: poll_call_def)
    qed
  qed
next
  case (Calling d)
  then show ?thesis using poll_calling_inv [OF assms] by (simp add: poll_call_def)
next
  case (Returned r)
  then show ?thesis using assms by (simp add: poll_call_def)
qed

lemma drop_call_inv:
  assumes "gw_inv gw" and "gw_calls gw i = Some t"
  shows "gw_inv (gateway_step gw (DropCall i))"
proof (cases "is_calling t")
  case True
  then obtain d where d: "task_phase t = Calling d" by (auto simp: is_calling_def split: call_phase.splits)
  let ?g = "drop_permit (gw\<lparr>gw_calls := (gw_calls gw)(i := None)\<rparr>)"
  have "in_flight ?g = in_flight gw - {i}" by (rule in_flight_del) simp
  moreover have "gw_limiter ?g = gw_limiter (drop_permit gw)" by (simp add: drop_permit_def)
  ultimately have "gw_inv ?g"
    using assms True by (intro gw_inv_release [OF assms(1), of ?g i]) (auto simp: in_flight_iff split: if_splits)
  then show ?thesis using assms(2) d by simp
next
  case False
  let ?g = "gw\<lparr>gw_calls := (gw_calls gw)(i := None)\<rparr>"
  have "in_flight ?g = in_flight gw - {i}" by (rule in_flight_del) simp
  also have "\<dots> = in_flight gw" using False assms(2) by (simp add: in_flight_iff)
  finally have "gw_inv ?g" using assms(1) by (auto simp: gw_inv_def split: if_splits)
  then show ?thesis using assms(2) False by (auto simp: is_calling_def split: call_phase.splits)
qed

lemma gateway_step_inv:
  assumes "gw_inv gw"
  shows "gw_inv (gateway_step gw s)"
proof (cases s)
  case (Enter i messages effort control)
  then show ?thesis
    using assms by (auto intro!: gw_inv_keep [OF assms, where i = i] simp: in_flight_def)
next
  case (Advance ms)
  have "in_flight (gw\<lparr>gw_now := gw_now gw + ms\<rparr>) = in_flight gw" by (simp add: in_flight_def)
  with Advance assms show ?thesis by (auto simp: gw_inv_def)
next
  case (Cancel i)
  have "gw_inv (set_call i (t\<lparr>call_control := (call_control t)\<lparr>tc_cancelled := True\<rparr>\<rparr>) gw)"
    if "gw_calls gw i = Some t" for t
    using gw_inv_deadline [OF assms that]
    by (intro gw_inv_keep [OF assms, where i = i and t = "t\<lparr>call_control := (call_control t)\<lparr>tc_cancelled := True\<rparr>\<rparr>"]) (simp_all add: in_flight_iff [OF that] is_calling_def)
  then show ?thesis using Cancel assms by (simp split: option.split)
next
  case (Answer i r)
  have "gw_inv (set_call i (t\<lparr>call_answer := a\<rparr>) gw)" if "gw_calls gw i = Some t" for t a
    using gw_inv_deadline [OF assms that]
    by (intro gw_inv_keep [OF assms, where i = i and t = "t\<lparr>call_answer := a\<rparr>"]) (simp_all add: in_flight_iff [OF that] is_calling_def)
  then show ?thesis using Answer assms by (simp split: option.split call_phase.split)
next
  case (Poll i granted)
  then show ?thesis using assms poll_call_inv [OF assms] by (simp split: option.split)
next
  case (DropCall i)
  then show ?thesis using assms drop_call_inv [OF assms] by (cases "gw_calls gw i") simp_all
qed

lemma foldl_inv: "P a \<Longrightarrow> (\<And>a x. P a \<Longrightarrow> P (f a x)) \<Longrightarrow> P (foldl f a xs)"
  by (induction xs arbitrary: a) simp_all

lemma gateway_run_inv: "gw_inv (gateway_run config steps)"
  unfolding gateway_run_def by (rule foldl_inv) (simp_all add: gw_inv_new gateway_step_inv)

lemma poll_calling_config [simp]: "gw_config (poll_calling gw i t d) = gw_config gw"
  by (simp add: poll_calling_def split: option.split)

lemma gateway_step_config: "gw_config (gateway_step gw s) = gw_config gw"
  by (cases s) (simp_all add: poll_call_def split: option.split call_phase.split sum.split)

lemma gateway_run_config [simp]: "gw_config (gateway_run config steps) = config"
  unfolding gateway_run_def
  by (rule foldl_inv [where P = "\<lambda>g. gw_config g = config"]) (simp_all add: gateway_step_config LlmGateway_new_def)

text \<open>
  C16. No permit of the gateway is ever lost or duplicated: after any sequence of calls, polls,
  cancellations, answers, timeouts and dropped futures, the free permits and the calls waiting for
  the provider add up to \<open>max_concurrent_calls\<close>; so at most that many provider calls run at once, and
  when none runs every permit is free.
\<close>

theorem permits_conserved:
  "let gw = gateway_run config steps in
     finite (in_flight gw)
     \<and> sem_permits (gw_limiter gw) + card (in_flight gw) = lc_max_concurrent_calls config
     \<and> card (in_flight gw) \<le> lc_max_concurrent_calls config"
  using gateway_run_inv [of config steps] by (simp add: Let_def gw_inv_def)

text \<open>
  C29. A call never outlives its turn: in any reachable state, polling a call whose token is cancelled
  or whose deadline has passed returns it, with \<open>Cancelled\<close> taking precedence over \<open>Timeout\<close>, whether
  it still waits for a permit or for the provider, and even when the provider's answer is ready.
\<close>

theorem poll_returns_by_deadline:
  assumes "gw = gateway_run config steps" and "gw_calls gw i = Some t"
    and "\<And>r. task_phase t \<noteq> Returned r"
    and "tc_cancelled (call_control t) \<or> tc_deadline (call_control t) \<le> gw_now gw"
  shows "map_option task_phase (gw_calls (gateway_step gw (Poll i granted)) i) =
    Some (Returned (Err (if tc_cancelled (call_control t) then Cancelled else Timeout)))"
proof (cases "task_phase t")
  case Acquiring
  then show ?thesis using assms by (auto simp: poll_call_def poll_permit_def)
next
  case (Calling d)
  have "d \<le> tc_deadline (call_control t)"
    using gw_inv_deadline [OF _ assms(2) Calling] gateway_run_inv assms(1) by simp
  then show ?thesis using assms Calling by (auto simp: poll_call_def poll_calling_def poll_provider_def)
qed (use assms in simp)

section \<open>Where results come from\<close>

fun phase_ok :: "LlmConfig \<Rightarrow> nat \<Rightarrow> (LlmError + LlmCompletionResponse \<Rightarrow> bool) \<Rightarrow> TurnControl \<Rightarrow> call_phase \<Rightarrow> bool" where
  "phase_ok config now answered control Acquiring \<longleftrightarrow> True"
| "phase_ok config now answered control (Calling d) \<longleftrightarrow>
     tc_deadline control \<le> d \<or> lc_timeout_ms config \<le> d"
| "phase_ok config now answered control (Returned r) \<longleftrightarrow>
     (r = Err Cancelled \<and> tc_cancelled control)
     \<or> (r = Err Timeout \<and> (tc_deadline control \<le> now \<or> lc_timeout_ms config \<le> now)) \<or> answered r"

definition task_ok :: "LlmConfig \<Rightarrow> nat \<Rightarrow> (LlmError + LlmCompletionResponse \<Rightarrow> bool) \<Rightarrow> llm_task \<Rightarrow> bool" where
  "task_ok config now answered t \<longleftrightarrow>
     pred_option answered (call_answer t) \<and> phase_ok config now answered (call_control t) (task_phase t)"

definition results_ok :: "LlmGateway \<Rightarrow> gw_step list \<Rightarrow> bool" where
  "results_ok gw steps \<longleftrightarrow> (\<forall>i t. gw_calls gw i = Some t \<longrightarrow>
     task_ok (gw_config gw) (gw_now gw) (\<lambda>r. Answer i r \<in> set steps) t)"

lemma task_ok_mono:
  assumes "task_ok config now A t" and "now \<le> now'" and "\<And>r. A r \<Longrightarrow> B r"
  shows "task_ok config now' B t"
  using assms by (cases "task_phase t"; cases "call_answer t") (auto simp: task_ok_def)

lemma results_ok_phase: "results_ok gw steps \<Longrightarrow> gw_calls gw i = Some t \<Longrightarrow>
    phase_ok (gw_config gw) (gw_now gw) (\<lambda>r. Answer i r \<in> set steps) (call_control t) (task_phase t)"
  by (simp add: results_ok_def task_ok_def)

lemma results_ok_mono:
  assumes "results_ok gw steps" and "gw_calls gw' \<subseteq>\<^sub>m gw_calls gw" and "gw_now gw \<le> gw_now gw'"
    and "gw_config gw' = gw_config gw" and "set steps \<subseteq> set steps'"
  shows "results_ok gw' steps'"
  unfolding results_ok_def
proof (intro allI impI)
  fix i t
  assume "gw_calls gw' i = Some t"
  then have "gw_calls gw i = Some t" using assms(2) by (auto simp: map_le_def dom_def)
  then have "task_ok (gw_config gw) (gw_now gw) (\<lambda>r. Answer i r \<in> set steps) t"
    using assms(1) by (simp add: results_ok_def)
  then have "task_ok (gw_config gw) (gw_now gw') (\<lambda>r. Answer i r \<in> set steps') t"
    by (rule task_ok_mono) (use assms(3,5) in auto)
  then show "task_ok (gw_config gw') (gw_now gw') (\<lambda>r. Answer i r \<in> set steps') t"
    using assms(4) by simp
qed

lemma results_ok_set:
  assumes "results_ok gw steps" and "gw_calls gw' = (gw_calls gw)(i \<mapsto> t)" and "gw_now gw' = gw_now gw"
    and "gw_config gw' = gw_config gw" and "set steps \<subseteq> set steps'"
    and "task_ok (gw_config gw) (gw_now gw) (\<lambda>r. Answer i r \<in> set steps') t"
  shows "results_ok gw' steps'"
proof -
  have "results_ok gw steps'" using assms(1,5) by (intro results_ok_mono [OF assms(1)]) simp_all
  then show ?thesis using assms(2,3,4,6) by (simp add: results_ok_def)
qed

lemma results_ok_answer:
  assumes "results_ok gw steps" and "gw_calls gw i = Some t" and "set steps \<subseteq> set steps'"
  shows "pred_option (\<lambda>r. Answer i r \<in> set steps') (call_answer t)"
proof -
  have "pred_option (\<lambda>r. Answer i r \<in> set steps) (call_answer t)"
    using assms(1,2) by (simp add: results_ok_def task_ok_def)
  then show ?thesis using assms(3) by (cases "call_answer t") auto
qed

lemma poll_calling_results:
  assumes "results_ok gw steps" and "gw_calls gw i = Some t" and "set steps \<subseteq> set steps'"
    and "tc_deadline (call_control t) \<le> d \<or> lc_timeout_ms (gw_config gw) \<le> d"
  shows "results_ok (poll_calling gw i t d) steps'"
proof -
  have a: "pred_option (\<lambda>r. Answer i r \<in> set steps') (call_answer t)"
    by (rule results_ok_answer [OF assms(1-3)])
  show ?thesis
  proof (cases "poll_provider gw d (call_control t) (call_answer t)")
    case None
    have "task_ok (gw_config gw) (gw_now gw) (\<lambda>r. Answer i r \<in> set steps') (t\<lparr>task_phase := Calling d\<rparr>)"
      using a assms(4) by (simp add: task_ok_def)
    then have "results_ok (set_call i (t\<lparr>task_phase := Calling d\<rparr>) gw) steps'"
      by (intro results_ok_set [OF assms(1) _ _ _ assms(3)]) simp_all
    with None show ?thesis by (simp add: poll_calling_def)
  next
    case (Some r)
    have "task_ok (gw_config gw) (gw_now gw) (\<lambda>r. Answer i r \<in> set steps') (t\<lparr>task_phase := Returned r\<rparr>)"
      using a assms(4) Some by (auto simp: task_ok_def poll_provider_def split: if_splits)
    then have "results_ok (set_call i (t\<lparr>task_phase := Returned r\<rparr>) (drop_permit gw)) steps'"
      by (intro results_ok_set [OF assms(1) _ _ _ assms(3)]) simp_all
    with Some show ?thesis by (simp add: poll_calling_def)
  qed
qed

lemma poll_call_results:
  assumes "results_ok gw steps" and "gw_calls gw i = Some t" and "set steps \<subseteq> set steps'" and "gw_inv gw"
  shows "results_ok (poll_call gw granted i t) steps'"
proof (cases "task_phase t")
  case Acquiring
  have ok: "results_ok (take_permit gw) steps"
    by (rule results_ok_mono [OF assms(1)]) simp_all
  have "results_ok (poll_calling (take_permit gw) i t (call_deadline gw (call_control t))) steps'"
    by (rule poll_calling_results [OF ok _ assms(3)]) (auto simp: assms(2) call_deadline_def min_def)
  moreover have "results_ok (set_call i (t\<lparr>task_phase := Returned (Err e)\<rparr>) gw) steps'"
    if "poll_permit gw granted (call_control t) = Some (Err e)" for e
  proof (rule results_ok_set [OF assms(1) _ _ _ assms(3)])
    have "pred_option (\<lambda>r. Answer i r \<in> set steps') (call_answer t)"
      by (rule results_ok_answer [OF assms(1-3)])
    then show "task_ok (gw_config gw) (gw_now gw) (\<lambda>r. Answer i r \<in> set steps') (t\<lparr>task_phase := Returned (Err e)\<rparr>)"
      using that assms(4) by (auto simp: task_ok_def poll_permit_def gw_inv_def split: if_splits)
  qed simp_all
  moreover have "results_ok gw steps'" by (rule results_ok_mono [OF assms(1) _ _ _ assms(3)]) simp_all
  ultimately show ?thesis using Acquiring by (simp add: poll_call_def split: option.split sum.split)
next
  case (Calling d)
  have "tc_deadline (call_control t) \<le> d \<or> lc_timeout_ms (gw_config gw) \<le> d"
    using results_ok_phase [OF assms(1,2)] Calling by simp
  then show ?thesis using poll_calling_results [OF assms(1-3)] Calling by (simp add: poll_call_def)
next
  case (Returned r)
  then show ?thesis using results_ok_mono [OF assms(1) _ _ _ assms(3), of gw] by (simp add: poll_call_def)
qed

lemma gateway_step_results:
  assumes "results_ok gw steps" and "gw_inv gw"
  shows "results_ok (gateway_step gw s) (steps @ [s])"
proof -
  have keep: "results_ok gw (steps @ [s])" by (rule results_ok_mono [OF assms(1)]) auto
  have sub: "set steps \<subseteq> set (steps @ [s])" by auto
  have old: "task_ok (gw_config gw) (gw_now gw) (\<lambda>r. Answer i r \<in> set (steps @ [s])) t"
    if "gw_calls gw i = Some t" for i t
    using keep that by (simp add: results_ok_def)
  show ?thesis
  proof (cases s)
    case (Enter i messages effort control)
    let ?t = "\<lparr>call_request = build_request gw messages effort, call_control = control,
      call_answer = None, task_phase = Acquiring\<rparr>"
    have "results_ok (set_call i ?t gw) (steps @ [s])"
      by (rule results_ok_set [OF assms(1) _ _ _ sub, where t = ?t and i = i]) (simp_all add: task_ok_def)
    with keep Enter show ?thesis by simp
  next
    case (Advance ms)
    have "results_ok (gw\<lparr>gw_now := gw_now gw + ms\<rparr>) (steps @ [s])"
      by (rule results_ok_mono [OF assms(1)]) auto
    with Advance show ?thesis by simp
  next
    case (Cancel i)
    have "results_ok (set_call i (t\<lparr>call_control := (call_control t)\<lparr>tc_cancelled := True\<rparr>\<rparr>) gw) (steps @ [s])"
      if "gw_calls gw i = Some t" for t
      using old [OF that]
      by (intro results_ok_set [OF assms(1) _ _ _ sub, where i = i
            and t = "t\<lparr>call_control := (call_control t)\<lparr>tc_cancelled := True\<rparr>\<rparr>"])
        (cases "task_phase t"; simp add: task_ok_def; blast?)+
    with Cancel keep show ?thesis by (simp split: option.split)
  next
    case (Answer i r)
    have "results_ok (set_call i (t\<lparr>call_answer := (case call_answer t of None \<Rightarrow> Some r | a \<Rightarrow> a)\<rparr>) gw) (steps @ [s])"
      if "gw_calls gw i = Some t" for t
      using old [OF that] Answer
      by (intro results_ok_set [OF assms(1) _ _ _ sub, where i = i
            and t = "t\<lparr>call_answer := (case call_answer t of None \<Rightarrow> Some r | a \<Rightarrow> a)\<rparr>"])
        (cases "call_answer t"; simp add: task_ok_def)+
    with Answer keep show ?thesis
      by (cases "gw_calls gw i") (simp_all split: call_phase.split del: option.case_distrib)
  next
    case (Poll i granted)
    with keep show ?thesis using poll_call_results [OF assms(1) _ sub assms(2)] by (simp split: option.split)
  next
    case (DropCall i)
    have "results_ok (gw\<lparr>gw_calls := (gw_calls gw)(i := None)\<rparr>) (steps @ [s])"
      and "results_ok (drop_permit (gw\<lparr>gw_calls := (gw_calls gw)(i := None)\<rparr>)) (steps @ [s])"
      by (rule results_ok_mono [OF assms(1)]; auto simp: map_le_def)+
    with DropCall keep show ?thesis by (simp split: option.split call_phase.split)
  qed
qed

lemma gateway_run_results: "results_ok (gateway_run config steps) steps"
proof (induction steps rule: rev_induct)
  case Nil
  then show ?case by (simp add: results_ok_def gateway_run_def LlmGateway_new_def)
next
  case (snoc s steps)
  then show ?case
    using gateway_step_results [OF snoc gateway_run_inv] by (simp add: gateway_run_def)
qed

text \<open>
  The gateway invents no result: what a call returns is \<open>Cancelled\<close> only if its token was
  cancelled, \<open>Timeout\<close> only if the turn's deadline or the call timeout has passed, and otherwise
  exactly an answer the provider gave to this call. In particular the limiter is never closed, so
  \<open>ConcurrencyLimiterClosed\<close> is never the gateway's own doing.
\<close>

lemma gateway_result_origin:
  assumes "gw_calls (gateway_run config steps) i = Some t" and "task_phase t = Returned r"
  shows "(r = Err Cancelled \<and> tc_cancelled (call_control t))
    \<or> (r = Err Timeout \<and> (tc_deadline (call_control t) \<le> gw_now (gateway_run config steps)
                            \<or> lc_timeout_ms config \<le> gw_now (gateway_run config steps)))
    \<or> Answer i r \<in> set steps"
  using results_ok_phase [OF gateway_run_results assms(1)] assms(2) by simp

end
