(* ===== verification/Masking.thy ===== *)
theory Masking
  imports Utf8 "HOL-Library.Sublist"
begin

text \<open>
  \<open>aise-service/src/observability/propagation.rs\<close>: the masker every exported string passes through.
  It redacts the values of assignments to sensitive keys, tokens with a secret prefix and, on demand,
  e-mail addresses and phone numbers, and bounds the output.

  Text is a list of characters; the byte positions the code computes all lie next to an ASCII byte,
  so that every cut is between characters. A pair (\<open>value\<close>, \<open>search_from\<close>) of the source is the pair
  of the text before and from that position. The only positions counted in bytes are the limits, in
  \<open>utf8_prefix\<close>.
\<close>

section \<open>Characters\<close>

definition ascii_lower :: "uchar \<Rightarrow> uchar" where
  "ascii_lower c = (if is_ascii_uppercase c then c + 32 else c)"

definition is_ascii_alphanumeric :: "uchar \<Rightarrow> bool" where
  "is_ascii_alphanumeric c \<longleftrightarrow> is_ascii_lowercase c \<or> is_ascii_uppercase c \<or> is_ascii_digit c"

definition is_identifier :: "uchar \<Rightarrow> bool" where
  "is_identifier c \<longleftrightarrow> is_ascii_alphanumeric c \<or> c = 95 \<or> c = 45"

definition is_secret_token :: "uchar \<Rightarrow> bool" where
  "is_secret_token c \<longleftrightarrow> is_ascii_alphanumeric c \<or> c = 95 \<or> c = 45 \<or> c = 46"

definition REDACTED :: str where
  "REDACTED = lit ''[REDACTED]''"

definition DETECTOR_OVERLAP_BYTES :: nat where
  "DETECTOR_OVERLAP_BYTES = 256"

definition SENSITIVE_KEYS :: "str list" where
  "SENSITIVE_KEYS = map lit
     [''authorization'', ''proxy-authorization'', ''cookie'', ''set-cookie'', ''api_key'', ''api-key'', ''apikey'',
      ''secret_key'', ''secret-key'', ''client_secret'', ''access_token'', ''refresh_token'', ''password'']"

definition SECRET_PREFIXES :: "str list" where
  "SECRET_PREFIXES = map lit [''sk-'', ''pk-lf-'', ''sk-lf-'']"

section \<open>Cutting at a byte limit\<close>

fun is_char_boundary :: "str \<Rightarrow> nat \<Rightarrow> bool" where
  "is_char_boundary [] i \<longleftrightarrow> i = 0"
| "is_char_boundary (c # t) i \<longleftrightarrow> i = 0 \<or> (utf8_len c \<le> i \<and> is_char_boundary t (i - utf8_len c))"

text \<open>\<open>&value[..end]\<close> for a boundary \<open>end\<close>.\<close>

fun slice_to :: "str \<Rightarrow> nat \<Rightarrow> str" where
  "slice_to [] i = []"
| "slice_to (c # t) i = (if i = 0 then [] else c # slice_to t (i - utf8_len c))"

fun floor_boundary :: "str \<Rightarrow> nat \<Rightarrow> nat" where
  "floor_boundary t i = (if i > 0 \<and> \<not> is_char_boundary t i then floor_boundary t (i - 1) else i)"

declare floor_boundary.simps [simp del]

definition utf8_prefix :: "str \<Rightarrow> nat \<Rightarrow> str" where
  "utf8_prefix t max_bytes =
     (if str_len t \<le> max_bytes then t else slice_to t (floor_boundary t max_bytes))"

section \<open>Assignments\<close>

text \<open>\<open>lower[search_from..].find(key)\<close>: the text before the first match, and the text from it.\<close>

fun split_at_match :: "str \<Rightarrow> str \<Rightarrow> (str \<times> str) option" where
  "split_at_match k [] = (if k = [] then Some ([], []) else None)"
| "split_at_match k (c # t) =
     (if take (length k) (map ascii_lower (c # t)) = k then Some ([], c # t)
      else map_option (\<lambda>(before, found). (c # before, found)) (split_at_match k t))"

definition is_gap :: "uchar \<Rightarrow> bool" where
  "is_gap c \<longleftrightarrow> c = 32 \<or> c = 9 \<or> c = 34 \<or> c = 39"

definition is_separator :: "uchar \<Rightarrow> bool" where
  "is_separator c \<longleftrightarrow> c = 58 \<or> c = 61"

definition is_blank :: "uchar \<Rightarrow> bool" where
  "is_blank c \<longleftrightarrow> c = 32 \<or> c = 9"

definition is_quote :: "uchar \<Rightarrow> bool" where
  "is_quote c \<longleftrightarrow> c = 34 \<or> c = 39"

text \<open>Where the value ends: the text from that position.\<close>

definition assignment_end :: "uchar option \<Rightarrow> str \<Rightarrow> str" where
  "assignment_end quote t =
     dropWhile (\<lambda>c. \<not> (case quote of Some q \<Rightarrow> c = q | None \<Rightarrow> c = 13 \<or> c = 10 \<or> c = 44 \<or> c = 59)) t"

definition opening_quote :: "str \<Rightarrow> uchar option" where
  "opening_quote t = (case t of c # _ \<Rightarrow> if is_quote c then Some c else None | [] \<Rightarrow> None)"

text \<open>The keys are non-empty literals; with an empty one the source would not end.\<close>

function mask_assignment_from :: "str \<Rightarrow> str \<Rightarrow> str \<Rightarrow> str" where
  "mask_assignment_from key masked rest =
     (if key = [] then masked @ rest
      else case split_at_match key rest of
          None \<Rightarrow> masked @ rest
        | Some (before, found) \<Rightarrow>
            let head = masked @ before;
                key_text = take (length key) found;
                after = drop (length key) found
            in if head \<noteq> [] \<and> is_identifier (ascii_lower (last head))
               then mask_assignment_from key (head @ key_text) after
               else (case dropWhile is_gap after of
                   [] \<Rightarrow> mask_assignment_from key (head @ key_text) after
                 | c # r \<Rightarrow>
                     if \<not> is_separator c then mask_assignment_from key (head @ key_text) after
                     else let v = dropWhile is_blank r;
                              quote = opening_quote v;
                              start_quote = (case quote of Some q \<Rightarrow> [q] | None \<Rightarrow> []);
                              v = drop (length start_quote) v
                          in mask_assignment_from key
                               (head @ key_text @ takeWhile is_gap after @ [c] @ takeWhile is_blank r @ start_quote @ REDACTED)
                               (assignment_end quote v)))"
  by pat_completeness auto

definition mask_assignment :: "str \<Rightarrow> str \<Rightarrow> str" where
  "mask_assignment t key = mask_assignment_from key [] t"

section \<open>Tokens with a secret prefix\<close>

function mask_prefixed_from :: "str \<Rightarrow> str \<Rightarrow> str \<Rightarrow> str" where
  "mask_prefixed_from p masked rest =
     (if p = [] then masked @ rest
      else case split_at_match p rest of
          None \<Rightarrow> masked @ rest
        | Some (before, found) \<Rightarrow>
            let head = masked @ before;
                p_text = take (length p) found;
                after = drop (length p) found
            in if head \<noteq> [] \<and> is_secret_token (last head)
               then mask_prefixed_from p (head @ p_text) after
               else if takeWhile is_secret_token after = []
               then mask_prefixed_from p (head @ p_text) after
               else mask_prefixed_from p (head @ REDACTED) (dropWhile is_secret_token after))"
  by pat_completeness auto

definition mask_prefixed_token :: "str \<Rightarrow> str \<Rightarrow> str" where
  "mask_prefixed_token t p = mask_prefixed_from p [] t"

section \<open>Personal data\<close>

definition is_pii_delimiter :: "uchar \<Rightarrow> bool" where
  "is_pii_delimiter c \<longleftrightarrow>
     is_whitespace c \<or> c = 44 \<or> c = 59 \<or> c = 34 \<or> c = 39 \<or> c = 60 \<or> c = 62"

text \<open>\<open>split_once('@')\<close>, a non-empty local part and a domain with a dot.\<close>

definition is_email :: "str \<Rightarrow> bool" where
  "is_email token \<longleftrightarrow>
     (let local_part = takeWhile (\<lambda>c. c \<noteq> 64) token; r = dropWhile (\<lambda>c. c \<noteq> 64) token
      in r \<noteq> [] \<and> local_part \<noteq> [] \<and> 46 \<in> set (tl r))"

definition is_phone :: "str \<Rightarrow> bool" where
  "is_phone token \<longleftrightarrow>
     7 \<le> length (filter is_ascii_digit token)
     \<and> list_all (\<lambda>c. is_ascii_digit c \<or> c = 43 \<or> c = 45 \<or> c = 40 \<or> c = 41 \<or> c = 46) token"

definition push_masked_token :: "str \<Rightarrow> str \<Rightarrow> str" where
  "push_masked_token result token = result @ (if is_email token \<or> is_phone token then REDACTED else token)"

text \<open>The loop over \<open>char_indices\<close>: \<open>token\<close> is the text from \<open>token_start\<close> to the current character.\<close>

fun mask_pii_from :: "str \<Rightarrow> str \<Rightarrow> str \<Rightarrow> str" where
  "mask_pii_from result token [] = push_masked_token result token"
| "mask_pii_from result token (c # rest) =
     (if is_pii_delimiter c then mask_pii_from (push_masked_token result token @ [c]) [] rest
      else mask_pii_from result (token @ [c]) rest)"

definition mask_pii :: "str \<Rightarrow> str" where
  "mask_pii t = mask_pii_from [] [] t"

section \<open>The masker\<close>

record StreamingMasker =
  sm_max_output_bytes :: nat
  sm_redact_pii :: bool

definition mask :: "StreamingMasker \<Rightarrow> str \<Rightarrow> str" where
  "mask m t =
     (let input_limit = usize_saturating_add (sm_max_output_bytes m) DETECTOR_OVERLAP_BYTES;
          masked = utf8_prefix t input_limit;
          masked = foldl mask_assignment masked SENSITIVE_KEYS;
          masked = foldl mask_prefixed_token masked SECRET_PREFIXES;
          masked = (if sm_redact_pii m then mask_pii masked else masked)
      in utf8_prefix masked (sm_max_output_bytes m))"

section \<open>The loops end\<close>

lemma split_at_match_Some:
  "split_at_match k t = Some (b, f) \<Longrightarrow> t = b @ f \<and> map ascii_lower (take (length k) f) = k"
proof (induction t arbitrary: b)
  case Nil
  then show ?case by (simp split: if_splits)
next
  case (Cons c t)
  show ?case
  proof (cases "take (length k) (map ascii_lower (c # t)) = k")
    case True
    with Cons.prems have "b = []" "f = c # t" by auto
    with True show ?thesis by (metis append_Nil take_map)
  next
    case False
    with Cons show ?thesis by auto
  qed
qed

lemma split_at_match_length:
  assumes "split_at_match k t = Some (b, f)" and "k \<noteq> []"
  shows "length (drop (length k) f) < length t"
proof -
  have "t = b @ f" "length (take (length k) f) = length k"
    using split_at_match_Some [OF assms(1)] by (simp, metis length_map)
  then have "length t = length b + length f" "min (length f) (length k) = length k" by simp_all
  moreover from assms(2) have "0 < length k" by simp
  ultimately show ?thesis unfolding length_take length_drop length_append by linarith
qed

lemma assignment_end_le: "length (assignment_end q t) \<le> length t"
  by (simp add: assignment_end_def length_dropWhile_le)

termination mask_prefixed_from
  by (relation "measure (\<lambda>(k, m, r). length r)")
    (auto dest!: split_at_match_length intro: le_less_trans [OF length_dropWhile_le])

lemma opening_quote_rest: "length (drop n (dropWhile P r)) \<le> length r"
  by (metis diff_le_self le_trans length_drop length_dropWhile_le)

termination mask_assignment_from
proof (relation "measure (\<lambda>(k, m, r). length r)", goal_cases)
  case (5 key masked rest x before found head key_text after c r v quote start_quote v')
  have "length (assignment_end quote v') \<le> length r"
    using 5 assignment_end_le [of quote v'] opening_quote_rest [of _ is_blank r] le_trans by blast
  also have "length r < length (dropWhile is_gap after)" using 5 by simp
  also have "\<dots> \<le> length after" by (rule length_dropWhile_le)
  also have "\<dots> < length rest" using 5 split_at_match_length by auto
  finally show ?case by simp
qed (auto dest!: split_at_match_length)

declare mask_prefixed_from.simps [simp del] mask_assignment_from.simps [simp del]

end
