(* ===== verification/Masking_Safety.thy ===== *)
theory Masking_Safety
  imports Masking
begin

text \<open>
  What the masker guarantees. Every redaction of the source replaces a stretch of text that is cut off
  cleanly: the character after it cannot continue an identifier or a token, and no earlier redaction
  straddles its start. The locale \<open>redaction_invariant\<close> collects what is proved once for every
  property that such replacements keep; it is interpreted with \<open>no exposed secret token\<close> for each
  secret prefix and with \<open>every assignment to the key is redacted\<close> for each sensitive key, so that a
  later pass of the masker never undoes an earlier one.
\<close>

section \<open>Cutting at a byte limit\<close>

lemma slice_to_boundary:
  "is_char_boundary t i \<Longrightarrow> str_len (slice_to t i) = i \<and> (\<exists>r. t = slice_to t i @ r)"
proof (induction t arbitrary: i)
  case Nil
  then show ?case by simp
next
  case (Cons c t)
  show ?case
  proof (cases "i = 0")
    case False
    with Cons.prems have "utf8_len c \<le> i" "is_char_boundary t (i - utf8_len c)" by simp_all
    with Cons.IH [of "i - utf8_len c"] False show ?thesis by auto
  qed simp
qed

lemma floor_boundary_ok: "is_char_boundary t (floor_boundary t i) \<and> floor_boundary t i \<le> i"
proof (induction t i rule: floor_boundary.induct)
  case (1 t i)
  show ?case
  proof (cases "i > 0 \<and> \<not> is_char_boundary t i")
    case True
    with 1 have "is_char_boundary t (floor_boundary t (i - 1))" "floor_boundary t (i - 1) \<le> i - 1" by simp_all
    with True show ?thesis by (simp add: floor_boundary.simps [of t i])
  next
    case False
    then have "is_char_boundary t i" by (cases t) auto
    with False show ?thesis by (simp add: floor_boundary.simps [of t i])
  qed
qed

lemma utf8_prefix_prefix: "prefix (utf8_prefix t n) t"
  using slice_to_boundary floor_boundary_ok by (auto simp: utf8_prefix_def prefix_def)

lemma utf8_prefix_le: "str_len (utf8_prefix t n) \<le> n"
  using slice_to_boundary [of t "floor_boundary t n"] floor_boundary_ok [of t n] by (simp add: utf8_prefix_def)

section \<open>Characters\<close>

lemma set_REDACTED: "set REDACTED = {91, 82, 69, 68, 65, 67, 84, 93}"
  by (auto simp: REDACTED_def lit_def)

lemma REDACTED_Cons: "REDACTED = 91 # tl REDACTED" "last REDACTED = 93" "REDACTED \<noteq> []" "length REDACTED = 10"
  by (simp_all add: REDACTED_def lit_def)

lemma identifier_lower [simp]: "is_identifier (ascii_lower c) \<longleftrightarrow> is_identifier c"
  by (auto simp: is_identifier_def ascii_lower_def is_ascii_alphanumeric_def is_ascii_uppercase_def is_ascii_lowercase_def
      is_ascii_digit_def)

lemma secret_lower [simp]: "is_secret_token (ascii_lower c) \<longleftrightarrow> is_secret_token c"
  by (auto simp: is_secret_token_def ascii_lower_def is_ascii_alphanumeric_def is_ascii_uppercase_def
      is_ascii_lowercase_def is_ascii_digit_def)

lemma identifier_secret: "is_identifier c \<Longrightarrow> is_secret_token c"
  by (auto simp: is_identifier_def is_secret_token_def)

lemma not_token:
  "is_gap c \<Longrightarrow> \<not> is_secret_token c" "is_separator c \<Longrightarrow> \<not> is_secret_token c"
  "is_blank c \<Longrightarrow> \<not> is_secret_token c" "is_quote c \<Longrightarrow> \<not> is_secret_token c"
  "is_pii_delimiter c \<Longrightarrow> \<not> is_secret_token c" "\<not> is_secret_token 91" "\<not> is_secret_token 93"
  "\<not> is_secret_token 13" "\<not> is_secret_token 10" "\<not> is_secret_token 44" "\<not> is_secret_token 59"
  by (auto simp: is_secret_token_def is_ascii_alphanumeric_def is_ascii_uppercase_def is_ascii_lowercase_def
      is_ascii_digit_def is_gap_def is_separator_def is_blank_def is_quote_def is_pii_delimiter_def is_whitespace_def)

lemma not_in_REDACTED:
  "is_separator c \<Longrightarrow> c \<notin> set REDACTED" "is_blank c \<Longrightarrow> c \<notin> set REDACTED" "is_quote c \<Longrightarrow> c \<notin> set REDACTED"
  "is_pii_delimiter c \<Longrightarrow> c \<notin> set REDACTED"
  by (auto simp: set_REDACTED is_separator_def is_blank_def is_quote_def is_pii_delimiter_def is_whitespace_def)

section \<open>Clean replacements\<close>

definition clean_cut :: "str \<Rightarrow> str \<Rightarrow> str \<Rightarrow> bool" where
  "clean_cut a x b \<longleftrightarrow> (b = [] \<or> \<not> is_secret_token (hd b))
     \<and> (a = [] \<or> x @ b = [] \<or> last a \<notin> set REDACTED \<or> hd (x @ b) \<notin> set REDACTED)"

lemma mask_prefixed_step:
  assumes "p \<noteq> []" and "split_at_match p rest = Some (before, found)"
  shows "mask_prefixed_from p masked rest =
    (if masked @ before \<noteq> [] \<and> is_secret_token (last (masked @ before))
        \<or> takeWhile is_secret_token (drop (length p) found) = []
     then mask_prefixed_from p ((masked @ before) @ take (length p) found) (drop (length p) found)
     else mask_prefixed_from p ((masked @ before) @ REDACTED) (dropWhile is_secret_token (drop (length p) found)))"
  using assms by (subst mask_prefixed_from.simps) (auto simp: Let_def)

section \<open>Values of assignments\<close>

text \<open>
  After a key: the text up to its value, the quote that opens the value, and the text from the value
  on, when the key is assigned to.
\<close>

definition value_start :: "str \<Rightarrow> (str \<times> uchar option \<times> str) option" where
  "value_start t =
     (case dropWhile is_gap t of
        [] \<Rightarrow> None
      | c # r \<Rightarrow>
          if \<not> is_separator c then None
          else let v = dropWhile is_blank r; q = opening_quote v; s = (case q of Some q \<Rightarrow> [q] | None \<Rightarrow> [])
               in Some (takeWhile is_gap t @ [c] @ takeWhile is_blank r @ s, q, drop (length s) v))"

lemma opening_quote_split: "v = (case opening_quote v of Some q \<Rightarrow> [q] | None \<Rightarrow> [])
    @ drop (length (case opening_quote v of Some q \<Rightarrow> [q] | None \<Rightarrow> [])) v"
  by (cases v) (auto simp: opening_quote_def)

lemma opening_quote_Some: "opening_quote v = Some q \<Longrightarrow> is_quote q"
  by (auto simp: opening_quote_def split: list.splits if_splits)

lemma value_start_Some:
  assumes "value_start t = Some (lead, q, v)"
  shows "t = lead @ v" "c \<in> set lead \<Longrightarrow> \<not> is_secret_token c" "lead \<noteq> []" "last lead \<notin> set REDACTED"
    "q = Some d \<Longrightarrow> is_quote d"
proof -
  from assms obtain e r where d: "dropWhile is_gap t = e # r" and e: "is_separator e"
    by (auto simp: value_start_def split: list.splits if_splits)
  define w where "w = dropWhile is_blank r"
  define sq where "sq = (case opening_quote w of Some q \<Rightarrow> [q] | None \<Rightarrow> [])"
  have l: "lead = takeWhile is_gap t @ [e] @ takeWhile is_blank r @ sq" and q: "q = opening_quote w"
    and v: "v = drop (length sq) w"
    using assms d e by (auto simp: value_start_def Let_def w_def sq_def)
  have "w = sq @ v" unfolding v sq_def by (rule opening_quote_split)
  then have "r = takeWhile is_blank r @ sq @ v" by (metis takeWhile_dropWhile_id w_def)
  then show "t = lead @ v" unfolding l using d by (metis append.assoc append_Cons append_Nil takeWhile_dropWhile_id)
  have sq: "is_quote f" if "f \<in> set sq" for f
    using that by (auto simp: sq_def opening_quote_Some split: option.splits)
  show "\<not> is_secret_token c" if "c \<in> set lead"
    using that e sq not_token by (auto simp: l dest: set_takeWhileD)
  show "lead \<noteq> []" by (simp add: l)
  have "is_separator (last lead) \<or> is_blank (last lead) \<or> is_quote (last lead)"
  proof (cases "sq = []")
    case True
    have "takeWhile is_blank r \<noteq> [] \<Longrightarrow> is_blank (last (takeWhile is_blank r))"
      by (meson last_in_set set_takeWhileD)
    with True e show ?thesis by (cases "takeWhile is_blank r = []") (simp_all add: l)
  next
    case False
    then show ?thesis using sq [of "last sq"] by (simp add: l)
  qed
  then show "last lead \<notin> set REDACTED" using not_in_REDACTED by blast
  show "q = Some d \<Longrightarrow> is_quote d" using q opening_quote_Some by simp
qed

lemma assignment_end_split: "\<exists>x. v = x @ assignment_end q v"
  unfolding assignment_end_def by (rule exI, rule takeWhile_dropWhile_id [symmetric])

lemma assignment_end_hd:
  assumes "\<And>d. q = Some d \<Longrightarrow> is_quote d" and "assignment_end q v \<noteq> []"
  shows "\<not> is_secret_token (hd (assignment_end q v))"
proof -
  have "\<not> \<not> (case q of Some d \<Rightarrow> hd (assignment_end q' v) = d
      | None \<Rightarrow> hd (assignment_end q' v) \<in> {13, 10, 44, 59})" if "q' = q" for q'
    using hd_dropWhile [OF assms(2) [unfolded assignment_end_def]] that
    by (cases q) (auto simp: assignment_end_def)
  then show ?thesis using assms(1) not_token by (cases q) auto
qed

lemma clean_assignment:
  assumes "value_start t = Some (lead, q, v)" and "v = x @ assignment_end q v"
  shows "clean_cut (h @ lead) x (assignment_end q v)"
  using value_start_Some [OF assms(1)] assignment_end_hd [of q v] by (auto simp: clean_cut_def)

lemma mask_assignment_step:
  assumes "key \<noteq> []" and "split_at_match key rest = Some (before, found)"
  shows "mask_assignment_from key masked rest =
    (if masked @ before \<noteq> [] \<and> is_identifier (last (masked @ before))
        \<or> value_start (drop (length key) found) = None
     then mask_assignment_from key ((masked @ before) @ take (length key) found) (drop (length key) found)
     else case value_start (drop (length key) found) of
         Some (lead, q, v) \<Rightarrow>
           mask_assignment_from key (((masked @ before) @ take (length key) found @ lead) @ REDACTED) (assignment_end q v)
       | None \<Rightarrow> [])"
proof (cases "dropWhile is_gap (drop (length key) found)")
  case Nil
  then have d: "(case dropWhile is_gap (drop (length key) found) of [] \<Rightarrow> n | c # r \<Rightarrow> f c r) = n" for n :: 'z and f
    by (simp only: list.case)
  have v: "value_start (drop (length key) found) = None" unfolding value_start_def by (rule d)
  show ?thesis
    using assms unfolding mask_assignment_from.simps [of key masked rest]
    by (cases "masked @ before = []") (simp_all add: Let_def d v)
next
  case (Cons c r)
  show ?thesis
    using assms unfolding mask_assignment_from.simps [of key masked rest] value_start_def Let_def
    by (cases "is_separator c"; cases "masked @ before = []") (simp_all add: Cons)
qed

text \<open>Where a value starts before an opening bracket does not depend on what follows.\<close>

lemma value_start_cut:
  assumes "value_start (a @ 91 # y) = Some (lead, q, v)"
  shows "\<exists>a'. a = lead @ a' \<and> v = a' @ 91 # y \<and> (a' \<noteq> [] \<longrightarrow> (\<forall>z. value_start (a @ z) = Some (lead, q, a' @ z)))"
proof -
  have g: "\<not> (\<forall>c \<in> set a. is_gap c)"
  proof
    assume "\<forall>c \<in> set a. is_gap c"
    then have "dropWhile is_gap (a @ 91 # y) = 91 # y" by (simp add: is_gap_def)
    then show False using assms by (simp add: value_start_def is_separator_def)
  qed
  then have dg: "dropWhile is_gap (a @ z) = dropWhile is_gap a @ z" "takeWhile is_gap (a @ z) = takeWhile is_gap a" for z
    by (auto simp: dropWhile_append1 takeWhile_append1)
  have "dropWhile is_gap a \<noteq> []" using g by (simp add: dropWhile_eq_Nil_conv)
  then obtain c r where cr: "dropWhile is_gap a = c # r" by (cases "dropWhile is_gap a") auto
  have c: "is_separator c" using assms by (simp add: value_start_def dg cr split: if_splits)
  have aq: "a = takeWhile is_gap a @ c # r" using cr by (metis takeWhile_dropWhile_id)
  show ?thesis
  proof (cases "\<forall>d \<in> set r. is_blank d")
    case True
    then have "dropWhile is_blank (r @ 91 # y) = 91 # y" "takeWhile is_blank (r @ 91 # y) = r"
      by (simp_all add: is_blank_def)
    then have "lead = takeWhile is_gap a @ [c] @ r" "v = 91 # y"
      using assms c by (auto simp: value_start_def dg cr Let_def opening_quote_def is_quote_def)
    with aq show ?thesis by simp
  next
    case False
    then have db: "dropWhile is_blank (r @ z) = dropWhile is_blank r @ z"
        "takeWhile is_blank (r @ z) = takeWhile is_blank r" for z
      by (auto simp: dropWhile_append1 takeWhile_append1)
    have "dropWhile is_blank r \<noteq> []" using False by (simp add: dropWhile_eq_Nil_conv)
    then obtain d s where ds: "dropWhile is_blank r = d # s" by (cases "dropWhile is_blank r") auto
    have rq: "r = takeWhile is_blank r @ d # s" using ds by (metis takeWhile_dropWhile_id)
    define a' where "a' = (if is_quote d then s else d # s)"
    define l where "l = takeWhile is_gap a @ [c] @ takeWhile is_blank r @ (if is_quote d then [d] else [])"
    have "value_start (a @ z) = Some (l, if is_quote d then Some d else None, a' @ z)" for z
      using c by (simp add: value_start_def dg cr db ds Let_def opening_quote_def a'_def l_def)
    moreover have "a = l @ a'" using aq rq by (simp add: l_def a'_def)
    ultimately show ?thesis using assms by auto
  qed
qed

locale redaction_invariant =
  fixes P :: "str \<Rightarrow> bool"
  assumes redact: "P (a @ x @ b) \<Longrightarrow> clean_cut a x b \<Longrightarrow> P (a @ REDACTED @ b)"
begin

lemma mask_pii_keeps:
  "P (result @ token @ rest) \<Longrightarrow> result = [] \<or> is_pii_delimiter (last result) \<Longrightarrow> P (mask_pii_from result token rest)"
proof (induction result token rest rule: mask_pii_from.induct)
  case (1 result token)
  then have "clean_cut result token []" using not_in_REDACTED(4) by (auto simp: clean_cut_def)
  with redact [of result token "[]"] 1 show ?case by (simp add: push_masked_token_def)
next
  case (2 result token c rest)
  show ?case
  proof (cases "is_pii_delimiter c")
    case True
    have "clean_cut result token (c # rest)" using True 2 not_in_REDACTED(4) not_token(5) by (auto simp: clean_cut_def)
    with redact [of result token "c # rest"] "2.prems"(1)
    have "P ((push_masked_token result token @ [c]) @ [] @ rest)" by (simp add: push_masked_token_def)
    with 2 True show ?thesis by simp
  next
    case False
    with 2 show ?thesis by simp
  qed
qed

lemma mask_prefixed_keeps:
  assumes p: "hd p \<notin> ascii_lower ` set REDACTED"
  shows "P (masked @ rest) \<Longrightarrow> P (mask_prefixed_from p masked rest)"
proof (induction rest arbitrary: masked rule: length_induct)
  case (1 rest)
  show ?case
  proof (cases "p = [] \<or> split_at_match p rest = None")
    case True
    with "1.prems" show ?thesis by (auto simp: mask_prefixed_from.simps [of p masked rest])
  next
    case False
    then obtain before found where s: "p \<noteq> []" "split_at_match p rest = Some (before, found)" by auto
    then have f: "rest = before @ found" "map ascii_lower (take (length p) found) = p"
      using split_at_match_Some by blast+
    let ?after = "drop (length p) found" and ?p = "take (length p) found" and ?h = "masked @ before"
    let ?rest = "dropWhile is_secret_token ?after"
    have keep: "P ((?h @ ?p) @ ?after)" using "1.prems" f(1) by simp
    have ne: "?p \<noteq> []" using f(2) s(1) by auto
    have "hd (?p @ takeWhile is_secret_token ?after @ ?rest) \<notin> set REDACTED"
    proof
      assume "hd (?p @ takeWhile is_secret_token ?after @ ?rest) \<in> set REDACTED"
      then have "hd (map ascii_lower ?p) \<in> ascii_lower ` set REDACTED" using ne by (simp add: hd_map)
      with p f(2) show False by simp
    qed
    then have c: "clean_cut ?h (?p @ takeWhile is_secret_token ?after) ?rest"
      using hd_dropWhile [of is_secret_token ?after] by (auto simp: clean_cut_def)
    have red: "P ((?h @ REDACTED) @ ?rest)" using redact [OF _ c] keep by simp
    have sh: "length ?after < length rest" using split_at_match_length [OF s(2,1)] .
    then have "length ?rest < length rest" using length_dropWhile_le le_less_trans by blast
    then show ?thesis
      unfolding mask_prefixed_step [OF s] using "1.IH" sh keep red by presburger
  qed
qed

lemma mask_assignment_keeps: "P (masked @ rest) \<Longrightarrow> P (mask_assignment_from key masked rest)"
proof (induction rest arbitrary: masked rule: length_induct)
  case (1 rest)
  show ?case
  proof (cases "key = [] \<or> split_at_match key rest = None")
    case True
    with "1.prems" show ?thesis by (auto simp: mask_assignment_from.simps [of key masked rest])
  next
    case False
    then obtain before found where s: "key \<noteq> []" "split_at_match key rest = Some (before, found)" by auto
    then have f: "rest = before @ found" using split_at_match_Some by blast
    let ?after = "drop (length key) found" and ?k = "take (length key) found" and ?h = "masked @ before"
    have keep: "P ((?h @ ?k) @ ?after)" using "1.prems" f by simp
    have sh: "length ?after < length rest" using split_at_match_length [OF s(2,1)] .
    show ?thesis
    proof (cases "value_start ?after")
      case None
      then show ?thesis unfolding mask_assignment_step [OF s] using "1.IH" sh keep by simp
    next
      case (Some w)
      then obtain lead q v where w: "value_start ?after = Some (lead, q, v)" by (cases w) auto
      obtain x where x: "v = x @ assignment_end q v" using assignment_end_split by blast
      have "P ((?h @ ?k @ lead) @ x @ assignment_end q v)"
        using keep value_start_Some(1) [OF w] x by simp
      then have red: "P (((?h @ ?k @ lead) @ REDACTED) @ assignment_end q v)"
        using redact [OF _ clean_assignment [OF w x, of "?h @ ?k"]] by simp
      have "length (assignment_end q v) < length rest"
        using assignment_end_le [of q v] value_start_Some(1) [OF w] sh by (metis length_append le_add2 le_less_trans le_trans)
      then show ?thesis unfolding mask_assignment_step [OF s] w using "1.IH" sh keep red by simp
    qed
  qed
qed

lemma mask_assignments_keep: "P t \<Longrightarrow> P (foldl mask_assignment t keys)"
  by (induction keys arbitrary: t) (simp_all add: mask_assignment_def mask_assignment_keeps)

lemma mask_prefixed_keep:
  "P t \<Longrightarrow> \<forall>p \<in> set ps. hd p \<notin> ascii_lower ` set REDACTED \<Longrightarrow> P (foldl mask_prefixed_token t ps)"
  by (induction ps arbitrary: t) (simp_all add: mask_prefixed_token_def mask_prefixed_keeps)

end

section \<open>Occurrences across a replacement\<close>

lemma cut_split:
  assumes e: "a @ REDACTED @ b = u @ Q @ w" and q: "Q \<noteq> []" "91 \<notin> set Q" "93 \<notin> set Q" "\<not> sublist Q REDACTED"
  shows "(\<exists>a2. a = u @ Q @ a2 \<and> w = a2 @ REDACTED @ b) \<or> (\<exists>u2. u = a @ REDACTED @ u2 \<and> b = u2 @ Q @ w)"
proof -
  from e consider us where "a = u @ us" "us @ REDACTED @ b = Q @ w" | us where "u = a @ us" "REDACTED @ b = us @ Q @ w"
    using append_eq_append_conv2 [of a "REDACTED @ b" u "Q @ w"] by blast
  then show ?thesis
  proof cases
    case 1
    from 1(2) consider a2 where "us = Q @ a2" "w = a2 @ REDACTED @ b" | qs where "Q = us @ qs" "REDACTED @ b = qs @ w"
      using append_eq_append_conv2 [of us "REDACTED @ b" Q w] by blast
    then show ?thesis
    proof cases
      case (2 qs)
      show ?thesis
      proof (cases qs)
        case Nil
        with 1 2 show ?thesis by simp
      next
        case (Cons c cs)
        with 2 have "c = 91" by (subst (asm) REDACTED_Cons(1)) simp
        with 2 Cons q(2) show ?thesis by simp
      qed
    qed (use 1 in auto)
  next
    case 2
    from 2(2) consider u2 where "us = REDACTED @ u2" "b = u2 @ Q @ w" | r2 where "REDACTED = us @ r2" "r2 @ b = Q @ w"
      using append_eq_append_conv2 [of REDACTED b us "Q @ w"] by blast
    then show ?thesis
    proof cases
      case (2 r2)
      from 2(2) consider r3 where "r2 = Q @ r3" | q2 where "Q = r2 @ q2" "b = q2 @ w"
        using append_eq_append_conv2 [of r2 b Q w] by blast
      then show ?thesis
      proof cases
        case 1
        with 2 have "sublist Q REDACTED" by (auto simp: sublist_def)
        with q(4) show ?thesis by simp
      next
        case (2 q2)
        show ?thesis
        proof (cases "r2 = []")
          case True
          with \<open>REDACTED = us @ r2\<close> \<open>u = a @ us\<close> 2 show ?thesis by auto
        next
          case False
          with \<open>REDACTED = us @ r2\<close> have "last r2 = 93" using REDACTED_Cons(2) by (metis last_appendR)
          with False 2 q(3) show ?thesis using last_in_set by fastforce
        qed
      qed
    qed (use \<open>u = a @ us\<close> in auto)
  qed
qed

section \<open>Secret tokens\<close>

definition exposed :: "str \<Rightarrow> str \<Rightarrow> bool" where
  "exposed p t \<longleftrightarrow> (\<exists>u Q w. t = u @ Q @ w \<and> map ascii_lower Q = p
     \<and> (u = [] \<or> \<not> is_secret_token (last u)) \<and> w \<noteq> [] \<and> is_secret_token (hd w))"

definition secret_ok :: "str \<Rightarrow> bool" where
  "secret_ok p \<longleftrightarrow> p \<noteq> [] \<and> list_all is_secret_token p \<and> set p \<inter> ascii_lower ` set REDACTED = {}"

lemma secret_prefixes_ok: "p \<in> set SECRET_PREFIXES \<Longrightarrow> secret_ok p"
  unfolding secret_ok_def set_REDACTED
  by (auto simp: SECRET_PREFIXES_def lit_def is_secret_token_def is_ascii_alphanumeric_def is_ascii_lowercase_def
      is_ascii_uppercase_def is_ascii_digit_def ascii_lower_def)

lemma secret_ok_hd: "secret_ok p \<Longrightarrow> hd p \<notin> ascii_lower ` set REDACTED"
  unfolding secret_ok_def by (metis disjoint_iff list.set_sel(1))

lemma secret_match:
  assumes "secret_ok p" and "map ascii_lower Q = p"
  shows "Q \<noteq> []" "91 \<notin> set Q" "93 \<notin> set Q" "\<not> sublist Q REDACTED" "is_secret_token (hd Q)"
    "c \<in> set Q \<Longrightarrow> is_secret_token c"
proof -
  have tok: "is_secret_token c" if "c \<in> set Q" for c
    using that assms by (auto simp: secret_ok_def list_all_iff)
  then show "91 \<notin> set Q" "93 \<notin> set Q" using not_token by auto
  show q: "Q \<noteq> []" using assms by (auto simp: secret_ok_def)
  then show "is_secret_token (hd Q)" using tok by simp
  show "\<not> sublist Q REDACTED"
  proof
    assume "sublist Q REDACTED"
    then have "hd Q \<in> set REDACTED" using q set_mono_sublist by (metis list.set_sel(1) subsetD)
    then have "ascii_lower (hd Q) \<in> set p \<inter> ascii_lower ` set REDACTED" using q assms(2) by auto
    with assms(1) show False by (simp add: secret_ok_def)
  qed
  show "c \<in> set Q \<Longrightarrow> is_secret_token c" by (rule tok)
qed

lemma not_exposed_invariant:
  assumes p: "secret_ok p"
  shows "redaction_invariant (\<lambda>t. \<not> exposed p t)"
proof
  fix a x b
  assume old: "\<not> exposed p (a @ x @ b)" and c: "clean_cut a x b"
  show "\<not> exposed p (a @ REDACTED @ b)"
  proof
    assume "exposed p (a @ REDACTED @ b)"
    then obtain u Q w where e: "a @ REDACTED @ b = u @ Q @ w" and q: "map ascii_lower Q = p"
      and u: "u = [] \<or> \<not> is_secret_token (last u)" and w: "w \<noteq> []" "is_secret_token (hd w)"
      by (auto simp: exposed_def)
    note m = secret_match [OF p q]
    from cut_split [OF e m(1-4)] show False
    proof (elim disjE exE conjE)
      fix a2
      assume a: "a = u @ Q @ a2" and ww: "w = a2 @ REDACTED @ b"
      have "a2 \<noteq> []"
      proof
        assume "a2 = []"
        then have "hd w = 91" using ww by (subst (asm) REDACTED_Cons(1)) simp
        with w(2) not_token show False by simp
      qed
      then have "exposed p (a @ x @ b)"
        unfolding exposed_def using a q u w ww by (intro exI [of _ u] exI [of _ Q] exI [of _ "a2 @ x @ b"]) auto
      with old show False by simp
    next
      fix u2
      assume uu: "u = a @ REDACTED @ u2" and b: "b = u2 @ Q @ w"
      have "u2 \<noteq> []"
      proof
        assume "u2 = []"
        then have "is_secret_token (hd b)" "b \<noteq> []" using b m(1,5) by simp_all
        with c show False by (auto simp: clean_cut_def)
      qed
      then have "exposed p (a @ x @ b)"
        unfolding exposed_def using b q u w uu by (intro exI [of _ "a @ x @ u2"] exI [of _ Q] exI [of _ w]) auto
      with old show False by simp
    qed
  qed
qed

lemma append_eq_split:
  assumes "xs @ ys = us @ vs" and "length xs \<le> length us"
  shows "\<exists>ws. us = xs @ ws \<and> ys = ws @ vs"
proof (intro exI conjI)
  have "take (length xs) us = xs" using arg_cong [OF assms(1), of "take (length xs)"] assms(2) by simp
  then show us: "us = xs @ drop (length xs) us" by (metis append_take_drop_id)
  have "xs @ ys = xs @ drop (length xs) us @ vs" using assms(1) us by (metis append.assoc)
  then show "ys = drop (length xs) us @ vs" by simp
qed

text \<open>The first match is the first one, and nothing inside it starts a word of its own.\<close>

lemma split_at_match_None:
  "split_at_match k t = None \<Longrightarrow> t = u @ Q @ w \<Longrightarrow> map ascii_lower Q \<noteq> k"
proof (induction t arbitrary: u)
  case Nil
  then show ?case by (auto split: if_splits)
next
  case (Cons c t)
  show ?case
  proof (cases u)
    case Nil
    show ?thesis
    proof
      assume k: "map ascii_lower Q = k"
      then have "take (length k) (map ascii_lower (c # t)) = k"
        using Cons.prems(2) Nil by (metis append_Nil append_eq_conv_conj length_map map_append)
      with Cons.prems(1) show False by simp
    qed
  next
    case (Cons d u')
    with Cons.prems Cons.IH [of u'] show ?thesis by (auto split: if_splits)
  qed
qed

lemma split_at_match_first:
  "split_at_match k t = Some (b, f) \<Longrightarrow> t = u @ Q @ w \<Longrightarrow> map ascii_lower Q = k \<Longrightarrow> length b \<le> length u"
proof (induction t arbitrary: u b)
  case Nil
  then show ?case by (auto split: if_splits)
next
  case (Cons c t)
  show ?case
  proof (cases "take (length k) (map ascii_lower (c # t)) = k")
    case True
    with Cons.prems(1) show ?thesis by auto
  next
    case False
    show ?thesis
    proof (cases u)
      case Nil
      then have "take (length k) (map ascii_lower (c # t)) = map ascii_lower Q"
        using Cons.prems(2,3) by (auto simp: take_map)
      with False Cons.prems(3) show ?thesis by simp
    next
      case (Cons d u')
      with False Cons.prems Cons.IH [of _ u'] show ?thesis by auto
    qed
  qed
qed

lemma match_positions:
  assumes s: "split_at_match k rest = Some (before, found)" and e: "masked @ rest = u @ Q @ w"
    and q: "map ascii_lower Q = k" and word: "\<And>c. is_word (ascii_lower c) = is_word c" "list_all is_word k"
    and u: "u = [] \<or> \<not> is_word (last u)"
  shows "length u < length masked \<or> u = masked @ before
    \<or> (\<exists>u3. u = (masked @ before) @ take (length k) found @ u3)"
proof (cases "length u < length masked")
  case False
  have r: "rest = before @ found" and f: "map ascii_lower (take (length k) found) = k"
    using split_at_match_Some [OF s] by blast+
  obtain u' where u': "u = masked @ u'" "rest = u' @ Q @ w"
    using append_eq_split [OF e] False by auto
  have "length before \<le> length u'" using split_at_match_first [OF s u'(2) q] .
  then obtain d where d: "u' = before @ d" "found = d @ Q @ w"
    using append_eq_split [of before found u' "Q @ w"] r u'(2) by auto
  consider "d = []" | "d \<noteq> []" "length d < length k" | "length k \<le> length d" by linarith
  then show ?thesis
  proof cases
    case 2
    then have "set d \<subseteq> set (take (length k) found)" using d(2) by auto
    then have "last d \<in> set (take (length k) found)" using 2(1) last_in_set by blast
    then have "ascii_lower (last d) \<in> set k" by (subst f [symmetric]) simp
    then have "is_word (last d)" using word by (auto simp: list_all_iff)
    with u u'(1) d(1) 2(1) show ?thesis by simp
  next
    case 3
    then have "d = take (length k) found @ drop (length k) d" using d(2) by simp
    with u'(1) d(1) show ?thesis by (metis append.assoc)
  qed (use u' d in simp)
qed simp

lemma mask_prefixed_hides:
  assumes p: "secret_ok p"
  shows "(\<And>u Q w. masked @ rest = u @ Q @ w \<Longrightarrow> map ascii_lower Q = p \<Longrightarrow> u = [] \<or> \<not> is_secret_token (last u)
      \<Longrightarrow> w \<noteq> [] \<Longrightarrow> is_secret_token (hd w) \<Longrightarrow> length masked \<le> length u)
    \<Longrightarrow> \<not> exposed p (mask_prefixed_from p masked rest)"
proof (induction rest arbitrary: masked rule: length_induct)
  case (1 rest)
  have pne: "p \<noteq> []" and ptok: "list_all is_secret_token p" using p by (simp_all add: secret_ok_def)
  show ?case
  proof (cases "split_at_match p rest")
    case None
    have "\<not> exposed p (masked @ rest)"
    proof
      assume "exposed p (masked @ rest)"
      then obtain u Q w where x: "masked @ rest = u @ Q @ w" "map ascii_lower Q = p"
          "u = [] \<or> \<not> is_secret_token (last u)" "w \<noteq> []" "is_secret_token (hd w)"
        by (auto simp: exposed_def)
      from "1.prems" [OF x] obtain u' where "rest = u' @ Q @ w"
        using append_eq_split [OF x(1)] by blast
      with split_at_match_None [OF None] x(2) show False by blast
    qed
    with None pne show ?thesis by (simp add: mask_prefixed_from.simps [of p masked rest])
  next
    case (Some y)
    then obtain before found where s: "split_at_match p rest = Some (before, found)" by (cases y) auto
    have r: "rest = before @ found" and f: "map ascii_lower (take (length p) found) = p"
      using split_at_match_Some [OF s] by blast+
    let ?after = "drop (length p) found" and ?p = "take (length p) found" and ?h = "masked @ before"
    let ?rest = "dropWhile is_secret_token ?after" and ?tok = "takeWhile is_secret_token ?after"
    have sh: "length ?after < length rest" using split_at_match_length [OF s pne] .
    then have sh': "length ?rest < length rest" using length_dropWhile_le le_less_trans by blast
    note pos = match_positions [OF s, where is_word = is_secret_token, OF _ _ secret_lower ptok]
    have whole: "masked @ rest = (?h @ ?p) @ ?after" using r by simp
    show ?thesis
    proof (cases "?h \<noteq> [] \<and> is_secret_token (last ?h) \<or> ?tok = []")
      case True
      have "\<not> exposed p (mask_prefixed_from p (?h @ ?p) ?after)"
      proof (rule "1.IH" [rule_format, OF sh])
        fix u Q w
        assume x: "(?h @ ?p) @ ?after = u @ Q @ w" "map ascii_lower Q = p"
          "u = [] \<or> \<not> is_secret_token (last u)" "w \<noteq> []" "is_secret_token (hd w)"
        have x1: "masked @ rest = u @ Q @ w" using x(1) whole by simp
        from pos [OF x1 x(2,3)] show "length (?h @ ?p) \<le> length u"
        proof (elim disjE exE)
          assume "length u < length masked"
          with "1.prems" [OF x1 x(2-)] show ?thesis by simp
        next
          assume u: "u = ?h"
          then have "found = Q @ w" using x1 r by simp
          moreover have "length Q = length p" using x(2) by auto
          ultimately have "Q = ?p" "w = ?after" by simp_all
          with True u x(3,4,5) show ?thesis by (cases ?after) auto
        qed simp
      qed
      then show ?thesis unfolding mask_prefixed_step [OF pne s] using True by simp
    next
      case False
      have "\<not> exposed p (mask_prefixed_from p (?h @ REDACTED) ?rest)"
      proof (rule "1.IH" [rule_format, OF sh'])
        fix u Q w
        assume x: "(?h @ REDACTED) @ ?rest = u @ Q @ w" "map ascii_lower Q = p"
          "u = [] \<or> \<not> is_secret_token (last u)" "w \<noteq> []" "is_secret_token (hd w)"
        note m = secret_match [OF p x(2)]
        have x1: "?h @ REDACTED @ ?rest = u @ Q @ w" using x(1) by simp
        from cut_split [OF x1 m(1-4)] show "length (?h @ REDACTED) \<le> length u"
        proof (elim disjE exE conjE)
          fix a2
          assume a: "?h = u @ Q @ a2" and w: "w = a2 @ REDACTED @ ?rest"
          have "a2 \<noteq> []"
          proof
            assume "a2 = []"
            then have "hd w = 91" using w by (subst (asm) REDACTED_Cons(1)) simp
            with x(5) not_token show False by simp
          qed
          then have old: "masked @ rest = u @ Q @ (a2 @ ?p @ ?after)" "is_secret_token (hd (a2 @ ?p @ ?after))"
            using whole a w x(5) by simp_all
          have "length masked \<le> length u" using "1.prems" [OF old(1) x(2,3) _ old(2)] \<open>a2 \<noteq> []\<close> by simp
          moreover have "length u < length ?h" using a m(1) by simp
          ultimately show ?thesis using pos [OF old(1) x(2,3)] by auto
        qed simp
      qed
      then show ?thesis unfolding mask_prefixed_step [OF pne s] if_not_P [OF False] .
    qed
  qed
qed

lemma mask_prefixed_token_hides: "secret_ok p \<Longrightarrow> \<not> exposed p (mask_prefixed_token t p)"
  unfolding mask_prefixed_token_def by (rule mask_prefixed_hides) simp_all

section \<open>Sensitive assignments\<close>

text \<open>A key that stands alone in the text and is assigned to, at position \<open>u\<close>, with the text from its value on.\<close>

definition live_at :: "str \<Rightarrow> str \<Rightarrow> str \<Rightarrow> str \<Rightarrow> bool" where
  "live_at k t u v \<longleftrightarrow> (\<exists>K r lead q. t = u @ K @ r \<and> map ascii_lower K = k
     \<and> (u = [] \<or> \<not> is_identifier (last u)) \<and> value_start r = Some (lead, q, v))"

definition all_redacted :: "str \<Rightarrow> str \<Rightarrow> bool" where
  "all_redacted k t \<longleftrightarrow> (\<forall>u v. live_at k t u v \<longrightarrow> prefix REDACTED v)"

definition key_ok :: "str \<Rightarrow> bool" where
  "key_ok k \<longleftrightarrow> k \<noteq> [] \<and> list_all is_identifier k \<and> \<not> sublist k (map ascii_lower REDACTED)"

lemma key_match:
  assumes "key_ok k" and "map ascii_lower K = k"
  shows "K \<noteq> []" "91 \<notin> set K" "93 \<notin> set K" "\<not> sublist K REDACTED" "is_identifier (hd K)"
proof -
  have idf: "is_identifier c" if "c \<in> set K" for c
    using that assms by (auto simp: key_ok_def list_all_iff)
  then show "91 \<notin> set K" "93 \<notin> set K" using not_token identifier_secret by auto
  show k: "K \<noteq> []" using assms by (auto simp: key_ok_def)
  then show "is_identifier (hd K)" using idf by simp
  show "\<not> sublist K REDACTED"
  proof
    assume "sublist K REDACTED"
    then obtain ps ss where "REDACTED = ps @ K @ ss" by (auto simp: sublist_def)
    then have "map ascii_lower REDACTED = map ascii_lower ps @ map ascii_lower K @ map ascii_lower ss" by (metis map_append)
    then have "sublist (map ascii_lower K) (map ascii_lower REDACTED)" unfolding sublist_def by blast
    with assms show False by (simp add: key_ok_def)
  qed
qed

lemma sensitive_keys_ok: "k \<in> set SENSITIVE_KEYS \<Longrightarrow> key_ok k"
  unfolding key_ok_def
  by (auto simp: SENSITIVE_KEYS_def REDACTED_def lit_def is_identifier_def is_ascii_alphanumeric_def
      is_ascii_lowercase_def is_ascii_uppercase_def is_ascii_digit_def ascii_lower_def sublist_Cons_right)

lemma redacted_stays:
  assumes "prefix REDACTED (a' @ x @ b)" and "clean_cut a x b" and "a' \<noteq> []" and "last a' = last a" "a \<noteq> []"
  shows "prefix REDACTED (a' @ REDACTED @ b)"
proof (cases "prefix REDACTED a'")
  case False
  then obtain us where us: "REDACTED = a' @ us" "prefix us (x @ b)"
    using assms(1) prefix_append [of REDACTED a' "x @ b"] by blast
  moreover from us False have "us \<noteq> []" by auto
  ultimately have us: "REDACTED = a' @ us" "prefix us (x @ b)" "us \<noteq> []" by blast+
  then have "hd us = hd (x @ b)" "x @ b \<noteq> []" by (auto simp: prefix_def)
  moreover have "set REDACTED = set a' \<union> set us" by (metis us(1) set_append)
  then have "hd us \<in> set REDACTED" "last a' \<in> set REDACTED" using us(3) assms(3) by simp_all
  ultimately show ?thesis using assms(2,4,5) unfolding clean_cut_def by metis
qed (simp add: prefix_append)

lemma live_cut:
  assumes l: "live_at k (a @ REDACTED @ b) u v" and c: "clean_cut a x b" and k: "key_ok k"
  shows "prefix REDACTED v
    \<or> (\<exists>K a2 v'. a = u @ K @ a2 \<and> map ascii_lower K = k \<and> live_at k (a @ x @ b) u v'
        \<and> length (x @ b) < length v' \<and> (prefix REDACTED v' \<longrightarrow> prefix REDACTED v))
    \<or> (length (a @ REDACTED) \<le> length u \<and> (\<exists>u'. live_at k (a @ x @ b) u' v))"
proof -
  from l obtain K r lead q where e: "a @ REDACTED @ b = u @ K @ r" and kk: "map ascii_lower K = k"
    and u: "u = [] \<or> \<not> is_identifier (last u)" and r: "value_start r = Some (lead, q, v)"
    by (auto simp: live_at_def)
  note m = key_match [OF k kk]
  from cut_split [OF e m(1-4)] show ?thesis
  proof (elim disjE exE conjE)
    fix a2
    assume a: "a = u @ K @ a2" and rr: "r = a2 @ REDACTED @ b"
    have "value_start (a2 @ 91 # (tl REDACTED @ b)) = Some (lead, q, v)"
      using r unfolding rr by (subst (asm) REDACTED_Cons(1)) simp
    from value_start_cut [OF this] obtain a' where a': "a2 = lead @ a'" "v = a' @ 91 # (tl REDACTED @ b)"
        "a' \<noteq> [] \<longrightarrow> (\<forall>z. value_start (a2 @ z) = Some (lead, q, a' @ z))" by blast
    have v: "v = a' @ REDACTED @ b" using a'(2) by (subst REDACTED_Cons(1)) simp
    show ?thesis
    proof (cases "a' = []")
      case True
      then show ?thesis by (simp add: v prefix_append)
    next
      case False
      have "live_at k (a @ x @ b) u (a' @ x @ b)"
        unfolding live_at_def using a kk u a'(3) False
        by (intro exI [of _ K] exI [of _ "a2 @ x @ b"] exI [of _ lead] exI [of _ q]) auto
      moreover have "last a' = last a" "a \<noteq> []" using a a'(1) False by simp_all
      then have "prefix REDACTED (a' @ x @ b) \<longrightarrow> prefix REDACTED v"
        using redacted_stays [OF _ c False] by (simp add: v)
      moreover have "length (x @ b) < length (a' @ x @ b)" using False by simp
      ultimately show ?thesis using a kk by blast
    qed
  next
    fix u2
    assume uu: "u = a @ REDACTED @ u2" and b: "b = u2 @ K @ r"
    have "u2 \<noteq> []"
    proof
      assume "u2 = []"
      then have "is_identifier (hd b)" "b \<noteq> []" using b m(1,5) by simp_all
      with c identifier_secret show False by (auto simp: clean_cut_def)
    qed
    then have "live_at k (a @ x @ b) (a @ x @ u2) v"
      unfolding live_at_def using b kk u r uu
      by (intro exI [of _ K] exI [of _ r] exI [of _ lead] exI [of _ q]) auto
    then show ?thesis using uu by auto
  qed
qed

lemma all_redacted_invariant:
  assumes k: "key_ok k"
  shows "redaction_invariant (all_redacted k)"
proof
  fix a x b
  assume "all_redacted k (a @ x @ b)" and "clean_cut a x b"
  then show "all_redacted k (a @ REDACTED @ b)"
    unfolding all_redacted_def using live_cut [OF _ _ k] by blast
qed

lemma live_at_match: "live_at k t u v \<Longrightarrow> \<exists>K r. t = u @ K @ r \<and> map ascii_lower K = k
    \<and> (u = [] \<or> \<not> is_identifier (last u))"
  by (auto simp: live_at_def)

lemma mask_assignment_hides:
  assumes k: "key_ok k"
  shows "(\<And>u v. live_at k (masked @ rest) u v \<Longrightarrow> length u < length masked \<Longrightarrow> prefix REDACTED v)
    \<Longrightarrow> all_redacted k (mask_assignment_from k masked rest)"
proof (induction rest arbitrary: masked rule: length_induct)
  case (1 rest)
  have kne: "k \<noteq> []" and kid: "list_all is_identifier k" using k by (simp_all add: key_ok_def)
  show ?case
  proof (cases "split_at_match k rest")
    case None
    have "length u < length masked" if l: "live_at k (masked @ rest) u v" for u v
    proof (rule ccontr)
      assume n: "\<not> length u < length masked"
      from live_at_match [OF l] obtain K r where x: "masked @ rest = u @ K @ r" "map ascii_lower K = k" by blast
      with n obtain u' where "rest = u' @ K @ r" using append_eq_split [OF x(1)] by auto
      with split_at_match_None [OF None] x(2) show False by blast
    qed
    then have "all_redacted k (masked @ rest)" unfolding all_redacted_def using "1.prems" by blast
    with None kne show ?thesis by (simp add: mask_assignment_from.simps [of k masked rest])
  next
    case (Some y)
    then obtain before found where s: "split_at_match k rest = Some (before, found)" by (cases y) auto
    have r: "rest = before @ found" and f: "map ascii_lower (take (length k) found) = k"
      using split_at_match_Some [OF s] by blast+
    let ?after = "drop (length k) found" and ?k = "take (length k) found" and ?h = "masked @ before"
    have sh: "length ?after < length rest" using split_at_match_length [OF s kne] .
    note pos = match_positions [OF s, where is_word = is_identifier, OF _ _ identifier_lower kid]
    have whole: "masked @ rest = (?h @ ?k) @ ?after" using r by simp
    have here: "(?h = [] \<or> \<not> is_identifier (last ?h)) \<and> (\<exists>lead q. value_start ?after = Some (lead, q, v))"
      if "live_at k (masked @ rest) ?h v" for v
    proof -
      from that obtain K r' lead q where x: "masked @ rest = ?h @ K @ r'" "map ascii_lower K = k"
          "?h = [] \<or> \<not> is_identifier (last ?h)" "value_start r' = Some (lead, q, v)"
        unfolding live_at_def by blast
      have "found = K @ r'" using x(1) r by simp
      moreover have "length K = length k" using x(2) by auto
      ultimately have "?after = r'" by simp
      with x show ?thesis by blast
    qed
    show ?thesis
    proof (cases "?h \<noteq> [] \<and> is_identifier (last ?h) \<or> value_start ?after = None")
      case True
      have "all_redacted k (mask_assignment_from k (?h @ ?k) ?after)"
      proof (rule "1.IH" [rule_format, OF sh])
        fix u v
        assume "live_at k ((?h @ ?k) @ ?after) u v" and u: "length u < length (?h @ ?k)"
        then have l: "live_at k (masked @ rest) u v" by (simp only: whole)
        from live_at_match [OF l] obtain K r' where x: "masked @ rest = u @ K @ r'" "map ascii_lower K = k"
            "u = [] \<or> \<not> is_identifier (last u)" by blast
        from pos [OF x] show "prefix REDACTED v"
        proof (elim disjE exE)
          assume "length u < length masked"
          with "1.prems" [OF l] show ?thesis by blast
        next
          assume "u = ?h"
          with l have "live_at k (masked @ rest) ?h v" by simp
          from here [OF this] True show ?thesis by force
        qed (use u in \<open>auto simp: min_def split: if_splits\<close>)
      qed
      then show ?thesis unfolding mask_assignment_step [OF kne s] if_P [OF True] .
    next
      case False
      then obtain lead q v0 where w: "value_start ?after = Some (lead, q, v0)"
        by (cases "value_start ?after") auto
      let ?A = "?h @ ?k @ lead" and ?B = "assignment_end q v0"
      obtain x where xv: "v0 = x @ ?B" using assignment_end_split by blast
      have both: "masked @ rest = ?A @ x @ ?B"
        unfolding whole using value_start_Some(1) [OF w] xv by (metis append.assoc)
      have "length ?B < length rest"
        using assignment_end_le [of q v0] value_start_Some(1) [OF w] sh
        by (metis length_append le_add2 le_less_trans le_trans)
      have "all_redacted k (mask_assignment_from k (?A @ REDACTED) ?B)"
      proof (rule "1.IH" [rule_format, OF \<open>length ?B < length rest\<close>])
        fix u v
        assume "live_at k ((?A @ REDACTED) @ ?B) u v" and u: "length u < length (?A @ REDACTED)"
        then have l: "live_at k (?A @ REDACTED @ ?B) u v" by simp
        have c: "clean_cut ?A x ?B" using clean_assignment [OF w xv, of "?h @ ?k"] by simp
        from live_cut [OF l c k] show "prefix REDACTED v"
        proof (elim disjE exE conjE)
          fix K a2 v'
          assume a: "?A = u @ K @ a2" and kk: "map ascii_lower K = k" and l': "live_at k (?A @ x @ ?B) u v'"
            and len: "length (x @ ?B) < length v'" and imp: "prefix REDACTED v' \<longrightarrow> prefix REDACTED v"
          have l'': "live_at k (masked @ rest) u v'" using l' by (simp only: both)
          have u': "u = [] \<or> \<not> is_identifier (last u)" using live_at_match [OF l''] by blast
          have e: "masked @ rest = u @ K @ (a2 @ x @ ?B)" unfolding both a by simp
          from pos [OF e kk u'] show ?thesis
          proof (elim disjE exE)
            assume "length u < length masked"
            with "1.prems" [OF l''] imp show ?thesis by blast
          next
            assume "u = ?h"
            with here l'' w have "v' = v0" by auto
            with len xv show ?thesis by (metis less_irrefl)
          next
            fix u3
            assume "u = ?h @ ?k @ u3"
            then have "lead = u3 @ K @ a2" using a by simp
            then have "hd K \<in> set lead" using key_match(1) [OF k kk] by simp
            then show ?thesis
              using value_start_Some(2) [OF w] key_match(5) [OF k kk] identifier_secret by blast
          qed
        qed (use u in auto)
      qed
      then show ?thesis
        by (subst mask_assignment_step [OF kne s], subst if_not_P [OF False]) (simp add: w)
    qed
  qed
qed

lemma mask_assignment_redacts: "key_ok k \<Longrightarrow> all_redacted k (mask_assignment t k)"
  unfolding mask_assignment_def by (rule mask_assignment_hides) simp_all

section \<open>The masker\<close>

lemma redaction_invariant_all:
  "(\<And>k. k \<in> S \<Longrightarrow> redaction_invariant (P k)) \<Longrightarrow> redaction_invariant (\<lambda>t. \<forall>k \<in> S. P k t)"
  unfolding redaction_invariant_def by blast

interpretation secrets: redaction_invariant "\<lambda>t. \<forall>p \<in> set SECRET_PREFIXES. \<not> exposed p t"
  by (rule redaction_invariant_all) (rule not_exposed_invariant [OF secret_prefixes_ok])

interpretation keys: redaction_invariant "\<lambda>t. \<forall>k \<in> set SENSITIVE_KEYS. all_redacted k t"
  by (rule redaction_invariant_all) (rule all_redacted_invariant [OF sensitive_keys_ok])

lemma fold_prefixed_hides:
  "p \<in> set ps \<Longrightarrow> \<forall>p \<in> set ps. secret_ok p \<Longrightarrow> \<not> exposed p (foldl mask_prefixed_token t ps)"
proof (induction ps arbitrary: t)
  case (Cons a ps)
  show ?case
  proof (cases "p = a")
    case True
    have "\<forall>p \<in> set ps. hd p \<notin> ascii_lower ` set REDACTED"
      using Cons.prems(2) secret_ok_hd by simp
    then show ?thesis
      using True Cons.prems redaction_invariant.mask_prefixed_keep [OF not_exposed_invariant [of a]]
        mask_prefixed_token_hides [of a t] by simp
  next
    case False
    with Cons show ?thesis by simp
  qed
qed simp

lemma fold_assignment_redacts:
  "k \<in> set ks \<Longrightarrow> \<forall>k \<in> set ks. key_ok k \<Longrightarrow> all_redacted k (foldl mask_assignment t ks)"
proof (induction ks arbitrary: t)
  case (Cons a ks)
  show ?case
  proof (cases "k = a")
    case True
    then show ?thesis
      using Cons.prems redaction_invariant.mask_assignments_keep [OF all_redacted_invariant [of a]]
        mask_assignment_redacts [of a t] by simp
  next
    case False
    with Cons show ?thesis by simp
  qed
qed simp

lemma exposed_prefix: "exposed p s \<Longrightarrow> prefix s t \<Longrightarrow> exposed p t"
proof -
  assume "exposed p s" "prefix s t"
  then obtain u Q w z where "s = u @ Q @ w" "map ascii_lower Q = p" "u = [] \<or> \<not> is_secret_token (last u)"
      "w \<noteq> []" "is_secret_token (hd w)" "t = s @ z"
    unfolding exposed_def prefix_def by blast
  then show ?thesis unfolding exposed_def by (intro exI [of _ u] exI [of _ Q] exI [of _ "w @ z"]) auto
qed

lemma value_start_append:
  assumes "value_start r = Some (lead, q, v)" and "v \<noteq> []"
  shows "value_start (r @ z) = Some (lead, q, v @ z)"
proof -
  from assms obtain e s where d: "dropWhile is_gap r = e # s" and e: "is_separator e"
    by (auto simp: value_start_def split: list.splits if_splits)
  have "\<exists>c \<in> set r. \<not> is_gap c" using d by (metis dropWhile_eq_Nil_conv list.distinct(1))
  then have g: "dropWhile is_gap (r @ z) = e # s @ z" "takeWhile is_gap (r @ z) = takeWhile is_gap r"
    using d by (auto simp: dropWhile_append1 takeWhile_append1)
  have "dropWhile is_blank s \<noteq> []"
  proof
    assume n: "dropWhile is_blank s = []"
    have "value_start r = Some (takeWhile is_gap r @ [e] @ takeWhile is_blank s, None, [])"
      unfolding value_start_def d list.case Let_def n opening_quote_def using e by simp
    with assms show False by simp
  qed
  then obtain c w where c: "dropWhile is_blank s = c # w" by (cases "dropWhile is_blank s") auto
  then have "\<exists>c \<in> set s. \<not> is_blank c" by (metis dropWhile_eq_Nil_conv list.distinct(1))
  then have b: "dropWhile is_blank (s @ z) = c # w @ z" "takeWhile is_blank (s @ z) = takeWhile is_blank s"
    using c by (auto simp: dropWhile_append1 takeWhile_append1)
  show ?thesis
    using assms(1) e unfolding value_start_def d g by (auto simp: b c Let_def opening_quote_def)
qed

text \<open>The part of a masked text within the output limit still shows nothing but the redaction.\<close>

lemma live_at_prefix:
  assumes "all_redacted k t" and "prefix s t" and l: "live_at k s u v"
  shows "prefix v REDACTED \<or> prefix REDACTED v"
proof (cases "v = []")
  case False
  from l assms(2) obtain K r lead q z where "s = u @ K @ r" "map ascii_lower K = k" "t = s @ z"
      "u = [] \<or> \<not> is_identifier (last u)" "value_start r = Some (lead, q, v)"
    unfolding live_at_def prefix_def by blast
  then have "live_at k t u (v @ z)"
    unfolding live_at_def using value_start_append [OF _ False]
    by (intro exI [of _ K] exI [of _ "r @ z"] exI [of _ lead] exI [of _ q]) auto
  then have "prefix REDACTED (v @ z)" using assms(1) by (simp add: all_redacted_def)
  then show ?thesis using prefix_same_cases [of REDACTED "v @ z" v] by auto
qed simp

text \<open>What \<open>mask\<close> returns, before the last cut.\<close>

definition masked_text :: "StreamingMasker \<Rightarrow> str \<Rightarrow> str" where
  "masked_text m t =
     (let s = foldl mask_prefixed_token
                (foldl mask_assignment
                   (utf8_prefix t (usize_saturating_add (sm_max_output_bytes m) DETECTOR_OVERLAP_BYTES)) SENSITIVE_KEYS)
                SECRET_PREFIXES
      in if sm_redact_pii m then mask_pii s else s)"

lemma mask_masked_text: "mask m t = utf8_prefix (masked_text m t) (sm_max_output_bytes m)"
  by (simp add: mask_def masked_text_def Let_def)

lemma masked_text_secrets: "\<forall>p \<in> set SECRET_PREFIXES. \<not> exposed p (masked_text m t)"
proof -
  have "\<forall>p \<in> set SECRET_PREFIXES. \<not> exposed p (foldl mask_prefixed_token s SECRET_PREFIXES)" for s
    using fold_prefixed_hides secret_prefixes_ok by blast
  then show ?thesis
    using secrets.mask_pii_keeps [of "[]" "[]"] by (simp add: masked_text_def Let_def mask_pii_def)
qed

lemma masked_text_keys: "\<forall>k \<in> set SENSITIVE_KEYS. all_redacted k (masked_text m t)"
proof -
  have a: "\<forall>k \<in> set SENSITIVE_KEYS. all_redacted k (foldl mask_assignment s SENSITIVE_KEYS)" for s
    using fold_assignment_redacts sensitive_keys_ok by blast
  have "\<forall>p \<in> set SECRET_PREFIXES. hd p \<notin> ascii_lower ` set REDACTED"
    using secret_prefixes_ok secret_ok_hd by simp
  then have "\<forall>k \<in> set SENSITIVE_KEYS.
      all_redacted k (foldl mask_prefixed_token (foldl mask_assignment s SENSITIVE_KEYS) SECRET_PREFIXES)" for s
    using keys.mask_prefixed_keep [OF a] by blast
  then show ?thesis
    using keys.mask_pii_keeps [of "[]" "[]"] by (simp add: masked_text_def Let_def mask_pii_def)
qed

definition no_leak :: "StreamingMasker \<Rightarrow> str \<Rightarrow> bool" where
  "no_leak m s \<longleftrightarrow> str_len s \<le> sm_max_output_bytes m
     \<and> (\<forall>p \<in> set SECRET_PREFIXES. \<not> exposed p s)
     \<and> (\<forall>k \<in> set SENSITIVE_KEYS. \<forall>u v. live_at k s u v \<longrightarrow> prefix v REDACTED \<or> prefix REDACTED v)"

lemma mask_no_leak: "no_leak m (mask m t)"
  unfolding no_leak_def
proof (intro conjI ballI allI impI)
  show "str_len (mask m t) \<le> sm_max_output_bytes m" by (simp add: mask_masked_text utf8_prefix_le)
  have pre: "prefix (mask m t) (masked_text m t)" by (simp add: mask_masked_text utf8_prefix_prefix)
  show "\<not> exposed p (mask m t)" if "p \<in> set SECRET_PREFIXES" for p
    using masked_text_secrets that exposed_prefix [OF _ pre] by blast
  show "prefix v REDACTED \<or> prefix REDACTED v" if "k \<in> set SENSITIVE_KEYS" "live_at k (mask m t) u v" for k u v
    using masked_text_keys that live_at_prefix [OF _ pre] by blast
qed


end
