(* ===== verification/Observability.thy ===== *)
theory Observability
  imports Tracing Masking_Safety
begin

text \<open>
  \<open>aise-service/src/observability\<close>: the configuration of tracing, the adapter that maps and masks every
  span before it leaves the process, the processor that copies allowed baggage, the decision to
  enable tracing, and the rate limit of telemetry warnings.

  Parameters: the environment (\<open>get\<close>), the parsers of \<open>f64\<close> and of URLs, the construction of the
  exporter and the provider of \<open>opentelemetry\<close>, and Base64. Attribute keys are ASCII strings, as
  \<open>string\<close>; a rate limit entry is a key and the instant, in milliseconds, of its last emission.
\<close>

section \<open>Configuration (\<open>config.rs\<close>)\<close>

record ObservabilityConfig =
  oc_enabled :: bool
  oc_base_url :: str
  oc_public_key :: "str option"
  oc_secret_key :: "str option"
  oc_environment :: str
  oc_release :: str
  oc_sample_rate :: f64
  oc_content_policy :: ContentCapturePolicy
  oc_full_content_allowed :: bool
  oc_max_field_bytes :: nat
  oc_max_observation_bytes :: nat
  oc_max_queue_size :: nat
  oc_max_export_batch_size :: nat
  oc_schedule_delay_ms :: nat
  oc_http_timeout_ms :: nat
  oc_shutdown_timeout_ms :: nat

record ObservabilityConfigIssue =
  ci_field :: string
  ci_error_kind :: string

record ObservabilityConfigLoad =
  cl_config :: ObservabilityConfig
  cl_issues :: "ObservabilityConfigIssue list"

text \<open>The parts of a parsed URL the code looks at.\<close>

record url =
  url_scheme :: string
  url_host_str :: "str option"
  url_username :: str
  url_password :: "str option"
  url_query :: "str option"
  url_fragment :: "str option"

record config_env =
  ce_get :: "string \<Rightarrow> str option"
  ce_parse_f64 :: "str \<Rightarrow> f64 option"
  ce_url_parse :: "str \<Rightarrow> url option"
  ce_version :: str

definition issue :: "string \<Rightarrow> string \<Rightarrow> ObservabilityConfigIssue" where
  "issue field error_kind = \<lparr>ci_field = field, ci_error_kind = error_kind\<rparr>"

definition ObservabilityConfig_default :: "str \<Rightarrow> ObservabilityConfig" where
  "ObservabilityConfig_default version =
     \<lparr>oc_enabled = False, oc_base_url = lit ''https://cloud.langfuse.com'', oc_public_key = None, oc_secret_key = None,
      oc_environment = lit ''development'', oc_release = version, oc_sample_rate = Fin 1,
      oc_content_policy = MetadataOnly, oc_full_content_allowed = False, oc_max_field_bytes = 16384,
      oc_max_observation_bytes = 32768, oc_max_queue_size = 2048, oc_max_export_batch_size = 256,
      oc_schedule_delay_ms = 1000, oc_http_timeout_ms = 3000, oc_shutdown_timeout_ms = 5000\<rparr>"

definition non_empty :: "str option \<Rightarrow> str option" where
  "non_empty v = (case v of Some t \<Rightarrow> if trim t = [] then None else Some t | None \<Rightarrow> None)"

definition assign_string :: "(string \<Rightarrow> str option) \<Rightarrow> string \<Rightarrow> str \<Rightarrow> str" where
  "assign_string get name target = (case non_empty (get name) of Some v \<Rightarrow> v | None \<Rightarrow> target)"

text \<open>\<open>bool::from_str\<close> and \<open>usize::from_str\<close> (a \<open>u64\<close> has the same width).\<close>

definition parse_bool_str :: "str \<Rightarrow> bool option" where
  "parse_bool_str t = (if t = lit ''true'' then Some True else if t = lit ''false'' then Some False else None)"

definition parse_usize_str :: "str \<Rightarrow> nat option" where
  "parse_usize_str t =
     (let digits = (case t of c # r \<Rightarrow> if c = 43 then r else t | [] \<Rightarrow> [])
      in if digits \<noteq> [] \<and> list_all is_ascii_digit digits \<and> read_nat digits \<le> usize_max
         then Some (read_nat digits) else None)"

text \<open>A parsed setting: the new value and the issue it raised.\<close>

definition parse_setting ::
  "string \<Rightarrow> (string \<Rightarrow> str option) \<Rightarrow> (str \<Rightarrow> 'a option) \<Rightarrow> string \<Rightarrow> 'a \<Rightarrow> 'a \<times> ObservabilityConfigIssue list" where
  "parse_setting error_kind get parse name target =
     (case get name of
        None \<Rightarrow> (target, [])
      | Some v \<Rightarrow> (case parse v of Some x \<Rightarrow> (x, []) | None \<Rightarrow> (target, [issue name error_kind])))"

definition parse_bool :: "(string \<Rightarrow> str option) \<Rightarrow> string \<Rightarrow> bool \<Rightarrow> bool \<times> ObservabilityConfigIssue list" where
  "parse_bool get name target = parse_setting ''invalid_boolean'' get parse_bool_str name target"

definition parse_number ::
  "(string \<Rightarrow> str option) \<Rightarrow> (str \<Rightarrow> 'a option) \<Rightarrow> string \<Rightarrow> 'a \<Rightarrow> 'a \<times> ObservabilityConfigIssue list" where
  "parse_number get parse name target = parse_setting ''invalid_number'' get parse name target"

definition parse_content_policy ::
  "(string \<Rightarrow> str option) \<Rightarrow> ContentCapturePolicy \<Rightarrow> ContentCapturePolicy \<times> ObservabilityConfigIssue list" where
  "parse_content_policy get target =
     parse_setting ''invalid_content_policy'' get
       (\<lambda>v. if v = lit ''metadata_only'' then Some MetadataOnly
            else if v = lit ''redacted_content'' then Some RedactedContent
            else if v = lit ''full_content'' then Some FullContent
            else None)
       ''AISE_TRACE_CONTENT_POLICY'' target"

definition issue_if :: "bool \<Rightarrow> string \<Rightarrow> string \<Rightarrow> ObservabilityConfigIssue list" where
  "issue_if b field error_kind = (if b then [issue field error_kind] else [])"

definition url_ok :: "url option \<Rightarrow> bool" where
  "url_ok u \<longleftrightarrow> (case u of
     Some url \<Rightarrow> url_scheme url \<in> {''http'', ''https''} \<and> url_host_str url \<noteq> None \<and> url_username url = []
       \<and> url_password url = None \<and> url_query url = None \<and> url_fragment url = None
   | None \<Rightarrow> False)"

definition is_environment_char :: "uchar \<Rightarrow> bool" where
  "is_environment_char c \<longleftrightarrow> is_ascii_alphanumeric c \<or> c = 46 \<or> c = 95 \<or> c = 45"

definition full_content_denied :: "ObservabilityConfig \<Rightarrow> bool" where
  "full_content_denied c \<longleftrightarrow> oc_content_policy c = FullContent
     \<and> (oc_environment c \<noteq> lit ''development'' \<or> \<not> oc_full_content_allowed c)"

definition validate_issues :: "config_env \<Rightarrow> ObservabilityConfig \<Rightarrow> ObservabilityConfigIssue list" where
  "validate_issues env c =
     issue_if (\<not> (f_le (Fin 0) (oc_sample_rate c) \<and> f_le (oc_sample_rate c) (Fin 1)) \<or> \<not> is_finite (oc_sample_rate c))
       ''LANGFUSE_SAMPLE_RATE'' ''out_of_range''
     @ issue_if (oc_max_field_bytes c = 0) ''AISE_TRACE_MAX_FIELD_BYTES'' ''must_be_positive''
     @ issue_if (oc_max_observation_bytes c = 0) ''AISE_TRACE_MAX_OBSERVATION_BYTES'' ''must_be_positive''
     @ issue_if (oc_max_queue_size c = 0) ''OTEL_BSP_MAX_QUEUE_SIZE'' ''must_be_positive''
     @ issue_if (oc_max_export_batch_size c = 0 \<or> oc_max_export_batch_size c > oc_max_queue_size c)
         ''OTEL_BSP_MAX_EXPORT_BATCH_SIZE'' ''out_of_range''
     @ issue_if (oc_schedule_delay_ms c = 0) ''OTEL_BSP_SCHEDULE_DELAY'' ''must_be_positive''
     @ issue_if (oc_http_timeout_ms c = 0) ''AISE_TRACE_HTTP_TIMEOUT_MS'' ''must_be_positive''
     @ issue_if (oc_shutdown_timeout_ms c = 0 \<or> oc_http_timeout_ms c \<ge> oc_shutdown_timeout_ms c)
         ''AISE_TRACE_SHUTDOWN_TIMEOUT_MS'' ''insufficient_shutdown_budget''
     @ issue_if (trim (oc_environment c) = [] \<or> \<not> list_all is_environment_char (oc_environment c))
         ''LANGFUSE_TRACING_ENVIRONMENT'' ''invalid_environment''
     @ issue_if (trim (oc_release c) = []) ''LANGFUSE_RELEASE'' ''empty_release''
     @ issue_if (full_content_denied c) ''AISE_TRACE_CONTENT_POLICY'' ''full_content_not_allowed''
     @ (if oc_enabled c
        then issue_if (oc_public_key c = None) ''LANGFUSE_PUBLIC_KEY'' ''missing_credential''
             @ issue_if (oc_secret_key c = None) ''LANGFUSE_SECRET_KEY'' ''missing_credential''
             @ issue_if (\<not> url_ok (ce_url_parse env (trim (oc_base_url c)))) ''LANGFUSE_BASE_URL'' ''invalid_url''
        else [])"

definition validate ::
  "config_env \<Rightarrow> ObservabilityConfig \<Rightarrow> ObservabilityConfigIssue list \<Rightarrow> ObservabilityConfigLoad" where
  "validate env c issues =
     (let issues = issues @ validate_issues env c;
          c = (if full_content_denied c then c\<lparr>oc_content_policy := MetadataOnly\<rparr> else c);
          c = (if issues \<noteq> [] then c\<lparr>oc_enabled := False\<rparr> else c)
      in \<lparr>cl_config = c, cl_issues = issues\<rparr>)"

definition load_with :: "config_env \<Rightarrow> ObservabilityConfigLoad" where
  "load_with env =
     (let get = ce_get env; d = ObservabilityConfig_default (ce_version env);
          (enabled, i1) = parse_bool get ''LANGFUSE_TRACING_ENABLED'' (oc_enabled d);
          (sample_rate, i2) = parse_number get (ce_parse_f64 env) ''LANGFUSE_SAMPLE_RATE'' (oc_sample_rate d);
          (policy, i3) = parse_content_policy get (oc_content_policy d);
          (allowed, i4) = parse_bool get ''AISE_TRACE_FULL_CONTENT_ALLOWED'' (oc_full_content_allowed d);
          (max_field, i5) = parse_number get parse_usize_str ''AISE_TRACE_MAX_FIELD_BYTES'' (oc_max_field_bytes d);
          (max_obs, i6) = parse_number get parse_usize_str ''AISE_TRACE_MAX_OBSERVATION_BYTES'' (oc_max_observation_bytes d);
          (queue, i7) = parse_number get parse_usize_str ''OTEL_BSP_MAX_QUEUE_SIZE'' (oc_max_queue_size d);
          (batch, i8) = parse_number get parse_usize_str ''OTEL_BSP_MAX_EXPORT_BATCH_SIZE'' (oc_max_export_batch_size d);
          (delay, i9) = parse_number get parse_usize_str ''OTEL_BSP_SCHEDULE_DELAY'' (oc_schedule_delay_ms d);
          (http, i10) = parse_number get parse_usize_str ''AISE_TRACE_HTTP_TIMEOUT_MS'' (oc_http_timeout_ms d);
          (shutdown, i11) = parse_number get parse_usize_str ''AISE_TRACE_SHUTDOWN_TIMEOUT_MS'' (oc_shutdown_timeout_ms d)
      in validate env
           \<lparr>oc_enabled = enabled, oc_base_url = assign_string get ''LANGFUSE_BASE_URL'' (oc_base_url d),
            oc_public_key = non_empty (get ''LANGFUSE_PUBLIC_KEY''), oc_secret_key = non_empty (get ''LANGFUSE_SECRET_KEY''),
            oc_environment = assign_string get ''LANGFUSE_TRACING_ENVIRONMENT'' (oc_environment d),
            oc_release = assign_string get ''LANGFUSE_RELEASE'' (oc_release d), oc_sample_rate = sample_rate,
            oc_content_policy = policy, oc_full_content_allowed = allowed, oc_max_field_bytes = max_field,
            oc_max_observation_bytes = max_obs, oc_max_queue_size = queue, oc_max_export_batch_size = batch,
            oc_schedule_delay_ms = delay, oc_http_timeout_ms = http, oc_shutdown_timeout_ms = shutdown\<rparr>
           (i1 @ i2 @ i3 @ i4 @ i5 @ i6 @ i7 @ i8 @ i9 @ i10 @ i11))"

definition endpoint :: "ObservabilityConfig \<Rightarrow> str option" where
  "endpoint c =
     (if \<not> oc_enabled c then None
      else Some (rev (dropWhile (\<lambda>x. x = 47) (rev (trim (oc_base_url c)))) @ lit ''/api/public/otel/v1/traces''))"

definition endpoint_host :: "config_env \<Rightarrow> ObservabilityConfig \<Rightarrow> str option" where
  "endpoint_host env c = Option.bind (ce_url_parse env (trim (oc_base_url c))) url_host_str"

section \<open>Export (\<open>langfuse_exporter.rs\<close>)\<close>

type_synonym key_value = "string \<times> otel_value"

datatype span_status = Unset | StatusOk | StatusError str

record SpanData =
  sd_name :: str
  sd_attributes :: "key_value list"
  sd_events :: "key_value list list"
  sd_links :: "key_value list list"
  sd_status :: span_status

definition strip_prefix :: "string \<Rightarrow> string \<Rightarrow> string option" where
  "strip_prefix p k = (if take (length p) k = p then Some (drop (length p) k) else None)"

definition exact_keys :: "(string \<times> string) list" where
  "exact_keys =
     [(''aise.observation.type'', ''langfuse.observation.type''),
      (''aise.observation.input'', ''langfuse.observation.input''),
      (''aise.observation.output'', ''langfuse.observation.output''),
      (''aise.observation.model.name'', ''langfuse.observation.model.name''),
      (''aise.observation.model.parameters'', ''langfuse.observation.model.parameters''),
      (''aise.observation.usage_details'', ''langfuse.observation.usage_details''),
      (''aise.observation.cost_details'', ''langfuse.observation.cost_details''),
      (''aise.observation.level'', ''langfuse.observation.level''),
      (''aise.observation.status_message'', ''langfuse.observation.status_message''),
      (''aise.trace.name'', ''langfuse.trace.name''),
      (''aise.trace.tags'', ''langfuse.trace.tags''),
      (''aise.trace.environment'', ''langfuse.environment''),
      (''aise.trace.release'', ''langfuse.release''),
      (''aise.schema.version'', ''langfuse.version'')]"

definition map_key :: "string \<Rightarrow> string option" where
  "map_key key =
     (case map_of exact_keys key of
        Some exact \<Rightarrow> Some exact
      | None \<Rightarrow>
          (case strip_prefix ''aise.observation.metadata.'' key of
             Some sfx \<Rightarrow> if sfx \<noteq> [] then Some (''langfuse.observation.metadata.'' @ sfx) else None
           | None \<Rightarrow>
               (case strip_prefix ''aise.trace.metadata.'' key of
                  Some sfx \<Rightarrow> if sfx \<noteq> [] then Some (''langfuse.trace.metadata.'' @ sfx) else None
                | None \<Rightarrow> if strip_prefix ''aise.'' key \<noteq> None then None else Some key)))"

fun mask_value :: "StreamingMasker \<Rightarrow> otel_value \<Rightarrow> otel_value" where
  "mask_value m (OvString v) = OvString (mask m v)"
| "mask_value m (OvArray vs) = OvArray (map (mask m) vs)"
| "mask_value m v = v"

definition map_attribute :: "StreamingMasker \<Rightarrow> key_value \<Rightarrow> key_value option" where
  "map_attribute m kv =
     (case kv of (source, v) \<Rightarrow>
        (case map_key source of
           None \<Rightarrow> None
         | Some destination \<Rightarrow>
             let value = mask_value m v;
                 value = (if source = ''aise.trace.tags''
                          then (case value of OvString s \<Rightarrow> OvArray [s] | value \<Rightarrow> value) else value)
             in Some (destination, value)))"

definition observation_name :: "SpanData \<Rightarrow> str option" where
  "observation_name sp =
     (case List.map_filter (\<lambda>(k, v). if k = ''observation.name''
              then (case v of OvString s \<Rightarrow> if s \<noteq> [] then Some s else None | _ \<Rightarrow> None) else None)
            (sd_attributes sp) of
        s # _ \<Rightarrow> Some s | [] \<Rightarrow> None)"

definition map_attributes :: "StreamingMasker \<Rightarrow> key_value list \<Rightarrow> key_value list" where
  "map_attributes m as = List.map_filter (map_attribute m) as"

definition map_span :: "StreamingMasker \<Rightarrow> SpanData \<Rightarrow> SpanData" where
  "map_span m sp =
     \<lparr>sd_name = (case observation_name sp of Some n \<Rightarrow> mask m n | None \<Rightarrow> sd_name sp),
      sd_attributes = map_attributes m (sd_attributes sp),
      sd_events = map (map_attributes m) (sd_events sp),
      sd_links = map (map_attributes m) (sd_links sp),
      sd_status = (case sd_status sp of StatusError d \<Rightarrow> StatusError (mask m d) | s \<Rightarrow> s)\<rparr>"

text \<open>\<open>export\<close>: what the inner exporter is given, and whether the failure is reported.\<close>

definition export :: "StreamingMasker \<Rightarrow> (SpanData list \<Rightarrow> bool) \<Rightarrow> SpanData list \<Rightarrow> SpanData list \<times> bool \<times> bool" where
  "export m inner_ok batch =
     (let sent = map (map_span m) batch; ok = inner_ok sent in (sent, ok, \<not> ok))"

section \<open>Baggage (\<open>baggage_processor.rs\<close>)\<close>

definition BAGGAGE_ALLOWLIST :: "string list" where
  "BAGGAGE_ALLOWLIST =
     [''aise.trace.name'', ''aise.trace.tags'', ''aise.trace.environment'', ''aise.trace.release'',
      ''aise.schema.version'', ''langfuse.session.id'', ''aise.trace.metadata.story_id'',
      ''aise.trace.metadata.idempotency_key_digest'', ''aise.trace.metadata.turn_number'']"

definition on_start :: "(string \<Rightarrow> str option) \<Rightarrow> span \<Rightarrow> span" where
  "on_start baggage s =
     foldl (\<lambda>s key. case baggage key of Some v \<Rightarrow> set_attribute key (OvString v) s | None \<Rightarrow> s) s BAGGAGE_ALLOWLIST"

section \<open>Runtime (\<open>runtime.rs\<close>)\<close>

text \<open>What the provider is built from; \<open>build\<close> is its construction by the SDK.\<close>

record provider_spec =
  ps_endpoint :: str
  ps_headers :: "(string \<times> str) list"
  ps_timeout_ms :: nat
  ps_masker :: StreamingMasker
  ps_max_queue_size :: nat
  ps_max_export_batch_size :: nat
  ps_schedule_delay_ms :: nat
  ps_sample_rate :: f64

definition langfuse_headers :: "(str \<Rightarrow> str) \<Rightarrow> str \<Rightarrow> str \<Rightarrow> (string \<times> str) list" where
  "langfuse_headers base64 public_key secret_key =
     [(''Authorization'', lit ''Basic '' @ base64 (public_key @ lit '':'' @ secret_key)),
      (''x-langfuse-ingestion-version'', lit ''4'')]"

datatype 'a attempt = Returns 'a | Panics

definition build_provider ::
  "(str \<Rightarrow> str) \<Rightarrow> (provider_spec \<Rightarrow> bool) \<Rightarrow> ObservabilityConfig \<Rightarrow> string + provider_spec" where
  "build_provider base64 exporter_builds c =
     rbind (ok_or ''missing_endpoint'' (endpoint c)) (\<lambda>endpoint.
     rbind (ok_or ''missing_public_key'' (oc_public_key c)) (\<lambda>public_key.
     rbind (ok_or ''missing_secret_key'' (oc_secret_key c)) (\<lambda>secret_key.
       let spec = \<lparr>ps_endpoint = endpoint, ps_headers = langfuse_headers base64 public_key secret_key,
                   ps_timeout_ms = oc_http_timeout_ms c,
                   ps_masker = \<lparr>sm_max_output_bytes = oc_max_field_bytes c,
                                sm_redact_pii = (oc_content_policy c = RedactedContent)\<rparr>,
                   ps_max_queue_size = oc_max_queue_size c, ps_max_export_batch_size = oc_max_export_batch_size c,
                   ps_schedule_delay_ms = oc_schedule_delay_ms c, ps_sample_rate = oc_sample_rate c\<rparr>
       in if exporter_builds spec then Ok spec else Err ''exporter_build_failed'')))"

record ObservabilityRuntime =
  ort_provider :: "provider_spec option"
  ort_shutdown_timeout :: nat

definition runtime_disabled :: "nat \<Rightarrow> ObservabilityRuntime" where
  "runtime_disabled shutdown_timeout_ms = \<lparr>ort_provider = None, ort_shutdown_timeout = shutdown_timeout_ms\<rparr>"

text \<open>\<open>catch_unwind\<close> turns a panic of the construction into a disabled runtime.\<close>

definition runtime_initialize ::
  "(ObservabilityConfig \<Rightarrow> (string + provider_spec) attempt) \<Rightarrow> ObservabilityConfigLoad
   \<Rightarrow> ObservabilityRuntime \<times> string option" where
  "runtime_initialize build load =
     (let c = cl_config load in
      if \<not> oc_enabled c then (runtime_disabled (oc_shutdown_timeout_ms c), None)
      else case build c of
          Returns (Inr p) \<Rightarrow> (\<lparr>ort_provider = Some p, ort_shutdown_timeout = oc_shutdown_timeout_ms c\<rparr>, None)
        | Returns (Inl error_kind) \<Rightarrow> (runtime_disabled (oc_shutdown_timeout_ms c), Some error_kind)
        | Panics \<Rightarrow> (runtime_disabled (oc_shutdown_timeout_ms c), Some ''provider_initialization_panicked''))"

record ShutdownReport =
  sr_completed :: bool
  sr_dropped_span_count :: nat
  sr_error_kind :: "string option"

definition shutdown_with_timeout :: "(provider_spec \<Rightarrow> nat \<Rightarrow> bool) \<Rightarrow> ObservabilityRuntime \<Rightarrow> ShutdownReport" where
  "shutdown_with_timeout provider_shutdown r =
     (case ort_provider r of
        Some p \<Rightarrow>
          if provider_shutdown p (ort_shutdown_timeout r)
          then \<lparr>sr_completed = True, sr_dropped_span_count = 0, sr_error_kind = None\<rparr>
          else \<lparr>sr_completed = False, sr_dropped_span_count = 0, sr_error_kind = Some ''shutdown_failed''\<rparr>
      | None \<Rightarrow> \<lparr>sr_completed = True, sr_dropped_span_count = 0, sr_error_kind = None\<rparr>)"

section \<open>Rate limit (\<open>diagnostics.rs\<close>)\<close>

definition RATE_LIMIT :: nat where
  "RATE_LIMIT = 60000"

definition MAX_RATE_LIMIT_KEYS :: nat where
  "MAX_RATE_LIMIT_KEYS = 128"

type_synonym rate_entries = "(string \<times> nat) list"

text \<open>\<open>min_by_key\<close> returns the first minimum in iteration order, here the order of the list.\<close>

fun oldest :: "rate_entries \<Rightarrow> string option" where
  "oldest [] = None"
| "oldest ((k, t) # es) =
     (case oldest es of
        None \<Rightarrow> Some k
      | Some k' \<Rightarrow> if (case map_of es k' of Some t' \<Rightarrow> t' < t | None \<Rightarrow> False) then Some k' else Some k)"

definition remove_entry :: "string \<Rightarrow> rate_entries \<Rightarrow> rate_entries" where
  "remove_entry k es = filter (\<lambda>(k', _). k' \<noteq> k) es"

definition insert_entry :: "string \<Rightarrow> nat \<Rightarrow> rate_entries \<Rightarrow> rate_entries" where
  "insert_entry k t es = remove_entry k es @ [(k, t)]"

text \<open>\<open>locked\<close>: whether \<open>try_lock\<close> got the mutex.\<close>

definition should_emit :: "bool \<Rightarrow> nat \<Rightarrow> string \<Rightarrow> rate_entries \<Rightarrow> bool \<times> rate_entries" where
  "should_emit locked now error_kind entries =
     (if \<not> locked then (False, entries)
      else if (case map_of entries error_kind of Some last_at \<Rightarrow> now - last_at < RATE_LIMIT | None \<Rightarrow> False)
      then (False, entries)
      else (True, insert_entry error_kind now
              (if length entries \<ge> MAX_RATE_LIMIT_KEYS
               then (case oldest entries of Some k \<Rightarrow> remove_entry k entries | None \<Rightarrow> entries) else entries)))"

section \<open>Tracing is enabled only when it is safe\<close>

lemma issue_if_Nil [simp]: "issue_if b f k = [] \<longleftrightarrow> \<not> b"
  by (simp add: issue_if_def)

lemma parse_bool_str_true: "parse_bool_str t = Some True \<longleftrightarrow> t = lit ''true''"
  by (auto simp: parse_bool_str_def)

lemma validate_sel:
  "cl_issues (validate env c is) = is @ validate_issues env c"
  "oc_enabled (cl_config (validate env c is)) \<longleftrightarrow> oc_enabled c \<and> is @ validate_issues env c = []"
  "oc_content_policy (cl_config (validate env c is)) = (if full_content_denied c then MetadataOnly else oc_content_policy c)"
  "oc_environment (cl_config (validate env c is)) = oc_environment c"
  "oc_full_content_allowed (cl_config (validate env c is)) = oc_full_content_allowed c"
  by (auto simp: validate_def Let_def)

lemma validate_enabled:
  "oc_enabled (cl_config (validate env c is)) \<Longrightarrow> cl_config (validate env c is) = c \<and> is = [] \<and> validate_issues env c = []"
  by (auto simp: validate_def Let_def validate_issues_def split: if_splits)

lemma validate_issues_none:
  assumes "validate_issues env c = []" and "oc_enabled c"
  shows "oc_public_key c \<noteq> None \<and> oc_secret_key c \<noteq> None \<and> url_ok (ce_url_parse env (trim (oc_base_url c)))
    \<and> is_finite (oc_sample_rate c) \<and> f_le (Fin 0) (oc_sample_rate c) \<and> f_le (oc_sample_rate c) (Fin 1)
    \<and> 0 < oc_max_field_bytes c \<and> 0 < oc_max_observation_bytes c \<and> 0 < oc_max_export_batch_size c
    \<and> oc_max_export_batch_size c \<le> oc_max_queue_size c \<and> 0 < oc_schedule_delay_ms c
    \<and> 0 < oc_http_timeout_ms c \<and> oc_http_timeout_ms c < oc_shutdown_timeout_ms c"
  using assms by (auto simp: validate_issues_def)

lemma load_with_validate:
  "\<exists>c issues. load_with env = validate env c issues
     \<and> oc_enabled c = fst (parse_bool (ce_get env) ''LANGFUSE_TRACING_ENABLED'' False)"
  unfolding load_with_def Let_def case_prod_beta
  by (rule exI, rule exI, rule conjI, rule refl) (simp add: ObservabilityConfig_default_def)

text \<open>
  Loading the tracing configuration fails safe. Tracing is enabled only when it was asked for by the
  literal \<open>true\<close> and nothing at all is wrong with the configuration: both credentials are there, the URL
  has no credentials or query of its own, every size and delay is positive, the batch fits the queue and
  an export ends before the shutdown budget does. Full content is captured, enabled or not, only in the
  development environment and with the explicit permission.
\<close>

lemma tracing_enabled_safe:
  assumes "load = load_with env" and "c = cl_config load"
  shows "(oc_enabled c \<longrightarrow> cl_issues load = []
      \<and> ce_get env ''LANGFUSE_TRACING_ENABLED'' = Some (lit ''true'')
      \<and> oc_public_key c \<noteq> None \<and> oc_secret_key c \<noteq> None \<and> url_ok (ce_url_parse env (trim (oc_base_url c)))
      \<and> is_finite (oc_sample_rate c) \<and> f_le (Fin 0) (oc_sample_rate c) \<and> f_le (oc_sample_rate c) (Fin 1)
      \<and> 0 < oc_max_field_bytes c \<and> 0 < oc_max_observation_bytes c \<and> 0 < oc_max_export_batch_size c
      \<and> oc_max_export_batch_size c \<le> oc_max_queue_size c \<and> 0 < oc_schedule_delay_ms c
      \<and> 0 < oc_http_timeout_ms c \<and> oc_http_timeout_ms c < oc_shutdown_timeout_ms c)
    \<and> (oc_content_policy c = FullContent \<longrightarrow>
         oc_environment c = lit ''development'' \<and> oc_full_content_allowed c)"
proof -
  obtain c0 i where l: "load_with env = validate env c0 i"
    and e: "oc_enabled c0 = fst (parse_bool (ce_get env) ''LANGFUSE_TRACING_ENABLED'' False)"
    using load_with_validate [of env] by blast
  have "ce_get env ''LANGFUSE_TRACING_ENABLED'' = Some (lit ''true'')" if "oc_enabled c0"
    using that parse_bool_str_true
    by (auto simp: e parse_bool_def parse_setting_def split: option.splits)
  moreover have "c = c0 \<and> i = [] \<and> validate_issues env c0 = []" if "oc_enabled c"
    using that validate_enabled [of env c0 i] unfolding assms l by blast
  moreover have "oc_content_policy c = FullContent \<longrightarrow> oc_environment c = lit ''development'' \<and> oc_full_content_allowed c"
    by (auto simp: assms l validate_sel full_content_denied_def)
  ultimately show ?thesis
    using validate_issues_none [of env c0] by (auto simp: assms(1) l validate_sel)
qed

section \<open>What leaves the process\<close>

fun value_strings :: "otel_value \<Rightarrow> str list" where
  "value_strings (OvString s) = [s]"
| "value_strings (OvArray ss) = ss"
| "value_strings v = []"

definition exported_attributes :: "SpanData \<Rightarrow> key_value list" where
  "exported_attributes s = sd_attributes s @ concat (sd_events s) @ concat (sd_links s)"

lemma map_key_not_internal: "map_key k = Some d \<Longrightarrow> strip_prefix ''aise.'' d = None"
proof -
  have "\<forall>d \<in> set (map snd exact_keys). strip_prefix ''aise.'' d = None"
    by (simp add: exact_keys_def strip_prefix_def)
  moreover have "map_of exact_keys k = Some d \<Longrightarrow> d \<in> set (map snd exact_keys)"
    by (force dest: map_of_SomeD)
  ultimately show "map_key k = Some d \<Longrightarrow> strip_prefix ''aise.'' d = None"
    by (auto simp: map_key_def strip_prefix_def [of "''aise.''"] split: option.splits if_splits)
qed

lemma mask_value_no_leak: "s \<in> set (value_strings (mask_value m v)) \<Longrightarrow> no_leak m s"
  by (cases v) (auto simp: mask_no_leak)

lemma map_attribute_safe:
  assumes "map_attribute m kv = Some (d, w)"
  shows "strip_prefix ''aise.'' d = None \<and> (\<forall>s \<in> set (value_strings w). no_leak m s)"
proof -
  obtain k v where kv: "kv = (k, v)" by (cases kv)
  have "map_key k = Some d" using assms by (auto simp: map_attribute_def kv Let_def split: option.splits)
  moreover have "set (value_strings w) = set (value_strings (mask_value m v))"
    using assms by (auto simp: map_attribute_def kv Let_def split: option.splits if_splits otel_value.splits)
  ultimately show ?thesis using map_key_not_internal mask_value_no_leak by auto
qed

lemma map_attributes_safe:
  "(d, w) \<in> set (map_attributes m as) \<Longrightarrow> strip_prefix ''aise.'' d = None \<and> (\<forall>s \<in> set (value_strings w). no_leak m s)"
  using map_attribute_safe by (auto simp: map_attributes_def set_map_filter)


text \<open>The service copies the same keys as baggage that the engine propagates as attributes.\<close>

lemma allowlists_agree: "k \<in> set BAGGAGE_ALLOWLIST \<longleftrightarrow> is_propagated k"
  by (simp add: BAGGAGE_ALLOWLIST_def is_propagated_def)

lemma build_provider_enabled:
  "build_provider base64 builds c = Ok p \<Longrightarrow> oc_enabled c \<and> sm_max_output_bytes (ps_masker p) = oc_max_field_bytes c"
  by (auto simp: build_provider_def Let_def result_simps endpoint_def split: if_splits)

section \<open>The rate limit is bounded\<close>

lemma remove_entry_distinct: "distinct (map fst es) \<Longrightarrow> distinct (map fst (remove_entry k es))"
  by (induction es) (auto simp: remove_entry_def)

lemma insert_entry_distinct: "distinct (map fst es) \<Longrightarrow> distinct (map fst (insert_entry k t es))"
  using remove_entry_distinct [of es k] by (auto simp: insert_entry_def remove_entry_def)

lemma oldest_mem: "es \<noteq> [] \<Longrightarrow> \<exists>k. oldest es = Some k \<and> k \<in> fst ` set es"
proof (induction es rule: oldest.induct)
  case (2 k t es)
  then show ?case by (cases "es = []") (force split: option.splits)+
qed simp

lemma remove_entry_less: "k \<in> fst ` set es \<Longrightarrow> length (remove_entry k es) < length es"
  unfolding remove_entry_def using length_filter_less [of _ es "\<lambda>(k', _). k' \<noteq> k"] by fastforce

lemma insert_entry_length: "length (insert_entry k t es) \<le> Suc (length es)"
  by (simp add: insert_entry_def remove_entry_def)

definition rate_inv :: "rate_entries \<Rightarrow> bool" where
  "rate_inv es \<longleftrightarrow> distinct (map fst es) \<and> length es \<le> MAX_RATE_LIMIT_KEYS"

lemma evicted_room:
  assumes "rate_inv es"
  shows "rate_inv (insert_entry k t (if length es \<ge> MAX_RATE_LIMIT_KEYS
           then (case oldest es of Some x \<Rightarrow> remove_entry x es | None \<Rightarrow> es) else es))"
proof (cases "length es \<ge> MAX_RATE_LIMIT_KEYS")
  case True
  then have "es \<noteq> []" by (auto simp: MAX_RATE_LIMIT_KEYS_def)
  then obtain d where d: "oldest es = Some d" "d \<in> fst ` set es" using oldest_mem by blast
  then have "Suc (length (remove_entry d es)) \<le> MAX_RATE_LIMIT_KEYS"
    using remove_entry_less [OF d(2)] assms by (simp add: rate_inv_def)
  then show ?thesis
    using True d(1) assms insert_entry_length [of k t "remove_entry d es"]
    by (simp add: rate_inv_def insert_entry_distinct remove_entry_distinct)
next
  case False
  then show ?thesis
    using assms insert_entry_length [of k t es] by (simp add: rate_inv_def insert_entry_distinct)
qed

lemma should_emit_inv: "rate_inv es \<Longrightarrow> rate_inv (snd (should_emit locked now k es))"
  using evicted_room [of es k now] by (simp add: should_emit_def)

definition emit_all :: "(bool \<times> nat \<times> string) list \<Rightarrow> rate_entries" where
  "emit_all calls = foldl (\<lambda>es (locked, now, k). snd (should_emit locked now k es)) [] calls"

text \<open>
  The table behind the telemetry warnings never grows past its 128 keys, one entry per key, whatever
  is reported; and a warning is not repeated within the minute while its key is in the table.
\<close>

lemma rate_limit_bounded:
  "distinct (map fst (emit_all calls)) \<and> length (emit_all calls) \<le> MAX_RATE_LIMIT_KEYS
   \<and> (\<forall>k t now locked. map_of (emit_all calls) k = Some t \<longrightarrow> now - t < RATE_LIMIT
        \<longrightarrow> should_emit locked now k (emit_all calls) = (False, emit_all calls))"
proof -
  have "rate_inv (foldl (\<lambda>es (locked, now, k). snd (should_emit locked now k es)) es cs)" if "rate_inv es" for es cs
    using that by (induction cs arbitrary: es) (auto simp: should_emit_inv)
  then have "rate_inv (emit_all calls)" by (simp add: emit_all_def rate_inv_def)
  then show ?thesis by (simp add: rate_inv_def should_emit_def)
qed

end
