(* ===== verification/Web.thy ===== *)
theory Web
  imports Engine_Safety Prompt_Catalog Llm Observability
begin

text \<open>
  \<open>aise-service/src/web\<close>: the HTTP front of the engine. A request is checked and takes the one permit
  of the turn gate; a spawned task runs the turn and feeds a bounded channel of events; the response
  streams the channel to the client and cancels the turn when the client goes away.

  The service is a transition system over \<open>AppState\<close>. A step is a request, the engine's run of a
  turn, the emission of one event, the attempt to send the last event, a read of the stream, or its end.
  The engine runs one turn at a time (that is what the gate is for, and what is proved), so its run
  is one step on the engine's state, whose events are then emitted one by one between the client's
  reads. What the model answers, cancelled or not, is part of the run's environment.

  Parameters: the environment of the engine, the text of an engine error, UUIDs, the file system,
  the JSON parsers of the story pack and the card, and the parsers of \<open>SocketAddr\<close> and \<open>f32\<close>. The
  non-ASCII texts are lists of scalar values.
\<close>

section \<open>Configuration (\<open>web/config.rs\<close>, \<open>engine/config.rs\<close>)\<close>

record EngineConfig =
  ec_llm_config :: LlmConfig
  ec_prompt_config :: PromptConfig
  ec_persistence_config :: PersistanceConfig
  ec_pipeline_config :: PipelineConfig

record 'addr WebConfig =
  wc_bind_address :: 'addr
  wc_turn_timeout_ms :: nat
  wc_max_input_bytes :: nat
  wc_event_buffer_capacity :: nat
  wc_story_pack_path :: path
  wc_character_card_path :: path
  wc_engine :: EngineConfig

text \<open>\<open>manifest_dir\<close> is the directory of the crate at build time.\<close>

record 'addr web_env =
  we_var :: "string \<Rightarrow> str option"
  we_parse_addr :: "str \<Rightarrow> 'addr option"
  we_parse_f32 :: "str \<Rightarrow> f64 option"
  we_manifest_dir :: str
  we_default_persistence :: PersistanceConfig

definition required_env :: "'addr web_env \<Rightarrow> string \<Rightarrow> string + str" where
  "required_env env name = ok_or name (we_var env name)"

definition parsed_env :: "'addr web_env \<Rightarrow> (str \<Rightarrow> 'a option) \<Rightarrow> string \<Rightarrow> 'a \<Rightarrow> string + 'a" where
  "parsed_env env parse name d = (case we_var env name of Some v \<Rightarrow> ok_or name (parse v) | None \<Rightarrow> Ok d)"

definition path_env :: "'addr web_env \<Rightarrow> string \<Rightarrow> path \<Rightarrow> path" where
  "path_env env name d = assign_string (we_var env) name d"

definition parse_nonzero_str :: "str \<Rightarrow> nat option" where
  "parse_nonzero_str t = (case parse_usize_str t of Some n \<Rightarrow> if n = 0 then None else Some n | None \<Rightarrow> None)"

definition WebConfig_load :: "'addr web_env \<Rightarrow> string + 'addr WebConfig" where
  "WebConfig_load env =
     rbind (ok_or ''default_address'' (we_parse_addr env (lit ''127.0.0.1:3000''))) (\<lambda>default_address.
     rbind (parsed_env env (we_parse_addr env) ''AISE_WEB_BIND'' default_address) (\<lambda>bind_address.
     rbind (parsed_env env parse_usize_str ''AISE_TURN_TIMEOUT_MS'' 120000) (\<lambda>turn_timeout.
     rbind (parsed_env env parse_usize_str ''AISE_WEB_MAX_INPUT_BYTES'' (16 * 1024)) (\<lambda>max_input_bytes.
     rbind (parsed_env env parse_nonzero_str ''AISE_WEB_EVENT_BUFFER_CAPACITY'' 64) (\<lambda>capacity.
     rbind (required_env env ''AISE_LLM_BASE_URL'') (\<lambda>base_url.
     rbind (required_env env ''AISE_LLM_API_KEY'') (\<lambda>api_key.
     rbind (required_env env ''AISE_LLM_MODEL'') (\<lambda>model.
     rbind (parsed_env env (we_parse_f32 env) ''AISE_LLM_TEMPERATURE'' (Fin (7 / 10))) (\<lambda>temperature.
     rbind (parsed_env env parse_usize_str ''AISE_LLM_TIMEOUT_MS'' 60000) (\<lambda>timeout_ms.
     rbind (parsed_env env parse_nonzero_str ''AISE_LLM_MAX_CONCURRENT_CALLS'' 16) (\<lambda>max_concurrent_calls.
       Ok \<lparr>wc_bind_address = bind_address, wc_turn_timeout_ms = turn_timeout, wc_max_input_bytes = max_input_bytes,
           wc_event_buffer_capacity = capacity,
           wc_story_pack_path = path_env env ''AISE_WEB_STORY_PACK_PATH''
             (we_manifest_dir env @ lit ''/../../examples/snake_pack_v1.json''),
           wc_character_card_path = path_env env ''AISE_WEB_CHARACTER_CARD_PATH''
             (we_manifest_dir env @ lit ''/../../examples/xu_xian_card_v1.json''),
           wc_engine =
             \<lparr>ec_llm_config = \<lparr>lc_provider = OpenAiCompat, lc_base_url = base_url, lc_api_key = api_key, lc_model = model,
                lc_temperature = temperature, lc_timeout_ms = timeout_ms, lc_max_concurrent_calls = max_concurrent_calls\<rparr>,
              ec_prompt_config = \<lparr>pcfg_directory = we_manifest_dir env @ lit ''/../aise-core/assets/prompts'',
                max_prompts = 16, max_template_bytes = 64 * 1024, max_total_template_bytes = 1024 * 1024\<rparr>,
              ec_persistence_config = we_default_persistence env,
              ec_pipeline_config = PipelineConfig_default\<rparr>\<rparr>)))))))))))"

section \<open>Events (\<open>web/sink.rs\<close>)\<close>

text \<open>A server-sent event: its name and the JSON value whose text is its data.\<close>

record sse_event =
  ev_event :: string
  ev_data :: json

definition readable_stage :: "string \<Rightarrow> str" where
  "readable_stage stage =
     (if stage = ''baseline'' then [27491, 22312, 25645, 24314, 21021, 22987, 29615, 22659]
      else if stage = ''plan'' then [27491, 22312, 35268, 21010, 21095, 24773, 36208, 21521]
      else if stage = ''retrieval'' then [27491, 22312, 26816, 32034, 30456, 20851, 35760, 24518]
      else if stage = ''think'' then [35282, 33394, 27491, 22312, 24605, 32771]
      else if stage = ''generate'' then [27491, 22312, 29983, 25104, 25925, 20107, 20869, 23481]
      else if stage = ''validate'' then [27491, 22312, 26816, 26597, 25925, 20107, 19968, 33268, 24615]
      else if stage = ''repair'' then [27491, 22312, 20462, 22797, 25925, 20107, 20869, 23481]
      else if stage = ''extract'' then [27491, 22312, 25552, 21462, 19990, 30028, 29366, 24577, 21464, 21270]
      else if stage = ''summary'' then [27491, 22312, 25972, 29702, 25925, 20107, 25688, 35201]
      else if stage = ''commit'' then [27491, 22312, 25552, 20132, 25925, 20107, 20869, 23481]
      else [27491, 22312, 25191, 34892, 32] @ lit stage)"

definition status_event :: "str \<Rightarrow> sse_event" where
  "status_event label = \<lparr>ev_event = ''status'', ev_data = JObj [(''label'', JStr label)]\<rparr>"

definition committed_event :: "str \<Rightarrow> u64 \<Rightarrow> sse_event" where
  "committed_event t n =
     \<lparr>ev_event = ''committed'', ev_data = JObj [(''text'', JStr t), (''turn_number'', JNat (unat n))]\<rparr>"

definition error_event :: "str \<Rightarrow> sse_event" where
  "error_event message = \<lparr>ev_event = ''error'', ev_data = JObj [(''message'', JStr message)]\<rparr>"

section \<open>Texts of the identifier errors (\<open>core/error.rs\<close>)\<close>

fun CoreError_display :: "CoreError \<Rightarrow> str" where
  "CoreError_display (InvalidId field v) = lit ''invalid ID: '' @ lit field @ lit ''-'' @ v"
| "CoreError_display (BoundedTextLimitExceeded limit actual maximum) =
     lit ''bounded text limit exceeded: '' @ lit limit @ lit '' (actual: '' @ show_nat actual
       @ lit '', maximum: '' @ show_nat maximum @ lit '')''"
| "CoreError_display (RetrievalHintTooLong actual maximum) =
     lit ''retrieval hint too long: '' @ show_nat actual @ lit '' (maximum: '' @ show_nat maximum @ lit '')''"
| "CoreError_display RetrievalHintEmpty = lit ''retrieval hint is empty.''"
| "CoreError_display ActivationKeyEmpty = lit ''activation key is empty.''"
| "CoreError_display (ActivationKeyTooLong actual maximum) =
     lit ''activation key too long: '' @ show_nat actual @ lit '' (maximum: '' @ show_nat maximum @ lit '')''"
| "CoreError_display (ActivationGroupKeyInvalid v) = lit ''activation group key is invalid: '' @ v"
| "CoreError_display (ActivationProbabilityInvalid v) =
     lit ''activation probability is outside 0..=100: '' @ show_nat (unat v)"
| "CoreError_display (DigestFailed subject message) = lit subject @ lit '' digest failed: '' @ message"

section \<open>Traces of a web turn (\<open>web/app.rs\<close>)\<close>

record WebTraceContext =
  wtc_session_id :: str
  wtc_content :: ObservabilityContentConfig
  wtc_environment :: str
  wtc_release :: str

text \<open>
  What tracing takes from outside for one turn: the context of the root span and whether it records,
  the digest, the JSON serializer of a text (its writes) and of the usage maps.
\<close>

record trace_io =
  tio_context :: context_id
  tio_recording :: bool
  tio_sha256 :: "byte list \<Rightarrow> str"
  tio_to_string :: "json \<Rightarrow> str option"
  tio_encode :: "str \<Rightarrow> byte list list option"

definition begin_turn_trace :: "trace_io \<Rightarrow> WebTraceContext \<Rightarrow> StoryId \<Rightarrow> str \<Rightarrow> ObservationSession \<times> Trace" where
  "begin_turn_trace io trace_context story_id player_input =
     (let session = ObservationSession_begin
            \<lparr>ss_id = Some (wtc_session_id trace_context), ss_user_id = Some (lit ''web-player''), ss_metadata = []\<rparr>
            (wtc_content trace_context);
          trace = begin_trace (tio_context io) (tio_recording io) session
            \<lparr>ts_name = ''web-turn'',
             ts_input = cr_content (ContentCapture_encode (tio_sha256 io) (wtc_content trace_context)
               (tio_encode io player_input) (occ_max_observation_bytes (wtc_content trace_context))),
             ts_metadata = [Attribute_string ''aise.trace.environment'' (wtc_environment trace_context),
                            Attribute_string ''aise.trace.release'' (wtc_release trace_context)],
             ts_tags = [lit ''story-turn'', lit ''web-turn'']\<rparr>
      in (session, Trace_bind trace [Attribute_string ''aise.trace.metadata.story_id'' story_id]))"

definition trace_outcome ::
  "trace_io \<Rightarrow> (EngineError \<Rightarrow> str) \<Rightarrow> Trace \<Rightarrow> EngineError + StoryCommit \<Rightarrow> ObservationOutcome" where
  "trace_outcome io display trace result =
     (case result of
        Inr commit \<Rightarrow> ObservationOutcome_default\<lparr>oo_status := StOk,
          oo_output := cr_content (ContentCapture_encode (tio_sha256 io) (tr_content trace)
            (tio_encode io (turn_segment (sc_turn commit))) (occ_max_observation_bytes (tr_content trace)))\<rparr>
      | Inl e \<Rightarrow> ObservationOutcome_default\<lparr>oo_status := StError,
          oo_error := Some \<lparr>oe_code = ''engine_error'', oe_failure_kind = ''engine'', oe_stage = None,
                            oe_message = display e\<rparr>\<rparr>)"

text \<open>The trace's end in the task, or its drop when the run ends in a panic: the root observation it exports.\<close>

definition finish_turn_trace ::
  "trace_io \<Rightarrow> (EngineError \<Rightarrow> str) \<Rightarrow> Trace \<Rightarrow> (EngineError + StoryCommit) option \<Rightarrow> Observation option" where
  "finish_turn_trace io display trace out =
     (case out of
        None \<Rightarrow> tr_root (Trace_drop (tio_to_string io) trace)
      | Some result \<Rightarrow>
          let trace = (case result of
                Inr commit \<Rightarrow> Trace_bind trace
                  [Attribute_u64 ''aise.trace.metadata.turn_number'' (turn_number (sc_turn commit))]
              | Inl e \<Rightarrow> trace)
          in fst (Trace_finish (tio_to_string io) trace (trace_outcome io display trace result)))"

section \<open>State (\<open>web/app.rs\<close>)\<close>

text \<open>Where the spawned task of a turn stands.\<close>

datatype turn_phase = Spawned | Emitting | Sending | Ended

record web_turn =
  wt_request :: TurnRequest
  wt_pending :: "TurnEvent list"
  wt_outcome :: "(EngineError + StoryCommit) option option"
  wt_exported :: "Observation option"
  wt_buffer :: "sse_event list"
  wt_receiver_open :: bool
  wt_cancelled :: bool
  wt_phase :: turn_phase
  wt_delivered :: "sse_event list"

record AppState =
  app_engine :: AiseEngine
  app_story_id :: StoryId
  app_story_title :: str
  app_opening :: str
  app_turn_timeout_ms :: nat
  app_max_input_bytes :: nat
  app_event_buffer_capacity :: nat
  app_turn_gate :: nat
  app_trace_context :: WebTraceContext
  app_turns :: "nat \<rightharpoonup> web_turn"

type_synonym ApiError = "nat \<times> str"

definition validate_player_input :: "str \<Rightarrow> nat \<Rightarrow> ApiError + unit" where
  "validate_player_input message max_input_bytes =
     (if trim message = [] then Err (400, [28040, 24687, 19981, 33021, 20026, 31354])
      else if str_len message > max_input_bytes
      then Err (413, [28040, 24687, 19981, 33021, 36229, 36807, 32] @ show_nat max_input_bytes @ [32, 23383, 33410])
      else Ok ())"

definition web_story_creation_spec :: "StoryPack \<Rightarrow> CharacterCard \<Rightarrow> CoreError + StoryCreationSpec" where
  "web_story_creation_spec pack ccard =
     rbind (id_try_new ''role_id'' (lit ''xu_xian'')) (\<lambda>player_role.
     rbind (id_try_new ''player_id'' (lit ''web-player'')) (\<lambda>player_id.
       Ok \<lparr>scs_story_pack = pack, scs_cast = bm_insert player_role (ActorCard ccard) bm_empty, scs_player_id = player_id,
           scs_player_role = player_role\<rparr>))"

text \<open>
  \<open>build_state\<close>, from the parsed assets on: the engine is made and the story created. \<open>None\<close> is the
  panic of an invalid story identifier; every failure of the start is one error.
\<close>

definition build_state ::
  "digest_env \<Rightarrow> (roles \<Rightarrow> json_stream) \<Rightarrow> (PromptConfig \<Rightarrow> PromptError + Prompt) \<Rightarrow> instant \<Rightarrow> str \<Rightarrow> str \<Rightarrow> 'addr WebConfig
   \<Rightarrow> ObservabilityConfig \<Rightarrow> StoryPack option \<Rightarrow> CharacterCard option \<Rightarrow> (unit + AppState) option" where
  "build_state denv json prompt_new now uuid session_uuid config observability_config story_pack character_card =
     (case (story_pack, character_card) of
        (Some pack, Some ccard) \<Rightarrow>
          (case AiseEngine_new (rmap (\<lambda>_. ()) (prompt_new (ec_prompt_config (wc_engine config))))
                  (ec_persistence_config (wc_engine config)) (ec_pipeline_config (wc_engine config)) of
             Inl e \<Rightarrow> Some (Err ())
           | Inr engine \<Rightarrow>
               (case web_story_creation_spec pack ccard of
                  Inl e \<Rightarrow> Some (Err ())
                | Inr spec \<Rightarrow>
                    (case AiseFactory_create_story denv json now uuid spec (eng_store engine) of
                       (None, _) \<Rightarrow> None
                     | (Some (Inl e), _) \<Rightarrow> Some (Err ())
                     | (Some (Inr story), store') \<Rightarrow>
                         Some (Ok \<lparr>app_engine = engine\<lparr>eng_store := store'\<rparr>, app_story_id = sii_story_id story,
                           app_story_title = spp_title (sp_profile pack), app_opening = sp_opening pack,
                           app_turn_timeout_ms = wc_turn_timeout_ms config, app_max_input_bytes = wc_max_input_bytes config,
                           app_event_buffer_capacity = wc_event_buffer_capacity config, app_turn_gate = 1,
                           app_trace_context = \<lparr>wtc_session_id = session_uuid,
                             wtc_content = \<lparr>occ_policy = oc_content_policy observability_config,
                               occ_max_field_bytes = oc_max_field_bytes observability_config,
                               occ_max_observation_bytes = oc_max_observation_bytes observability_config,
                               occ_detector_overlap_bytes = DETECTOR_OVERLAP_BYTES\<rparr>,
                             wtc_environment = oc_environment observability_config,
                             wtc_release = oc_release observability_config\<rparr>,
                           app_turns = Map.empty\<rparr>))))
      | _ \<Rightarrow> Some (Err ()))"

definition get_story :: "AppState \<Rightarrow> str \<times> str" where
  "get_story app = (app_story_title app, app_opening app)"

definition put_turn :: "nat \<Rightarrow> web_turn \<Rightarrow> AppState \<Rightarrow> AppState" where
  "put_turn i t app = app\<lparr>app_turns := (app_turns app)(i \<mapsto> t)\<rparr>"

text \<open>The handler of \<open>POST /api/turn\<close>; the task it spawns is entered under the fresh number \<open>i\<close>.\<close>

definition post_turn :: "nat \<Rightarrow> str \<Rightarrow> str \<Rightarrow> AppState \<Rightarrow> (ApiError + unit) \<times> AppState" where
  "post_turn i uuid message app =
     (case validate_player_input message (app_max_input_bytes app) of
        Inl e \<Rightarrow> (Err e, app)
      | Inr _ \<Rightarrow>
          if app_turn_gate app = 0 then (Err (409, [24050, 26377, 22238, 21512, 27491, 22312, 25191, 34892, 65292, 35831, 31245, 21518, 20877, 35797]), app)
          else (case id_try_new ''idempotency_key'' (lit ''web-turn-'' @ uuid) of
                  Inl e \<Rightarrow> (Err (500, CoreError_display e), app)
                | Inr key \<Rightarrow>
                    (Ok (), put_turn i
                       \<lparr>wt_request = \<lparr>tr_story_id = app_story_id app, tr_idempotency_key = key, tr_player_input = message\<rparr>,
                        wt_pending = [], wt_outcome = None, wt_exported = None, wt_buffer = [], wt_receiver_open = True,
                        wt_cancelled = False, wt_phase = Spawned, wt_delivered = []\<rparr>
                       (app\<lparr>app_turn_gate := app_turn_gate app - 1\<rparr>))))"

text \<open>\<open>WebTurnEventSink::emit\<close>: progress is dropped when the channel is full; a closed channel cancels the turn.\<close>

definition emit :: "nat \<Rightarrow> TurnEvent \<Rightarrow> web_turn \<Rightarrow> web_turn" where
  "emit capacity event t =
     (case event of
        TurnStarted \<Rightarrow> t
      | TurnCommitted \<Rightarrow> t
      | TurnPipeline stage \<Rightarrow>
          if \<not> wt_receiver_open t then t\<lparr>wt_cancelled := True\<rparr>
          else if length (wt_buffer t) < capacity
          then t\<lparr>wt_buffer := wt_buffer t @ [status_event (readable_stage stage)]\<rparr>
          else t)"

definition terminal_event :: "(EngineError \<Rightarrow> str) \<Rightarrow> EngineError + StoryCommit \<Rightarrow> sse_event" where
  "terminal_event display result =
     (case result of
        Inr commit \<Rightarrow> committed_event (turn_segment (sc_turn commit)) (turn_number (sc_turn commit))
      | Inl e \<Rightarrow> error_event (display e))"

text \<open>The end of the task, which drops the permit.\<close>

definition end_turn :: "nat \<Rightarrow> web_turn \<Rightarrow> AppState \<Rightarrow> AppState" where
  "end_turn i t app = put_turn i (t\<lparr>wt_phase := Ended\<rparr>) (app\<lparr>app_turn_gate := app_turn_gate app + 1\<rparr>)"

datatype web_action =
    PostTurn nat str str
  | RunEngine nat turn_env trace_io
  | EmitEvent nat
  | SendTerminal nat
  | ReceiveEvent nat
  | CloseStream nat

text \<open>The drop of the response stream: the receiver goes, and its guard cancels the turn.\<close>

definition close_stream :: "web_turn \<Rightarrow> web_turn" where
  "close_stream t = t\<lparr>wt_receiver_open := False, wt_buffer := [], wt_cancelled := True\<rparr>"

definition run_engine :: "(EngineError \<Rightarrow> str) \<Rightarrow> nat \<Rightarrow> turn_env \<Rightarrow> trace_io \<Rightarrow> web_turn \<Rightarrow> AppState \<Rightarrow> AppState" where
  "run_engine display i te io t app =
     (if wt_phase t \<noteq> Spawned then app
      else let (session, trace) = begin_turn_trace io (app_trace_context app) (app_story_id app)
                 (tr_player_input (wt_request t))
           in case engine_run_turn te (wt_request t) (app_engine app) of
                ((es, out), engine') \<Rightarrow>
                  put_turn i (t\<lparr>wt_pending := es, wt_outcome := Some out,
                      wt_exported := finish_turn_trace io display trace out, wt_phase := Emitting\<rparr>)
                    (app\<lparr>app_engine := engine'\<rparr>))"

definition emit_event :: "nat \<Rightarrow> web_turn \<Rightarrow> AppState \<Rightarrow> AppState" where
  "emit_event i t app =
     (if wt_phase t \<noteq> Emitting then app
      else case wt_pending t of
          e # es \<Rightarrow> put_turn i (emit (app_event_buffer_capacity app) e (t\<lparr>wt_pending := es\<rparr>)) app
        | [] \<Rightarrow>
            (case wt_outcome t of
               Some (Some r) \<Rightarrow> put_turn i (t\<lparr>wt_phase := Sending\<rparr>) app
             | _ \<Rightarrow> end_turn i t app))"

definition send_terminal :: "(EngineError \<Rightarrow> str) \<Rightarrow> nat \<Rightarrow> web_turn \<Rightarrow> AppState \<Rightarrow> AppState" where
  "send_terminal display i t app =
     (if wt_phase t \<noteq> Sending then app
      else case wt_outcome t of
          Some (Some r) \<Rightarrow>
            if \<not> wt_receiver_open t then end_turn i t app
            else if length (wt_buffer t) < app_event_buffer_capacity app
            then end_turn i (t\<lparr>wt_buffer := wt_buffer t @ [terminal_event display r]\<rparr>) app
            else app
        | _ \<Rightarrow> app)"

definition receive_event :: "nat \<Rightarrow> web_turn \<Rightarrow> AppState \<Rightarrow> AppState" where
  "receive_event i t app =
     (if \<not> wt_receiver_open t then app
      else case wt_buffer t of
          e # es \<Rightarrow> put_turn i (t\<lparr>wt_buffer := es, wt_delivered := wt_delivered t @ [e]\<rparr>) app
        | [] \<Rightarrow> if wt_phase t = Ended then put_turn i (close_stream t) app else app)"

fun web_step :: "(EngineError \<Rightarrow> str) \<Rightarrow> AppState \<Rightarrow> web_action \<Rightarrow> AppState" where
  "web_step display app (PostTurn i uuid message) =
     (if app_turns app i \<noteq> None then app else snd (post_turn i uuid message app))"
| "web_step display app (RunEngine i te io) =
     (case app_turns app i of Some t \<Rightarrow> run_engine display i te io t app | None \<Rightarrow> app)"
| "web_step display app (EmitEvent i) =
     (case app_turns app i of Some t \<Rightarrow> emit_event i t app | None \<Rightarrow> app)"
| "web_step display app (SendTerminal i) =
     (case app_turns app i of Some t \<Rightarrow> send_terminal display i t app | None \<Rightarrow> app)"
| "web_step display app (ReceiveEvent i) =
     (case app_turns app i of Some t \<Rightarrow> receive_event i t app | None \<Rightarrow> app)"
| "web_step display app (CloseStream i) =
     (case app_turns app i of
        Some t \<Rightarrow> if wt_receiver_open t then put_turn i (close_stream t) app else app
      | None \<Rightarrow> app)"

definition web_run :: "(EngineError \<Rightarrow> str) \<Rightarrow> AppState \<Rightarrow> web_action list \<Rightarrow> AppState" where
  "web_run display = foldl (web_step display)"

end
