(* ===== verification/Web_Safety.thy ===== *)
theory Web_Safety
  imports Web "HOL-Library.Sublist"
begin

text \<open>
  The web service is safe: the gate lets one turn run at a time and is given back when the turn ends,
  the events a client reads are the progress of its turn in order and then, once, its result, and a
  turn reported as committed is in the store for good.
\<close>

section \<open>Steps seen from one turn\<close>

lemma put_turn_sel [simp]:
  "app_turns (put_turn i t app) = (app_turns app)(i \<mapsto> t)" "app_turn_gate (put_turn i t app) = app_turn_gate app"
  "app_engine (put_turn i t app) = app_engine app" "app_story_id (put_turn i t app) = app_story_id app"
  "app_event_buffer_capacity (put_turn i t app) = app_event_buffer_capacity app"
  "app_max_input_bytes (put_turn i t app) = app_max_input_bytes app"
  by (simp_all add: put_turn_def)

lemma end_turn_sel [simp]:
  "app_turns (end_turn i t app) = (app_turns app)(i \<mapsto> t\<lparr>wt_phase := Ended\<rparr>)"
  "app_turn_gate (end_turn i t app) = app_turn_gate app + 1"
  "app_engine (end_turn i t app) = app_engine app" "app_story_id (end_turn i t app) = app_story_id app"
  "app_event_buffer_capacity (end_turn i t app) = app_event_buffer_capacity app"
  "app_max_input_bytes (end_turn i t app) = app_max_input_bytes app"
  by (simp_all add: end_turn_def)

definition spawned_turn :: "TurnRequest \<Rightarrow> web_turn" where
  "spawned_turn request =
     \<lparr>wt_request = request, wt_pending = [], wt_outcome = None, wt_exported = None, wt_buffer = [], wt_receiver_open = True,
      wt_cancelled = False, wt_phase = Spawned, wt_delivered = []\<rparr>"

text \<open>What one step of the service can do to one of its turns.\<close>

inductive turn_move :: "(EngineError \<Rightarrow> str) \<Rightarrow> nat \<Rightarrow> web_turn \<Rightarrow> web_turn \<Rightarrow> bool" for display capacity where
  ran: "wt_phase t = Spawned \<Longrightarrow> engine_run_turn te (wt_request t) eng = ((es, out), eng') \<Longrightarrow>
    turn_move display capacity t (t\<lparr>wt_pending := es, wt_outcome := Some out, wt_exported := ob, wt_phase := Emitting\<rparr>)"
| emitted: "wt_phase t = Emitting \<Longrightarrow> wt_pending t = e # es \<Longrightarrow>
    turn_move display capacity t (emit capacity e (t\<lparr>wt_pending := es\<rparr>))"
| finished: "wt_phase t = Emitting \<Longrightarrow> wt_pending t = [] \<Longrightarrow> wt_outcome t = Some (Some r) \<Longrightarrow>
    turn_move display capacity t (t\<lparr>wt_phase := Sending\<rparr>)"
| panicked: "wt_phase t = Emitting \<Longrightarrow> wt_pending t = [] \<Longrightarrow> (\<forall>r. wt_outcome t \<noteq> Some (Some r)) \<Longrightarrow>
    turn_move display capacity t (t\<lparr>wt_phase := Ended\<rparr>)"
| unsent: "wt_phase t = Sending \<Longrightarrow> wt_outcome t = Some (Some r) \<Longrightarrow> \<not> wt_receiver_open t \<Longrightarrow>
    turn_move display capacity t (t\<lparr>wt_phase := Ended\<rparr>)"
| sent: "wt_phase t = Sending \<Longrightarrow> wt_outcome t = Some (Some r) \<Longrightarrow> wt_receiver_open t \<Longrightarrow> length (wt_buffer t) < capacity \<Longrightarrow>
    turn_move display capacity t (t\<lparr>wt_buffer := wt_buffer t @ [terminal_event display r], wt_phase := Ended\<rparr>)"
| received: "wt_receiver_open t \<Longrightarrow> wt_buffer t = e # es \<Longrightarrow>
    turn_move display capacity t (t\<lparr>wt_buffer := es, wt_delivered := wt_delivered t @ [e]\<rparr>)"
| closed: "wt_receiver_open t \<Longrightarrow> turn_move display capacity t (close_stream t)"

text \<open>The shape of every step: nothing happens, a request enters a new turn, the engine runs, or one turn moves.\<close>

inductive app_move :: "(EngineError \<Rightarrow> str) \<Rightarrow> AppState \<Rightarrow> web_action \<Rightarrow> AppState \<Rightarrow> bool" for display app a where
  stuttered: "app_move display app a app"
| entered: "a = PostTurn i uuid message \<Longrightarrow> app_turns app i = None \<Longrightarrow> app_turn_gate app \<noteq> 0 \<Longrightarrow> tr_story_id request = app_story_id app \<Longrightarrow>
    app_move display app a (put_turn i (spawned_turn request) (app\<lparr>app_turn_gate := app_turn_gate app - 1\<rparr>))"
| ran: "app_turns app i = Some t \<Longrightarrow> wt_phase t = Spawned \<Longrightarrow> a = RunEngine i te io \<Longrightarrow>
    engine_run_turn te (wt_request t) (app_engine app) = ((es, out), eng') \<Longrightarrow>
    app_move display app a
      (put_turn i (t\<lparr>wt_pending := es, wt_outcome := Some out, wt_exported := ob, wt_phase := Emitting\<rparr>)
         (app\<lparr>app_engine := eng'\<rparr>))"
| moved: "app_turns app i = Some t \<Longrightarrow> turn_move display (app_event_buffer_capacity app) t t' \<Longrightarrow>
    wt_outcome t' = wt_outcome t \<Longrightarrow> (wt_phase t' = Ended \<longleftrightarrow> wt_phase t = Ended) \<Longrightarrow> app_move display app a (put_turn i t' app)"
| ended: "app_turns app i = Some t \<Longrightarrow> turn_move display (app_event_buffer_capacity app) t (t'\<lparr>wt_phase := Ended\<rparr>) \<Longrightarrow>
    wt_outcome t' = wt_outcome t \<Longrightarrow> wt_phase t \<noteq> Ended \<Longrightarrow> app_move display app a (end_turn i t' app)"

lemma post_turn_move:
  assumes "app_turns app i = None" and "a = PostTurn i uuid message"
  shows "app_move display app a (snd (post_turn i uuid message app))"
proof (cases "validate_player_input message (app_max_input_bytes app)")
  case (Inl e)
  then show ?thesis by (simp add: post_turn_def app_move.stuttered)
next
  case valid: (Inr u)
  show ?thesis
  proof (cases "app_turn_gate app = 0")
    case True
    then show ?thesis using valid by (simp add: post_turn_def app_move.stuttered)
  next
    case False
    show ?thesis
    proof (cases "id_try_new ''idempotency_key'' (lit ''web-turn-'' @ uuid)")
      case (Inl e)
      then show ?thesis using valid False by (simp add: post_turn_def app_move.stuttered)
    next
      case (Inr key)
      let ?request = "\<lparr>tr_story_id = app_story_id app, tr_idempotency_key = key, tr_player_input = message\<rparr>"
      have "snd (post_turn i uuid message app) =
          put_turn i (spawned_turn ?request) (app\<lparr>app_turn_gate := app_turn_gate app - 1\<rparr>)"
        using valid False Inr by (simp add: post_turn_def spawned_turn_def)
      then show ?thesis using app_move.entered [OF assms(2,1) False, of ?request] by simp
    qed
  qed
qed

lemma run_engine_move:
  assumes "app_turns app i = Some t" and "a = RunEngine i te io"
  shows "app_move display app a (run_engine display i te io t app)"
proof (cases "wt_phase t = Spawned")
  case True
  obtain es out eng' where run: "engine_run_turn te (wt_request t) (app_engine app) = ((es, out), eng')"
    by (metis surj_pair)
  obtain session trace where tr: "begin_turn_trace io (app_trace_context app) (app_story_id app)
      (tr_player_input (wt_request t)) = (session, trace)" by fastforce
  show ?thesis
    using app_move.ran [OF assms(1) True assms(2) run, of display "finish_turn_trace io display trace out"]
    by (simp add: run_engine_def True run tr)
next
  case False
  then show ?thesis by (simp add: run_engine_def app_move.stuttered)
qed

lemma emit_phase [simp]: "wt_phase (emit capacity e t) = wt_phase t" "wt_outcome (emit capacity e t) = wt_outcome t"
  by (simp_all add: emit_def split: TurnEvent.splits)

lemma emit_event_move:
  assumes t: "app_turns app i = Some t"
  shows "app_move display app a (emit_event i t app)"
proof (cases "wt_phase t = Emitting")
  case emitting: True
  show ?thesis
  proof (cases "wt_pending t")
    case (Cons e es)
    then show ?thesis
      using app_move.moved [OF t turn_move.emitted [OF emitting Cons]] emitting by (simp add: emit_event_def)
  next
    case Nil
    show ?thesis
    proof (cases "\<exists>r. wt_outcome t = Some (Some r)")
      case True
      then obtain r where r: "wt_outcome t = Some (Some r)" by blast
      then show ?thesis
        using app_move.moved [OF t turn_move.finished [OF emitting Nil r]] emitting Nil by (simp add: emit_event_def)
    next
      case False
      then have "emit_event i t app = end_turn i t app"
        using emitting Nil by (auto simp: emit_event_def split: option.splits)
      then show ?thesis
        using app_move.ended [OF t turn_move.panicked [OF emitting Nil]] emitting False by simp
    qed
  qed
next
  case False
  then show ?thesis by (simp add: emit_event_def app_move.stuttered)
qed

lemma send_terminal_move:
  assumes t: "app_turns app i = Some t"
  shows "app_move display app a (send_terminal display i t app)"
proof (cases "wt_phase t = Sending \<and> (\<exists>r. wt_outcome t = Some (Some r))")
  case True
  then obtain r where sending: "wt_phase t = Sending" "wt_outcome t = Some (Some r)" by blast
  let ?t = "t\<lparr>wt_buffer := wt_buffer t @ [terminal_event display r]\<rparr>"
  consider (room) "wt_receiver_open t" "length (wt_buffer t) < app_event_buffer_capacity app"
    | (full) "wt_receiver_open t" "\<not> length (wt_buffer t) < app_event_buffer_capacity app"
    | (gone) "\<not> wt_receiver_open t" by blast
  then show ?thesis
  proof cases
    case room
    then show ?thesis
      using app_move.ended [OF t, of display ?t] turn_move.sent [OF sending room] sending by (simp add: send_terminal_def)
  next
    case full
    then show ?thesis using sending by (simp add: send_terminal_def app_move.stuttered)
  next
    case gone
    then show ?thesis
      using app_move.ended [OF t turn_move.unsent [OF sending gone]] sending by (simp add: send_terminal_def)
  qed
next
  case False
  then have "send_terminal display i t app = app" by (auto simp: send_terminal_def split: option.splits)
  then show ?thesis by (simp add: app_move.stuttered)
qed

lemma close_stream_move:
  "app_turns app i = Some t \<Longrightarrow> wt_receiver_open t \<Longrightarrow> app_move display app a (put_turn i (close_stream t) app)"
  using app_move.moved [of app i t display "close_stream t"] turn_move.closed [of t] by (simp add: close_stream_def)

lemma receive_event_move:
  assumes t: "app_turns app i = Some t"
  shows "app_move display app a (receive_event i t app)"
proof (cases "wt_buffer t")
  case (Cons e es)
  then show ?thesis
    using app_move.moved [OF t turn_move.received [OF _ Cons]] by (simp add: receive_event_def app_move.stuttered)
next
  case Nil
  then show ?thesis using close_stream_move [OF t] by (simp add: receive_event_def app_move.stuttered)
qed

lemma web_step_move: "app_move display app a (web_step display app a)"
  by (cases a) (simp_all add: app_move.stuttered post_turn_move run_engine_move emit_event_move send_terminal_move
      receive_event_move close_stream_move split: option.split)

section \<open>One turn at a time\<close>

definition running :: "AppState \<Rightarrow> nat set" where
  "running app = {i. \<exists>t. app_turns app i = Some t \<and> wt_phase t \<noteq> Ended}"

definition gate_inv :: "AppState \<Rightarrow> bool" where
  "gate_inv app \<longleftrightarrow> finite (running app) \<and> app_turn_gate app + card (running app) = 1"

lemma running_update [simp]:
  "running (app\<lparr>app_turn_gate := g\<rparr>) = running app" "running (app\<lparr>app_engine := eng\<rparr>) = running app"
  "running (put_turn i t app) = (if wt_phase t = Ended then running app - {i} else insert i (running app))"
  "running (end_turn i t app) = running app - {i}"
  by (auto simp: running_def)

lemma running_iff: "app_turns app i = Some t \<Longrightarrow> i \<in> running app \<longleftrightarrow> wt_phase t \<noteq> Ended" "app_turns app i = None \<Longrightarrow> i \<notin> running app"
  by (auto simp: running_def)

lemma spawned_turn_sel [simp]:
  "wt_request (spawned_turn request) = request" "wt_pending (spawned_turn request) = []" "wt_outcome (spawned_turn request) = None"
  "wt_buffer (spawned_turn request) = []" "wt_receiver_open (spawned_turn request)" "\<not> wt_cancelled (spawned_turn request)"
  "wt_phase (spawned_turn request) = Spawned" "wt_delivered (spawned_turn request) = []"
  by (simp_all add: spawned_turn_def)

lemma gate_inv_open: "gate_inv app \<Longrightarrow> app_turn_gate app \<noteq> 0 \<longleftrightarrow> running app = {}"
  using card_0_eq [of "running app"] unfolding gate_inv_def by linarith

lemma gate_inv_only: "gate_inv app \<Longrightarrow> i \<in> running app \<Longrightarrow> running app = {i}"
  using card_le_Suc0_iff_eq [of "running app"] by (auto simp: gate_inv_def)

lemma gate_inv_step:
  assumes "gate_inv app" and "app_move display app a app'"
  shows "gate_inv app'"
  using assms(2)
proof cases
  case (entered i uuid message request)
  then show ?thesis using assms(1) gate_inv_open [OF assms(1)] by (simp add: gate_inv_def)
next
  case (ran i t te io es out eng' ob)
  then show ?thesis using assms(1) running_iff(1) [of app i t] by (simp add: gate_inv_def insert_absorb)
next
  case (moved i t t')
  then show ?thesis using assms(1) running_iff(1) [of app i t] by (simp add: gate_inv_def insert_absorb)
next
  case (ended i t t')
  have fin: "finite (running app)" and eq: "app_turn_gate app + card (running app) = 1"
    using assms(1) by (simp_all add: gate_inv_def)
  have "i \<in> running app" using ended running_iff(1) by simp
  from card_Suc_Diff1 [OF fin this] have "app_turn_gate app + 1 + card (running app - {i}) = 1" using eq by linarith
  then show ?thesis using fin unfolding gate_inv_def ended(1) running_update end_turn_sel by blast
qed (use assms(1) in simp)

text \<open>Invariants of the steps hold in every state of a run.\<close>

lemma web_run_invariant:
  assumes "P app" and "\<And>app a app'. P app \<Longrightarrow> a \<in> set steps \<Longrightarrow> app_move display app a app' \<Longrightarrow> P app'"
  shows "P (web_run display app steps)"
  using assms
proof (induction steps arbitrary: app)
  case (Cons a as)
  have "P (web_step display app a)" by (rule Cons.prems(2) [OF Cons.prems(1) _ web_step_move]) simp
  then have "P (web_run display (web_step display app a) as)" by (rule Cons.IH) (rule Cons.prems(2), simp_all)
  then show ?case by (simp add: web_run_def)
qed (simp add: web_run_def)

lemma build_state_Ok:
  assumes "build_state denv json prompt_new now uuid session_uuid config oconfig pack ccard = Some (Ok app)"
  shows "app_turn_gate app = 1" "app_turns app = Map.empty" "app_event_buffer_capacity app = wc_event_buffer_capacity config"
    and "\<exists>st spec info st'. st = Store_new (ec_persistence_config (wc_engine config))
      \<and> AiseFactory_create_story denv json now uuid spec st = (Some (Ok info), st')
      \<and> app_story_id app = sii_story_id info \<and> eng_store (app_engine app) = st'"
proof -
  obtain p k engine spec info st' where
    "pack = Some p" "ccard = Some k"
    and e: "AiseEngine_new (rmap (\<lambda>_. ()) (prompt_new (ec_prompt_config (wc_engine config))))
        (ec_persistence_config (wc_engine config)) (ec_pipeline_config (wc_engine config)) = Ok engine"
    and c: "AiseFactory_create_story denv json now uuid spec (eng_store engine) = (Some (Ok info), st')"
    and app: "app_turn_gate app = 1" "app_turns app = Map.empty" "app_event_buffer_capacity app = wc_event_buffer_capacity config"
      "app_story_id app = sii_story_id info" "eng_store (app_engine app) = st'"
    using assms by (auto simp: build_state_def split: option.splits sum.splits prod.splits)
  have "eng_store engine = Store_new (ec_persistence_config (wc_engine config))"
    using e by (auto simp: AiseEngine_new_def result_simps)
  then show "\<exists>st spec info st'. st = Store_new (ec_persistence_config (wc_engine config))
      \<and> AiseFactory_create_story denv json now uuid spec st = (Some (Ok info), st')
      \<and> app_story_id app = sii_story_id info \<and> eng_store (app_engine app) = st'"
    using c app by auto
qed (use assms in \<open>auto simp: build_state_def split: option.splits sum.splits prod.splits\<close>)

lemma web_run_gate_inv:
  assumes "build_state denv json prompt_new now uuid session_uuid config oconfig pack ccard = Some (Ok app)"
  shows "gate_inv (web_run display app steps)"
proof (rule web_run_invariant)
  show "gate_inv app" using build_state_Ok(1,2) [OF assms] by (simp add: gate_inv_def running_def)
qed (rule gate_inv_step)

text \<open>
  C12. The web service runs one turn at a time, however requests, reads, disconnects and the tasks of the
  turns interleave: after any steps at most one turn has not ended, and a request whose message is
  accepted is refused as a conflict exactly while there is one.
\<close>

theorem one_turn_at_a_time:
  assumes "build_state denv json prompt_new now uuid session_uuid config oconfig pack ccard = Some (Ok app0)"
    and "app = web_run display app0 steps"
    and "validate_player_input message (app_max_input_bytes app) = Ok ()" and "id_try_new ''idempotency_key'' (lit ''web-turn-'' @ u) = Ok key"
  shows "card (running app) \<le> 1 \<and> finite (running app)
    \<and> (running app = {} \<longrightarrow> (\<exists>app'. post_turn n u message app = (Ok (), app') \<and> running app' = {n}))
    \<and> (running app \<noteq> {} \<longrightarrow> (\<exists>reason. post_turn n u message app = (Err (409, reason), app)))"
proof -
  have inv: "gate_inv app" unfolding assms(2) by (rule web_run_gate_inv [OF assms(1)])
  then have gate: "app_turn_gate app \<noteq> 0 \<longleftrightarrow> running app = {}" by (rule gate_inv_open)
  then show ?thesis using inv assms(3,4) by (auto simp: gate_inv_def post_turn_def)
qed

section \<open>What the client reads\<close>

text \<open>The status events of the stages among the engine's events.\<close>

fun progress_events :: "TurnEvent list \<Rightarrow> sse_event list" where
  "progress_events [] = []"
| "progress_events (TurnPipeline stage # es) = status_event (readable_stage stage) # progress_events es"
| "progress_events (e # es) = progress_events es"

lemma progress_append: "progress_events (es @ fs) = progress_events es @ progress_events fs"
  by (induction es rule: progress_events.induct) simp_all

text \<open>
  The events of a turn so far: some of its progress, in order, and the result only when the task has
  ended, and then always unless the client left.
\<close>

definition stream_of :: "(EngineError \<Rightarrow> str) \<Rightarrow> web_turn \<Rightarrow> TurnEvent list \<Rightarrow> (EngineError + StoryCommit) option \<Rightarrow> sse_event list \<Rightarrow> bool" where
  "stream_of display t es out events \<longleftrightarrow>
     (\<exists>ss. subseq ss (progress_events es) \<and>
        (events = ss \<and> (wt_phase t = Ended \<and> wt_receiver_open t \<longrightarrow> out = None)
         \<or> wt_phase t = Ended \<and> (\<exists>r. out = Some r \<and> events = ss @ [terminal_event display r])))"

definition turn_ok :: "(EngineError \<Rightarrow> str) \<Rightarrow> nat \<Rightarrow> web_turn \<Rightarrow> bool" where
  "turn_ok display capacity t \<longleftrightarrow>
     length (wt_buffer t) \<le> capacity \<and> (\<not> wt_receiver_open t \<longrightarrow> wt_cancelled t \<and> wt_buffer t = []) \<and>
     (case wt_outcome t of
        None \<Rightarrow> wt_phase t = Spawned \<and> wt_delivered t @ wt_buffer t = []
      | Some out \<Rightarrow> wt_phase t \<noteq> Spawned \<and> (wt_phase t \<in> {Sending, Ended} \<longrightarrow> wt_pending t = []) \<and>
          (wt_phase t = Sending \<longrightarrow> out \<noteq> None) \<and>
          (\<exists>te eng eng' es. engine_run_turn te (wt_request t) eng = ((es @ wt_pending t, out), eng') \<and>
             stream_of display t es out (wt_delivered t @ wt_buffer t)))"

lemma stream_of_emitting:
  "wt_phase t \<noteq> Ended \<Longrightarrow> stream_of display t es out events \<longleftrightarrow> subseq events (progress_events es)"
  by (auto simp: stream_of_def)

lemma stream_of_closed:
  assumes "stream_of display t es out (xs @ ys)" and "wt_phase t' = wt_phase t" and "\<not> wt_receiver_open t'"
  shows "stream_of display t' es out xs"
proof -
  obtain ss where ss: "subseq ss (progress_events es)"
    and "xs @ ys = ss \<or> wt_phase t = Ended \<and> (\<exists>r. out = Some r \<and> xs @ ys = ss @ [terminal_event display r])"
    using assms(1) by (auto simp: stream_of_def)
  then consider (part) "prefix xs ss" | (whole) r where "wt_phase t = Ended" "out = Some r" "xs = ss @ [terminal_event display r]"
    by (metis prefix_append prefix_def prefix_snoc)
  then show ?thesis
  proof cases
    case part
    then have "subseq xs (progress_events es)" using ss by (meson prefix_imp_subseq subseq_order.trans)
    then show ?thesis using assms(3) by (auto simp: stream_of_def)
  next
    case (whole r)
    then show ?thesis using ss assms(2) by (auto simp: stream_of_def)
  qed
qed

lemma subseq_snoc_progress:
  "subseq xs (progress_events es) \<Longrightarrow> subseq xs (progress_events (es @ [e])) \<and>
     (\<forall>stage. e = TurnPipeline stage \<longrightarrow> subseq (xs @ [status_event (readable_stage stage)]) (progress_events (es @ [e])))"
  by (cases e) (simp_all add: progress_append subseq_append subseq_rev_drop_many)

lemma turn_ok_emit:
  assumes ok: "turn_ok display capacity t" and t: "wt_phase t = Emitting" "wt_pending t = e # es"
  shows "turn_ok display capacity (emit capacity e (t\<lparr>wt_pending := es\<rparr>))"
proof -
  obtain out te eng eng' fs where out: "wt_outcome t = Some out"
      "engine_run_turn te (wt_request t) eng = ((fs @ e # es, out), eng')" "subseq (wt_delivered t @ wt_buffer t) (progress_events fs)"
    using ok t by (cases "wt_outcome t") (simp_all add: turn_ok_def stream_of_emitting, blast)
  have run: "\<exists>te eng eng' fs. engine_run_turn te (wt_request t) eng = ((fs @ es, out), eng') \<and> subseq xs (progress_events fs)"
    if "subseq xs (progress_events (fs @ [e]))" for xs
    using out(2) that by (metis append.assoc append_Cons append_Nil)
  show ?thesis
    using ok t out(1) run subseq_snoc_progress [OF out(3), of e]
    by (auto simp: turn_ok_def stream_of_emitting emit_def simp flip: append_assoc split: TurnEvent.splits option.splits)
qed

lemma turn_ok_move:
  assumes ok: "turn_ok display capacity t" and "turn_move display capacity t t'"
  shows "turn_ok display capacity t'"
  using assms(2)
proof cases
  case (ran te eng es out eng' ob)
  then have "wt_outcome t = None" using ok by (auto simp: turn_ok_def split: option.splits)
  then have "wt_delivered t = []" "wt_buffer t = []" using ok by (simp_all add: turn_ok_def)
  moreover have "\<exists>te eng eng' fs. engine_run_turn te (wt_request t) eng = ((fs @ es, out), eng') \<and> subseq [] (progress_events fs)"
    using ran(3) by (metis append_Nil list_emb_Nil)
  ultimately show ?thesis using ok ran(1,2) by (auto simp: turn_ok_def stream_of_emitting)
next
  case (emitted e es)
  then show ?thesis using turn_ok_emit [OF ok] by simp
next
  case (finished r)
  then show ?thesis using ok by (auto simp: turn_ok_def stream_of_emitting)
next
  case panicked
  then have "wt_outcome t = Some None" using ok by (cases "wt_outcome t") (auto simp: turn_ok_def)
  then show ?thesis using ok panicked by (auto simp: turn_ok_def stream_of_def)
next
  case (unsent r)
  then show ?thesis using ok by (auto simp: turn_ok_def stream_of_def; blast)
next
  case (sent r)
  have "\<exists>te eng eng' es. engine_run_turn te (wt_request t) eng = ((es, Some r), eng') \<and>
      subseq (wt_delivered t @ wt_buffer t) (progress_events es)"
    using ok sent(2-4) by (auto simp: turn_ok_def stream_of_emitting; blast)
  then show ?thesis using ok sent by (auto simp: turn_ok_def stream_of_def)
next
  case (received e es)
  then show ?thesis using ok by (auto simp: turn_ok_def stream_of_def split: option.splits)
next
  case closed
  have "stream_of display (close_stream t) es out (wt_delivered t)" if "stream_of display t es out (wt_delivered t @ wt_buffer t)" for es out
    using that by (rule stream_of_closed) (simp_all add: close_stream_def)
  then show ?thesis using ok closed by (auto simp: turn_ok_def close_stream_def split: option.splits; blast)
qed

lemma turn_ok_spawned: "turn_ok display capacity (spawned_turn request)"
  by (simp add: turn_ok_def)

text \<open>A turn that the engine ran moves like every other.\<close>

lemma app_move_turns:
  assumes "app_move display app a app'" and "app_turns app' j = Some t'"
  shows "app_event_buffer_capacity app' = app_event_buffer_capacity app \<and> app_story_id app' = app_story_id app \<and>
    (app_turns app j = Some t' \<or> (\<exists>request. t' = spawned_turn request \<and> tr_story_id request = app_story_id app)
     \<or> (\<exists>t. app_turns app j = Some t \<and> turn_move display (app_event_buffer_capacity app) t t'))"
  using assms(1)
proof cases
  case (ran i t te io es out eng' ob)
  then show ?thesis using turn_move.ran [OF ran(3,5), of display _ ob] assms(2) by (auto split: if_splits)
qed (use assms(2) in \<open>auto split: if_splits\<close>)

definition turns_ok :: "(EngineError \<Rightarrow> str) \<Rightarrow> nat \<Rightarrow> AppState \<Rightarrow> bool" where
  "turns_ok display capacity app \<longleftrightarrow>
     app_event_buffer_capacity app = capacity \<and> (\<forall>i t. app_turns app i = Some t \<longrightarrow> turn_ok display capacity t)"

lemma turns_ok_step:
  assumes ok: "turns_ok display capacity app" and "app_move display app a app'"
  shows "turns_ok display capacity app'"
proof -
  have "app_event_buffer_capacity app' = capacity"
    using assms(2) ok by cases (auto simp: turns_ok_def)
  moreover have "turn_ok display capacity t" if "app_turns app' i = Some t" for i t
    using app_move_turns [OF assms(2) that] ok turn_ok_spawned turn_ok_move unfolding turns_ok_def by metis
  ultimately show ?thesis by (simp add: turns_ok_def)
qed

lemma web_run_turns_ok:
  assumes "build_state denv json prompt_new now uuid session_uuid config oconfig pack ccard = Some (Ok app)"
  shows "turns_ok display (wc_event_buffer_capacity config) (web_run display app steps)"
proof (rule web_run_invariant)
  show "turns_ok display (wc_event_buffer_capacity config) app" using build_state_Ok(2,3) [OF assms] by (simp add: turns_ok_def)
qed (rule turns_ok_step)

text \<open>
  C13. The stream of a turn is truthful. The channel never holds more than its capacity; what the client
  has read and what waits for it are stages the engine announced for this very request, in the engine's
  order and none twice, followed by the result of the run, once and last, when the task has ended. A
  client that stays gets the result; one that leaves has the turn cancelled.
\<close>

theorem stream_truthful:
  assumes "build_state denv json prompt_new now uuid session_uuid config oconfig pack ccard = Some (Ok app0)"
    and "app_turns (web_run display app0 steps) i = Some t"
  shows "length (wt_buffer t) \<le> wc_event_buffer_capacity config \<and> (\<not> wt_receiver_open t \<longrightarrow> wt_cancelled t) \<and>
    (if wt_phase t = Spawned then wt_delivered t @ wt_buffer t = []
     else \<exists>te eng eng' es out ss. engine_run_turn te (wt_request t) eng = ((es, out), eng') \<and> wt_outcome t = Some out \<and>
       subseq ss (progress_events es) \<and>
       (wt_delivered t @ wt_buffer t = ss \<and> (wt_phase t = Ended \<and> wt_receiver_open t \<longrightarrow> out = None)
        \<or> wt_phase t = Ended \<and> (\<exists>r. out = Some r \<and> wt_delivered t @ wt_buffer t = ss @ [terminal_event display r])))"
proof -
  have ok: "turn_ok display (wc_event_buffer_capacity config) t"
    using web_run_turns_ok [OF assms(1), of display steps] assms(2) by (simp add: turns_ok_def)
  have "subseq ss (progress_events (es @ fs))" if "subseq ss (progress_events es)" for ss es fs
    using that by (simp add: progress_append subseq_rev_drop_many)
  then show ?thesis
    using ok by (cases "wt_outcome t") (auto simp: turn_ok_def stream_of_def; blast)+
qed

section \<open>Commits are durable\<close>

text \<open>What the service relies on: a run keeps what was committed, and what it reports as committed is.\<close>

locale durable_engine =
  fixes ok :: "'e \<Rightarrow> bool"
    and env_ok :: "'t \<Rightarrow> bool"
    and run :: "'t \<Rightarrow> TurnRequest \<Rightarrow> 'e \<Rightarrow> (TurnEvent list \<times> (EngineError + StoryCommit) option) \<times> 'e"
    and found :: "StoryId \<Rightarrow> IdempotencyKey \<Rightarrow> StoryCommit \<Rightarrow> 'e \<Rightarrow> bool"
  assumes run_ok: "ok e \<Longrightarrow> env_ok te \<Longrightarrow> run te request e = ((es, out), e') \<Longrightarrow> ok e'"
    and run_commits: "ok e \<Longrightarrow> env_ok te \<Longrightarrow> run te request e = ((es, Some (Ok c)), e') \<Longrightarrow>
      found (tr_story_id request) (tr_idempotency_key request) c e'"
    and run_keeps: "found sid key c e \<Longrightarrow> run te request e = ((es, out), e') \<Longrightarrow> found sid key c e'"
begin

lemma run_durable:
  assumes "ok e" and "env_ok te" and "run te request e = ((es, out), e')"
    and "found sid key c e \<or> out = Some (Ok c) \<and> sid = tr_story_id request \<and> key = tr_idempotency_key request"
  shows "found sid key c e'"
  using assms run_commits run_keeps by blast

end

definition committed_in :: "StoryId \<Rightarrow> IdempotencyKey \<Rightarrow> StoryCommit \<Rightarrow> AiseEngine \<Rightarrow> bool" where
  "committed_in sid key c eng \<longleftrightarrow> StoryBackend_find_committed sid key (store_story (eng_store eng)) = Ok (Some c)"

lemma commit_execute_keeps:
  assumes "commit_execute json now input ctx st = (r, st')"
    and "StoryBackend_find_committed sid key (store_story st) = Ok (Some c)"
  shows "StoryBackend_find_committed sid key (store_story st') = Ok (Some c)"
  using assms(1)
proof (cases rule: commit_execute_cases)
  case (fresh r' s)
  obtain story where story: "bm_get (ss_stories (story_mem (store_story st))) sid = Some story" "bm_get (st_committed story) key = Some c"
    using assms(2) by (auto simp: find_committed_story)
  from StoryBackend_commit_mem [OF fresh(1)] have "StoryBackend_find_committed sid key s = Ok (Some c)"
  proof (cases rule: commit_cases)
    case (appended story' info)
    then show ?thesis using story by (auto simp: find_committed_story)
  qed (use story in \<open>simp_all add: find_committed_story\<close>)
  then show ?thesis using fresh(3) by simp
qed (use assms(2) in simp_all)

lemma engine_run_turn_keeps:
  assumes "committed_in sid key c eng" and "engine_run_turn te request eng = ((es, out), eng')"
  shows "committed_in sid key c eng'"
  using assms(2)
proof (cases rule: engine_run_turn_cases)
  case (refused ctx stages input e st)
  then show ?thesis using assms(1) commit_execute_keeps [OF refused(6)] by (simp add: committed_in_def)
next
  case (committed ctx stages input d st)
  then show ?thesis using assms(1) commit_execute_keeps [OF committed(6)] by (simp add: committed_in_def)
qed (use assms(1) in simp_all)

interpretation we: durable_engine "\<lambda>eng. engine_reachable denv json config (eng_store eng)" "\<lambda>te. tv_roles_json te = json"
  engine_run_turn committed_in for denv json config
proof
  fix eng te request es out eng'
  assume ok: "engine_reachable denv json config (eng_store eng)" and te: "tv_roles_json te = json"
    and run: "engine_run_turn te request eng = ((es, out), eng')"
  note outcome = run_turn_outcome [of denv te config eng request es out eng', unfolded te, OF ok run]
  show "engine_reachable denv json config (eng_store eng')" using outcome by blast
next
  fix eng te request es c eng'
  assume ok: "engine_reachable denv json config (eng_store eng)" and te: "tv_roles_json te = json"
    and run: "engine_run_turn te request eng = ((es, Some (Ok c)), eng')"
  show "committed_in (tr_story_id request) (tr_idempotency_key request) c eng'"
    using run_turn_outcome [of denv te config eng request es "Some (Ok c)" eng', unfolded te, OF ok run]
    by (simp add: committed_in_def)
qed (rule engine_run_turn_keeps)

definition runs_with :: "(roles \<Rightarrow> json_stream) \<Rightarrow> web_action \<Rightarrow> bool" where
  "runs_with json a \<longleftrightarrow> (\<forall>i te io. a = RunEngine i te io \<longrightarrow> tv_roles_json te = json)"

definition commits_ok :: "digest_env \<Rightarrow> (roles \<Rightarrow> json_stream) \<Rightarrow> PersistanceConfig \<Rightarrow> AppState \<Rightarrow> bool" where
  "commits_ok denv json config app \<longleftrightarrow> engine_reachable denv json config (eng_store (app_engine app)) \<and>
     (\<forall>i t. app_turns app i = Some t \<longrightarrow> tr_story_id (wt_request t) = app_story_id app \<and>
        (\<forall>c. wt_outcome t = Some (Some (Ok c)) \<longrightarrow> committed_in (app_story_id app) (tr_idempotency_key (wt_request t)) c (app_engine app)))"

lemma turn_move_request: "turn_move display capacity t t' \<Longrightarrow> wt_request t' = wt_request t"
  by (induction rule: turn_move.induct) (auto simp: emit_def close_stream_def split: TurnEvent.splits)

lemma commits_ok_step:
  assumes ok: "commits_ok denv json config app" and "runs_with json a" and "app_move display app a app'"
  shows "commits_ok denv json config app'"
  using assms(3)
proof cases
  case (ran i t te io es out eng' ob)
  have te: "tv_roles_json te = json" using assms(2) ran(4) by (simp add: runs_with_def)
  have reach: "engine_reachable denv json config (eng_store (app_engine app))" using ok by (simp add: commits_ok_def)
  note durable = we.run_durable [OF reach te ran(5)]
  have "engine_reachable denv json config (eng_store eng')" by (rule we.run_ok [OF reach te ran(5)])
  then show ?thesis using ok ran(1,2) durable by (auto simp: commits_ok_def)
next
  case (moved i t t')
  then show ?thesis using ok turn_move_request [OF moved(3)] by (auto simp: commits_ok_def)
next
  case (ended i t t')
  then show ?thesis using ok turn_move_request [OF ended(3)] by (auto simp: commits_ok_def)
qed (use ok in \<open>auto simp: commits_ok_def\<close>)

lemma web_run_commits_ok:
  assumes "build_state denv json prompt_new now uuid session_uuid config oconfig pack ccard = Some (Ok app)"
    and "list_all (runs_with json) steps"
  shows "commits_ok denv json (ec_persistence_config (wc_engine config)) (web_run display app steps)"
proof (rule web_run_invariant)
  have "engine_reachable denv json (ec_persistence_config (wc_engine config)) (eng_store (app_engine app))"
    using build_state_Ok(4) [OF assms(1)] engine_reachable.create [OF engine_reachable.start] by metis
  then show "commits_ok denv json (ec_persistence_config (wc_engine config)) app"
    using build_state_Ok(2) [OF assms(1)] by (simp add: commits_ok_def)
next
  fix app a app'
  assume "commits_ok denv json (ec_persistence_config (wc_engine config)) app" "a \<in> set steps" "app_move display app a app'"
  then show "commits_ok denv json (ec_persistence_config (wc_engine config)) app'"
    using assms(2) commits_ok_step by (auto simp: list_all_iff)
qed

lemma progress_status: "ev \<in> set (progress_events es) \<Longrightarrow> ev_event ev = ''status''"
  by (induction es rule: progress_events.induct) (auto simp: status_event_def)

lemma stream_of_set:
  assumes "stream_of display t es out events" and "e \<in> set events"
  shows "ev_event e = ''status'' \<or> (\<exists>r. out = Some r \<and> e = terminal_event display r)"
proof -
  obtain ss where ss: "subseq ss (progress_events es)"
    and ev: "events = ss \<or> (\<exists>r. out = Some r \<and> events = ss @ [terminal_event display r])"
    using assms(1) unfolding stream_of_def by blast
  have "ev_event e = ''status''" if "e \<in> set ss"
    using ss that progress_status by (auto elim: list_emb_set)
  then show ?thesis using ev assms(2) by auto
qed

lemma committed_delivered:
  assumes "turn_ok display capacity t" and "ev \<in> set (wt_delivered t)" and "ev_event ev = ''committed''"
  obtains c where "wt_outcome t = Some (Some (Ok c))" "ev = committed_event (turn_segment (sc_turn c)) (turn_number (sc_turn c))"
proof (cases "wt_outcome t")
  case None
  then show thesis using assms(1,2) by (simp add: turn_ok_def)
next
  case (Some out)
  then obtain es where st: "stream_of display t es out (wt_delivered t @ wt_buffer t)"
    using assms(1) by (auto simp: turn_ok_def)
  obtain r where "out = Some r" "ev = terminal_event display r"
    using stream_of_set [OF st, of ev] assms(2,3) by auto
  then show thesis using Some assms(3) that by (auto simp: terminal_event_def error_event_def split: sum.splits)
qed

text \<open>
  C11. A turn the client was told is committed is in the store for good: in every later state of the
  service the story's store answers the request's key with a commit that has the text and the number
  the client read.
\<close>

theorem reported_commit_durable:
  assumes "build_state denv json prompt_new now uuid session_uuid config oconfig pack ccard = Some (Ok app0)"
    and "list_all (runs_with json) steps" and "app = web_run display app0 steps"
    and "app_turns app i = Some t" and "ev \<in> set (wt_delivered t)" and "ev_event ev = ''committed''"
  shows "\<exists>c. StoryBackend_find_committed (app_story_id app) (tr_idempotency_key (wt_request t))
        (store_story (eng_store (app_engine app))) = Ok (Some c)
      \<and> ev = committed_event (turn_segment (sc_turn c)) (turn_number (sc_turn c))"
proof -
  have "turn_ok display (wc_event_buffer_capacity config) t"
    using web_run_turns_ok [OF assms(1), of display steps] assms(3,4) by (simp add: turns_ok_def)
  then obtain c where c: "wt_outcome t = Some (Some (Ok c))" "ev = committed_event (turn_segment (sc_turn c)) (turn_number (sc_turn c))"
    using assms(5,6) by (rule committed_delivered)
  then have "committed_in (app_story_id app) (tr_idempotency_key (wt_request t)) c (app_engine app)"
    using web_run_commits_ok [OF assms(1,2), of display] assms(3,4) by (auto simp: commits_ok_def)
  then show ?thesis using c(2) by (auto simp: committed_in_def)
qed

section \<open>Turns end\<close>

lemma web_run_append: "web_run display app (as @ bs) = web_run display (web_run display app as) bs"
  by (simp add: web_run_def)

text \<open>The task of a turn whose engine has run emits its events one by one and comes to its end.\<close>

lemma emits_all:
  assumes "app_turns app i = Some t" and "wt_phase t \<noteq> Spawned"
  obtains m t' where "app_turns (web_run display app (replicate m (EmitEvent i))) i = Some t'"
    "wt_phase t' = Ended \<or> wt_phase t' = Sending"
proof (cases "wt_phase t = Emitting")
  case True
  have "\<exists>m t'. app_turns (web_run display app (replicate m (EmitEvent i))) i = Some t' \<and> (wt_phase t' = Ended \<or> wt_phase t' = Sending)"
    using assms(1) True
  proof (induction "wt_pending t" arbitrary: app t)
    case Nil
    then show ?case
      by (intro exI [of _ 1]) (auto simp: web_run_def emit_event_def split: option.split)
  next
    case (Cons e es)
    let ?t = "emit (app_event_buffer_capacity app) e (t\<lparr>wt_pending := es\<rparr>)"
    have "app_turns (web_step display app (EmitEvent i)) i = Some ?t"
      using Cons.prems Cons.hyps(2) by (simp add: emit_event_def flip: Cons.hyps(2))
    moreover have "es = wt_pending ?t" by (simp add: emit_def split: TurnEvent.splits)
    ultimately obtain m t' where "app_turns (web_run display (web_step display app (EmitEvent i)) (replicate m (EmitEvent i))) i = Some t'"
        "wt_phase t' = Ended \<or> wt_phase t' = Sending"
      using Cons.hyps(1) [of ?t "web_step display app (EmitEvent i)"] Cons.prems(2) by (auto simp del: web_step.simps)
    then show ?case by (intro exI [of _ "Suc m"]) (simp add: web_run_def)
  qed
  then show thesis using that by blast
next
  case False
  then show thesis using that [of 0 t] assms by (cases "wt_phase t") (simp_all add: web_run_def)
qed

text \<open>Only requests make a turn run; and a turn that is sending ends when the client leaves or reads on.\<close>

lemma running_shrinks: "app_move display app a app' \<Longrightarrow> \<forall>i uuid message. a \<noteq> PostTurn i uuid message \<Longrightarrow> running app' \<subseteq> running app"
  by (induction rule: app_move.induct) (auto simp: running_iff)

lemma web_run_running_shrinks:
  "\<forall>a \<in> set steps. \<forall>i uuid message. a \<noteq> PostTurn i uuid message \<Longrightarrow> running (web_run display app steps) \<subseteq> running app"
proof (induction steps arbitrary: app)
  case (Cons a as)
  then have "running (web_run display app (a # as)) \<subseteq> running (web_step display app a)" by (simp add: web_run_def)
  also have "\<dots> \<subseteq> running app" by (rule running_shrinks [OF web_step_move]) (use Cons.prems in simp)
  finally show ?case .
qed (simp add: web_run_def)

lemma send_ends:
  assumes "app_turns app i = Some t" and "turn_ok display (app_event_buffer_capacity app) t" and "0 < app_event_buffer_capacity app"
    and "wt_phase t = Ended \<or> wt_phase t = Sending" and "a \<in> {CloseStream i, ReceiveEvent i}"
  shows "i \<notin> running (web_run display app [a, SendTerminal i])"
proof (cases "wt_phase t = Ended")
  case True
  then have "i \<notin> running app" using assms(1) by (simp add: running_iff)
  then show ?thesis using web_run_running_shrinks [of "[a, SendTerminal i]" display app] assms(5) by auto
next
  case False
  then obtain r where "wt_phase t = Sending" "wt_outcome t = Some (Some r)"
    using assms(2,4) by (cases "wt_outcome t") (auto simp: turn_ok_def)
  then show ?thesis
    using assms
    by (cases "wt_receiver_open t"; cases "wt_buffer t")
      (auto simp: web_run_def running_def close_stream_def receive_event_def send_terminal_def end_turn_def turn_ok_def)
qed

text \<open>
  C14. The gate always opens again. From every state of the service the turn that runs, if any, ends by
  steps of its own task once its client reads on or leaves, whatever the engine does with it, and then
  the permit is back.
\<close>

theorem gate_reopens:
  assumes "build_state denv json prompt_new now uuid session_uuid config oconfig pack ccard = Some (Ok app0)"
    and "0 < wc_event_buffer_capacity config" and "app = web_run display app0 steps" and "i \<in> running app"
    and "a \<in> {CloseStream i, ReceiveEvent i}"
  shows "\<exists>m. app_turn_gate (web_run display app (RunEngine i te io # replicate m (EmitEvent i) @ [a, SendTerminal i])) = 1"
proof -
  have only: "running app = {i}"
    using web_run_gate_inv [OF assms(1), of display steps] assms(3,4)
    by (simp add: gate_inv_only)
  obtain t where t: "app_turns app i = Some t" using assms(4) by (auto simp: running_def)
  let ?ran = "web_step display app (RunEngine i te io)"
  obtain t1 where t1: "app_turns ?ran i = Some t1" "wt_phase t1 \<noteq> Spawned"
    using t by (cases "wt_phase t = Spawned") (simp_all add: run_engine_def case_prod_beta)
  obtain m t2 where t2: "app_turns (web_run display ?ran (replicate m (EmitEvent i))) i = Some t2" "wt_phase t2 = Ended \<or> wt_phase t2 = Sending"
    using t1 by (rule emits_all)
  let ?steps = "steps @ RunEngine i te io # replicate m (EmitEvent i)"
  let ?all = "?steps @ [a, SendTerminal i]"
  have eq: "web_run display ?ran (replicate m (EmitEvent i)) = web_run display app0 ?steps"
    by (simp add: web_run_def assms(3))
  have ok: "turns_ok display (wc_event_buffer_capacity config) (web_run display app0 ?steps)"
    by (rule web_run_turns_ok [OF assms(1)])
  have "i \<notin> running (web_run display (web_run display app0 ?steps) [a, SendTerminal i])"
    by (rule send_ends [OF t2(1) [unfolded eq] _ _ t2(2) assms(5)]) (use ok t2(1) eq assms(2) in \<open>simp_all add: turns_ok_def\<close>)
  then have "i \<notin> running (web_run display app0 ?all)" unfolding web_run_append .
  moreover have "web_run display app0 ?all = web_run display app (RunEngine i te io # replicate m (EmitEvent i) @ [a, SendTerminal i])"
    by (simp add: web_run_def assms(3))
  moreover have "running (web_run display app (RunEngine i te io # replicate m (EmitEvent i) @ [a, SendTerminal i])) \<subseteq> {i}"
    unfolding only [symmetric] by (rule web_run_running_shrinks) (use assms(5) in auto)
  ultimately have "running (web_run display app0 ?all) = {}" by auto
  then have "app_turn_gate (web_run display app0 ?all) = 1"
    using web_run_gate_inv [OF assms(1), of display ?all] by (simp add: gate_inv_def)
  then show ?thesis by (auto simp: web_run_def assms(3))
qed

end
