(* ===== verification/Examples_Service.thy ===== *)
theory Examples_Service
  imports Examples_Turn Web_Safety
begin

text \<open>
  The service around the small story of \<open>Examples\<close>: a prompt directory with one prompt, a trace and an
  observation, a gateway with one permit, a tracing configuration, and a web service that runs a turn of
  the story from a request to the event that reports its commit. The properties of the prompt catalog,
  of tracing, of the gateway, of the masker, of the export and of the web service are applied here.
\<close>

section \<open>Prompts\<close>

definition demo_fs :: file_system where
  "demo_fs = \<lparr>fs_metadata_len = (\<lambda>p. Some 10), fs_read_to_string = (\<lambda>p. Some []), fs_canonicalize = Some,
     fs_contents = (\<lambda>p. if p = lit ''prompts/a.txt'' then Some (as_bytes (lit ''Hi'')) else None)\<rparr>"

definition demo_toml :: "str \<Rightarrow> PromptManifest option" where
  "demo_toml t = Some \<lparr>pm_prompts = [\<lparr>pme_id = lit ''plan'', pme_csi = lit ''a.txt'', pme_rc = lit ''a.txt'', pme_fti = lit ''a.txt''\<rparr>]\<rparr>"

definition demo_mj :: minijinja where
  "demo_mj = \<lparr>mj_compiles = (\<lambda>n s. True), mj_render = (\<lambda>env n vars. env n)\<rparr>"

definition demo_catalog :: LoadedCatalog where
  "demo_catalog = \<lparr>lc_prompts = [\<lparr>lp_id = lit ''plan'', lp_csi = lit ''Hi'', lp_rc = lit ''Hi'', lp_fti = lit ''Hi''\<rparr>],
     lc_total_template_bytes = 6\<rparr>"

lemma demo_catalog_loads: "load_catalog demo_fs demo_toml PromptConfig_default = Ok demo_catalog"
  by code_simp

lemma load_catalog_bounded_witness:
  "length (lc_prompts demo_catalog) \<le> max_prompts PromptConfig_default
   \<and> lc_total_template_bytes demo_catalog \<le> max_total_template_bytes PromptConfig_default"
  using load_catalog_bounded [OF demo_catalog_loads] by blast

theorem templates_confined_witness:
  "\<exists>relative base_dir file. ParentDir \<notin> set (components relative) \<and> \<not> has_root relative
    \<and> fs_canonicalize demo_fs (pcfg_directory PromptConfig_default) = Some base_dir
    \<and> fs_canonicalize demo_fs (path_join (pcfg_directory PromptConfig_default) relative) = Some file
    \<and> path_starts_with file base_dir \<and> fs_contents demo_fs file = Some (as_bytes (lit ''Hi''))"
  using templates_confined [OF demo_catalog_loads, of "hd (lc_prompts demo_catalog)" Csi]
  by (simp add: demo_catalog_def PromptConfig_default_def)

lemma demo_prompt_new: "\<not> isl (Prompt_new demo_fs demo_toml demo_mj PromptConfig_default)"
  by code_simp

lemma prompt_serves_loaded_witness:
  "\<exists>P. Prompt_new demo_fs demo_toml demo_mj PromptConfig_default = Ok P
     \<and> pr_env (prompt_renderer P) (template_name (lit ''plan'') Rc) = Some (lit ''Hi'')"
proof -
  note P = not_isl_projr [OF demo_prompt_new]
  from prompt_serves_loaded [OF this] P demo_catalog_loads show ?thesis
    by (auto simp: demo_catalog_def)
qed

section \<open>Traces\<close>

definition demo_content :: ObservabilityContentConfig where
  "demo_content = \<lparr>occ_policy = RedactedContent, occ_max_field_bytes = 3, occ_max_observation_bytes = 3, occ_detector_overlap_bytes = 0\<rparr>"

theorem capture_longest_prefix_witness:
  "\<exists>u rest. [97, 8364, 98] = u @ rest
    \<and> ContentCapture_encode (\<lambda>b. []) demo_content (Some [as_bytes [97], as_bytes [8364, 98]]) 3
        = \<lparr>cr_content = Some \<lparr>bc_json = u, bc_original_bytes = 5, bc_captured_bytes = str_len u,
             bc_truncated = (rest \<noteq> []), bc_sha256 = []\<rparr>, cr_encode_failed = False\<rparr>
    \<and> str_len u \<le> capture_limit demo_content 3"
  using capture_longest_prefix [of demo_content "[as_bytes [97], as_bytes [8364, 98]]" "[97, 8364, 98]" "\<lambda>b. []" 3]
  by (auto simp: demo_content_def as_bytes_def is_scalar_def utf8_len_def)

definition demo_trace :: Trace where
  "demo_trace = begin_trace 0 True
     (ObservationSession_begin \<lparr>ss_id = Some (lit ''s''), ss_user_id = None, ss_metadata = []\<rparr> demo_content)
     \<lparr>ts_name = ''web-turn'', ts_input = None, ts_metadata = [], ts_tags = [lit ''web'']\<rparr>"

definition demo_ob_spec :: ObservationSpec where
  "demo_ob_spec = \<lparr>os_name = ''child'', os_kind = Span, os_input = None, os_metadata = []\<rparr>"

lemma trace_attributes_reach_observations_witness:
  "{''aise.trace.name'', ''aise.schema.version'', ''aise.trace.tags''}
     \<subseteq> at_key ` set (ob_propagated (begin_observation 1 True demo_trace demo_ob_spec))"
proof -
  have "trace_state demo_trace" unfolding demo_trace_def by (rule trace_state.started)
  from trace_attributes_reach_observations [OF this observed_under.from_trace] show ?thesis by simp
qed

definition demo_ob :: Observation where
  "demo_ob = begin_observation 1 True demo_trace demo_ob_spec"

lemma observation_single_outcome_witness:
  "sp_status_code (ob_span (Observation_finish (\<lambda>j. None) demo_ob (ObservationOutcome_default\<lparr>oo_status := StOk\<rparr>))) = Some ''OK''"
proof -
  have "\<not> ob_finished demo_ob \<and> is_recording demo_ob \<and> sp_status_code (ob_span demo_ob) = None" by code_simp
  with observation_single_outcome [of demo_ob "\<lambda>j. None" "ObservationOutcome_default\<lparr>oo_status := StOk\<rparr>"] show ?thesis
    by (simp add: Let_def ObservationOutcome_default_def)
qed

section \<open>The gateway\<close>

definition demo_llm_config :: LlmConfig where
  "demo_llm_config = \<lparr>lc_provider = OpenAiCompat, lc_base_url = [], lc_api_key = [], lc_model = [], lc_temperature = Fin 0,
     lc_timeout_ms = 100, lc_max_concurrent_calls = 1\<rparr>"

definition demo_control :: TurnControl where
  "demo_control = \<lparr>tc_cancelled = False, tc_deadline = 50\<rparr>"

definition demo_gw_steps :: "gw_step list" where
  "demo_gw_steps = [Enter 0 [] None demo_control, Poll 0 True, Enter 1 [] None demo_control, Advance 60]"

definition demo_waiting :: llm_task where
  "demo_waiting = the (gw_calls (gateway_run demo_llm_config demo_gw_steps) 1)"

lemma demo_waiting_at:
  "gw_calls (gateway_run demo_llm_config demo_gw_steps) 1 = Some demo_waiting \<and> task_phase demo_waiting = Acquiring
   \<and> call_control demo_waiting = demo_control \<and> gw_now (gateway_run demo_llm_config demo_gw_steps) = 60"
  by code_simp

theorem poll_returns_by_deadline_witness:
  "map_option task_phase (gw_calls (gateway_step (gateway_run demo_llm_config demo_gw_steps) (Poll 1 True)) 1)
     = Some (Returned (Err Timeout))"
  using poll_returns_by_deadline [OF refl, of demo_llm_config demo_gw_steps 1 demo_waiting True] demo_waiting_at
  by (simp add: demo_control_def)

lemma gateway_result_origin_witness:
  "tc_deadline demo_control \<le> gw_now (gateway_run demo_llm_config (demo_gw_steps @ [Poll 1 True]))
   \<or> lc_timeout_ms demo_llm_config \<le> gw_now (gateway_run demo_llm_config (demo_gw_steps @ [Poll 1 True]))"
proof -
  let ?gw = "gateway_run demo_llm_config (demo_gw_steps @ [Poll 1 True])"
  have "map_option (\<lambda>t. (task_phase t, call_control t)) (gw_calls ?gw 1) = Some (Returned (Err Timeout), demo_control)"
    by code_simp
  then obtain t where t: "gw_calls ?gw 1 = Some t" "task_phase t = Returned (Err Timeout)" "call_control t = demo_control" by auto
  have "Answer 1 (Err Timeout) \<notin> set (demo_gw_steps @ [Poll 1 True])" by (simp add: demo_gw_steps_def)
  with gateway_result_origin [OF t(1,2)] t(3) show ?thesis by auto
qed

section \<open>What leaves the process\<close>

definition demo_masker :: StreamingMasker where
  "demo_masker = \<lparr>sm_max_output_bytes = 64, sm_redact_pii = True\<rparr>"


definition demo_span :: SpanData where
  "demo_span = \<lparr>sd_name = lit ''turn'', sd_attributes = [(''aise.trace.name'', OvString (lit ''sk-123'')), (''aise.internal'', OvString (lit ''x''))],
     sd_events = [], sd_links = [], sd_status = StatusError (lit ''sk-123'')\<rparr>"


definition demo_config_env :: config_env where
  "demo_config_env = \<lparr>ce_get = (\<lambda>k. if k = ''LANGFUSE_TRACING_ENABLED'' then Some (lit ''true'')
        else if k = ''LANGFUSE_PUBLIC_KEY'' then Some (lit ''pk'') else if k = ''LANGFUSE_SECRET_KEY'' then Some (lit ''sk'') else None),
     ce_parse_f64 = (\<lambda>t. None),
     ce_url_parse = (\<lambda>t. Some \<lparr>url_scheme = ''https'', url_host_str = Some t, url_username = [], url_password = None, url_query = None,
       url_fragment = None\<rparr>),
     ce_version = lit ''1''\<rparr>"

lemma tracing_enabled_safe_witness:
  "oc_enabled (cl_config (load_with demo_config_env)) \<and> cl_issues (load_with demo_config_env) = []"
proof -
  have "oc_enabled (cl_config (load_with demo_config_env))" by code_simp
  with tracing_enabled_safe [OF refl refl, of demo_config_env] show ?thesis by blast
qed

lemma rate_limit_bounded_witness:
  "fst (should_emit True 9 ''k'' (emit_all [(True, 0, ''k'')])) = False"
proof -
  have "map_of (emit_all [(True, 0, ''k'')]) ''k'' = Some 0" "9 - 0 < RATE_LIMIT" by code_simp+
  then have "should_emit True 9 ''k'' (emit_all [(True, 0, ''k'')]) = (False, emit_all [(True, 0, ''k'')])"
    by (rule rate_limit_bounded [THEN conjunct2, THEN conjunct2, rule_format])
  then show ?thesis by simp
qed

section \<open>The web service\<close>

definition demo_web_config :: "unit WebConfig" where
  "demo_web_config = \<lparr>wc_bind_address = (), wc_turn_timeout_ms = 1000, wc_max_input_bytes = 64, wc_event_buffer_capacity = 4,
     wc_story_pack_path = [], wc_character_card_path = [],
     wc_engine = \<lparr>ec_llm_config = demo_llm_config, ec_prompt_config = PromptConfig_default,
       ec_persistence_config = demo_config, ec_pipeline_config = PipelineConfig_default\<rparr>\<rparr>"

definition demo_trace_context :: WebTraceContext where
  "demo_trace_context = \<lparr>wtc_session_id = lit ''session'',
     wtc_content = \<lparr>occ_policy = MetadataOnly, occ_max_field_bytes = 16384, occ_max_observation_bytes = 32768,
       occ_detector_overlap_bytes = DETECTOR_OVERLAP_BYTES\<rparr>,
     wtc_environment = lit ''development'', wtc_release = lit ''1''\<rparr>"

definition demo_app :: AppState where
  "demo_app = \<lparr>app_engine = demo_engine, app_story_id = lit ''story-u1'', app_story_title = lit ''T'', app_opening = lit ''At the gate'',
     app_turn_timeout_ms = 1000, app_max_input_bytes = 64, app_event_buffer_capacity = 4, app_turn_gate = 1,
     app_trace_context = demo_trace_context, app_turns = Map.empty\<rparr>"

lemma demo_web_spec: "web_story_creation_spec demo_pack demo_card = Ok demo_creation"
proof -
  have "id_try_new ''role_id'' (lit ''xu_xian'') = Ok (lit ''xu_xian'')" "id_try_new ''player_id'' (lit ''web-player'') = Ok (lit ''web-player'')"
    by code_simp+
  then show ?thesis by (simp add: web_story_creation_spec_def demo_creation_def)
qed

lemma demo_engine_new:
  "AiseEngine_new (rmap (\<lambda>_. ()) (Prompt_new demo_fs demo_toml demo_mj PromptConfig_default)) demo_config PipelineConfig_default =
     Ok \<lparr>eng_pipeline = PipelineConfig_default, eng_store = Store_new demo_config\<rparr>"
  by (subst not_isl_projr [OF demo_prompt_new]) (simp add: AiseEngine_new_def demo_pipeline_valid)

lemma demo_app_state:
  "build_state demo_denv demo_json (Prompt_new demo_fs demo_toml demo_mj) 5 (lit ''u1'') (lit ''session'')
     demo_web_config (ObservabilityConfig_default (lit ''1'')) (Some demo_pack) (Some demo_card) = Some (Ok demo_app)"
proof -
  obtain info where info: "fst demo_created = Some (Ok info)" "sii_story_id info = lit ''story-u1''"
    using demo_creation_ok by (auto split: option.splits sum.splits)
  then have created: "AiseFactory_create_story demo_denv demo_json 5 (lit ''u1'') demo_creation (Store_new demo_config) = (Some (Ok info), demo_st)"
    by (simp add: demo_created_def demo_st_def prod_eq_iff)
  have pack: "spp_title (sp_profile demo_pack) = lit ''T''" "sp_opening demo_pack = lit ''At the gate''" by (simp_all add: demo_pack_def)
  show ?thesis
    by (simp add: build_state_def demo_web_config_def demo_engine_new demo_web_spec created info(2) pack demo_app_def demo_engine_def
        demo_trace_context_def ObservabilityConfig_default_def)
qed

definition demo_display :: "EngineError \<Rightarrow> str" where
  "demo_display e = lit ''failed''"

definition demo_io :: trace_io where
  "demo_io = \<lparr>tio_context = 0, tio_recording = True, tio_sha256 = (\<lambda>b. []), tio_to_string = (\<lambda>j. None),
     tio_encode = (\<lambda>t. Some [as_bytes t])\<rparr>"

text \<open>A request, and the turn it enters.\<close>

definition demo_busy_app :: AppState where
  "demo_busy_app = web_run demo_display demo_app [PostTurn 0 (lit ''u'') (lit ''I knock at the gate'')]"

lemma demo_input_ok:
  "validate_player_input (lit ''I knock at the gate'') 64 = Ok ()" "validate_player_input (lit ''I knock again'') 64 = Ok ()"
  "id_try_new ''idempotency_key'' (lit ''web-turn-'' @ lit ''u'') = Ok (lit ''web-turn-u'')"
  "id_try_new ''idempotency_key'' (lit ''web-turn-'' @ lit ''v'') = Ok (lit ''web-turn-v'')"
  by code_simp+

lemma demo_busy: "demo_busy_app = put_turn 0 (spawned_turn demo_request) (demo_app\<lparr>app_turn_gate := 0\<rparr>)"
  using demo_input_ok(1,3)
  by (simp add: demo_busy_app_def web_run_def post_turn_def demo_app_def spawned_turn_def demo_request_def)

lemma demo_busy_running: "0 \<in> running demo_busy_app"
  by (simp add: demo_busy)

theorem one_turn_at_a_time_witness:
  "\<exists>reason. post_turn 1 (lit ''v'') (lit ''I knock again'') demo_busy_app = (Err (409, reason), demo_busy_app)"
proof -
  have "validate_player_input (lit ''I knock again'') (app_max_input_bytes demo_busy_app) = Ok ()"
    using demo_input_ok(2) by (simp add: demo_busy demo_app_def)
  from one_turn_at_a_time [OF demo_app_state demo_busy_app_def this demo_input_ok(4), of 1] demo_busy_running show ?thesis by blast
qed

theorem gate_reopens_witness:
  "\<exists>m. app_turn_gate (web_run demo_display demo_busy_app
      (RunEngine 0 demo_te demo_io # replicate m (EmitEvent 0) @ [CloseStream 0, SendTerminal 0])) = 1"
  by (rule gate_reopens [OF demo_app_state _ demo_busy_app_def demo_busy_running]) (simp_all add: demo_web_config_def)

text \<open>The whole turn: four stages fit the channel, the client reads one event, and the result follows.\<close>

definition demo_web_steps :: "web_action list" where
  "demo_web_steps = [PostTurn 0 (lit ''u'') (lit ''I knock at the gate''), RunEngine 0 demo_te demo_io,
     EmitEvent 0, EmitEvent 0, EmitEvent 0, EmitEvent 0, EmitEvent 0, EmitEvent 0, EmitEvent 0,
     EmitEvent 0, EmitEvent 0, EmitEvent 0, EmitEvent 0, EmitEvent 0, EmitEvent 0, EmitEvent 0,
     SendTerminal 0, ReceiveEvent 0, SendTerminal 0, ReceiveEvent 0, ReceiveEvent 0, ReceiveEvent 0, ReceiveEvent 0]"

definition demo_app' :: AppState where
  "demo_app' = web_run demo_display demo_app demo_web_steps"

lemma demo_app'_busy: "demo_app' = web_run demo_display demo_busy_app (tl demo_web_steps)"
  by (simp add: demo_app'_def demo_busy_app_def demo_web_steps_def web_run_def del: web_step.simps)

lemma demo_web_turn:
  "\<exists>t. app_turns demo_app' 0 = Some t \<and> wt_phase t = Ended \<and> wt_receiver_open t \<and>
     map ev_event (wt_delivered t) = [''status'', ''status'', ''status'', ''status'', ''committed''] \<and> wt_request t = demo_request"
proof (rule demo_committed_turn)
  fix c
  assume run: "engine_run_turn demo_te demo_request demo_engine =
    ((TurnStarted # map stage_event (demo_stages @ [Commit]) @ [TurnCommitted], Some (Ok c)), demo_engine')"
  obtain session trace where tr: "begin_turn_trace demo_io demo_trace_context (lit ''story-u1'') (tr_player_input demo_request) = (session, trace)"
    by fastforce
  show ?thesis
    unfolding demo_app'_busy demo_busy demo_web_steps_def web_run_def
    by (simp add: run_engine_def demo_app_def spawned_turn_def tr run put_turn_def emit_event_def emit_def stage_event_def
        send_terminal_def receive_event_def end_turn_def terminal_event_def status_event_def committed_event_def)
qed

theorem stream_truthful_witness:
  "\<exists>t te eng eng' es out ss. app_turns demo_app' 0 = Some t \<and>
     engine_run_turn te demo_request eng = ((es, out), eng') \<and> subseq ss (progress_events es) \<and>
     (out = None \<or> (\<exists>r. out = Some r \<and> wt_delivered t @ wt_buffer t = ss @ [terminal_event demo_display r]))"
proof -
  obtain t where t: "app_turns demo_app' 0 = Some t" "wt_phase t = Ended" "wt_receiver_open t" "wt_request t = demo_request"
    using demo_web_turn by blast
  from stream_truthful [OF demo_app_state t(1) [unfolded demo_app'_def]] t show ?thesis by (simp; blast)
qed

theorem reported_commit_durable_witness:
  "\<exists>c. StoryBackend_find_committed (app_story_id demo_app') (lit ''web-turn-u'') (store_story (eng_store (app_engine demo_app'))) = Ok (Some c)"
proof -
  obtain t where t: "app_turns demo_app' 0 = Some t" "wt_request t = demo_request"
    and ev: "map ev_event (wt_delivered t) = [''status'', ''status'', ''status'', ''status'', ''committed'']"
    using demo_web_turn by (elim exE conjE) (rule that)
  have "''committed'' \<in> ev_event ` set (wt_delivered t)" using ev by (simp flip: set_map)
  then obtain e where e: "e \<in> set (wt_delivered t)" "ev_event e = ''committed''" by force
  have "list_all (runs_with demo_json) demo_web_steps" by (simp add: demo_web_steps_def runs_with_def)
  from reported_commit_durable [OF demo_app_state this demo_app'_def t(1) e] t(2) show ?thesis by auto
qed

end
