(* ===== verification/Stage_Traces.thy ===== *)
theory Stage_Traces
  imports Engine Prompt_Catalog Tracing
begin

text \<open>
  The \<open>_trace.rs\<close> files of the stages, of the prompt catalog and of the pipeline runner: how the work of a
  stage becomes an observation, and how its result becomes the outcome of that observation.

  The serializer of a captured value is an argument: what it writes is all the observation sees of the
  value. The text of an error is a parameter too.
\<close>

section \<open>Beginning and finishing\<close>

record obs_io =
  io_context :: context_id
  io_recording :: bool
  io_sha256 :: "byte list \<Rightarrow> str"
  io_to_string :: "json \<Rightarrow> str option"

type_synonym 'v serializer = "'v \<Rightarrow> byte list list option"

definition begin_stage ::
  "obs_io \<Rightarrow> string \<Rightarrow> ObservationKind \<Rightarrow> BoundedContent option \<Rightarrow> Attribute list \<Rightarrow> Observation \<Rightarrow> Observation" where
  "begin_stage io name kind input metadata ob =
     Observation_begin (io_context io) (io_recording io) ob
       \<lparr>os_name = name, os_kind = kind, os_input = input, os_metadata = metadata\<rparr>"

definition ok_outcome :: "obs_io \<Rightarrow> Observation \<Rightarrow> byte list list option \<Rightarrow> ObservationOutcome" where
  "ok_outcome io ob written =
     ObservationOutcome_default\<lparr>oo_status := StOk, oo_output := capture_content (io_sha256 io) ob written\<rparr>"

definition failed_outcome :: "ObservationError \<Rightarrow> ObservationOutcome" where
  "failed_outcome error = ObservationOutcome_default\<lparr>oo_status := StError, oo_error := Some error\<rparr>"

section \<open>Errors\<close>

text \<open>
  The function \<open>observation_error\<close>, which most stages have as a copy of their own: code and kind of the
  failure.
\<close>

fun error_code :: "PipelineError \<Rightarrow> string \<times> string" where
  "error_code (InvalidOutput s code) = (code, ''invalid_output'')"
| "error_code (InconsistentData s code) = (code, ''inconsistent_data'')"
| "error_code (PipelineLlm s source) = (LlmError_kind source, ''llm'')"
| "error_code (PipelinePrompt s e) = (''prompt_error'', ''prompt'')"
| "error_code (PipelinePersistence s e) = (''persistence_error'', ''persistence'')"
| "error_code (PipelineNarrative s e) = (''narrative_error'', ''narrative'')"
| "error_code (EmptyOutput s) = (''empty_output'', ''pipeline'')"
| "error_code (InvalidConfig s code) = (code, ''invalid_config'')"
| "error_code (ValidationFailed code rounds) = (code, ''validation'')"

fun plan_error_code :: "PipelineError \<Rightarrow> string \<times> string" where
  "plan_error_code (InvalidOutput s code) = (code, ''invalid_output'')"
| "plan_error_code (PipelineLlm s source) = (''llm_error'', ''llm'')"
| "plan_error_code (PipelinePrompt s e) = (''prompt_error'', ''prompt'')"
| "plan_error_code (PipelinePersistence s e) = (''persistence_error'', ''persistence'')"
| "plan_error_code (PipelineNarrative s e) = (''pipeline_error'', ''pipeline'')"
| "plan_error_code (EmptyOutput s) = (''pipeline_error'', ''pipeline'')"
| "plan_error_code (InconsistentData s code) = (''pipeline_error'', ''pipeline'')"
| "plan_error_code (InvalidConfig s code) = (code, ''invalid_config'')"
| "plan_error_code (ValidationFailed code rounds) = (code, ''validation'')"

fun retrieval_error_code :: "PipelineError \<Rightarrow> string \<times> string" where
  "retrieval_error_code (InconsistentData s code) = (code, ''inconsistent_data'')"
| "retrieval_error_code (PipelinePersistence s e) = (''persistence_error'', ''persistence'')"
| "retrieval_error_code (PipelineLlm s source) = (''pipeline_error'', ''pipeline'')"
| "retrieval_error_code (PipelinePrompt s e) = (''pipeline_error'', ''pipeline'')"
| "retrieval_error_code (PipelineNarrative s e) = (''pipeline_error'', ''pipeline'')"
| "retrieval_error_code (EmptyOutput s) = (''pipeline_error'', ''pipeline'')"
| "retrieval_error_code (InvalidOutput s code) = (''pipeline_error'', ''pipeline'')"
| "retrieval_error_code (InvalidConfig s code) = (code, ''invalid_config'')"
| "retrieval_error_code (ValidationFailed code rounds) = (code, ''validation'')"

definition fixed_error :: "string \<Rightarrow> string \<Rightarrow> string \<Rightarrow> str \<Rightarrow> ObservationError" where
  "fixed_error code failure_kind stage message =
     \<lparr>oe_code = code, oe_failure_kind = failure_kind, oe_stage = Some stage, oe_message = message\<rparr>"

definition plan_observation_error :: "(PipelineError \<Rightarrow> str) \<Rightarrow> PipelineError \<Rightarrow> ObservationError" where
  "plan_observation_error display error =
     (case plan_error_code error of (code, failure_kind) \<Rightarrow> fixed_error code failure_kind ''plan'' (display error))"

definition retrieval_observation_error :: "(PipelineError \<Rightarrow> str) \<Rightarrow> PipelineError \<Rightarrow> ObservationError" where
  "retrieval_observation_error display error =
     (case retrieval_error_code error of (code, failure_kind) \<Rightarrow> fixed_error code failure_kind ''retrieval'' (display error))"

definition think_observation_error :: "(PipelineError \<Rightarrow> str) \<Rightarrow> PipelineError \<Rightarrow> ObservationError" where
  "think_observation_error display error =
     (case error_code error of (code, failure_kind) \<Rightarrow> fixed_error code failure_kind ''think'' (display error))"

definition generate_observation_error :: "(PipelineError \<Rightarrow> str) \<Rightarrow> PipelineError \<Rightarrow> ObservationError" where
  "generate_observation_error display error =
     (case error_code error of (code, failure_kind) \<Rightarrow> fixed_error code failure_kind ''generate'' (display error))"

definition validate_observation_error :: "(PipelineError \<Rightarrow> str) \<Rightarrow> PipelineError \<Rightarrow> ObservationError" where
  "validate_observation_error display error =
     (case error_code error of (code, failure_kind) \<Rightarrow> fixed_error code failure_kind ''validate'' (display error))"

definition repair_observation_error :: "(PipelineError \<Rightarrow> str) \<Rightarrow> PipelineError \<Rightarrow> ObservationError" where
  "repair_observation_error display error =
     (case error_code error of (code, failure_kind) \<Rightarrow> fixed_error code failure_kind ''repair'' (display error))"

definition extract_observation_error :: "(PipelineError \<Rightarrow> str) \<Rightarrow> PipelineError \<Rightarrow> ObservationError" where
  "extract_observation_error display error =
     (case error_code error of (code, failure_kind) \<Rightarrow> fixed_error code failure_kind ''extract'' (display error))"

definition loop_observation_error :: "(PipelineError \<Rightarrow> str) \<Rightarrow> PipelineError \<Rightarrow> ObservationError" where
  "loop_observation_error display error =
     (case error_code error of (code, failure_kind) \<Rightarrow> fixed_error code failure_kind ''validate'' (display error))"

definition think_error_status :: "PipelineError \<Rightarrow> ObservationStatus" where
  "think_error_status error =
     (case error of
        PipelineLlm s Cancelled \<Rightarrow> StCancelled
      | PipelineLlm s Timeout \<Rightarrow> StDeadlineExceeded
      | _ \<Rightarrow> StError)"

definition think_error_outcome :: "(PipelineError \<Rightarrow> str) \<Rightarrow> PipelineError \<Rightarrow> ObservationOutcome" where
  "think_error_outcome display error =
     ObservationOutcome_default\<lparr>oo_status := think_error_status error,
       oo_error := Some (think_observation_error display error)\<rparr>"

section \<open>The runner (\<open>common/pipeline_trace.rs\<close>)\<close>

text \<open>Every stage of a turn runs in an observation of the trace, begun with the input and finished with the output.\<close>

definition begin_stage_observation :: "obs_io \<Rightarrow> 'i serializer \<Rightarrow> Trace \<Rightarrow> PipelineStage \<Rightarrow> 'i \<Rightarrow> Observation" where
  "begin_stage_observation io ser trace stage input =
     begin_observation (io_context io) (io_recording io) trace
       \<lparr>os_name = PipelineStage_as_str stage, os_kind = Chain,
        os_input = Option.bind (tr_root trace) (\<lambda>r. capture_content (io_sha256 io) r (ser input)), os_metadata = []\<rparr>"

definition finish_stage_observation ::
  "obs_io \<Rightarrow> 'v serializer \<Rightarrow> (PipelineError \<Rightarrow> str) \<Rightarrow> Observation \<Rightarrow> PipelineStage \<Rightarrow> PipelineError + 'v \<Rightarrow> Observation" where
  "finish_stage_observation io ser display ob stage result =
     Observation_finish (io_to_string io) ob
       (case result of
          Inr v \<Rightarrow> ok_outcome io ob (ser v)
        | Inl error \<Rightarrow> failed_outcome (fixed_error ''pipeline_stage_failed'' ''pipeline'' (PipelineStage_as_str stage) (display error)))"

section \<open>Baseline (\<open>baseline_trace.rs\<close>)\<close>

definition begin_narrative_projection :: "obs_io \<Rightarrow> NarrativeState serializer \<Rightarrow> Observation \<Rightarrow> StoryContext \<Rightarrow> Observation" where
  "begin_narrative_projection io ser ob story_ctx =
     begin_stage io ''narrative_projection'' Span (capture_content (io_sha256 io) ob (ser (ctx_narrative story_ctx))) [] ob"

definition finish_narrative_projection ::
  "obs_io \<Rightarrow> NarrativeProjection serializer \<Rightarrow> (NarrativeError \<Rightarrow> str) \<Rightarrow> Observation \<Rightarrow> NarrativeError + NarrativeProjection \<Rightarrow> Observation" where
  "finish_narrative_projection io ser display ob result =
     Observation_finish (io_to_string io) ob
       (case result of Inr v \<Rightarrow> ok_outcome io ob (ser v) | Inl error \<Rightarrow> failed_outcome (fixed_error ''narrative_projection_failed'' ''narrative'' ''baseline'' (display error)))"

definition begin_knowledge_activation :: "obs_io \<Rightarrow> PlayerContribution serializer \<Rightarrow> Observation \<Rightarrow> PlayerContribution \<Rightarrow> Observation" where
  "begin_knowledge_activation io ser ob contribution =
     begin_stage io ''knowledge_activation'' Span (capture_content (io_sha256 io) ob (ser contribution)) [] ob"

definition finish_knowledge_activation ::
  "obs_io \<Rightarrow> KnowledgeKey ActivationOutcome serializer \<Rightarrow> Observation \<Rightarrow> KnowledgeKey ActivationOutcome \<Rightarrow> Observation" where
  "finish_knowledge_activation io ser ob activation =
     Observation_finish (io_to_string io) ob (ok_outcome io ob (ser activation))"

definition begin_player_contribution :: "obs_io \<Rightarrow> str serializer \<Rightarrow> Observation \<Rightarrow> str \<Rightarrow> Observation" where
  "begin_player_contribution io ser ob player_input =
     begin_stage io ''player_contribution'' Span (capture_content (io_sha256 io) ob (ser player_input)) [] ob"

definition finish_player_contribution ::
  "obs_io \<Rightarrow> PlayerContribution serializer \<Rightarrow> (PipelineError \<Rightarrow> str) \<Rightarrow> Observation \<Rightarrow> PipelineError + PlayerContribution \<Rightarrow> Observation" where
  "finish_player_contribution io ser display ob result =
     Observation_finish (io_to_string io) ob
       (case result of Inr v \<Rightarrow> ok_outcome io ob (ser v) | Inl error \<Rightarrow> failed_outcome (fixed_error ''llm_error'' ''llm'' ''baseline'' (display error)))"

section \<open>Plan and retrieval (\<open>plan_trace.rs\<close>, \<open>retrieval_trace.rs\<close>)\<close>

definition begin_plan :: "obs_io \<Rightarrow> str serializer \<Rightarrow> Observation \<Rightarrow> str \<Rightarrow> Observation" where
  "begin_plan io ser ob player_input =
     begin_stage io ''plan'' Span (capture_content (io_sha256 io) ob (ser player_input)) [] ob"

definition finish_plan ::
  "obs_io \<Rightarrow> PlanOutput serializer \<Rightarrow> (PipelineError \<Rightarrow> str) \<Rightarrow> Observation \<Rightarrow> PipelineError + PlanOutput \<Rightarrow> Observation" where
  "finish_plan io ser display ob result =
     Observation_finish (io_to_string io) ob
       (case result of Inr v \<Rightarrow> ok_outcome io ob (ser v) | Inl error \<Rightarrow> failed_outcome (plan_observation_error display error))"

definition begin_retrieval :: "obs_io \<Rightarrow> 'i serializer \<Rightarrow> Observation \<Rightarrow> 'i \<Rightarrow> Observation" where
  "begin_retrieval io ser ob input =
     begin_stage io ''retrieve_knowledge'' Retriever (capture_content (io_sha256 io) ob (ser input)) [] ob"

definition finish_retrieval ::
  "obs_io \<Rightarrow> RetrievalOutput serializer \<Rightarrow> (PipelineError \<Rightarrow> str) \<Rightarrow> Observation \<Rightarrow> PipelineError + RetrievalOutput \<Rightarrow> Observation" where
  "finish_retrieval io ser display ob result =
     Observation_finish (io_to_string io) ob
       (case result of Inr v \<Rightarrow> ok_outcome io ob (ser v) | Inl error \<Rightarrow> failed_outcome (retrieval_observation_error display error))"

section \<open>Think (\<open>think_trace.rs\<close>)\<close>

definition begin_think :: "obs_io \<Rightarrow> Observation \<Rightarrow> Observation" where
  "begin_think io ob = begin_stage io ''think'' Span None [] ob"

definition finish_think ::
  "obs_io \<Rightarrow> 'v serializer \<Rightarrow> (PipelineError \<Rightarrow> str) \<Rightarrow> Observation \<Rightarrow> PipelineError + 'v \<Rightarrow> Observation" where
  "finish_think io ser display ob result =
     Observation_finish (io_to_string io) ob
       (case result of Inr v \<Rightarrow> ok_outcome io ob (ser v) | Inl error \<Rightarrow> think_error_outcome display error)"

definition begin_role :: "obs_io \<Rightarrow> RoleId serializer \<Rightarrow> Observation \<Rightarrow> RoleId \<Rightarrow> Observation" where
  "begin_role io ser ob rid =
     begin_stage io ''think_role'' Span (capture_content (io_sha256 io) ob (ser rid)) [] ob"

definition finish_role ::
  "obs_io \<Rightarrow> CharacterDecision serializer \<Rightarrow> (PipelineError \<Rightarrow> str) \<Rightarrow> Observation \<Rightarrow> PipelineError + CharacterDecision \<Rightarrow> Observation" where
  "finish_role io ser display ob result =
     Observation_finish (io_to_string io) ob
       (case result of Inr v \<Rightarrow> ok_outcome io ob (ser v) | Inl error \<Rightarrow> think_error_outcome display error)"

section \<open>Generate, validate and repair (\<open>generate_trace.rs\<close>, \<open>validate_trace.rs\<close>, \<open>repair_trace.rs\<close>, \<open>runtime_trace.rs\<close>)\<close>

definition begin_story_generation :: "obs_io \<Rightarrow> (str \<times> str) serializer \<Rightarrow> Observation \<Rightarrow> str \<Rightarrow> str \<Rightarrow> Observation" where
  "begin_story_generation io ser ob story_goal contribution =
     begin_stage io ''story_generation'' Span (capture_content (io_sha256 io) ob (ser (story_goal, contribution))) [] ob"

definition finish_story_generation ::
  "obs_io \<Rightarrow> str serializer \<Rightarrow> (PipelineError \<Rightarrow> str) \<Rightarrow> Observation \<Rightarrow> PipelineError + str \<Rightarrow> Observation" where
  "finish_story_generation io ser display ob result =
     Observation_finish (io_to_string io) ob
       (case result of Inr v \<Rightarrow> ok_outcome io ob (ser v) | Inl error \<Rightarrow> failed_outcome (generate_observation_error display error))"

definition begin_evaluator :: "obs_io \<Rightarrow> (u32 \<times> str) serializer \<Rightarrow> Observation \<Rightarrow> u32 \<Rightarrow> str \<Rightarrow> Observation" where
  "begin_evaluator io ser ob proposal_version proposal =
     begin_stage io ''validate_evaluator'' Evaluator (capture_content (io_sha256 io) ob (ser (proposal_version, proposal))) [] ob"

definition finish_evaluator ::
  "obs_io \<Rightarrow> ValidationReport serializer \<Rightarrow> (PipelineError \<Rightarrow> str) \<Rightarrow> Observation \<Rightarrow> PipelineError + ValidationReport \<Rightarrow> Observation" where
  "finish_evaluator io ser display ob result =
     Observation_finish (io_to_string io) ob
       (case result of Inr v \<Rightarrow> ok_outcome io ob (ser v) | Inl error \<Rightarrow> failed_outcome (validate_observation_error display error))"

definition begin_repair :: "obs_io \<Rightarrow> (u32 \<times> str \<times> ValidationIssue list) serializer \<Rightarrow> Observation \<Rightarrow> u32 \<Rightarrow> str \<Rightarrow> ValidationIssue list \<Rightarrow> Observation" where
  "begin_repair io ser ob proposal_version proposal issues =
     begin_stage io ''repair_generation'' Span (capture_content (io_sha256 io) ob (ser (proposal_version, proposal, issues))) [] ob"

definition finish_repair ::
  "obs_io \<Rightarrow> str serializer \<Rightarrow> (PipelineError \<Rightarrow> str) \<Rightarrow> Observation \<Rightarrow> PipelineError + str \<Rightarrow> Observation" where
  "finish_repair io ser display ob result =
     Observation_finish (io_to_string io) ob
       (case result of Inr v \<Rightarrow> ok_outcome io ob (ser v) | Inl error \<Rightarrow> failed_outcome (repair_observation_error display error))"

definition begin_validation_loop :: "obs_io \<Rightarrow> str serializer \<Rightarrow> Trace \<Rightarrow> str \<Rightarrow> Observation" where
  "begin_validation_loop io ser trace initial_proposal =
     begin_observation (io_context io) (io_recording io) trace
       \<lparr>os_name = ''validation_loop'', os_kind = Span,
        os_input = cr_content (ContentCapture_encode (io_sha256 io) (tr_content trace) (ser initial_proposal)
          (occ_max_observation_bytes (tr_content trace))),
        os_metadata = []\<rparr>"

definition finish_validation_loop ::
  "obs_io \<Rightarrow> (str \<times> ValidationReport) serializer \<Rightarrow> (PipelineError \<Rightarrow> str) \<Rightarrow> Observation \<Rightarrow> PipelineError + ValidationLoopResult \<Rightarrow> Observation" where
  "finish_validation_loop io ser display ob result =
     Observation_finish (io_to_string io) ob
       (case result of Inr v \<Rightarrow> ok_outcome io ob (ser (vlr_proposal v, vlr_report v)) | Inl error \<Rightarrow> failed_outcome (loop_observation_error display error))"

section \<open>Extract (\<open>extract_trace.rs\<close>)\<close>

definition begin_evaluate_narrative :: "obs_io \<Rightarrow> (str \<times> SemanticQuery list) serializer \<Rightarrow> Observation \<Rightarrow> str \<Rightarrow> SemanticQuery list \<Rightarrow> Observation" where
  "begin_evaluate_narrative io ser ob proposal queries =
     begin_stage io ''extract_evaluate_narrative'' Span (capture_content (io_sha256 io) ob (ser (proposal, queries))) [] ob"

definition finish_evaluate_narrative ::
  "obs_io \<Rightarrow> (SemanticQuery list \<times> (NarrativeConditionId, Truth) bmap) serializer \<Rightarrow> (PipelineError \<Rightarrow> str) \<Rightarrow> Observation \<Rightarrow> SemanticQuery list \<Rightarrow> PipelineError + (NarrativeConditionId, Truth) bmap \<Rightarrow> Observation" where
  "finish_evaluate_narrative io ser display ob queries result =
     Observation_finish (io_to_string io) ob
       (case result of Inr v \<Rightarrow> ok_outcome io ob (ser (queries, v)) | Inl error \<Rightarrow> failed_outcome (extract_observation_error display error))"

definition begin_extract_world_knowledge :: "obs_io \<Rightarrow> str serializer \<Rightarrow> Observation \<Rightarrow> str \<Rightarrow> Observation" where
  "begin_extract_world_knowledge io ser ob proposal =
     begin_stage io ''extract_world_knowledge'' Span (capture_content (io_sha256 io) ob (ser proposal)) [] ob"

definition finish_extract_world_knowledge ::
  "obs_io \<Rightarrow> WorldKnowledgeExtraction serializer \<Rightarrow> (PipelineError \<Rightarrow> str) \<Rightarrow> Observation \<Rightarrow> PipelineError + WorldKnowledgeExtraction \<Rightarrow> Observation" where
  "finish_extract_world_knowledge io ser display ob result =
     Observation_finish (io_to_string io) ob
       (case result of Inr v \<Rightarrow> ok_outcome io ob (ser v) | Inl error \<Rightarrow> failed_outcome (extract_observation_error display error))"

definition begin_extract_role_memory :: "obs_io \<Rightarrow> (RoleId \<times> str) serializer \<Rightarrow> Observation \<Rightarrow> RoleId \<Rightarrow> str \<Rightarrow> Observation" where
  "begin_extract_role_memory io ser ob rid proposal =
     begin_stage io ''extract_role_memory'' Span (capture_content (io_sha256 io) ob (ser (rid, proposal))) [Attribute_string ''role_id'' rid] ob"

definition finish_extract_role_memory ::
  "obs_io \<Rightarrow> RoleMemoryChangeOp list serializer \<Rightarrow> (PipelineError \<Rightarrow> str) \<Rightarrow> Observation \<Rightarrow> PipelineError + RoleMemoryChangeOp list \<Rightarrow> Observation" where
  "finish_extract_role_memory io ser display ob result =
     Observation_finish (io_to_string io) ob
       (case result of Inr v \<Rightarrow> ok_outcome io ob (ser v) | Inl error \<Rightarrow> failed_outcome (extract_observation_error display error))"

section \<open>Summary and commit (\<open>summary_trace.rs\<close>, \<open>commit_trace.rs\<close>)\<close>

definition begin_summary :: "obs_io \<Rightarrow> (TurnNumber \<times> nat \<times> TurnNumber) serializer \<Rightarrow> Observation \<Rightarrow> TurnNumber \<Rightarrow> nat \<Rightarrow> TurnNumber \<Rightarrow> Observation" where
  "begin_summary io ser ob pending_turn_number covered_turns through =
     begin_stage io ''story_summary'' Span (capture_content (io_sha256 io) ob (ser (pending_turn_number, covered_turns, through))) [] ob"

definition finish_summary ::
  "obs_io \<Rightarrow> str serializer \<Rightarrow> (PipelineError \<Rightarrow> str) \<Rightarrow> Observation \<Rightarrow> PipelineError + str \<Rightarrow> Observation" where
  "finish_summary io ser display ob result =
     Observation_finish (io_to_string io) ob
       (case result of Inr v \<Rightarrow> ok_outcome io ob (ser v) | Inl error \<Rightarrow> failed_outcome (fixed_error ''llm_error'' ''llm'' ''summary'' (display error)))"

definition begin_commit :: "obs_io \<Rightarrow> StoryCommit serializer \<Rightarrow> Observation \<Rightarrow> StoryCommit \<Rightarrow> Observation" where
  "begin_commit io ser ob commit =
     begin_stage io ''story_commit'' Span (capture_content (io_sha256 io) ob (ser commit)) [] ob"

definition finish_commit ::
  "obs_io \<Rightarrow> TurnStatus serializer \<Rightarrow> (PipelineError \<Rightarrow> str) \<Rightarrow> Observation \<Rightarrow> PipelineError + StoryCommit \<Rightarrow> Observation" where
  "finish_commit io ser display ob result =
     Observation_finish (io_to_string io) ob
       (case result of Inr v \<Rightarrow> ok_outcome io ob (ser (turn_status (sc_turn v))) | Inl error \<Rightarrow> failed_outcome (fixed_error ''commit_error'' ''persistence'' ''commit'' (display error)))"

section \<open>Prompts (\<open>prompt/prompt_trace.rs\<close>, \<open>prompt.rs\<close>)\<close>

definition begin_prompt_render :: "obs_io \<Rightarrow> (str \<times> prompt_vars) serializer \<Rightarrow> Observation \<Rightarrow> str \<Rightarrow> prompt_vars \<Rightarrow> Observation" where
  "begin_prompt_render io ser ob prompt_id vars =
     begin_stage io ''prompt_render'' Span (capture_content (io_sha256 io) ob (ser (prompt_id, vars))) [] ob"

definition finish_prompt_render ::
  "obs_io \<Rightarrow> RenderedPrompt serializer \<Rightarrow> (PromptError \<Rightarrow> str) \<Rightarrow> Observation \<Rightarrow> PromptError + RenderedPrompt \<Rightarrow> Observation" where
  "finish_prompt_render io ser display ob result =
     Observation_finish (io_to_string io) ob
       (case result of Inr v \<Rightarrow> ok_outcome io ob (ser v) | Inl error \<Rightarrow> failed_outcome (fixed_error ''prompt_render_failed'' ''prompt'' ''prompt_render'' (display error)))"

text \<open>\<open>Prompt::render\<close>: the result of the rendering, and the observation it leaves.\<close>

definition Prompt_render ::
  "obs_io \<Rightarrow> (str \<times> prompt_vars) serializer \<Rightarrow> RenderedPrompt serializer \<Rightarrow> (PromptError \<Rightarrow> str) \<Rightarrow> minijinja \<Rightarrow> Prompt \<Rightarrow> str \<Rightarrow>
   prompt_vars \<Rightarrow> Observation \<Rightarrow> (PromptError + RenderedPrompt) \<times> Observation" where
  "Prompt_render io ser_spec ser_rendered display mj P prompt_id vars ob =
     (let render_observation = begin_prompt_render io ser_spec ob prompt_id vars;
          result = inner_render mj P prompt_id vars
      in (result, finish_prompt_render io ser_rendered display render_observation result))"

section \<open>What the observations report\<close>

text \<open>
  However a stage ends, the observation that ran with it is finished once, with the status of its result:
  a later finish or the drop of the value changes nothing.
\<close>

definition reported :: "(json \<Rightarrow> str option) \<Rightarrow> bool \<Rightarrow> Observation \<Rightarrow> bool" where
  "reported to_string ok fin \<longleftrightarrow>
     ob_finished fin \<and> sp_status_code (ob_span fin) = Some (if ok then ''OK'' else ''ERROR'')
     \<and> (\<forall>outcome. finish_inner to_string fin outcome = fin) \<and> Observation_drop to_string fin = fin"

definition observing :: "Observation \<Rightarrow> bool" where
  "observing ob \<longleftrightarrow> \<not> ob_finished ob \<and> is_recording ob \<and> sp_status_code (ob_span ob) = None"

lemma finish_reported:
  assumes "observing ob" and "oo_error outcome \<noteq> None \<longleftrightarrow> \<not> ok" and "ok \<Longrightarrow> oo_status outcome = StOk"
  shows "reported to_string ok (Observation_finish to_string ob outcome)"
  using assms(2,3) observation_single_outcome [OF assms(1) [unfolded observing_def, THEN conjunct1]
      assms(1) [unfolded observing_def, THEN conjunct2, THEN conjunct1]
      assms(1) [unfolded observing_def, THEN conjunct2, THEN conjunct2], of to_string outcome]
  by (cases ok) (auto simp: reported_def Let_def)

lemma ok_outcome_simps [simp]:
  "oo_error (ok_outcome io ob w) = None" "oo_status (ok_outcome io ob w) = StOk"
  by (simp_all add: ok_outcome_def ObservationOutcome_default_def)

lemma failed_outcome_simps [simp]:
  "oo_error (failed_outcome e) = Some e"
  "oo_error (think_error_outcome display error) = Some (think_observation_error display error)"
  by (simp_all add: failed_outcome_def think_error_outcome_def ObservationOutcome_default_def)

lemmas finish_defs = finish_stage_observation_def finish_narrative_projection_def finish_knowledge_activation_def
  finish_player_contribution_def finish_plan_def finish_retrieval_def
  finish_think_def finish_role_def finish_story_generation_def
  finish_evaluator_def finish_repair_def finish_validation_loop_def
  finish_evaluate_narrative_def finish_extract_world_knowledge_def finish_extract_role_memory_def
  finish_summary_def finish_commit_def finish_prompt_render_def

lemma stage_reported:
  assumes "observing ob"
  shows "reported (io_to_string io) (\<not> isl r_stage_observation) (finish_stage_observation io s_stage_observation d_stage_observation ob stage r_stage_observation)"
    and "reported (io_to_string io) (\<not> isl r_narrative_projection) (finish_narrative_projection io s_narrative_projection d_narrative_projection ob r_narrative_projection)"
    and "reported (io_to_string io) True (finish_knowledge_activation io s_ka ob activation)"
    and "reported (io_to_string io) (\<not> isl r_player_contribution) (finish_player_contribution io s_player_contribution d_player_contribution ob r_player_contribution)"
    and "reported (io_to_string io) (\<not> isl r_plan) (finish_plan io s_plan d_plan ob r_plan)"
    and "reported (io_to_string io) (\<not> isl r_retrieval) (finish_retrieval io s_retrieval d_retrieval ob r_retrieval)"
    and "reported (io_to_string io) (\<not> isl r_think) (finish_think io s_think d_think ob r_think)"
    and "reported (io_to_string io) (\<not> isl r_role) (finish_role io s_role d_role ob r_role)"
    and "reported (io_to_string io) (\<not> isl r_story_generation) (finish_story_generation io s_story_generation d_story_generation ob r_story_generation)"
    and "reported (io_to_string io) (\<not> isl r_evaluator) (finish_evaluator io s_evaluator d_evaluator ob r_evaluator)"
    and "reported (io_to_string io) (\<not> isl r_repair) (finish_repair io s_repair d_repair ob r_repair)"
    and "reported (io_to_string io) (\<not> isl r_validation_loop) (finish_validation_loop io s_validation_loop d_validation_loop ob r_validation_loop)"
    and "reported (io_to_string io) (\<not> isl r_evaluate_narrative) (finish_evaluate_narrative io s_evaluate_narrative d_evaluate_narrative ob queries r_evaluate_narrative)"
    and "reported (io_to_string io) (\<not> isl r_extract_world_knowledge) (finish_extract_world_knowledge io s_extract_world_knowledge d_extract_world_knowledge ob r_extract_world_knowledge)"
    and "reported (io_to_string io) (\<not> isl r_extract_role_memory) (finish_extract_role_memory io s_extract_role_memory d_extract_role_memory ob r_extract_role_memory)"
    and "reported (io_to_string io) (\<not> isl r_summary) (finish_summary io s_summary d_summary ob r_summary)"
    and "reported (io_to_string io) (\<not> isl r_commit) (finish_commit io s_commit d_commit ob r_commit)"
    and "reported (io_to_string io) (\<not> isl r_prompt_render) (finish_prompt_render io s_prompt_render d_prompt_render ob r_prompt_render)"
  unfolding finish_defs
  by (auto intro!: finish_reported assms split: sum.splits)

end
