(* ===== verification/Spec2Isabelle.thy ===== *)
theory Spec2Isabelle
  imports Examples_Previous Examples_Service Stage_Traces
begin

text \<open>
  A verification development of the interactive story engine \<open>crates/aise-core\<close>, of the service around
  it, \<open>crates/aise-service\<close>, and of the turn machinery of its predecessor \<open>crates/aise\<close> (files are named below
  relative to \<open>src/crates/aise-core/src\<close>, and the others with \<open>aise-service\<close> for \<open>src/crates/aise-service/src\<close> and
  \<open>aise\<close> for \<open>src/crates/aise/src\<close>).

  \<^bold>\<open>The program.\<close> A story is created from a \<^emph>\<open>pack\<close>: an opening, roles with memories, facts, rumors and a
  graph of narrative nodes. Players take turns. A turn is a pipeline of stages around a language model:
  baseline (project the narrative, process the input, activate knowledge), plan, retrieval, think,
  generate, a loop of validate and repair, extract (move the narrative, change the knowledge), summary and
  commit. The store keeps, for every story, its context and the turns committed under their idempotency
  keys, and the packs the stories hold. \<open>AiseEngine\<close> is what the service calls: a web request takes the one
  permit of a gate, a task runs the turn and streams its progress to the client. Prompts come from a
  directory of templates, answers of the model through a gateway that bounds the calls in flight, and every
  step is recorded in traces that are masked before they are exported. The previous engine runs a turn through
  a context with a phase, under a permit of its story and a budget for its model calls.

  \<^bold>\<open>Theories\<close>, in the order of their imports:
    \<^item> \<open>Prelude\<close>: results as sums (\<open>Ok\<close>, \<open>Err\<close>, \<open>rbind\<close> for the question mark operator, \<open>try_fold\<close>,
      \<open>try_map\<close>), strings as lists of code points with their UTF-8 length, trimming, saturating and checked
      arithmetic, and the lemmas on them; \<open>BTree_Map\<close>: \<open>BTreeMap\<close> and \<open>BTreeSet\<close> as key-sorted association
      lists; \<open>Float64\<close>: \<open>f64\<close> as rationals, infinities and NaN, with the rounding of an operation a parameter.
    \<^item> \<open>Core_Types\<close>: \<open>core/\<close> identifiers, bounded text, turns, errors.
    \<^item> \<open>Activation_Rule\<close>, \<open>Activation_Scan\<close>, \<open>Activation_Engine\<close>: \<open>core/activation/\<close>, the selection of knowledge by
      scanned text, recursion, exclusive groups, probabilities and budgets; \<open>Activation_Safety\<close>: a run activates
      only enabled entries with a reason, one per group, within the budgets, and its rejection counters are
      exact.
    \<^item> \<open>Narrative\<close>: \<open>core/narrative/\<close>, conditions in three-valued logic, graph validation, planning of questions,
      resolution; statuses only move forward, the questions of a plan are all a resolution reads.
    \<^item> \<open>Role\<close>, \<open>Story\<close>: \<open>core/role/\<close>, \<open>core/knowledge/\<close>, \<open>core/story/\<close>: entries, change operations, role limits,
      packs, contexts, commits.
    \<^item> \<open>Pack_Store\<close>, \<open>Story_Store\<close>, \<open>Store\<close>: \<open>persistence/\<close>. The traits are the locales \<open>pack_store\<close> and
      \<open>story_store\<close>, interpreted on the memory stores, on the SQLite stubs and on the sum of the backends. A story
      is the replay of its commits; creation is atomic; packs neither dangle nor leak.
    \<^item> \<open>Pipeline_Common\<close>, \<open>Plan_Stage\<close>, \<open>Think_Stage\<close>, \<open>Generate_Stage\<close>, \<open>Validate_Stage\<close>, \<open>Repair_Stage\<close>,
      \<open>Summary_Stage\<close> (with the commit stage), \<open>Extract_Knowledge\<close>, \<open>Extract_Stage\<close>, \<open>Baseline_Stage\<close>: one theory
      per directory of \<open>pipeline/\<close>: what a stage accepts from the model, that its output respects every
      limit, and that the stages after it, and the store, accept that output. The three loops over proposals
      of the extraction are instances of the locale \<open>change_loop\<close>.
    \<^item> \<open>Validation_Loop\<close> and \<open>Validation_Safety\<close>: \<open>pipeline/runtime/runtime_validation.rs\<close>; the loop refines a
      transition system on histories of validated proposals (\<open>repair_chain\<close>).
    \<^item> \<open>Runtime\<close> and \<open>Turn_Safety\<close>: \<open>pipeline/runtime/runtime.rs\<close>; order of the stages, quality of the text, which
      failures a turn can have.
    \<^item> \<open>Engine\<close> and \<open>Engine_Safety\<close>: \<open>engine/\<close>; \<open>engine_reachable\<close> is the step relation of all operations in any
      interleaving. Every story of a reachable engine is ready for a turn, a prepared turn is committed,
      concurrent turns are serialized, and a turn is all or nothing.
    \<^item> \<open>Utf8\<close>: the bytes of a text and \<open>from_utf8\<close>, which accepts exactly the encodings of texts.
    \<^item> \<open>Prompt_Catalog\<close>: \<open>prompt/\<close>; what loads respects the limits and lies under the prompt directory, and what
      was loaded is what is rendered.
    \<^item> \<open>Tracing\<close>: \<open>trace/\<close>; captured content is the longest prefix of whole characters, attributes of a trace
      reach every observation under it, an observation reports one outcome.
    \<^item> \<open>Llm\<close>: \<open>llm/\<close>; the gateway as a transition system of polls, answers, cancellations and time: permits are
      conserved, no call outlives its deadline, no result is invented.
    \<^item> \<open>Masking\<close> and \<open>Masking_Safety\<close>: \<open>aise-service/observability/propagation.rs\<close>; no secret stands free in what
      the masker returns. The passes that must not undo each other are handled by the locale
      \<open>redaction_invariant\<close>, interpreted for the secret tokens and for the sensitive keys.
    \<^item> \<open>Observability\<close>: the rest of \<open>aise-service/observability\<close>: configuration, export, baggage, runtime,
      diagnostics.
    \<^item> \<open>Web\<close> and \<open>Web_Safety\<close>: \<open>aise-service/web\<close>; the service as a transition system of requests, tasks and
      streams: one turn at a time, truthful streams, durable commits, and a gate that opens again. What it
      relies on is the locale \<open>durable_engine\<close>, interpreted on the engine.
    \<^item> \<open>Stage_Traces\<close>: the \<open>_trace.rs\<close> files of the stages and \<open>Prompt::render\<close>; every stage that is observed
      reports exactly its outcome.
    \<^item> \<open>Turn_Contract\<close>, \<open>Turn_Budget\<close>: \<open>aise/turn\<close>; requests, phases, failures, the usage ledger and validation
      results; the budget of a turn is exact and kept under any reservations, settlements and releases.
    \<^item> \<open>Turn_Data\<close>, \<open>Turn_Context\<close>, \<open>Context_Safety\<close>: \<open>aise/domain\<close> and \<open>aise/turn/turn_context.rs\<close>; the guarded
      setters of the turn context as a state machine: a context is ready to commit only with a validated,
      current extraction.
    \<^item> \<open>Story_Coordinator\<close>, \<open>Coordinator_Safety\<close>: \<open>aise/runtime/story_turn_coordinator.rs\<close> as a transition system of
      callers at the granularity of its critical sections: exact counters, one holder per story while entries
      in use do not expire, and runs in which they do.
    \<^item> \<open>Call_Gateway\<close>, \<open>Gateway_Safety\<close>: \<open>aise/llm\<close>; the calls of a turn and their accounting. The contract of a
      call on its budget is the locale \<open>metered_calls\<close>, interpreted on every entry point of the gateway.
    \<^item> \<open>Turn_Runtime\<close>, \<open>Runtime_Safety\<close>: \<open>aise/runtime\<close>, \<open>aise/persistence/turn_committer.rs\<close>, \<open>aise/engine/service.rs\<close>;
      one terminal event per turn, and what the runs that commit skip.
    \<^item> \<open>Examples\<close>, \<open>Examples_Turn\<close>, \<open>Examples_Service\<close> and \<open>Examples_Previous\<close>: a small story, created and played for one turn by
      evaluation, and served over the web, on which every property with hypotheses is applied.

  \<^bold>\<open>How code corresponds to definitions.\<close> A struct is a record, an enum a datatype, a function or method the
  definition of the same name (with its type as a prefix where names repeat). \<open>Result\<close> is a sum; a panic
  (\<open>expect\<close>, an index out of range) is the value \<open>None\<close> of an option around it. \<open>u16\<close>, \<open>u32\<close>, \<open>u64\<close> are words;
  \<open>usize\<close> is a natural number with its saturation written out where the code saturates. Methods that take
  \<open>&mut self\<close>, and the stores behind their locks, pass the state explicitly; every operation of a store is one
  atomic step, as the lock makes it. An \<open>async\<close> stage is a function: a buffered stream is a pass in order, a
  \<open>try_join!\<close> takes which side fails first as an argument. Events are lists.

  \<^bold>\<open>Parameters.\<close> The language model, the template engine, the JSON printers and parsers of \<open>serde\<close>, the Unicode
  tables outside ASCII, SHA-256, the clock, UUIDs, the rounding of \<open>f64\<close> operations, the file system, the
  HTTP client, the scheduler of tasks and the OpenTelemetry SDK are arguments (\<open>pipe_env\<close>, \<open>turn_env\<close>,
  \<open>digest_env\<close>, \<open>unicode\<close>, \<open>ActEnv\<close>, \<open>file_system\<close>, \<open>minijinja\<close>, \<open>http_client\<close>, \<open>trace_io\<close>, \<open>config_env\<close>; a schedule is
  a list of steps); hypotheses about them are stated where a theorem
  needs them (\<open>ieee_rounding\<close>, \<open>json_escapes\<close>).

  \<^bold>\<open>Termination and bounds.\<close> No definition takes fuel. The activation rounds end because every round but the
  last raises the recursion level, which is bounded by the configuration; the allocation of identifiers
  because every number tried is one of finitely many taken; the validation loop by its remaining repair
  rounds; the binary search by its interval. Turn numbers are \<open>u64\<close> and wrap: theorems that need them to
  increase assume fewer than 2^64 - 1 turns.

  \<^bold>\<open>Not modelled.\<close> Log lines, the installation of the subscriber, sockets and the static page, and the
  command line demo \<open>aise-service/main.rs\<close>. Of \<open>crates/aise\<close>, which \<open>crates/aise-service\<close> no longer uses, the bodies of
  the stages, the import of packs, the SQLite store, the prompts, the activation engine and the narrative
  graph: the runtime modelled here takes its pipelines and its store as parameters, and the successors of
  these parts in \<open>crates/aise-core\<close> are modelled. \<open>crates/aise-server\<close>, the HTTP server of the previous engine, is
  not modelled either: \<open>crates/aise-service\<close> has taken its place.
\<close>

end
